(* ===== verification/Prelude.thy ===== *)
theory Prelude
  imports Complex_Main "HOL-Library.AList" "HOL-Library.Multiset" "HOL-Library.Char_ord"
    "HOL-Library.List_Lexorder"
begin

text \<open>
  The vocabulary the component theories share: Python's exceptions and dynamic values, the
  decimal printing of numbers, dictionaries as insertion-ordered association lists, and the
  monad in which every operation with effects is written.

  An effectful operation is a function from the world to a result (an exception or a value), the
  new world and the list of effects it performed, in order. The world is a type variable: nothing
  is assumed about the services behind it (EC2, the operating system, the clock), so a lemma about
  the effects of an operation holds whatever those services answer.
\<close>

named_theorems io_intros \<open>introduction rules of the effect calculus\<close>
named_theorems io_defs \<open>definitions of the monad's operations\<close>

section \<open>Exceptions\<close>

text \<open>
  The exceptions the sources raise or catch. \<open>ClientError\<close> is botocore's, with the error code
  and message its response carries, if any.
\<close>

datatype exn =
    ClientError "string option" "string option"
  | BotoCoreError string
  | SystemExit string
  | IndexErr
  | KeyErr string
  | ValueErr string
  | TypeErr
  | OtherExn string

fun is_client_error :: "exn \<Rightarrow> bool" where
  "is_client_error (ClientError _ _) = True"
| "is_client_error _ = False"

lemma exn_client_cases:
  obtains (client) code msg where "e = ClientError code msg" | (other) "\<not> is_client_error e"
  by (cases e) auto

fun is_system_exit :: "exn \<Rightarrow> bool" where
  "is_system_exit (SystemExit _) = True"
| "is_system_exit _ = False"

section \<open>Decimal numerals\<close>

definition digit_char :: "nat \<Rightarrow> char" where
  "digit_char d = char_of (48 + d)"

definition is_digit :: "char \<Rightarrow> bool" where
  "is_digit c \<longleftrightarrow> 48 \<le> (of_char c :: nat) \<and> (of_char c :: nat) \<le> 57"

definition digit_val :: "char \<Rightarrow> nat" where
  "digit_val c = of_char c - 48"

fun show_nat :: "nat \<Rightarrow> string" where
  "show_nat n = (if n < 10 then [digit_char n] else show_nat (n div 10) @ [digit_char (n mod 10)])"

declare show_nat.simps [simp del]

definition show_int :: "int \<Rightarrow> string" where
  "show_int i = (if i < 0 then CHR ''-'' # show_nat (nat (- i)) else show_nat (nat i))"

definition nat_of_digits :: "string \<Rightarrow> nat" where
  "nat_of_digits s = foldl (\<lambda>n c. 10 * n + digit_val c) 0 s"

lemma digit_val_digit_char [simp]: "d < 10 \<Longrightarrow> digit_val (digit_char d) = d"
  by (simp add: digit_val_def digit_char_def)

lemma is_digit_digit_char [simp]: "d < 10 \<Longrightarrow> is_digit (digit_char d)"
  by (simp add: is_digit_def digit_char_def)

lemma show_nat_digits: "list_all is_digit (show_nat n)"
proof (induction n rule: show_nat.induct)
  case (1 n)
  then show ?case by (simp add: show_nat.simps [of n])
qed

lemma show_nat_nonempty [simp]: "show_nat n \<noteq> []"
  by (simp add: show_nat.simps [of n])

lemma nat_of_digits_snoc: "nat_of_digits (s @ [c]) = 10 * nat_of_digits s + digit_val c"
  by (simp add: nat_of_digits_def)

lemma nat_of_digits_show_nat [simp]: "nat_of_digits (show_nat n) = n"
proof (induction n rule: show_nat.induct)
  case (1 n)
  show ?case
  proof (cases "n < 10")
    case True
    then show ?thesis by (simp add: show_nat.simps [of n] nat_of_digits_def)
  next
    case False
    with 1 show ?thesis by (simp add: show_nat.simps [of n] nat_of_digits_snoc)
  qed
qed

lemma show_nat_inject [simp]: "show_nat m = show_nat n \<longleftrightarrow> m = n"
  by (metis nat_of_digits_show_nat)

section \<open>Python values\<close>

text \<open>
  What a cell of a result row, a knob or a TOML key holds. Python's integers are unbounded; a
  float is represented by the rational number its decimal text denotes, so IEEE rounding is not
  modelled.
\<close>

datatype pyval = PNone | PBool bool | PInt int | PFloat rat | PStr string

text \<open>\<open>bool(v)\<close>.\<close>

fun truthy :: "pyval \<Rightarrow> bool" where
  "truthy PNone = False"
| "truthy (PBool b) = b"
| "truthy (PInt i) = (i \<noteq> 0)"
| "truthy (PFloat r) = (r \<noteq> 0)"
| "truthy (PStr s) = (s \<noteq> [])"

text \<open>The number behind a value: Python's booleans are the integers 0 and 1.\<close>

fun as_num :: "pyval \<Rightarrow> rat option" where
  "as_num (PBool b) = Some (if b then 1 else 0)"
| "as_num (PInt i) = Some (of_int i)"
| "as_num (PFloat r) = Some r"
| "as_num _ = None"

text \<open>Python's \<open>==\<close>: numbers compare by value whatever their type.\<close>

fun py_eq :: "pyval \<Rightarrow> pyval \<Rightarrow> bool" where
  "py_eq PNone PNone = True"
| "py_eq (PStr a) (PStr b) = (a = b)"
| "py_eq a b = (case (as_num a, as_num b) of (Some x, Some y) \<Rightarrow> x = y | _ \<Rightarrow> False)"

lemma py_eq_refl [simp]: "py_eq a a"
  by (cases a) simp_all

lemma py_eq_sym: "py_eq a b = py_eq b a"
  by (cases a; cases b) auto

lemma py_eq_PNone [simp]: "py_eq v PNone \<longleftrightarrow> v = PNone"
  by (cases v) auto

text \<open>
  \<open>str(v)\<close>. A float is printed with the digits of its decimal expansion, at most 17 of them
  after the point and at least one.
\<close>

fun frac_digits :: "nat \<Rightarrow> rat \<Rightarrow> string" where
  "frac_digits 0 r = []"
| "frac_digits (Suc n) r =
     (if r = 0 then []
      else digit_char (nat \<lfloor>10 * r\<rfloor>) # frac_digits n (10 * r - of_int \<lfloor>10 * r\<rfloor>))"

definition show_float :: "rat \<Rightarrow> string" where
  "show_float r =
     (let a = \<bar>r\<bar>; i = \<lfloor>a\<rfloor>; ds = frac_digits 17 (a - of_int i)
      in (if r < 0 then ''-'' else '''') @ show_int i @ ''.'' @ (if ds = [] then ''0'' else ds))"

fun py_str :: "pyval \<Rightarrow> string" where
  "py_str PNone = ''None''"
| "py_str (PBool b) = (if b then ''True'' else ''False'')"
| "py_str (PInt i) = show_int i"
| "py_str (PFloat r) = show_float r"
| "py_str (PStr s) = s"

text \<open>\<open>v or d\<close>.\<close>

definition py_or :: "pyval \<Rightarrow> pyval \<Rightarrow> pyval" where
  "py_or v d = (if truthy v then v else d)"

section \<open>Dictionaries\<close>

text \<open>
  A Python dictionary keeps its keys in order of first insertion; assigning to a key it has
  changes the value in place. That is the library's \<open>AList.update\<close>. \<open>dict_merge a b\<close> is
  \<open>a | b\<close> and \<open>{**a, **b}\<close>, \<open>dict_get\<close> is \<open>d.get(k)\<close> with None for a missing key.
\<close>

type_synonym 'v dict = "(string \<times> 'v) list"

definition dict_get :: "pyval dict \<Rightarrow> string \<Rightarrow> pyval" where
  "dict_get d k = (case map_of d k of None \<Rightarrow> PNone | Some v \<Rightarrow> v)"

definition dict_set :: "string \<Rightarrow> 'v \<Rightarrow> 'v dict \<Rightarrow> 'v dict" where
  "dict_set k v d = AList.update k v d"

definition dict_merge :: "'v dict \<Rightarrow> 'v dict \<Rightarrow> 'v dict" where
  "dict_merge a b = foldl (\<lambda>d (k, v). dict_set k v d) a b"

definition dict_del :: "string \<Rightarrow> 'v dict \<Rightarrow> 'v dict" where
  "dict_del k d = filter (\<lambda>(k', _). k' \<noteq> k) d"

text \<open>Equality of dictionaries: the same keys with the same values, in any order.\<close>

definition dict_eq :: "'v dict \<Rightarrow> 'v dict \<Rightarrow> bool" where
  "dict_eq a b \<longleftrightarrow>
     list_all (\<lambda>(k, _). map_of a k = map_of b k) a \<and> list_all (\<lambda>(k, _). map_of a k = map_of b k) b"

lemma map_of_dict_set [simp]: "map_of (dict_set k v d) = (map_of d)(k \<mapsto> v)"
  by (simp add: dict_set_def update_conv')

lemma dict_get_set [simp]: "dict_get (dict_set k v d) k' = (if k' = k then v else dict_get d k')"
  by (simp add: dict_get_def)

lemma map_of_dict_merge: "distinct (map fst b) \<Longrightarrow> map_of (dict_merge a b) = map_of a ++ map_of b"
proof (induction b arbitrary: a)
  case Nil
  then show ?case by (simp add: dict_merge_def)
next
  case (Cons p b)
  obtain k v where p: "p = (k, v)" by (cases p)
  from Cons have "map_of (dict_merge (dict_set k v a) b) = map_of (dict_set k v a) ++ map_of b"
    by simp
  moreover from Cons.prems p have "map_of b k = None"
    by (simp add: map_of_eq_None_iff)
  ultimately show ?case
    by (auto simp: p dict_merge_def fun_eq_iff map_add_def split: option.splits)
qed

lemma map_of_dict_del: "map_of (dict_del k d) = (map_of d)(k := None)"
  by (induction d) (auto simp: dict_del_def fun_eq_iff)

lemma dict_get_del [simp]: "dict_get (dict_del k d) k' = (if k' = k then PNone else dict_get d k')"
  by (simp add: dict_get_def map_of_dict_del)

lemma distinct_dict_set: "distinct (map fst d) \<Longrightarrow> distinct (map fst (dict_set k v d))"
  unfolding dict_set_def by (rule distinct_update)

lemma distinct_dict_merge: "distinct (map fst a) \<Longrightarrow> distinct (map fst (dict_merge a b))"
proof (induction b arbitrary: a)
  case Nil
  then show ?case by (simp add: dict_merge_def)
next
  case (Cons p b)
  obtain k v where p: "p = (k, v)" by (cases p)
  from Cons.IH [OF distinct_dict_set [OF Cons.prems]] show ?case
    by (simp add: p dict_merge_def)
qed

lemma dict_eq_iff: "dict_eq a b \<longleftrightarrow> map_of a = map_of b"
proof
  assume eq: "dict_eq a b"
  show "map_of a = map_of b"
  proof
    fix k
    show "map_of a k = map_of b k"
    proof (cases "k \<in> fst ` set a \<union> fst ` set b")
      case True
      with eq show ?thesis by (fastforce simp: dict_eq_def list_all_iff)
    next
      case False
      then have "map_of a k = None" "map_of b k = None"
        by (auto simp: map_of_eq_None_iff)
      then show ?thesis by simp
    qed
  qed
qed (simp add: dict_eq_def list_all_iff)

section \<open>Strings\<close>

definition join :: "string \<Rightarrow> string list \<Rightarrow> string" where
  "join sep xs = (case xs of [] \<Rightarrow> [] | x # ys \<Rightarrow> x @ concat (map (\<lambda>y. sep @ y) ys))"

text \<open>\<open>s.split(c)\<close> for a one-character separator; the result is never empty.\<close>

fun split_on :: "char \<Rightarrow> string \<Rightarrow> string list" where
  "split_on c [] = [[]]"
| "split_on c (x # xs) =
     (if x = c then [] # split_on c xs
      else (case split_on c xs of [] \<Rightarrow> [[x]] | w # ws \<Rightarrow> (x # w) # ws))"

text \<open>\<open>p in s\<close> on strings: substring.\<close>

fun starts_with :: "string \<Rightarrow> string \<Rightarrow> bool" where
  "starts_with [] s = True"
| "starts_with (p # ps) [] = False"
| "starts_with (p # ps) (c # s) = (p = c \<and> starts_with ps s)"

fun is_infix :: "string \<Rightarrow> string \<Rightarrow> bool" where
  "is_infix p [] = (p = [])"
| "is_infix p (c # s) = (starts_with p (c # s) \<or> is_infix p s)"

lemma starts_with_iff: "starts_with p s \<longleftrightarrow> (\<exists>t. s = p @ t)"
  by (induction p s rule: starts_with.induct) auto

lemma is_infix_iff: "is_infix p s \<longleftrightarrow> (\<exists>a b. s = a @ p @ b)"
proof (induction s)
  case Nil
  then show ?case by auto
next
  case (Cons c s)
  show ?case
  proof
    assume "is_infix p (c # s)"
    then show "\<exists>a b. c # s = a @ p @ b"
    proof (simp add: starts_with_iff Cons.IH, elim disjE exE)
      fix t assume "c # s = p @ t"
      then have "c # s = [] @ p @ t" by simp
      then show ?thesis by blast
    next
      fix a b assume "s = a @ p @ b"
      then have "c # s = (c # a) @ p @ b" by simp
      then show ?thesis by blast
    qed
  next
    assume "\<exists>a b. c # s = a @ p @ b"
    then obtain a b where ab: "c # s = a @ p @ b" by blast
    show "is_infix p (c # s)"
    proof (cases a)
      case Nil
      with ab have "starts_with p (c # s)" by (auto simp: starts_with_iff)
      then show ?thesis by simp
    next
      case (Cons x a')
      with ab have "s = a' @ p @ b" by simp
      then show ?thesis using Cons.IH by auto
    qed
  qed
qed

lemma is_infix_refl [simp]: "is_infix s s"
  unfolding is_infix_iff by (rule exI [of _ "[]"], rule exI [of _ "[]"]) simp

lemma is_infix_append: "is_infix p s \<Longrightarrow> is_infix p (a @ s @ b)"
  unfolding is_infix_iff by (metis append.assoc)

lemma is_infix_prefix: "is_infix p (p @ b)"
  unfolding is_infix_iff by (metis append_Nil)

text \<open>Truth of an optional string: None and the empty string are false.\<close>

definition given :: "string option \<Rightarrow> bool" where
  "given s \<longleftrightarrow> (case s of None \<Rightarrow> False | Some t \<Rightarrow> t \<noteq> [])"

text \<open>An optional string inside an f-string.\<close>

definition show_opt :: "string option \<Rightarrow> string" where
  "show_opt s = (case s of None \<Rightarrow> ''None'' | Some t \<Rightarrow> t)"

text \<open>\<open>s[-n:]\<close>: the last \<open>n\<close> characters.\<close>

definition last_chars :: "nat \<Rightarrow> string \<Rightarrow> string" where
  "last_chars n s = drop (length s - n) s"

section \<open>The effect monad\<close>

type_synonym ('w, 'c, 'a) io = "'w \<Rightarrow> (exn + 'a) \<times> 'w \<times> 'c list"

definition io_ret :: "'a \<Rightarrow> ('w, 'c, 'a) io" where
  "io_ret x = (\<lambda>w. (Inr x, w, []))"

definition io_raise :: "exn \<Rightarrow> ('w, 'c, 'a) io" where
  "io_raise e = (\<lambda>w. (Inl e, w, []))"

definition io_emit :: "'c \<Rightarrow> ('w, 'c, unit) io" where
  "io_emit c = (\<lambda>w. (Inr (), w, [c]))"

text \<open>Reading the world without an effect worth recording, such as the clock.\<close>

definition io_ask :: "('w \<Rightarrow> 'a) \<Rightarrow> ('w, 'c, 'a) io" where
  "io_ask f = (\<lambda>w. (Inr (f w), w, []))"

text \<open>A call to a service: the call is recorded whether the service answers or raises.\<close>

definition io_call :: "'c \<Rightarrow> ('w \<Rightarrow> (exn + 'a) \<times> 'w) \<Rightarrow> ('w, 'c, 'a) io" where
  "io_call c f = (\<lambda>w. case f w of (r, w') \<Rightarrow> (r, w', [c]))"

definition io_bind :: "('w, 'c, 'a) io \<Rightarrow> ('a \<Rightarrow> ('w, 'c, 'b) io) \<Rightarrow> ('w, 'c, 'b) io" where
  "io_bind m f = (\<lambda>w. case m w of
     (Inl e, w', cs) \<Rightarrow> (Inl e, w', cs)
   | (Inr x, w', cs) \<Rightarrow> (case f x w' of (r, w'', cs') \<Rightarrow> (r, w'', cs @ cs')))"

definition io_seq :: "('w, 'c, 'a) io \<Rightarrow> ('w, 'c, 'b) io \<Rightarrow> ('w, 'c, 'b) io" where
  "io_seq m n = io_bind m (\<lambda>_. n)"

text \<open>
  \<open>try: m except ...: h\<close>. The handler returns None for an exception its clauses do not name,
  which then goes on to the caller.
\<close>

definition io_catch ::
  "('w, 'c, 'a) io \<Rightarrow> (exn \<Rightarrow> ('w, 'c, 'a) io option) \<Rightarrow> ('w, 'c, 'a) io" where
  "io_catch m h = (\<lambda>w. case m w of
     (Inr x, w', cs) \<Rightarrow> (Inr x, w', cs)
   | (Inl e, w', cs) \<Rightarrow> (case h e of
        None \<Rightarrow> (Inl e, w', cs)
      | Some n \<Rightarrow> (case n w' of (r, w'', cs') \<Rightarrow> (r, w'', cs @ cs'))))"

text \<open>\<open>with contextlib.suppress(ClientError): m\<close>.\<close>

definition io_suppress_client :: "('w, 'c, unit) io \<Rightarrow> ('w, 'c, unit) io" where
  "io_suppress_client m = io_catch m (\<lambda>e. if is_client_error e then Some (io_ret ()) else None)"

text \<open>\<open>try: m finally: f\<close>; an exception of \<open>f\<close> replaces that of \<open>m\<close>.\<close>

definition io_finally :: "('w, 'c, 'a) io \<Rightarrow> ('w, 'c, 'b) io \<Rightarrow> ('w, 'c, 'a \<times> 'b) io" where
  "io_finally m f = (\<lambda>w. case m w of
     (r, w', cs) \<Rightarrow> (case f w' of
        (Inl e, w'', cs') \<Rightarrow> (Inl e, w'', cs @ cs')
      | (Inr y, w'', cs') \<Rightarrow>
          ((case r of Inl e \<Rightarrow> Inl e | Inr x \<Rightarrow> Inr (x, y)), w'', cs @ cs')))"

fun io_for :: "('x \<Rightarrow> ('w, 'c, unit) io) \<Rightarrow> 'x list \<Rightarrow> ('w, 'c, unit) io" where
  "io_for f [] = io_ret ()"
| "io_for f (x # xs) = io_seq (f x) (io_for f xs)"

definition io_when :: "bool \<Rightarrow> ('w, 'c, unit) io \<Rightarrow> ('w, 'c, unit) io" where
  "io_when b m = (if b then m else io_ret ())"

text \<open>Effects of one component as effects of another that calls it.\<close>

definition io_lift :: "('c \<Rightarrow> 'd) \<Rightarrow> ('w, 'c, 'a) io \<Rightarrow> ('w, 'd, 'a) io" where
  "io_lift g m = (\<lambda>w. case m w of (r, w', cs) \<Rightarrow> (r, w', map g cs))"

lemmas [io_defs] = io_ret_def io_raise_def io_emit_def io_ask_def io_call_def io_bind_def
  io_seq_def io_catch_def io_suppress_client_def io_finally_def io_when_def

lemma bind_returns:
  assumes "\<exists>es. m w = (Inr x, w', es)" "\<exists>es. f x w' = (Inr y, w'', es)"
  shows "\<exists>es. io_bind m f w = (Inr y, w'', es)"
  using assms by (auto simp: io_bind_def)

text \<open>The result, the world and the effects of a run.\<close>

abbreviation io_result :: "(exn + 'a) \<times> 'w \<times> 'c list \<Rightarrow> exn + 'a" where
  "io_result r \<equiv> fst r"

abbreviation io_effects :: "(exn + 'a) \<times> 'w \<times> 'c list \<Rightarrow> 'c list" where
  "io_effects r \<equiv> snd (snd r)"

subsection \<open>Which effects an operation can have, which exceptions it can raise\<close>

definition emits :: "('c \<Rightarrow> bool) \<Rightarrow> ('w, 'c, 'a) io \<Rightarrow> bool" where
  "emits P m \<longleftrightarrow> (\<forall>w. \<forall>c \<in> set (io_effects (m w)). P c)"

definition throws :: "(exn \<Rightarrow> bool) \<Rightarrow> ('w, 'c, 'a) io \<Rightarrow> bool" where
  "throws P m \<longleftrightarrow> (\<forall>w e. io_result (m w) = Inl e \<longrightarrow> P e)"

lemma emitsD: "emits P m \<Longrightarrow> c \<in> set (io_effects (m w)) \<Longrightarrow> P c"
  by (auto simp: emits_def)

lemma emitsI: "(\<And>w r w' cs c. m w = (r, w', cs) \<Longrightarrow> c \<in> set cs \<Longrightarrow> P c) \<Longrightarrow> emits P m"
  unfolding emits_def by (metis prod.exhaust_sel)

lemma emits_run: "emits P m \<Longrightarrow> m w = (r, w', cs) \<Longrightarrow> c \<in> set cs \<Longrightarrow> P c"
  by (metis emitsD snd_conv)

lemma throws_run: "throws P m \<Longrightarrow> m w = (Inl e, w', cs) \<Longrightarrow> P e"
  by (metis throws_def fst_conv)

lemma throwsI: "(\<And>w e w' cs. m w = (Inl e, w', cs) \<Longrightarrow> P e) \<Longrightarrow> throws P m"
  unfolding throws_def by (metis prod.exhaust_sel)

lemma io_bind_cases:
  assumes "io_bind m f w = (r, w', cs)"
  obtains e where "m w = (Inl e, w', cs)" "r = Inl e"
  | x w1 cs1 cs2 where "m w = (Inr x, w1, cs1)" "f x w1 = (r, w', cs2)" "cs = cs1 @ cs2"
  using assms by (auto simp: io_bind_def split: prod.splits sum.splits)

lemma io_bind_InrE:
  assumes "io_bind m f w = (Inr y, w', cs)"
  obtains x w1 cs1 cs2 where "m w = (Inr x, w1, cs1)" "f x w1 = (Inr y, w', cs2)" "cs = cs1 @ cs2"
  using assms by (elim io_bind_cases) auto

lemma io_seq_InrE:
  assumes "io_seq m n w = (Inr y, w', cs)"
  obtains x w1 cs1 cs2 where "m w = (Inr x, w1, cs1)" "n w1 = (Inr y, w', cs2)" "cs = cs1 @ cs2"
  using assms unfolding io_seq_def by (elim io_bind_InrE) auto

lemma io_catch_cases:
  assumes "io_catch m h w = (r, w', cs)"
  obtains "m w = (r, w', cs)" "\<And>e. r = Inl e \<Longrightarrow> h e = None"
  | e n w1 cs1 cs2 where "m w = (Inl e, w1, cs1)" "h e = Some n" "n w1 = (r, w', cs2)"
      "cs = cs1 @ cs2"
  using assms by (auto simp: io_catch_def split: prod.splits sum.splits option.splits)

lemma io_finally_cases:
  assumes "io_finally m f w = (r, w', cs)"
  obtains rm w1 cs1 rf cs2 where "m w = (rm, w1, cs1)" "f w1 = (rf, w', cs2)" "cs = cs1 @ cs2"
    "r = (case rf of Inl e \<Rightarrow> Inl e
            | Inr y \<Rightarrow> (case rm of Inl e \<Rightarrow> Inl e | Inr x \<Rightarrow> Inr (x, y)))"
  using assms by (auto simp: io_finally_def split: prod.splits sum.splits)

lemma throwsD: "throws P m \<Longrightarrow> io_result (m w) = Inl e \<Longrightarrow> P e"
  by (auto simp: throws_def)

lemma emits_mono: "emits P m \<Longrightarrow> (\<And>c. P c \<Longrightarrow> Q c) \<Longrightarrow> emits Q m"
  by (auto simp: emits_def)

lemma emits_ret [io_intros]: "emits P (io_ret x)"
  by (simp add: emits_def io_ret_def)

lemma emits_raise [io_intros]: "emits P (io_raise e)"
  by (simp add: emits_def io_raise_def)

lemma emits_ask [io_intros]: "emits P (io_ask f)"
  by (simp add: emits_def io_ask_def)

lemma emits_emit [io_intros]: "P c \<Longrightarrow> emits P (io_emit c)"
  by (simp add: emits_def io_emit_def)

lemma emits_call [io_intros]: "P c \<Longrightarrow> emits P (io_call c f)"
  by (simp add: emits_def io_call_def split: prod.splits)

lemma emits_bind [io_intros]:
  assumes "emits P m" "\<And>x. emits P (f x)"
  shows "emits P (io_bind m f)"
proof (rule emitsI)
  fix w r w' cs c
  assume "io_bind m f w = (r, w', cs)" "c \<in> set cs"
  then show "P c" by (elim io_bind_cases) (auto dest: emits_run [OF assms(1)] emits_run [OF assms(2)])
qed


lemma emits_seq [io_intros]: "emits P m \<Longrightarrow> emits P n \<Longrightarrow> emits P (io_seq m n)"
  by (simp add: io_seq_def emits_bind)

lemma emits_catch [io_intros]:
  assumes "emits P m" "\<And>e n. h e = Some n \<Longrightarrow> emits P n"
  shows "emits P (io_catch m h)"
proof (rule emitsI)
  fix w r w' cs c
  assume "io_catch m h w = (r, w', cs)" "c \<in> set cs"
  then show "P c"
    by (elim io_catch_cases) (auto dest: emits_run [OF assms(1)] emits_run [OF assms(2)])
qed


lemma emits_suppress [io_intros]: "emits P m \<Longrightarrow> emits P (io_suppress_client m)"
  unfolding io_suppress_client_def
  by (rule emits_catch) (auto split: if_splits intro: emits_ret)

lemma emits_finally [io_intros]:
  assumes "emits P m" "emits P f"
  shows "emits P (io_finally m f)"
proof (rule emitsI)
  fix w r w' cs c
  assume "io_finally m f w = (r, w', cs)" "c \<in> set cs"
  then show "P c"
    by (elim io_finally_cases) (auto dest: emits_run [OF assms(1)] emits_run [OF assms(2)])
qed


lemma emits_lift [io_intros]: "emits (\<lambda>c. P (g c)) m \<Longrightarrow> emits P (io_lift g m)"
  by (rule emitsI) (auto simp: io_lift_def dest: emits_run split: prod.splits)

lemma emits_when [io_intros]: "(b \<Longrightarrow> emits P m) \<Longrightarrow> emits P (io_when b m)"
  by (simp add: io_when_def emits_ret)

lemma emits_if [io_intros]:
  "(b \<Longrightarrow> emits P m) \<Longrightarrow> (\<not> b \<Longrightarrow> emits P n) \<Longrightarrow> emits P (if b then m else n)"
  by simp

lemma emits_for [io_intros]: "(\<And>x. x \<in> set xs \<Longrightarrow> emits P (f x)) \<Longrightarrow> emits P (io_for f xs)"
  by (induction xs) (auto intro: io_intros)

lemma throws_bind:
  assumes "throws P m" "\<And>x. throws P (f x)"
  shows "throws P (io_bind m f)"
proof (rule throwsI)
  fix w e w' cs
  assume "io_bind m f w = (Inl e, w', cs)"
  then show "P e"
    by (elim io_bind_cases) (auto dest: throws_run [OF assms(1)] throws_run [OF assms(2)])
qed


lemma throws_suppress: "throws (\<lambda>e. \<not> is_client_error e) (io_suppress_client m)"
  by (auto simp: throws_def io_suppress_client_def io_catch_def io_ret_def
      split: prod.splits sum.splits option.splits if_splits)

lemma throws_ret: "throws P (io_ret x)"
  by (simp add: throws_def io_ret_def)

lemma throws_if:
  "(b \<Longrightarrow> throws P m) \<Longrightarrow> (\<not> b \<Longrightarrow> throws P n) \<Longrightarrow> throws P (if b then m else n)"
  by simp

subsection \<open>The effects of a sequence\<close>

lemma io_bind_Inr:
  "m w = (Inr x, w', cs) \<Longrightarrow>
     io_bind m f w = (let (r, w'', cs') = f x w' in (r, w'', cs @ cs'))"
  by (simp add: io_bind_def split: prod.splits)

lemma io_bind_Inl: "m w = (Inl e, w', cs) \<Longrightarrow> io_bind m f w = (Inl e, w', cs)"
  by (simp add: io_bind_def)

lemma io_bind_ret [simp]: "io_bind (io_ret x) f = f x"
  by (simp add: fun_eq_iff io_bind_def io_ret_def split: prod.splits)

lemma io_bind_raise [simp]: "io_bind (io_raise e) f = io_raise e"
  by (simp add: fun_eq_iff io_bind_def io_raise_def)

lemma io_bind_assoc: "io_bind (io_bind m f) g = io_bind m (\<lambda>x. io_bind (f x) g)"
  by (auto simp: fun_eq_iff io_bind_def split: prod.splits sum.splits)


subsection \<open>Relations between the world before, the effects and the world after\<close>

text \<open>
  \<open>traced R m\<close>: every run of \<open>m\<close>, whatever its result, relates the world it starts in, its effects
  and the world it ends in by \<open>R\<close>. When \<open>R\<close> is reflexive on no effects and transitive along
  concatenation, the operations of the monad preserve it; the interface of such relations is the
  locale \<open>trace_relation\<close>.
\<close>

definition traced :: "('w \<Rightarrow> 'c list \<Rightarrow> 'w \<Rightarrow> bool) \<Rightarrow> ('w, 'c, 'a) io \<Rightarrow> bool" where
  "traced R m \<longleftrightarrow> (\<forall>w. case m w of (r, w', es) \<Rightarrow> R w es w')"

lemma tracedI: "(\<And>w r w' es. m w = (r, w', es) \<Longrightarrow> R w es w') \<Longrightarrow> traced R m"
  by (auto simp: traced_def split: prod.splits)

lemma traced_run: "traced R m \<Longrightarrow> m w = (r, w', es) \<Longrightarrow> R w es w'"
  unfolding traced_def by (metis case_prod_conv)

lemma traced_mono: "traced R m \<Longrightarrow> (\<And>w es w'. R w es w' \<Longrightarrow> S w es w') \<Longrightarrow> traced S m"
  by (auto simp: traced_def split: prod.splits)

locale trace_relation =
  fixes R :: "'w \<Rightarrow> 'c list \<Rightarrow> 'w \<Rightarrow> bool"
  assumes R_refl: "R w [] w"
    and R_trans: "R w es w1 \<Longrightarrow> R w1 es' w2 \<Longrightarrow> R w (es @ es') w2"
begin

lemma traced_ret: "traced R (io_ret x)"
  by (auto simp: traced_def io_ret_def R_refl)

lemma traced_raise: "traced R (io_raise e)"
  by (auto simp: traced_def io_raise_def R_refl)

lemma traced_ask: "traced R (io_ask f)"
  by (auto simp: traced_def io_ask_def R_refl)

lemma traced_bind:
  assumes "traced R m" "\<And>x. traced R (f x)"
  shows "traced R (io_bind m f)"
proof (rule tracedI)
  fix w r w' es
  assume "io_bind m f w = (r, w', es)"
  then show "R w es w'"
    by (elim io_bind_cases)
      (auto intro: R_trans dest: traced_run [OF assms(1)] traced_run [OF assms(2)])
qed

lemma traced_seq: "traced R m \<Longrightarrow> traced R n \<Longrightarrow> traced R (io_seq m n)"
  by (simp add: io_seq_def traced_bind)

lemma traced_if: "(b \<Longrightarrow> traced R m) \<Longrightarrow> (\<not> b \<Longrightarrow> traced R n) \<Longrightarrow> traced R (if b then m else n)"
  by simp

lemma traced_when: "(b \<Longrightarrow> traced R m) \<Longrightarrow> traced R (io_when b m)"
  by (simp add: io_when_def traced_ret)

lemma traced_catch:
  assumes "traced R m" "\<And>e n. h e = Some n \<Longrightarrow> traced R n"
  shows "traced R (io_catch m h)"
proof (rule tracedI)
  fix w r w' es
  assume "io_catch m h w = (r, w', es)"
  then show "R w es w'"
    by (elim io_catch_cases)
      (auto intro: R_trans dest: traced_run [OF assms(1)] traced_run [OF assms(2)])
qed

lemma traced_suppress: "traced R m \<Longrightarrow> traced R (io_suppress_client m)"
  unfolding io_suppress_client_def by (rule traced_catch) (auto split: if_splits intro: traced_ret)

lemma traced_finally:
  assumes "traced R m" "traced R f"
  shows "traced R (io_finally m f)"
proof (rule tracedI)
  fix w r w' es
  assume "io_finally m f w = (r, w', es)"
  then show "R w es w'"
    by (elim io_finally_cases)
      (auto intro: R_trans dest: traced_run [OF assms(1)] traced_run [OF assms(2)])
qed

lemma traced_for: "(\<And>x. x \<in> set xs \<Longrightarrow> traced R (f x)) \<Longrightarrow> traced R (io_for f xs)"
  by (induction xs) (auto intro: traced_ret traced_seq)

lemmas traced_rules = traced_ret traced_raise traced_ask traced_bind traced_seq traced_if
  traced_when traced_catch traced_suppress traced_finally traced_for

end

text \<open>Effects that all satisfy a predicate are such a relation.\<close>

interpretation effects: trace_relation "\<lambda>_ es _. list_all P es"
  by unfold_locales auto

subsection \<open>What holds after a run that returns\<close>

text \<open>
  \<open>achieves P m Q\<close>: when \<open>m\<close> starts in a world with \<open>P\<close> and returns \<open>x\<close>, the world then has
  \<open>Q x\<close>. Nothing is said of a run that raises.
\<close>

definition achieves :: "('w \<Rightarrow> bool) \<Rightarrow> ('w, 'c, 'a) io \<Rightarrow> ('a \<Rightarrow> 'w \<Rightarrow> bool) \<Rightarrow> bool" where
  "achieves P m Q \<longleftrightarrow> (\<forall>w. P w \<longrightarrow> (case m w of (Inr x, w', _) \<Rightarrow> Q x w' | (Inl _, _, _) \<Rightarrow> True))"

lemma achievesI: "(\<And>w x w' es. P w \<Longrightarrow> m w = (Inr x, w', es) \<Longrightarrow> Q x w') \<Longrightarrow> achieves P m Q"
  by (auto simp: achieves_def split: prod.splits sum.splits)

lemma achieves_run: "achieves P m Q \<Longrightarrow> P w \<Longrightarrow> m w = (Inr x, w', es) \<Longrightarrow> Q x w'"
  by (auto simp: achieves_def)

lemma achieves_ret: "(\<And>w. P w \<Longrightarrow> Q x w) \<Longrightarrow> achieves P (io_ret x) Q"
  by (simp add: achieves_def io_ret_def)

lemma achieves_ask: "(\<And>w. P w \<Longrightarrow> Q (f w) w) \<Longrightarrow> achieves P (io_ask f) Q"
  by (simp add: achieves_def io_ask_def)

lemma achieves_bind:
  assumes "achieves P m M" "\<And>x. achieves (M x) (f x) Q"
  shows "achieves P (io_bind m f) Q"
proof (rule achievesI)
  fix w x w' es
  assume "P w" "io_bind m f w = (Inr x, w', es)"
  then show "Q x w'"
    by (elim io_bind_cases) (auto dest: achieves_run [OF assms(1)] achieves_run [OF assms(2)])
qed

lemma achieves_seq: "achieves P m (\<lambda>_. M) \<Longrightarrow> achieves M n Q \<Longrightarrow> achieves P (io_seq m n) Q"
  unfolding io_seq_def by (rule achieves_bind)

lemma achieves_if:
  "(b \<Longrightarrow> achieves P m Q) \<Longrightarrow> (\<not> b \<Longrightarrow> achieves P n Q) \<Longrightarrow> achieves P (if b then m else n) Q"
  by simp

lemma achieves_mono:
  "achieves P' m Q' \<Longrightarrow> (\<And>w. P w \<Longrightarrow> P' w) \<Longrightarrow> (\<And>x w. Q' x w \<Longrightarrow> Q x w) \<Longrightarrow> achieves P m Q"
  by (rule achievesI) (blast dest: achieves_run)

lemma achieves_traced:
  "traced R m \<Longrightarrow> (\<And>w es w'. R w es w' \<Longrightarrow> P w \<Longrightarrow> P w') \<Longrightarrow> achieves P m (\<lambda>_. P)"
  by (rule achievesI) (blast dest: traced_run)

text \<open>\<open>yields C m\<close>: what \<open>m\<close> returns satisfies \<open>C\<close>.\<close>

definition yields :: "('a \<Rightarrow> bool) \<Rightarrow> ('w, 'c, 'a) io \<Rightarrow> bool" where
  "yields C m \<longleftrightarrow> achieves (\<lambda>_. True) m (\<lambda>x _. C x)"

named_theorems yields_intros \<open>rules for what an operation returns\<close>

lemma yields_ret [yields_intros]: "C x \<Longrightarrow> yields C (io_ret x)"
  by (simp add: yields_def achieves_ret)

lemma yields_bind [yields_intros]: "(\<And>x. yields C (f x)) \<Longrightarrow> yields C (io_bind m f)"
  unfolding yields_def by (rule achieves_bind [where M = "\<lambda>_ _. True"]) (simp_all add: achieves_def split: prod.splits sum.splits)

lemma yields_seq [yields_intros]: "yields C n \<Longrightarrow> yields C (io_seq m n)"
  by (simp add: io_seq_def yields_bind)

lemma yields_raise [yields_intros]: "yields C (io_raise e)"
  by (simp add: yields_def achieves_def io_raise_def)

lemma yields_if [yields_intros]:
  "(b \<Longrightarrow> yields C m) \<Longrightarrow> (\<not> b \<Longrightarrow> yields C n) \<Longrightarrow> yields C (if b then m else n)"
  by simp

lemma yields_run: "yields C m \<Longrightarrow> m w = (Inr x, w', es) \<Longrightarrow> C x"
  unfolding yields_def by (erule achieves_run) simp

lemma achieves_yields: "achieves P m (\<lambda>_. Q) \<Longrightarrow> yields C m \<Longrightarrow> achieves P m (\<lambda>x w. Q w \<and> C x)"
  by (rule achievesI) (blast dest: achieves_run yields_run)

lemma achieves_pure: "(b \<Longrightarrow> achieves P m Q) \<Longrightarrow> achieves (\<lambda>w. P w \<and> b) m Q"
  by (auto simp: achieves_def)

section \<open>Results\<close>

text \<open>Pure computations that may raise: a result is an exception or a value.\<close>

type_synonym 'a res = "exn + 'a"

definition res_bind :: "'a res \<Rightarrow> ('a \<Rightarrow> 'b res) \<Rightarrow> 'b res" where
  "res_bind r f = (case r of Inl e \<Rightarrow> Inl e | Inr x \<Rightarrow> f x)"

lemma res_bind_simps [simp]: "res_bind (Inl e) f = Inl e" "res_bind (Inr x) f = f x"
  by (simp_all add: res_bind_def)

lemma res_bind_Inr: "res_bind r f = Inr y \<longleftrightarrow> (\<exists>x. r = Inr x \<and> f x = Inr y)"
  by (cases r) simp_all

fun res_list :: "('a \<Rightarrow> 'b res) \<Rightarrow> 'a list \<Rightarrow> 'b list res" where
  "res_list f [] = Inr []"
| "res_list f (x # xs) = res_bind (f x) (\<lambda>y. res_bind (res_list f xs) (\<lambda>ys. Inr (y # ys)))"

lemma res_list_Inr: "res_list f xs = Inr ys \<longleftrightarrow> list_all2 (\<lambda>x y. f x = Inr y) xs ys"
  by (induction xs arbitrary: ys) (auto simp: res_bind_Inr list_all2_Cons1)

definition of_option :: "exn \<Rightarrow> 'a option \<Rightarrow> 'a res" where
  "of_option e x = (case x of None \<Rightarrow> Inl e | Some y \<Rightarrow> Inr y)"

definition io_res :: "'a res \<Rightarrow> ('w, 'c, 'a) io" where
  "io_res r = (case r of Inl e \<Rightarrow> io_raise e | Inr x \<Rightarrow> io_ret x)"

section \<open>Time stamps\<close>

text \<open>\<open>datetime.fromtimestamp(t, utc).isoformat(timespec="seconds")\<close>.\<close>

definition civil :: "int \<Rightarrow> int \<times> int \<times> int" where
  "civil d =
     (let z = d + 719468; era = z div 146097; doe = z mod 146097;
          yoe = (doe - doe div 1460 + doe div 36524 - doe div 146096) div 365;
          doy = doe - (365 * yoe + yoe div 4 - yoe div 100);
          mp = (5 * doy + 2) div 153;
          m = (if mp < 10 then mp + 3 else mp - 9)
      in (yoe + era * 400 + (if m \<le> 2 then 1 else 0), m, doy - (153 * mp + 2) div 5 + 1))"

definition pad :: "nat \<Rightarrow> int \<Rightarrow> string" where
  "pad n i = (let s = show_int i in replicate (n - length s) CHR ''0'' @ s)"

definition stamp :: "rat \<Rightarrow> string" where
  "stamp t =
     (let s = \<lfloor>t\<rfloor>; (y, m, d) = civil (s div 86400); r = s mod 86400
      in pad 4 y @ ''-'' @ pad 2 m @ ''-'' @ pad 2 d @ ''T'' @ pad 2 (r div 3600) @ '':''
         @ pad 2 (r mod 3600 div 60) @ '':'' @ pad 2 (r mod 60) @ ''+00:00'')"

section \<open>Paths\<close>

definition file_name :: "string \<Rightarrow> string" where
  "file_name p = last (split_on CHR ''/'' p)"

definition parent_dir :: "string \<Rightarrow> string" where
  "parent_dir p = join ''/'' (butlast (split_on CHR ''/'' p))"

text \<open>The name without its suffix; a dot at either end of a name starts no suffix.\<close>

definition stem_of :: "string \<Rightarrow> string" where
  "stem_of n =
     (let parts = split_on CHR ''.'' n; front = join ''.'' (butlast parts)
      in if length parts < 2 \<or> front = [] \<or> last parts = [] then n else front)"

end
