(* ===== verification/Cloud.thy ===== *)
theory Cloud
  imports Prelude
begin

text \<open>
  The cloud half of \<^verbatim>\<open>scripts/bench/runner.py\<close>: on which market and in which
  zone an instance is launched, how it is terminated and how leaked spot requests are found.
  EC2 itself is a parameter, the record \<open>ec2\<close> of the calls the sources make: each may
  answer or raise, and may change the world in any way. \<open>error_text\<close> is botocore's text of an
  error, \<open>wall_clock\<close> is \<open>time.time\<close> and \<open>pause\<close> is \<open>time.sleep\<close>. What is printed on the
  way is not modelled.
\<close>

section \<open>The service and what it answers\<close>

record subnet =
  sn_id :: string
  sn_az :: string
  sn_vpc :: string

record inst =
  in_id :: string
  in_state :: string
  in_reason :: "string option"
  in_type :: string
  in_launch :: rat
  in_private_ip :: "string option"
  in_zone :: string

record spot_request =
  sr_id :: string
  sr_instance :: "string option"
  sr_state :: "string option"

text \<open>\<open>InstanceMarketOptions\<close> and its \<open>SpotOptions\<close>.\<close>

record market_options =
  mo_type :: string
  mo_spot_type :: string
  mo_interruption :: string

text \<open>
  The keyword arguments of \<open>run_instances\<close>. The code touches the subnet and the market
  options only; the rest is handed through.
\<close>

record run_kwargs =
  kw_subnet :: "string option"
  kw_market :: "market_options option"
  kw_image :: "string option"
  kw_type :: string
  kw_user_data :: string
  kw_name :: string
  kw_bench :: string

datatype aws =
    DescribeSubnet string
  | DescribeDefaultSubnets string
  | RunInstances run_kwargs
  | DescribeInstances "string list"
  | TerminateInstances "string list"
  | SpotRequestsOf "string list"
  | OpenSpotRequests
  | CancelSpotRequests "string list"
  | GetBucketLocation string
  | Pause rat

record 'w ec2 =
  ec2_describe_subnet :: "string \<Rightarrow> 'w \<Rightarrow> (exn + subnet list) \<times> 'w"
  ec2_default_subnets :: "string \<Rightarrow> 'w \<Rightarrow> (exn + subnet list) \<times> 'w"
  ec2_run_instances :: "run_kwargs \<Rightarrow> 'w \<Rightarrow> (exn + inst list) \<times> 'w"
  ec2_describe_instances :: "string list \<Rightarrow> 'w \<Rightarrow> (exn + inst list list) \<times> 'w"
  ec2_terminate :: "string list \<Rightarrow> 'w \<Rightarrow> (exn + unit) \<times> 'w"
  ec2_spot_of :: "string list \<Rightarrow> 'w \<Rightarrow> (exn + spot_request list) \<times> 'w"
  ec2_spot_open :: "'w \<Rightarrow> (exn + spot_request list) \<times> 'w"
  ec2_cancel_spot :: "string list \<Rightarrow> 'w \<Rightarrow> (exn + unit) \<times> 'w"
  s3_location :: "string \<Rightarrow> 'w \<Rightarrow> (exn + string option) \<times> 'w"
  error_text :: "exn \<Rightarrow> string"
  wall_clock :: "'w \<Rightarrow> rat"
  pause :: "rat \<Rightarrow> 'w \<Rightarrow> 'w"

definition describe_subnet where
  "describe_subnet c s = io_call (DescribeSubnet s) (ec2_describe_subnet c s)"

definition default_subnets where
  "default_subnets c v = io_call (DescribeDefaultSubnets v) (ec2_default_subnets c v)"

definition run_instances where
  "run_instances c kw = io_call (RunInstances kw) (ec2_run_instances c kw)"

definition describe_instances where
  "describe_instances c ids = io_call (DescribeInstances ids) (ec2_describe_instances c ids)"

definition terminate_instances where
  "terminate_instances c ids = io_call (TerminateInstances ids) (ec2_terminate c ids)"

definition spot_requests_of where
  "spot_requests_of c ids = io_call (SpotRequestsOf ids) (ec2_spot_of c ids)"

definition open_spot_requests where
  "open_spot_requests c = io_call OpenSpotRequests (ec2_spot_open c)"

definition cancel_spot_requests where
  "cancel_spot_requests c ids = io_call (CancelSpotRequests ids) (ec2_cancel_spot c ids)"

definition pause_for where
  "pause_for c d = io_call (Pause d) (\<lambda>w. (Inr (), pause c d w))"

lemmas [io_defs] = describe_subnet_def default_subnets_def run_instances_def
  describe_instances_def terminate_instances_def spot_requests_of_def open_spot_requests_def
  cancel_spot_requests_def pause_for_def

lemma emits_service [io_intros]:
  "P (DescribeSubnet s) \<Longrightarrow> emits P (describe_subnet c s)"
  "P (DescribeDefaultSubnets v) \<Longrightarrow> emits P (default_subnets c v)"
  "P (RunInstances kw) \<Longrightarrow> emits P (run_instances c kw)"
  "P (DescribeInstances ids) \<Longrightarrow> emits P (describe_instances c ids)"
  "P (TerminateInstances ids) \<Longrightarrow> emits P (terminate_instances c ids)"
  "P (SpotRequestsOf ids) \<Longrightarrow> emits P (spot_requests_of c ids)"
  "P OpenSpotRequests \<Longrightarrow> emits P (open_spot_requests c)"
  "P (CancelSpotRequests ids) \<Longrightarrow> emits P (cancel_spot_requests c ids)"
  "P (Pause d) \<Longrightarrow> emits P (pause_for c d)"
  by (simp_all add: describe_subnet_def default_subnets_def run_instances_def
      describe_instances_def terminate_instances_def spot_requests_of_def
      open_spot_requests_def cancel_spot_requests_def pause_for_def emits_call)

section \<open>Zones and launching\<close>

type_synonym zone = "string option \<times> string"

text \<open>
  \<open>spot_subnets\<close>: the given subnet's zone first, then the default subnets of its VPC in
  the order of their zones.
\<close>

definition spot_subnets :: "'w ec2 \<Rightarrow> string option \<Rightarrow> ('w, aws, zone list) io" where
  "spot_subnets c subnet_id =
     (if \<not> given subnet_id then io_ret [(None, ''the default zone'')]
      else io_bind (describe_subnet c (the subnet_id)) (\<lambda>descs. case descs of
          [] \<Rightarrow> io_raise IndexErr
        | desc # _ \<Rightarrow>
            io_bind (default_subnets c (sn_vpc desc)) (\<lambda>others.
              let rest = sort_key sn_az (filter (\<lambda>s. sn_id s \<noteq> the subnet_id) others)
              in io_ret ((subnet_id, sn_az desc) # map (\<lambda>s. (Some (sn_id s), sn_az s)) rest))))"

definition spot_options :: market_options where
  "spot_options = \<lparr>mo_type = ''spot'', mo_spot_type = ''one-time'', mo_interruption = ''terminate''\<rparr>"

text \<open>
  \<open>sweep_spot_requests\<close>: which of the open requests are stale, then one cancellation for
  all of them. A request without an instance is still being fulfilled; one whose instance EC2 no
  longer knows is stale.
\<close>

definition first_instance :: "inst list list \<Rightarrow> ('w, aws, inst) io" where
  "first_instance res = (case res of (i # _) # _ \<Rightarrow> io_ret i | _ \<Rightarrow> io_raise IndexErr)"

definition lookup_handler :: "('w, aws, 'a) io \<Rightarrow> exn \<Rightarrow> ('w, aws, 'a) io option" where
  "lookup_handler h e =
     (case e of ClientError _ _ \<Rightarrow> Some h | IndexErr \<Rightarrow> Some h | KeyErr _ \<Rightarrow> Some h | _ \<Rightarrow> None)"

definition request_stale :: "'w ec2 \<Rightarrow> spot_request \<Rightarrow> ('w, aws, bool) io" where
  "request_stale c r =
     (if \<not> given (sr_instance r) then io_ret False
      else io_catch
        (io_bind (describe_instances c [the (sr_instance r)]) (\<lambda>res.
         io_bind (first_instance res) (\<lambda>st.
         io_ret (in_state st = ''terminated'' \<or> in_state st = ''shutting-down''))))
        (lookup_handler (io_ret True)))"

fun stale_requests :: "'w ec2 \<Rightarrow> spot_request list \<Rightarrow> ('w, aws, string list) io" where
  "stale_requests c [] = io_ret []"
| "stale_requests c (r # rs) =
     io_bind (request_stale c r) (\<lambda>b.
     io_bind (stale_requests c rs) (\<lambda>ids. io_ret (if b then sr_id r # ids else ids)))"

definition sweep_spot_requests :: "'w ec2 \<Rightarrow> ('w, aws, nat) io" where
  "sweep_spot_requests c =
     io_bind (io_catch (io_bind (open_spot_requests c) (\<lambda>rs. io_ret (Some rs)))
               (\<lambda>e. if is_client_error e then Some (io_ret None) else None))
       (\<lambda>reqs. case reqs of
          None \<Rightarrow> io_ret 0
        | Some rs \<Rightarrow>
            io_bind (stale_requests c rs) (\<lambda>stale.
            io_seq (io_when (stale \<noteq> []) (io_suppress_client (cancel_spot_requests c stale)))
              (io_ret (length stale))))"

text \<open>
  The loop of \<open>launch\<close> over the zones. The result is either what was launched, or the last
  refusal. The dictionary \<open>spot\<close> is mutated in the loop, so the subnet set for one zone
  stays set for a zone without one.
\<close>

type_synonym launch_result = "inst list \<times> string \<times> string"

fun try_spot ::
  "'w ec2 \<Rightarrow> run_kwargs \<Rightarrow> string option \<times> string option \<Rightarrow> zone list \<Rightarrow>
     ('w, aws, launch_result + string option \<times> string option) io" where
  "try_spot c spot refused [] = io_ret (Inr refused)"
| "try_spot c spot refused ((subnet, zone) # zs) =
     (let spot' = (if given subnet then spot\<lparr>kw_subnet := subnet\<rparr> else spot) in
      io_bind
        (io_catch (io_bind (run_instances c spot') (\<lambda>r. io_ret (Inl (r, ''spot'', zone))))
           (\<lambda>e. case e of ClientError code msg \<Rightarrow> Some (io_ret (Inr (code, msg))) | _ \<Rightarrow> None))
        (\<lambda>got. case got of Inl x \<Rightarrow> io_ret (Inl x) | Inr refused' \<Rightarrow> try_spot c spot' refused' zs))"

definition spot_refusal :: "string option \<times> string option \<Rightarrow> string" where
  "spot_refusal refused =
     ''spot requested but not provided: '' @ show_opt (fst refused) @ '': '' @ show_opt (snd refused)"

definition on_demand :: "'w ec2 \<Rightarrow> run_kwargs \<Rightarrow> zone list \<Rightarrow> ('w, aws, launch_result) io" where
  "on_demand c kw zones =
     io_bind (run_instances c kw) (\<lambda>r. case zones of
        [] \<Rightarrow> io_raise IndexErr
      | (_, z) # _ \<Rightarrow> io_ret (r, ''on-demand'', z))"

text \<open>The part of \<open>launch\<close> after the zones are known.\<close>

definition launch_in ::
  "'w ec2 \<Rightarrow> run_kwargs \<Rightarrow> string \<Rightarrow> zone list \<Rightarrow> ('w, aws, launch_result) io" where
  "launch_in c kw market zones =
     (if market = ''on-demand'' then on_demand c kw zones
      else io_bind (sweep_spot_requests c) (\<lambda>_.
           io_bind (try_spot c (kw\<lparr>kw_market := Some spot_options\<rparr>) (None, None) zones) (\<lambda>got.
           case got of
             Inl x \<Rightarrow> io_ret x
           | Inr refused \<Rightarrow>
               (if market \<noteq> ''spot-or-on-demand'' then io_raise (SystemExit (spot_refusal refused))
                else on_demand c kw zones))))"

definition launch ::
  "'w ec2 \<Rightarrow> run_kwargs \<Rightarrow> string \<Rightarrow> string option \<Rightarrow> ('w, aws, launch_result) io" where
  "launch c kw market zone =
     io_bind (spot_subnets c (kw_subnet kw)) (\<lambda>zones.
       if given zone
       then (case filter (\<lambda>z. snd z = the zone) zones of
               [] \<Rightarrow> io_raise IndexErr
             | z # zs \<Rightarrow> launch_in c (kw\<lparr>kw_subnet := fst z\<rparr>) market (z # zs))
       else launch_in c kw market zones)"

section \<open>Termination of instances\<close>

definition interrupted :: "'w ec2 \<Rightarrow> string \<Rightarrow> ('w, aws, bool) io" where
  "interrupted c iid =
     io_catch
       (io_bind (describe_instances c [iid]) (\<lambda>res.
        io_bind (first_instance res) (\<lambda>i.
        io_ret (in_reason i = Some ''Server.SpotInstanceTermination''))))
       (lookup_handler (io_ret False))"

definition live_request :: "spot_request \<Rightarrow> bool" where
  "live_request s \<longleftrightarrow> sr_state s = Some ''open'' \<or> sr_state s = Some ''active''"

definition terminate :: "'w ec2 \<Rightarrow> string option list \<Rightarrow> ('w, aws, unit) io" where
  "terminate c ids0 =
     (let ids = map the (filter given ids0) in
      if ids = [] then io_ret ()
      else io_seq (io_suppress_client (terminate_instances c ids))
        (io_bind
          (io_catch
            (io_bind (spot_requests_of c ids) (\<lambda>rs. io_ret (map sr_id (filter live_request rs))))
            (\<lambda>e. if is_client_error e then Some (io_ret []) else None))
          (\<lambda>sirs. io_when (sirs \<noteq> []) (io_suppress_client (cancel_spot_requests c sirs)))))"

text \<open>
  \<open>wait_gone\<close>: polls until no instance is left, or the timeout. The loop runs on fuel; a
  result of None means the fuel ran out before the loop did.
\<close>

definition still_live :: "inst list list \<Rightarrow> string list" where
  "still_live res =
     map in_id (filter (\<lambda>i. in_state i \<noteq> ''terminated'' \<and> in_state i \<noteq> ''stopped'') (concat res))"

fun wait_gone_loop :: "nat \<Rightarrow> 'w ec2 \<Rightarrow> string list \<Rightarrow> rat \<Rightarrow> ('w, aws, bool option) io" where
  "wait_gone_loop 0 c ids deadline = io_ret None"
| "wait_gone_loop (Suc n) c ids deadline =
     io_bind (io_ask (wall_clock c)) (\<lambda>t.
       if ids \<noteq> [] \<and> t < deadline
       then io_bind
              (io_catch (io_bind (describe_instances c ids) (\<lambda>got. io_ret (Some (still_live got))))
                 (\<lambda>e. if is_client_error e then Some (io_ret None) else None))
              (\<lambda>live. case live of
                 None \<Rightarrow> io_ret (Some True)
               | Some [] \<Rightarrow> io_ret (Some True)
               | Some _ \<Rightarrow> io_seq (pause_for c 3) (wait_gone_loop n c ids deadline))
       else io_ret (Some False))"

definition wait_gone :: "nat \<Rightarrow> 'w ec2 \<Rightarrow> string option list \<Rightarrow> rat \<Rightarrow> ('w, aws, bool option) io" where
  "wait_gone fuel c ids0 timeout =
     (let ids = map the (filter given ids0) in
      io_bind (io_ask (wall_clock c)) (\<lambda>t. wait_gone_loop fuel c ids (t + timeout)))"

section \<open>The bucket's region\<close>

definition region_name :: "string option \<Rightarrow> string option" where
  "region_name loc =
     (case loc of None \<Rightarrow> Some ''us-east-1'' | Some l \<Rightarrow> if l = ''EU'' then Some ''eu-west-1'' else Some l)"

definition bucket_region :: "'w ec2 \<Rightarrow> string \<Rightarrow> ('w, aws, string) io" where
  "bucket_region c bucket =
     io_bind (io_call (GetBucketLocation bucket) (s3_location c bucket)) (\<lambda>loc.
       io_ret (the (region_name loc)))"

definition check_bucket_region :: "'w ec2 \<Rightarrow> string \<Rightarrow> string \<Rightarrow> ('w, aws, unit) io" where
  "check_bucket_region c region bucket =
     io_bind
       (io_catch (bucket_region c bucket)
          (\<lambda>e. case e of
             ClientError code msg \<Rightarrow>
               Some (io_raise (SystemExit (''cannot read the region of s3://'' @ bucket @ '': ''
                 @ error_text c (ClientError code msg))))
           | _ \<Rightarrow> None))
       (\<lambda>whr.
          if whr \<noteq> region
          then io_raise (SystemExit (''s3://'' @ bucket @ '' is in '' @ whr @ '', but AWS_REGION is ''
             @ region @ '': every byte would cross regions. Fix .env or move the bucket.''))
          else io_ret ())"

section \<open>The order of the requests\<close>

fun run_calls :: "aws list \<Rightarrow> run_kwargs list" where
  "run_calls [] = []"
| "run_calls (RunInstances kw # es) = kw # run_calls es"
| "run_calls (_ # es) = run_calls es"

lemma run_calls_append [simp]: "run_calls (a @ b) = run_calls a @ run_calls b"
  by (induction a rule: run_calls.induct) simp_all

lemma set_run_calls: "kw \<in> set (run_calls es) \<longleftrightarrow> RunInstances kw \<in> set es"
  by (induction es rule: run_calls.induct) auto

definition no_runs :: "aws \<Rightarrow> bool" where
  "no_runs e \<longleftrightarrow> (\<forall>kw. e \<noteq> RunInstances kw)"

lemma no_runs_simps [simp]:
  "no_runs (DescribeSubnet s)" "no_runs (DescribeDefaultSubnets v)" "no_runs (DescribeInstances i)"
  "no_runs (TerminateInstances i)" "no_runs (SpotRequestsOf i)" "no_runs OpenSpotRequests"
  "no_runs (CancelSpotRequests i)" "no_runs (Pause d)" "no_runs (GetBucketLocation b)"
  "\<not> no_runs (RunInstances kw)"
  by (simp_all add: no_runs_def)

lemma run_calls_Nil: "(\<And>e. e \<in> set es \<Longrightarrow> no_runs e) \<Longrightarrow> run_calls es = []"
  by (induction es rule: run_calls.induct) (auto simp: no_runs_def)

lemma emits_lookup_handler:
  "emits P h \<Longrightarrow> lookup_handler h e = Some n \<Longrightarrow> emits P n"
  by (auto simp: lookup_handler_def split: exn.splits)

lemma emits_first_instance [io_intros]: "emits P (first_instance res)"
  by (auto simp: first_instance_def split: list.splits intro: io_intros)

lemma emits_request_stale [io_intros]:
  "(\<And>i. P (DescribeInstances [i])) \<Longrightarrow> emits P (request_stale c r)"
  unfolding request_stale_def by (intro io_intros) (auto elim!: emits_lookup_handler [rotated] intro: io_intros)

lemma emits_stale_requests [io_intros]:
  "(\<And>i. P (DescribeInstances [i])) \<Longrightarrow> emits P (stale_requests c rs)"
  by (induction rs) (auto intro!: io_intros)

lemma emits_sweep_spot_requests [io_intros]:
  assumes "P OpenSpotRequests" "\<And>i. P (DescribeInstances [i])" "\<And>ids. P (CancelSpotRequests ids)"
  shows "emits P (sweep_spot_requests c)"
  unfolding sweep_spot_requests_def
  by (intro io_intros assms; auto split: option.splits if_splits intro!: io_intros assms)

lemma emits_spot_subnets [io_intros]:
  assumes "\<And>s. P (DescribeSubnet s)" "\<And>s. P (DescribeDefaultSubnets s)"
  shows "emits P (spot_subnets c sid)"
  unfolding spot_subnets_def
  by (auto simp: Let_def split: list.splits intro!: io_intros assms)

lemma emits_on_demand [io_intros]: "P (RunInstances kw) \<Longrightarrow> emits P (on_demand c kw zs)"
  unfolding on_demand_def by (auto split: list.splits prod.splits intro!: io_intros)

lemma emits_try_spot [io_intros]:
  "(\<And>s. P (RunInstances (spot\<lparr>kw_subnet := s\<rparr>))) \<Longrightarrow> emits P (try_spot c spot refused zs)"
proof (induction zs arbitrary: spot refused)
  case Nil
  then show ?case by (simp add: emits_ret)
next
  case (Cons z zs)
  obtain s n where z: "z = (s, n)" by (cases z)
  define spot' where "spot' = (if given s then spot\<lparr>kw_subnet := s\<rparr> else spot)"
  have here: "P (RunInstances (spot'\<lparr>kw_subnet := t\<rparr>))" for t
    using Cons.prems [of t] by (simp add: spot'_def)
  have "P (RunInstances spot')"
    using here [of "kw_subnet spot'"] by simp
  then show ?case
    unfolding z try_spot.simps Let_def spot'_def [symmetric]
    by (intro io_intros; auto split: sum.splits exn.splits intro!: io_intros Cons.IH here)
qed

fun spot_attempts :: "run_kwargs \<Rightarrow> zone list \<Rightarrow> run_kwargs list" where
  "spot_attempts spot [] = []"
| "spot_attempts spot ((subnet, _) # zs) =
     (let spot' = (if given subnet then spot\<lparr>kw_subnet := subnet\<rparr> else spot)
      in spot' # spot_attempts spot' zs)"

lemma spot_attempts_given:
  "list_all (\<lambda>z. given (fst z)) zs \<Longrightarrow> spot_attempts spot zs = map (\<lambda>z. spot\<lparr>kw_subnet := fst z\<rparr>) zs"
  by (induction zs arbitrary: spot) (auto simp: Let_def)

text \<open>
  What the loop over the zones does, whatever EC2 answers: it asks the zones in order and stops at
  the first that provides an instance; it gives up only after the last.
\<close>

lemma try_spot_outcome:
  assumes "try_spot c spot refused zs w = (res, w', es)"
  shows "(\<exists>n. run_calls es = spot_attempts spot (take n zs) \<and> (case res of
      Inl e \<Rightarrow> \<not> is_client_error e
    | Inr (Inl (r, m, z)) \<Rightarrow> 0 < n \<and> n \<le> length zs \<and> m = ''spot'' \<and> z = snd (zs ! (n - 1))
    | Inr (Inr _) \<Rightarrow> length zs \<le> n))"
  using assms
proof (induction zs arbitrary: spot refused w res w' es)
  case Nil
  then show ?case by (auto simp: io_ret_def)
next
  case (Cons z zs)
  obtain s nm where z: "z = (s, nm)" by (cases z)
  define spot' where "spot' = (if given s then spot\<lparr>kw_subnet := s\<rparr> else spot)"
  obtain r1 w1 where call: "ec2_run_instances c spot' w = (r1, w1)" by fastforce
  note unf = try_spot.simps Let_def spot'_def [symmetric] io_defs call
  consider (ok) r where "r1 = Inr r" | (refused) code msg where "r1 = Inl (ClientError code msg)"
    | (other) e where "r1 = Inl e" "\<not> is_client_error e"
    by (cases r1) (auto elim: exn_client_cases)
  then show ?case
  proof cases
    case ok
    with Cons.prems have "res = Inr (Inl (r, ''spot'', nm))" "es = [RunInstances spot']"
      by (simp_all add: z unf)
    then show ?thesis
      by (intro exI [of _ "Suc 0"]) (simp add: z Let_def spot'_def)
  next
    case refused
    with Cons.prems obtain es' where rest: "try_spot c spot' (code, msg) zs w1 = (res, w', es')"
      and es: "es = RunInstances spot' # es'"
      by (auto simp: z unf split: prod.splits)
    from Cons.IH [OF rest] obtain n where n: "run_calls es' = spot_attempts spot' (take n zs)"
      and "case res of Inl e \<Rightarrow> \<not> is_client_error e
        | Inr (Inl (r, m, z)) \<Rightarrow> 0 < n \<and> n \<le> length zs \<and> m = ''spot'' \<and> z = snd (zs ! (n - 1))
        | Inr (Inr _) \<Rightarrow> length zs \<le> n"
      by blast
    then show ?thesis
      by (intro exI [of _ "Suc n"]) (auto simp: z es Let_def spot'_def nth_Cons' split: sum.splits prod.splits)
  next
    case other
    with Cons.prems have "res = Inl e" "es = [RunInstances spot']"
      by (auto simp: z unf split: exn.splits)
    with other show ?thesis
      by (intro exI [of _ "Suc 0"]) (simp add: z Let_def spot'_def)
  qed
qed

text \<open>
  The answers behind those requests: \<open>refused_all c ks w w'\<close> says that EC2, asked for the
  requests \<open>ks\<close> one after the other from the world \<open>w\<close> on, refused each of them with a
  client error, and left the world \<open>w'\<close>.
\<close>

fun refused_all :: "'w ec2 \<Rightarrow> run_kwargs list \<Rightarrow> 'w \<Rightarrow> 'w \<Rightarrow> bool" where
  "refused_all c [] w w' = (w' = w)"
| "refused_all c (k # ks) w w' =
     (case ec2_run_instances c k w of
        (Inl e, w1) \<Rightarrow> is_client_error e \<and> refused_all c ks w1 w'
      | (Inr _, _) \<Rightarrow> False)"

lemma try_spot_refused:
  "try_spot c spot refused zs w = (Inr (Inr x), w', es) \<Longrightarrow> refused_all c (spot_attempts spot zs) w w'"
proof (induction zs arbitrary: spot refused w es)
  case Nil
  then show ?case by (simp add: io_ret_def)
next
  case (Cons z zs)
  obtain s nm where z: "z = (s, nm)" by (cases z)
  define spot' where "spot' = (if given s then spot\<lparr>kw_subnet := s\<rparr> else spot)"
  obtain r1 w1 where call: "ec2_run_instances c spot' w = (r1, w1)" by fastforce
  note unf = try_spot.simps Let_def spot'_def [symmetric] io_defs call
  from Cons.prems obtain code msg es' where r1: "r1 = Inl (ClientError code msg)"
    and again: "try_spot c spot' (code, msg) zs w1 = (Inr (Inr x), w', es')"
    by (cases r1) (auto simp: z unf split: prod.splits exn.splits)
  show ?case using Cons.IH [OF again] by (simp add: z Let_def spot'_def [symmetric] call r1)
qed

lemma on_demand_answered:
  "on_demand c kw zs w = (Inr (r, m, z), w', es) \<Longrightarrow> ec2_run_instances c kw w = (Inr r, w')"
  by (auto simp: on_demand_def io_defs split: prod.splits sum.splits list.splits)

text \<open>The worlds of a fall-back: the old requests are swept, each zone refuses, on demand answers.\<close>

lemma launch_in_answers:
  assumes "launch_in c kw ''spot-or-on-demand'' zs w = (Inr (r, ''on-demand'', z), w', es)"
  shows "\<exists>n w1 cs w2. sweep_spot_requests c w = (Inr n, w1, cs) \<and>
    refused_all c (spot_attempts (kw\<lparr>kw_market := Some spot_options\<rparr>) zs) w1 w2 \<and>
    ec2_run_instances c kw w2 = (Inr r, w')"
proof -
  let ?kw = "kw\<lparr>kw_market := Some spot_options\<rparr>"
  obtain n w1 cs where sw: "sweep_spot_requests c w = (Inr n, w1, cs)"
    using assms by (auto simp: launch_in_def elim!: io_bind_cases)
  obtain r2 w2 es2 where tr: "try_spot c ?kw (None, None) zs w1 = (r2, w2, es2)" by (metis prod_cases3)
  from try_spot_outcome [OF tr] have spot: "r2 = Inr (Inl (r', m', z')) \<Longrightarrow> m' = ''spot''" for r' m' z'
    by auto
  from assms sw tr obtain x es3 where "r2 = Inr (Inr x)"
    and od: "on_demand c kw zs w2 = (Inr (r, ''on-demand'', z), w', es3)"
    using spot by (auto simp: launch_in_def io_bind_def io_ret_def split: sum.splits prod.splits)
  with tr have "refused_all c (spot_attempts ?kw zs) w1 w2" by (simp add: try_spot_refused)
  with on_demand_answered [OF od] sw show ?thesis by (intro exI conjI)
qed

lemma run_calls_no_runs: "emits no_runs m \<Longrightarrow> m w = (r, w', es) \<Longrightarrow> run_calls es = []"
  by (rule run_calls_Nil) (erule emits_run)

lemma emits_no_runs [io_intros]:
  "emits no_runs (sweep_spot_requests c)" "emits no_runs (spot_subnets c sid)"
  by (intro io_intros; simp)+

lemma on_demand_outcome:
  assumes "on_demand c kw zs w = (res, w', es)"
  shows "run_calls es = [kw]" "res = Inr (r, m, z) \<Longrightarrow> m = ''on-demand'' \<and> zs \<noteq> [] \<and> z = snd (hd zs)"
  using assms by (auto simp: on_demand_def io_defs split: prod.splits sum.splits list.splits)

text \<open>
  What a launch in known zones asks of EC2: on demand one request; otherwise the zones in order
  with the spot options, and after every zone refused, and only for \<open>spot-or-on-demand\<close>, the
  request as it was given.
\<close>

lemma launch_in_runs:
  assumes "launch_in c kw market zs w = (res, w', es)"
    and "market \<noteq> ''on-demand''"
  shows "\<exists>n. run_calls es = spot_attempts (kw\<lparr>kw_market := Some spot_options\<rparr>) (take n zs) \<and>
             (\<forall>r m z. res = Inr (r, m, z) \<longrightarrow> 0 < n \<and> n \<le> length zs \<and> m = ''spot'' \<and> z = snd (zs ! (n - 1)))
       \<or> market = ''spot-or-on-demand'' \<and>
         run_calls es = spot_attempts (kw\<lparr>kw_market := Some spot_options\<rparr>) zs @ [kw] \<and>
         (\<forall>r m z. res = Inr (r, m, z) \<longrightarrow> m = ''on-demand'' \<and> zs \<noteq> [] \<and> z = snd (hd zs))"
proof -
  let ?kw = "kw\<lparr>kw_market := Some spot_options\<rparr>"
  obtain r0 w1 es1 where sw: "sweep_spot_requests c w = (r0, w1, es1)" by (metis prod_cases3)
  have es1: "run_calls es1 = []"
    by (rule run_calls_no_runs [OF emits_no_runs(1) sw])
  show ?thesis
  proof (cases r0)
    case (Inl e)
    with assms sw have "res = Inl e" "es = es1"
      by (simp_all add: launch_in_def io_bind_Inl)
    with es1 show ?thesis by (intro exI [of _ 0]) simp
  next
    case (Inr k)
    obtain r2 w2 es2 where tr: "try_spot c ?kw (None, None) zs w1 = (r2, w2, es2)" by (metis prod_cases3)
    from try_spot_outcome [OF tr] obtain n where n: "run_calls es2 = spot_attempts ?kw (take n zs)"
      and out: "case r2 of Inl e \<Rightarrow> \<not> is_client_error e
        | Inr (Inl (r, m, z)) \<Rightarrow> 0 < n \<and> n \<le> length zs \<and> m = ''spot'' \<and> z = snd (zs ! (n - 1))
        | Inr (Inr _) \<Rightarrow> length zs \<le> n" by blast
    note step = assms(1) [unfolded launch_in_def, simplified assms(2) if_False]
    consider (settled) "\<And>refused. r2 \<noteq> Inr (Inr refused)" | (none) refused where "r2 = Inr (Inr refused)"
      by blast
    then show ?thesis
    proof cases
      case settled
      with step sw Inr tr have "run_calls es = run_calls es2"
        "\<And>r m z. res = Inr (r, m, z) \<Longrightarrow> r2 = Inr (Inl (r, m, z))"
        using es1 by (auto simp: io_bind_def io_ret_def split: sum.splits prod.splits)
      with n out show ?thesis by (intro exI [of _ n]) auto
    next
      case (none refused)
      with out have n': "take n zs = zs" by simp
      show ?thesis
      proof (cases "market = ''spot-or-on-demand''")
        case True
        obtain r3 w3 es3 where od: "on_demand c kw zs w2 = (r3, w3, es3)" by (metis prod_cases3)
        with True step sw Inr tr none have "res = r3" "es = es1 @ es2 @ es3"
          by (auto simp: io_bind_def)
        with on_demand_outcome [OF od] es1 n n' True show ?thesis by auto
      next
        case False
        with step sw Inr tr none have "res = Inl (SystemExit (spot_refusal refused))" "es = es1 @ es2"
          by (auto simp: io_bind_def io_raise_def)
        with es1 n show ?thesis by (intro exI [of _ n]) auto
      qed
    qed
  qed
qed

lemma launch_cases:
  assumes "launch c kw market zone w = (res, w', es)"
  obtains (failed) e where "res = Inl e" "run_calls es = []"
  | (in_zones) zs0 zs kw' w1 es1 es2 where "spot_subnets c (kw_subnet kw) w = (Inr zs0, w1, es1)"
      "launch_in c kw' market zs w1 = (res, w', es2)" "run_calls es = run_calls es2"
      "given zone \<Longrightarrow> zs = filter (\<lambda>z. snd z = the zone) zs0 \<and> zs \<noteq> [] \<and> kw' = kw\<lparr>kw_subnet := fst (hd zs)\<rparr>"
      "\<not> given zone \<Longrightarrow> zs = zs0 \<and> kw' = kw"
proof -
  obtain r0 w1 es1 where sp: "spot_subnets c (kw_subnet kw) w = (r0, w1, es1)" by (metis prod_cases3)
  have es1: "run_calls es1 = []" by (rule run_calls_no_runs [OF emits_no_runs(2) sp])
  show thesis
  proof (cases r0)
    case (Inl e)
    with assms sp es1 show thesis by (intro failed [of e]) (simp_all add: launch_def io_bind_Inl)
  next
    case (Inr zs0)
    note run = assms [unfolded launch_def io_bind_Inr [where m = "spot_subnets c (kw_subnet kw)", OF sp [unfolded Inr]]]
    show thesis
    proof (cases "given zone")
      case True
      show thesis
      proof (cases "filter (\<lambda>z. snd z = the zone) zs0")
        case Nil
        with run True es1 show thesis by (intro failed [of IndexErr]) (simp_all add: io_raise_def)
      next
        case (Cons z zs)
        with run True obtain es2 where "launch_in c (kw\<lparr>kw_subnet := fst z\<rparr>) market (z # zs) w1 = (res, w', es2)"
          "es = es1 @ es2" by (auto split: prod.splits)
        with True es1 sp Inr Cons show thesis
          by (intro in_zones [of zs0 w1 es1 "kw\<lparr>kw_subnet := fst z\<rparr>" "z # zs" es2]) simp_all
      qed
    next
      case False
      with run obtain es2 where "launch_in c kw market zs0 w1 = (res, w', es2)" "es = es1 @ es2"
        by (auto split: prod.splits)
      with False es1 sp Inr show thesis
        by (intro in_zones [of zs0 w1 es1 kw zs0 es2]) simp_all
    qed
  qed
qed

lemma spot_attempts_market:
  "kw_market spot = mo \<Longrightarrow> list_all (\<lambda>k. kw_market k = mo) (spot_attempts spot zs)"
  by (induction zs arbitrary: spot) (auto simp: Let_def)

lemma spot_attempts_subnet:
  "list_all (\<lambda>z. given (fst z)) zs \<Longrightarrow> k \<in> set (spot_attempts spot zs) \<Longrightarrow> kw_subnet k \<in> fst ` set zs"
  by (force simp: spot_attempts_given)

text \<open>
  C1. Spot means spot: a launch on the market \<open>spot\<close> never sends EC2 a request without the
  spot options, whatever EC2 answers and on every path, and never reports another market.
\<close>

theorem launch_spot_never_on_demand:
  "list_all (\<lambda>k. kw_market k = Some spot_options) (run_calls (io_effects (launch c kw ''spot'' zone w)))
   \<and> (case io_result (launch c kw ''spot'' zone w) of Inr (_, m, _) \<Rightarrow> m = ''spot'' | Inl _ \<Rightarrow> True)"
proof -
  obtain res w' es where run: "launch c kw ''spot'' zone w = (res, w', es)" by (metis prod_cases3)
  then show ?thesis
  proof (cases rule: launch_cases)
    case (failed e)
    with run show ?thesis by simp
  next
    case (in_zones zs0 zs kw' w1 es1 es2)
    have "list_all (\<lambda>k. kw_market k = Some spot_options)
        (spot_attempts (kw'\<lparr>kw_market := Some spot_options\<rparr>) zs')" for zs'
      by (rule spot_attempts_market) simp
    with launch_in_runs [OF in_zones(2)] show ?thesis
      by (auto simp: run in_zones(3) split: sum.splits)
  qed
qed

text \<open>
  C2. On demand is the last resort: when a launch on \<open>spot-or-on-demand\<close> comes back on demand,
  every zone it could use (all of \<open>spot_subnets\<close>, or the pinned one) was first asked for a spot
  instance, in order, and EC2 refused each of these requests with a client error; the one on-demand
  request came after all of them, was made in the first of those zones as the caller gave it, and
  its answer is the instance that is returned.
\<close>

theorem launch_falls_back_last:
  assumes "launch c kw ''spot-or-on-demand'' zone w = (Inr (r, ''on-demand'', z), w', es)"
  shows "\<exists>zs0 w1 es1. spot_subnets c (kw_subnet kw) w = (Inr zs0, w1, es1) \<and>
     (let zs = (if given zone then filter (\<lambda>z. snd z = the zone) zs0 else zs0);
          kw' = (if given zone then kw\<lparr>kw_subnet := fst (hd zs)\<rparr> else kw);
          asked = spot_attempts (kw'\<lparr>kw_market := Some spot_options\<rparr>) zs
      in zs \<noteq> [] \<and> z = snd (hd zs) \<and> run_calls es = asked @ [kw'] \<and>
         (\<exists>n w2 cs w3. sweep_spot_requests c w1 = (Inr n, w2, cs) \<and>
            refused_all c asked w2 w3 \<and> ec2_run_instances c kw' w3 = (Inr r, w')))"
  using assms
proof (cases rule: launch_cases)
  case (failed e)
  then show ?thesis by simp
next
  case (in_zones zs0 zs kw' w1 es1 es2)
  from launch_in_runs [OF in_zones(2)]
  have "zs \<noteq> [] \<and> z = snd (hd zs) \<and>
     run_calls es2 = spot_attempts (kw'\<lparr>kw_market := Some spot_options\<rparr>) zs @ [kw']"
    by simp
  with in_zones launch_in_answers [OF in_zones(2)] show ?thesis
    by (intro exI [of _ zs0] exI [of _ w1] exI [of _ es1]) (cases "given zone"; simp add: Let_def)
qed

lemma on_demand_runs:
  assumes "launch_in c kw ''on-demand'' zs w = (res, w', es)"
  shows "run_calls es = [kw] \<and> (\<forall>r m z. res = Inr (r, m, z) \<longrightarrow> zs \<noteq> [] \<and> z = snd (hd zs))"
  using on_demand_outcome [of c kw zs w res w' es] assms by (auto simp: launch_in_def)

text \<open>
  C10. A pinned zone is the verdict: whatever the market, a launch that names a zone and returns
  reports that zone, and each of its requests names a subnet of that zone.
\<close>

theorem launch_stays_in_pinned_zone:
  assumes run: "launch c kw market (Some zn) w = (Inr (r, m, z), w', es)" and zn: "zn \<noteq> []"
    and zones: "spot_subnets c (kw_subnet kw) w = (Inr zs, w1, es1)" "list_all (\<lambda>z. given (fst z)) zs"
  shows "z = zn \<and> (\<forall>k \<in> set (run_calls es). (kw_subnet k, zn) \<in> set zs)"
  using run
proof (cases rule: launch_cases)
  case (failed e)
  then show ?thesis by simp
next
  case (in_zones zs0 zs' kw' w1' es1' es2)
  let ?kw = "kw'\<lparr>kw_market := Some spot_options\<rparr>"
  from in_zones zones zn have zs': "zs' = filter (\<lambda>z. snd z = zn) zs" "zs' \<noteq> []" "kw' = kw\<lparr>kw_subnet := fst (hd zs')\<rparr>"
    by (auto simp: given_def)
  then have at: "\<And>p. p \<in> set zs' \<Longrightarrow> snd p = zn \<and> p \<in> set zs" and g: "list_all (\<lambda>z. given (fst z)) zs'"
    using zones(2) by (auto simp: list_all_iff)
  have kw': "(kw_subnet kw', zn) \<in> set zs"
    using at [OF hd_in_set [OF zs'(2)]] zs'(3) by (cases "hd zs'") auto
  have at_spot: "(kw_subnet k, zn) \<in> set zs" if "k \<in> set (spot_attempts ?kw (take n zs'))" for k n
  proof -
    from g have "list_all (\<lambda>z. given (fst z)) (take n zs')"
      by (auto simp: list_all_iff dest: in_set_takeD)
    from spot_attempts_subnet [OF this that] obtain p where "p \<in> set zs'" "fst p = kw_subnet k"
      by (auto dest: in_set_takeD)
    with at [of p] show ?thesis by (cases p) auto
  qed
  have first: "snd (hd zs') = zn" using at [OF hd_in_set [OF zs'(2)]] by simp
  have nth: "0 < n \<Longrightarrow> n \<le> length zs' \<Longrightarrow> snd (zs' ! (n - Suc 0)) = zn" for n
    using at [of "zs' ! (n - Suc 0)"] by simp
  show ?thesis
  proof (cases "market = ''on-demand''")
    case True
    with on_demand_runs [of c kw' zs' w1' _ w' es2] in_zones(2,3) kw' first show ?thesis by auto
  next
    case False
    from launch_in_runs [OF in_zones(2) False] show ?thesis
      using at_spot [where n = "length zs'"] by (auto simp: in_zones(3) kw' first nth dest: at_spot)
  qed
qed

text \<open>
  The zones are asked in a fixed order: the given subnet's own zone first, then the other
  default subnets of its VPC, each once, sorted by zone.
\<close>

theorem spot_subnets_order:
  assumes "spot_subnets c (Some sid) w = (Inr zs, w', es)" and "sid \<noteq> []"
  shows "\<exists>d ds w1 w2 others. ec2_describe_subnet c sid w = (Inr (d # ds), w1) \<and>
     ec2_default_subnets c (sn_vpc d) w1 = (Inr others, w2) \<and>
     hd zs = (Some sid, sn_az d) \<and> sorted (map snd (tl zs)) \<and>
     mset (tl zs) = image_mset (\<lambda>s. (Some (sn_id s), sn_az s)) (filter_mset (\<lambda>s. sn_id s \<noteq> sid) (mset others))"
proof -
  obtain r1 w1 where d: "ec2_describe_subnet c sid w = (r1, w1)" by fastforce
  with assms obtain dsc ds where r1: "r1 = Inr (dsc # ds)"
    by (auto simp: spot_subnets_def given_def io_defs split: sum.splits list.splits prod.splits)
  obtain r2 w2 where o: "ec2_default_subnets c (sn_vpc dsc) w1 = (r2, w2)" by fastforce
  with assms d r1 obtain others where r2: "r2 = Inr others"
    by (auto simp: spot_subnets_def given_def io_defs split: sum.splits list.splits prod.splits)
  let ?rest = "sort_key sn_az (filter (\<lambda>s. sn_id s \<noteq> sid) others)"
  from assms d r1 o r2 have zs: "zs = (Some sid, sn_az dsc) # map (\<lambda>s. (Some (sn_id s), sn_az s)) ?rest"
    by (auto simp: spot_subnets_def given_def io_defs Let_def)
  have "sorted (map snd (tl zs))" by (simp add: zs comp_def)
  moreover have "mset (tl zs) = image_mset (\<lambda>s. (Some (sn_id s), sn_az s)) (filter_mset (\<lambda>s. sn_id s \<noteq> sid) (mset others))"
    by (simp add: zs mset_filter)
  ultimately show ?thesis using d r1 o r2 by (auto simp: zs)
qed

definition wanted :: "string option list \<Rightarrow> string list" where
  "wanted ids0 = map the (filter given ids0)"

text \<open>
  Terminating: the instances first, then the requests that launched them. Of EC2's answers
  only the open and active requests are cancelled; a failure of any of the three calls that is a
  ClientError is swallowed, so the caller goes on.
\<close>

theorem terminate_order:
  "(case terminate c ids0 w of (res, w', es) \<Rightarrow> (case res of Inl e \<Rightarrow> \<not> is_client_error e | Inr _ \<Rightarrow>
        es = (if wanted ids0 = [] then []
              else TerminateInstances (wanted ids0) # SpotRequestsOf (wanted ids0) #
                (case fst (ec2_spot_of c (wanted ids0) (snd (ec2_terminate c (wanted ids0) w))) of
                   Inl _ \<Rightarrow> []
                 | Inr rs \<Rightarrow> (let sirs = map sr_id (filter live_request rs)
                              in if sirs = [] then [] else [CancelSpotRequests sirs])))))"
proof (cases "wanted ids0 = []")
  case True
  then show ?thesis by (simp add: terminate_def wanted_def Let_def io_ret_def)
next
  case False
  obtain r1 w1 where t: "ec2_terminate c (wanted ids0) w = (r1, w1)" by fastforce
  obtain r2 w2 where s: "ec2_spot_of c (wanted ids0) w1 = (r2, w2)" by fastforce
  show ?thesis
    using False t s
    by (cases r1; cases r2)
      (auto simp: terminate_def wanted_def [symmetric] Let_def io_defs
        split: prod.splits sum.splits option.splits if_splits)
qed

definition found_stale :: "'w ec2 \<Rightarrow> spot_request \<Rightarrow> bool" where
  "found_stale c r \<longleftrightarrow> given (sr_instance r) \<and>
     (\<exists>w. case fst (ec2_describe_instances c [the (sr_instance r)] w) of
        Inl e \<Rightarrow> is_client_error e \<or> e = IndexErr \<or> (\<exists>k. e = KeyErr k)
      | Inr ((i # _) # _) \<Rightarrow> in_state i = ''terminated'' \<or> in_state i = ''shutting-down''
      | Inr _ \<Rightarrow> True)"

lemma request_stale_found:
  assumes "request_stale c r w = (Inr True, w', es)"
  shows "found_stale c r"
proof -
  from assms have g: "given (sr_instance r)"
    by (auto simp: request_stale_def io_ret_def split: if_splits)
  obtain a w1 where d: "ec2_describe_instances c [the (sr_instance r)] w = (a, w1)" by fastforce
  have "case a of Inl e \<Rightarrow> is_client_error e \<or> e = IndexErr \<or> (\<exists>k. e = KeyErr k)
      | Inr ((i # _) # _) \<Rightarrow> in_state i = ''terminated'' \<or> in_state i = ''shutting-down''
      | Inr _ \<Rightarrow> True"
    using assms g d
    by (cases a) (auto simp: request_stale_def io_defs first_instance_def lookup_handler_def
        split: list.splits exn.splits if_splits prod.splits)
  with g d show ?thesis by (auto simp: found_stale_def intro: exI [of _ w])
qed

lemma stale_requests_found:
  "stale_requests c rs w = (Inr ids, w', es) \<Longrightarrow> set ids \<subseteq> sr_id ` {r \<in> set rs. found_stale c r}"
proof (induction rs arbitrary: w ids w' es)
  case Nil
  then show ?case by (auto simp: io_ret_def)
next
  case (Cons r rs)
  from Cons.prems obtain b w1 e1 where b: "request_stale c r w = (Inr b, w1, e1)"
    by (auto simp: io_bind_def split: prod.splits sum.splits)
  with Cons.prems obtain ids' w2 e2 where rest: "stale_requests c rs w1 = (Inr ids', w2, e2)"
    and ids: "ids = (if b then sr_id r # ids' else ids')"
    by (auto simp: io_bind_def io_ret_def split: prod.splits sum.splits)
  have "b \<Longrightarrow> found_stale c r" using b request_stale_found [of c r w w1 e1] by simp
  with Cons.IH [OF rest] show ?case by (auto simp: ids)
qed

fun cancelled :: "aws list \<Rightarrow> string list list" where
  "cancelled [] = []"
| "cancelled (CancelSpotRequests ids # es) = ids # cancelled es"
| "cancelled (_ # es) = cancelled es"

lemma cancelled_append [simp]: "cancelled (a @ b) = cancelled a @ cancelled b"
  by (induction a rule: cancelled.induct) simp_all

lemma cancelled_Nil: "(\<And>e. e \<in> set es \<Longrightarrow> \<forall>ids. e \<noteq> CancelSpotRequests ids) \<Longrightarrow> cancelled es = []"
  by (induction es rule: cancelled.induct) auto

lemma stale_requests_cancels_nothing:
  assumes "stale_requests c rs w = (r, w', es)"
  shows "cancelled es = []"
proof (rule cancelled_Nil)
  fix e assume "e \<in> set es"
  moreover have "emits (\<lambda>e. \<forall>ids. e \<noteq> CancelSpotRequests ids) (stale_requests c rs)"
    by (intro io_intros) simp
  ultimately show "\<forall>ids. e \<noteq> CancelSpotRequests ids"
    using emits_run assms by fastforce
qed

text \<open>
  The sweep for leaked requests cancels nothing that may still be in use: it cancels at most
  once, and each id it cancels is that of an open request with an instance, which EC2, asked about
  it, reported terminated or shutting down, or did not know. The number it returns is the number
  it cancelled.
\<close>

theorem sweep_cancels_only_stale:
  "(case sweep_spot_requests c w of (res, w', es) \<Rightarrow>
     cancelled es = [] \<or>
     (\<exists>ids rs w1. cancelled es = [ids] \<and> ids \<noteq> [] \<and> ec2_spot_open c w = (Inr rs, w1) \<and>
        set ids \<subseteq> sr_id ` {r \<in> set rs. found_stale c r} \<and>
        (case res of Inr n \<Rightarrow> n = length ids | Inl ex \<Rightarrow> \<not> is_client_error ex)))"
proof -
  obtain r0 w1 where o: "ec2_spot_open c w = (r0, w1)" by fastforce
  show ?thesis
  proof (cases r0)
    case (Inl e)
    with o show ?thesis
      by (auto simp: sweep_spot_requests_def io_defs split: prod.splits)
  next
    case (Inr rs)
    obtain r1 w2 es1 where st: "stale_requests c rs w1 = (r1, w2, es1)" by (metis prod_cases3)
    note none = stale_requests_cancels_nothing [OF st]
    show ?thesis
    proof (cases r1)
      case e: (Inl e)
      show ?thesis
        by (simp add: sweep_spot_requests_def io_defs o Inr st e none)
    next
      case stale: (Inr ids)
      obtain r2 w3 where ca: "ec2_cancel_spot c ids w2 = (r2, w3)" by fastforce
      have good: "set ids \<subseteq> sr_id ` {r \<in> set rs. found_stale c r}"
        using stale_requests_found [OF st [unfolded stale]] .
      note unf = sweep_spot_requests_def io_defs o Inr st stale none
      show ?thesis
      proof (cases "ids = []")
        case True
        then show ?thesis by (simp add: unf)
      next
        case False
        with good show ?thesis
          by (cases r2) (auto simp add: unf ca)
      qed
    qed
  qed
qed

text \<open>
  A clock that a pause moves by at least its length, and that an EC2 call does not turn back.
\<close>

definition clock_advances :: "'w ec2 \<Rightarrow> bool" where
  "clock_advances c \<longleftrightarrow>
     (\<forall>d w. 0 \<le> d \<longrightarrow> wall_clock c w + d \<le> wall_clock c (pause c d w)) \<and>
     (\<forall>ids w. wall_clock c w \<le> wall_clock c (snd (ec2_describe_instances c ids w)))"

lemma wait_gone_loop_returns:
  assumes "clock_advances c" and "deadline - wall_clock c w < 3 * of_nat fuel"
  shows "io_result (wait_gone_loop (Suc fuel) c ids deadline w) \<noteq> Inr None"
  using assms(2)
proof (induction fuel arbitrary: w)
  case 0
  then show ?case by (simp add: io_defs)
next
  case (Suc n)
  obtain r w1 where d: "ec2_describe_instances c ids w = (r, w1)" by fastforce
  have "wall_clock c w + 3 \<le> wall_clock c (pause c 3 w1)"
    using assms(1) d unfolding clock_advances_def
    by (metis (no_types) snd_conv zero_le_numeral add_right_mono order_trans)
  with Suc.prems have less: "deadline - wall_clock c (pause c 3 w1) < 3 * of_nat n"
    by (simp add: algebra_simps)
  from Suc.IH [OF less] show ?case
    using d by (cases r) (auto simp: wait_gone_loop.simps(2) [of "Suc n"] io_defs
        simp del: wait_gone_loop.simps split: list.splits prod.splits option.splits)
qed

definition seen_gone :: "'w ec2 \<Rightarrow> string list \<Rightarrow> bool" where
  "seen_gone c ids \<longleftrightarrow>
     (\<exists>w. case fst (ec2_describe_instances c ids w) of
        Inl e \<Rightarrow> is_client_error e | Inr got \<Rightarrow> still_live got = [])"

lemma seen_goneI:
  "ec2_describe_instances c ids w = (r, w1) \<Longrightarrow>
     (case r of Inl e \<Rightarrow> is_client_error e | Inr got \<Rightarrow> still_live got = []) \<Longrightarrow> seen_gone c ids"
  by (auto simp: seen_gone_def intro!: exI [of _ w])

lemma wait_gone_loop_answer:
  "case io_result (wait_gone_loop n c ids deadline w) of
      Inl e \<Rightarrow> \<not> is_client_error e
    | Inr None \<Rightarrow> True
    | Inr (Some b) \<Rightarrow> b \<longrightarrow> ids \<noteq> [] \<and> seen_gone c ids"
proof (induction n arbitrary: w)
  case 0
  then show ?case by (simp add: io_ret_def)
next
  case (Suc n)
  obtain r w1 where d: "ec2_describe_instances c ids w = (r, w1)" by fastforce
  show ?case
    using d Suc.IH [of "pause c 3 w1"] seen_goneI [OF d]
    by (cases r) (auto simp: io_defs split: list.splits prod.splits option.splits sum.splits if_splits)
qed

text \<open>
  \<open>wait_gone\<close> returns: on such a clock one round for every 3 seconds of the timeout, and one
  more, is enough. It answers True only when there was an instance to wait for and its last look
  found none of them live, or failed with a ClientError.
\<close>

theorem wait_gone_returns:
  assumes "clock_advances c" and "timeout < 3 * of_nat fuel"
  shows "case io_result (wait_gone (Suc fuel) c ids0 timeout w) of
      Inl e \<Rightarrow> \<not> is_client_error e
    | Inr None \<Rightarrow> False
    | Inr (Some b) \<Rightarrow> b \<longrightarrow> wanted ids0 \<noteq> [] \<and> seen_gone c (wanted ids0)"
proof -
  have "io_result (wait_gone_loop (Suc fuel) c (wanted ids0) (wall_clock c w + timeout) w) \<noteq> Inr None"
    by (rule wait_gone_loop_returns) (use assms in simp_all)
  then show ?thesis
    using wait_gone_loop_answer
      [where n = "Suc fuel" and ids = "wanted ids0" and deadline = "wall_clock c w + timeout" and c = c and w = w]
    by (auto simp: wait_gone_def Let_def io_bind_def io_ask_def wanted_def [symmetric]
        simp del: wait_gone_loop.simps split: prod.splits sum.splits option.splits)
qed

section \<open>A scripted EC2\<close>

text \<open>
  A small EC2 on which the properties' hypotheses hold: three subnets in three zones, and spot
  capacity in those subnets only that the world names. Its clock moves when the code pauses.
\<close>

record mock_world =
  mw_capacity :: "string list"
  mw_clock :: rat

definition mock_subnet :: "string \<Rightarrow> string \<Rightarrow> subnet" where
  "mock_subnet s z = \<lparr>sn_id = s, sn_az = z, sn_vpc = ''vpc''\<rparr>"

definition mock_inst :: "string \<Rightarrow> inst" where
  "mock_inst st = \<lparr>in_id = ''i-1'', in_state = st, in_reason = None, in_type = ''m5.large'',
     in_launch = 0, in_private_ip = None, in_zone = ''1b''\<rparr>"

definition mock_run :: "run_kwargs \<Rightarrow> mock_world \<Rightarrow> (exn + inst list) \<times> mock_world" where
  "mock_run kw w =
     (if kw_market kw = None \<or> show_opt (kw_subnet kw) \<in> set (mw_capacity w)
      then (Inr [mock_inst ''pending''], w)
      else (Inl (ClientError (Some ''InsufficientInstanceCapacity'') (Some ''no capacity'')), w))"

definition mock :: "mock_world ec2" where
  "mock = \<lparr>ec2_describe_subnet = (\<lambda>s w. (Inr [mock_subnet s ''1b''], w)),
     ec2_default_subnets = (\<lambda>v w. (Inr [mock_subnet ''sc'' ''1c'', mock_subnet ''sb'' ''1b'',
       mock_subnet ''sa'' ''1a''], w)),
     ec2_run_instances = mock_run,
     ec2_describe_instances = (\<lambda>ids w.
       (Inr [[mock_inst (if mw_clock w < 10 then ''shutting-down'' else ''terminated'')]], w)),
     ec2_terminate = (\<lambda>ids w. (Inr (), w)),
     ec2_spot_of = (\<lambda>ids w. (Inr [], w)),
     ec2_spot_open = (\<lambda>w. (Inr [\<lparr>sr_id = ''sir'', sr_instance = Some ''i-1'', sr_state = Some ''open''\<rparr>], w)),
     ec2_cancel_spot = (\<lambda>ids w. (Inr (), w)),
     s3_location = (\<lambda>b w. (Inr (Some ''eu-north-1''), w)),
     error_text = (\<lambda>e. ''error''),
     wall_clock = mw_clock,
     pause = (\<lambda>d w. w\<lparr>mw_clock := mw_clock w + d\<rparr>)\<rparr>"

definition mock_kw :: run_kwargs where
  "mock_kw = \<lparr>kw_subnet = Some ''sb'', kw_market = None, kw_image = Some ''ami'',
     kw_type = ''m5.large'', kw_user_data = [], kw_name = ''osv'', kw_bench = ''osv''\<rparr>"

lemma mock_clock: "clock_advances mock"
  by (simp add: clock_advances_def mock_def)

lemmas mock_simps = mock_def mock_run_def mock_kw_def mock_subnet_def mock_inst_def io_defs
  launch_def spot_subnets_def launch_in_def on_demand_def sweep_spot_requests_def request_stale_def
  first_instance_def given_def spot_options_def show_opt_def lookup_handler_def Let_def

lemma mock_zones:
  "spot_subnets mock (Some ''sb'') w =
     (Inr [(Some ''sb'', ''1b''), (Some ''sa'', ''1a''), (Some ''sc'', ''1c'')], w,
      [DescribeSubnet ''sb'', DescribeDefaultSubnets ''vpc''])"
  by (simp add: mock_simps)

theorem launch_falls_back_last_witness:
  "\<exists>zs0 w1 es1. spot_subnets mock (kw_subnet mock_kw) \<lparr>mw_capacity = [], mw_clock = 0\<rparr> = (Inr zs0, w1, es1) \<and>
     zs0 \<noteq> [] \<and> ''1b'' = snd (hd zs0) \<and>
     (\<exists>w2 w3. refused_all mock (spot_attempts (mock_kw\<lparr>kw_market := Some spot_options\<rparr>) zs0) w2 w3)"
proof -
  obtain r z w' es where run: "launch mock mock_kw ''spot-or-on-demand'' None \<lparr>mw_capacity = [], mw_clock = 0\<rparr>
      = (Inr (r, ''on-demand'', z), w', es)" and z: "z = ''1b''"
    by (simp add: mock_simps)
  from launch_falls_back_last [OF run] show ?thesis unfolding z by (auto simp: given_def Let_def)
qed

theorem launch_stays_in_pinned_zone_witness:
  "\<exists>r m w' es. launch mock mock_kw ''spot'' (Some ''1a'') \<lparr>mw_capacity = [''sa''], mw_clock = 0\<rparr>
     = (Inr (r, m, ''1a''), w', es)"
proof -
  let ?w = "\<lparr>mw_capacity = [''sa''], mw_clock = 0\<rparr> :: mock_world"
  obtain r m z w' es where run: "launch mock mock_kw ''spot'' (Some ''1a'') ?w = (Inr (r, m, z), w', es)"
    by (simp add: mock_simps)
  have zones: "spot_subnets mock (kw_subnet mock_kw) ?w =
     (Inr [(Some ''sb'', ''1b''), (Some ''sa'', ''1a''), (Some ''sc'', ''1c'')], ?w,
      [DescribeSubnet ''sb'', DescribeDefaultSubnets ''vpc''])"
    by (simp add: mock_zones mock_kw_def)
  from launch_stays_in_pinned_zone [OF run _ zones] run show ?thesis
    by (simp add: given_def)
qed

theorem spot_subnets_order_witness:
  "sorted (map snd (tl [(Some ''sb'', ''1b''), (Some ''sa'', ''1a''), (Some ''sc'', ''1c'')]))"
  using spot_subnets_order [OF mock_zones [of "\<lparr>mw_capacity = [], mw_clock = 0\<rparr>"]] by fastforce

theorem wait_gone_returns_witness:
  "io_result (wait_gone (Suc 41) mock [Some ''i-1''] 120 \<lparr>mw_capacity = [], mw_clock = 0\<rparr>) \<noteq> Inr None"
  using wait_gone_returns [OF mock_clock, of 120 41 "[Some ''i-1'']" "\<lparr>mw_capacity = [], mw_clock = 0\<rparr>"]
  by (auto simp del: wait_gone_loop.simps)

end
