(* ===== verification/QueueRun.thy ===== *)
theory QueueRun
  imports Cloud
begin

text \<open>
  The inner half of \<^verbatim>\<open>scripts/bench/runqueue.py\<close>: the queue's state, the operating system it
  runs on, and \<open>Runner.run_one\<close>, which keeps one experiment running until it is done, fails, or the
  queue ends. \<open>run_one\<close> is a state machine (\<open>pc\<close>), so that the sequential queue and the threads of
  a concurrent one run the same steps. The lock is not modelled: a step is atomic.
\<close>

section \<open>The queue's state\<close>

record exper =
  ex_name :: string
  ex_path :: string
  ex_status :: string
  ex_group :: nat
  ex_reps :: nat
  ex_attempts :: nat
  ex_refusals :: nat
  ex_last :: "string option"
  ex_axis :: string
  ex_values :: "string list"

record qstate =
  q_id :: string
  q_status :: string
  q_pid :: "int option"
  q_started :: rat
  q_ttl :: int
  q_deadline :: rat
  q_market :: string
  q_interleave :: bool
  q_concurrent :: bool
  q_retry_wait :: int
  q_exps :: "exper list"
  q_events :: "string list"
  q_updated :: "rat option"
  q_finished :: "rat option"

text \<open>
  What happens outside the process, in order: reads of the clock and of the flag the signal
  handlers set, drivers started, the state file replaced, signals, notifications.
\<close>

datatype qeff =
    Clock rat
  | StopFlag bool
  | Spawn "string list" string
  | Slept rat
  | Saved qstate
  | KillGroup int string
  | Kill int string
  | Notify string string
  | Aws aws
  | Describe string
  | Deregister string
  | DeleteSnapshot string

text \<open>
  The operating system. A read may take time and the flag may be set between any two statements,
  so both return a new world. \<open>os_kill\<close> and \<open>os_killpg\<close> include the case the code ignores, that
  the process is gone. \<open>os_procs\<close> is what \<^verbatim>\<open>/proc\<close> shows: pid, parent and command line.
\<close>

record 'w os =
  os_python :: string
  os_root :: string
  os_now :: "'w \<Rightarrow> rat \<times> 'w"
  os_stop :: "'w \<Rightarrow> bool \<times> 'w"
  os_spawn :: "string list \<Rightarrow> string \<Rightarrow> 'w \<Rightarrow> (exn + int) \<times> 'w"
  os_poll :: "int \<Rightarrow> 'w \<Rightarrow> int option \<times> 'w"
  os_sleep :: "rat \<Rightarrow> 'w \<Rightarrow> 'w"
  os_read :: "string \<Rightarrow> 'w \<Rightarrow> (exn + string) \<times> 'w"
  os_procs :: "'w \<Rightarrow> (int \<times> int \<times> string) list \<times> 'w"
  os_killpg :: "int \<Rightarrow> string \<Rightarrow> 'w \<Rightarrow> 'w"
  os_kill :: "int \<Rightarrow> string \<Rightarrow> 'w \<Rightarrow> 'w"
  os_alive :: "int \<Rightarrow> 'w \<Rightarrow> bool \<times> 'w"

text \<open>The world of a \<open>Runner\<close>: the outside and its own fields \<open>state\<close> and \<open>children\<close>.\<close>

record 'w qworld =
  qw_os :: 'w
  qw_q :: qstate
  qw_children :: "int dict"

type_synonym ('w, 'a) q = "('w qworld, qeff, 'a) io"

text \<open>An operation of the outside as one of the runner.\<close>

definition on_os :: "('w, qeff, 'a) io \<Rightarrow> ('w, 'a) q" where
  "on_os m = (\<lambda>w. case m (qw_os w) of (r, u, cs) \<Rightarrow> (r, w\<lparr>qw_os := u\<rparr>, cs))"

definition now_time :: "'w os \<Rightarrow> ('w, rat) q" where
  "now_time s = on_os (\<lambda>u. case os_now s u of (t, u') \<Rightarrow> (Inr t, u', [Clock t]))"

definition stopping :: "'w os \<Rightarrow> ('w, bool) q" where
  "stopping s = on_os (\<lambda>u. case os_stop s u of (b, u') \<Rightarrow> (Inr b, u', [StopFlag b]))"

definition sleep_for :: "'w os \<Rightarrow> rat \<Rightarrow> ('w, unit) q" where
  "sleep_for s d = on_os (\<lambda>u. (Inr (), os_sleep s d u, [Slept d]))"

definition get_q :: "('w, qstate) q" where
  "get_q = io_ask qw_q"

definition mod_q :: "(qstate \<Rightarrow> qstate) \<Rightarrow> ('w, unit) q" where
  "mod_q f = (\<lambda>w. (Inr (), w\<lparr>qw_q := f (qw_q w)\<rparr>, []))"

definition mod_children :: "(int dict \<Rightarrow> int dict) \<Rightarrow> ('w, unit) q" where
  "mod_children f = (\<lambda>w. (Inr (), w\<lparr>qw_children := f (qw_children w)\<rparr>, []))"

text \<open>The experiment dictionaries are shared: \<open>x\<close> is an index into the state's list.\<close>

definition get_exp :: "nat \<Rightarrow> ('w, exper) q" where
  "get_exp i = io_ask (\<lambda>w. q_exps (qw_q w) ! i)"

definition mod_exp :: "nat \<Rightarrow> (exper \<Rightarrow> exper) \<Rightarrow> ('w, unit) q" where
  "mod_exp i f = mod_q (\<lambda>q. q\<lparr>q_exps := (q_exps q)[i := f (q_exps q ! i)]\<rparr>)"

text \<open>\<open>save\<close> updates the state and replaces the state file; \<open>event\<close> appends a stamped line.\<close>

definition save :: "'w os \<Rightarrow> (qstate \<Rightarrow> qstate) \<Rightarrow> ('w, unit) q" where
  "save s f =
     io_seq (mod_q f)
       (io_bind (now_time s) (\<lambda>t.
        io_seq (mod_q (\<lambda>q. q\<lparr>q_updated := Some t\<rparr>))
          (io_bind get_q (\<lambda>q. io_emit (Saved q)))))"

definition event :: "'w os \<Rightarrow> string \<Rightarrow> ('w, unit) q" where
  "event s msg =
     io_bind (now_time s) (\<lambda>t. mod_q (\<lambda>q. q\<lparr>q_events := q_events q @ [stamp t @ '' '' @ msg]\<rparr>))"

section \<open>Paths\<close>

definition path_name :: "string \<Rightarrow> string" where
  "path_name p = last (split_on CHR ''/'' p)"

text \<open>\<open>Path(p).stem\<close>: the name without its last suffix; a dot at either end makes no suffix.\<close>

definition path_stem :: "string \<Rightarrow> string" where
  "path_stem p =
     (let n = path_name p; parts = split_on CHR ''.'' n; front = join ''.'' (butlast parts)
      in if length parts < 2 \<or> front = [] \<or> last parts = [] then n else front)"

section \<open>Ending the children\<close>

text \<open>
  \<open>descendants\<close>: the processes below a pid, by a stack of pids to look at. The walk runs on fuel,
  one unit per pid it takes from the stack.
\<close>

definition kids :: "(int \<times> int \<times> string) list \<Rightarrow> int \<Rightarrow> int list" where
  "kids tab p = map fst (filter (\<lambda>(_, pp, _). pp = p) tab)"

definition cmd_of :: "(int \<times> int \<times> string) list \<Rightarrow> int \<Rightarrow> string" where
  "cmd_of tab p = (case filter (\<lambda>(k, _). k = p) tab of [] \<Rightarrow> [] | (_, _, c) # _ \<Rightarrow> c)"

fun descend ::
  "nat \<Rightarrow> (int \<times> int \<times> string) list \<Rightarrow> int list \<Rightarrow> (int \<times> string) list \<Rightarrow> (int \<times> string) list option" where
  "descend n tab [] out = Some out"
| "descend 0 tab (t # ts) out = None"
| "descend (Suc n) tab (t # ts) out =
     (let p = last (t # ts); ks = kids tab p
      in descend n tab (butlast (t # ts) @ ks) (out @ map (\<lambda>k. (k, cmd_of tab k)) ks))"

definition descendants :: "(int \<times> int \<times> string) list \<Rightarrow> int \<Rightarrow> (int \<times> string) list option" where
  "descendants tab pid = descend (Suc (length tab)) tab [pid] []"

definition is_deploy :: "int \<times> string \<Rightarrow> bool" where
  "is_deploy pc \<longleftrightarrow> is_infix ''aws-deploy.py'' (snd pc)"

definition kill_group :: "'w os \<Rightarrow> string \<Rightarrow> int \<Rightarrow> ('w, unit) q" where
  "kill_group s sig p = on_os (\<lambda>u. (Inr (), os_killpg s p sig u, [KillGroup p sig]))"

definition kill_one :: "'w os \<Rightarrow> string \<Rightarrow> int \<Rightarrow> ('w, unit) q" where
  "kill_one s sig p = on_os (\<lambda>u. (Inr (), os_kill s p sig u, [Kill p sig]))"

definition end_driver :: "'w os \<Rightarrow> int \<Rightarrow> ('w, int list) q" where
  "end_driver s child =
     io_bind (on_os (\<lambda>u. case os_procs s u of (tab, u') \<Rightarrow> (Inr tab, u', []))) (\<lambda>tab.
       let pids = (case descendants tab child of Some l \<Rightarrow> l | None \<Rightarrow> []);
           mine = map fst (filter is_deploy pids)
       in io_seq (io_for (kill_group s ''SIGINT'') mine)
          (io_seq (io_for (kill_one s ''SIGTERM'') (filter (\<lambda>p. p \<notin> set mine) (map fst pids)))
          (io_seq (kill_group s ''SIGTERM'' child) (io_ret mine))))"

fun end_drivers :: "'w os \<Rightarrow> int list \<Rightarrow> ('w, int list) q" where
  "end_drivers s [] = io_ret []"
| "end_drivers s (c # cs) =
     io_bind (end_driver s c) (\<lambda>mine. io_bind (end_drivers s cs) (\<lambda>rest. io_ret (mine @ rest)))"

fun any_alive :: "'w os \<Rightarrow> int list \<Rightarrow> ('w, bool) q" where
  "any_alive s [] = io_ret False"
| "any_alive s (p # ps) =
     io_bind (on_os (\<lambda>u. case os_alive s p u of (b, u') \<Rightarrow> (Inr b, u', [])))
       (\<lambda>b. if b then io_ret True else any_alive s ps)"

text \<open>The wait for the deploys; False when the fuel ran out first.\<close>

fun end_wait :: "nat \<Rightarrow> 'w os \<Rightarrow> int list \<Rightarrow> rat \<Rightarrow> ('w, bool) q" where
  "end_wait 0 s ps until = io_ret False"
| "end_wait (Suc n) s ps until =
     io_bind (now_time s) (\<lambda>t.
       if t < until
       then io_bind (any_alive s ps) (\<lambda>b.
              if b then io_seq (sleep_for s 2) (end_wait n s ps until) else io_ret True)
       else io_ret True)"

definition end_child :: "'w os \<Rightarrow> ('w, unit) q" where
  "end_child s =
     io_bind (io_ask (map snd \<circ> qw_children)) (\<lambda>children.
     io_seq (mod_children (\<lambda>_. []))
       (if children = [] then io_ret ()
        else io_bind (end_drivers s children) (\<lambda>deploys.
             io_bind (now_time s) (\<lambda>t.
             io_seq (io_bind (end_wait 46 s deploys (t + 90)) (\<lambda>_. io_ret ())) (io_ret ())))))"

section \<open>Running one experiment\<close>

definition credentials_gone :: "string list" where
  "credentials_gone = [''ExpiredToken'', ''LoginRefreshRequired'', ''refresh token has expired'', ''RequestExpired'']"

definition spot_refused :: string where
  "spot_refused = ''spot requested but not provided''"

text \<open>Where \<open>run_one\<close> is: before an attempt, watching its driver, or waiting before the next attempt.\<close>

datatype pc = Top | Watching int | Backoff rat | Finished string

definition run_cmd :: "'w os \<Rightarrow> qstate \<Rightarrow> exper \<Rightarrow> nat \<Rightarrow> bool \<Rightarrow> string option \<Rightarrow> string list" where
  "run_cmd s q x reps plot only =
     [os_python s, os_root s @ ''/scripts/bench/experiment.py'', ex_path x,
      ''--reps'', show_nat reps, ''--market'', q_market q]
     @ (if given only then [''--only'', the only] else [])
     @ (if plot then [] else [''--no-plot''])"

definition log_name :: "exper \<Rightarrow> string" where
  "log_name x = path_stem (ex_path x) @ ''.log''"

definition attempt :: "'w os \<Rightarrow> nat \<Rightarrow> nat \<Rightarrow> bool \<Rightarrow> string option \<Rightarrow> ('w, pc) q" where
  "attempt s i reps plot only =
     io_bind (stopping s) (\<lambda>b. if b then io_ret (Finished ''stopped'') else
     io_bind (now_time s) (\<lambda>t. io_bind get_q (\<lambda>q.
     if t \<ge> q_deadline q then io_ret (Finished ''expired'') else
     io_seq (mod_exp i (\<lambda>x. x\<lparr>ex_attempts := ex_attempts x + 1\<rparr>))
     (io_seq (mod_exp i (\<lambda>x. x\<lparr>ex_status := ''running''\<rparr>))
     (io_seq (save s (\<lambda>q. q\<lparr>q_status := ''running''\<rparr>))
     (io_bind (now_time s) (\<lambda>_. io_bind get_q (\<lambda>q. io_bind (get_exp i) (\<lambda>x.
     let cmd = run_cmd s q x reps plot only in
     io_bind (on_os (io_call (Spawn cmd (log_name x)) (os_spawn s cmd (log_name x)))) (\<lambda>pid.
     io_seq (mod_children (dict_set (ex_name x) pid)) (io_ret (Watching pid))))))))))))"

text \<open>After the driver exited: done, or what the last 4000 characters of its log say.\<close>

definition read_log :: "'w os \<Rightarrow> nat \<Rightarrow> string \<Rightarrow> ('w, pc) q" where
  "read_log s i file =
     io_bind (on_os (\<lambda>u. case os_read s file u of (r, u') \<Rightarrow> (r, u', []))) (\<lambda>text.
       let tail = last_chars 4000 text in
       if list_ex (\<lambda>m. is_infix m tail) credentials_gone
       then io_seq (mod_exp i (\<lambda>x. x\<lparr>ex_status := ''credentials expired'', ex_last := Some (last_chars 600 tail)\<rparr>))
              (io_ret (Finished ''credentials''))
       else if is_infix spot_refused tail
       then io_seq (mod_exp i (\<lambda>x. x\<lparr>ex_refusals := ex_refusals x + 1, ex_status := ''waiting for spot''\<rparr>))
            (io_seq (save s (\<lambda>q. q\<lparr>q_status := ''waiting for spot''\<rparr>))
            (io_bind (get_exp i) (\<lambda>x. io_bind get_q (\<lambda>q.
             io_seq (event s (ex_name x @ '': no spot in any zone ('' @ show_nat (ex_refusals x)
               @ ''x); retrying in '' @ show_int (q_retry_wait q) @ '' s''))
             (io_bind (now_time s) (\<lambda>t.
              io_ret (Backoff (min (t + of_int (q_retry_wait q)) (q_deadline q)))))))))
       else io_seq (mod_exp i (\<lambda>x. x\<lparr>ex_status := ''failed'', ex_last := Some (last_chars 600 tail)\<rparr>))
              (io_ret (Finished ''failed'')))"

definition settle :: "'w os \<Rightarrow> nat \<Rightarrow> int \<Rightarrow> ('w, pc) q" where
  "settle s i rc =
     io_bind (get_exp i) (\<lambda>x.
     io_seq (mod_children (dict_del (ex_name x)))
     (if rc = 0 then io_seq (mod_exp i (\<lambda>x. x\<lparr>ex_status := ''done''\<rparr>)) (io_ret (Finished ''done''))
      else read_log s i (log_name x)))"

definition over :: "'w os \<Rightarrow> ('w, bool) q" where
  "over s = io_bind (stopping s) (\<lambda>b. if b then io_ret True else
     io_bind (now_time s) (\<lambda>t. io_bind get_q (\<lambda>q. io_ret (t \<ge> q_deadline q))))"

definition watch :: "'w os \<Rightarrow> nat \<Rightarrow> int \<Rightarrow> ('w, pc) q" where
  "watch s i pid =
     io_bind (on_os (\<lambda>u. case os_poll s pid u of (r, u') \<Rightarrow> (Inr r, u', []))) (\<lambda>r. case r of
       Some rc \<Rightarrow> settle s i rc
     | None \<Rightarrow> io_bind (over s) (\<lambda>b.
         if b then io_seq (end_child s) (io_bind (stopping s) (\<lambda>st.
                io_ret (Finished (if st then ''stopped'' else ''expired''))))
         else io_seq (sleep_for s 5) (io_ret (Watching pid))))"

definition backoff :: "'w os \<Rightarrow> rat \<Rightarrow> ('w, pc) q" where
  "backoff s until =
     io_bind (now_time s) (\<lambda>t.
     if t < until
     then io_bind (stopping s) (\<lambda>b.
            if b then io_ret Top else io_seq (sleep_for s 5) (io_ret (Backoff until)))
     else io_ret Top)"

fun run_step :: "'w os \<Rightarrow> nat \<Rightarrow> nat \<Rightarrow> bool \<Rightarrow> string option \<Rightarrow> pc \<Rightarrow> ('w, pc) q" where
  "run_step s i reps plot only Top = attempt s i reps plot only"
| "run_step s i reps plot only (Watching pid) = watch s i pid"
| "run_step s i reps plot only (Backoff until) = backoff s until"
| "run_step s i reps plot only (Finished v) = io_ret (Finished v)"

text \<open>\<open>run_one\<close> on fuel, one unit per step; None when the fuel runs out.\<close>

fun run_from ::
  "nat \<Rightarrow> 'w os \<Rightarrow> nat \<Rightarrow> nat \<Rightarrow> bool \<Rightarrow> string option \<Rightarrow> pc \<Rightarrow> ('w, string option) q" where
  "run_from n s i reps plot only (Finished v) = io_ret (Some v)"
| "run_from 0 s i reps plot only p = io_ret None"
| "run_from (Suc n) s i reps plot only p =
     io_bind (run_step s i reps plot only p) (run_from n s i reps plot only)"

definition run_one ::
  "nat \<Rightarrow> 'w os \<Rightarrow> nat \<Rightarrow> nat \<Rightarrow> bool \<Rightarrow> string option \<Rightarrow> ('w, string option) q" where
  "run_one fuel s i reps plot only = run_from fuel s i reps plot only Top"

section \<open>What every step leaves alone\<close>

text \<open>The part of the state that is fixed when the queue is submitted.\<close>

definition static_exp :: "exper \<Rightarrow> string \<times> string \<times> nat \<times> nat \<times> string \<times> string list" where
  "static_exp x = (ex_name x, ex_path x, ex_group x, ex_reps x, ex_axis x, ex_values x)"

definition static :: "qstate \<Rightarrow> _" where
  "static q = (q_id q, q_started q, q_deadline q, q_market q, q_interleave q, q_concurrent q,
     q_retry_wait q, map static_exp (q_exps q))"

lemma static_deadline: "static q = static q' \<Longrightarrow> q_deadline q = q_deadline q'"
  by (simp add: static_def)

lemma static_length: "static q = static q' \<Longrightarrow> length (q_exps q) = length (q_exps q')"
  unfolding static_def by (metis length_map prod.inject)

lemma static_updates [simp]:
  "static (q\<lparr>q_updated := u\<rparr>) = static q" "static (q\<lparr>q_events := e\<rparr>) = static q"
  "static (q\<lparr>q_status := t\<rparr>) = static q" "static (q\<lparr>q_pid := p\<rparr>) = static q"
  "static (q\<lparr>q_finished := u\<rparr>) = static q"
  by (simp_all add: static_def)

lemma static_exps_update:
  "xs = q_exps q \<Longrightarrow> static_exp x = static_exp (q_exps q ! i) \<Longrightarrow>
     static (q\<lparr>q_exps := xs[i := x]\<rparr>) = static q"
  by (cases "i < length (q_exps q)")
    (auto simp: static_def map_update list_update_same_conv list_update_beyond)

lemma attempts_update:
  "map ex_attempts (xs[i := x]) = (map ex_attempts xs)[i := ex_attempts x]"
  by (simp add: map_update)

fun is_spawn :: "qeff \<Rightarrow> bool" where
  "is_spawn (Spawn _ _) = True"
| "is_spawn _ = False"

text \<open>A quiet operation starts nothing, counts no attempt and keeps the fixed part.\<close>

definition quiet :: "'w qworld \<Rightarrow> qeff list \<Rightarrow> 'w qworld \<Rightarrow> bool" where
  "quiet w es w' \<longleftrightarrow> static (qw_q w') = static (qw_q w) \<and>
     map ex_attempts (q_exps (qw_q w')) = map ex_attempts (q_exps (qw_q w)) \<and> \<not> list_ex is_spawn es"

interpretation quiet: trace_relation quiet
  by unfold_locales (auto simp: quiet_def)

lemma static_exps:
  "map static_exp (q_exps q') = map static_exp (q_exps q) \<Longrightarrow> static (q\<lparr>q_exps := q_exps q'\<rparr>) = static q"
  by (simp add: static_def)

lemma list_update_map: "f (g (xs ! i)) = f (xs ! i) \<Longrightarrow> map f (xs[i := g (xs ! i)]) = map f xs"
  by (cases "i < length xs") (simp_all add: map_update list_update_same_conv list_update_beyond)

lemma quiet_mod_exp:
  assumes "\<And>x. static_exp (f x) = static_exp x" "\<And>x. ex_attempts (f x) = ex_attempts x"
  shows "traced quiet (mod_exp i f)"
  using assms by (auto simp: traced_def mod_exp_def mod_q_def quiet_def static_def list_update_map)

lemma quiet_mod_q:
  assumes "\<And>q. static (f q) = static q" "\<And>q. map ex_attempts (q_exps (f q)) = map ex_attempts (q_exps q)"
  shows "traced quiet (mod_q f)"
  using assms by (auto simp: traced_def mod_q_def quiet_def)

lemma quiet_on_os: "emits (\<lambda>e. \<not> is_spawn e) m \<Longrightarrow> traced quiet (on_os m)"
  by (auto simp: traced_def on_os_def quiet_def list_ex_iff dest: emits_run split: prod.splits)

lemma quiet_now: "traced quiet (now_time s)"
  by (auto simp: traced_def now_time_def on_os_def quiet_def split: prod.splits)

lemma quiet_stopping: "traced quiet (stopping s)"
  by (auto simp: traced_def stopping_def on_os_def quiet_def split: prod.splits)

lemma quiet_sleep: "traced quiet (sleep_for s d)"
  by (auto simp: traced_def sleep_for_def on_os_def quiet_def split: prod.splits)

lemma quiet_get: "traced quiet get_q" "traced quiet (get_exp i)"
  by (simp_all add: get_q_def get_exp_def quiet.traced_ask)

lemma quiet_children: "traced quiet (mod_children f)"
  by (simp add: traced_def mod_children_def quiet_def)

lemma quiet_emit: "\<not> is_spawn e \<Longrightarrow> traced quiet (io_emit e)"
  by (simp add: traced_def io_emit_def quiet_def)

lemma quiet_save:
  assumes "\<And>q. static (f q) = static q" "\<And>q. map ex_attempts (q_exps (f q)) = map ex_attempts (q_exps q)"
  shows "traced quiet (save s f)"
  unfolding save_def
  by (intro quiet.traced_rules quiet_mod_q quiet_now quiet_get quiet_emit)
    (simp_all add: assms)

lemma quiet_event: "traced quiet (event s msg)"
  unfolding event_def by (intro quiet.traced_rules quiet_mod_q quiet_now) simp_all

lemma quiet_read:
  "traced quiet (on_os (\<lambda>u. case f u of (r, u') \<Rightarrow> (g r, u', [])))"
  by (auto simp: traced_def on_os_def quiet_def split: prod.splits)

lemma quiet_kill: "traced quiet (kill_group s sg p)" "traced quiet (kill_one s sg p)"
  by (auto simp: traced_def kill_group_def kill_one_def on_os_def quiet_def)

lemmas quiet_intros = quiet.traced_rules quiet_now quiet_stopping quiet_sleep quiet_get quiet_children
  quiet_event quiet_read quiet_kill

lemma quiet_end_drivers: "traced quiet (end_drivers s cs)"
  by (induction cs) (auto simp: end_driver_def Let_def intro!: quiet_intros)

lemma quiet_any_alive: "traced quiet (any_alive s ps)"
  by (induction ps) (auto intro!: quiet_intros)

lemma quiet_end_wait: "traced quiet (end_wait n s ps until)"
  by (induction n) (auto intro!: quiet_intros quiet_any_alive)

lemma quiet_end_child: "traced quiet (end_child s)"
  unfolding end_child_def by (intro quiet_intros quiet_end_drivers quiet_end_wait)

lemma quiet_over: "traced quiet (over s)"
  unfolding over_def by (intro quiet_intros)

lemma quiet_read_log: "traced quiet (read_log s i file)"
  unfolding read_log_def Let_def
  by (intro quiet_intros quiet_mod_exp quiet_save) (simp_all add: static_exp_def)

lemma quiet_settle: "traced quiet (settle s i rc)"
  unfolding settle_def
  by (intro quiet_intros quiet_mod_exp quiet_read_log) (simp_all add: static_exp_def)

lemma quiet_watch: "traced quiet (watch s i pid)"
  unfolding watch_def
  by (intro quiet.traced_bind quiet_read) (auto split: option.splits intro!: quiet_intros quiet_settle quiet_over quiet_end_child)

lemma quiet_backoff: "traced quiet (backoff s until)"
  unfolding backoff_def by (intro quiet_intros)

section \<open>Attempts\<close>

text \<open>
  \<open>guarded dl p k es\<close>: each driver started in \<open>es\<close> comes after a read of the flag that said False
  and then a read of the clock that said before \<open>dl\<close>, with no wait and no other start between.
  \<open>p\<close> and \<open>k\<close> are how far into that check the effects before \<open>es\<close> got.
\<close>

fun guarded :: "rat \<Rightarrow> bool \<Rightarrow> bool \<Rightarrow> qeff list \<Rightarrow> bool" where
  "guarded dl p k [] = True"
| "guarded dl p k (StopFlag b # es) = guarded dl (\<not> b) (k \<and> \<not> b) es"
| "guarded dl p k (Clock t # es) = guarded dl False (k \<or> p \<and> t < dl) es"
| "guarded dl p k (Slept d # es) = guarded dl False False es"
| "guarded dl p k (Spawn c l # es) = (k \<and> guarded dl False False es)"
| "guarded dl p k (e # es) = guarded dl p k es"

lemma guarded_mono: "guarded dl p k es \<Longrightarrow> (p \<longrightarrow> p') \<Longrightarrow> (k \<longrightarrow> k') \<Longrightarrow> guarded dl p' k' es"
proof (induction es arbitrary: p k p' k')
  case (Cons e es)
  from Cons.prems show ?case
    by (cases e) (auto elim!: Cons.IH)
qed simp

lemma guarded_append: "guarded dl p k es \<Longrightarrow> guarded dl False False es' \<Longrightarrow> guarded dl p k (es @ es')"
  by (induction dl p k es rule: guarded.induct) (auto intro: guarded_mono)

lemma guarded_quiet: "\<not> list_ex is_spawn es \<Longrightarrow> guarded dl p k es"
  by (induction dl p k es rule: guarded.induct) auto

text \<open>
  \<open>tracked i\<close>: the fixed part is kept, only experiment \<open>i\<close> counts attempts, one for each driver
  started, and every start is guarded by the queue's deadline.
\<close>

definition tracked :: "nat \<Rightarrow> 'w qworld \<Rightarrow> qeff list \<Rightarrow> 'w qworld \<Rightarrow> bool" where
  "tracked i w es w' \<longleftrightarrow> static (qw_q w') = static (qw_q w) \<and>
     map ex_attempts (q_exps (qw_q w')) =
       (map ex_attempts (q_exps (qw_q w)))[i := map ex_attempts (q_exps (qw_q w)) ! i + length (filter is_spawn es)] \<and>
     guarded (q_deadline (qw_q w)) False False es"

lemma quiet_tracked: "quiet w es w' \<Longrightarrow> tracked i w es w'"
  by (auto simp: quiet_def tracked_def guarded_quiet list_ex_iff filter_empty_conv)

interpretation tracked: trace_relation "tracked i"
proof
  fix w :: "'w qworld"
  show "tracked i w [] w" by (simp add: tracked_def)
next
  fix w w1 w2 :: "'w qworld" and es es'
  assume "tracked i w es w1" "tracked i w1 es' w2"
  moreover from this have "length (q_exps (qw_q w1)) = length (q_exps (qw_q w))"
    by (auto simp: tracked_def dest: static_length)
  ultimately show "tracked i w (es @ es') w2"
    by (cases "i < length (q_exps (qw_q w))")
      (auto simp: tracked_def list_update_beyond nth_list_update add.assoc intro!: guarded_append dest: static_deadline)
qed

lemma tracked_quiet: "traced quiet m \<Longrightarrow> traced (tracked i) m"
  by (erule traced_mono) (rule quiet_tracked)

lemmas queue_prims = now_time_def stopping_def sleep_for_def on_os_def get_q_def mod_q_def
  mod_children_def get_exp_def mod_exp_def

lemma tracked_attempt: "traced (tracked i) (attempt s i reps plot only)"
proof (rule tracedI)
  fix w r w' es
  assume run: "attempt s i reps plot only w = (r, w', es)"
  obtain b u1 where st: "os_stop s (qw_os w) = (b, u1)" by fastforce
  obtain t u2 where nw: "os_now s u1 = (t, u2)" by fastforce
  note unf = attempt_def queue_prims save_def io_defs st
  show "tracked i w es w'"
  proof (cases "b \<or> t \<ge> q_deadline (qw_q w)")
    case True
    with run show ?thesis by (auto simp: unf nw tracked_def split: if_splits)
  next
    case False
    obtain t3 u3 where n3: "os_now s u2 = (t3, u3)" by fastforce
    obtain t4 u4 where n4: "os_now s u3 = (t4, u4)" by fastforce
    from False run show ?thesis
      by (cases "i < length (q_exps (qw_q w))")
        (auto simp: unf nw n3 n4 Let_def tracked_def static_exps_update static_exp_def attempts_update
           list_update_beyond nth_list_update split: prod.splits sum.splits)
  qed
qed

lemma tracked_step: "traced (tracked i) (run_step s i reps plot only p)"
  by (cases p) (auto intro: tracked_attempt tracked_quiet quiet_watch quiet_backoff tracked.traced_ret)

lemma tracked_run_from: "traced (tracked i) (run_from n s i reps plot only p)"
proof (induction n arbitrary: p)
  case 0
  then show ?case by (cases p) (auto intro: tracked.traced_ret)
next
  case (Suc n)
  then show ?case by (cases p) (auto intro!: tracked.traced_rules tracked_attempt tracked_step simp del: run_step.simps)
qed

text \<open>
  No driver is started late: every driver \<open>run_one\<close> starts comes after it found, since its
  last wait, that nobody asked it to stop and that the queue's deadline was still ahead; it counts
  one attempt for each driver it starts, and changes no other experiment's count.
\<close>

theorem run_one_starts_guarded:
  "(case run_one fuel s i reps plot only w of (r, w', es) \<Rightarrow>
     guarded (q_deadline (qw_q w)) False False es \<and>
     map ex_attempts (q_exps (qw_q w')) =
       (map ex_attempts (q_exps (qw_q w)))[i := map ex_attempts (q_exps (qw_q w)) ! i + length (filter is_spawn es)])"
proof -
  obtain r w' es where run: "run_one fuel s i reps plot only w = (r, w', es)" by (metis prod_cases3)
  from traced_run [OF tracked_run_from run [unfolded run_one_def]] show ?thesis
    by (simp add: run tracked_def)
qed

section \<open>Children\<close>

text \<open>
  With one experiment in flight, \<open>children\<close> holds the driver \<open>run_one\<close> watches and nothing else.
\<close>

definition tends :: "'w qworld \<Rightarrow> string \<Rightarrow> pc \<Rightarrow> bool" where
  "tends w name p \<longleftrightarrow> (case p of Watching pid \<Rightarrow> qw_children w = [(name, pid)] | _ \<Rightarrow> qw_children w = [])"

text \<open>An operation that leaves \<open>children\<close> and the names alone.\<close>

definition keeps_children :: "'w qworld \<Rightarrow> qeff list \<Rightarrow> 'w qworld \<Rightarrow> bool" where
  "keeps_children w es w' \<longleftrightarrow> qw_children w' = qw_children w"

interpretation kc: trace_relation keeps_children
  by unfold_locales (auto simp: keeps_children_def)

lemma kc_prims:
  "traced keeps_children (on_os m)" "traced keeps_children (now_time s)" "traced keeps_children (stopping s)"
  "traced keeps_children (sleep_for s d)" "traced keeps_children get_q" "traced keeps_children (get_exp i)"
  "traced keeps_children (mod_q f)" "traced keeps_children (mod_exp i g)" "traced keeps_children (io_emit e)"
  by (auto simp: traced_def keeps_children_def queue_prims io_ask_def io_emit_def split: prod.splits)

lemma kc_save: "traced keeps_children (save s f)" "traced keeps_children (event s msg)"
  unfolding save_def event_def by (intro kc.traced_rules kc_prims)+

lemma kc_kill: "traced keeps_children (kill_group s sg p)" "traced keeps_children (kill_one s sg p)"
  by (simp_all add: kill_group_def kill_one_def kc_prims)

lemmas kc_intros = kc.traced_rules kc_prims kc_save kc_kill

lemma kc_end_drivers: "traced keeps_children (end_drivers s cs)"
  by (induction cs) (auto simp: end_driver_def Let_def intro!: kc_intros)

lemma kc_any_alive: "traced keeps_children (any_alive s ps)"
  by (induction ps) (auto intro!: kc_intros)

lemma kc_end_wait: "traced keeps_children (end_wait n s ps until)"
  by (induction n) (auto intro!: kc_intros kc_any_alive)

lemma kc_over: "traced keeps_children (over s)"
  unfolding over_def by (intro kc_intros)

lemma kc_backoff: "traced keeps_children (backoff s until)"
  unfolding backoff_def by (intro kc_intros)

text \<open>What \<open>children\<close> holds while experiment \<open>i\<close>, called \<open>name\<close>, runs.\<close>

definition tended :: "nat \<Rightarrow> string \<Rightarrow> int dict \<Rightarrow> 'w qworld \<Rightarrow> bool" where
  "tended i name cs w \<longleftrightarrow>
     qw_children w = cs \<and> i < length (q_exps (qw_q w)) \<and> ex_name (q_exps (qw_q w) ! i) = name"

lemma static_name:
  "static q = static q' \<Longrightarrow> i < length (q_exps q) \<Longrightarrow> ex_name (q_exps q ! i) = ex_name (q_exps q' ! i)"
  unfolding static_def static_exp_def by (auto simp: list_eq_iff_nth_eq map_equality_iff)

lemma calm_achieves:
  assumes "traced quiet m" "traced keeps_children m"
  shows "achieves (tended i name cs) m (\<lambda>_. tended i name cs)"
proof (rule achievesI)
  fix w x w' es assume t: "tended i name cs w" and run: "m w = (Inr x, w', es)"
  from traced_run [OF assms(1) run] have "static (qw_q w) = static (qw_q w')" by (simp add: quiet_def)
  with t static_name [OF this] static_length [OF this] traced_run [OF assms(2) run]
  show "tended i name cs w'" by (auto simp: tended_def keeps_children_def)
qed

lemma achieves_children:
  "achieves (tended i name cs) (mod_children f) (\<lambda>_. tended i name (f cs))"
  by (simp add: achieves_def mod_children_def tended_def)

lemma end_child_clears: "achieves (tended i name cs) (end_child s) (\<lambda>_. tended i name [])"
  unfolding end_child_def
  by (rule achieves_bind [OF calm_achieves [OF quiet.traced_ask kc.traced_ask]],
      rule achieves_seq [OF achieves_children], rule calm_achieves)
    (intro quiet_intros quiet_end_drivers quiet_end_wait kc_intros kc_end_drivers kc_end_wait)+

lemma achieves_get_exp:
  "achieves (tended i name cs) (get_exp i) (\<lambda>x w. tended i name cs w \<and> ex_name x = name)"
  by (simp add: achieves_def get_exp_def io_ask_def tended_def)

text \<open>Nothing but an attempt starts watching, and only what was being watched goes on being watched.\<close>

lemma yields_read_log: "yields (\<lambda>p. \<forall>pid. p \<noteq> Watching pid) (read_log s i file)"
  unfolding read_log_def Let_def by (intro yields_intros) simp_all

lemma yields_settle: "yields (\<lambda>p. \<forall>pid. p \<noteq> Watching pid) (settle s i rc)"
  unfolding settle_def by (intro yields_intros yields_read_log) simp_all

lemma yields_backoff: "yields (\<lambda>p. \<forall>pid. p \<noteq> Watching pid) (backoff s until)"
  unfolding backoff_def by (intro yields_intros) simp_all

lemma kc_read_log: "traced keeps_children (read_log s i file)"
  unfolding read_log_def Let_def by (intro kc_intros)

lemma settle_clears:
  "achieves (tended i name [(name, pid)]) (settle s i rc) (\<lambda>_. tended i name [])"
  unfolding settle_def
proof (rule achieves_bind [OF achieves_get_exp achieves_pure], rule achieves_seq [OF achieves_children])
  fix x :: exper assume "ex_name x = name"
  then have del: "dict_del (ex_name x) [(name, pid)] = []" by (simp add: dict_del_def)
  show "achieves (tended i name (dict_del (ex_name x) [(name, pid)]))
     (if rc = 0 then io_seq (mod_exp i (\<lambda>x. x\<lparr>ex_status := ''done''\<rparr>)) (io_ret (Finished ''done''))
      else read_log s i (log_name x)) (\<lambda>_. tended i name [])"
    unfolding del
    by (rule calm_achieves; intro quiet_intros quiet_mod_exp quiet_read_log kc_intros kc_read_log)
      (simp_all add: static_exp_def)
qed

lemma calm_get: "achieves (tended i name cs) get_q (\<lambda>_. tended i name cs)"
  by (rule calm_achieves) (intro quiet_get kc_prims)+

lemma attempt_tends:
  "achieves (tended i name []) (attempt s i reps plot only)
     (\<lambda>p. tended i name (case p of Watching pid \<Rightarrow> [(name, pid)] | _ \<Rightarrow> []))"
proof (rule achievesI)
  fix w p w' es
  assume t: "tended i name [] w" and run: "attempt s i reps plot only w = (Inr p, w', es)"
  obtain b u1 where st: "os_stop s (qw_os w) = (b, u1)" by fastforce
  obtain t1 u2 where nw: "os_now s u1 = (t1, u2)" by fastforce
  obtain t3 u3 where n3: "os_now s u2 = (t3, u3)" by fastforce
  obtain t4 u4 where n4: "os_now s u3 = (t4, u4)" by fastforce
  note unf = attempt_def queue_prims save_def io_defs st nw n3 n4
  show "tended i name (case p of Watching pid \<Rightarrow> [(name, pid)] | _ \<Rightarrow> []) w'"
    using t run
    by (cases "b \<or> t1 \<ge> q_deadline (qw_q w)")
      (auto simp: unf tended_def Let_def dict_set_def split: if_splits prod.splits sum.splits)
qed

lemma watch_tends:
  "achieves (tended i name [(name, pid)]) (watch s i pid)
     (\<lambda>p. tended i name (case p of Watching pid \<Rightarrow> [(name, pid)] | _ \<Rightarrow> []))"
proof -
  have settle: "achieves (tended i name [(name, pid)]) (settle s i rc)
      (\<lambda>p. tended i name (case p of Watching pid \<Rightarrow> [(name, pid)] | _ \<Rightarrow> []))" for rc
    by (rule achieves_mono [OF achieves_yields [OF settle_clears yields_settle]])
      (auto split: pc.splits)
  show ?thesis
    unfolding watch_def
    apply (rule achieves_bind [OF calm_achieves [OF quiet_read kc_prims(1)]])
    subgoal for r
      apply (cases r; simp)
       apply (rule achieves_bind [OF calm_achieves [OF quiet_over kc_over]])
       apply (rule achieves_if)
        apply (rule achieves_seq [OF end_child_clears])
        apply (rule achieves_bind [OF calm_achieves [OF quiet_stopping kc_prims(3)]])
        apply (rule achieves_ret, simp)
       apply (rule achieves_seq [OF calm_achieves [OF quiet_sleep kc_prims(4)]])
       apply (rule achieves_ret, simp)
      apply (rule settle)
      done
    done
qed

lemma backoff_tends:
  "achieves (tended i name []) (backoff s until)
     (\<lambda>p. tended i name (case p of Watching pid \<Rightarrow> [(name, pid)] | _ \<Rightarrow> []))"
  by (rule achieves_mono [OF achieves_yields [OF calm_achieves [OF quiet_backoff kc_backoff] yields_backoff]])
    (auto split: pc.splits)

lemma run_from_tends:
  "achieves (tended i name (case p of Watching pid \<Rightarrow> [(name, pid)] | _ \<Rightarrow> []))
     (run_from n s i reps plot only p) (\<lambda>r w. \<forall>v. r = Some v \<longrightarrow> tended i name [] w)"
proof (induction n arbitrary: p)
  case 0
  then show ?case by (cases p) (auto intro: achieves_ret)
next
  case (Suc n)
  note rest = achieves_bind [OF attempt_tends Suc.IH] achieves_bind [OF watch_tends Suc.IH]
    achieves_bind [OF backoff_tends Suc.IH]
  show ?case
    by (cases p) (simp_all add: rest [simplified] achieves_ret)
qed

text \<open>
  C13. No driver is left behind: when \<open>run_one\<close> returns with nothing else in flight, whether the
  driver exited, the queue expired or it was stopped, no child is tracked any more.
\<close>

theorem run_one_leaves_no_child:
  assumes "run_one fuel s i reps plot only w = (Inr (Some v), w', es)"
    and "qw_children w = []" "i < length (q_exps (qw_q w))"
  shows "qw_children w' = []"
  using achieves_run [OF run_from_tends [where p = Top, simplified] _ assms(1) [unfolded run_one_def]] assms(2,3)
  by (auto simp: tended_def)

end
