(* ===== verification/QueueProcs.thy ===== *)
theory QueueProcs
  imports QueueRun
begin

text \<open>
  The processes \<open>end_child\<close> signals: the walk over the process table ends and finds exactly the
  processes below a driver.
\<close>

section \<open>The processes below a driver\<close>

text \<open>The parent relation of a process table.\<close>

definition child_rel :: "(int \<times> int \<times> string) list \<Rightarrow> (int \<times> int) set" where
  "child_rel tab = {(p, k). k \<in> set (kids tab p)}"

lemma kids_iff: "k \<in> set (kids tab p) \<longleftrightarrow> (\<exists>c. (k, p, c) \<in> set tab)"
  by (force simp: kids_def)

text \<open>
  The walk: what it has output are the children of the pids it has taken, and what is on the stack
  is the root or was output. \<open>seen\<close> are the pids taken so far.
\<close>

definition walk_inv :: "(int \<times> int \<times> string) list \<Rightarrow> int \<Rightarrow> int list \<Rightarrow> int list \<Rightarrow> (int \<times> string) list \<Rightarrow> bool" where
  "walk_inv tab drv seen todo out \<longleftrightarrow>
     map fst out = concat (map (kids tab) seen) \<and>
     mset (drv # map fst out) = mset (seen @ todo) \<and>
     set (map fst out) \<subseteq> (child_rel tab)\<^sup>+ `` {drv}"

lemma walk_invD:
  assumes "walk_inv tab drv seen todo out"
  shows "map fst out = concat (map (kids tab) seen)" "mset (drv # map fst out) = mset (seen @ todo)"
    "set (map fst out) \<subseteq> (child_rel tab)\<^sup>+ `` {drv}"
  using assms unfolding walk_inv_def by blast+

lemma walk_inv_step:
  assumes "walk_inv tab drv seen (todo @ [p]) out"
  shows "walk_inv tab drv (seen @ [p]) (todo @ kids tab p) (out @ map (\<lambda>k. (k, cmd_of tab k)) (kids tab p))"
proof -
  have "p = drv \<or> p \<in> set (map fst out)"
  proof -
    from walk_invD(2) [OF assms] have "set (drv # map fst out) = set (seen @ todo @ [p])"
      by (rule mset_eq_setD)
    then show ?thesis by auto
  qed
  then have "set (kids tab p) \<subseteq> (child_rel tab)\<^sup>+ `` {drv}"
    using assms by (auto simp: walk_inv_def child_rel_def intro: trancl_into_trancl)
  moreover have new: "map fst (out @ map (\<lambda>k. (k, cmd_of tab k)) (kids tab p)) = map fst out @ kids tab p"
    by (simp add: comp_def)
  moreover have "mset (drv # map fst out @ kids tab p) = mset ((seen @ [p]) @ todo @ kids tab p)"
    using walk_invD(2) [OF assms] by simp
  ultimately show ?thesis
    using walk_invD(1,3) [OF assms] unfolding walk_inv_def by simp
qed

lemma descend_correct:
  assumes "descend n tab todo out = Some res" "walk_inv tab drv seen todo out"
  shows "\<exists>seen'. walk_inv tab drv seen' [] res"
  using assms
proof (induction n tab todo out arbitrary: seen rule: descend.induct)
  case (1 n tab out)
  then show ?case by auto
next
  case (3 n tab t ts out)
  let ?p = "last (t # ts)"
  from 3(3) have "walk_inv tab drv seen (butlast (t # ts) @ [?p]) out"
    by (simp add: append_butlast_last_id del: butlast.simps last.simps)
  from walk_inv_step [OF this] 3(1) [OF refl refl, of "seen @ [?p]"] 3(2) show ?case
    by (simp add: Let_def del: butlast.simps last.simps)
qed simp

lemma descendants_set:
  assumes "descendants tab drv = Some res"
  shows "set (map fst res) = (child_rel tab)\<^sup>+ `` {drv}"
proof -
  have "walk_inv tab drv [] [drv] []" by (simp add: walk_inv_def)
  from descend_correct [OF assms [unfolded descendants_def] this] obtain seen where
    inv: "walk_inv tab drv seen [] res" by blast
  then have "set (drv # map fst res) = set seen"
    unfolding walk_inv_def by (metis append_Nil2 mset_eq_setD)
  then have seen: "set seen = insert drv (set (map fst res))" by auto
  have closed: "set (map fst res) = (\<Union>p \<in> set seen. set (kids tab p))"
    using inv by (simp add: walk_inv_def)
  have "k \<in> set (map fst res)" if "(drv, k) \<in> (child_rel tab)\<^sup>+" for k
    using that
  proof induction
    case (base y)
    with closed seen show ?case by (auto simp: child_rel_def)
  next
    case (step y z)
    from step(3) seen have "y \<in> set seen" by simp
    moreover from step(2) have "z \<in> set (kids tab y)" by (simp add: child_rel_def)
    ultimately show ?case using closed by blast
  qed
  with walk_invD(3) [OF inv] show ?thesis by blast
qed

text \<open>
  On a table with one entry per process in which no process is its own ancestor, the walk takes
  each pid at most once, so the table's length bounds it.
\<close>

definition proc_table :: "(int \<times> int \<times> string) list \<Rightarrow> bool" where
  "proc_table tab \<longleftrightarrow> distinct (map fst tab) \<and> acyclic (child_rel tab)"

lemma kids_parent:
  assumes "distinct (map fst tab)" "k \<in> set (kids tab p)" "k \<in> set (kids tab q)"
  shows "p = q"
proof -
  from assms(2,3) obtain c d where "(k, p, c) \<in> set tab" "(k, q, d) \<in> set tab"
    by (auto simp: kids_iff)
  with assms(1) have "(p, c) = (q, d)" by (rule eq_key_imp_eq_value)
  then show ?thesis by simp
qed

lemma distinct_kids:
  assumes "distinct (map fst tab)"
  shows "distinct seen \<Longrightarrow> distinct (concat (map (kids tab) seen))"
proof (induction seen)
  case (Cons p seen)
  have "distinct (kids tab p)" using assms by (simp add: kids_def distinct_map_filter)
  moreover have "set (kids tab p) \<inter> set (kids tab q) = {}" if "q \<in> set seen" for q
    using kids_parent [OF assms, of _ p q] that Cons.prems by auto
  ultimately show ?case using Cons by auto
qed simp

lemma walk_distinct:
  assumes tab: "proc_table tab" and inv: "walk_inv tab drv seen todo out" and "distinct seen"
  shows "distinct (seen @ todo)"
proof -
  have "drv \<notin> set (map fst out)"
    using tab walk_invD(3) [OF inv] unfolding proc_table_def acyclic_def by blast
  moreover have "distinct (map fst out)"
    using inv assms(3) distinct_kids tab by (simp add: walk_inv_def proc_table_def)
  ultimately have "distinct (drv # map fst out)" by simp
  with inv show ?thesis unfolding walk_inv_def by (metis mset_eq_imp_distinct_iff)
qed

lemma walk_length:
  assumes tab: "proc_table tab" and inv: "walk_inv tab drv seen todo out" and "distinct seen"
  shows "length seen + length todo \<le> Suc (length tab)"
proof -
  have "set (seen @ todo) = insert drv (set (map fst out))"
    using inv unfolding walk_inv_def by (metis mset_eq_setD list.simps(15))
  also have "\<dots> \<subseteq> insert drv (set (map fst tab))"
    using inv by (fastforce simp: walk_inv_def kids_def)
  finally have "card (set (seen @ todo)) \<le> card (insert drv (set (map fst tab)))"
    by (intro card_mono) auto
  also have "\<dots> \<le> Suc (length tab)"
    by (rule order_trans [OF card_insert_le_m1]) (use card_length [of "map fst tab"] in auto)
  finally show ?thesis
    using distinct_card [OF walk_distinct [OF assms]] by simp
qed

lemma descend_total:
  assumes "proc_table tab" "walk_inv tab drv seen todo out" "distinct seen"
    and "Suc (length tab) \<le> n + length seen"
  shows "descend n tab todo out \<noteq> None"
  using assms
proof (induction n tab todo out arbitrary: seen rule: descend.induct)
  case (2 tab t ts out)
  from walk_length [OF 2(1-3)] 2(4) show ?case by simp
next
  case (3 n tab t ts out)
  let ?p = "last (t # ts)"
  from 3(3) have "walk_inv tab drv seen (butlast (t # ts) @ [?p]) out"
    by (simp add: append_butlast_last_id del: butlast.simps last.simps)
  note inv = walk_inv_step [OF this]
  have "?p \<notin> set seen"
    using walk_distinct [OF 3(2-4)] last_in_set [of "t # ts"] by (auto simp del: last.simps)
  with 3(1) [OF refl refl 3(2) inv] 3(4,5) show ?case
    by (simp add: Let_def del: butlast.simps last.simps)
qed simp

text \<open>
  C38. The walk over \<^verbatim>\<open>/proc\<close> finds exactly the processes below a driver: on a table with one
  entry per process in which none is its own ancestor it ends within one step per process, and
  what it returns are all the driver's children, their children and so on, and nothing else.
\<close>

theorem descendants_exact:
  assumes "proc_table tab"
  shows "\<exists>res. descendants tab pid = Some res \<and> set (map fst res) = (child_rel tab)\<^sup>+ `` {pid}"
proof -
  have "walk_inv tab pid [] [pid] []" by (simp add: walk_inv_def)
  from descend_total [OF assms this, of "Suc (length tab)"] obtain res where "descendants tab pid = Some res"
    unfolding descendants_def by (auto simp del: descend.simps)
  with descendants_set show ?thesis by blast
qed

theorem descendants_exact_witness:
  "\<exists>res. descendants [(7, 1, ''driver''), (9, 8, ''ld''), (8, 7, ''make''), (3, 1, ''sh'')] 7 = Some res \<and>
     set (map fst res) = {8, 9}"
proof -
  let ?tab = "[(7, 1, ''driver''), (9, 8, ''ld''), (8, 7, ''make''), (3, 1, ''sh'')] :: (int \<times> int \<times> string) list"
  have rel: "child_rel ?tab = {(1, 7), (8, 9), (7, 8), (1, 3)}"
    by (auto simp: child_rel_def kids_iff)
  have "acyclic (child_rel ?tab)"
    unfolding rel by (rule acyclicI_order [where f = "\<lambda>k. - k :: int"]) auto
  then have "proc_table ?tab" by (simp add: proc_table_def)
  from descendants_exact [OF this, of 7] obtain res where res: "descendants ?tab 7 = Some res" by blast
  moreover have "descendants ?tab 7 = Some [(8, ''make''), (9, ''ld'')]"
    by (simp add: descendants_def kids_def cmd_of_def)
  ultimately show ?thesis by auto
qed
end
