(* ===== verification/Regex.thy ===== *)
theory Regex
  imports Prelude
begin

text \<open>
  Python's \<open>re\<close>, as far as the drivers use it: a parser for pattern texts, a backtracking matcher
  that tries alternatives in Python's order, and \<open>search\<close>, \<open>match\<close>, \<open>fullmatch\<close>, \<open>findall\<close>,
  \<open>finditer\<close> and \<open>sub\<close>. Pattern texts are written as in the sources with the backslash as a tilde,
  which no pattern contains: \<open>''^Q~d+: ''\<close>. Characters are the code points below 256.
\<close>

section \<open>Expressions\<close>

text \<open>
  \<open>Set n rs\<close>: one character in (or, with \<open>n\<close>, outside) the ranges of code points. \<open>Star g r\<close>:
  greedy with \<open>g\<close>, lazy without. \<open>Group n r\<close> captures. \<open>Bol\<close> and \<open>Eol\<close> are \<open>^\<close> and \<open>$\<close> under
  \<open>re.M\<close>, \<open>WordB\<close> is the word boundary.
\<close>

datatype rx =
    Eps
  | Set bool "(nat \<times> nat) list"
  | Cat rx rx
  | Alt rx rx
  | Star bool rx
  | Group nat rx
  | Bol
  | Eol
  | WordB

definition in_ranges :: "(nat \<times> nat) list \<Rightarrow> char \<Rightarrow> bool" where
  "in_ranges rs c = list_ex (\<lambda>(a, b). a \<le> of_char c \<and> of_char c \<le> b) rs"

definition digit_ranges :: "(nat \<times> nat) list" where
  "digit_ranges = [(48, 57)]"

definition space_ranges :: "(nat \<times> nat) list" where
  "space_ranges = [(9, 13), (28, 32), (133, 133), (160, 160)]"

definition word_ranges :: "(nat \<times> nat) list" where
  "word_ranges = [(48, 57), (65, 90), (95, 95), (97, 122), (170, 170), (178, 179), (181, 181),
     (185, 186), (188, 190), (192, 214), (216, 246), (248, 255)]"

definition is_word :: "char option \<Rightarrow> bool" where
  "is_word c = (case c of None \<Rightarrow> False | Some d \<Rightarrow> in_ranges word_ranges d)"

section \<open>The matcher\<close>

text \<open>
  A position is the character before it, if any, and the text after it; with it go the groups
  captured so far. \<open>rx_match r st\<close> lists the positions where a match of \<open>r\<close> from \<open>st\<close> can end, in the
  order Python tries them. An iteration of a star that consumes nothing is not taken.
\<close>

type_synonym rxpos = "char option \<times> string \<times> (nat \<times> string) list"

definition rest :: "rxpos \<Rightarrow> string" where
  "rest st = fst (snd st)"

definition at_bol :: "rxpos \<Rightarrow> bool" where
  "at_bol st = (case fst st of None \<Rightarrow> True | Some c \<Rightarrow> of_char c = (10 :: nat))"

definition at_eol :: "rxpos \<Rightarrow> bool" where
  "at_eol st = (case rest st of [] \<Rightarrow> True | c # _ \<Rightarrow> of_char c = (10 :: nat))"

definition head_char :: "string \<Rightarrow> char option" where
  "head_char s = (case s of [] \<Rightarrow> None | c # _ \<Rightarrow> Some c)"

definition at_wordb :: "rxpos \<Rightarrow> bool" where
  "at_wordb st = (is_word (fst st) \<noteq> is_word (head_char (rest st)))"

definition capture :: "nat \<Rightarrow> rxpos \<Rightarrow> rxpos \<Rightarrow> rxpos" where
  "capture n st st' = (case st' of (p, s, caps) \<Rightarrow>
     (p, s, AList.update n (take (length (rest st) - length s) (rest st)) caps))"

definition advance :: "bool \<Rightarrow> (nat \<times> nat) list \<Rightarrow> rxpos \<Rightarrow> rxpos list" where
  "advance n rs st = (case st of (p, s, caps) \<Rightarrow> (case s of
     [] \<Rightarrow> [] | c # s' \<Rightarrow> if in_ranges rs c \<noteq> n then [(Some c, s', caps)] else []))"

definition if_at :: "bool \<Rightarrow> rxpos \<Rightarrow> rxpos list" where
  "if_at b st = (if b then [st] else [])"

function rx_match :: "rx \<Rightarrow> rxpos \<Rightarrow> rxpos list" where
  "rx_match Eps st = [st]"
| "rx_match (Set n rs) st = advance n rs st"
| "rx_match (Cat r q) st = concat (map (rx_match q) (rx_match r st))"
| "rx_match (Alt r q) st = rx_match r st @ rx_match q st"
| "rx_match (Star g r) st =
     (let more = concat (map (\<lambda>st'. rx_match (Star g r) st')
        (filter (\<lambda>st'. length (rest st') < length (rest st)) (rx_match r st)))
      in if g then more @ [st] else st # more)"
| "rx_match (Group n r) st = map (capture n st) (rx_match r st)"
| "rx_match Bol st = if_at (at_bol st) st"
| "rx_match Eol st = if_at (at_eol st) st"
| "rx_match WordB st = if_at (at_wordb st) st"
  by pat_completeness auto
termination
  by (relation "measures [\<lambda>(r, _). size r, \<lambda>(_, st). length (rest st)]") auto

text \<open>A match: the text before it, the matched text, the groups, and the text after it.\<close>

record rxm =
  m_before :: string
  m_text :: string
  m_caps :: "(nat \<times> string) list"
  m_after :: string

text \<open>\<open>scan\<close> moves the start rightwards until the expression matches; \<open>b\<close> is what it has passed.\<close>

definition mk_match :: "string \<Rightarrow> string \<Rightarrow> rxpos \<Rightarrow> rxm" where
  "mk_match b s st = \<lparr>m_before = b, m_text = take (length s - length (rest st)) s,
     m_caps = snd (snd st), m_after = rest st\<rparr>"

fun scan :: "rx \<Rightarrow> char option \<Rightarrow> string \<Rightarrow> string \<Rightarrow> rxm option" where
  "scan r p b s = (case rx_match r (p, s, []) of
     st # _ \<Rightarrow> Some (mk_match b s st)
   | [] \<Rightarrow> (case s of [] \<Rightarrow> None | c # s' \<Rightarrow> scan r (Some c) (b @ [c]) s'))"

declare scan.simps [simp del]

definition rx_search :: "rx \<Rightarrow> string \<Rightarrow> rxm option" where
  "rx_search r s = scan r None [] s"

definition rx_fullmatch :: "rx \<Rightarrow> string \<Rightarrow> rxm option" where
  "rx_fullmatch r s = (case filter (\<lambda>st. rest st = []) (rx_match r (None, s, [])) of
     [] \<Rightarrow> None | st # _ \<Rightarrow> Some (mk_match [] s st))"

definition rx_match_start :: "rx \<Rightarrow> string \<Rightarrow> rxm option" where
  "rx_match_start r s = (case rx_match r (None, s, []) of [] \<Rightarrow> None | st # _ \<Rightarrow> Some (mk_match [] s st))"

text \<open>\<open>m.group(n)\<close>; None for a group that took no part.\<close>

definition group :: "nat \<Rightarrow> rxm \<Rightarrow> string option" where
  "group n m = map_of (m_caps m) n"

text \<open>
  \<open>finditer\<close>: the matches from left to right, each from where the one before it ended; after an
  empty match the next starts one character on.
\<close>

function rx_iter :: "rx \<Rightarrow> char option \<Rightarrow> string \<Rightarrow> string \<Rightarrow> rxm list" where
  "rx_iter r p b s = (case scan r p b s of
     None \<Rightarrow> []
   | Some m \<Rightarrow> m # (case m_after m of
        [] \<Rightarrow> []
      | c # s' \<Rightarrow>
          if m_text m = []
          then (if length s' < length s then rx_iter r (Some c) (m_before m @ [c]) s' else [])
          else (if length (c # s') < length s
                then rx_iter r (Some (last (m_text m))) (m_before m @ m_text m) (c # s') else [])))"
  by pat_completeness auto
termination
  by (relation "measure (\<lambda>(_, _, _, s). length s)") auto

declare rx_iter.simps [simp del]

definition rx_finditer :: "rx \<Rightarrow> string \<Rightarrow> rxm list" where
  "rx_finditer r s = rx_iter r None [] s"

text \<open>\<open>findall\<close> of an expression with one group: what it captured each time.\<close>

definition rx_findall :: "rx \<Rightarrow> string \<Rightarrow> string list" where
  "rx_findall r s = map (\<lambda>m. case group 1 m of None \<Rightarrow> [] | Some t \<Rightarrow> t) (rx_finditer r s)"

text \<open>\<open>sub('', text)\<close>: the text without the matches.\<close>

definition rx_delete :: "rx \<Rightarrow> string \<Rightarrow> string" where
  "rx_delete r s =
     (let ms = rx_finditer r s;
          starts = map (\<lambda>m. length (m_before m)) ms;
          ends = map (\<lambda>m. length (m_before m) + length (m_text m)) ms
      in concat (map (\<lambda>(a, b). take (b - a) (drop a s)) (zip (0 # ends) (starts @ [length s]))))"

section \<open>Pattern texts\<close>

definition cls_of :: "char \<Rightarrow> (bool \<times> (nat \<times> nat) list) option" where
  "cls_of c =
     (if c = CHR ''d'' then Some (False, digit_ranges)
      else if c = CHR ''s'' then Some (False, space_ranges)
      else if c = CHR ''S'' then Some (True, space_ranges)
      else if c = CHR ''w'' then Some (False, word_ranges)
      else None)"

definition esc_char :: "char \<Rightarrow> char" where
  "esc_char c = (if c = CHR ''n'' then char_of (10 :: nat) else if c = CHR ''r'' then char_of (13 :: nat)
     else if c = CHR ''t'' then char_of (9 :: nat) else c)"

definition single :: "char \<Rightarrow> (nat \<times> nat) list" where
  "single c = [(of_char c, of_char c)]"

text \<open>The items of a character class, up to its bracket.\<close>

fun parse_cls :: "nat \<Rightarrow> string \<Rightarrow> (nat \<times> nat) list \<Rightarrow> ((nat \<times> nat) list \<times> string) option" where
  "parse_cls 0 s acc = None"
| "parse_cls (Suc n) [] acc = None"
| "parse_cls (Suc n) (c # s) acc =
     (if c = CHR '']'' then Some (acc, s)
      else if c = CHR ''~'' then (case s of
        [] \<Rightarrow> None
      | e # s' \<Rightarrow> parse_cls n s' (acc @ (case cls_of e of Some (_, rs) \<Rightarrow> rs | None \<Rightarrow> single (esc_char e))))
      else (case s of
        d # e # s' \<Rightarrow> if d = CHR ''-'' \<and> e \<noteq> CHR '']'' then parse_cls n s' (acc @ [(of_char c, of_char e)])
                     else parse_cls n s (acc @ single c)
      | _ \<Rightarrow> parse_cls n s (acc @ single c)))"

text \<open>What follows an item: a quantifier, perhaps lazy.\<close>

definition quantified :: "rx \<Rightarrow> string \<Rightarrow> rx \<times> string" where
  "quantified r s = (case s of
     [] \<Rightarrow> (r, [])
   | c # s' \<Rightarrow>
       let lazy = (case s' of e # _ \<Rightarrow> e = CHR ''?'' | [] \<Rightarrow> False); s'' = (if lazy then tl s' else s')
       in if c = CHR ''*'' then (Star (\<not> lazy) r, s'')
          else if c = CHR ''+'' then (Cat r (Star (\<not> lazy) r), s'')
          else if c = CHR ''?'' then (if lazy then Alt Eps r else Alt r Eps, s'')
          else (r, s))"

text \<open>
  Recursive descent: \<open>parse_alt\<close> reads up to a closing parenthesis or the end. The number is that
  of the next group. Fuel: the length of the pattern is enough, each call reads a character.
\<close>

fun parse_alt :: "nat \<Rightarrow> nat \<Rightarrow> string \<Rightarrow> (rx \<times> nat \<times> string) option"
and parse_seq :: "nat \<Rightarrow> nat \<Rightarrow> string \<Rightarrow> (rx \<times> nat \<times> string) option"
and parse_item :: "nat \<Rightarrow> nat \<Rightarrow> string \<Rightarrow> (rx \<times> nat \<times> string) option" where
  "parse_alt 0 g s = None"
| "parse_alt (Suc n) g s = (case parse_seq n g s of
     None \<Rightarrow> None
   | Some (r, g', s') \<Rightarrow> (case s' of
       c # s'' \<Rightarrow> if c = CHR ''|'' then (case parse_alt n g' s'' of
                     None \<Rightarrow> None | Some (q, g'', t) \<Rightarrow> Some (Alt r q, g'', t))
                  else Some (r, g', s')
     | [] \<Rightarrow> Some (r, g', [])))"
| "parse_seq 0 g s = None"
| "parse_seq (Suc n) g s =
     (if s = [] \<or> hd s = CHR '')'' \<or> hd s = CHR ''|'' then Some (Eps, g, s)
      else (case parse_item n g s of
        None \<Rightarrow> None
      | Some (r, g', s') \<Rightarrow> (case quantified r s' of (r', t) \<Rightarrow> (case parse_seq n g' t of
           None \<Rightarrow> None | Some (q, g'', t') \<Rightarrow> Some (if q = Eps then r' else Cat r' q, g'', t')))))"
| "parse_item 0 g s = None"
| "parse_item (Suc n) g [] = None"
| "parse_item (Suc n) g (c # s) =
     (if c = CHR ''^'' then Some (Bol, g, s)
      else if c = CHR ''$'' then Some (Eol, g, s)
      else if c = CHR ''.'' then Some (Set True [(10, 10)], g, s)
      else if c = CHR ''~'' then (case s of
        [] \<Rightarrow> None
      | e # s' \<Rightarrow> if e = CHR ''b'' then Some (WordB, g, s')
                 else (case cls_of e of Some (m, rs) \<Rightarrow> Some (Set m rs, g, s') | None \<Rightarrow> Some (Set False (single (esc_char e)), g, s')))
      else if c = CHR ''['' then
        (let neg = (s \<noteq> [] \<and> hd s = CHR ''^'') in
         (case parse_cls (Suc (length s)) (if neg then tl s else s) [] of
            None \<Rightarrow> None | Some (rs, t) \<Rightarrow> Some (Set neg rs, g, t)))
      else if c = CHR ''('' then
        (if take 2 s = ''?:'' then
           (case parse_alt n g (drop 2 s) of
              Some (r, g', d # t) \<Rightarrow> if d = CHR '')'' then Some (r, g', t) else None
            | _ \<Rightarrow> None)
         else (case parse_alt n (Suc g) s of
              Some (r, g', d # t) \<Rightarrow> if d = CHR '')'' then Some (Group g r, g', t) else None
            | _ \<Rightarrow> None))
      else Some (Set False (single c), g, s))"

text \<open>\<open>re p\<close>: the expression of a pattern text; one that does not parse matches nothing.\<close>

definition re :: "string \<Rightarrow> rx" where
  "re p = (case parse_alt (3 * length p + 3) 1 p of Some (r, _, []) \<Rightarrow> r | _ \<Rightarrow> Set False [])"

text \<open>\<open>re.I\<close>: each single letter of a class also in the other case.\<close>

definition both_cases :: "nat \<times> nat \<Rightarrow> (nat \<times> nat) list" where
  "both_cases ab = (case ab of (a, b) \<Rightarrow>
     if a = b \<and> 65 \<le> a \<and> a \<le> 90 then [(a, b), (a + 32, b + 32)]
     else if a = b \<and> 97 \<le> a \<and> a \<le> 122 then [(a, b), (a - 32, b - 32)] else [(a, b)])"

fun nocase :: "rx \<Rightarrow> rx" where
  "nocase (Set n rs) = Set n (concat (map both_cases rs))"
| "nocase (Cat r q) = Cat (nocase r) (nocase q)"
| "nocase (Alt r q) = Alt (nocase r) (nocase q)"
| "nocase (Star g r) = Star g (nocase r)"
| "nocase (Group n r) = Group n (nocase r)"
| "nocase r = r"

declare rx_match.simps(5) [simp del]

section \<open>Evaluation\<close>

text \<open>
  Rules by which the simplifier parses a pattern text (\<open>rx_parse\<close>) and runs an expression on a text
  (\<open>rx_run\<close>), with numerals for fuel and code points.
\<close>

declare parse_cls.simps [simp del]

lemma parse_cls_step:
  "parse_cls (Suc n) (CHR '']'' # s) acc = Some (acc, s)"
  "parse_cls (Suc n) (CHR ''~'' # e # s) acc =
     parse_cls n s (acc @ (case cls_of e of Some (_, rs) \<Rightarrow> rs | None \<Rightarrow> single (esc_char e)))"
  "c \<noteq> CHR '']'' \<Longrightarrow> c \<noteq> CHR ''~'' \<Longrightarrow> e \<noteq> CHR '']'' \<Longrightarrow>
     parse_cls (Suc n) (c # CHR ''-'' # e # s) acc = parse_cls n s (acc @ [(of_char c, of_char e)])"
  "c \<noteq> CHR '']'' \<Longrightarrow> c \<noteq> CHR ''~'' \<Longrightarrow> d \<noteq> CHR ''-'' \<Longrightarrow>
     parse_cls (Suc n) (c # d # s) acc = parse_cls n (d # s) (acc @ single c)"
  by (simp_all add: parse_cls.simps split: list.splits)

lemma parse_alt_numeral:
  "parse_alt (numeral v) g s = (case parse_seq (pred_numeral v) g s of
     None \<Rightarrow> None
   | Some (r, g', s') \<Rightarrow> (case s' of
       c # s'' \<Rightarrow> if c = CHR ''|'' then (case parse_alt (pred_numeral v) g' s'' of
                     None \<Rightarrow> None | Some (q, g'', t) \<Rightarrow> Some (Alt r q, g'', t))
                  else Some (r, g', s')
     | [] \<Rightarrow> Some (r, g', [])))"
  by (simp add: numeral_eq_Suc)

lemmas parse_seq_numeral = parse_seq.simps(2) [of "pred_numeral v" for v, folded numeral_eq_Suc]

lemmas parse_item_numeral = parse_item.simps(2,3) [of "pred_numeral v" for v, folded numeral_eq_Suc]

lemmas rx_parse = re_def parse_alt_numeral parse_seq_numeral parse_item_numeral parse_cls_step cls_of_def
  quantified_def single_def esc_char_def Let_def digit_ranges_def space_ranges_def word_ranges_def

lemmas rx_run = rx_finditer_def rx_search_def rx_fullmatch_def rx_iter.simps scan.simps rx_match.simps Let_def
  advance_def in_ranges_def if_at_def at_bol_def at_eol_def rest_def capture_def mk_match_def group_def

section \<open>What a match is\<close>

text \<open>
  The textbook relation, without order, priorities or captures: \<open>mt r (p, s) (q, t)\<close> when \<open>r\<close> can
  match from \<open>s\<close>, which has the character \<open>p\<close> before it, leaving \<open>t\<close>.
\<close>

inductive mt :: "rx \<Rightarrow> char option \<times> string \<Rightarrow> char option \<times> string \<Rightarrow> bool" where
  eps: "mt Eps a a"
| set: "in_ranges rs c \<noteq> n \<Longrightarrow> mt (Set n rs) (p, c # s) (Some c, s)"
| cat: "mt r a b \<Longrightarrow> mt q b c \<Longrightarrow> mt (Cat r q) a c"
| altl: "mt r a b \<Longrightarrow> mt (Alt r q) a b"
| altr: "mt q a b \<Longrightarrow> mt (Alt r q) a b"
| stop: "mt (Star g r) a a"
| more: "mt r a b \<Longrightarrow> mt (Star g r) b c \<Longrightarrow> mt (Star g r) a c"
| group: "mt r a b \<Longrightarrow> mt (Group n r) a b"
| bol: "at_bol (p, s, []) \<Longrightarrow> mt Bol (p, s) (p, s)"
| eol: "at_eol (p, s, []) \<Longrightarrow> mt Eol (p, s) (p, s)"
| wordb: "at_wordb (p, s, []) \<Longrightarrow> mt WordB (p, s) (p, s)"

inductive_cases mt_EpsE: "mt Eps a b"
inductive_cases mt_SetE: "mt (Set n rs) a b"
inductive_cases mt_CatE: "mt (Cat r q) a c"
inductive_cases mt_AltE: "mt (Alt r q) a b"
inductive_cases mt_GroupE: "mt (Group n r) a b"
inductive_cases mt_BolE: "mt Bol a b"
inductive_cases mt_EolE: "mt Eol a b"
inductive_cases mt_WordBE: "mt WordB a b"

lemmas mt_elims = mt_EpsE mt_SetE mt_CatE mt_AltE mt_GroupE mt_BolE mt_EolE mt_WordBE

definition pos :: "rxpos \<Rightarrow> char option \<times> string" where
  "pos st = (fst st, rest st)"

lemma at_pos:
  "at_bol (p, s, c) = at_bol (p, s, [])" "at_eol (p, s, c) = at_eol (p, s, [])"
  "at_wordb (p, s, c) = at_wordb (p, s, [])"
  by (simp_all add: at_bol_def at_eol_def at_wordb_def rest_def)

text \<open>A match consumes a prefix; one that consumes nothing does not move.\<close>

lemma mt_suffix: "mt r a b \<Longrightarrow> \<exists>u. snd a = u @ snd b \<and> (u = [] \<longrightarrow> a = b) \<and> (u \<noteq> [] \<longrightarrow> fst b = Some (last u))"
proof (induction rule: mt.induct)
  case (cat r a b q c)
  then obtain u v where "snd a = u @ snd b" "snd b = v @ snd c" "u = [] \<longrightarrow> a = b" "v = [] \<longrightarrow> b = c"
    "u \<noteq> [] \<longrightarrow> fst b = Some (last u)" "v \<noteq> [] \<longrightarrow> fst c = Some (last v)"
    by blast
  then show ?case by (intro exI [of _ "u @ v"]) auto
next
  case (more r a b g c)
  then obtain u v where "snd a = u @ snd b" "snd b = v @ snd c" "u = [] \<longrightarrow> a = b" "v = [] \<longrightarrow> b = c"
    "u \<noteq> [] \<longrightarrow> fst b = Some (last u)" "v \<noteq> [] \<longrightarrow> fst c = Some (last v)"
    by blast
  then show ?case by (intro exI [of _ "u @ v"]) auto
qed auto

lemma mt_shorter: "mt r a b \<Longrightarrow> a = b \<or> length (snd b) < length (snd a)"
  using mt_suffix [of r a b] by auto

lemma mt_star_cases:
  assumes "mt (Star g r) a c"
  shows "a = c \<or> (\<exists>b. mt r a b \<and> length (snd b) < length (snd a) \<and> mt (Star g r) b c)"
  using assms
proof (induction "Star g r" a c rule: mt.induct)
  case more
  then show ?case using mt_shorter by blast
qed simp

lemma rx_match_sound: "st' \<in> set (rx_match r st) \<Longrightarrow> mt r (pos st) (pos st')"
proof (induction r st arbitrary: st' rule: rx_match.induct)
  case (1 st)
  then show ?case by (simp add: mt.eps)
next
  case (3 r q st)
  from 3(3) obtain st1 where st1: "st1 \<in> set (rx_match r st)" "st' \<in> set (rx_match q st1)"
    unfolding rx_match.simps(3) set_concat set_map by blast
  show ?case by (rule mt.cat [OF 3(1) [OF st1(1)] 3(2) [OF st1]])
next
  case (4 r q st)
  from 4(3) have "st' \<in> set (rx_match r st) \<or> st' \<in> set (rx_match q st)" by simp
  with 4(1,2) show ?case by (blast intro: mt.altl mt.altr)
next
  case (2 n rs st)
  then show ?case
    by (cases st) (auto simp: advance_def pos_def rest_def split: list.splits if_splits intro: mt.set)
next
  case (5 g r st)
  from 5(3) consider "st' = st" | st1 where "st1 \<in> set (rx_match r st)" "length (rest st1) < length (rest st)"
    "st' \<in> set (rx_match (Star g r) st1)"
    unfolding rx_match.simps(5) [of g r st] Let_def by (cases g) auto
  then show ?case
  proof cases
    case 1
    then show ?thesis by (simp add: mt.stop)
  next
    case 2
    then have "st1 \<in> set (filter (\<lambda>st'. length (rest st') < length (rest st)) (rx_match r st))" by simp
    from mt.more [OF 5(1) [OF 2(1)] 5(2) [OF this 2(3)]] show ?thesis .
  qed
next
  case (6 n r st)
  have same: "pos (capture n st x) = pos x" for x
    by (cases x) (simp add: capture_def pos_def rest_def)
  from 6(2) obtain x where "x \<in> set (rx_match r st)" "st' = capture n st x" by auto
  with mt.group [OF 6(1)] show ?case by (simp add: same)
next
  case (7 st)
  then show ?case using at_pos(1) [of "fst st" "rest st" "snd (snd st)"]
    by (cases st) (auto simp: if_at_def pos_def rest_def split: if_splits intro: mt.bol)
next
  case (8 st)
  then show ?case using at_pos(2) [of "fst st" "rest st" "snd (snd st)"]
    by (cases st) (auto simp: if_at_def pos_def rest_def split: if_splits intro: mt.eol)
next
  case (9 st)
  then show ?case using at_pos(3) [of "fst st" "rest st" "snd (snd st)"]
    by (cases st) (auto simp: if_at_def pos_def rest_def split: if_splits intro: mt.wordb)
qed

lemma rx_match_complete: "mt r (pos st) b \<Longrightarrow> b \<in> pos ` set (rx_match r st)"
proof (induction r st arbitrary: b rule: rx_match.induct)
  case (1 st)
  then show ?case by (auto elim: mt_EpsE)
next
  case (4 r q st)
  from 4(3) have "b \<in> pos ` set (rx_match r st) \<or> b \<in> pos ` set (rx_match q st)"
    using 4(1,2) by (blast elim: mt_AltE)
  then show ?case by auto
next
  case (2 n rs st)
  then show ?case
    by (cases st) (auto elim!: mt_SetE simp: advance_def pos_def rest_def split: list.splits)
next
  case (3 r q st)
  from 3(3) obtain c where c: "mt r (pos st) c" "mt q c b" by (elim mt_CatE)
  from 3(1) [OF c(1)] obtain st1 where st1: "st1 \<in> set (rx_match r st)" "c = pos st1" by blast
  from 3(2) [OF st1(1)] c(2) st1(2) obtain st2 where "st2 \<in> set (rx_match q st1)" "b = pos st2" by blast
  with st1 show ?case unfolding rx_match.simps(3) set_concat set_map by blast
next
  case (5 g r st)
  from mt_star_cases [OF 5(3)] show ?case
  proof (elim disjE exE conjE)
    assume "pos st = b"
    then show ?thesis by (auto simp: Let_def rx_match.simps(5) [of g r st])
  next
    fix c assume c: "mt r (pos st) c" "length (snd c) < length (snd (pos st))" "mt (Star g r) c b"
    from 5(1) [OF c(1)] obtain st1 where st1: "st1 \<in> set (rx_match r st)" "c = pos st1" by blast
    with c(2) have sel: "st1 \<in> set (filter (\<lambda>st'. length (rest st') < length (rest st)) (rx_match r st))"
      by (simp add: pos_def)
    from 5(2) [OF sel] c(3) st1(2) obtain st2 where "st2 \<in> set (rx_match (Star g r) st1)" "b = pos st2" by blast
    with sel have "b \<in> pos ` set (concat (map (\<lambda>st'. rx_match (Star g r) st')
        (filter (\<lambda>st'. length (rest st') < length (rest st)) (rx_match r st))))"
      unfolding set_concat set_map by blast
    then show ?thesis unfolding rx_match.simps(5) [of g r st] Let_def by (cases g) auto
  qed
next
  case (6 n r st)
  from 6(2) have "mt r (pos st) b" by (elim mt_GroupE)
  from 6(1) [OF this] obtain x where x: "x \<in> set (rx_match r st)" "b = pos x" by blast
  have "pos (capture n st x) = pos x"
    by (cases x) (simp add: capture_def pos_def rest_def)
  with x(2) have "b = pos (capture n st x)" by simp
  with x(1) show ?case by simp
next
  case (7 st)
  then show ?case using at_pos(1) [of "fst st" "rest st" "snd (snd st)"]
    by (cases st) (auto elim!: mt_BolE simp: if_at_def pos_def rest_def)
next
  case (8 st)
  then show ?case using at_pos(2) [of "fst st" "rest st" "snd (snd st)"]
    by (cases st) (auto elim!: mt_EolE simp: if_at_def pos_def rest_def)
next
  case (9 st)
  then show ?case using at_pos(3) [of "fst st" "rest st" "snd (snd st)"]
    by (cases st) (auto elim!: mt_WordBE simp: if_at_def pos_def rest_def)
qed

lemma rx_match_pos: "pos ` set (rx_match r st) = {b. mt r (pos st) b}"
  by (auto dest: rx_match_sound rx_match_complete)

lemma rx_match_none: "rx_match r (p, s, c) = [] \<longleftrightarrow> (\<nexists>b. mt r (p, s) b)"
proof -
  have "rx_match r (p, s, c) = [] \<longleftrightarrow> pos ` set (rx_match r (p, s, c)) = {}" by simp
  also have "\<dots> \<longleftrightarrow> (\<nexists>b. mt r (p, s) b)" unfolding rx_match_pos by (simp add: pos_def rest_def)
  finally show ?thesis .
qed

text \<open>The position after a prefix of a text.\<close>

definition after :: "char option \<Rightarrow> string \<Rightarrow> string \<Rightarrow> char option \<times> string" where
  "after p u s = ((if u = [] then p else Some (last u)), s)"

lemma scan_spec:
  "case scan r p b s of
     None \<Rightarrow> \<forall>u v c. s = u @ v \<longrightarrow> \<not> mt r (after p u v) c
   | Some m \<Rightarrow> \<exists>u. m_before m = b @ u \<and> s = u @ m_text m @ m_after m \<and>
       (\<exists>q. mt r (after p u (m_text m @ m_after m)) (q, m_after m)) \<and>
       (\<forall>u' v c. s = u' @ v \<and> length u' < length u \<longrightarrow> \<not> mt r (after p u' v) c)"
proof (induction r p b s rule: scan.induct)
  case (1 r p b s)
  show ?case
  proof (cases "rx_match r (p, s, [])")
    case (Cons st sts)
    then have "mt r (p, s) (pos st)"
      using rx_match_sound [of st r "(p, s, [])"] by (simp add: pos_def rest_def)
    moreover from mt_suffix [OF this] obtain u where "s = u @ rest st" by (auto simp: pos_def)
    moreover have "scan r p b s = Some (mk_match b s st)"
      by (simp add: scan.simps [of r p b s] Cons)
    ultimately show ?thesis
      by (auto simp: mk_match_def after_def pos_def intro!: exI [of _ "[]"])
  next
    case Nil
    then have no: "\<not> mt r (p, s) c" for c by (cases c) (simp add: rx_match_none)
    show ?thesis
    proof (cases s)
      case empty: Nil
      have "scan r p b [] = None"
        using Nil unfolding empty by (simp add: scan.simps [of r p b "[]"])
      with no empty show ?thesis by (simp add: after_def)
    next
      case (Cons c s')
      have step: "scan r p b s = scan r (Some c) (b @ [c]) s'"
        using Nil Cons by (simp add: scan.simps [of r p b "c # s'"])
      have shift: "after (Some c) u v = after p (c # u) v" for u v by (simp add: after_def)
      have first: "\<not> mt r (after p u' v) d" if "s = u' @ v" "\<And>w. u' = c # w \<Longrightarrow> \<not> mt r (after (Some c) w v) d" for u' v d
        using that no Cons by (cases u') (auto simp: after_def)
      show ?thesis
      proof (cases "scan r (Some c) (b @ [c]) s'")
        case None
        with 1 [OF Nil Cons] have "\<forall>u v d. s' = u @ v \<longrightarrow> \<not> mt r (after (Some c) u v) d" by simp
        then have "\<not> mt r (after p u' v) d" if "s = u' @ v" for u' v d
          using that Cons by (intro first) (auto, metis surj_pair)
        then show ?thesis by (simp add: step None)
      next
        case (Some m)
        with 1 [OF Nil Cons] obtain u q where u: "m_before m = (b @ [c]) @ u" "s' = u @ m_text m @ m_after m"
          "mt r (after (Some c) u (m_text m @ m_after m)) (q, m_after m)"
          "\<forall>u' v d. s' = u' @ v \<and> length u' < length u \<longrightarrow> \<not> mt r (after (Some c) u' v) d" by auto
        have "\<not> mt r (after p u' v) d" if "s = u' @ v" "length u' < length (c # u)" for u' v d
          using that u(4) Cons by (intro first) (auto, metis surj_pair)
        moreover have "mt r (after p (c # u) (m_text m @ m_after m)) (q, m_after m)"
          using u(3) by (simp add: shift)
        ultimately show ?thesis
          unfolding step Some option.case using u(1,2) Cons
          by (intro exI [of _ "c # u"] conjI exI [of _ q]) simp_all
      qed
    qed
  qed
qed

text \<open>
  \<open>re.search\<close> finds the leftmost match if there is one: its answer splits the text into what
  comes before, a match and what comes after, and no match starts earlier; None means that no match
  starts anywhere.
\<close>

lemma search_leftmost:
  "case rx_search r s of
     None \<Rightarrow> \<nexists>u v c. s = u @ v \<and> mt r (after None u v) c
   | Some m \<Rightarrow> s = m_before m @ m_text m @ m_after m \<and>
       (\<exists>q. mt r (after None (m_before m) (m_text m @ m_after m)) (q, m_after m)) \<and>
       (\<nexists>u v c. s = u @ v \<and> length u < length (m_before m) \<and> mt r (after None u v) c)"
  using scan_spec [where r = r and p = None and b = "[]" and s = s] by (auto simp: rx_search_def split: option.splits)

text \<open>\<open>re.fullmatch\<close> succeeds exactly when some match uses the whole text.\<close>

lemma fullmatch_iff: "rx_fullmatch r s \<noteq> None \<longleftrightarrow> (\<exists>q. mt r (None, s) (q, []))"
proof -
  have "rx_fullmatch r s \<noteq> None \<longleftrightarrow> (\<exists>st \<in> set (rx_match r (None, s, [])). rest st = [])"
    by (auto simp: rx_fullmatch_def filter_empty_conv neq_Nil_conv filter_eq_Cons_iff split: list.splits)
  also have "\<dots> \<longleftrightarrow> (\<exists>b \<in> pos ` set (rx_match r (None, s, [])). snd b = [])"
    by (auto simp: pos_def)
  also have "\<dots> \<longleftrightarrow> (\<exists>q. mt r (None, s) (q, []))"
    unfolding rx_match_pos by (auto simp: pos_def rest_def)
  finally show ?thesis .
qed

end
