(* ===== verification/QueueMain.thy ===== *)
theory QueueMain
  imports QueueRun Regex
begin

text \<open>
  The outer half of \<open>Runner\<close> in \<^verbatim>\<open>scripts/bench/runqueue.py\<close>: the sweep of what a queue leaves
  up, \<open>run_group\<close> with its threads, and \<open>main\<close>.
\<close>

section \<open>Sweeping\<close>

text \<open>
  An image, with the time its \<open>CreationDate\<close> text denotes and the \<open>SnapshotId\<close> of each of its block
  device mappings, if it has one.
\<close>

record image =
  im_id :: string
  im_name :: string
  im_created :: rat
  im_snaps :: "string option list"

text \<open>
  What the sweep asks for: the tagged instances that are pending or running, our images, and the
  logs. A log is its modification time and its text, None when it cannot be read; \<open>ac_qlogs\<close> are
  those in the queue's directory, \<open>ac_rlogs\<close> those under results.
\<close>

record 'w account =
  ac_ec2 :: "'w ec2"
  ac_ours :: "'w \<Rightarrow> (exn + inst list list) \<times> 'w"
  ac_images :: "'w \<Rightarrow> (exn + image list) \<times> 'w"
  ac_deregister :: "string \<Rightarrow> 'w \<Rightarrow> (exn + unit) \<times> 'w"
  ac_delete_snap :: "string \<Rightarrow> 'w \<Rightarrow> (exn + unit) \<times> 'w"
  ac_qlogs :: "'w \<Rightarrow> string option list \<times> 'w"
  ac_rlogs :: "'w \<Rightarrow> (rat \<times> string option) list \<times> 'w"

definition our_tags :: "string list" where
  "our_tags = [''miniosv-*'', ''linux-s3-bench'', ''duckdb-linux-bench'', ''anyblob-bench'', ''duckdb-anyblob-bench'']"

definition our_instances :: "'w account \<Rightarrow> rat option \<Rightarrow> ('w, inst list) q" where
  "our_instances a since =
     io_bind (on_os (io_call (Describe ''instances'') (ac_ours a))) (\<lambda>res.
       io_ret (filter (\<lambda>i. case since of None \<Rightarrow> True | Some t \<Rightarrow> t \<le> in_launch i) (concat res)))"

definition iid_rx :: rx where
  "iid_rx = re ''Instance running: (i-[0-9a-f]+)''"

definition ids_in :: "string option list \<Rightarrow> string list" where
  "ids_in texts = concat (map (\<lambda>t. case t of None \<Rightarrow> [] | Some s \<Rightarrow> rx_findall iid_rx s) texts)"

definition launched :: "'w account \<Rightarrow> ('w, string list) q" where
  "launched a =
     io_bind get_q (\<lambda>q. let since = q_started q - 60 in
     io_bind (on_os (\<lambda>u. case ac_qlogs a u of (l, u') \<Rightarrow> (Inr l, u', []))) (\<lambda>own.
     io_bind (on_os (\<lambda>u. case ac_rlogs a u of (l, u') \<Rightarrow> (Inr l, u', []))) (\<lambda>results.
     io_ret (ids_in (own @ map snd (filter (\<lambda>(t, _). since \<le> t) results))))))"

definition sweep_image :: "'w os \<Rightarrow> 'w account \<Rightarrow> rat \<Rightarrow> image \<Rightarrow> ('w, unit) q" where
  "sweep_image s a since im =
     (if im_created im < since then io_ret ()
      else io_seq (on_os (io_call (Deregister (im_id im)) (ac_deregister a (im_id im))))
        (io_seq (io_for (\<lambda>snap. io_when (given snap)
                   (io_suppress_client (on_os (io_call (DeleteSnapshot (the snap)) (ac_delete_snap a (the snap))))))
                  (im_snaps im))
           (event s (''deregistered '' @ im_id im @ '' ('' @ im_name im @ '')''))))"

definition is_aws_error :: "exn \<Rightarrow> bool" where
  "is_aws_error e = (case e of ClientError _ _ \<Rightarrow> True | BotoCoreError _ \<Rightarrow> True | _ \<Rightarrow> False)"

definition sweep_body :: "'w os \<Rightarrow> 'w account \<Rightarrow> rat \<Rightarrow> ('w, unit) q" where
  "sweep_body s a since =
     io_bind (our_instances a (Some since)) (\<lambda>up.
     io_bind (launched a) (\<lambda>mine.
     let ids = filter (\<lambda>i. i \<in> set mine) (map in_id up);
         others = filter (\<lambda>i. i \<notin> set mine) (map in_id up)
     in io_seq (io_when (ids \<noteq> [])
          (io_seq (on_os (io_lift Aws (terminate (ac_ec2 a) (map Some ids))))
             (event s (''terminated '' @ join '', '' ids))))
        (io_seq (io_when (others \<noteq> [])
          (event s (''left running, not launched by this queue: '' @ join '', '' others)))
        (io_bind (on_os (io_call (Describe ''images'') (ac_images a))) (\<lambda>imgs.
         io_for (sweep_image s a since) imgs)))))"

definition show_list :: "string list \<Rightarrow> string" where
  "show_list xs = ''['' @ join '', '' (map (\<lambda>x. [CHR 0x27] @ x @ [CHR 0x27]) xs) @ '']''"

definition sweep :: "'w os \<Rightarrow> 'w account \<Rightarrow> ('w, unit) q" where
  "sweep s a =
     io_bind get_q (\<lambda>q.
     io_catch (sweep_body s a (q_started q - 60))
       (\<lambda>e. if is_aws_error e
            then Some (event s (''WARN: sweep failed: '' @ error_text (ac_ec2 a) e
                   @ ''; check the console for instances tagged '' @ show_list our_tags))
            else None))"

section \<open>Groups\<close>

definition ending :: "string \<Rightarrow> bool" where
  "ending v \<longleftrightarrow> v = ''expired'' \<or> v = ''stopped'' \<or> v = ''credentials''"

definition point_arg :: "exper \<Rightarrow> nat \<Rightarrow> string" where
  "point_arg x i = ex_axis x @ ''='' @ ex_values x ! i"

text \<open>The experiments due at repetition \<open>k\<close> and point \<open>i\<close>.\<close>

definition due_at :: "qstate \<Rightarrow> nat list \<Rightarrow> nat \<Rightarrow> nat \<Rightarrow> nat list" where
  "due_at q members k i = filter (\<lambda>j. let x = q_exps q ! j in
     ex_status x \<noteq> ''failed'' \<and> k \<le> ex_reps x \<and> i < length (ex_values x)) members"

text \<open>One point of each, one after another. None: a run ran out of fuel.\<close>

fun run_due :: "nat \<Rightarrow> 'w os \<Rightarrow> nat \<Rightarrow> nat \<Rightarrow> nat list \<Rightarrow> ('w, string option) q" where
  "run_due fuel s k i [] = io_ret (Some ''done'')"
| "run_due fuel s k i (j # js) =
     io_bind (get_exp j) (\<lambda>x.
     let only = point_arg x i in
     io_seq (event s (ex_name x @ '' '' @ only @ '' rep '' @ show_nat k))
     (io_bind (run_one fuel s j k False (Some only)) (\<lambda>r. case r of
        None \<Rightarrow> io_ret None
      | Some v \<Rightarrow>
          if ending v then io_ret (Some v)
          else io_seq (io_when (v = ''failed'') (event s (ex_name x @ '' FAILED at '' @ only @ ''; see its log'')))
                 (run_due fuel s k i js))))"

text \<open>
  The threads of a concurrent point. A thread is the experiment it runs, its point and where its
  \<open>run_one\<close> is, None once it died of an exception. The schedule says who moves next: 0 is the main
  thread, which starts the next experiment due and sleeps 20 seconds; \<open>j + 1\<close> is thread \<open>j\<close>.
\<close>

type_synonym thread = "nat \<times> string \<times> pc option"

definition thread_step ::
  "'w os \<Rightarrow> nat \<Rightarrow> thread list \<times> string dict \<Rightarrow> nat \<Rightarrow> ('w, thread list \<times> string dict) q" where
  "thread_step s k tr j = (case tr of (ts, results) \<Rightarrow>
     if j \<ge> length ts then io_ret (ts, results)
     else (case ts ! j of
         (x, only, Some p) \<Rightarrow>
           io_catch
             (io_bind (run_step s x k False (Some only) p) (\<lambda>p'. case p' of
                Finished v \<Rightarrow> io_bind (get_exp x) (\<lambda>e.
                  io_ret (ts[j := (x, only, Some p')], dict_set (ex_name e) v results))
              | _ \<Rightarrow> io_ret (ts[j := (x, only, Some p')], results)))
             (\<lambda>e. Some (io_ret (ts[j := (x, only, None)], results)))
       | (x, only, None) \<Rightarrow> io_ret (ts, results)))"

fun run_threads ::
  "'w os \<Rightarrow> nat \<Rightarrow> nat \<Rightarrow> nat list \<Rightarrow> nat list \<Rightarrow> thread list \<times> string dict \<Rightarrow>
     ('w, nat list \<times> thread list \<times> string dict) q" where
  "run_threads s k i [] due tr = io_ret (due, tr)"
| "run_threads s k i (0 # sched) due tr = (case due of
     [] \<Rightarrow> run_threads s k i sched [] tr
   | j # js \<Rightarrow> io_bind (get_exp j) (\<lambda>x.
       let only = point_arg x i in
       io_seq (event s (ex_name x @ '' '' @ only @ '' rep '' @ show_nat k @ '' (concurrent)''))
       (io_seq (sleep_for s 20)
       (run_threads s k i sched js (fst tr @ [(j, only, Some Top)], snd tr)))))"
| "run_threads s k i (Suc j # sched) due tr =
     io_bind (thread_step s k tr j) (run_threads s k i sched due)"

fun thread_over :: "thread \<Rightarrow> bool" where
  "thread_over (_, _, None) = True"
| "thread_over (_, _, Some (Finished _)) = True"
| "thread_over _ = False"

text \<open>The verdict over the results, after the joins: the last ending one wins.\<close>

fun collect :: "'w os \<Rightarrow> nat \<Rightarrow> string dict \<Rightarrow> string \<Rightarrow> nat list \<Rightarrow> ('w, string) q" where
  "collect s i results verdict [] = io_ret verdict"
| "collect s i results verdict (j # js) =
     io_bind (get_exp j) (\<lambda>x.
     let v = (case map_of results (ex_name x) of None \<Rightarrow> ''failed'' | Some v \<Rightarrow> v) in
     if ending v then collect s i results v js
     else io_seq (io_when (v = ''failed'')
            (event s (ex_name x @ '' FAILED at '' @ point_arg x i @ ''; see its log'')))
          (collect s i results verdict js))"

definition run_due_threads :: "nat list \<Rightarrow> 'w os \<Rightarrow> nat \<Rightarrow> nat \<Rightarrow> nat list \<Rightarrow> ('w, string option) q" where
  "run_due_threads sched s k i due =
     io_bind (run_threads s k i sched due ([], [])) (\<lambda>(left, ts, results).
       if left \<noteq> [] \<or> \<not> list_all thread_over ts then io_ret None
       else io_bind (collect s i results ''done'' due) (\<lambda>v. io_ret (Some v)))"

definition points :: "nat \<Rightarrow> nat \<Rightarrow> (nat \<times> nat) list" where
  "points most longest = concat (map (\<lambda>k. map (\<lambda>i. (k, i)) [0..<longest]) [1..<Suc most])"

fun run_points ::
  "nat \<Rightarrow> (nat \<Rightarrow> nat \<Rightarrow> nat list) \<Rightarrow> 'w os \<Rightarrow> nat list \<Rightarrow> bool \<Rightarrow> (nat \<times> nat) list \<Rightarrow> ('w, string option) q" where
  "run_points fuel sched s members concurrent [] = io_ret (Some ''done'')"
| "run_points fuel sched s members concurrent ((k, i) # ps) =
     io_bind get_q (\<lambda>q. let due = due_at q members k i in
     if due = [] then run_points fuel sched s members concurrent ps
     else io_bind (if concurrent then run_due_threads (sched k i) s k i due else run_due fuel s k i due)
       (\<lambda>r. if r = Some ''done'' then run_points fuel sched s members concurrent ps else io_ret r))"

definition max_of :: "nat list \<Rightarrow> nat" where
  "max_of xs = foldr max xs 0"

definition run_group ::
  "nat \<Rightarrow> (nat \<Rightarrow> nat \<Rightarrow> nat list) \<Rightarrow> 'w os \<Rightarrow> nat list \<Rightarrow> bool \<Rightarrow> ('w, string option) q" where
  "run_group fuel sched s members concurrent =
     io_bind get_q (\<lambda>q.
     let most = max_of (map (\<lambda>j. ex_reps (q_exps q ! j)) members);
         longest = max_of (map (\<lambda>j. length (ex_values (q_exps q ! j))) members)
     in run_points fuel sched s members concurrent (points most longest))"

section \<open>The whole queue\<close>

definition notify :: "string \<Rightarrow> string \<Rightarrow> ('w, unit) q" where
  "notify text title = io_emit (Notify title text)"

definition groups_of :: "exper list \<Rightarrow> (nat \<times> nat list) list" where
  "groups_of xs = map (\<lambda>g. (g, filter (\<lambda>j. ex_group (xs ! j) = g) [0..<length xs])) (sort (remdups (map ex_group xs)))"

fun run_groups ::
  "nat \<Rightarrow> (nat \<Rightarrow> nat \<Rightarrow> nat \<Rightarrow> nat list) \<Rightarrow> 'w os \<Rightarrow> nat \<Rightarrow> (nat \<times> nat list) list \<Rightarrow> ('w, string option) q" where
  "run_groups fuel sched s n [] = io_ret (Some ''done'')"
| "run_groups fuel sched s n ((g, members) # gs) =
     io_bind get_q (\<lambda>q.
     io_seq (io_when (n > 1) (event s (''group '' @ show_nat (g + 1) @ ''/'' @ show_nat n @ '': ''
         @ join '', '' (map (\<lambda>j. ex_name (q_exps q ! j)) members))))
     (io_bind (run_group fuel (sched g) s members (q_concurrent q)) (\<lambda>r.
        if r = Some ''done'' then run_groups fuel sched s n gs else io_ret r)))"

text \<open>The pass that only plots; its verdicts are not looked at. False: out of fuel.\<close>

fun plot_pass :: "nat \<Rightarrow> 'w os \<Rightarrow> nat list \<Rightarrow> ('w, bool) q" where
  "plot_pass fuel s [] = io_ret True"
| "plot_pass fuel s (j # js) =
     io_bind (get_exp j) (\<lambda>x.
     if ex_status x = ''done''
     then io_bind (run_one fuel s j (ex_reps x) True None) (\<lambda>r.
            if r = None then io_ret False else plot_pass fuel s js)
     else plot_pass fuel s js)"

fun run_all :: "nat \<Rightarrow> 'w os \<Rightarrow> nat list \<Rightarrow> ('w, string option) q" where
  "run_all fuel s [] = io_ret (Some ''done'')"
| "run_all fuel s (j # js) =
     io_bind (get_exp j) (\<lambda>x.
     io_seq (event s (ex_name x))
     (io_bind (run_one fuel s j (ex_reps x) True None) (\<lambda>r. case r of
        None \<Rightarrow> io_ret None
      | Some v \<Rightarrow>
          if ending v then io_ret (Some v)
          else io_seq (io_when (v = ''failed'') (event s (ex_name x @ '' FAILED; see its log'')))
                 (run_all fuel s js))))"

definition settle_statuses :: "string \<Rightarrow> exper list \<Rightarrow> exper list" where
  "settle_statuses verdict = map (\<lambda>x.
     if ex_status x \<in> {''running'', ''waiting for spot'', ''queued''} then x\<lparr>ex_status := verdict\<rparr> else x)"

definition final_verdict :: "string \<Rightarrow> exper list \<Rightarrow> string" where
  "final_verdict v xs =
     (if \<not> ending v \<and> list_ex (\<lambda>x. ex_status x = ''failed'') xs then ''failed'' else v)"

text \<open>After the loops, with their verdict: what is in flight is ended and swept, ...\<close>

definition close_queue :: "'w os \<Rightarrow> 'w account \<Rightarrow> string \<Rightarrow> ('w, unit) q" where
  "close_queue s a v =
     (if v = ''credentials''
      then io_seq (event s ''credentials expired: the aws login session ended; `aws login`, then `just queue` again -- the CSVs resume'')
             (end_child s)
      else io_when (v = ''expired'' \<or> v = ''stopped'')
        (io_seq (event s (v @ '': ending the run in progress and sweeping''))
        (io_seq (end_child s) (sweep s a))))"

text \<open>... the open statuses become the verdict, and ...\<close>

definition close_statuses :: "string \<Rightarrow> ('w, unit) q" where
  "close_statuses v = io_when (ending v) (mod_q (\<lambda>q. q\<lparr>q_exps := settle_statuses v (q_exps q)\<rparr>))"

text \<open>... the state is saved and reported.\<close>

definition report :: "'w os \<Rightarrow> string \<Rightarrow> ('w, nat) q" where
  "report s v = io_bind get_q (\<lambda>q. let verdict = final_verdict v (q_exps q) in
     (io_bind (now_time s) (\<lambda>t.
      io_seq (save s (\<lambda>q. q\<lparr>q_status := verdict, q_finished := Some t\<rparr>))
      (io_bind get_q (\<lambda>q.
       let summary = join '', '' (map (\<lambda>x. ex_name x @ '' '' @ ex_status x) (q_exps q)) in
       io_seq (event s (''queue '' @ verdict @ '': '' @ summary))
       (io_seq (notify summary (''queue '' @ q_id q @ '' '' @ verdict))
       (io_ret (if verdict = ''done'' then 0 else 1))))))))"

definition finish :: "'w os \<Rightarrow> 'w account \<Rightarrow> string \<Rightarrow> ('w, nat) q" where
  "finish s a v = io_seq (close_queue s a v) (io_seq (close_statuses v) (report s v))"

text \<open>The loops of \<open>main\<close>, and what it announces before them.\<close>

definition announce :: "'w os \<Rightarrow> int \<Rightarrow> ('w, unit) q" where
  "announce s pid =
     io_seq (save s (\<lambda>q. q\<lparr>q_pid := Some pid, q_status := ''running''\<rparr>))
     (io_bind get_q (\<lambda>q.
      io_seq (event s (''queue '' @ q_id q @ '' started, ttl '' @ show_int (q_ttl q div 60) @ '' min, market '' @ q_market q))
      (notify (show_nat (length (q_exps q)) @ '' experiment(s), ttl '' @ show_int (q_ttl q div 60) @ '' min'')
                 (''queue '' @ q_id q @ '' started''))))"

definition run_loops :: "nat \<Rightarrow> (nat \<Rightarrow> nat \<Rightarrow> nat \<Rightarrow> nat list) \<Rightarrow> 'w os \<Rightarrow> ('w, string option) q" where
  "run_loops fuel sched s = io_bind get_q (\<lambda>q.
     if q_interleave q
     then (let gs = groups_of (q_exps q) in
           io_bind (run_groups fuel sched s (length gs) gs) (\<lambda>r.
             if r = Some ''done''
             then io_bind (plot_pass fuel s [0..<length (q_exps q)]) (\<lambda>b. io_ret (if b then r else None))
             else io_ret r))
     else run_all fuel s [0..<length (q_exps q)])"

text \<open>\<open>Runner.main\<close>; None when the fuel or a schedule ran out.\<close>

definition queue_main ::
  "nat \<Rightarrow> (nat \<Rightarrow> nat \<Rightarrow> nat \<Rightarrow> nat list) \<Rightarrow> 'w os \<Rightarrow> 'w account \<Rightarrow> int \<Rightarrow> ('w, nat option) q" where
  "queue_main fuel sched s a pid =
     io_seq (announce s pid)
       (io_bind (run_loops fuel sched s) (\<lambda>r. case r of
           None \<Rightarrow> io_ret None
         | Some v \<Rightarrow> io_bind (finish s a v) (\<lambda>rc. io_ret (Some rc))))"

end
