(* ===== verification/QueueSweep.thy ===== *)
theory QueueSweep
  imports QueueMain
begin

text \<open>
  What the sweep of an ended queue may touch.
\<close>

section \<open>What the sweep may touch\<close>

text \<open>The instances of the queue's window that its own logs name, as \<open>sweep\<close> sees them.\<close>

definition own_instances :: "'w account \<Rightarrow> 'w qworld \<Rightarrow> string set" where
  "own_instances a w =
     (let since = q_started (qw_q w) - 60 in
      case ac_ours a (qw_os w) of
        (Inl e, u) \<Rightarrow> {}
      | (Inr res, u) \<Rightarrow>
          (case ac_qlogs a u of (own, u1) \<Rightarrow> case ac_rlogs a u1 of (results, u2) \<Rightarrow>
             {in_id i | i. i \<in> set (concat res) \<and> since \<le> in_launch i \<and>
                in_id i \<in> set (ids_in (own @ map snd (filter (\<lambda>(t, _). since \<le> t) results)))}))"

fun touches :: "string set \<Rightarrow> qeff \<Rightarrow> bool" where
  "touches S (Aws (TerminateInstances ids)) = (set ids \<subseteq> S)"
| "touches S (Aws (SpotRequestsOf ids)) = (set ids \<subseteq> S)"
| "touches S (Aws (CancelSpotRequests ids)) = True"
| "touches S (Aws _) = False"
| "touches S (Spawn _ _) = False"
| "touches S (Kill _ _) = False"
| "touches S (KillGroup _ _) = False"
| "touches S _ = True"

lemma touch_event: "emits (touches S) (event s m)"
  by (auto simp: emits_def event_def queue_prims io_bind_def split: prod.splits)

lemma touch_state: "emits (touches S) get_q" "emits (touches S) (on_os (\<lambda>u. case f u of (r, u') \<Rightarrow> (g r, u', [])))"
  by (auto simp: emits_def get_q_def io_ask_def on_os_def split: prod.splits)

lemma touch_call: "touches S e \<Longrightarrow> emits (touches S) (on_os (io_call e f))"
  by (auto simp: emits_def on_os_def io_call_def split: prod.splits)

lemma touch_image: "emits (touches S) (sweep_image s a t im)"
  unfolding sweep_image_def by (intro io_intros touch_call touch_event) simp_all

lemma emits_on_os: "emits P m \<Longrightarrow> emits P (on_os m)"
  by (auto simp: emits_def on_os_def split: prod.splits) (metis fst_conv snd_conv)

lemma touch_terminate:
  assumes "set ids \<subseteq> S"
  shows "emits (touches S) (on_os (io_lift Aws (terminate c (map Some ids))))"
proof (rule emits_on_os, rule emits_lift)
  have "set (map the (filter given (map Some ids))) \<subseteq> S" using assms by auto
  then show "emits (\<lambda>e. touches S (Aws e)) (terminate c (map Some ids))"
    unfolding terminate_def Let_def
    by (intro io_intros; auto split: if_splits intro: io_intros)
qed

lemma emits_all: "emits P m \<Longrightarrow> m w = (r, w', es) \<Longrightarrow> list_all P es"
  by (auto simp: list_all_iff dest: emits_run)

lemma our_instances_run:
  "ac_ours a (qw_os w) = (Inr res, u) \<Longrightarrow>
     our_instances a since w =
       (Inr (filter (\<lambda>i. case since of None \<Rightarrow> True | Some t \<Rightarrow> t \<le> in_launch i) (concat res)),
        w\<lparr>qw_os := u\<rparr>, [Describe ''instances''])"
  by (simp add: our_instances_def on_os_def io_bind_def io_call_def io_ret_def)

lemma launched_run:
  "ac_qlogs a (qw_os w) = (own, u1) \<Longrightarrow> ac_rlogs a u1 = (results, u2) \<Longrightarrow>
     launched a w = (Inr (ids_in (own @ map snd (filter (\<lambda>(t, _). q_started (qw_q w) - 60 \<le> t) results))),
       w\<lparr>qw_os := u2\<rparr>, [])"
  by (simp add: launched_def on_os_def io_bind_def io_ret_def get_q_def io_ask_def Let_def)

lemma sweep_body_touches:
  assumes run: "sweep_body s a (q_started (qw_q w) - 60) w = (r, w', es)"
  shows "list_all (touches (own_instances a w)) es"
proof -
  let ?since = "q_started (qw_q w) - 60"
  obtain ro u where o: "ac_ours a (qw_os w) = (ro, u)" by fastforce
  obtain own u1 where q: "ac_qlogs a u = (own, u1)" by fastforce
  obtain results u2 where l: "ac_rlogs a u1 = (results, u2)" by fastforce
  show ?thesis
  proof (cases ro)
    case (Inl e)
    with run o show ?thesis by (auto simp: sweep_body_def our_instances_def on_os_def io_bind_def io_call_def)
  next
    case (Inr res)
    let ?mine = "ids_in (own @ map snd (filter (\<lambda>(t, _). ?since \<le> t) results))"
    let ?up = "filter (\<lambda>i. ?since \<le> in_launch i) (concat res)"
    let ?ids = "filter (\<lambda>i. i \<in> set ?mine) (map in_id ?up)"
    let ?others = "filter (\<lambda>i. i \<notin> set ?mine) (map in_id ?up)"
    let ?rest = "io_seq (io_when (?ids \<noteq> [])
          (io_seq (on_os (io_lift Aws (terminate (ac_ec2 a) (map Some ?ids))))
             (event s (''terminated '' @ join '', '' ?ids))))
        (io_seq (io_when (?others \<noteq> [])
          (event s (''left running, not launched by this queue: '' @ join '', '' ?others)))
        (io_bind (on_os (io_call (Describe ''images'') (ac_images a))) (\<lambda>imgs.
         io_for (sweep_image s a ?since) imgs)))"
    have own: "own_instances a w = set ?ids"
      by (auto simp: own_instances_def Let_def o Inr q l)
    have "emits (touches (set ?ids)) ?rest"
      by (intro io_intros touch_terminate touch_event touch_call touch_image) simp_all
    moreover have "\<exists>es'. ?rest (w\<lparr>qw_os := u2\<rparr>) = (r, w', es') \<and> es = Describe ''instances'' # es'"
    proof -
      have up: "our_instances a (Some ?since) w = (Inr ?up, w\<lparr>qw_os := u\<rparr>, [Describe ''instances''])"
        using our_instances_run [of a w res u "Some ?since"] o Inr by simp
      have mine: "launched a (w\<lparr>qw_os := u\<rparr>) = (Inr ?mine, w\<lparr>qw_os := u2\<rparr>, [])"
        using launched_run [of a "w\<lparr>qw_os := u\<rparr>" own u1 results u2] q l by simp
      show ?thesis
        using run [unfolded sweep_body_def io_bind_Inr [where m = "our_instances a (Some ?since)", OF up]
            io_bind_Inr [where m = "launched a", OF mine]]
        by (auto simp: Let_def split: prod.splits)
    qed
    ultimately show ?thesis using emits_all own by fastforce
  qed
qed

lemma throws_event: "throws P (event s m)"
  by (auto simp: throws_def event_def queue_prims io_bind_def split: prod.splits)

text \<open>
  C17. The sweep keeps to the queue's own: the only instances it terminates, and whose spot requests
  it looks up, are those up, launched in the queue's window, whose ids the queue's own logs or the
  deploy logs of that window name; an error of AWS never leaves it.
\<close>

theorem sweep_own_only:
  "(case sweep s a w of (r, w', es) \<Rightarrow> list_all (touches (own_instances a w)) es \<and>
     (case r of Inl e \<Rightarrow> \<not> is_aws_error e | Inr _ \<Rightarrow> True))"
proof -
  obtain r w' es where run: "sweep s a w = (r, w', es)" by (metis prod_cases3)
  let ?since = "q_started (qw_q w) - 60"
  let ?warn = "\<lambda>e. event s (''WARN: sweep failed: '' @ error_text (ac_ec2 a) e
                   @ ''; check the console for instances tagged '' @ show_list our_tags)"
  have "io_catch (sweep_body s a ?since) (\<lambda>e. if is_aws_error e then Some (?warn e) else None) w = (r, w', es)"
    using run by (simp add: sweep_def get_q_def io_bind_def io_ask_def split: prod.splits)
  then show ?thesis
  proof (cases rule: io_catch_cases)
    case 1
    then show ?thesis
      using sweep_body_touches [OF 1(1)] by (auto simp: run split: sum.splits if_splits)
  next
    case (2 e n w1 cs1 cs2)
    then have n: "n = ?warn e" by (simp split: if_splits)
    have "r \<noteq> Inl x" for x
      using 2(3) throws_run [OF throws_event [of "\<lambda>_. False"]] unfolding n by blast
    moreover have "list_all (touches (own_instances a w)) cs2"
      using emits_all [OF touch_event 2(3) [unfolded n]] .
    ultimately show ?thesis
      using sweep_body_touches [OF 2(1)] by (auto simp: run 2(4) split: sum.splits)
  qed
qed

end
