(* ===== verification/QueueOrder.thy ===== *)
theory QueueOrder
  imports QueueMain
begin

text \<open>
  When and for what the queue starts drivers: the interface of a run as the rest of the queue uses
  it (the locale \<open>queue_relation\<close>), the deadline over the whole of \<open>main\<close>, and the order in which
  \<open>run_group\<close> goes through repetitions and points.
\<close>

section \<open>Everything but the runs is quiet\<close>

lemma quiet_call: "\<not> is_spawn e \<Longrightarrow> traced quiet (on_os (io_call e f))"
  by (auto simp: traced_def on_os_def io_call_def quiet_def split: prod.splits)

lemma quiet_lift_aws: "traced quiet (on_os (io_lift Aws m))"
  by (auto simp: traced_def on_os_def io_lift_def quiet_def list_ex_iff split: prod.splits)

lemma quiet_notify: "traced quiet (notify t u)"
  by (simp add: notify_def quiet_emit)

lemmas quiet_more = quiet_intros quiet_call quiet_lift_aws quiet_notify

lemma quiet_sweep_image: "traced quiet (sweep_image s a t im)"
  unfolding sweep_image_def by (intro quiet_more) simp_all

lemma quiet_sweep_run: "traced quiet (sweep s a)"
  unfolding sweep_def sweep_body_def our_instances_def launched_def Let_def
  by (intro quiet_more quiet_sweep_image; auto split: if_splits intro: quiet_event)

lemma quiet_collect: "traced quiet (collect s i results v js)"
  by (induction js arbitrary: v) (auto simp: Let_def intro!: quiet_more)

lemma quiet_settle_statuses: "traced quiet (mod_q (\<lambda>q. q\<lparr>q_exps := settle_statuses v (q_exps q)\<rparr>))"
  by (rule quiet_mod_q) (simp_all add: settle_statuses_def static_def static_exp_def)

text \<open>
  The interface of \<open>run_one\<close> and of the threads as \<open>run_group\<close> and \<open>main\<close> use it: a relation between
  the world before, the effects and the world after that each step of a run keeps, and that every
  quiet operation keeps, is kept by the whole queue.
\<close>

locale queue_relation = trace_relation R
  for R :: "'w qworld \<Rightarrow> qeff list \<Rightarrow> 'w qworld \<Rightarrow> bool" +
  fixes s :: "'w os"
  assumes R_quiet: "quiet w es w' \<Longrightarrow> R w es w'"
    and R_step: "traced R (run_step s i reps plot only p)"
begin

lemma kept: "traced quiet m \<Longrightarrow> traced R m"
  by (erule traced_mono) (rule R_quiet)

lemmas kept_rules = traced_rules kept [OF quiet_event] kept [OF quiet_get(1)] kept [OF quiet_get(2)]
  kept [OF quiet_collect] kept [OF quiet_notify] kept [OF quiet_sleep] kept [OF quiet_end_child]
  kept [OF quiet_sweep_run] kept [OF quiet_settle_statuses] kept [OF quiet_now]

lemma run_from_kept: "traced R (run_from n s i reps plot only p)"
proof (induction n arbitrary: p)
  case 0
  then show ?case by (cases p) (auto intro: traced_ret)
next
  case (Suc n)
  have step: "traced R (io_bind (run_step s i reps plot only p) (run_from n s i reps plot only))"
    by (rule traced_bind [OF R_step Suc])
  then show ?case by (cases p) (simp_all add: traced_ret)
qed

lemma run_one_kept: "traced R (run_one n s i reps plot only)"
  unfolding run_one_def by (rule run_from_kept)

lemma run_due_kept: "traced R (run_due fuel s k i js)"
  by (induction js) (auto simp: Let_def intro!: kept_rules run_one_kept split: option.splits)

lemma thread_step_kept: "traced R (thread_step s k tr j)"
  unfolding thread_step_def
  by (auto split: prod.splits option.splits pc.splits intro!: kept_rules R_step)

lemma run_threads_kept: "traced R (run_threads s k i sched due tr)"
proof (induction sched arbitrary: due tr)
  case (Cons m sched)
  then show ?case
    by (cases m; cases due) (auto simp: Let_def intro!: kept_rules thread_step_kept)
qed (simp add: traced_ret)

lemma run_due_threads_kept: "traced R (run_due_threads sched s k i due)"
  unfolding run_due_threads_def by (auto intro!: kept_rules run_threads_kept split: prod.splits)

lemma run_points_kept: "traced R (run_points fuel sched s members c ps)"
  by (induction ps) (auto simp: Let_def intro!: kept_rules run_due_kept run_due_threads_kept)

lemma run_group_kept: "traced R (run_group fuel sched s members c)"
  unfolding run_group_def Let_def by (intro kept_rules run_points_kept)

lemma run_groups_kept: "traced R (run_groups fuel sched s n gs)"
  by (induction gs) (auto intro!: kept_rules run_group_kept)

lemma plot_pass_kept: "traced R (plot_pass fuel s js)"
  by (induction js) (auto intro!: kept_rules run_one_kept)

lemma run_all_kept: "traced R (run_all fuel s js)"
  by (induction js) (auto intro!: kept_rules run_one_kept split: option.splits)

lemma save_kept:
  "(\<And>q. static (f q) = static q) \<Longrightarrow> (\<And>q. map ex_attempts (q_exps (f q)) = map ex_attempts (q_exps q)) \<Longrightarrow> traced R (save s f)"
  by (intro kept quiet_save)

lemma finish_kept: "traced R (finish s a v)"
  unfolding finish_def close_queue_def close_statuses_def report_def Let_def
  by (intro kept_rules save_kept; simp)

lemma announce_kept: "traced R (announce s pid)"
  unfolding announce_def by (intro kept_rules save_kept; simp)

lemma run_loops_kept: "traced R (run_loops fuel sched s)"
  unfolding run_loops_def Let_def by (intro kept_rules run_groups_kept plot_pass_kept run_all_kept)

lemma queue_main_kept: "traced R (queue_main fuel sched s a pid)"
  unfolding queue_main_def
  by (auto split: option.splits intro!: kept_rules announce_kept run_loops_kept finish_kept)

end

text \<open>No driver is started late, nor is the fixed part of the state changed.\<close>

definition punctual :: "'w qworld \<Rightarrow> qeff list \<Rightarrow> 'w qworld \<Rightarrow> bool" where
  "punctual w es w' \<longleftrightarrow> static (qw_q w') = static (qw_q w) \<and> guarded (q_deadline (qw_q w)) False False es"

lemma tracked_punctual: "tracked i w es w' \<Longrightarrow> punctual w es w'"
  by (simp add: tracked_def punctual_def)

interpretation punctual: queue_relation punctual s
proof
  fix w :: "'w qworld"
  show "punctual w [] w" by (simp add: punctual_def)
next
  fix w w1 w2 :: "'w qworld" and es es'
  assume "punctual w es w1" "punctual w1 es' w2"
  then show "punctual w (es @ es') w2"
    by (auto simp: punctual_def intro!: guarded_append dest: static_deadline)
next
  fix w w' :: "'w qworld" and es
  assume "quiet w es w'"
  then show "punctual w es w'" by (blast intro: tracked_punctual quiet_tracked)
next
  fix i reps plot only p
  show "traced punctual (run_step s i reps plot only p)"
    by (rule traced_mono [OF tracked_step tracked_punctual])
qed

text \<open>
  C12. The whole queue respects its deadline: whatever the mode, the schedule of the threads, and
  what EC2 and the operating system do, \<open>main\<close> starts no driver but right after it found that
  nobody asked it to stop and that the deadline it was submitted with was still ahead.
\<close>

theorem queue_starts_guarded:
  "(case queue_main fuel sched s a pid w of (r, w', es) \<Rightarrow>
     guarded (q_deadline (qw_q w)) False False es \<and> q_deadline (qw_q w') = q_deadline (qw_q w))"
proof -
  obtain r w' es where run: "queue_main fuel sched s a pid w = (r, w', es)" by (metis prod_cases3)
  from traced_run [OF punctual.queue_main_kept run] show ?thesis
    by (auto simp: run punctual_def dest: static_deadline)
qed

text \<open>
  What a driver is started for: repetition \<open>k\<close> of experiment \<open>j\<close>, perhaps of one point only, on the
  queue's market.
\<close>

definition start_of :: "'w os \<Rightarrow> qstate \<Rightarrow> nat \<Rightarrow> nat \<Rightarrow> bool \<Rightarrow> string option \<Rightarrow> qeff" where
  "start_of s q j k plot only =
     Spawn (run_cmd s q (q_exps q ! j) k plot only) (log_name (q_exps q ! j))"

lemma start_of_static:
  assumes "static q = static q'" "j < length (q_exps q)"
  shows "start_of s q j k plot only = start_of s q' j k plot only"
proof -
  from assms(1) have "q_market q = q_market q'" "map static_exp (q_exps q) = map static_exp (q_exps q')"
    by (simp_all add: static_def)
  from this(2) assms(2) have "static_exp (q_exps q ! j) = static_exp (q_exps q' ! j)"
    by (metis length_map nth_map)
  then show ?thesis
    using \<open>q_market q = q_market q'\<close> by (simp add: start_of_def run_cmd_def log_name_def static_exp_def)
qed

text \<open>Only drivers of a set \<open>P\<close> of runs are started.\<close>

definition starts_only ::
  "'w os \<Rightarrow> (nat \<Rightarrow> nat \<Rightarrow> bool \<Rightarrow> string option \<Rightarrow> bool) \<Rightarrow> 'w qworld \<Rightarrow> qeff list \<Rightarrow> 'w qworld \<Rightarrow> bool" where
  "starts_only s P w es w' \<longleftrightarrow> static (qw_q w') = static (qw_q w) \<and>
     (\<forall>e \<in> set es. is_spawn e \<longrightarrow>
        (\<exists>j k plot only. P j k plot only \<and> j < length (q_exps (qw_q w)) \<and> e = start_of s (qw_q w) j k plot only))"

interpretation starts: trace_relation "starts_only s P"
proof
  fix w :: "'a qworld"
  show "starts_only s P w [] w" by (simp add: starts_only_def)
next
  fix w w1 w2 :: "'a qworld" and es es'
  assume a: "starts_only s P w es w1" and b: "starts_only s P w1 es' w2"
  from a have st: "static (qw_q w1) = static (qw_q w)" by (simp add: starts_only_def)
  from b have "\<exists>j k plot only. P j k plot only \<and> j < length (q_exps (qw_q w)) \<and> e = start_of s (qw_q w) j k plot only"
    if "e \<in> set es'" "is_spawn e" for e
    using that start_of_static [OF st] static_length [OF st] unfolding starts_only_def by metis
  with a b show "starts_only s P w (es @ es') w2" by (auto simp: starts_only_def)
qed

lemma starts_quiet: "traced quiet m \<Longrightarrow> traced (starts_only s P) m"
  by (erule traced_mono) (auto simp: quiet_def starts_only_def list_ex_iff)

text \<open>A step of an experiment that exists starts that experiment's driver, if any.\<close>

definition has_exp :: "nat \<Rightarrow> 'w qworld \<Rightarrow> bool" where
  "has_exp j w \<longleftrightarrow> j < length (q_exps (qw_q w))"

lemma attempt_starts:
  assumes run: "attempt s j k plot only w = (r, w', es)" and j: "has_exp j w"
  shows "starts_only s (\<lambda>j' k' plot' only'. j' = j \<and> k' = k \<and> plot' = plot \<and> only' = only) w es w'"
proof -
  obtain b u1 where st: "os_stop s (qw_os w) = (b, u1)" by fastforce
  obtain t1 u2 where nw: "os_now s u1 = (t1, u2)" by fastforce
  obtain t3 u3 where n3: "os_now s u2 = (t3, u3)" by fastforce
  obtain t4 u4 where n4: "os_now s u3 = (t4, u4)" by fastforce
  have static: "static (qw_q w') = static (qw_q w)"
    using traced_run [OF tracked_attempt run] by (simp add: tracked_def)
  have "e = start_of s (qw_q w) j k plot only" if "e \<in> set es" "is_spawn e" for e
    using that run j
    by (cases "b \<or> t1 \<ge> q_deadline (qw_q w)")
      (auto simp: attempt_def queue_prims save_def io_defs st nw n3 n4 Let_def start_of_def run_cmd_def
         log_name_def has_exp_def split: if_splits prod.splits sum.splits)
  with static j show ?thesis unfolding starts_only_def has_exp_def by blast
qed


lemma starts_weaken:
  "starts_only s P w es w' \<Longrightarrow> (\<And>j k plot only. P j k plot only \<Longrightarrow> Q j k plot only) \<Longrightarrow> starts_only s Q w es w'"
  unfolding starts_only_def by blast

definition one_run :: "nat \<Rightarrow> nat \<Rightarrow> bool \<Rightarrow> string option \<Rightarrow> nat \<Rightarrow> nat \<Rightarrow> bool \<Rightarrow> string option \<Rightarrow> bool" where
  "one_run j k plot only = (\<lambda>j' k' plot' only'. j' = j \<and> k' = k \<and> plot' = plot \<and> only' = only)"

lemma has_exp_static: "static (qw_q w') = static (qw_q w) \<Longrightarrow> has_exp j w' = has_exp j w"
  using static_length [of "qw_q w'" "qw_q w"] by (simp add: has_exp_def)

lemma starts_static: "starts_only s P w es w' \<Longrightarrow> static (qw_q w') = static (qw_q w)"
  by (simp add: starts_only_def)

lemma step_starts:
  assumes run: "run_step s j k plot only p w = (r, w', es)" and j: "has_exp j w"
  shows "starts_only s (one_run j k plot only) w es w'"
proof (cases p)
  case Top
  with run attempt_starts [of s j k plot only w r w' es] j show ?thesis by (simp add: one_run_def)
next
  case (Watching pid)
  with run traced_run [OF starts_quiet [OF quiet_watch]] show ?thesis by simp
next
  case (Backoff u)
  with run traced_run [OF starts_quiet [OF quiet_backoff]] show ?thesis by simp
next
  case (Finished v)
  with run show ?thesis by (simp add: io_ret_def starts_only_def)
qed

lemma run_from_starts:
  "run_from n s j k plot only p w = (r, w', es) \<Longrightarrow> has_exp j w \<Longrightarrow> starts_only s (one_run j k plot only) w es w'"
proof (induction n arbitrary: p w r w' es)
  case 0
  then show ?case by (cases p) (auto simp: io_ret_def starts_only_def)
next
  case (Suc n)
  show ?case
  proof (cases "\<exists>v. p = Finished v")
    case True
    with Suc.prems show ?thesis by (auto simp: io_ret_def starts_only_def)
  next
    case False
    with Suc.prems(1) have "io_bind (run_step s j k plot only p) (run_from n s j k plot only) w = (r, w', es)"
      by (cases p) simp_all
    then show ?thesis
    proof (cases rule: io_bind_cases)
      case (1 e)
      with step_starts Suc.prems(2) show ?thesis by blast
    next
      case (2 x w1 cs1 cs2)
      note first = step_starts [OF 2(1) Suc.prems(2)]
      have "has_exp j w1" using Suc.prems(2) has_exp_static [OF starts_static [OF first]] by blast
      from starts.R_trans [OF first Suc.IH [OF 2(2) this]] show ?thesis by (simp add: 2(3))
    qed
  qed
qed

lemma run_one_starts:
  "run_one n s j k plot only w = (r, w', es) \<Longrightarrow> has_exp j w \<Longrightarrow> starts_only s (one_run j k plot only) w es w'"
  unfolding run_one_def by (rule run_from_starts)

text \<open>The runs of point \<open>i\<close> in repetition \<open>k\<close>, for a set of experiments.\<close>

definition at_point :: "qstate \<Rightarrow> nat list \<Rightarrow> nat \<Rightarrow> nat \<Rightarrow> nat \<Rightarrow> nat \<Rightarrow> bool \<Rightarrow> string option \<Rightarrow> bool" where
  "at_point q js k i = (\<lambda>j k' plot only. j \<in> set js \<and> k' = k \<and> \<not> plot \<and> only = Some (point_arg (q_exps q ! j) i))"

lemma static_point:
  assumes "static q = static q'" "j < length (q_exps q)"
  shows "point_arg (q_exps q ! j) i = point_arg (q_exps q' ! j) i" "ex_reps (q_exps q ! j) = ex_reps (q_exps q' ! j)"
    "ex_values (q_exps q ! j) = ex_values (q_exps q' ! j)"
proof -
  from assms(1) have "map static_exp (q_exps q) = map static_exp (q_exps q')" by (simp add: static_def)
  with assms(2) have "static_exp (q_exps q ! j) = static_exp (q_exps q' ! j)"
    by (metis length_map nth_map)
  then show "point_arg (q_exps q ! j) i = point_arg (q_exps q' ! j) i" "ex_reps (q_exps q ! j) = ex_reps (q_exps q' ! j)"
    "ex_values (q_exps q ! j) = ex_values (q_exps q' ! j)"
    by (simp_all add: point_arg_def static_exp_def)
qed

lemma at_point_static:
  assumes "static q = static q'" "\<forall>j \<in> set js. j < length (q_exps q)"
  shows "at_point q js k i = at_point q' js k i"
proof -
  have "point_arg (q_exps q ! j) i = point_arg (q_exps q' ! j) i" if "j \<in> set js" for j
    by (rule static_point(1) [OF assms(1)]) (use assms(2) that in blast)
  then show ?thesis by (auto simp: at_point_def fun_eq_iff)
qed

text \<open>Sequencing for relations that hold from worlds with given experiments only.\<close>

lemma starts_bind:
  assumes "io_bind m f w = (r, w', es)"
    and "\<And>r1 w1 es1. m w = (r1, w1, es1) \<Longrightarrow> starts_only s P w es1 w1"
    and "\<And>x w1 es1 es2. m w = (Inr x, w1, es1) \<Longrightarrow> static (qw_q w1) = static (qw_q w) \<Longrightarrow>
           f x w1 = (r, w', es2) \<Longrightarrow> starts_only s P w1 es2 w'"
  shows "starts_only s P w es w'"
  using assms(1)
proof (cases rule: io_bind_cases)
  case (1 e)
  with assms(2) show ?thesis by blast
next
  case (2 x w1 cs1 cs2)
  note first = assms(2) [OF 2(1)]
  then have "static (qw_q w1) = static (qw_q w)" by (simp add: starts_only_def)
  from starts.R_trans [OF first assms(3) [OF 2(1) this 2(2)]] show ?thesis by (simp add: 2(3))
qed


lemma get_exp_bind: "io_bind (get_exp j) f w = f (q_exps (qw_q w) ! j) w"
  by (simp add: io_bind_def get_exp_def io_ask_def split: prod.splits)

lemma get_q_bind: "io_bind get_q f w = f (qw_q w) w"
  by (simp add: io_bind_def get_q_def io_ask_def split: prod.splits)

lemma starts_seq_quiet:
  assumes "io_seq m n w = (r, w', es)" and "traced quiet m"
    and "\<And>w1 es2. static (qw_q w1) = static (qw_q w) \<Longrightarrow> n w1 = (r, w', es2) \<Longrightarrow> starts_only s P w1 es2 w'"
  shows "starts_only s P w es w'"
  using assms(1) unfolding io_seq_def
  by (rule starts_bind) (auto intro: traced_run [OF starts_quiet [OF assms(2)]] assms(3))

text \<open>A smaller set of experiments at a later world.\<close>

lemma starts_later:
  assumes "starts_only s (at_point (qw_q w1) ks k i) w1 es w'" "static (qw_q w1) = static (qw_q w)"
    and "set ks \<subseteq> set js" "\<forall>j \<in> set js. has_exp j w"
  shows "starts_only s (at_point (qw_q w) js k i) w1 es w'"
proof (rule starts_weaken [OF assms(1)])
  have "\<forall>j \<in> set ks. j < length (q_exps (qw_q w1))"
    using assms(3,4) has_exp_static [OF assms(2)] by (auto simp: has_exp_def)
  from at_point_static [OF assms(2) this] assms(3)
  show "at_point (qw_q w) js k i a b c d" if "at_point (qw_q w1) ks k i a b c d" for a b c d
    using that by (auto simp: at_point_def)
qed

lemma run_due_starts:
  "run_due fuel s k i js w = (r, w', es) \<Longrightarrow> (\<forall>j \<in> set js. has_exp j w) \<Longrightarrow>
     starts_only s (at_point (qw_q w) js k i) w es w'"
proof (induction js arbitrary: w r w' es)
  case Nil
  then show ?case by (simp add: io_ret_def starts_only_def)
next
  case (Cons j js)
  let ?P = "at_point (qw_q w) (j # js) k i"
  let ?x = "q_exps (qw_q w) ! j"
  have tail: "starts_only s ?P w2 es2 w'"
    if "run_due fuel s k i js w2 = (r, w', es2)" "static (qw_q w2) = static (qw_q w)" for w2 es2
  proof (rule starts_later [OF Cons.IH [OF that(1)] that(2)])
    show "\<forall>j \<in> set js. has_exp j w2" using Cons.prems(2) has_exp_static [OF that(2)] by auto
  qed (use Cons.prems(2) in auto)
  from Cons.prems(1) show ?case
    unfolding run_due.simps get_exp_bind Let_def
  proof (rule starts_seq_quiet [OF _ quiet_event])
    fix w1 es2
    assume st: "static (qw_q w1) = static (qw_q w)"
      and run: "io_bind (run_one fuel s j k False (Some (point_arg ?x i))) (\<lambda>r. case r of
          None \<Rightarrow> io_ret None
        | Some v \<Rightarrow> if ending v then io_ret (Some v)
            else io_seq (io_when (v = ''failed'') (event s (ex_name ?x @ '' FAILED at '' @ point_arg ?x i @ ''; see its log'')))
              (run_due fuel s k i js)) w1 = (r, w', es2)"
    from run show "starts_only s ?P w1 es2 w'"
    proof (rule starts_bind)
      fix r1 w2 es1 assume "run_one fuel s j k False (Some (point_arg ?x i)) w1 = (r1, w2, es1)"
      then have "starts_only s (one_run j k False (Some (point_arg ?x i))) w1 es1 w2"
        by (rule run_one_starts) (use Cons.prems(2) has_exp_static [OF st] in simp)
      then show "starts_only s ?P w1 es1 w2"
        by (rule starts_weaken) (auto simp: one_run_def at_point_def)
    next
      fix v w2 es1 es3
      assume st2: "static (qw_q w2) = static (qw_q w1)"
        and rest: "(case v of None \<Rightarrow> io_ret None
        | Some v \<Rightarrow> if ending v then io_ret (Some v)
            else io_seq (io_when (v = ''failed'') (event s (ex_name ?x @ '' FAILED at '' @ point_arg ?x i @ ''; see its log'')))
              (run_due fuel s k i js)) w2 = (r, w', es3)"
      show "starts_only s ?P w2 es3 w'"
      proof (cases "v = None \<or> ending (the v)")
        case True
        with rest show ?thesis by (auto simp: io_ret_def starts_only_def split: option.splits)
      next
        case False
        with rest have "io_seq (io_when (the v = ''failed'') (event s (ex_name ?x @ '' FAILED at '' @ point_arg ?x i @ ''; see its log'')))
              (run_due fuel s k i js) w2 = (r, w', es3)" by auto
        then show ?thesis
          by (rule starts_seq_quiet) (auto intro!: quiet_more tail simp: st st2)
      qed
    qed
  qed
qed

definition thread_ok :: "qstate \<Rightarrow> nat list \<Rightarrow> nat \<Rightarrow> thread \<Rightarrow> bool" where
  "thread_ok q js i t = (case t of (x, only, _) \<Rightarrow> x \<in> set js \<and> only = point_arg (q_exps q ! x) i)"

lemma thread_ok_static:
  assumes "static q = static q'" "\<forall>j \<in> set js. j < length (q_exps q)"
  shows "thread_ok q js i t = thread_ok q' js i t"
proof -
  have "point_arg (q_exps q ! x) i = point_arg (q_exps q' ! x) i" if "x \<in> set js" for x
    by (rule static_point(1) [OF assms(1)]) (use assms(2) that in blast)
  then show ?thesis by (auto simp: thread_ok_def split: prod.splits)
qed

lemma starts_catch_all:
  assumes "io_catch m (\<lambda>e. Some (io_ret x)) w = (r, w', es)" and "\<And>r1 w1 es1. m w = (r1, w1, es1) \<Longrightarrow> starts_only s P w es1 w1"
  shows "starts_only s P w es w'"
  using assms(1)
proof (cases rule: io_catch_cases)
  case 1
  with assms(2) show ?thesis by blast
next
  case (2 e n w1 cs1 cs2)
  then show ?thesis using assms(2) [OF 2(1)] by (auto simp: io_ret_def)
qed

lemma thread_step_starts:
  assumes run: "thread_step s k (ts, results) j w = (r, w', es)"
    and ok: "list_all (thread_ok (qw_q w) js i) ts" and js: "\<forall>j \<in> set js. has_exp j w"
  shows "starts_only s (at_point (qw_q w) js k i) w es w' \<and>
    (\<forall>tr. r = Inr tr \<longrightarrow> list_all (thread_ok (qw_q w) js i) (fst tr))"
proof (cases "j < length ts \<and> snd (snd (ts ! j)) \<noteq> None")
  case False
  with run ok show ?thesis
    by (auto simp: thread_step_def io_ret_def starts_only_def split: if_splits prod.splits option.splits)
next
  case True
  then obtain x only p where t: "j < length ts" "ts ! j = (x, only, Some p)" by (metis option.exhaust_sel prod.exhaust_sel)
  with ok have x: "x \<in> set js" "only = point_arg (q_exps (qw_q w) ! x) i"
    by (auto simp: list_all_length thread_ok_def)
  have upd: "list_all (thread_ok (qw_q w) js i) (ts[j := (x, only, q)])" for q
    using ok x t by (auto simp: list_all_length nth_list_update thread_ok_def)
  let ?next = "\<lambda>p'. case p' of
      Finished v \<Rightarrow> io_bind (get_exp x) (\<lambda>e. io_ret (ts[j := (x, only, Some p')], dict_set (ex_name e) v results))
    | _ \<Rightarrow> io_ret (ts[j := (x, only, Some p')], results)"
  have eq: "thread_step s k (ts, results) j =
      io_catch (io_bind (run_step s x k False (Some only) p) ?next) (\<lambda>e. Some (io_ret (ts[j := (x, only, None)], results)))"
    using t by (simp add: thread_step_def)
  have body: "starts_only s (at_point (qw_q w) js k i) w es1 w1" if "io_bind (run_step s x k False (Some only) p) ?next w = (r1, w1, es1)" for r1 w1 es1
    using that
  proof (rule starts_bind)
    fix r2 w2 es2 assume "run_step s x k False (Some only) p w = (r2, w2, es2)"
    then have "starts_only s (one_run x k False (Some only)) w es2 w2"
      by (rule step_starts) (use js x in simp)
    then show "starts_only s (at_point (qw_q w) js k i) w es2 w2"
      by (rule starts_weaken) (use x in \<open>auto simp: one_run_def at_point_def\<close>)
  next
    fix p' w2 es2 es3 assume "?next p' w2 = (r1, w1, es3)"
    then show "starts_only s (at_point (qw_q w) js k i) w2 es3 w1"
      by (cases p') (auto simp: io_ret_def starts_only_def get_exp_bind)
  qed
  have "list_all (thread_ok (qw_q w) js i) (fst tr)" if "r = Inr tr" for tr
    using run [unfolded eq] upd that
    by (auto simp: io_catch_def io_bind_def io_ret_def get_exp_def io_ask_def split: prod.splits sum.splits pc.splits)
  moreover have "starts_only s (at_point (qw_q w) js k i) w es w'"
    by (rule starts_catch_all [OF run [unfolded eq]]) (rule body)
  ultimately show ?thesis by blast
qed

lemma run_threads_starts:
  "run_threads s k i sched due tr w = (r, w', es) \<Longrightarrow> set due \<subseteq> set js \<Longrightarrow>
     list_all (thread_ok (qw_q w) js i) (fst tr) \<Longrightarrow> \<forall>j \<in> set js. has_exp j w \<Longrightarrow>
     starts_only s (at_point (qw_q w) js k i) w es w'"
proof (induction sched arbitrary: due tr w r w' es)
  case Nil
  then show ?case by (simp add: io_ret_def starts_only_def)
next
  case (Cons m sched)
  have later: "starts_only s (at_point (qw_q w) js k i) w2 es2 w'"
    if "run_threads s k i sched due' tr' w2 = (r, w', es2)" "static (qw_q w2) = static (qw_q w)"
      "set due' \<subseteq> set js" "list_all (thread_ok (qw_q w) js i) (fst tr')" for due' tr' w2 es2
  proof -
    have js2: "\<forall>j \<in> set js. has_exp j w2" using Cons.prems(4) has_exp_static [OF that(2)] by simp
    then have "list_all (thread_ok (qw_q w2) js i) (fst tr')"
      using that(4) thread_ok_static [OF that(2), of js i] by (simp add: has_exp_def list_all_iff)
    from Cons.IH [OF that(1,3) this js2] show ?thesis
      by (rule starts_later [OF _ that(2) subset_refl Cons.prems(4)])
  qed
  show ?case
  proof (cases m)
    case (Suc j)
    with Cons.prems(1) have "io_bind (thread_step s k tr j) (run_threads s k i sched due) w = (r, w', es)" by simp
    then show ?thesis
    proof (rule starts_bind)
      fix r1 w1 es1 assume "thread_step s k tr j w = (r1, w1, es1)"
      with thread_step_starts [of s k "fst tr" "snd tr" j w r1 w1 es1 js i] Cons.prems(3,4)
      show "starts_only s (at_point (qw_q w) js k i) w es1 w1" by simp
    next
      fix tr' w1 es1 es2 assume "thread_step s k tr j w = (Inr tr', w1, es1)" "static (qw_q w1) = static (qw_q w)"
        "run_threads s k i sched due tr' w1 = (r, w', es2)"
      with thread_step_starts [of s k "fst tr" "snd tr" j w "Inr tr'" w1 es1 js i] Cons.prems(2,3,4)
      show "starts_only s (at_point (qw_q w) js k i) w1 es2 w'" by (intro later [of due tr']) auto
    qed
  next
    case 0
    show ?thesis
    proof (cases due)
      case Nil
      with 0 Cons.prems show ?thesis by (intro later [of "[]" tr w]) simp_all
    next
      case (Cons j due')
      let ?x = "q_exps (qw_q w) ! j"
      from 0 Cons Cons.prems(1) have "io_seq (event s (ex_name ?x @ '' '' @ point_arg ?x i @ '' rep '' @ show_nat k @ '' (concurrent)''))
         (io_seq (sleep_for s 20) (run_threads s k i sched due' (fst tr @ [(j, point_arg ?x i, Some Top)], snd tr))) w = (r, w', es)"
        by (simp add: get_exp_bind Let_def)
      then show ?thesis
      proof (rule starts_seq_quiet [OF _ quiet_event])
        fix w1 es1 assume st: "static (qw_q w1) = static (qw_q w)"
          and "io_seq (sleep_for s 20) (run_threads s k i sched due' (fst tr @ [(j, point_arg ?x i, Some Top)], snd tr)) w1 = (r, w', es1)"
        from this(2) show "starts_only s (at_point (qw_q w) js k i) w1 es1 w'"
        proof (rule starts_seq_quiet [OF _ quiet_sleep])
          fix w2 es2 assume "static (qw_q w2) = static (qw_q w1)"
            and "run_threads s k i sched due' (fst tr @ [(j, point_arg ?x i, Some Top)], snd tr) w2 = (r, w', es2)"
          moreover have "thread_ok (qw_q w) js i (j, point_arg ?x i, Some Top)"
            using Cons Cons.prems(2) by (simp add: thread_ok_def)
          ultimately show "starts_only s (at_point (qw_q w) js k i) w2 es2 w'"
            using st Cons Cons.prems(2,3)
            by (intro later [of due' "(fst tr @ [(j, point_arg ?x i, Some Top)], snd tr)"]) simp_all
        qed
      qed
    qed
  qed
qed

lemma run_due_threads_starts:
  assumes run: "run_due_threads sched s k i js w = (r, w', es)" and js: "\<forall>j \<in> set js. has_exp j w"
  shows "starts_only s (at_point (qw_q w) js k i) w es w'"
  using run unfolding run_due_threads_def
proof (rule starts_bind)
  fix r1 w1 es1 assume "run_threads s k i sched js ([], []) w = (r1, w1, es1)"
  then show "starts_only s (at_point (qw_q w) js k i) w es1 w1"
    by (rule run_threads_starts) (use js in auto)
next
  fix x w1 es1 es2
  assume rest: "(case x of (left, ts, results) \<Rightarrow> if left \<noteq> [] \<or> \<not> list_all thread_over ts then io_ret None
     else io_bind (collect s i results ''done'' js) (\<lambda>v. io_ret (Some v))) w1 = (r, w', es2)"
  obtain left ts results where x: "x = (left, ts, results)" by (cases x)
  have "traced quiet (if left \<noteq> [] \<or> \<not> list_all thread_over ts then io_ret None
     else io_bind (collect s i results ''done'' js) (\<lambda>v. io_ret (Some v)))"
    by (intro quiet_more quiet_collect)
  from traced_run [OF starts_quiet [OF this]] rest
  show "starts_only s (at_point (qw_q w) js k i) w1 es2 w'" by (simp add: x)
qed

text \<open>
  The order of a group: the starts of its points, point after point, repetition after repetition.
  \<open>in_points ps es\<close>: the starts in \<open>es\<close> fall into one stretch for each point of \<open>ps\<close>, in order.
\<close>

fun in_points :: "'w os \<Rightarrow> qstate \<Rightarrow> nat list \<Rightarrow> (nat \<times> nat) list \<Rightarrow> qeff list \<Rightarrow> bool" where
  "in_points s q js [] es = list_all (\<lambda>e. \<not> is_spawn e) es"
| "in_points s q js ((k, i) # ps) es =
     (\<exists>n. list_all (\<lambda>e. is_spawn e \<longrightarrow> (\<exists>j. j \<in> set js \<and> k \<le> ex_reps (q_exps q ! j) \<and> i < length (ex_values (q_exps q ! j)) \<and>
              e = start_of s q j k False (Some (point_arg (q_exps q ! j) i)))) (take n es) \<and>
        in_points s q js ps (drop n es))"

lemma in_points_static:
  assumes "static q = static q'" "\<forall>j \<in> set js. j < length (q_exps q)"
  shows "in_points s q js ps es \<Longrightarrow> in_points s q' js ps es"
proof (induction ps arbitrary: es)
  case (Cons p ps)
  obtain k i where p: "p = (k, i)" by (cases p)
  have same: "ex_reps (q_exps q ! j) = ex_reps (q_exps q' ! j)" "ex_values (q_exps q ! j) = ex_values (q_exps q' ! j)"
    "start_of s q j k False (Some (point_arg (q_exps q ! j) i)) = start_of s q' j k False (Some (point_arg (q_exps q' ! j) i))"
    if "j \<in> set js" for j
    using static_point [OF assms(1), of j] start_of_static [OF assms(1), of j] assms(2) that by auto
  from Cons.prems [unfolded p in_points.simps] obtain n where n:
    "list_all (\<lambda>e. is_spawn e \<longrightarrow> (\<exists>j. j \<in> set js \<and> k \<le> ex_reps (q_exps q ! j) \<and> i < length (ex_values (q_exps q ! j)) \<and>
              e = start_of s q j k False (Some (point_arg (q_exps q ! j) i)))) (take n es)"
    "in_points s q js ps (drop n es)" by blast
  from n(1) have "list_all (\<lambda>e. is_spawn e \<longrightarrow> (\<exists>j. j \<in> set js \<and> k \<le> ex_reps (q_exps q' ! j) \<and> i < length (ex_values (q_exps q' ! j)) \<and>
              e = start_of s q' j k False (Some (point_arg (q_exps q' ! j) i)))) (take n es)"
    by (rule list.pred_mono_strong) (metis same)
  with Cons.IH [OF n(2)] show ?case unfolding p in_points.simps by blast
qed simp

lemma in_points_quiet: "list_all (\<lambda>e. \<not> is_spawn e) es \<Longrightarrow> in_points s q js ps es"
proof (induction ps)
  case (Cons p ps)
  then show ?case by (cases p) (auto intro!: exI [of _ 0])
qed simp

lemma in_points_append:
  "list_all (\<lambda>e. \<not> is_spawn e) es \<Longrightarrow> in_points s q js ps es' \<Longrightarrow> in_points s q js ps (es @ es')"
proof (induction ps arbitrary: es')
  case (Cons p ps)
  obtain k i where p: "p = (k, i)" by (cases p)
  from Cons.prems(2) [unfolded p in_points.simps] obtain n where
    "list_all (\<lambda>e. is_spawn e \<longrightarrow> (\<exists>j. j \<in> set js \<and> k \<le> ex_reps (q_exps q ! j) \<and> i < length (ex_values (q_exps q ! j)) \<and>
              e = start_of s q j k False (Some (point_arg (q_exps q ! j) i)))) (take n es')"
    "in_points s q js ps (drop n es')" by blast
  with Cons.prems(1) show ?case
    unfolding p in_points.simps by (intro exI [of _ "length es + n"]) (auto simp: list_all_iff)
qed simp

lemma run_points_order:
  "run_points fuel sched s js c ps w = (r, w', es) \<Longrightarrow> \<forall>j \<in> set js. has_exp j w \<Longrightarrow>
     in_points s (qw_q w) js ps es"
proof (induction ps arbitrary: w r w' es)
  case Nil
  then show ?case by (simp add: io_ret_def)
next
  case (Cons p ps)
  obtain k i where p: "p = (k, i)" by (cases p)
  let ?due = "due_at (qw_q w) js k i"
  show ?case
  proof (cases "?due = []")
    case True
    with Cons.prems(1) p have "run_points fuel sched s js c ps w = (r, w', es)"
      by (simp add: get_q_bind Let_def)
    from Cons.IH [OF this Cons.prems(2)] show ?thesis
      unfolding p in_points.simps by (intro exI [of _ 0]) simp
  next
    case False
    let ?run = "if c then run_due_threads (sched k i) s k i ?due else run_due fuel s k i ?due"
    from False Cons.prems(1) p have
      "io_bind ?run (\<lambda>r. if r = Some ''done'' then run_points fuel sched s js c ps else io_ret r) w = (r, w', es)"
      by (simp add: get_q_bind Let_def)
    have due: "\<forall>j \<in> set ?due. has_exp j w" using Cons.prems(2) by (auto simp: due_at_def)
    have here: "starts_only s (at_point (qw_q w) ?due k i) w es1 w1" if "?run w = (r1, w1, es1)" for r1 w1 es1
      using that run_due_starts [OF _ due] run_due_threads_starts [OF _ due] by (cases c) auto
    have stretch: "list_all (\<lambda>e. is_spawn e \<longrightarrow> (\<exists>j. j \<in> set js \<and> k \<le> ex_reps (q_exps (qw_q w) ! j) \<and>
         i < length (ex_values (q_exps (qw_q w) ! j)) \<and>
         e = start_of s (qw_q w) j k False (Some (point_arg (q_exps (qw_q w) ! j) i)))) es1"
      if "?run w = (r1, w1, es1)" for r1 w1 es1
      using here [OF that] unfolding starts_only_def list_all_iff at_point_def due_at_def Let_def by fastforce
    show ?thesis
      using \<open>io_bind ?run _ w = (r, w', es)\<close>
    proof (cases rule: io_bind_cases)
      case (1 e)
      from stretch [OF 1(1)] show ?thesis
        unfolding p in_points.simps by (intro exI [of _ "length es"]) (simp add: in_points_quiet)
    next
      case (2 x w1 es1 es2)
      have st: "static (qw_q w) = static (qw_q w1)" using starts_static [OF here [OF 2(1)]] by simp
      have "in_points s (qw_q w1) js ps es2"
      proof (cases "x = Some ''done''")
        case True
        with 2(2) have "run_points fuel sched s js c ps w1 = (r, w', es2)" by simp
        from Cons.IH [OF this] Cons.prems(2) has_exp_static [OF st] show ?thesis by simp
      next
        case False
        with 2(2) show ?thesis by (simp add: io_ret_def in_points_quiet)
      qed
      moreover have "\<forall>j \<in> set js. j < length (q_exps (qw_q w1))"
        using Cons.prems(2) has_exp_static [OF st] by (simp add: has_exp_def)
      ultimately have "in_points s (qw_q w) js ps es2"
        using in_points_static [OF st [symmetric]] by blast
      with stretch [OF 2(1)] show ?thesis
        unfolding p in_points.simps 2(3) by (intro exI [of _ "length es1"]) simp
    qed
  qed
qed

lemma sorted_points: "sorted_wrt (\<lambda>(k, i) (k', i'). k < k' \<or> k = k' \<and> i < i') (points most longest)"
proof -
  have gen: "sorted_wrt (\<lambda>(k, i) (k', i'). k < k' \<or> k = k' \<and> i < i') (concat (map (\<lambda>k. map (Pair k) [0..<longest]) ks))"
    if "sorted_wrt (<) ks" for ks :: "nat list"
    using that by (induction ks) (auto simp: sorted_wrt_append sorted_wrt_map intro: sorted_wrt_mono_rel [OF _ sorted_wrt_upt])
  show ?thesis unfolding points_def by (rule gen) (rule sorted_wrt_upt)
qed

text \<open>
  C16. A group runs repetition by repetition and, within one, point by point: the drivers
  \<open>run_group\<close> starts, concurrent or not, fall into one stretch for each point of each repetition, in
  that order; each runs exactly that point and repetition of a member that has it, without plotting,
  on the queue's market.
\<close>

theorem run_group_order:
  assumes "run_group fuel sched s js c w = (r, w', es)" and "\<forall>j \<in> set js. j < length (q_exps (qw_q w))"
  shows "let ps = points (max_of (map (\<lambda>j. ex_reps (q_exps (qw_q w) ! j)) js))
                    (max_of (map (\<lambda>j. length (ex_values (q_exps (qw_q w) ! j))) js))
     in sorted_wrt (\<lambda>(k, i) (k', i'). k < k' \<or> k = k' \<and> i < i') ps \<and> in_points s (qw_q w) js ps es"
proof -
  from assms(1) have "run_points fuel sched s js c
     (points (max_of (map (\<lambda>j. ex_reps (q_exps (qw_q w) ! j)) js)) (max_of (map (\<lambda>j. length (ex_values (q_exps (qw_q w) ! j))) js))) w
     = (r, w', es)"
    by (simp add: run_group_def get_q_bind Let_def)
  from run_points_order [OF this] assms(2) sorted_points show ?thesis unfolding has_exp_def Let_def by blast
qed

end
