(* ===== verification/QueueStatus.thy ===== *)
theory QueueStatus
  imports QueueOrder
begin

text \<open>
  The statuses of the experiments and of the queue: what each run, the sequential loop and the end
  of \<open>main\<close> leave.
\<close>

section \<open>Statuses\<close>

text \<open>Only the statuses of the experiments in \<open>I\<close> may change.\<close>

definition board :: "nat set \<Rightarrow> 'w qworld \<Rightarrow> qeff list \<Rightarrow> 'w qworld \<Rightarrow> bool" where
  "board I w es w' \<longleftrightarrow> length (q_exps (qw_q w')) = length (q_exps (qw_q w)) \<and>
     (\<forall>j. j \<notin> I \<longrightarrow> ex_status (q_exps (qw_q w') ! j) = ex_status (q_exps (qw_q w) ! j))"

interpretation board: trace_relation "board I"
  by unfold_locales (auto simp: board_def)

lemma board_prims:
  "traced (board I) (on_os m)" "traced (board I) (now_time s)" "traced (board I) (stopping s)"
  "traced (board I) (sleep_for s d)" "traced (board I) get_q" "traced (board I) (get_exp i)"
  "traced (board I) (mod_children f)" "traced (board I) (io_emit e)"
  "(\<And>q. q_exps (g q) = q_exps q) \<Longrightarrow> traced (board I) (mod_q g)"
  "i \<in> I \<Longrightarrow> traced (board I) (mod_exp i h)"
  by (auto simp: traced_def board_def queue_prims io_ask_def io_emit_def nth_list_update split: prod.splits)
    (metis nth_list_update_neq)

lemma board_save: "(\<And>q. q_exps (f q) = q_exps q) \<Longrightarrow> traced (board I) (save s f)"
  unfolding save_def by (intro board.traced_rules board_prims) simp_all

lemma board_event: "traced (board I) (event s m)"
  unfolding event_def by (intro board.traced_rules board_prims) simp_all

lemma board_kill: "traced (board I) (kill_group s sg p)" "traced (board I) (kill_one s sg p)"
  by (simp_all add: kill_group_def kill_one_def board_prims)

lemmas board_intros = board.traced_rules board_prims board_event board_kill

lemma board_end_drivers: "traced (board I) (end_drivers s cs)"
  by (induction cs) (auto simp: end_driver_def Let_def intro!: board_intros)

lemma board_any_alive: "traced (board I) (any_alive s ps)"
  by (induction ps) (auto intro!: board_intros)

lemma board_end_wait: "traced (board I) (end_wait n s ps until)"
  by (induction n) (auto intro!: board_intros board_any_alive)

lemma board_end_child: "traced (board I) (end_child s)"
  unfolding end_child_def by (intro board_intros board_end_drivers board_end_wait)

lemma board_read_log: "i \<in> I \<Longrightarrow> traced (board I) (read_log s i l)"
  unfolding read_log_def Let_def by (intro board_intros board_save) simp_all

lemma board_step:
  assumes "i \<in> I"
  shows "traced (board I) (run_step s i reps plot only p)"
proof (cases p)
  case Top
  have "traced (board I) (attempt s i reps plot only)"
    unfolding attempt_def Let_def by (intro board_intros board_save assms) simp_all
  with Top show ?thesis by simp
next
  case (Watching pid)
  have "traced (board I) (settle s i rc)" for rc
    unfolding settle_def by (intro board_intros board_read_log assms)
  moreover have "traced (board I) (over s)" unfolding over_def by (intro board_intros)
  ultimately have "traced (board I) (watch s i pid)"
    unfolding watch_def by (auto split: option.splits intro!: board_intros board_end_child)
  with Watching show ?thesis by simp
next
  case (Backoff u)
  then show ?thesis by (auto simp: backoff_def intro!: board_intros)
qed (simp add: board.traced_ret)

text \<open>
  What \<open>run_one\<close> returns, and the status it leaves: done and failed are statuses, the others are the
  verdicts that end the queue.
\<close>

definition told :: "nat \<Rightarrow> pc \<Rightarrow> 'w qworld \<Rightarrow> bool" where
  "told i p w \<longleftrightarrow> (case p of
     Finished v \<Rightarrow> ending v \<or> (v = ''done'' \<or> v = ''failed'') \<and> i < length (q_exps (qw_q w)) \<and> ex_status (q_exps (qw_q w) ! i) = v
   | _ \<Rightarrow> i < length (q_exps (qw_q w)))"

definition in_list :: "nat \<Rightarrow> 'w qworld \<Rightarrow> bool" where
  "in_list i w \<longleftrightarrow> i < length (q_exps (qw_q w))"

lemma told_start: "told i Top = in_list i" "told i (Watching pid) = in_list i" "told i (Backoff u) = in_list i"
  by (auto simp: told_def in_list_def fun_eq_iff)

lemma kept_in_list: "traced (board {i}) m \<Longrightarrow> achieves (in_list i) m (\<lambda>_. in_list i)"
  by (erule achieves_traced) (simp add: board_def in_list_def)

lemma achieves_status:
  "(\<And>x. ex_status (f x) = v) \<Longrightarrow> v = ''done'' \<or> v = ''failed'' \<Longrightarrow>
     achieves (in_list i) (io_seq (mod_exp i f) (io_ret (Finished v))) (told i)"
  by (auto simp: achieves_def queue_prims io_defs in_list_def told_def)

lemma in_list_ret: "(case p of Finished v \<Rightarrow> ending v | _ \<Rightarrow> True) \<Longrightarrow> achieves (in_list i) (io_ret p) (told i)"
  by (rule achieves_ret) (auto simp: told_def in_list_def split: pc.splits)

lemma ending_simps [simp]: "ending ''expired''" "ending ''stopped''" "ending ''credentials''"
  "\<not> ending ''done''" "\<not> ending ''failed''"
  by (simp_all add: ending_def)

lemma read_log_told: "achieves (in_list i) (read_log s i l) (told i)"
  unfolding read_log_def Let_def
  apply (rule achieves_bind [OF kept_in_list [OF board_prims(1)]])
  apply (intro achieves_if)
    apply (rule achieves_seq [OF kept_in_list [OF board_prims(10)]], simp, rule in_list_ret, simp)
   apply (rule achieves_seq [OF kept_in_list [OF board_prims(10)]], simp)
   apply (rule achieves_seq [OF kept_in_list [OF board_save]], simp)
   apply (rule achieves_bind [OF kept_in_list [OF board_prims(6)]])
   apply (rule achieves_bind [OF kept_in_list [OF board_prims(5)]])
   apply (rule achieves_seq [OF kept_in_list [OF board_event]])
   apply (rule achieves_bind [OF kept_in_list [OF board_prims(2)]])
   apply (rule in_list_ret, simp)
  apply (rule achieves_status; simp)
  done

lemma step_told: "achieves (told i p) (run_step s i reps plot only p) (told i)"
proof (cases p)
  case Top
  have "achieves (in_list i) (attempt s i reps plot only) (told i)"
    unfolding attempt_def Let_def
    apply (rule achieves_bind [OF kept_in_list [OF board_prims(3)]], rule achieves_if, rule in_list_ret, simp)
    apply (rule achieves_bind [OF kept_in_list [OF board_prims(2)]])
    apply (rule achieves_bind [OF kept_in_list [OF board_prims(5)]], rule achieves_if, rule in_list_ret, simp)
    apply (rule achieves_seq [OF kept_in_list [OF board_prims(10)]], simp)
    apply (rule achieves_seq [OF kept_in_list [OF board_prims(10)]], simp)
    apply (rule achieves_seq [OF kept_in_list [OF board_save]], simp)
    apply (rule achieves_bind [OF kept_in_list [OF board_prims(2)]])
    apply (rule achieves_bind [OF kept_in_list [OF board_prims(5)]])
    apply (rule achieves_bind [OF kept_in_list [OF board_prims(6)]])
    apply (rule achieves_bind [OF kept_in_list [OF board_prims(1)]])
    apply (rule achieves_seq [OF kept_in_list [OF board_prims(7)]])
    apply (rule in_list_ret, simp)
    done
  with Top show ?thesis by (simp add: told_start)
next
  case (Watching pid)
  have settle: "achieves (in_list i) (settle s i rc) (told i)" for rc
    unfolding settle_def
    by (rule achieves_bind [OF kept_in_list [OF board_prims(6)]], rule achieves_seq [OF kept_in_list [OF board_prims(7)]],
        rule achieves_if [OF achieves_status read_log_told]; simp)
  have over: "traced (board {i}) (over s)" unfolding over_def by (intro board_intros)
  have "achieves (in_list i) (watch s i pid) (told i)"
    unfolding watch_def
    apply (rule achieves_bind [OF kept_in_list [OF board_prims(1)]])
    subgoal for r
      apply (cases r; simp add: settle)
      apply (rule achieves_bind [OF kept_in_list [OF over]], rule achieves_if)
       apply (rule achieves_seq [OF kept_in_list [OF board_end_child]])
       apply (rule achieves_bind [OF kept_in_list [OF board_prims(3)]])
       apply (rule in_list_ret, simp)
      apply (rule achieves_seq [OF kept_in_list [OF board_prims(4)]])
      apply (rule in_list_ret, simp)
      done
    done
  with Watching show ?thesis by (simp add: told_start)
next
  case (Backoff u)
  have "achieves (in_list i) (backoff s u) (told i)"
    unfolding backoff_def
    apply (rule achieves_bind [OF kept_in_list [OF board_prims(2)]], rule achieves_if)
     apply (rule achieves_bind [OF kept_in_list [OF board_prims(3)]], rule achieves_if)
      apply (rule in_list_ret, simp)
     apply (rule achieves_seq [OF kept_in_list [OF board_prims(4)]])
     apply (rule in_list_ret, simp)
    apply (rule in_list_ret, simp)
    done
  with Backoff show ?thesis by (simp add: told_start)
next
  case (Finished v)
  then show ?thesis by (simp add: achieves_ret)
qed

lemma run_from_told:
  "achieves (told i p) (run_from n s i reps plot only p) (\<lambda>r w. \<forall>v. r = Some v \<longrightarrow> told i (Finished v) w)"
proof (induction n arbitrary: p)
  case 0
  then show ?case by (cases p) (auto intro: achieves_ret)
next
  case (Suc n)
  show ?case
  proof (cases "\<exists>v. p = Finished v")
    case True
    then show ?thesis by (auto intro: achieves_ret)
  next
    case False
    then have "run_from (Suc n) s i reps plot only p = io_bind (run_step s i reps plot only p) (run_from n s i reps plot only)"
      by (cases p) simp_all
    then show ?thesis using achieves_bind [OF step_told Suc.IH] by simp
  qed
qed

lemma board_run_from: "i \<in> I \<Longrightarrow> traced (board I) (run_from n s i reps plot only p)"
proof (induction n arbitrary: p)
  case 0
  then show ?case by (cases p) (auto intro: board.traced_ret)
next
  case (Suc n)
  have "traced (board I) (io_bind (run_step s i reps plot only p) (run_from n s i reps plot only))"
    by (rule board.traced_bind [OF board_step [OF Suc.prems] Suc.IH [OF Suc.prems]])
  then show ?case by (cases p) (simp_all add: board.traced_ret)
qed

lemma run_one_told:
  assumes "run_one n s i reps plot only w = (Inr (Some v), w', es)" "i < length (q_exps (qw_q w))"
  shows "board {i} w es w' \<and> (ending v \<or> (v = ''done'' \<or> v = ''failed'') \<and> ex_status (q_exps (qw_q w') ! i) = v)"
proof -
  have "told i Top w" using assms(2) by (simp add: told_def)
  from achieves_run [OF run_from_told this assms(1) [unfolded run_one_def]]
  have "told i (Finished v) w'" by simp
  with traced_run [OF board_run_from assms(1) [unfolded run_one_def]] show ?thesis
    by (auto simp: told_def)
qed

text \<open>The statuses after the sequential loop: done or failed, unless the queue is ending.\<close>

definition finished_exp :: "exper \<Rightarrow> bool" where
  "finished_exp x \<longleftrightarrow> ex_status x = ''done'' \<or> ex_status x = ''failed''"

lemma run_all_finished:
  "run_all fuel s js w = (Inr (Some v), w', es) \<Longrightarrow> distinct js \<Longrightarrow> \<forall>j \<in> set js. has_exp j w \<Longrightarrow>
     board (set js) w es w' \<and> (ending v \<or> v = ''done'' \<and> (\<forall>j \<in> set js. finished_exp (q_exps (qw_q w') ! j)))"
proof (induction js arbitrary: w v w' es)
  case Nil
  then show ?case by (simp add: io_ret_def board_def)
next
  case (Cons j js)
  let ?x = "q_exps (qw_q w) ! j"
  let ?after = "\<lambda>r. case r of None \<Rightarrow> io_ret None
      | Some v \<Rightarrow> if ending v then io_ret (Some v)
          else io_seq (io_when (v = ''failed'') (event s (ex_name ?x @ '' FAILED; see its log''))) (run_all fuel s js)"
  from Cons.prems(1) have "io_seq (event s (ex_name ?x)) (io_bind (run_one fuel s j (ex_reps ?x) True None) ?after) w
      = (Inr (Some v), w', es)" by (simp add: get_exp_bind)
  then obtain u1 w1 e1 e2 where ev: "event s (ex_name ?x) w = (Inr u1, w1, e1)"
    and rest: "io_bind (run_one fuel s j (ex_reps ?x) True None) ?after w1 = (Inr (Some v), w', e2)" and es: "es = e1 @ e2"
    by (elim io_seq_InrE) auto
  have b1: "board (set (j # js)) w e1 w1" by (rule traced_run [OF board_event ev])
  from rest obtain r w2 e3 e4 where r: "run_one fuel s j (ex_reps ?x) True None w1 = (Inr r, w2, e3)"
    and aft: "?after r w2 = (Inr (Some v), w', e4)" and e2: "e2 = e3 @ e4"
    by (elim io_bind_InrE) auto
  then obtain v1 where v1: "r = Some v1" by (cases r) (auto simp: io_ret_def)
  have j1: "j < length (q_exps (qw_q w1))" using Cons.prems(3) b1 by (simp add: board_def has_exp_def)
  note told = run_one_told [OF r [unfolded v1] j1]
  then have b2: "board (set (j # js)) w1 e3 w2" by (auto simp: board_def)
  have b12: "board (set (j # js)) w (e1 @ e3) w2" by (rule board.R_trans [OF b1 b2])
  show ?case
  proof (cases "ending v1")
    case True
    with aft v1 have "v = v1" "w' = w2" "e4 = []" by (simp_all add: io_ret_def)
    with b12 True show ?thesis by (simp add: es e2)
  next
    case False
    with aft v1 have "io_seq (io_when (v1 = ''failed'') (event s (ex_name ?x @ '' FAILED; see its log''))) (run_all fuel s js) w2
        = (Inr (Some v), w', e4)" by simp
    then obtain u3 w3 e5 e6 where ev3: "io_when (v1 = ''failed'') (event s (ex_name ?x @ '' FAILED; see its log'')) w2 = (Inr u3, w3, e5)"
      and tail: "run_all fuel s js w3 = (Inr (Some v), w', e6)" and e4: "e4 = e5 @ e6"
      by (elim io_seq_InrE) auto
    have b3: "board I w2 e5 w3" for I
      by (rule traced_run [OF board.traced_when [OF board_event] ev3])
    have js: "\<forall>j \<in> set js. has_exp j w3"
      using Cons.prems(3) b12 b3 [of "{}"] by (simp add: board_def has_exp_def)
    from Cons.IH [OF tail _ js] Cons.prems(2) have IH: "board (set js) w3 e6 w'"
      "ending v \<or> v = ''done'' \<and> (\<forall>j \<in> set js. finished_exp (q_exps (qw_q w') ! j))" by auto
    have all: "board (set (j # js)) w es w'"
    proof -
      have "board (set (j # js)) w3 e6 w'" using IH(1) by (auto simp: board_def)
      from board.R_trans [OF board.R_trans [OF b12 b3] this] show ?thesis by (simp add: es e2 e4)
    qed
    have "finished_exp (q_exps (qw_q w') ! j)"
      using told False b3 [of "{}"] IH(1) Cons.prems(2) by (auto simp: finished_exp_def board_def)
    with all IH(2) show ?thesis by auto
  qed
qed

section \<open>How the queue ends\<close>

definition open_status :: "exper \<Rightarrow> bool" where
  "open_status x \<longleftrightarrow> ex_status x = ''running'' \<or> ex_status x = ''waiting for spot'' \<or> ex_status x = ''queued''"

lemma board_notify: "traced (board I) (notify t u)"
  by (simp add: notify_def board_prims)

lemma board_sweep: "traced (board I) (sweep s a)"
  unfolding sweep_def sweep_body_def our_instances_def launched_def sweep_image_def Let_def
  by (intro board_intros; auto split: if_splits intro: board_event)

fun saved_last :: "qeff list \<Rightarrow> qstate option" where
  "saved_last [] = None"
| "saved_last (Saved q # es) = (case saved_last es of None \<Rightarrow> Some q | Some q' \<Rightarrow> Some q')"
| "saved_last (_ # es) = saved_last es"

lemma saved_last_append: "saved_last (a @ b) = (case saved_last b of None \<Rightarrow> saved_last a | Some q \<Rightarrow> Some q)"
  by (induction a rule: saved_last.induct) (auto split: option.splits)

lemma report_outcome:
  assumes "report s v w = (Inr rc, w', es)"
  shows "q_exps (qw_q w') = q_exps (qw_q w) \<and> q_status (qw_q w') = final_verdict v (q_exps (qw_q w)) \<and>
     rc = (if q_status (qw_q w') = ''done'' then 0 else 1) \<and> q_finished (qw_q w') \<noteq> None \<and>
     (\<exists>q. saved_last es = Some q \<and> q_status q = q_status (qw_q w') \<and> q_exps q = q_exps (qw_q w'))"
  using assms
  by (auto simp: report_def save_def event_def notify_def queue_prims io_defs Let_def split: prod.splits)

text \<open>
  What \<open>finish\<close> leaves, for the verdict \<open>v\<close> of the loops: statuses that are all settled when the
  queue was ended, and otherwise untouched; the queue's status, its exit code and the saved state in
  agreement.
\<close>

definition settled_queue :: "string \<Rightarrow> 'w qworld \<Rightarrow> nat \<Rightarrow> qeff list \<Rightarrow> bool" where
  "settled_queue v w rc es \<longleftrightarrow>
     (ending v \<longrightarrow> list_all (\<lambda>x. \<not> open_status x) (q_exps (qw_q w))) \<and>
     q_status (qw_q w) = final_verdict v (q_exps (qw_q w)) \<and>
     rc = (if q_status (qw_q w) = ''done'' then 0 else 1) \<and>
     (\<exists>q. saved_last es = Some q \<and> q_status q = q_status (qw_q w) \<and> q_exps q = q_exps (qw_q w))"

lemma settle_statuses_closed: "ending v \<Longrightarrow> list_all (\<lambda>x. \<not> open_status x) (settle_statuses v xs)"
  by (auto simp: settle_statuses_def open_status_def list_all_iff ending_def)

lemma finish_outcome:
  assumes "finish s a v w = (Inr rc, w', es)"
  shows "settled_queue v w' rc es \<and>
     (\<not> ending v \<longrightarrow> map ex_status (q_exps (qw_q w')) = map ex_status (q_exps (qw_q w)))"
proof -
  from assms obtain u1 w1 e1 u2 w2 e2 e3 where
    a: "close_queue s a v w = (Inr u1, w1, e1)" and b: "close_statuses v w1 = (Inr u2, w2, e2)" and
    c: "report s v w2 = (Inr rc, w', e3)" and es: "es = e1 @ e2 @ e3"
    unfolding finish_def by (elim io_seq_InrE) auto
  note rep = report_outcome [OF c]
  have "traced (board {}) (close_queue s a v)"
    unfolding close_queue_def by (intro board_intros board_end_child board_sweep)
  from traced_run [OF this a] have same: "map ex_status (q_exps (qw_q w1)) = map ex_status (q_exps (qw_q w))"
    by (auto simp: board_def list_eq_iff_nth_eq)
  have "ending v \<Longrightarrow> list_all (\<lambda>x. \<not> open_status x) (q_exps (qw_q w2))"
    using b settle_statuses_closed by (auto simp: close_statuses_def io_when_def mod_q_def)
  moreover have "\<not> ending v \<Longrightarrow> w2 = w1" using b by (auto simp: close_statuses_def io_when_def io_ret_def)
  moreover from rep obtain q where "saved_last es = Some q" "q_status q = q_status (qw_q w')" "q_exps q = q_exps (qw_q w')"
    by (auto simp: es saved_last_append)
  ultimately show ?thesis
    using rep same by (auto simp: settled_queue_def)
qed

text \<open>
  C15. How a sequential queue ends: when \<open>main\<close> returns, no experiment is left queued, running or
  waiting; the queue's status is done (and the exit code 0) only if every experiment is done, failed if
  one failed, and otherwise the reason the queue was ended; and the state file holds just that.
\<close>

theorem queue_main_settles:
  assumes run: "queue_main fuel sched s a pid w = (Inr (Some rc), w', es)"
    and seq: "\<not> q_interleave (qw_q w)"
  shows "list_all (\<lambda>x. \<not> open_status x) (q_exps (qw_q w')) \<and>
     (rc = 0 \<longleftrightarrow> q_status (qw_q w') = ''done'') \<and>
     (q_status (qw_q w') = ''done'' \<longrightarrow> list_all (\<lambda>x. ex_status x = ''done'') (q_exps (qw_q w'))) \<and>
     (q_status (qw_q w') = ''failed'' \<longrightarrow> list_ex (\<lambda>x. ex_status x = ''failed'') (q_exps (qw_q w'))) \<and>
     (\<exists>q. saved_last es = Some q \<and> q_status q = q_status (qw_q w') \<and> q_exps q = q_exps (qw_q w'))"
proof -
  from run obtain u1 w1 e1 r w2 e2 e3 where
    a: "announce s pid w = (Inr u1, w1, e1)" and b: "run_loops fuel sched s w1 = (Inr r, w2, e2)" and
    c: "(case r of None \<Rightarrow> io_ret None | Some v \<Rightarrow> io_bind (finish s a v) (\<lambda>rc. io_ret (Some rc))) w2 = (Inr (Some rc), w', e3)" and
    es: "es = e1 @ e2 @ e3"
    unfolding queue_main_def by (elim io_seq_InrE io_bind_InrE) auto
  from c obtain v e4 where v: "r = Some v" and fin: "finish s a v w2 = (Inr rc, w', e4)" and e3: "e3 = e4"
    by (auto simp: io_ret_def io_bind_def split: option.splits prod.splits sum.splits)
  have "traced punctual (announce s pid)" by (rule punctual.announce_kept)
  from traced_run [OF this a] have "\<not> q_interleave (qw_q w1)"
    using seq by (simp add: punctual_def static_def)
  with b v have "run_all fuel s [0..<length (q_exps (qw_q w1))] w1 = (Inr (Some v), w2, e2)"
    by (simp add: run_loops_def get_q_bind)
  from run_all_finished [OF this] have loop: "board {0..<length (q_exps (qw_q w1))} w1 e2 w2"
    "ending v \<or> v = ''done'' \<and> (\<forall>j < length (q_exps (qw_q w1)). finished_exp (q_exps (qw_q w2) ! j))"
    by (auto simp: has_exp_def)
  from loop(1) have "length (q_exps (qw_q w2)) = length (q_exps (qw_q w1))" by (simp add: board_def)
  with loop(2) have all: "ending v \<or> v = ''done'' \<and> list_all finished_exp (q_exps (qw_q w2))"
    by (simp add: list_all_length)
  note fo = finish_outcome [OF fin]
  have saved: "saved_last es = saved_last e4" using fo
    by (auto simp: es e3 saved_last_append settled_queue_def)
  from all show ?thesis
  proof
    assume "ending v"
    then have "final_verdict v xs = v" "v \<noteq> ''done''" "v \<noteq> ''failed''" for xs
      using ending_simps(4,5) by (auto simp: final_verdict_def)
    with fo \<open>ending v\<close> show ?thesis by (auto simp: settled_queue_def saved)
  next
    assume v: "v = ''done'' \<and> list_all finished_exp (q_exps (qw_q w2))"
    with fo have "list_all finished_exp (q_exps (qw_q w'))"
      by (auto simp: finished_exp_def list_all_length list_eq_iff_nth_eq)
    then have "list_all (\<lambda>x. \<not> open_status x) (q_exps (qw_q w'))"
      "\<not> list_ex (\<lambda>x. ex_status x = ''failed'') (q_exps (qw_q w')) \<Longrightarrow> list_all (\<lambda>x. ex_status x = ''done'') (q_exps (qw_q w'))"
      by (auto simp: finished_exp_def open_status_def list_all_iff list_ex_iff)
    with fo v show ?thesis by (auto simp: settled_queue_def saved final_verdict_def)
  qed
qed

end
