(* ===== verification/QueueTime.thy ===== *)
theory QueueTime
  imports QueueRun
begin

text \<open>
  \<open>run_one\<close> returns: the law of the clock it needs, and the number of steps that is enough.
\<close>

section \<open>\<open>run_one\<close> returns\<close>

text \<open>
  The clock: \<open>T\<close> is the time of a world. A read of the clock returns a time between that before
  and that after it, nothing turns time back, and a sleep of \<open>d\<close> seconds takes at least \<open>d\<close>.
\<close>

definition steady_clock :: "'w os \<Rightarrow> ('w \<Rightarrow> rat) \<Rightarrow> bool" where
  "steady_clock s T \<longleftrightarrow>
     (\<forall>u. T u \<le> fst (os_now s u) \<and> fst (os_now s u) \<le> T (snd (os_now s u))) \<and>
     (\<forall>u. T u \<le> T (snd (os_stop s u))) \<and>
     (\<forall>c l u. T u \<le> T (snd (os_spawn s c l u))) \<and>
     (\<forall>p u. T u \<le> T (snd (os_poll s p u))) \<and>
     (\<forall>d u. 0 \<le> d \<longrightarrow> T u + d \<le> T (os_sleep s d u)) \<and>
     (\<forall>l u. T u \<le> T (snd (os_read s l u))) \<and>
     (\<forall>u. T u \<le> T (snd (os_procs s u))) \<and>
     (\<forall>p g u. T u \<le> T (os_killpg s p g u)) \<and>
     (\<forall>p g u. T u \<le> T (os_kill s p g u)) \<and>
     (\<forall>p u. T u \<le> T (snd (os_alive s p u))) \<and>
     (\<forall>u. fst (os_stop s u) \<longrightarrow> fst (os_stop s (snd (os_stop s u))))"

text \<open>Time does not go back, and the deadline and the wait between attempts stay.\<close>

definition later :: "('w \<Rightarrow> rat) \<Rightarrow> 'w qworld \<Rightarrow> qeff list \<Rightarrow> 'w qworld \<Rightarrow> bool" where
  "later T w es w' \<longleftrightarrow> T (qw_os w) \<le> T (qw_os w')"

interpretation later: trace_relation "later T"
  by unfold_locales (auto simp: later_def)

lemma later_prims:
  assumes "steady_clock s T"
  shows "traced (later T) (now_time s)" "traced (later T) (stopping s)" "0 \<le> d \<Longrightarrow> traced (later T) (sleep_for s d)"
    "traced (later T) (kill_group s sg p)" "traced (later T) (kill_one s sg p)"
    "traced (later T) (on_os (\<lambda>u. case os_read s l u of (r, u') \<Rightarrow> (r, u', [])))"
    "traced (later T) (on_os (\<lambda>u. case os_poll s p u of (r, u') \<Rightarrow> (Inr r, u', [])))"
    "traced (later T) (on_os (\<lambda>u. case os_procs s u of (r, u') \<Rightarrow> (Inr r, u', [])))"
    "traced (later T) (on_os (\<lambda>u. case os_alive s p u of (r, u') \<Rightarrow> (Inr r, u', [])))"
proof -
  have now: "T u \<le> T (snd (os_now s u))" for u
    using assms unfolding steady_clock_def by (meson order_trans)
  have sleep: "0 \<le> d \<Longrightarrow> T u \<le> T (os_sleep s d u)" for u
    using assms unfolding steady_clock_def by (metis add_increasing2 order_refl order_trans)
  note rest = assms [unfolded steady_clock_def]
  show "traced (later T) (now_time s)" "0 \<le> d \<Longrightarrow> traced (later T) (sleep_for s d)"
    using now sleep by (auto simp: traced_def now_time_def sleep_for_def on_os_def later_def split: prod.splits) (metis snd_conv)
  show "traced (later T) (stopping s)" "traced (later T) (kill_group s sg p)" "traced (later T) (kill_one s sg p)"
    using rest by (auto simp: traced_def stopping_def kill_group_def kill_one_def on_os_def later_def split: prod.splits)
      (metis snd_conv)
  show "traced (later T) (on_os (\<lambda>u. case os_read s l u of (r, u') \<Rightarrow> (r, u', [])))"
    "traced (later T) (on_os (\<lambda>u. case os_poll s p u of (r, u') \<Rightarrow> (Inr r, u', [])))"
    "traced (later T) (on_os (\<lambda>u. case os_procs s u of (r, u') \<Rightarrow> (Inr r, u', [])))"
    "traced (later T) (on_os (\<lambda>u. case os_alive s p u of (r, u') \<Rightarrow> (Inr r, u', [])))"
    using rest by (auto simp: traced_def on_os_def later_def split: prod.splits) (metis snd_conv)+
qed

lemma later_state: "traced (later T) get_q" "traced (later T) (get_exp i)" "traced (later T) (mod_q f)"
  "traced (later T) (mod_exp i g)" "traced (later T) (mod_children h)" "traced (later T) (io_emit e)"
  by (simp_all add: traced_def later_def get_q_def get_exp_def mod_q_def mod_exp_def mod_children_def io_ask_def io_emit_def)

lemmas later_intros = later.traced_rules later_state later_prims

lemma later_save: "steady_clock s T \<Longrightarrow> traced (later T) (save s f)" "steady_clock s T \<Longrightarrow> traced (later T) (event s m)"
  unfolding save_def event_def by (intro later_intros; simp)+


lemma later_end_drivers: "steady_clock s T \<Longrightarrow> traced (later T) (end_drivers s cs)"
  by (induction cs) (auto simp: end_driver_def Let_def intro!: later_intros)

lemma later_any_alive: "steady_clock s T \<Longrightarrow> traced (later T) (any_alive s ps)"
  by (induction ps) (auto intro!: later_intros)

lemma later_end_wait: "steady_clock s T \<Longrightarrow> traced (later T) (end_wait n s ps until)"
  by (induction n) (auto intro!: later_intros later_any_alive)

lemma later_end_child: "steady_clock s T \<Longrightarrow> traced (later T) (end_child s)"
  unfolding end_child_def by (intro later_intros later_end_drivers later_end_wait)

text \<open>Not before \<open>t\<close>, with deadline \<open>D\<close> and a wait of \<open>r\<close> seconds between attempts.\<close>

definition since :: "('w \<Rightarrow> rat) \<Rightarrow> rat \<Rightarrow> rat \<Rightarrow> int \<Rightarrow> 'w qworld \<Rightarrow> bool" where
  "since T t D r w \<longleftrightarrow> t \<le> T (qw_os w) \<and> q_deadline (qw_q w) = D \<and> q_retry_wait (qw_q w) = r"

lemma static_retry: "static q = static q' \<Longrightarrow> q_retry_wait q = q_retry_wait q'"
  by (simp add: static_def)

lemma since_kept:
  assumes "traced (later T) m" "traced quiet m"
  shows "achieves (since T t D r) m (\<lambda>_. since T t D r)"
proof (rule achievesI)
  fix w x w' es assume "since T t D r w" and run: "m w = (Inr x, w', es)"
  with traced_run [OF assms(1) run] traced_run [OF assms(2) run] show "since T t D r w'"
    by (auto simp: since_def later_def quiet_def dest: static_deadline static_retry)
qed

lemma since_now:
  assumes "steady_clock s T"
  shows "achieves (since T t D r) (now_time s) (\<lambda>x w. since T t D r w \<and> t \<le> x)"
proof (rule achievesI)
  fix w x w' es assume w: "since T t D r w" and run: "now_time s w = (Inr x, w', es)"
  from achieves_run [OF since_kept [OF later_prims(1) [OF assms] quiet_now] w run]
  have "since T t D r w'" .
  moreover from run have "x = fst (os_now s (qw_os w))"
    by (auto simp: now_time_def on_os_def split: prod.splits)
  with assms w have "t \<le> x" unfolding steady_clock_def since_def by (metis order_trans)
  ultimately show "since T t D r w' \<and> t \<le> x" ..
qed

lemma since_get: "achieves (since T t D r) get_q (\<lambda>q w. since T t D r w \<and> q_deadline q = D \<and> q_retry_wait q = r)"
  by (simp add: achieves_def get_q_def io_ask_def since_def)

definition fresh :: "rat \<Rightarrow> rat \<Rightarrow> int \<Rightarrow> pc \<Rightarrow> bool" where
  "fresh t D r p \<longleftrightarrow> (case p of
     Finished _ \<Rightarrow> True | Backoff u \<Rightarrow> \<exists>x\<ge>t. u = min (x + of_int r) D | _ \<Rightarrow> False)"

lemma since_mod:
  "(\<And>x. static_exp (f x) = static_exp x) \<Longrightarrow> (\<And>x. ex_attempts (f x) = ex_attempts x) \<Longrightarrow>
     achieves (since T t D r) (mod_exp i f) (\<lambda>_. since T t D r)"
  by (intro since_kept later_state quiet_mod_exp)

lemma achieves_conj_pure: "achieves P m (\<lambda>x. Q x) \<Longrightarrow> C \<Longrightarrow> achieves P m (\<lambda>x w. Q x w \<and> C)"
  by (simp add: achieves_def split: prod.splits sum.splits)

lemma settle_fresh:
  assumes "steady_clock s T"
  shows "achieves (since T t D r) (settle s i rc) (\<lambda>p w. since T t D r w \<and> fresh t D r p)"
proof -
  note kept = since_kept [OF later_save(1) [OF assms] quiet_save] since_kept [OF later_save(2) [OF assms] quiet_event]
    since_kept [OF later_prims(6) [OF assms] quiet_read] since_kept [OF later_state(2) quiet_get(2)]
    since_kept [OF later_state(5) quiet_children]
  have "achieves (since T t D r) (read_log s i l) (\<lambda>p w. since T t D r w \<and> fresh t D r p)" for l
    unfolding read_log_def Let_def
    apply (rule achieves_bind [OF kept(3)])
    apply (intro achieves_if)
      apply (rule achieves_seq [OF since_mod]; simp add: static_exp_def achieves_ret fresh_def)
     apply (rule achieves_seq [OF since_mod]; (simp add: static_exp_def)?)
     apply (rule achieves_seq [OF kept(1)]; simp?)
     apply (rule achieves_bind [OF kept(4)])
     apply (rule achieves_bind [OF since_get])
     apply (intro achieves_pure)
     apply (rule achieves_seq [OF kept(2)])
     apply (rule achieves_bind [OF since_now [OF assms]])
     apply (rule achieves_ret, force simp: fresh_def)
    apply (rule achieves_seq [OF since_mod]; simp add: static_exp_def achieves_ret fresh_def)
    done
  then show ?thesis
    unfolding settle_def
    apply (intro achieves_bind [OF kept(4)] achieves_seq [OF kept(5)] achieves_if)
     apply (rule achieves_seq [OF since_mod]; simp add: static_exp_def achieves_ret fresh_def)
    apply assumption
    done
qed

lemma later_over: "steady_clock s T \<Longrightarrow> traced (later T) (over s)"
  unfolding over_def by (intro later_intros; simp)

lemma over_false:
  assumes "steady_clock s T"
  shows "achieves (since T t D r) (over s) (\<lambda>b w. since T t D r w \<and> (\<not> b \<longrightarrow> t < D))"
  unfolding over_def
  apply (rule achieves_bind [OF since_kept [OF later_prims(2) [OF assms] quiet_stopping]])
  apply (rule achieves_if)
   apply (rule achieves_ret, simp)
  apply (rule achieves_bind [OF since_now [OF assms]], rule achieves_pure)
  apply (rule achieves_bind [OF since_get], rule achieves_pure)
  apply (rule achieves_ret, simp)
  done

lemma sleep_takes:
  assumes "steady_clock s T" "0 \<le> d"
  shows "achieves (since T t D r) (sleep_for s d) (\<lambda>_. since T (t + d) D r)"
proof (rule achievesI)
  fix w x w' es assume w: "since T t D r w" and run: "sleep_for s d w = (Inr x, w', es)"
  have "T (qw_os w) + d \<le> T (os_sleep s d (qw_os w))"
    using assms by (simp add: steady_clock_def)
  with w run show "since T (t + d) D r w'" by (auto simp: sleep_for_def on_os_def since_def)
qed

lemma watch_next:
  assumes "steady_clock s T"
  shows "achieves (since T t D r) (watch s i pid)
     (\<lambda>p w. since T t D r w \<and> (fresh t D r p \<or> p = Watching pid \<and> t < D \<and> since T (t + 5) D r w))"
proof -
  have weaken: "since T (t + 5) D r w \<Longrightarrow> since T t D r w" for w :: "'a qworld"
    by (simp add: since_def)
  show ?thesis
    unfolding watch_def
    apply (rule achieves_bind [OF since_kept [OF later_prims(7) [OF assms] quiet_read]])
    subgoal for rc
      apply (cases rc; simp)
       apply (rule achieves_bind [OF over_false [OF assms]], rule achieves_pure)
       apply (rule achieves_if)
        apply (rule achieves_seq [OF since_kept [OF later_end_child [OF assms] quiet_end_child]])
        apply (rule achieves_bind [OF since_kept [OF later_prims(2) [OF assms] quiet_stopping]])
        apply (rule achieves_ret, simp add: fresh_def)
       apply (rule achieves_seq [OF sleep_takes [OF assms]], simp)
       apply (rule achieves_ret, simp add: weaken)
      apply (rule achieves_mono [OF settle_fresh [OF assms]], assumption, blast)
      done
    done
qed

text \<open>Enough fuel: the run does not end for want of it.\<close>

definition ends :: "'w os \<Rightarrow> nat \<Rightarrow> nat \<Rightarrow> bool \<Rightarrow> string option \<Rightarrow> nat \<Rightarrow> pc \<Rightarrow> 'w qworld \<Rightarrow> bool" where
  "ends s i reps plot only k p w \<longleftrightarrow> io_result (run_from k s i reps plot only p w) \<noteq> Inr None"

lemma ends_finished: "ends s i reps plot only k (Finished v) w"
  by (cases k) (simp_all add: ends_def io_ret_def)

lemma ends_step:
  assumes "\<And>p' w' es. run_step s i reps plot only p w = (Inr p', w', es) \<Longrightarrow> ends s i reps plot only k p' w'"
  shows "ends s i reps plot only (Suc k) p w"
proof (cases "\<exists>v. p = Finished v")
  case True
  then show ?thesis by (auto simp: ends_finished)
next
  case False
  obtain r w' es where run: "run_step s i reps plot only p w = (r, w', es)" by (metis prod_cases3)
  have unf: "run_from (Suc k) s i reps plot only p = io_bind (run_step s i reps plot only p) (run_from k s i reps plot only)"
    using False by (cases p) simp_all
  show ?thesis
  proof (cases r)
    case (Inl e)
    then show ?thesis by (simp add: ends_def unf io_bind_def run)
  next
    case (Inr p')
    with assms run have "ends s i reps plot only k p' w'" by simp
    with Inr show ?thesis by (auto simp: ends_def unf io_bind_def run split: prod.splits)
  qed
qed

lemma ends_more: "ends s i reps plot only k p w \<Longrightarrow> ends s i reps plot only (Suc k) p w"
proof (induction k arbitrary: p w)
  case 0
  then show ?case by (cases p) (auto simp: ends_def io_ret_def)
next
  case (Suc k)
  show ?case
  proof (rule ends_step)
    fix p' w' es assume run: "run_step s i reps plot only p w = (Inr p', w', es)"
    show "ends s i reps plot only (Suc k) p' w'"
    proof (cases "\<exists>v. p = Finished v")
      case True
      with run show ?thesis by (auto simp: ends_finished io_ret_def)
    next
      case False
      with Suc.prems run have "ends s i reps plot only k p' w'"
        by (cases p) (auto simp: ends_def io_bind_def split: prod.splits)
      then show ?thesis by (rule Suc.IH)
    qed
  qed
qed

lemma ends_mono: "ends s i reps plot only k p w \<Longrightarrow> k \<le> k' \<Longrightarrow> ends s i reps plot only k' p w"
  by (induction k') (auto simp: le_Suc_eq intro: ends_more)


lemma backoff_next:
  assumes "steady_clock s T" "since T t D r w" and run: "backoff s until w = (Inr p, w', es)"
  shows "since T t D r w' \<and>
    (p = Backoff until \<and> t < until \<and> since T (t + 5) D r w' \<or> p = Top \<and> (until \<le> T (qw_os w') \<or> fst (os_stop s (qw_os w'))))"
proof -
  obtain x u1 where nw: "os_now s (qw_os w) = (x, u1)" by fastforce
  obtain b u2 where st: "os_stop s u1 = (b, u2)" by fastforce
  note law = assms(1) [unfolded steady_clock_def]
  from law nw have "T (qw_os w) \<le> x" "T (qw_os w) \<le> T u1" "x \<le> T u1" by (metis fst_conv snd_conv order_trans)+
  moreover from law st have "T u1 \<le> T u2" by (metis snd_conv)
  moreover from law have "T u2 + 5 \<le> T (os_sleep s 5 u2)" by simp
  moreover from law st have "b \<Longrightarrow> fst (os_stop s u2)" by (metis fst_conv snd_conv)
  ultimately show ?thesis
    using assms(2) run by (auto simp: backoff_def queue_prims io_defs since_def nw st split: if_splits)
qed

lemma attempt_over:
  assumes "steady_clock s T" "q_deadline (qw_q w) \<le> T (qw_os w) \<or> fst (os_stop s (qw_os w))"
  shows "ends s i reps plot only (Suc 0) Top w"
proof (rule ends_step)
  fix p w' es assume run: "run_step s i reps plot only Top w = (Inr p, w', es)"
  obtain b u1 where st: "os_stop s (qw_os w) = (b, u1)" by fastforce
  obtain x u2 where nw: "os_now s u1 = (x, u2)" by fastforce
  note law = assms(1) [unfolded steady_clock_def]
  from law st nw have "T (qw_os w) \<le> x" by (metis fst_conv snd_conv order_trans)
  with assms(2) run st nw have "\<exists>v. p = Finished v"
    by (auto simp: attempt_def queue_prims io_defs split: if_splits)
  then show "ends s i reps plot only 0 p w'" by (auto simp: ends_finished)
qed

lemma attempt_next:
  assumes "steady_clock s T"
  shows "achieves (since T t D r) (attempt s i reps plot only)
     (\<lambda>p w. since T t D r w \<and> ((\<exists>v. p = Finished v) \<or> (\<exists>pid. p = Watching pid)))"
proof (rule achievesI)
  fix w p w' es assume w: "since T t D r w" and run: "attempt s i reps plot only w = (Inr p, w', es)"
  obtain b u1 where st: "os_stop s (qw_os w) = (b, u1)" by fastforce
  obtain t1 u2 where nw: "os_now s u1 = (t1, u2)" by fastforce
  obtain t3 u3 where n3: "os_now s u2 = (t3, u3)" by fastforce
  obtain t4 u4 where n4: "os_now s u3 = (t4, u4)" by fastforce
  note law = assms(1) [unfolded steady_clock_def]
  have "T (qw_os w) \<le> T u1" using law st by (metis snd_conv)
  moreover have "T u1 \<le> T u2" "T u2 \<le> T u3" "T u3 \<le> T u4"
    using law nw n3 n4 by (metis fst_conv snd_conv order_trans)+
  moreover have "T u4 \<le> T (snd (os_spawn s c l u4))" for c l using law by simp
  ultimately have "t \<le> T u1" "t \<le> T u2" "t \<le> T u4" "\<And>c l. T u4 \<le> T (snd (os_spawn s c l u4))"
    using w by (auto simp: since_def)
  then have mono: "t \<le> T u2" "\<And>c l. t \<le> T (snd (os_spawn s c l u4))" "t \<le> T u1"
    by (auto intro: order_trans)
  note unf = attempt_def queue_prims save_def io_defs st nw n3 n4
  show "since T t D r w' \<and> ((\<exists>v. p = Finished v) \<or> (\<exists>pid. p = Watching pid))"
    using w run mono(1,3)
    apply (cases "b \<or> t1 \<ge> q_deadline (qw_q w)")
     apply (auto simp: unf since_def Let_def split: if_splits prod.splits sum.splits)
    apply (metis mono(2) snd_conv)
    done
qed

lemma since_later: "since T t D r w \<Longrightarrow> t \<le> t' \<Longrightarrow> t' \<le> T (qw_os w) \<Longrightarrow> since T t' D r w"
  by (simp add: since_def)

text \<open>At the deadline three steps are enough, from wherever the run is.\<close>

lemma late_ends:
  assumes clock: "steady_clock s T" and w: "since T t D r w" "D \<le> t"
  shows "ends s i reps plot only 1 Top w"
    "u \<le> D \<Longrightarrow> ends s i reps plot only 2 (Backoff u) w"
    "ends s i reps plot only 3 (Watching pid) w"
proof -
  have top: "ends s i reps plot only 1 Top w" if "since T t D r w" for w
    using attempt_over [OF clock, of w] that w(2) by (auto simp: since_def)
  then show "ends s i reps plot only 1 Top w" using w by blast
  have wait: "ends s i reps plot only 2 (Backoff u) w" if "u \<le> D" "since T t D r w" for u w
    unfolding numeral_2_eq_2
  proof (rule ends_step)
    fix p w' es assume "run_step s i reps plot only (Backoff u) w = (Inr p, w', es)"
    then have "backoff s u w = (Inr p, w', es)" by simp
    from backoff_next [OF clock that(2) this] that(1) w(2) top
    show "ends s i reps plot only (Suc 0) p w'" by auto
  qed
  then show "u \<le> D \<Longrightarrow> ends s i reps plot only 2 (Backoff u) w" using w by blast
  show "ends s i reps plot only 3 (Watching pid) w"
    unfolding numeral_3_eq_3
  proof (rule ends_step)
    fix p w' es assume "run_step s i reps plot only (Watching pid) w = (Inr p, w', es)"
    then have run: "watch s i pid w = (Inr p, w', es)" by simp
    from achieves_run [OF watch_next [OF clock] w(1) run] w(2)
    have "since T t D r w'" "fresh t D r p" by auto
    with wait [of _ w'] show "ends s i reps plot only (Suc (Suc 0)) p w'"
      by (auto simp: fresh_def ends_finished numeral_2_eq_2 split: pc.splits)
  qed
qed

lemma run_ends:
  assumes clock: "steady_clock s T" and r: "1 \<le> r"
  shows "since T t D r w \<Longrightarrow> D - t < of_nat n \<Longrightarrow>
    ends s i reps plot only (4 * n + 4) Top w \<and> (\<forall>pid. ends s i reps plot only (4 * n + 3) (Watching pid) w) \<and>
    (\<forall>u. u \<le> D \<longrightarrow> ends s i reps plot only (4 * n + 5) (Backoff u) w) \<and>
    (\<forall>u. fresh t D r (Backoff u) \<longrightarrow> ends s i reps plot only (4 * n + 2) (Backoff u) w)"
proof (induction n arbitrary: t w)
  case 0
  note late = late_ends [OF clock 0(1)]
  have "D \<le> t" using 0 by simp
  with late(1) [THEN ends_mono, of 4] late(2) [THEN ends_mono, of _ 5] late(3) [THEN ends_mono, of 3]
  show ?case using late(2) [unfolded numeral_2_eq_2] by (auto simp: fresh_def)
next
  case (Suc n)
  let ?ends = "ends s i reps plot only"
  have soon: "?ends (4 * n + 5) (Backoff u) w'" "?ends (4 * n + 3) (Watching pid) w'"
    if "u \<le> D" "since T (t + 5) D r w'" for u pid w'
    using Suc.IH [of "t + 5" w'] that Suc.prems(2) by auto
  have top: "?ends (4 * n + 4) Top w'" if "t' \<le> T (qw_os w')" "since T t D r w'" "D - t' < of_nat n" "t \<le> t'" for t' w'
    using Suc.IH [of t' w'] that by (auto simp: since_def)
  have fresh: "?ends (4 * n + 6) (Backoff u) w'" if w: "since T t D r w'" and u: "fresh t D r (Backoff u)" for u w'
  proof -
    have "?ends (Suc (4 * n + 5)) (Backoff u) w'"
    proof (rule ends_step)
      fix p w'' es assume "run_step s i reps plot only (Backoff u) w' = (Inr p, w'', es)"
      then have "backoff s u w' = (Inr p, w'', es)" by simp
      from backoff_next [OF clock w this] have s: "since T t D r w''" and
        "p = Backoff u \<and> since T (t + 5) D r w'' \<or> p = Top \<and> (u \<le> T (qw_os w'') \<or> fst (os_stop s (qw_os w'')))"
        by auto
      then consider "p = Backoff u" "since T (t + 5) D r w''" | "p = Top" "D \<le> T (qw_os w'') \<or> fst (os_stop s (qw_os w''))"
        | "p = Top" "t + 1 \<le> T (qw_os w'')"
        using u r by (fastforce simp: fresh_def min_def split: if_splits)
      then show "?ends (4 * n + 5) p w''"
      proof cases
        case 1
        with soon(1) [of u w''] u show ?thesis by (auto simp: fresh_def)
      next
        case 2
        with s have "?ends 1 Top w''"
          using attempt_over [OF clock, of w''] by (auto simp: since_def)
        from ends_mono [OF this, of "4 * n + 5"] 2 show ?thesis by simp
      next
        case 3
        with s Suc.prems(2) top [of "t + 1" w''] show ?thesis by (auto intro: ends_mono)
      qed
    qed
    then show ?thesis by (simp add: add.commute)
  qed
  have watch: "?ends (4 * n + 7) (Watching pid) w'" if w: "since T t D r w'" for pid w'
  proof -
    have "?ends (Suc (4 * n + 6)) (Watching pid) w'"
    proof (rule ends_step)
      fix p w'' es assume "run_step s i reps plot only (Watching pid) w' = (Inr p, w'', es)"
      then have "watch s i pid w' = (Inr p, w'', es)" by simp
      from achieves_run [OF watch_next [OF clock] w this]
      show "?ends (4 * n + 6) p w''"
        using fresh [of w''] soon(2) [of D w'' pid]
        by (auto simp: fresh_def ends_finished intro: ends_mono split: pc.splits)
    qed
    then show ?thesis by (simp add: add.commute)
  qed
  have first: "?ends (4 * n + 8) Top w'" if w: "since T t D r w'" for w'
  proof -
    have "?ends (Suc (4 * n + 7)) Top w'"
    proof (rule ends_step)
      fix p w'' es assume "run_step s i reps plot only Top w' = (Inr p, w'', es)"
      then have "attempt s i reps plot only w' = (Inr p, w'', es)" by simp
      from achieves_run [OF attempt_next [OF clock] w this] watch [of w'']
      show "?ends (4 * n + 7) p w''" by (auto simp: ends_finished)
    qed
    then show ?thesis by (simp add: add.commute)
  qed
  have wait: "?ends (4 * n + 9) (Backoff u) w" if u: "u \<le> D" for u
  proof -
    have "?ends (Suc (4 * n + 8)) (Backoff u) w"
    proof (rule ends_step)
      fix p w'' es assume "run_step s i reps plot only (Backoff u) w = (Inr p, w'', es)"
      then have "backoff s u w = (Inr p, w'', es)" by simp
      from backoff_next [OF clock Suc.prems(1) this] first [of w''] soon(1) [of u w''] u
      show "?ends (4 * n + 8) p w''" by (auto intro: ends_mono)
    qed
    then show ?thesis by (simp add: add.commute)
  qed
  show ?case using first watch fresh wait Suc.prems(1) by (auto simp: add.commute)
qed

text \<open>
  C14. \<open>run_one\<close> returns. On a clock that moves forward and with a wait of at least one second
  between attempts, it takes at most four steps for each second left to the deadline, and four
  more; neither waiting for spot capacity nor watching a driver goes on past the queue's deadline. The
  command also takes \<open>--retry-wait 0\<close>; then attempts may follow one another at once, and their number is
  bounded by nothing stated here.
\<close>

theorem run_one_returns:
  assumes "steady_clock s T" and "1 \<le> q_retry_wait (qw_q w)"
    and "q_deadline (qw_q w) - T (qw_os w) < of_nat n"
  shows "io_result (run_one (4 * n + 4) s i reps plot only w) \<noteq> Inr None"
proof -
  have "since T (T (qw_os w)) (q_deadline (qw_q w)) (q_retry_wait (qw_q w)) w"
    by (simp add: since_def)
  from run_ends [OF assms(1,2) this assms(3)] show ?thesis
    by (simp add: ends_def run_one_def)
qed

end
