(* ===== verification/QueueScript.thy ===== *)
theory QueueScript
  imports QueueStatus QueueTime
begin

text \<open>
  A scripted operating system on which the queue's properties are applied, and two ways a queue ends
  with a wrong status.
\<close>

section \<open>A scripted operating system\<close>

text \<open>
  An operating system in which time passes only while the code sleeps. Each driver started takes its
  duration and exit code from a script; a signal to its group ends it at once with code -15; the stop
  flag is set from a given time on; every log holds the same text.
\<close>

record os_world =
  ow_time :: rat
  ow_script :: "(rat \<times> int) list"
  ow_procs :: "(int \<times> rat \<times> int) list"
  ow_stop_at :: "rat option"
  ow_log :: string

definition ow_spawn :: "os_world \<Rightarrow> (exn + int) \<times> os_world" where
  "ow_spawn u = (case ow_script u of
     [] \<Rightarrow> (Inl (OtherExn ''OSError''), u)
   | (d, rc) # ds \<Rightarrow> let pid = 100 + int (length (ow_procs u)) in
       (Inr pid, u\<lparr>ow_script := ds, ow_procs := (pid, ow_time u + d, rc) # ow_procs u\<rparr>))"

definition ow_poll :: "int \<Rightarrow> os_world \<Rightarrow> int option" where
  "ow_poll p u = (case map_of (ow_procs u) p of
     None \<Rightarrow> None | Some (t, rc) \<Rightarrow> if t \<le> ow_time u then Some rc else None)"

definition ow_term :: "int \<Rightarrow> os_world \<Rightarrow> os_world" where
  "ow_term p u = u\<lparr>ow_procs := map (\<lambda>(q, t, rc). if q = p \<and> ow_time u < t then (q, ow_time u, - 15) else (q, t, rc)) (ow_procs u)\<rparr>"

definition mos :: "os_world os" where
  "mos = \<lparr>os_python = ''python3'', os_root = ''/repo'',
     os_now = (\<lambda>u. (ow_time u, u)),
     os_stop = (\<lambda>u. (case ow_stop_at u of None \<Rightarrow> False | Some t \<Rightarrow> t \<le> ow_time u, u)),
     os_spawn = (\<lambda>c l. ow_spawn),
     os_poll = (\<lambda>p u. (ow_poll p u, u)),
     os_sleep = (\<lambda>d u. u\<lparr>ow_time := ow_time u + d\<rparr>),
     os_read = (\<lambda>l u. (Inr (ow_log u), u)),
     os_procs = (\<lambda>u. ([], u)),
     os_killpg = (\<lambda>p g. ow_term p),
     os_kill = (\<lambda>p g u. u),
     os_alive = (\<lambda>p u. (False, u))\<rparr>"

lemma mos_clock: "steady_clock mos ow_time"
  by (auto simp: steady_clock_def mos_def ow_spawn_def ow_term_def Let_def split: list.splits option.splits)

definition mock_exp :: "string \<Rightarrow> string list \<Rightarrow> exper" where
  "mock_exp n vs = \<lparr>ex_name = n, ex_path = ''experiments/'' @ n @ ''.toml'', ex_status = ''queued'', ex_group = 0,
     ex_reps = 1, ex_attempts = 0, ex_refusals = 0, ex_last = None, ex_axis = ''workers'', ex_values = vs\<rparr>"

definition mock_queue :: "bool \<Rightarrow> bool \<Rightarrow> rat \<Rightarrow> exper list \<Rightarrow> qstate" where
  "mock_queue il conc deadline xs = \<lparr>q_id = ''q'', q_status = ''starting'', q_pid = None, q_started = 0, q_ttl = 100,
     q_deadline = deadline, q_market = ''spot'', q_interleave = il, q_concurrent = conc, q_retry_wait = 60,
     q_exps = xs, q_events = [], q_updated = None, q_finished = None\<rparr>"

definition mock_qw :: "(rat \<times> int) list \<Rightarrow> rat option \<Rightarrow> qstate \<Rightarrow> os_world qworld" where
  "mock_qw script stop q = \<lparr>qw_os = \<lparr>ow_time = 0, ow_script = script, ow_procs = [], ow_stop_at = stop, ow_log = []\<rparr>,
     qw_q = q, qw_children = []\<rparr>"

definition q1 :: qstate where
  "q1 = mock_queue False False 100 [mock_exp ''a'' [''1'']]"

lemma mock_run_one: "io_result (run_one 9 mos 0 1 True None (mock_qw [(7, 0)] None q1)) = Inr (Some ''done'')"
  by code_simp

lemma inr_run: "io_result (m w) = Inr x \<Longrightarrow> \<exists>w' es. m w = (Inr x, w', es)"
  by (metis prod.exhaust_sel)

theorem run_one_leaves_no_child_witness:
  "\<exists>w' es. run_one 9 mos 0 1 True None (mock_qw [(7, 0)] None q1) = (Inr (Some ''done''), w', es) \<and> qw_children w' = []"
proof -
  from inr_run [of "run_one 9 mos 0 1 True None", OF mock_run_one] obtain w' es where
    run: "run_one 9 mos 0 1 True None (mock_qw [(7, 0)] None q1) = (Inr (Some ''done''), w', es)" by blast
  have "qw_children w' = []"
    by (rule run_one_leaves_no_child [OF run]) (simp_all add: mock_qw_def q1_def mock_queue_def)
  with run show ?thesis by blast
qed

theorem run_one_returns_witness:
  "io_result (run_one (4 * 101 + 4) mos 0 1 True None (mock_qw [(7, 0)] None q1)) \<noteq> Inr None"
  by (rule run_one_returns [OF mos_clock]) (simp_all add: mock_qw_def q1_def mock_queue_def)

text \<open>
  Evaluation by the simplifier: \<open>exec\<close> is a run without its effects; the operations are equations on
  it, and congruences keep the simplifier out of what comes later.
\<close>

definition exec :: "('w, 'c, 'a) io \<Rightarrow> 'w \<Rightarrow> (exn + 'a) \<times> 'w" where
  "exec m w = (case m w of (r, w', _) \<Rightarrow> (r, w'))"

lemma exec_app:
  "exec (io_ret x) w = (Inr x, w)" "exec (io_raise e) w = (Inl e, w)" "exec (io_emit c) w = (Inr (), w)"
  "exec (io_ask g) w = (Inr (g w), w)" "exec (io_call c h) w = h w"
  "exec (io_bind m f) w = (case exec m w of (Inl e, w') \<Rightarrow> (Inl e, w') | (Inr x, w') \<Rightarrow> exec (f x) w')"
  "exec (io_seq m n) w = (case exec m w of (Inl e, w') \<Rightarrow> (Inl e, w') | (Inr x, w') \<Rightarrow> exec n w')"
  "exec (io_catch m k) w = (case exec m w of (Inr x, w') \<Rightarrow> (Inr x, w')
     | (Inl e, w') \<Rightarrow> (case k e of None \<Rightarrow> (Inl e, w') | Some n \<Rightarrow> exec n w'))"
  "exec (\<lambda>u. (g1 u, g2 u, g3 u)) w = (g1 w, g2 w)"
  "exec (io_when b u) w = (if b then exec u w else (Inr (), w))"
  by (auto simp: exec_def io_defs io_when_def split: prod.splits sum.splits option.splits)

lemma io_cong:
  "m = m' \<Longrightarrow> io_bind m f = io_bind m' f" "m = m' \<Longrightarrow> io_seq m n = io_seq m' n"
  "m = m' \<Longrightarrow> io_catch m h = io_catch m' h"
  by simp_all

lemma exec_queue:
  "exec (on_os m) w = (case exec m (qw_os w) of (r, u) \<Rightarrow> (r, w\<lparr>qw_os := u\<rparr>))"
  "exec (now_time s) w = (case os_now s (qw_os w) of (t, u) \<Rightarrow> (Inr t, w\<lparr>qw_os := u\<rparr>))"
  "exec (stopping s) w = (case os_stop s (qw_os w) of (b, u) \<Rightarrow> (Inr b, w\<lparr>qw_os := u\<rparr>))"
  "exec (sleep_for s d) w = (Inr (), w\<lparr>qw_os := os_sleep s d (qw_os w)\<rparr>)"
  "exec get_q w = (Inr (qw_q w), w)" "exec (get_exp i) w = (Inr (q_exps (qw_q w) ! i), w)"
  "exec (mod_q f) w = (Inr (), w\<lparr>qw_q := f (qw_q w)\<rparr>)"
  "exec (mod_children g) w = (Inr (), w\<lparr>qw_children := g (qw_children w)\<rparr>)"
  "exec (mod_exp i h) w = (Inr (), w\<lparr>qw_q := (qw_q w)\<lparr>q_exps := (q_exps (qw_q w))[i := h (q_exps (qw_q w) ! i)]\<rparr>\<rparr>)"
  by (simp_all add: exec_def queue_prims io_ask_def split: prod.splits)

lemma run_by_exec: "(case m w of (r, w', es) \<Rightarrow> P r w') = (case exec m w of (r, w') \<Rightarrow> P r w')"
  by (simp add: exec_def split: prod.splits)

lemma io_result_exec: "io_result (m w) = fst (exec m w)"
  by (simp add: exec_def split: prod.splits)

lemmas run_simps = run_group_def run_one_def Let_def points_def max_of_def due_at_def
  event_def save_def exec_app exec_queue attempt_def watch_def over_def settle_def backoff_def mos_def
  ow_spawn_def ow_poll_def ow_term_def mock_qw_def mock_queue_def mock_exp_def eval_nat_numeral ending_def

definition q2 :: qstate where
  "q2 = mock_queue True False 100 [mock_exp ''a'' [''1'', ''2''], mock_exp ''b'' [''1'']]"

lemma mock_group: "io_result (run_group 9 (\<lambda>_ _. []) mos [0, 1] False (mock_qw [(7, 0), (2, 0), (3, 0)] None q2)) = Inr (Some ''done'')"
  unfolding io_result_exec by (simp add: run_simps q2_def upt_rec cong: io_cong)

theorem run_group_order_witness:
  "\<exists>w' es. run_group 9 (\<lambda>_ _. []) mos [0, 1] False (mock_qw [(7, 0), (2, 0), (3, 0)] None q2) = (Inr (Some ''done''), w', es) \<and>
     in_points mos (qw_q (mock_qw [(7, 0), (2, 0), (3, 0)] None q2)) [0, 1] [(1, 0), (1, 1)] es"
proof -
  let ?w = "mock_qw [(7, 0), (2, 0), (3, 0)] None q2"
  from inr_run [of "run_group 9 (\<lambda>_ _. []) mos [0, 1] False", OF mock_group] obtain w' es where
    run: "run_group 9 (\<lambda>_ _. []) mos [0, 1] False ?w = (Inr (Some ''done''), w', es)" by blast
  have ps: "points (max_of (map (\<lambda>j. ex_reps (q_exps (qw_q ?w) ! j)) [0, 1]))
      (max_of (map (\<lambda>j. length (ex_values (q_exps (qw_q ?w) ! j))) [0, 1])) = [(1, 0), (1, 1)]"
    by code_simp
  have "\<forall>j \<in> set [0, 1]. j < length (q_exps (qw_q ?w))"
    by (simp add: mock_qw_def q2_def mock_queue_def)
  from run_group_order [OF run this] run show ?thesis unfolding ps Let_def by blast
qed

definition mock_account :: "os_world account" where
  "mock_account = \<lparr>ac_ec2 = \<lparr>ec2_describe_subnet = (\<lambda>s w. (Inr [], w)), ec2_default_subnets = (\<lambda>v w. (Inr [], w)),
       ec2_run_instances = (\<lambda>kw w. (Inr [], w)), ec2_describe_instances = (\<lambda>ids w. (Inr [], w)),
       ec2_terminate = (\<lambda>ids w. (Inr (), w)), ec2_spot_of = (\<lambda>ids w. (Inr [], w)), ec2_spot_open = (\<lambda>w. (Inr [], w)),
       ec2_cancel_spot = (\<lambda>ids w. (Inr (), w)), s3_location = (\<lambda>b w. (Inr None, w)), error_text = (\<lambda>e. []),
       wall_clock = ow_time, pause = (\<lambda>d w. w)\<rparr>,
     ac_ours = (\<lambda>w. (Inr [], w)), ac_images = (\<lambda>w. (Inr [], w)), ac_deregister = (\<lambda>i w. (Inr (), w)),
     ac_delete_snap = (\<lambda>i w. (Inr (), w)), ac_qlogs = (\<lambda>w. ([], w)), ac_rlogs = (\<lambda>w. ([], w))\<rparr>"

lemma mock_main: "io_result (queue_main 9 (\<lambda>_ _ _. []) mos mock_account 42 (mock_qw [(7, 0)] None q1)) = Inr (Some 0)"
  unfolding io_result_exec by (simp add: run_simps q1_def upt_rec queue_main_def announce_def run_loops_def finish_def close_queue_def
    close_statuses_def report_def final_verdict_def notify_def cong: io_cong)

theorem queue_main_settles_witness:
  "\<exists>w' es. queue_main 9 (\<lambda>_ _ _. []) mos mock_account 42 (mock_qw [(7, 0)] None q1) = (Inr (Some 0), w', es) \<and>
     q_status (qw_q w') = ''done''"
proof -
  from inr_run [of "queue_main 9 (\<lambda>_ _ _. []) mos mock_account 42", OF mock_main] obtain w' es where
    run: "queue_main 9 (\<lambda>_ _ _. []) mos mock_account 42 (mock_qw [(7, 0)] None q1) = (Inr (Some 0), w', es)" by blast
  have "\<not> q_interleave (qw_q (mock_qw [(7, 0)] None q1))" by (simp add: mock_qw_def q1_def mock_queue_def)
  from queue_main_settles [OF run this] run show ?thesis by blast
qed

section \<open>Two ways a queue ends with wrong statuses\<close>

definition q_pair :: qstate where
  "q_pair = mock_queue True True 1000 [mock_exp ''a'' [''1''], mock_exp ''b'' [''1'']]"

lemmas main_simps = run_simps queue_main_def announce_def run_loops_def finish_def close_queue_def
  close_statuses_def report_def final_verdict_def notify_def groups_of_def run_due_threads_def
  thread_step_def end_child_def end_driver_def sweep_def sweep_body_def our_instances_def
  launched_def ids_in_def mock_account_def settle_statuses_def upt_rec dict_set_def dict_del_def descendants_def
  kids_def is_deploy_def kill_group_def kill_one_def read_log_def last_chars_def credentials_gone_def spot_refused_def

text \<open>
  Two arms side by side, and a stop after 30 seconds while both drivers run. The first thread to see
  the flag ends every driver in flight, its neighbour's too; the neighbour then finds its driver gone
  with a signal's exit code and no refusal in its log, and calls its experiment failed.
\<close>

theorem concurrent_stop_fails_neighbour:
  "(case run_due_threads [0, 1, 0, 2, 1, 1, 2] mos 1 0 [0, 1] (mock_qw [(500, 0), (500, 0)] (Some 43) q_pair) of
     (r, w', es) \<Rightarrow> r = Inr (Some ''stopped'') \<and> map ex_status (q_exps (qw_q w')) = [''running'', ''failed''])"
  by (rule run_by_exec [THEN iffD2]) (simp add: main_simps q_pair_def cong: io_cong)

definition q_late :: qstate where
  "q_late = mock_queue True False 60 [mock_exp ''a'' [''1'']]"

text \<open>
  An interleaved queue whose deadline passes while the pass that only plots runs: its driver is ended
  and its experiment left running, and the queue is called done, with exit code 0.
\<close>

theorem plot_pass_verdict_ignored:
  "(case queue_main 30 (\<lambda>_ _ _. []) mos mock_account 42 (mock_qw [(40, 0), (500, 0)] None q_late) of
     (r, w', es) \<Rightarrow> r = Inr (Some 0) \<and> q_status (qw_q w') = ''done'' \<and>
       map ex_status (q_exps (qw_q w')) = [''running''])"
  by (rule run_by_exec [THEN iffD2]) (simp add: main_simps q_late_def cong: io_cong)
end
