(* ===== verification/QueueRefusal.thy ===== *)
theory QueueRefusal
  imports QueueScript
begin

text \<open>
  Where the queue meets the launch: the message of a refused spot launch, as the driver's log shows
  it, is what the queue waits on.
\<close>

section \<open>A refusal of the driver's is one to the queue\<close>

lemma last_chars_suffix: "length b \<le> n \<Longrightarrow> \<exists>a'. last_chars n (a @ b) = a' @ b"
  by (simp add: last_chars_def)

lemma refusal_recognised:
  assumes "length (spot_refusal r @ post) \<le> 4000"
  shows "is_infix spot_refused (last_chars 4000 (pre @ spot_refusal r @ post))"
proof -
  from last_chars_suffix [OF assms, of pre] obtain a where
    "last_chars 4000 (pre @ spot_refusal r @ post) = a @ spot_refusal r @ post" by blast
  moreover have "is_infix spot_refused (spot_refusal r)"
  proof -
    have "spot_refusal r = spot_refused @ '': '' @ show_opt (fst r) @ '': '' @ show_opt (snd r)"
      by (simp add: spot_refusal_def spot_refused_def)
    then show ?thesis by (metis is_infix_prefix)
  qed
  ultimately show ?thesis by (metis is_infix_append)
qed

text \<open>
  What the queue waits in: a step of the wait sleeps five seconds and goes on waiting, unless the clock
  shows the wait is over or a stop was asked for; only then it turns to the next attempt.
\<close>

definition waits_until :: "'w os \<Rightarrow> rat \<Rightarrow> ('w, pc) q \<Rightarrow> bool" where
  "waits_until s T m \<longleftrightarrow> (\<forall>v p v' cs. m v = (Inr p, v', cs) \<longrightarrow>
     p = Backoff T \<and> fst (os_now s (qw_os v)) < T \<and> Slept 5 \<in> set cs \<or>
     p = Top \<and> (T \<le> fst (os_now s (qw_os v)) \<or> StopFlag True \<in> set cs))"

lemma backoff_waits: "waits_until s T (run_step s i reps plot only (Backoff T))"
  by (auto simp: waits_until_def backoff_def queue_prims io_defs split: prod.splits if_splits)

text \<open>
  C39. Scarcity is waited for: when the last 4000 characters of a driver's log hold the whole message
  \<open>launch\<close> raises when no zone provides a spot instance, and none of the messages of lapsed
  credentials, the queue counts a refusal and waits from the time its clock then shows: for the retry
  wait it was given, or up to its deadline if that comes first. While the clock shows less, each step of
  the wait sleeps five seconds, and no attempt is begun, unless a stop was asked for.
\<close>

theorem refusal_is_waited_for:
  assumes "os_read s file (qw_os w) = (Inr (pre @ spot_refusal r @ post), u)"
    and "length (spot_refusal r @ post) \<le> 4000"
    and "\<not> list_ex (\<lambda>m. is_infix m (last_chars 4000 (pre @ spot_refusal r @ post))) credentials_gone"
    and "i < length (q_exps (qw_q w))"
    and "os_now s u = (t1, u1)" "os_now s u1 = (t2, u2)" "os_now s u2 = (t3, u3)"
    and "T = min (t3 + of_int (q_retry_wait (qw_q w))) (q_deadline (qw_q w))"
  shows "case read_log s i file w of (res, w', es) \<Rightarrow>
     res = Inr (Backoff T) \<and> waits_until s T (run_step s i reps plot only (Backoff T)) \<and>
     ex_status (q_exps (qw_q w') ! i) = ''waiting for spot'' \<and>
     ex_refusals (q_exps (qw_q w') ! i) = ex_refusals (q_exps (qw_q w) ! i) + 1 \<and>
     q_status (qw_q w') = ''waiting for spot''"
  using assms refusal_recognised [OF assms(2), of pre] backoff_waits [of s T i reps plot only]
  by (auto simp: read_log_def save_def event_def queue_prims io_defs Let_def split: prod.splits)

definition refusal_log :: string where
  "refusal_log = ''boot '' @ spot_refusal (Some ''NoCapacity'', Some ''none'') @ '' bye''"

definition refused_world :: "os_world qworld" where
  "refused_world = \<lparr>qw_os = \<lparr>ow_time = 0, ow_script = [], ow_procs = [], ow_stop_at = None, ow_log = refusal_log\<rparr>,
     qw_q = q1, qw_children = []\<rparr>"

theorem refusal_is_waited_for_witness:
  "case read_log mos 0 ''a.log'' refused_world of (res, w', es) \<Rightarrow>
     res = Inr (Backoff (min (of_int (q_retry_wait q1)) (q_deadline q1))) \<and> ex_status (q_exps (qw_q w') ! 0) = ''waiting for spot''"
proof -
  have 1: "os_read mos ''a.log'' (qw_os refused_world) =
      (Inr (''boot '' @ spot_refusal (Some ''NoCapacity'', Some ''none'') @ '' bye''), qw_os refused_world)"
    by (simp add: mos_def refused_world_def refusal_log_def)
  have 2: "length (spot_refusal (Some ''NoCapacity'', Some ''none'') @ '' bye'') \<le> 4000" by code_simp
  have 3: "\<not> list_ex (\<lambda>m. is_infix m (last_chars 4000
      (''boot '' @ spot_refusal (Some ''NoCapacity'', Some ''none'') @ '' bye''))) credentials_gone" by code_simp
  have 4: "0 < length (q_exps (qw_q refused_world))" by (simp add: refused_world_def q1_def mock_queue_def)
  let ?u = "qw_os refused_world"
  have 5: "os_now mos ?u = (0, ?u)" by (simp add: mos_def refused_world_def)
  have 6: "min (of_int (q_retry_wait q1)) (q_deadline q1)
      = min (0 + of_int (q_retry_wait (qw_q refused_world))) (q_deadline (qw_q refused_world))"
    by (simp add: refused_world_def)
  from refusal_is_waited_for [OF 1 2 3 4 5 5 5 6] show ?thesis by (auto split: prod.splits)
qed

end
