(* ===== verification/Experiment.thy ===== *)
theory Experiment
  imports Prelude "HOL-Library.Sublist"
begin

text \<open>
  \<^verbatim>\<open>scripts/bench/experiment.py\<close>: finding and loading an experiment, the points of its grid,
  \<open>--only\<close> and interleaving, and the driver invocations it makes. Files are looked up through the
  record \<open>files\<close>; a TOML file is the \<open>config\<close> the parser makes of it.
\<close>

section \<open>Configurations\<close>

text \<open>The keys of an experiment that the code reads; None for a key that is absent.\<close>

record config =
  c_path :: string
  c_description :: string
  c_out :: bool
  c_grid :: "(string \<times> pyval list) list option"
  c_points :: "pyval dict list option"
  c_axis :: "string option"
  c_deploy :: "string option"
  c_prep :: "string option"
  c_bench :: string
  c_instance :: string
  c_reps :: int
  c_fixed :: "pyval dict"
  c_env :: "pyval dict"
  c_interleave :: bool
  c_keep_going :: bool
  c_cooldown :: "int option"
  c_point_cooldown :: "int option"
  c_max_vm :: "pyval option"
  c_target_ip :: "string option"
  c_title :: string
  c_plot :: "pyval dict"

record files =
  f_root :: string
  f_is_file :: "string \<Rightarrow> bool"
  f_named :: "string \<Rightarrow> string list"
  f_toml :: "string \<Rightarrow> config res"

definition experiments_dir :: "files \<Rightarrow> string" where
  "experiments_dir f = f_root f @ ''/experiments''"

section \<open>Paths\<close>

definition without_suffix :: "string \<Rightarrow> string" where
  "without_suffix p =
     (let d = butlast (split_on CHR ''/'' p) in join ''/'' (d @ [stem_of (file_name p)]))"

definition qualified_name :: "files \<Rightarrow> string \<Rightarrow> string" where
  "qualified_name f p =
     (let e = experiments_dir f @ ''/'' in
      if starts_with e p then without_suffix (drop (length e) p) else p)"

definition sorted_paths :: "string list \<Rightarrow> string list" where
  "sorted_paths = sort_key (split_on CHR ''/'')"

definition newline :: string where
  "newline = [char_of (10 :: nat)]"

definition find_experiment :: "files \<Rightarrow> string \<Rightarrow> string res" where
  "find_experiment f name =
     (if f_is_file f name then Inr name
      else if f_is_file f (experiments_dir f @ ''/'' @ name @ ''.toml'') then Inr (experiments_dir f @ ''/'' @ name @ ''.toml'')
      else (case sorted_paths (f_named f (name @ ''.toml'')) of
          [] \<Rightarrow> Inl (SystemExit (''no such experiment: '' @ name @ newline @ ''have:'' @ newline @ ''  ''
                 @ join (newline @ ''  '') (map (qualified_name f) (sorted_paths (f_named f ''*.toml'')))))
        | [p] \<Rightarrow> Inr p
        | ps \<Rightarrow> Inl (SystemExit (name @ '' names '' @ show_nat (length ps) @ '' experiments:'' @ newline @ ''  ''
                 @ join (newline @ ''  '') (map (qualified_name f) ps)))))"

definition out_path :: "files \<Rightarrow> config \<Rightarrow> string" where
  "out_path f x = f_root f @ ''/results/'' @ file_name (parent_dir (c_path x)) @ ''/'' @ stem_of (file_name (c_path x)) @ ''.csv''"

section \<open>Points\<close>

text \<open>\<open>itertools.product\<close> over the grid's values, the last key varying fastest.\<close>

fun grid_points :: "(string \<times> pyval list) list \<Rightarrow> pyval dict list" where
  "grid_points [] = [[]]"
| "grid_points ((k, vs) # g) = concat (map (\<lambda>v. map (\<lambda>p. (k, v) # p) (grid_points g)) vs)"

definition load_config :: "files \<Rightarrow> config \<Rightarrow> config res" where
  "load_config f x =
     (if c_out x
      then Inl (SystemExit (qualified_name f (c_path x) @ '' sets `out`, which is now derived from its path (''
             @ drop (length (f_root f) + 1) (out_path f x)
             @ ''). Drop the key; to write somewhere else, call the bench driver directly.''))
      else let x' = (case c_grid x of None \<Rightarrow> x | Some g \<Rightarrow> if g = [] then x else x\<lparr>c_points := Some (grid_points g)\<rparr>)
      in if c_deploy x' = None \<and> c_prep x' = None \<and> (c_axis x' = None \<or> c_points x' = None)
         then Inl (SystemExit (qualified_name f (c_path x) @ '' is a sweep but has no `axis`/`points`''))
         else Inr x')"

definition load_experiment :: "files \<Rightarrow> string \<Rightarrow> config res" where
  "load_experiment f name =
     res_bind (find_experiment f name) (\<lambda>path.
     res_bind (f_toml f path) (\<lambda>x. load_config f (x\<lparr>c_path := path\<rparr>)))"

section \<open>Arguments\<close>

record xargs =
  a_cooldown :: "int option"
  a_point_cooldown :: "int option"
  a_reps :: "int option"
  a_market :: string
  a_only :: "string option"
  a_target_ip :: "string option"
  a_dry_run :: bool
  a_no_plot :: bool

text \<open>\<open>s.partition("=")\<close>, without the separator.\<close>

definition partition_eq :: "string \<Rightarrow> string \<times> string" where
  "partition_eq s = (takeWhile (\<lambda>c. c \<noteq> CHR ''='') s, tl (dropWhile (\<lambda>c. c \<noteq> CHR ''='') s))"

text \<open>The value of a knob at a point: the point's own, else the fixed one, else None.\<close>

definition knob_of :: "pyval dict \<Rightarrow> pyval dict \<Rightarrow> string \<Rightarrow> pyval" where
  "knob_of fixed p k = (case map_of p k of Some v \<Rightarrow> v | None \<Rightarrow> dict_get fixed k)"

definition only_points :: "pyval dict \<Rightarrow> string \<Rightarrow> pyval dict list \<Rightarrow> pyval dict list" where
  "only_points fixed only ps =
     (case partition_eq only of (k, v) \<Rightarrow> filter (\<lambda>p. py_str (knob_of fixed p k) = v) ps)"

definition chosen_points :: "files \<Rightarrow> xargs \<Rightarrow> config \<Rightarrow> pyval dict list res" where
  "chosen_points f a x =
     res_bind (of_option (KeyErr ''points'') (c_points x)) (\<lambda>ps.
      if given (a_only a)
      then (case only_points (c_fixed x) (the (a_only a)) ps of
          [] \<Rightarrow> Inl (SystemExit (''--only '' @ the (a_only a) @ '' matches no point of '' @ qualified_name f (c_path x)))
        | qs \<Rightarrow> Inr qs)
      else Inr ps)"

section \<open>Interleaving\<close>

text \<open>
  \<open>groups.setdefault(key, []).append(v)\<close> for the points in order. A key is the point without the
  axis, as pairs sorted by knob; keys are equal when their values compare equal.
\<close>

definition point_key :: "string \<Rightarrow> pyval dict \<Rightarrow> pyval dict" where
  "point_key axis p = sort_key fst (filter (\<lambda>(k, _). k \<noteq> axis) p)"

definition key_eq :: "pyval dict \<Rightarrow> pyval dict \<Rightarrow> bool" where
  "key_eq a b = list_all2 (\<lambda>(k, v) (k', v'). k = k' \<and> py_eq v v') a b"

fun add_to_group :: "pyval dict \<Rightarrow> pyval \<Rightarrow> (pyval dict \<times> pyval list) list \<Rightarrow> (pyval dict \<times> pyval list) list" where
  "add_to_group key v [] = [(key, [v])]"
| "add_to_group key v ((k, vs) # gs) =
     (if key_eq k key then (k, vs @ [v]) # gs else (k, vs) # add_to_group key v gs)"

fun group_points :: "string \<Rightarrow> pyval dict list \<Rightarrow> (pyval dict \<times> pyval list) list \<Rightarrow> (pyval dict \<times> pyval list) list res" where
  "group_points axis [] gs = Inr gs"
| "group_points axis (p # ps) gs = (case map_of p axis of
     None \<Rightarrow> Inl (KeyErr axis)
   | Some v \<Rightarrow> group_points axis ps (add_to_group (point_key axis p) v gs))"

definition group_point :: "string \<Rightarrow> pyval dict \<times> pyval list \<Rightarrow> pyval dict" where
  "group_point axis g = (case g of (key, vs) \<Rightarrow>
     dict_merge (dict_merge [] key) [(axis, PStr (join '','' (map py_str vs)))])"

definition interleaved :: "config \<Rightarrow> string \<Rightarrow> pyval dict list \<Rightarrow> pyval dict list res" where
  "interleaved x axis ps =
     (if c_interleave x then res_bind (group_points axis ps []) (\<lambda>gs. Inr (map (group_point axis) gs)) else Inr ps)"

section \<open>Commands\<close>

text \<open>
  \<open>str.format(**cfg)\<close>, for the plain fields the files use: \<open>{name}\<close> and doubled braces.
\<close>

fun format_with :: "nat \<Rightarrow> pyval dict \<Rightarrow> string \<Rightarrow> string res" where
  "format_with 0 d s = Inl (ValueErr ''format'')"
| "format_with (Suc n) d [] = Inr []"
| "format_with (Suc n) d (c # s) =
     (if c = CHR ''{'' \<and> s \<noteq> [] \<and> hd s = CHR ''{'' then res_bind (format_with n d (tl s)) (\<lambda>t. Inr (CHR ''{'' # t))
      else if c = CHR ''}'' \<and> s \<noteq> [] \<and> hd s = CHR ''}'' then res_bind (format_with n d (tl s)) (\<lambda>t. Inr (CHR ''}'' # t))
      else if c = CHR ''{''
      then (let name = takeWhile (\<lambda>c. c \<noteq> CHR ''}'') s; r = dropWhile (\<lambda>c. c \<noteq> CHR ''}'') s in
            case r of [] \<Rightarrow> Inl (ValueErr ''format'')
            | _ # r' \<Rightarrow> (case map_of d name of
                None \<Rightarrow> Inl (KeyErr name)
              | Some v \<Rightarrow> res_bind (format_with n d r') (\<lambda>t. Inr (py_str v @ t))))
      else if c = CHR ''}'' then Inl (ValueErr ''format'')
      else res_bind (format_with n d s) (\<lambda>t. Inr (c # t)))"

definition cooldown_of :: "xargs \<Rightarrow> config \<Rightarrow> int" where
  "cooldown_of a x = (case a_cooldown a of Some c \<Rightarrow> c | None \<Rightarrow> (case c_cooldown x of Some c \<Rightarrow> c | None \<Rightarrow> 600))"

definition point_cooldown_of :: "xargs \<Rightarrow> config \<Rightarrow> int" where
  "point_cooldown_of a x = (case a_point_cooldown a of Some c \<Rightarrow> c | None \<Rightarrow>
     (case c_point_cooldown x of Some c \<Rightarrow> c | None \<Rightarrow> cooldown_of a x))"

definition target_of :: "xargs \<Rightarrow> config \<Rightarrow> string" where
  "target_of a x = (if given (a_target_ip a) then the (a_target_ip a) else if given (c_target_ip x) then the (c_target_ip x) else [])"

text \<open>One driver invocation: the point as the driver gets it, the environment added, the command.\<close>

record invocation =
  v_cfg :: "pyval dict"
  v_env :: "(string \<times> string) list"
  v_cmd :: "string list"

definition held_args :: "string \<Rightarrow> pyval dict \<Rightarrow> string list" where
  "held_args axis cfg = concat (map (\<lambda>(k, v). [''--'' @ k, py_str v]) (filter (\<lambda>(k, _). k \<noteq> axis) cfg))"

definition driver_args :: "files \<Rightarrow> string \<Rightarrow> xargs \<Rightarrow> config \<Rightarrow> string \<Rightarrow> pyval \<Rightarrow> string \<Rightarrow> string list" where
  "driver_args f python a x axis v inst =
     [python, f_root f @ ''/scripts/bench/'' @ file_name (c_bench x) @ ''/bench.py'',
      ''--sweep'', axis @ ''='' @ py_str v,
      ''--reps'', show_int (case a_reps a of Some r \<Rightarrow> r | None \<Rightarrow> c_reps x),
      ''--instance'', inst, ''--cooldown'', show_int (cooldown_of a x),
      ''--max-vm-seconds'', py_str (case c_max_vm x of Some v \<Rightarrow> v | None \<Rightarrow> PInt 110),
      ''--target-ip'', target_of a x, ''--out'', out_path f x]"

definition flag_args :: "xargs \<Rightarrow> config \<Rightarrow> string list" where
  "flag_args a x =
     (if c_keep_going x then [''--keep-going''] else []) @ (if c_interleave x then [''--interleave''] else [])
     @ [''--market'', a_market a] @ (if a_dry_run a then [''--dry-run''] else [])"

text \<open>The instance type of a point: the axis' own, else the point's, else the experiment's.\<close>

definition instance_of :: "config \<Rightarrow> string \<Rightarrow> pyval dict \<Rightarrow> string" where
  "instance_of x axis cfg =
     (if axis = ''instance'' then c_instance x
      else (case map_of cfg ''instance'' of Some v \<Rightarrow> py_str v | None \<Rightarrow> c_instance x))"

definition invoke :: "files \<Rightarrow> string \<Rightarrow> xargs \<Rightarrow> config \<Rightarrow> string \<Rightarrow> pyval dict \<Rightarrow> invocation res" where
  "invoke f python a x axis point =
     (let cfg = dict_merge (dict_merge [] (c_fixed x)) point in
      res_bind (res_list (\<lambda>(k, v). res_bind (format_with (Suc (length (py_str v))) cfg (py_str v)) (\<lambda>t. Inr (k, t))) (c_env x)) (\<lambda>env.
      let cfg' = (if axis = ''instance'' then cfg else dict_del ''instance'' cfg) in
      res_bind (of_option (KeyErr axis) (map_of point axis)) (\<lambda>v.
      Inr \<lparr>v_cfg = cfg', v_env = env,
        v_cmd = driver_args f python a x axis v (instance_of x axis cfg) @ held_args axis cfg' @ flag_args a x\<rparr>)))"

definition plot_cmd :: "files \<Rightarrow> string \<Rightarrow> config \<Rightarrow> string list" where
  "plot_cmd f python x =
     [python, f_root f @ ''/scripts/bench/plot.py'', out_path f x, ''--title'', c_title x]
     @ concat (map (\<lambda>(key, flag). case map_of (c_plot x) key of None \<Rightarrow> [] | Some v \<Rightarrow> [flag, py_str v])
         [(''series'', ''--series''), (''value_col'', ''--value-col''), (''ylabel'', ''--ylabel''), (''unit'', ''--unit'')])
     @ concat (map (\<lambda>(key, flag). if truthy (dict_get (c_plot x) key) then [flag] else [])
         [(''bar'', ''--bar''), (''log_scale'', ''--log-scale''), (''box'', ''--box'')])"

section \<open>Running\<close>

datatype xeff = RunDriver invocation | RunCmd "string list" | Cool int | CheckBucket

text \<open>Running a command returns its exit code; \<open>x_check\<close> is \<open>runner.check_bucket_region\<close>.\<close>

record 'w shell =
  x_python :: string
  x_env :: "string list"
  x_run :: "string list \<Rightarrow> 'w \<Rightarrow> int \<times> 'w"
  x_sleep :: "int \<Rightarrow> 'w \<Rightarrow> 'w"
  x_check :: "'w \<Rightarrow> (exn + unit) \<times> 'w"

definition run_driver :: "'w shell \<Rightarrow> invocation \<Rightarrow> ('w, xeff, int) io" where
  "run_driver s v = io_call (RunDriver v) (\<lambda>w. case x_run s (v_cmd v) w of (rc, w') \<Rightarrow> (Inr rc, w'))"

definition run_command :: "'w shell \<Rightarrow> string list \<Rightarrow> ('w, xeff, int) io" where
  "run_command s c = io_call (RunCmd c) (\<lambda>w. case x_run s c w of (rc, w') \<Rightarrow> (Inr rc, w'))"

definition cool :: "'w shell \<Rightarrow> int \<Rightarrow> ('w, xeff, unit) io" where
  "cool s d = io_call (Cool d) (\<lambda>w. (Inr (), x_sleep s d w))"

text \<open>\<open>str\<close> of a dictionary, in the message of a failed point.\<close>

definition show_key :: "string \<Rightarrow> string" where
  "show_key k = [CHR 0x27] @ k @ [CHR 0x27]"

definition show_val :: "pyval \<Rightarrow> string" where
  "show_val v = (case v of PStr s \<Rightarrow> show_key s | _ \<Rightarrow> py_str v)"

definition show_dict :: "pyval dict \<Rightarrow> string" where
  "show_dict d = ''{'' @ join '', '' (map (\<lambda>(k, v). show_key k @ '': '' @ show_val v) d) @ ''}''"

fun run_invocations :: "files \<Rightarrow> 'w shell \<Rightarrow> xargs \<Rightarrow> config \<Rightarrow> string \<Rightarrow> pyval dict list \<Rightarrow> ('w, xeff, unit) io" where
  "run_invocations f s a x axis [] = io_ret ()"
| "run_invocations f s a x axis (p # ps) =
     io_bind (io_res (invoke f (x_python s) a x axis p)) (\<lambda>v.
     io_bind (run_driver s v) (\<lambda>rc.
     if rc \<noteq> 0 then io_raise (SystemExit (''point '' @ show_dict (v_cfg v) @ '' failed with '' @ show_int rc))
     else io_seq (io_when (\<not> a_dry_run a \<and> ps \<noteq> [] \<and> point_cooldown_of a x \<noteq> 0) (cool s (point_cooldown_of a x)))
            (run_invocations f s a x axis ps)))"

definition required_env :: "string list" where
  "required_env = [''AWS_REGION'', ''AWS_BUCKET'', ''AWS_SUBNET'']"

definition run_plot :: "files \<Rightarrow> 'w shell \<Rightarrow> config \<Rightarrow> ('w, xeff, int) io" where
  "run_plot f s x = io_bind (run_command s (plot_cmd f (x_python s) x)) (\<lambda>_. io_ret 0)"

definition remote :: "files \<Rightarrow> 'w shell \<Rightarrow> string \<Rightarrow> string list \<Rightarrow> bool \<Rightarrow> ('w, xeff, int) io" where
  "remote f s deploy extra dry =
     (let dir = f_root f @ ''/'' @ deploy in
      if dry then io_ret 0
      else io_bind (run_command s ([''just'', ''--justfile'', dir @ ''/justfile'', ''--working-directory'', dir, ''reproduce''] @ extra))
        (\<lambda>rc. if rc \<noteq> 0 then io_raise (SystemExit (''deploy failed with '' @ show_int rc)) else io_ret 0))"

definition local_prep :: "files \<Rightarrow> 'w shell \<Rightarrow> config \<Rightarrow> string \<Rightarrow> bool \<Rightarrow> bool \<Rightarrow> ('w, xeff, int) io" where
  "local_prep f s x prep dry no_plot =
     (if dry then io_ret 0
      else io_bind (run_command s [x_python s, f_root f @ ''/scripts/bench/pmc-prep.py'', prep, ''--out'', out_path f x])
        (\<lambda>rc. if rc \<noteq> 0 then io_raise (SystemExit (''prep '' @ show_key prep @ '' failed with '' @ show_int rc))
              else if no_plot then io_ret 0 else run_plot f s x))"

text \<open>The sweep part of \<open>main\<close>.\<close>

definition run_sweep :: "files \<Rightarrow> 'w shell \<Rightarrow> xargs \<Rightarrow> config \<Rightarrow> ('w, xeff, int) io" where
  "run_sweep f s a x =
     io_bind (io_res (of_option (KeyErr ''axis'') (c_axis x))) (\<lambda>axis.
     io_bind (io_res (chosen_points f a x)) (\<lambda>ps.
     let missing = filter (\<lambda>k. k \<notin> set (x_env s)) required_env in
     if missing \<noteq> []
     then io_raise (SystemExit (join '', '' missing @ '' missing - run `just setup '' @ c_bench x @ ''` once, then retry''))
     else io_seq (io_when (\<not> a_dry_run a) (io_call CheckBucket (x_check s)))
       (io_bind (io_res (interleaved x axis ps)) (\<lambda>qs.
        io_seq (run_invocations f s a x axis qs)
          (if a_dry_run a \<or> a_no_plot a then io_ret 0 else run_plot f s x)))))"

definition experiment_main :: "files \<Rightarrow> 'w shell \<Rightarrow> xargs \<Rightarrow> string \<Rightarrow> string list \<Rightarrow> ('w, xeff, int) io" where
  "experiment_main f s a name extra =
     io_bind (io_res (load_experiment f name)) (\<lambda>x.
     if given (c_deploy x) then remote f s (the (c_deploy x)) extra (a_dry_run a)
     else if extra \<noteq> [] then io_raise (SystemExit (''unexpected extra arguments: ['' @ join '', '' (map show_key extra) @ '']''))
     else if given (c_prep x) then local_prep f s x (the (c_prep x)) (a_dry_run a) (a_no_plot a)
     else run_sweep f s a x)"

section \<open>The grid is the cartesian product\<close>

lemma grid_points_length: "length (grid_points g) = prod_list (map (length \<circ> snd) g)"
proof (induction g)
  case (Cons kv g)
  obtain k vs where kv: "kv = (k, vs)" by fastforce
  have "length (concat (map (\<lambda>v. map (\<lambda>p. (k, v) # p) (grid_points g)) vs)) = length vs * length (grid_points g)"
    by (induction vs) simp_all
  with Cons kv show ?case by simp
qed simp

lemma grid_points_distinct: "list_all (\<lambda>(k, vs). distinct vs) g \<Longrightarrow> distinct (grid_points g)"
proof (induction g)
  case (Cons kv g)
  obtain k vs where kv: "kv = (k, vs)" by fastforce
  have "distinct (concat (map (\<lambda>v. map (\<lambda>p. (k, v) # p) (grid_points g)) vs))"
    if "distinct vs" "distinct (grid_points g)" using that
    by (induction vs) (auto simp: distinct_map inj_on_def)
  with Cons kv show ?case by simp
qed simp

text \<open>
  A grid is the cartesian product of its columns: its points are all the choices of one value for
  each knob, in the file's order of the knobs, as many as the columns' lengths multiply to, and each
  once if no column lists a value twice.
\<close>

theorem grid_points_product:
  "set (grid_points g) = {p. list_all2 (\<lambda>(k, v) (k', vs). k = k' \<and> v \<in> set vs) p g} \<and>
   length (grid_points g) = prod_list (map (length \<circ> snd) g) \<and>
   (list_all (\<lambda>(k, vs). distinct vs) g \<longrightarrow> distinct (grid_points g))"
proof -
  have "set (grid_points g) = {p. list_all2 (\<lambda>(k, v) (k', vs). k = k' \<and> v \<in> set vs) p g}"
  proof (induction g)
    case (Cons kv g)
    then show ?case by (cases kv) (auto simp: list_all2_Cons2)
  qed simp
  then show ?thesis using grid_points_length grid_points_distinct by simp
qed

lemma grid_points_product_witness:
  "distinct (grid_points [(''query'', [PInt 1, PInt 6]), (''threads'', [PInt 32, PInt 64])])"
  using grid_points_product [of "[(''query'', [PInt 1, PInt 6]), (''threads'', [PInt 32, PInt 64])]"] by simp

section \<open>Interleaving loses no point\<close>

lemma py_eq_trans: "py_eq a b \<Longrightarrow> py_eq b c \<Longrightarrow> py_eq a c"
  by (cases a; cases b; cases c) auto

lemma key_eq_refl [simp]: "key_eq a a"
  by (auto simp: key_eq_def list_all2_same)

lemma key_eq_sym: "key_eq a b \<Longrightarrow> key_eq b a"
  unfolding key_eq_def by (auto simp: list_all2_conv_all_nth py_eq_sym split: prod.splits)

lemma key_eq_trans: "key_eq a b \<Longrightarrow> key_eq b c \<Longrightarrow> key_eq a c"
  unfolding key_eq_def by (erule (1) list_all2_trans [rotated]) (auto intro: py_eq_trans)

text \<open>The values of the groups whose key is \<open>\<kappa>\<close>.\<close>

definition vals_at :: "pyval dict \<Rightarrow> (pyval dict \<times> pyval list) list \<Rightarrow> pyval list" where
  "vals_at \<kappa> gs = concat (map snd (filter (\<lambda>(k, _). key_eq k \<kappa>) gs))"

abbreviation apart :: "(pyval dict \<times> pyval list) list \<Rightarrow> bool" where
  "apart gs \<equiv> sorted_wrt (\<lambda>a b. \<not> key_eq (fst a) (fst b)) gs"

lemma add_to_group_fst: "k \<in> fst ` set (add_to_group key v gs) \<Longrightarrow> k = key \<or> k \<in> fst ` set gs"
  by (induction key v gs rule: add_to_group.induct) (auto split: if_splits)

lemma add_to_group_apart: "apart gs \<Longrightarrow> apart (add_to_group key v gs)"
proof (induction key v gs rule: add_to_group.induct)
  case (2 key v k vs gs)
  have "\<not> key_eq k (fst b)" if "\<not> key_eq k key" "b \<in> set (add_to_group key v gs)" for b
    using that 2 add_to_group_fst [of "fst b" key v gs] by auto
  with 2 show ?case by auto
qed simp

lemma vals_at_none: "list_all (\<lambda>(k, _). \<not> key_eq k \<kappa>) gs \<Longrightarrow> vals_at \<kappa> gs = []"
  by (induction gs) (auto simp: vals_at_def)

lemma vals_at_Cons: "vals_at \<kappa> ((k, vs) # gs) = (if key_eq k \<kappa> then vs else []) @ vals_at \<kappa> gs"
  by (simp add: vals_at_def)

lemma vals_at_add:
  "apart gs \<Longrightarrow> vals_at \<kappa> (add_to_group key v gs) = vals_at \<kappa> gs @ (if key_eq key \<kappa> then [v] else [])"
proof (induction key v gs rule: add_to_group.induct)
  case (1 key v)
  then show ?case by (simp add: vals_at_def)
next
  case (2 key v k vs gs)
  show ?case
  proof (cases "key_eq k key")
    case True
    have "vals_at \<kappa> gs = []" if "key_eq k \<kappa>"
      using that 2(2) key_eq_trans [OF that key_eq_sym] by (intro vals_at_none) (auto simp: list_all_iff)
    moreover from True have "key_eq k \<kappa> = key_eq key \<kappa>" by (metis key_eq_sym key_eq_trans)
    ultimately show ?thesis using True by (simp add: vals_at_Cons)
  next
    case False
    with 2 show ?thesis by (simp add: vals_at_Cons)
  qed
qed

lemma group_points_spec:
  "group_points axis ps gs = Inr gs' \<Longrightarrow> apart gs \<Longrightarrow> apart gs' \<and>
   vals_at \<kappa> gs' = vals_at \<kappa> gs @ map (\<lambda>p. the (map_of p axis)) (filter (\<lambda>p. key_eq (point_key axis p) \<kappa>) ps)"
proof (induction axis ps gs rule: group_points.induct)
  case (2 axis p ps gs)
  then show ?case
    by (auto split: option.splits simp: add_to_group_apart vals_at_add)
qed simp

text \<open>
  C26. Interleaving loses and moves no point: the groups differ pairwise in some knob other than the
  axis, and whatever the other knobs, the values of the groups with those knobs are the axis values of
  just the points with those knobs, in the file's order.
\<close>

theorem group_points_lossless:
  assumes "group_points axis ps [] = Inr gs"
  shows "sorted_wrt (\<lambda>a b. \<not> key_eq (fst a) (fst b)) gs \<and>
    (\<forall>\<kappa>. vals_at \<kappa> gs = map (\<lambda>p. the (map_of p axis)) (filter (\<lambda>p. key_eq (point_key axis p) \<kappa>) ps))"
  using group_points_spec [OF assms] by (auto simp: vals_at_def)

lemma group_points_lossless_witness:
  "vals_at [(''query'', PInt 1)] [([(''query'', PInt 1)], [PInt 8, PInt 16]), ([(''query'', PInt 6)], [PInt 8])] = [PInt 8, PInt 16]"
proof -
  let ?g = "[([(''query'', PInt 1)], [PInt 8, PInt 16]), ([(''query'', PInt 6)], [PInt 8])]"
  have "group_points ''threads'' [[(''query'', PInt 1), (''threads'', PInt 8)], [(''query'', PInt 6), (''threads'', PInt 8)],
     [(''query'', PInt 1), (''threads'', PInt 16)]] [] = Inr ?g"
    by (simp add: point_key_def key_eq_def)
  from group_points_lossless [OF this] show ?thesis
    by (simp add: point_key_def key_eq_def)
qed

section \<open>The commands of a sweep\<close>

text \<open>What a sweep of the invocations \<open>vs\<close> does if nothing fails: the drivers in order, idle time between them.\<close>

fun drive_script :: "bool \<Rightarrow> int \<Rightarrow> invocation list \<Rightarrow> xeff list" where
  "drive_script dry cd [] = []"
| "drive_script dry cd [v] = [RunDriver v]"
| "drive_script dry cd (v # vs) = RunDriver v # (if \<not> dry \<and> cd \<noteq> 0 then [Cool cd] else []) @ drive_script dry cd vs"

definition sweep_script :: "files \<Rightarrow> 'w shell \<Rightarrow> xargs \<Rightarrow> config \<Rightarrow> invocation list \<Rightarrow> xeff list" where
  "sweep_script f s a x vs =
     (if a_dry_run a then [] else [CheckBucket])
     @ drive_script (a_dry_run a) (point_cooldown_of a x) vs
     @ (if a_dry_run a \<or> a_no_plot a then [] else [RunCmd (plot_cmd f (x_python s) x)])"

lemma run_invocations_script:
  assumes "run_invocations f s a x axis ps w = (r, w', es)" "res_list (invoke f (x_python s) a x axis) ps = Inr vs"
  shows "prefix es (drive_script (a_dry_run a) (point_cooldown_of a x) vs) \<and>
     (\<forall>u. r = Inr u \<longrightarrow> es = drive_script (a_dry_run a) (point_cooldown_of a x) vs)"
  using assms
proof (induction ps arbitrary: w r es vs)
  case Nil
  then show ?case by (simp add: io_ret_def)
next
  case (Cons p ps)
  from Cons.prems(2) obtain v vs' where v: "invoke f (x_python s) a x axis p = Inr v"
    and vs': "res_list (invoke f (x_python s) a x axis) ps = Inr vs'" and vs: "vs = v # vs'"
    by (auto simp: res_bind_Inr)
  have len: "length vs' = length ps" using vs' by (auto simp: res_list_Inr dest: list_all2_lengthD)
  obtain rc w1 where rc: "x_run s (v_cmd v) w = (rc, w1)" by fastforce
  show ?case
  proof (cases "rc = 0")
    case False
    with Cons.prems(1) v rc vs show ?thesis
      by (cases vs') (auto simp: run_driver_def io_res_def io_bind_def io_ret_def io_call_def io_raise_def)
  next
    case True
    let ?c = "\<not> a_dry_run a \<and> ps \<noteq> [] \<and> point_cooldown_of a x \<noteq> 0"
    obtain w2 es2 where step: "io_when ?c (cool s (point_cooldown_of a x)) w1 = (Inr (), w2, if ?c then [Cool (point_cooldown_of a x)] else [])"
      by (cases ?c) (simp_all add: io_when_def cool_def io_call_def io_ret_def)
    obtain r3 es3 where rest: "run_invocations f s a x axis ps w2 = (r3, w', es3)"
      and es: "es = RunDriver v # (if ?c then [Cool (point_cooldown_of a x)] else []) @ es3" and r: "r = r3"
      using Cons.prems(1) v rc True step
      by (auto simp: run_driver_def io_res_def io_bind_def io_seq_def io_ret_def io_call_def split: prod.splits if_splits)
    from Cons.IH [OF rest vs'] show ?thesis
    proof (cases vs')
      case Nil
      with len rest r es vs show ?thesis by (simp add: io_ret_def)
    next
      case (Cons v2 vs2)
      with len have "ps \<noteq> []" by auto
      with \<open>prefix es3 _ \<and> _\<close> es r vs Cons show ?thesis by auto
    qed
  qed
qed

text \<open>
  What a sweep runs: the drivers of its points in order, one each, after the check of the bucket's
  region and before the plot, with the idle time between two of them and not after the last. When it
  returns it has done all of that and returns 0; when it raises it has done a beginning of it. A dry
  run starts the drivers only.
\<close>

theorem run_sweep_script:
  assumes "run_sweep f s a x w = (r, w', es)"
    and "c_axis x = Some axis" "chosen_points f a x = Inr ps" "interleaved x axis ps = Inr qs"
    and "res_list (invoke f (x_python s) a x axis) qs = Inr vs"
  shows "prefix es (sweep_script f s a x vs) \<and> (\<forall>rc. r = Inr rc \<longrightarrow> rc = 0 \<and> es = sweep_script f s a x vs)"
proof (cases "filter (\<lambda>k. k \<notin> set (x_env s)) required_env = []")
  case False
  with assms(1-3) show ?thesis by (auto simp: run_sweep_def of_option_def io_res_def io_raise_def Let_def)
next
  case True
  define go where "go = io_seq (run_invocations f s a x axis qs) (if a_dry_run a \<or> a_no_plot a then io_ret 0 else run_plot f s x)"
  have run: "io_seq (io_when (\<not> a_dry_run a) (io_call CheckBucket (x_check s))) go w = (r, w', es)"
    using assms(1-4) True by (simp add: run_sweep_def of_option_def io_res_def Let_def go_def)
  have go: "prefix es1 (drive_script (a_dry_run a) (point_cooldown_of a x) vs
              @ (if a_dry_run a \<or> a_no_plot a then [] else [RunCmd (plot_cmd f (x_python s) x)])) \<and>
      (\<forall>rc. r1 = Inr rc \<longrightarrow> rc = 0 \<and> es1 = drive_script (a_dry_run a) (point_cooldown_of a x) vs
              @ (if a_dry_run a \<or> a_no_plot a then [] else [RunCmd (plot_cmd f (x_python s) x)]))"
    if "go v = (r1, w1, es1)" for v r1 w1 es1
  proof -
    obtain r2 w2 es2 where inv: "run_invocations f s a x axis qs v = (r2, w2, es2)" by (metis prod_cases3)
    from run_invocations_script [OF inv assms(5)] have es2:
      "prefix es2 (drive_script (a_dry_run a) (point_cooldown_of a x) vs)"
      "\<forall>u. r2 = Inr u \<longrightarrow> es2 = drive_script (a_dry_run a) (point_cooldown_of a x) vs" by auto
    show ?thesis
    proof (cases r2)
      case (Inl e)
      with that inv have "r1 = Inl e" "es1 = es2" by (simp_all add: go_def io_seq_def io_bind_def)
      with es2(1) show ?thesis by (simp add: prefix_append)
    next
      case (Inr u)
      with es2(2) that inv show ?thesis
        by (cases "a_dry_run a \<or> a_no_plot a")
          (auto simp: go_def io_seq_def io_bind_def io_ret_def run_plot_def run_command_def io_call_def split: prod.splits)
    qed
  qed
  show ?thesis
  proof (cases "a_dry_run a")
    case True
    with go [of w r w' es] run show ?thesis by (simp add: io_when_def sweep_script_def io_seq_def io_ret_def io_bind_def split: prod.splits)
  next
    case False
    obtain c w1 where c: "x_check s w = (c, w1)" by fastforce
    obtain r1 w2 es1 where g: "go w1 = (r1, w2, es1)" by (metis prod_cases3)
    show ?thesis
    proof (cases c)
      case (Inl e)
      with run False c have "r = Inl e" "es = [CheckBucket]"
        by (simp_all add: io_when_def io_seq_def io_bind_def io_call_def)
      with False show ?thesis by (simp add: sweep_script_def)
    next
      case (Inr u)
      with run False c g have "r = r1" "es = CheckBucket # es1"
        by (simp_all add: io_when_def io_seq_def io_bind_def io_call_def)
      with go [OF g] False show ?thesis by (simp add: sweep_script_def)
    qed
  qed
qed

definition two_points :: config where
  "two_points = \<lparr>c_path = ''/r/experiments/s3/a.toml'', c_description = '''', c_out = False, c_grid = None,
     c_points = Some [[(''mode'', PStr ''http'')], [(''mode'', PStr ''tls'')]], c_axis = Some ''mode'', c_deploy = None, c_prep = None,
     c_bench = ''smoltcp-s3'', c_instance = ''c5n.large'', c_reps = 1, c_fixed = [(''workers'', PStr ''four'')], c_env = [],
     c_interleave = False, c_keep_going = True, c_cooldown = Some 60, c_point_cooldown = None, c_max_vm = None,
     c_target_ip = None, c_title = ''t'', c_plot = []\<rparr>"

definition two_args :: xargs where
  "two_args = \<lparr>a_cooldown = None, a_point_cooldown = None, a_reps = None, a_market = ''spot'', a_only = None,
     a_target_ip = None, a_dry_run = False, a_no_plot = False\<rparr>"

definition no_files :: files where
  "no_files = \<lparr>f_root = ''/r'', f_is_file = (\<lambda>_. True), f_named = (\<lambda>_. []), f_toml = (\<lambda>_. Inr two_points)\<rparr>"

definition ok_shell :: "unit shell" where
  "ok_shell = \<lparr>x_python = ''python'', x_env = required_env, x_run = (\<lambda>_ w. (0, w)), x_sleep = (\<lambda>_ w. w), x_check = (\<lambda>w. (Inr (), w))\<rparr>"

definition two_invocations :: "invocation list" where
  "two_invocations = (case res_list (invoke no_files ''python'' two_args two_points ''mode'')
     [[(''mode'', PStr ''http'')], [(''mode'', PStr ''tls'')]] of Inr vs \<Rightarrow> vs | Inl _ \<Rightarrow> [])"

lemma run_sweep_script_witness:
  "case run_sweep no_files ok_shell two_args two_points () of (r, w', es) \<Rightarrow>
     length two_invocations = 2 \<and> prefix es (sweep_script no_files ok_shell two_args two_points two_invocations)"
proof -
  obtain r w' es where run: "run_sweep no_files ok_shell two_args two_points () = (r, w', es)" by (metis prod_cases3)
  have inv: "res_list (invoke no_files ''python'' two_args two_points ''mode'')
     [[(''mode'', PStr ''http'')], [(''mode'', PStr ''tls'')]] = Inr two_invocations" "length two_invocations = 2"
    by (simp_all add: two_invocations_def invoke_def two_points_def of_option_def Let_def)
  have "prefix es (sweep_script no_files ok_shell two_args two_points two_invocations)"
    using run_sweep_script [OF run, of "''mode''" "[[(''mode'', PStr ''http'')], [(''mode'', PStr ''tls'')]]"] inv
    by (simp add: two_points_def chosen_points_def of_option_def two_args_def given_def interleaved_def ok_shell_def)
  with inv show ?thesis by (simp add: run)
qed

section \<open>What a driver is given\<close>

lemma map_of_held: "map_of (filter (\<lambda>(k, _). k \<noteq> axis) cfg) k = (if k = axis then None else map_of cfg k)"
  by (induction cfg) auto

text \<open>
  C31. Each driver is given its whole point: the sweep of the axis' value, the instance type, and every
  other knob of the fixed ones and the point's once, as a flag with its value, the point's value where
  both have the knob.
\<close>

theorem invoke_passes_knobs:
  assumes "invoke f python a x axis point = Inr v"
    and "distinct (map fst (c_fixed x))" "distinct (map fst point)"
  shows "\<exists>val inst kvs. map_of point axis = Some val \<and>
     v_cmd v = driver_args f python a x axis val inst @ concat (map (\<lambda>(k, u). [''--'' @ k, py_str u]) kvs) @ flag_args a x \<and>
     distinct (map fst kvs) \<and>
     map_of kvs = (\<lambda>k. if k \<in> {axis, ''instance''} then None else (map_of (c_fixed x) ++ map_of point) k) \<and>
     inst = (case (map_of (c_fixed x) ++ map_of point) ''instance'' of
               Some i \<Rightarrow> if axis = ''instance'' then c_instance x else py_str i | None \<Rightarrow> c_instance x)"
proof -
  define cfg where "cfg = dict_merge (dict_merge [] (c_fixed x)) point"
  define cfg' where "cfg' = (if axis = ''instance'' then cfg else dict_del ''instance'' cfg)"
  define kvs where "kvs = filter (\<lambda>(k, _). k \<noteq> axis) cfg'"
  have m: "map_of cfg = map_of (c_fixed x) ++ map_of point"
    using assms(2,3) by (simp add: cfg_def map_of_dict_merge)
  have d: "distinct (map fst cfg)" unfolding cfg_def by (intro distinct_dict_merge) simp
  then have dk: "distinct (map fst kvs)"
    by (auto simp: kvs_def cfg'_def dict_del_def distinct_map intro: inj_on_subset)
  have mk: "map_of kvs = (\<lambda>k. if k \<in> {axis, ''instance''} then None else (map_of (c_fixed x) ++ map_of point) k)"
    by (auto simp: kvs_def map_of_held cfg'_def map_of_dict_del m fun_eq_iff)
  have held: "held_args axis cfg' = concat (map (\<lambda>(k, u). [''--'' @ k, py_str u]) kvs)"
    by (simp add: held_args_def kvs_def)
  from assms(1) obtain val where val: "map_of point axis = Some val"
    and cmd: "v_cmd v = driver_args f python a x axis val (instance_of x axis cfg) @ held_args axis cfg' @ flag_args a x"
    by (auto simp: invoke_def Let_def res_bind_Inr of_option_def cfg'_def cfg_def split: option.splits)
  have inst: "instance_of x axis cfg = (case (map_of (c_fixed x) ++ map_of point) ''instance'' of
               Some i \<Rightarrow> if axis = ''instance'' then c_instance x else py_str i | None \<Rightarrow> c_instance x)"
    by (auto simp: instance_of_def m split: option.splits)
  show ?thesis by (rule exI [of _ val], rule exI [of _ "instance_of x axis cfg"], rule exI [of _ kvs])
      (intro conjI val cmd [unfolded held] dk mk inst)
qed

lemma invoke_passes_knobs_witness:
  "\<exists>kvs. v_cmd (hd two_invocations) = driver_args no_files ''python'' two_args two_points ''mode'' (PStr ''http'') ''c5n.large''
      @ concat (map (\<lambda>(k, u). [''--'' @ k, py_str u]) kvs) @ flag_args two_args two_points \<and>
     map_of kvs ''workers'' = Some (PStr ''four'')"
proof -
  have "invoke no_files ''python'' two_args two_points ''mode'' [(''mode'', PStr ''http'')] = Inr (hd two_invocations)"
    by (simp add: two_invocations_def invoke_def two_points_def of_option_def Let_def)
  from invoke_passes_knobs [OF this] show ?thesis by (auto simp: two_points_def)
qed

end
