(* ===== verification/Units.thy ===== *)
theory Units
  imports Regex
begin

text \<open>
  The small text functions the drivers share: \<open>str.strip\<close>, \<open>int\<close> and \<open>float\<close> of a string, sizes
  and durations, the vCPU estimate of \<^verbatim>\<open>runner.py\<close>, rounding, and \<open>parse\<close>, which applies a table of
  patterns to a log.
\<close>

section \<open>Stripping and numbers\<close>

definition is_space :: "char \<Rightarrow> bool" where
  "is_space c = in_ranges space_ranges c"

definition strip :: "string \<Rightarrow> string" where
  "strip s = rev (dropWhile is_space (rev (dropWhile is_space s)))"

text \<open>\<open>s.split()\<close>: the words between white space.\<close>

fun words :: "string \<Rightarrow> string list" where
  "words [] = []"
| "words (c # s) =
     (if is_space c then words s
      else (case s of
          [] \<Rightarrow> [[c]]
        | d # s' \<Rightarrow> if is_space d then [c] # words s
                    else (case words s of [] \<Rightarrow> [[c]] | w # ws \<Rightarrow> (c # w) # ws)))"

text \<open>\<open>str.isdigit\<close>, on the code points below 256 that are decimal digits.\<close>

definition all_digits :: "string \<Rightarrow> bool" where
  "all_digits s \<longleftrightarrow> s \<noteq> [] \<and> list_all is_digit s"

text \<open>\<open>int(s)\<close>: white space around, a sign, digits with single underscores between them.\<close>

definition py_int :: "string \<Rightarrow> int res" where
  "py_int s =
     (let t = strip s;
          neg = (t \<noteq> [] \<and> hd t = CHR ''-''); d = (if t \<noteq> [] \<and> (hd t = CHR ''-'' \<or> hd t = CHR ''+'') then tl t else t)
      in if list_all all_digits (split_on CHR ''_'' d)
         then Inr ((if neg then - 1 else 1) * int (nat_of_digits (filter is_digit d)))
         else Inl (ValueErr s))"

text \<open>\<open>float(s)\<close> of a text of digits with at most one point; exponents and the names of infinities are
  not read, no pattern captures them.\<close>

definition py_float :: "string \<Rightarrow> rat res" where
  "py_float s =
     (let t = strip s;
          neg = (t \<noteq> [] \<and> hd t = CHR ''-''); d = (if t \<noteq> [] \<and> (hd t = CHR ''-'' \<or> hd t = CHR ''+'') then tl t else t);
          sg = (if neg then - 1 else 1)
      in (case split_on CHR ''.'' d of
            [a] \<Rightarrow> if all_digits a then Inr (sg * of_nat (nat_of_digits a)) else Inl (ValueErr s)
          | [a, b] \<Rightarrow> if a @ b \<noteq> [] \<and> list_all is_digit (a @ b)
              then Inr (sg * of_nat (nat_of_digits (a @ b)) / 10 ^ length b) else Inl (ValueErr s)
          | _ \<Rightarrow> Inl (ValueErr s)))"

text \<open>\<open>round(x)\<close> to the even neighbour on a tie, and \<open>round(x, n)\<close>.\<close>

definition round_even :: "rat \<Rightarrow> int" where
  "round_even x =
     (let f = \<lfloor>x\<rfloor>; d = x - of_int f
      in if d < 1 / 2 then f else if d > 1 / 2 then f + 1 else if even f then f else f + 1)"

definition round_to :: "nat \<Rightarrow> rat \<Rightarrow> rat" where
  "round_to n x = of_int (round_even (x * 10 ^ n)) / 10 ^ n"

section \<open>Sizes, durations and vCPUs\<close>

definition size_rx :: rx where
  "size_rx = nocase (re ''(~d+)~s*([KMGT]?)i?B?'')"

definition upper :: "char \<Rightarrow> char" where
  "upper c = (if 97 \<le> (of_char c :: nat) \<and> (of_char c :: nat) \<le> 122 then char_of (of_char c - 32 :: nat) else c)"

definition size_unit :: "string \<Rightarrow> int option" where
  "size_unit u = map_of [('''', 1), (''K'', 2 ^ 10), (''M'', 2 ^ 20), (''G'', 2 ^ 30), (''T'', 2 ^ 40)] (map upper u)"

definition size_of :: "string \<Rightarrow> int res" where
  "size_of text = (case rx_fullmatch size_rx (strip text) of
     None \<Rightarrow> Inl (OtherExn (''bad size: '' @ text))
   | Some m \<Rightarrow> (case (group 1 m, group 2 m) of
       (Some d, Some u) \<Rightarrow> res_bind (py_int d) (\<lambda>n. res_bind (of_option (KeyErr u) (size_unit u)) (\<lambda>k. Inr (n * k)))
     | _ \<Rightarrow> Inl TypeErr))"

definition duration_rx :: rx where
  "duration_rx = re ''(~d+)~s*([smh]?)''"

definition duration :: "string \<Rightarrow> int res" where
  "duration text = (case rx_fullmatch duration_rx (strip text) of
     None \<Rightarrow> Inl (OtherExn (''bad duration: '' @ text @ '' (try 90m or 2h)''))
   | Some m \<Rightarrow> (case (group 1 m, group 2 m) of
       (Some d, Some u) \<Rightarrow> res_bind (py_int d) (\<lambda>n.
          res_bind (of_option (KeyErr u) (map_of [('''', 1), (''s'', 1), (''m'', 60), (''h'', 3600)] u)) (\<lambda>k. Inr (n * k)))
     | _ \<Rightarrow> Inl TypeErr))"

definition ends_with :: "string \<Rightarrow> string \<Rightarrow> bool" where
  "ends_with p s = starts_with (rev p) (rev s)"

definition remove_suffix :: "string \<Rightarrow> string \<Rightarrow> string" where
  "remove_suffix p s = (if ends_with p s then take (length s - length p) s else s)"

definition vcpus :: "string \<Rightarrow> int res" where
  "vcpus instance =
     (let size = last (split_on CHR ''.'' instance) in
      if size = ''large'' then Inr 2
      else if size = ''xlarge'' then Inr 4
      else res_bind (py_int (remove_suffix ''xlarge'' size)) (\<lambda>n. Inr (n * 4)))"

section \<open>Casts and metrics\<close>

type_synonym cast = "string \<Rightarrow> pyval res"

definition as_str :: cast where "as_str s = Inr (PStr s)"
definition as_int :: cast where "as_int s = res_bind (py_int s) (\<lambda>i. Inr (PInt i))"
definition as_float :: cast where "as_float s = res_bind (py_float s) (\<lambda>x. Inr (PFloat x))"
definition as_size :: cast where "as_size s = res_bind (size_of s) (\<lambda>i. Inr (PInt i))"
definition is_true :: cast where "is_true s = Inr (PBool (s = ''true''))"

text \<open>The drivers' query knob: a lone number is an int, a list of queries stays a string.\<close>

definition as_query :: cast where
  "as_query s = (if all_digits (strip s) then as_int s else Inr (PStr (strip s)))"

type_synonym metrics = "(string \<times> string \<times> cast) list"

text \<open>\<open>metrics | more\<close>.\<close>

definition metric :: "string \<Rightarrow> string \<times> string \<times> cast \<Rightarrow> (string \<times> pyval) res" where
  "metric text kpc = (case kpc of (k, pat, c) \<Rightarrow> (case rx_search (re pat) text of
     None \<Rightarrow> Inr (k, PNone)
   | Some m \<Rightarrow> res_bind (of_option TypeErr (group 1 m)) (\<lambda>s. res_bind (c s) (\<lambda>v. Inr (k, v)))))"

definition parse :: "metrics \<Rightarrow> string \<Rightarrow> pyval dict res" where
  "parse ms text = res_list (metric text) ms"

end
