(* ===== verification/Metrics.thy ===== *)
theory Metrics
  imports Units
begin

text \<open>
  The tables of patterns with which the drivers read a run's log, one per bench, as their sources
  list them: field, pattern and cast. A pattern is written as in the source with its backslashes as
  tildes. \<open>a | b\<close> of two tables is \<open>dict_merge\<close>: a field both have keeps its place and takes the
  pattern of \<open>b\<close>.
\<close>

text \<open>\<open>COMMON_METRICS\<close>.\<close>

definition common_metrics :: metrics where
  "common_metrics = [
      (''tls_stub'', ''^bench:.*tls_stub=(~w+)'', is_true),
      (''scheme'', ''^bench:.*scheme=(~w+)'', as_str),
      (''gbps'', ''AGGREGATE:.*?, ([~d.]+) Gbps'', as_float),
      (''transfer_gbps'', ''TRANSFER:.*?, ([~d.]+) Gbps'', as_float),
      (''cpu_s'', ''CPU: .*~bcpu_s=([~d.]+)'', as_float),
      (''cpus_active'', ''CPU: .*~b(?:cores_over_50pct|workers)=(~d+)'', as_int),
      (''gbps_per_cpu_s'', ''CPU: .*~bgbps_per_cpu_s=([~d.]+)'', as_float),
      (''mb_per_s'', ''AGGREGATE:.*?=> ([~d.]+) MB/s'', as_float),
      (''elapsed_s'', ''AGGREGATE: [~d.]+ MiB in ([~d.]+) s'', as_float),
      (''conns_clean'', ''^connections~s+: (~d+)/'', as_int),
      (''conns_total'', ''^connections~s+: ~d+/(~d+)'', as_int),
      (''misrouted'', ''^misrouted rx~s+: (~d+)'', as_int),
      (''setup_conns'', ''^SETUP STATS~s*: conns=(~d+)'', as_int),
      (''setup_failed'', ''^SETUP STATS~s*: .*failed=(~d+)'', as_int),
      (''setup_us_avg'', ''^SETUP STATS~s*: .*us_avg=(~d+)'', as_int),
      (''setup_us_p50'', ''^SETUP STATS~s*: .*us_p50=(~d+)'', as_int),
      (''setup_us_p90'', ''^SETUP STATS~s*: .*us_p90=(~d+)'', as_int),
      (''setup_us_max'', ''^SETUP STATS~s*: .*us_max=(~d+)'', as_int),
      (''dial_n'', ''^DIAL STATS~s*: dials=(~d+)'', as_int),
      (''dial_us_avg'', ''^DIAL STATS~s*: .*us_avg=(~d+)'', as_int),
      (''dial_us_p50'', ''^DIAL STATS~s*: .*us_p50=(~d+)'', as_int),
      (''dial_us_p90'', ''^DIAL STATS~s*: .*us_p90=(~d+)'', as_int),
      (''dial_us_max'', ''^DIAL STATS~s*: .*us_max=(~d+)'', as_int),
      (''dial_loop_ms'', ''^DIAL STATS~s*: .*loop_ms=([~d.]+)'', as_float),
      (''gbps_transfer'', ''TRANSFER:.*?, ([~d.]+) Gbps'', as_float),
      (''setup_wall_s'', ''TRANSFER:.*?~(setup ([~d.]+) s excluded~)'', as_float),
      (''bytes'', ''~((~d+) bytes~)'', as_int),
      (''target_ip'', ''^target: ([~d.]+):~d+'', as_str),
      (''target_port'', ''^target: [~d.]+:(~d+)'', as_int),
      (''market'', ''Instance running: i-[0-9a-f]+ ~([^)]*?(spot|on-demand)~)'', as_str),
      (''zone'', ''Instance running: i-[0-9a-f]+ ~(~S+, ([a-z]+-[a-z]+-~d[a-z]), (?:spot|on-demand)~)'', as_str)]"

definition linux_s3_metrics :: metrics where
  "linux_s3_metrics = dict_merge common_metrics [
      (''cores_in'', ''^CPU BUDGET: cores_in=([~d.]+)'', as_float),
      (''cores_out'', ''^CPU BUDGET: .*cores_out=([~d.]+)'', as_float),
      (''workers_actual'', ''^bench: (~d+) workers'', as_int),
      (''gbps_wire'', ''^WIRE: ([~d.]+) Gbps'', as_float),
      (''gbps_wire_steady'', ''^WIRE STEADY: ([~d.]+) Gbps'', as_float),
      (''gbps_wire_peak'', ''^WIRE PEAK: ([~d.]+) Gbps'', as_float)]"

definition smoltcp_s3_metrics :: metrics where
  "smoltcp_s3_metrics = dict_merge common_metrics [
      (''workers_actual'', ''^rss: (~d+) queues'', as_int),
      (''http_bad'', ''^http status~s+: (~d+) non-206'', as_int),
      (''instance_id'', ''Instance running: (i-[0-9a-f]+)'', as_str),
      (''zone'', ''Instance running: i-[0-9a-f]+ ~(~S+, ([a-z]+-[a-z]+-~d[a-z]), (?:spot|on-demand)~)'', as_str),
      (''tail_ms_max'', ''^TAIL STATS~s*: idle_max_ms=([~d.]+)'', as_float),
      (''tail_ms_avg'', ''^TAIL STATS~s*: .*idle_avg_ms=([~d.]+)'', as_float),
      (''syn_redials'', ''^syn redials~s*: (~d+)'', as_int),
      (''resolved_frontends'', ''^resolved~s*: (~d+) front-end'', as_int),
      (''gbps_steady'', ''^STEADY: ([~d.]+) Gbps'', as_float),
      (''gbps_wire'', ''^WIRE: ([~d.]+) Gbps'', as_float),
      (''gbps_wire_steady'', ''^WIRE STEADY: ([~d.]+) Gbps'', as_float),
      (''gbps_wire_peak'', ''^WIRE PEAK: ([~d.]+) Gbps'', as_float),
      (''imissed'', ''^nic rx~s+: ~d+ pkts, (~d+) imissed'', as_int)]"

definition anyblob_metrics :: metrics where
  "anyblob_metrics = dict_merge linux_s3_metrics [
      (''workers_actual'', ''^bench: (~d+) workers'', as_int),
      (''http_bad'', ''^http status~s+: (~d+) non-206'', as_int),
      (''hdr_bad'', ''^response heads: (~d+) did not match'', as_int),
      (''tail_ms_max'', ''^TAIL STATS~s*: idle_max_ms=([~d.]+)'', as_float),
      (''tail_ms_avg'', ''^TAIL STATS~s*: .*idle_avg_ms=([~d.]+)'', as_float),
      (''ttfb_us_avg'', ''^REQ STATS~s*: .*ttfb_us_avg=(~d+)'', as_int),
      (''wire_us_avg'', ''^REQ STATS~s*: .*wire_us_avg=(~d+)'', as_int),
      (''wire_us_p50'', ''^REQ STATS~s*: .*wire_us_p50=(~d+)'', as_int),
      (''wire_us_p99'', ''^REQ STATS~s*: .*wire_us_p99=(~d+)'', as_int),
      (''cpu_user_s'', ''^CPU STATS~s*: user_s=([~d.]+)'', as_float),
      (''cpu_sys_s'', ''^CPU STATS~s*: .*sys_s=([~d.]+)'', as_float),
      (''cpu_total_s'', ''^CPU STATS~s*: .*total_s=([~d.]+)'', as_float),
      (''cores_avg'', ''^CPU STATS~s*: .*cores_avg=([~d.]+)'', as_float),
      (''pool_s'', ''^pool: .* ([~d.]+) s to allocate'', as_float),
      (''tcp_active_opens'', ''^Tcp:ActiveOpens~s+~+(~d+)'', as_int),
      (''tcp_retrans'', ''^Tcp:RetransSegs~s+~+(~d+)'', as_int),
      (''pinned'', ''^pinned~s+: (~S+)'', as_str),
      (''cores_in'', ''^CPU BUDGET: cores_in=([~d.]+)'', as_float),
      (''cores_out'', ''^CPU BUDGET: .*cores_out=([~d.]+)'', as_float)]"

definition linux_http_metrics :: metrics where
  "linux_http_metrics = [
      (''cores_in'', ''^CPU BUDGET: cores_in=([~d.]+)'', as_float),
      (''cores_out'', ''^CPU BUDGET: .*cores_out=([~d.]+)'', as_float),
      (''gbps'', ''^AGGREGATE: ~d+ requests, ([~d.]+) Gbps'', as_float),
      (''requests'', ''^AGGREGATE: (~d+) requests'', as_int),
      (''rps'', ''^Requests/sec:~s+([~d.]+)'', as_float),
      (''lat_avg_ms'', ''^LATENCY: .*~bavg_ms=([~d.]+)'', as_float),
      (''lat_p50_ms'', ''^LATENCY: .*~bp50_ms=([~d.]+)'', as_float),
      (''lat_p90_ms'', ''^LATENCY: .*~bp90_ms=([~d.]+)'', as_float),
      (''lat_p99_ms'', ''^LATENCY: .*~bp99_ms=([~d.]+)'', as_float),
      (''lat_max_ms'', ''^LATENCY: .*~bmax_ms=([~d.]+)'', as_float),
      (''gbps_wire'', ''^RX: .* => ([~d.]+) Gbps on the wire'', as_float),
      (''rx_packets'', ''^RX: ~d+ bytes, (~d+) packets'', as_int),
      (''cpu_busy'', ''^CPU: busy=([~d.]+)'', as_float),
      (''cpu_cores'', ''^CPU: busy=[~d.]+ cores=([~d.]+)'', as_float),
      (''non2xx'', ''^~s+Non-2xx or 3xx responses: (~d+)'', as_int),
      (''sock_err_connect'', ''^~s+Socket errors: connect (~d+)'', as_int),
      (''sock_err_read'', ''^~s+Socket errors: connect ~d+, read (~d+)'', as_int),
      (''sock_err_timeout'', ''^~s+Socket errors: .*timeout (~d+)'', as_int),
      (''instance_type'', ''^instance     : (~S+)'', as_str),
      (''kernel'', ''^kernel       : (~S+)'', as_str),
      (''nproc'', ''^nproc        : (~d+)'', as_int),
      (''scheme'', ''^target       : (http)://'', as_str)]"

definition duckdb_tpch_metrics :: metrics where
  "duckdb_tpch_metrics = [
      (''scheme'', ''^tpch: sf=[~d.]+, ~d+ quer~w+, bucket ~S+ ~((~w+)~)'', as_str),
      (''query_ms'', ''^Q~d+: ([~d.]+) ms,'', as_float),
      (''rows'', ''^Q~d+: [~d.]+ ms, (~d+) rows'', as_int),
      (''match'', ''^Q~d+: [~d.]+ ms, ~d+ rows, match=(~w+)'', as_str),
      (''queries_ok'', ''^TPCH SUMMARY: ok=(~d+)'', as_int),
      (''queries_total'', ''^TPCH SUMMARY: ok=~d+ total=(~d+)'', as_int),
      (''checked'', ''checked=(~d+)'', as_int),
      (''matched'', ''matched=(~d+)'', as_int),
      (''net_ms'', ''^Q~d+: .*net_ms=([~d.]+)'', as_float),
      (''net_calls'', ''^Q~d+: .*net_calls=(~d+)'', as_int),
      (''net_active_ms'', ''^Q~d+: .*net_active_ms=([~d.]+)'', as_float),
      (''memory_limit'', ''^memory: limit=(~S+)'', as_str),
      (''requests_retried'', ''^BUF STATS: .*retried=(~d+)'', as_int),
      (''hw_concurrency'', ''^cpus: hw_concurrency=(~d+)'', as_int),
      (''duckdb_threads'', ''^cpus: .*duckdb_threads=(~d+)'', as_int),
      (''requests'', ''^REQ STATS: .*~brequests=(~d+)'', as_int),
      (''reused'', ''^REQ STATS: .*~breused=(~d+)'', as_int),
      (''queue_us_avg'', ''^REQ STATS: queue_us_avg=(~d+)'', as_int),
      (''wire_us_avg'', ''^REQ STATS: .*wire_us_avg=(~d+)'', as_int),
      (''body_bytes'', ''^REQ STATS: .*bytes=(~d+)'', as_int),
      (''mb_per_s'', ''^REQ STATS: .*mb_per_s=([~d.]+)'', as_float),
      (''poll_iters'', ''^POLL STATS: iters=(~d+)'', as_int),
      (''poll_gap_us_avg'', ''^POLL STATS: .*gap_us_avg=([~d.]+)'', as_float),
      (''poll_gap_us_max'', ''^POLL STATS: .*gap_us_max=(~d+)'', as_int),
      (''poll_gaps_over_1ms'', ''^POLL STATS: .*gaps_over_1ms=(~d+)'', as_int),
      (''poll_busy_us_max'', ''^POLL STATS: .*busy_us_max=(~d+)'', as_int),
      (''poll_loop_us_max'', ''^POLL STATS: .*loop_us_max=(~d+)'', as_int),
      (''iface_us_max'', ''^STALL STATS: iface_us_max=(~d+)'', as_int),
      (''steps_us_max'', ''^STALL STATS: .*steps_us_max=(~d+)'', as_int),
      (''conns_established'', ''^SETUP STATS: conns=(~d+)'', as_int),
      (''conns_failed'', ''^SETUP STATS: .*failed=(~d+)'', as_int),
      (''syn_retries'', ''^SETUP STATS: .*syn_retries=(~d+)'', as_int),
      (''setup_us_avg'', ''^SETUP STATS: .*setup_us_avg=(~d+)'', as_int),
      (''wake_n'', ''^WAKE STATS: n=(~d+)'', as_int),
      (''wake_ns_avg'', ''^WAKE STATS: .*~bns_avg=(~d+)'', as_int),
      (''wake_us_max'', ''^WAKE STATS: .*~bus_max=([~d.]+)'', as_float),
      (''wake_ms_total'', ''^WAKE STATS: .*~bms_total=([~d.]+)'', as_float),
      (''ttfb_us_avg'', ''^LATENCY STATS: ttfb_us_avg=(~d+)'', as_int),
      (''xfer_us_avg'', ''^LATENCY STATS: .*xfer_us_avg=(~d+)'', as_int),
      (''imissed'', ''^DROP STATS: imissed=(~d+)'', as_int),
      (''ierrors'', ''^DROP STATS: .*ierrors=(~d+)'', as_int),
      (''rx_nombuf'', ''^DROP STATS: .*rx_nombuf=(~d+)'', as_int),
      (''misrouted'', ''^DROP STATS: .*misrouted=(~d+)'', as_int),
      (''tx_alloc_fail'', ''^DROP STATS: .*tx_alloc_fail=(~d+)'', as_int),
      (''tx_burst_fail'', ''^DROP STATS: .*tx_burst_fail=(~d+)'', as_int),
      (''nic_ipackets'', ''^DROP STATS: .*ipackets=(~d+)'', as_int),
      (''nic_ibytes'', ''^DROP STATS: .*ibytes=(~d+)'', as_int),
      (''http_n'', ''^HTTP STATS: .*~bn=(~d+)'', as_int),
      (''http_get'', ''^HTTP STATS: .*~bget=(~d+)'', as_int),
      (''http_head'', ''^HTTP STATS: .*~bhead=(~d+)'', as_int),
      (''http_ms_avg'', ''^HTTP STATS: .*~bms_avg=([~d.]+)'', as_float),
      (''http_ms_p50'', ''^HTTP STATS: .*~bms_p50=([~d.]+)'', as_float),
      (''http_ms_p90'', ''^HTTP STATS: .*~bms_p90=([~d.]+)'', as_float),
      (''http_ms_p99'', ''^HTTP STATS: .*~bms_p99=([~d.]+)'', as_float),
      (''http_ms_max'', ''^HTTP STATS: .*~bms_max=([~d.]+)'', as_float),
      (''http_ms_sum'', ''^HTTP STATS: .*~bms_sum=([~d.]+)'', as_float),
      (''http_window_ms'', ''^HTTP STATS: .*~bwindow_ms=([~d.]+)'', as_float),
      (''http_concurrency'', ''^HTTP STATS: .*~bconcurrency=([~d.]+)'', as_float),
      (''http_failed'', ''^HTTP STATS: (FAILED)'', as_str),
      (''tlb_shootdowns'', ''^TLB STATS: shootdowns=(~d+)'', as_int),
      (''tlb_worker_ipis'', ''^TLB STATS: .*~bworker_ipis=(~d+)'', as_int),
      (''probe_range_scan_ms'', ''^PROBE: name=range_scan ms=([~d.]+)'', as_float),
      (''probe_hash_agg_ms'', ''^PROBE: name=hash_agg ms=([~d.]+)'', as_float),
      (''probe_dbgen_ms'', ''^PROBE: name=dbgen ms=([~d.]+)'', as_float),
      (''probe_par_t1_ms'', ''^PROBE: name=par_t1 ms=([~d.]+)'', as_float),
      (''probe_par_tall_ms'', ''^PROBE: name=par_tall ms=([~d.]+)'', as_float),
      (''probe_par_t1_4x_ms'', ''^PROBE: name=par_t1_4x ms=([~d.]+)'', as_float),
      (''probe_par_tall_4x_ms'', ''^PROBE: name=par_tall_4x ms=([~d.]+)'', as_float),
      (''probe_q01_local_ms'', ''^PROBE: name=q01_local ms=([~d.]+)'', as_float),
      (''probe_q06_local_ms'', ''^PROBE: name=q06_local ms=([~d.]+)'', as_float),
      (''cpus_par_t1'', ''^CPUS: name=par_t1 .*parallelism=([~d.]+)'', as_float),
      (''cpus_par_tall'', ''^CPUS: name=par_tall .*parallelism=([~d.]+)'', as_float),
      (''cpus_busy_par_tall'', ''^CPUS: name=par_tall busy=(~d+)'', as_int),
      (''cpus_q01_local'', ''^CPUS: name=q01_local .*parallelism=([~d.]+)'', as_float),
      (''cpus_dbgen'', ''^CPUS: name=dbgen .*parallelism=([~d.]+)'', as_float),
      (''cpus_query'', ''^CPUS: name=q~d~d .*parallelism=([~d.]+)'', as_float),
      (''cpus_query_busy'', ''^CPUS: name=q~d~d busy=(~d+)'', as_int),
      (''cpus_query_app'', ''^CPUS: name=q~d~d .*parallelism_app=(-?[~d.]+)'', as_float),
      (''poll_busy_ms'', ''^POLL STATS: .*busy_ms=([~d.]+)'', as_float),
      (''poll_work_ms'', ''^POLL STATS: .*work_ms=([~d.]+)'', as_float),
      (''probe_failed'', ''^PROBE: name=~S+ (FAILED)'', as_str),
      (''cpuprobe_ok'', ''^(?:IN)?COMPLETE: cpuprobe ok=(~d+)'', as_int),
      (''market'', ''Instance running: i-[0-9a-f]+ ~([^)]*?(spot|on-demand)~)'', as_str),
      (''zone'', ''Instance running: i-[0-9a-f]+ ~(~S+, ([a-z]+-[a-z]+-~d[a-z]), (?:spot|on-demand)~)'', as_str)]"

definition duckdb_linux_metrics :: metrics where
  "duckdb_linux_metrics = dict_merge [
      (''scheme'', ''^tpch-linux: sf=[~d.]+, ~d+ quer~w+, bucket ~S+ ~((~w+)~)'', as_str),
      (''market'', ''Instance running: i-[0-9a-f]+ ~([^)]*?(spot|on-demand)~)'', as_str),
      (''zone'', ''Instance running: i-[0-9a-f]+ ~(~S+, ([a-z]+-[a-z]+-~d[a-z]), (?:spot|on-demand)~)'', as_str),
      (''pinned_ip'', ''^pinned ~S+ -> ([~d.]+)'', as_str),
      (''nic_iface'', ''^nic: iface=(~S+)'', as_str),
      (''nic_gro'', ''^nic: iface=~S+ gro=(~S+)'', as_str),
      (''nic_queues'', ''^nic: iface=~S+ gro=~S+ combined=(~d+)'', as_int),
      (''nic_tune_failed'', ''^nic: (FAILED)'', as_str)]
    [
      (''query_ms'', ''^Q~d+: ([~d.]+) ms,'', as_float),
      (''rows'', ''^Q~d+: [~d.]+ ms, (~d+) rows'', as_int),
      (''match'', ''^Q~d+: [~d.]+ ms, ~d+ rows, match=(~w+)'', as_str),
      (''queries_ok'', ''^TPCH SUMMARY: ok=(~d+)'', as_int),
      (''queries_total'', ''^TPCH SUMMARY: ok=~d+ total=(~d+)'', as_int),
      (''summary_ms'', ''^TPCH SUMMARY: ok=~d+ total=~d+ ms=([~d.]+)'', as_float),
      (''http_n'', ''^HTTP STATS: .*~bn=(~d+)'', as_int),
      (''http_get'', ''^HTTP STATS: .*~bget=(~d+)'', as_int),
      (''http_head'', ''^HTTP STATS: .*~bhead=(~d+)'', as_int),
      (''http_ms_avg'', ''^HTTP STATS: .*~bms_avg=([~d.]+)'', as_float),
      (''http_ms_p50'', ''^HTTP STATS: .*~bms_p50=([~d.]+)'', as_float),
      (''http_ms_p90'', ''^HTTP STATS: .*~bms_p90=([~d.]+)'', as_float),
      (''http_ms_p99'', ''^HTTP STATS: .*~bms_p99=([~d.]+)'', as_float),
      (''http_ms_max'', ''^HTTP STATS: .*~bms_max=([~d.]+)'', as_float),
      (''http_ms_sum'', ''^HTTP STATS: .*~bms_sum=([~d.]+)'', as_float),
      (''http_window_ms'', ''^HTTP STATS: .*~bwindow_ms=([~d.]+)'', as_float),
      (''http_concurrency'', ''^HTTP STATS: .*~bconcurrency=([~d.]+)'', as_float),
      (''http_profile_ms'', ''^HTTP STATS: .*~bprofile_ms=([~d.]+)'', as_float),
      (''http_failed'', ''^HTTP STATS: (FAILED)'', as_str),
      (''http_active_ms'', ''^HTTP STATS: .*~bactive_ms=([~d.]+)'', as_float),
      (''np_n'', ''^NET PHASE: .*~bn=(~d+)'', as_int),
      (''np_ttfb_ms_avg'', ''^NET PHASE: .*~bttfb_ms_avg=([~d.]+)'', as_float),
      (''np_body_ms_avg'', ''^NET PHASE: .*~bbody_ms_avg=([~d.]+)'', as_float),
      (''np_gap_ms_avg'', ''^NET PHASE: .*~bgap_ms_avg=([~d.]+)'', as_float),
      (''np_ttfb_ms_p50'', ''^NET PHASE: .*~bttfb_ms_p50=([~d.]+)'', as_float),
      (''np_body_ms_p50'', ''^NET PHASE: .*~bbody_ms_p50=([~d.]+)'', as_float),
      (''np_hs_n'', ''^NET PHASE: .*~bhs_n=(~d+)'', as_int),
      (''np_hs_ms_avg'', ''^NET PHASE: .*~bhs_ms_avg=([~d.]+)'', as_float),
      (''np_conns'', ''^NET PHASE: .*~bconns=(~d+)'', as_int),
      (''np_bytes'', ''^NET PHASE: .*~bbytes=(~d+)'', as_int),
      (''np_window_ms'', ''^NET PHASE: .*~bwindow_ms=([~d.]+)'', as_float),
      (''np_rq_wait_ms'', ''^NET PHASE: .*~brq_wait_ms=([~d.]+)'', as_float),
      (''np_failed'', ''^NET PHASE: (FAILED)'', as_str),
      (''probe_range_scan_ms'', ''^PROBE: name=range_scan ms=([~d.]+)'', as_float),
      (''probe_hash_agg_ms'', ''^PROBE: name=hash_agg ms=([~d.]+)'', as_float),
      (''probe_dbgen_ms'', ''^PROBE: name=dbgen ms=([~d.]+)'', as_float),
      (''probe_par_t1_ms'', ''^PROBE: name=par_t1 ms=([~d.]+)'', as_float),
      (''probe_par_tall_ms'', ''^PROBE: name=par_tall ms=([~d.]+)'', as_float),
      (''probe_par_t1_4x_ms'', ''^PROBE: name=par_t1_4x ms=([~d.]+)'', as_float),
      (''probe_par_tall_4x_ms'', ''^PROBE: name=par_tall_4x ms=([~d.]+)'', as_float),
      (''probe_q01_local_ms'', ''^PROBE: name=q01_local ms=([~d.]+)'', as_float),
      (''probe_q06_local_ms'', ''^PROBE: name=q06_local ms=([~d.]+)'', as_float),
      (''probe_failed'', ''^PROBE: name=~S+ (FAILED)'', as_str),
      (''cpuprobe_ok'', ''^(?:IN)?COMPLETE: cpuprobe ok=(~d+)'', as_int),
      (''checked'', ''checked=(~d+)'', as_int),
      (''matched'', ''matched=(~d+)'', as_int)]"

end
