(* ===== verification/Sweep.thy ===== *)
theory Sweep
  imports Cloud Units
begin

text \<open>
  \<^verbatim>\<open>scripts/bench/runner.py\<close>: what every bench shares (\<open>Bench\<close>), whether a run is already in the
  CSV (\<open>done\<close>), and the sweep loop of \<open>main\<close>: resume, build, cool down, run, retry on the vCPU quota,
  record, and stop at an invalid row.
\<close>

section \<open>Rows and tables\<close>

text \<open>
  A row is a dictionary of cells; None is a missing cell, the data frame's NaN. A table is the list
  of its rows; its columns are the keys of its rows. pandas keeps a column of numbers with a float or
  a missing cell as floats, so an integer in it prints with a decimal point.
\<close>

type_synonym row = "pyval dict"
type_synonym table = "row list"

definition columns :: "table \<Rightarrow> string set" where
  "columns t = set (concat (map (map fst) t))"

fun is_number :: "pyval \<Rightarrow> bool" where
  "is_number (PInt i) = True"
| "is_number (PFloat x) = True"
| "is_number _ = False"

fun is_float :: "pyval \<Rightarrow> bool" where
  "is_float (PFloat x) = True"
| "is_float _ = False"

definition float_column :: "table \<Rightarrow> string \<Rightarrow> bool" where
  "float_column t k =
     (let cells = map (\<lambda>r. dict_get r k) t in
      list_all (\<lambda>v. v = PNone \<or> is_number v) cells \<and> list_ex (\<lambda>v. v = PNone \<or> is_float v) cells)"

text \<open>\<open>df[k].fillna("").astype(str)\<close> at a row.\<close>

definition cell_text :: "table \<Rightarrow> string \<Rightarrow> row \<Rightarrow> string" where
  "cell_text t k r = (case dict_get r k of
     PNone \<Rightarrow> []
   | PInt i \<Rightarrow> if float_column t k then show_float (of_int i) else show_int i
   | v \<Rightarrow> py_str v)"

text \<open>\<open>df.get(k) == v\<close> at a row; NaN equals nothing.\<close>

definition cell_is :: "row \<Rightarrow> string \<Rightarrow> pyval \<Rightarrow> bool" where
  "cell_is r k v \<longleftrightarrow> dict_get r k \<noteq> PNone \<and> py_eq (dict_get r k) v"

definition row_done :: "table \<Rightarrow> string \<Rightarrow> pyval \<Rightarrow> int \<Rightarrow> pyval dict \<Rightarrow> row \<Rightarrow> bool" where
  "row_done t axis value rep cfg r \<longleftrightarrow>
     cell_is r ''axis'' (PStr axis) \<and> cell_is r ''axis_value'' value \<and> cell_is r ''rep'' (PInt rep) \<and>
     list_all (\<lambda>(k, v). k \<noteq> axis \<and> k \<in> columns t \<longrightarrow> cell_text t k r = py_str v) cfg"

definition run_done :: "table \<Rightarrow> string \<Rightarrow> pyval \<Rightarrow> int \<Rightarrow> pyval dict \<Rightarrow> bool" where
  "run_done t axis value rep cfg = list_ex (row_done t axis value rep cfg) t"

text \<open>\<open>derive\<close>: what one arm computes and the other cannot.\<close>

definition num :: "pyval \<Rightarrow> rat res" where
  "num v = of_option TypeErr (as_num v)"

definition derive :: "row \<Rightarrow> row res" where
  "derive r =
     (if \<not> truthy (dict_get r ''gbps_per_cpu_s'') \<and> truthy (dict_get r ''cpu_s'') \<and> truthy (dict_get r ''elapsed_s'')
         \<and> truthy (dict_get r ''gbps'')
      then res_bind (num (dict_get r ''cpu_s'')) (\<lambda>c.
           if c > 0
           then res_bind (num (dict_get r ''gbps'')) (\<lambda>g. res_bind (num (dict_get r ''elapsed_s'')) (\<lambda>e.
                Inr (dict_set ''gbps_per_cpu_s'' (PFloat (round_to 2 (g * e / c))) r)))
           else Inr r)
      else Inr r)"

section \<open>Benches\<close>

text \<open>
  A bench: its name and stack, its knobs with their parsers, their defaults, and its operations.
  \<open>b_run\<close> answers with the rows of a run; a run of one row is a list of one. \<open>b_valid\<close> is the gate, whose
  comparisons and conversions may raise. The vm cap, the market
  and the client's type, which \<open>main\<close> stores in the object, are part of the bench here.
\<close>

record 'w bench =
  b_name :: string
  b_os :: string
  b_knobs :: "(string \<times> cast) list"
  b_defaults :: "pyval dict"
  b_build :: "pyval dict \<Rightarrow> string \<Rightarrow> 'w \<Rightarrow> (exn + unit) \<times> 'w"
  b_run :: "string \<Rightarrow> string \<Rightarrow> pyval dict \<Rightarrow> string \<Rightarrow> 'w \<Rightarrow> (exn + row list) \<times> 'w"
  b_valid :: "row \<Rightarrow> bool res"
  b_summary :: "row \<Rightarrow> string"
  b_headline :: string
  b_best_is_max :: bool
  b_unit :: string

text \<open>The gate and the summary a bench has unless it overrides them.\<close>

definition lt_million :: "pyval \<Rightarrow> bool res" where
  "lt_million v = res_bind (num v) (\<lambda>x. Inr (x < 1000000))"

definition bench_valid :: "row \<Rightarrow> bool res" where
  "bench_valid r =
     (if \<not> truthy (dict_get r ''complete'') then Inr False
      else res_bind (lt_million (py_or (py_or (dict_get r ''setup_us_p50'') (dict_get r ''setup_us_max'')) (PInt 0))) (\<lambda>quick.
        Inr (quick \<and> py_eq (dict_get r ''misrouted'') (PInt 0) \<and>
          py_eq (py_or (dict_get r ''http_bad'') (PInt 0)) (PInt 0) \<and>
          py_eq (dict_get r ''conns_total'') (dict_get r ''conns_clean''))))"

definition shown :: "row \<Rightarrow> string \<Rightarrow> string" where
  "shown r k = py_str (dict_get r k)"

definition bench_summary :: "row \<Rightarrow> string" where
  "bench_summary r =
     shown r ''gbps'' @ '' Gbps, '' @ shown r ''workers_actual'' @ '' workers, ''
     @ shown r ''conns_clean'' @ ''/'' @ shown r ''conns_total'' @ '' clean''
     @ (if dict_get r ''setup_us_p50'' \<noteq> PNone then '', setup p50 '' @ shown r ''setup_us_p50'' @ '' us'' else [])
     @ (if dict_get r ''dial_loop_ms'' \<noteq> PNone then '', dial loop '' @ shown r ''dial_loop_ms'' @ '' ms'' else [])"

section \<open>The sweep's arguments and plan\<close>

record sargs =
  g_sweep :: string
  g_reps :: int
  g_instance :: string
  g_out :: "string option"
  g_cooldown :: int
  g_interleave :: bool
  g_keep_going :: bool
  g_target_ip :: "string option"
  g_market :: string
  g_dry_run :: bool
  g_knobs :: "pyval dict"

definition instance_axis :: string where
  "instance_axis = ''instance''"

definition sweep_values :: "(string \<times> cast) list \<Rightarrow> string \<Rightarrow> (string \<times> pyval list) res" where
  "sweep_values knobs sweep =
     (let axis = takeWhile (\<lambda>c. c \<noteq> CHR ''='') sweep; raw = tl (dropWhile (\<lambda>c. c \<noteq> CHR ''='') sweep) in
      if raw = [] then Inl (SystemExit ''--sweep needs values, e.g. conns=1,2,4'')
      else if axis = instance_axis
      then Inr (axis, map PStr (filter (\<lambda>v. v \<noteq> []) (map strip (split_on CHR '','' raw))))
      else (case map_of knobs axis of
          None \<Rightarrow> Inl (SystemExit (''--sweep must be '' @ instance_axis @ '' or one of ['' @ join '', '' (map (\<lambda>(k, _). [CHR 0x27] @ k @ [CHR 0x27]) knobs) @ '']''))
        | Some c \<Rightarrow> res_bind (res_list c (split_on CHR '','' raw)) (\<lambda>vs. Inr (axis, vs))))"

text \<open>The point every run shares: the knob given, else its default; strings go through the parser.\<close>

definition base_of :: "(string \<times> cast) list \<Rightarrow> pyval dict \<Rightarrow> pyval dict \<Rightarrow> pyval dict res" where
  "base_of knobs defaults given_knobs =
     res_list (\<lambda>(k, c).
       let v = (case dict_get given_knobs k of PNone \<Rightarrow> dict_get defaults k | v \<Rightarrow> v) in
       (case v of PStr s \<Rightarrow> res_bind (c s) (\<lambda>u. Inr (k, u)) | _ \<Rightarrow> Inr (k, v))) knobs"

definition plan_of :: "bool \<Rightarrow> pyval list \<Rightarrow> int \<Rightarrow> (pyval \<times> int) list" where
  "plan_of interleave values reps =
     (if interleave then concat (map (\<lambda>r. map (\<lambda>v. (v, r)) values) [1..reps])
      else concat (map (\<lambda>v. map (\<lambda>r. (v, r)) [1..reps]) values))"

definition cfg_at :: "string \<Rightarrow> pyval dict \<Rightarrow> pyval \<Rightarrow> pyval dict" where
  "cfg_at axis base value = (if axis = instance_axis then base else dict_set axis value base)"

definition instance_at :: "string \<Rightarrow> string \<Rightarrow> pyval \<Rightarrow> string" where
  "instance_at axis given_instance value = (if axis = instance_axis then py_str value else given_instance)"

section \<open>Effects\<close>

datatype seff =
    AwsCall aws
  | Build "pyval dict" string
  | RunBench string "pyval dict"
  | CoolDown int
  | QuotaWait
  | Wrote string table
  | Push string string

record 'w site =
  s_ec2 :: "'w ec2"
  s_env :: "string \<Rightarrow> string option"
  s_root :: string
  s_csv :: "string \<Rightarrow> 'w \<Rightarrow> table"
  s_write :: "string \<Rightarrow> table \<Rightarrow> 'w \<Rightarrow> 'w"
  s_log :: "string \<Rightarrow> 'w \<Rightarrow> string option"
  s_text :: "exn \<Rightarrow> string"
  s_clock :: "'w \<Rightarrow> rat \<times> 'w"
  s_sleep :: "int \<Rightarrow> 'w \<Rightarrow> 'w"

definition env_or :: "'w site \<Rightarrow> string \<Rightarrow> string \<Rightarrow> string" where
  "env_or s k d = (case s_env s k of Some v \<Rightarrow> v | None \<Rightarrow> d)"

definition cool_for :: "'w site \<Rightarrow> int \<Rightarrow> ('w, seff, unit) io" where
  "cool_for s d = io_call (CoolDown d) (\<lambda>w. (Inr (), s_sleep s d w))"

definition quota_wait :: "'w site \<Rightarrow> ('w, seff, unit) io" where
  "quota_wait s = io_call QuotaWait (\<lambda>w. (Inr (), s_sleep s 90 w))"

definition push :: "string \<Rightarrow> string \<Rightarrow> ('w, seff, unit) io" where
  "push title msg = io_emit (Push title msg)"

definition write_csv :: "'w site \<Rightarrow> string \<Rightarrow> table \<Rightarrow> ('w, seff, unit) io" where
  "write_csv s out t = io_call (Wrote out t) (\<lambda>w. (Inr (), s_write s out t w))"

definition site_clock :: "'w site \<Rightarrow> ('w, seff, rat) io" where
  "site_clock s = (\<lambda>w. case s_clock s w of (t, w') \<Rightarrow> (Inr t, w', []))"

section \<open>One run\<close>

definition quota :: string where
  "quota = ''VcpuLimitExceeded''"

definition logs_dir :: "string \<Rightarrow> string" where
  "logs_dir out = parent_dir out @ ''/logs''"

text \<open>
  Whether the rows of an attempt stand: one is valid, or the log does not blame the quota. \<open>any\<close> asks the
  gate row by row up to the first valid one, and a gate that raises ends it.
\<close>

fun any_valid :: "'w bench \<Rightarrow> table \<Rightarrow> bool res" where
  "any_valid b [] = Inr False"
| "any_valid b (r # rs) = res_bind (b_valid b r) (\<lambda>v. if v then Inr True else any_valid b rs)"

definition rows_stand :: "'w bench \<Rightarrow> table \<Rightarrow> string option \<Rightarrow> bool res" where
  "rows_stand b rows txt =
     res_bind (any_valid b rows) (\<lambda>v. Inr (v \<or> (case txt of None \<Rightarrow> True | Some text \<Rightarrow> \<not> is_infix quota text)))"

text \<open>The path of a row's log; a row without one names the directory, which is no file.\<close>

definition log_path :: "string \<Rightarrow> row \<Rightarrow> string" where
  "log_path out r = (let l = py_str (py_or (dict_get r ''log'') (PStr [])) in
     if l = [] then logs_dir out else logs_dir out @ ''/'' @ l)"

text \<open>
  \<open>for attempt in range(6)\<close>, with \<open>n\<close> attempts left: an exception that names the quota is retried,
  but not on the last attempt; a run whose log blames it is retried too. The gate is asked outside the
  \<open>try\<close>, so what it raises leaves the run.
\<close>

fun attempts :: "nat \<Rightarrow> 'w bench \<Rightarrow> 'w site \<Rightarrow> string \<Rightarrow> string \<Rightarrow> pyval dict \<Rightarrow> string \<Rightarrow> table \<Rightarrow> ('w, seff, table) io" where
  "attempts 0 b s out inst cfg ip prev = io_ret prev"
| "attempts (Suc n) b s out inst cfg ip prev =
     io_bind (io_catch (io_call (RunBench inst cfg) (b_run b inst (logs_dir out) cfg ip))
       (\<lambda>e. if \<not> is_system_exit e \<and> is_infix quota (s_text s e) \<and> n \<noteq> 0 then Some (io_ret []) else None))
     (\<lambda>rows. if rows = [] then io_seq (quota_wait s) (attempts n b s out inst cfg ip [])
       else io_bind (io_ask (s_log s (log_path out (hd rows)))) (\<lambda>txt.
         io_bind (io_res (rows_stand b rows txt)) (\<lambda>stand.
         if stand then io_ret rows
         else io_seq (quota_wait s) (attempts n b s out inst cfg ip rows))))"

section \<open>Recording\<close>

definition setup_baseline_us :: rat where
  "setup_baseline_us = 1200"

text \<open>What \<open>main\<close> adds to a row: the run it belongs to, the point, the verdict and derived figures.\<close>

definition labels :: "string \<Rightarrow> string \<Rightarrow> string \<Rightarrow> pyval \<Rightarrow> int \<Rightarrow> string \<Rightarrow> pyval dict" where
  "labels ts inst axis value rep note =
     [(''timestamp'', PStr ts), (''instance'', PStr inst), (''axis'', PStr axis), (''axis_value'', value),
      (''rep'', PInt rep), (''note'', PStr note)]"

definition point_cells :: "pyval dict \<Rightarrow> row \<Rightarrow> pyval dict" where
  "point_cells cfg r = filter (\<lambda>(k, _). k \<noteq> ''query'' \<or> dict_get r ''query'' = PNone) cfg"

definition if_both :: "row \<Rightarrow> string \<Rightarrow> string \<Rightarrow> (rat \<Rightarrow> rat \<Rightarrow> row) \<Rightarrow> row res" where
  "if_both r a b f =
     (if truthy (dict_get r a) \<and> truthy (dict_get r b)
      then res_bind (num (dict_get r a)) (\<lambda>x. res_bind (num (dict_get r b)) (\<lambda>y. Inr (f x y)))
      else Inr r)"

definition rx_pps :: "row \<Rightarrow> row res" where
  "rx_pps r = if_both r ''bytes'' ''elapsed_s'' (\<lambda>b e. dict_set ''est_rx_pps'' (PInt (round_even (b / 1460 / e))) r)"

definition per_worker :: "row \<Rightarrow> row res" where
  "per_worker r = if_both r ''gbps'' ''workers_actual'' (\<lambda>g n. dict_set ''gbps_per_worker'' (PFloat (round_to 4 (g / n))) r)"

definition degraded :: "row \<Rightarrow> row res" where
  "degraded r =
     (if truthy (dict_get r ''setup_us_p50'')
      then res_bind (num (dict_get r ''setup_us_p50'')) (\<lambda>x. Inr (dict_set ''setup_degraded'' (PBool (x > 10 * setup_baseline_us)) r))
      else Inr r)"

definition annotate :: "'w bench \<Rightarrow> pyval dict \<Rightarrow> pyval dict \<Rightarrow> row \<Rightarrow> row res" where
  "annotate b ls cfg r =
     (let r1 = dict_merge r (dict_merge ls (point_cells cfg r)) in
      res_bind (b_valid b r1) (\<lambda>v.
      res_bind (rx_pps (dict_set ''valid'' (PBool v) r1)) (\<lambda>r3. res_bind (per_worker r3) degraded)))"

fun annotate_all :: "'w bench \<Rightarrow> 'w site \<Rightarrow> string \<Rightarrow> string \<Rightarrow> pyval \<Rightarrow> int \<Rightarrow> pyval dict \<Rightarrow> table \<Rightarrow> ('w, seff, table) io" where
  "annotate_all b s inst axis value rep cfg [] = io_ret []"
| "annotate_all b s inst axis value rep cfg (r # rs) =
     io_bind (site_clock s) (\<lambda>t.
     io_bind (io_res (annotate b (labels (stamp t) inst axis value rep (env_or s ''BENCH_NOTE'' [])) cfg r)) (\<lambda>r'.
     io_bind (annotate_all b s inst axis value rep cfg rs) (\<lambda>rs'. io_ret (r' # rs'))))"

section \<open>The loop\<close>

record sweep_env =
  e_axis :: string
  e_base :: "pyval dict"
  e_out :: string
  e_ip :: string
  e_runs :: nat

definition arm_of :: "'w bench \<Rightarrow> 'w site \<Rightarrow> string" where
  "arm_of b s = (if env_or s ''BENCH_NOTE'' [] \<noteq> [] then env_or s ''BENCH_NOTE'' [] else b_os b)"

definition is_valid :: "row \<Rightarrow> bool" where
  "is_valid r = truthy (dict_get r ''valid'')"

definition sweep_run :: "'w bench \<Rightarrow> 'w site \<Rightarrow> sargs \<Rightarrow> sweep_env \<Rightarrow> pyval \<Rightarrow> int \<Rightarrow> ('w, seff, table) io" where
  "sweep_run b s g e value rep =
     (let inst = instance_at (e_axis e) (g_instance g) value; cfg = cfg_at (e_axis e) (e_base e) value in
      io_bind (attempts 6 b s (e_out e) inst cfg (e_ip e) []) (\<lambda>rows.
      io_bind (annotate_all b s inst (e_axis e) value rep cfg rows) (\<lambda>rows'.
      if rows' = [] then io_raise IndexErr else io_ret rows')))"

definition tell :: "'w bench \<Rightarrow> 'w site \<Rightarrow> sweep_env \<Rightarrow> nat \<Rightarrow> pyval \<Rightarrow> int \<Rightarrow> row \<Rightarrow> ('w, seff, unit) io" where
  "tell b s e left value rep r =
     push (''['' @ show_nat (e_runs e - left) @ ''/'' @ show_nat (e_runs e) @ ''] '' @ arm_of b s @ '' '' @ e_axis e @ ''='' @ py_str value
             @ '' rep '' @ show_int rep @ '' '' @ (if is_valid r then ''OK'' else ''INVALID''))
          (arm_of b s @ '', '' @ stem_of (file_name (e_out e)) @ '': '' @ b_summary b r)"

definition stop_msg :: "'w bench \<Rightarrow> sweep_env \<Rightarrow> nat \<Rightarrow> pyval \<Rightarrow> int \<Rightarrow> row \<Rightarrow> string" where
  "stop_msg b e left value rep r =
     e_axis e @ ''='' @ py_str value @ '' rep='' @ show_int rep @ '' invalid ('' @ b_summary b r @ '', complete='' @ shown r ''complete''
     @ ''); abandoning '' @ show_nat left @ '' queued runs''"

text \<open>
  The loop over the plan, from the table \<open>t\<close>, the point last built and whether anything ran yet. The
  result is the table at the end.
\<close>

fun sweep_loop :: "'w bench \<Rightarrow> 'w site \<Rightarrow> sargs \<Rightarrow> sweep_env \<Rightarrow> (pyval \<times> int) list \<Rightarrow> table \<Rightarrow> pyval dict option \<Rightarrow> bool \<Rightarrow> ('w, seff, table) io" where
  "sweep_loop b s g e [] t built begun = io_ret t"
| "sweep_loop b s g e ((value, rep) # plan) t built begun =
     (let cfg = cfg_at (e_axis e) (e_base e) value in
      if t \<noteq> [] \<and> run_done t (e_axis e) value rep cfg then sweep_loop b s g e plan t built begun
      else
        io_seq (if built = Some cfg then io_ret () else io_call (Build cfg (e_ip e)) (b_build b cfg (e_ip e)))
        (io_seq (io_when (begun \<and> g_cooldown g \<noteq> 0) (cool_for s (g_cooldown g)))
        (io_bind (sweep_run b s g e value rep) (\<lambda>rows.
           let t' = t @ rows; r = last rows in
           io_seq (write_csv s (e_out e) t')
           (io_seq (tell b s e (length plan) value rep r)
           (if \<not> is_valid r \<and> \<not> g_keep_going g
            then io_seq (push (arm_of b s @ '' '' @ stem_of (file_name (e_out e)) @ '' sweep STOPPED'') (stop_msg b e (length plan) value rep r)) (io_ret t')
            else sweep_loop b s g e plan t' (Some cfg) True))))))"

definition out_of :: "'w site \<Rightarrow> 'w bench \<Rightarrow> sargs \<Rightarrow> string \<Rightarrow> string" where
  "out_of s b g axis = (case g_out g of
     Some p \<Rightarrow> p
   | None \<Rightarrow> s_root s @ ''/results/'' @ axis @ ''/'' @ b_os b @ ''/adhoc-'' @ (if s_env s ''BENCH_SCHEME'' = Some ''http'' then ''http'' else ''tls'') @ ''.csv'')"

definition missing_env :: "'w site \<Rightarrow> string list" where
  "missing_env s = filter (\<lambda>k. s_env s k = None) [''AWS_BUCKET'', ''AWS_REGION'']"

definition check_bucket :: "'w site \<Rightarrow> ('w, seff, unit) io" where
  "check_bucket s = io_lift AwsCall (check_bucket_region (s_ec2 s) (the (s_env s ''AWS_REGION'')) (the (s_env s ''AWS_BUCKET'')))"

definition env_of :: "'w bench \<Rightarrow> 'w site \<Rightarrow> sargs \<Rightarrow> string \<Rightarrow> pyval dict \<Rightarrow> (pyval \<times> int) list \<Rightarrow> sweep_env" where
  "env_of b s g axis base plan = \<lparr>e_axis = axis, e_base = base, e_out = out_of s b g axis,
     e_ip = (if given (g_target_ip g) then the (g_target_ip g) else []), e_runs = length plan\<rparr>"

text \<open>\<open>main\<close>; its result is the table at the end. A dry run lists the plan and does nothing.\<close>

definition sweep_main :: "'w bench \<Rightarrow> 'w site \<Rightarrow> sargs \<Rightarrow> ('w, seff, table) io" where
  "sweep_main b s g =
     io_bind (io_res (sweep_values (b_knobs b) (g_sweep g))) (\<lambda>(axis, values).
     io_bind (io_res (base_of (b_knobs b) (b_defaults b) (g_knobs g))) (\<lambda>base.
     if missing_env s \<noteq> []
     then io_raise (SystemExit (hd (missing_env s) @ '' missing - run `just setup` for this bench''))
     else if g_dry_run g then io_ret []
     else io_seq (check_bucket s)
       (io_bind (io_ask (s_csv s (out_of s b g axis))) (\<lambda>t.
        let plan = plan_of (g_interleave g) values (g_reps g)
        in sweep_loop b s g (env_of b s g axis base plan) plan t None False))))"

text \<open>What \<open>main\<close> prints last: how many runs of the axis, how many valid, and the best figure.\<close>

definition axis_rows :: "string \<Rightarrow> table \<Rightarrow> table" where
  "axis_rows axis t = (if ''axis'' \<in> columns t then filter (\<lambda>r. cell_is r ''axis'' (PStr axis)) t else t)"

definition good_rows :: "table \<Rightarrow> table" where
  "good_rows t = (if ''valid'' \<in> columns t then filter (\<lambda>r. cell_is r ''valid'' (PBool True)) t else t)"

definition best_of :: "'w bench \<Rightarrow> table \<Rightarrow> rat option" where
  "best_of b good =
     (if good = [] \<or> b_headline b \<notin> columns good then None
      else (case map the (filter (\<lambda>x. x \<noteq> None) (map (\<lambda>r. as_num (dict_get r (b_headline b))) good)) of
          [] \<Rightarrow> None
        | x # xs \<Rightarrow> Some (foldl (if b_best_is_max b then max else min) x xs)))"

end
