(* ===== verification/Host.thy ===== *)
theory Host
  imports Cloud Metrics Sweep
begin

text \<open>
  What the benches stand on: the machine a driver runs on and the services it calls, as a record of
  operations; the object a bench is between two calls of the sweep; and the pieces the benches share:
  the program sent to a guest, the poll of an instance's console, and the run that launches an instance,
  reads its console and terminates it.
\<close>

section \<open>The host and the bench's object\<close>

text \<open>
  Subprocesses answer with an exit code and their output; \<open>h_spawn\<close> starts one that runs on, writing
  to a log; \<open>h_wait\<close> is False when its timeout passed. \<open>h_source\<close> is the text of a file of the
  repository, \<open>h_gzip\<close> and \<open>h_json\<close> are the library's encoders.
\<close>

record 'w host =
  h_ec2 :: "'w ec2"
  h_env :: "string \<Rightarrow> string option"
  h_root :: string
  h_source :: "string \<Rightarrow> string"
  h_python :: string
  h_cpus :: nat
  h_json :: "(string \<times> string) list \<Rightarrow> string"
  h_gzip :: "string \<Rightarrow> string"
  h_console :: "string \<Rightarrow> 'w \<Rightarrow> (exn + string) \<times> 'w"
  h_live :: "string \<Rightarrow> 'w \<Rightarrow> (exn + string list) \<times> 'w"
  h_now :: "'w \<Rightarrow> rat \<times> 'w"
  h_sleep :: "rat \<Rightarrow> 'w \<Rightarrow> 'w"
  h_run :: "string list \<Rightarrow> (string \<times> string) list \<Rightarrow> 'w \<Rightarrow> (int \<times> string) \<times> 'w"
  h_head :: "string \<Rightarrow> 'w \<Rightarrow> (exn + unit) \<times> 'w"
  h_ami :: "'w \<Rightarrow> (exn + string) \<times> 'w"
  h_zones :: "'w \<Rightarrow> (exn + (string \<times> string) list) \<times> 'w"
  h_scores :: "string \<Rightarrow> 'w \<Rightarrow> (exn + (string \<times> int) list) \<times> 'w"
  h_record :: "'w \<Rightarrow> (string \<times> string) option"
  h_spawn :: "string list \<Rightarrow> string \<Rightarrow> 'w \<Rightarrow> (exn + int) \<times> 'w"
  h_poll :: "int \<Rightarrow> 'w \<Rightarrow> int option \<times> 'w"
  h_read :: "string \<Rightarrow> 'w \<Rightarrow> (exn + string) \<times> 'w"
  h_killpg :: "int \<Rightarrow> string \<Rightarrow> 'w \<Rightarrow> 'w"
  h_wait :: "int \<Rightarrow> rat \<Rightarrow> 'w \<Rightarrow> bool \<times> 'w"

datatype heff =
    Api aws
  | LiveOf string
  | ReadConsole string
  | LogFile string string
  | Napped rat
  | RanCmd "string list" "(string \<times> string) list"
  | HeadObject string
  | AskAmi
  | AskZones
  | AskScores string
  | Deploy "string list" string
  | SigGroup int string
  | WaitFor int rat

text \<open>A server a bench launched for itself (\<open>HttpServer\<close>).\<close>

record server =
  sv_type :: string
  sv_market :: string
  sv_client :: string
  sv_size :: string
  sv_workers :: string
  sv_iid :: "string option"
  sv_ip :: "string option"
  sv_zone :: "string option"

record 'w bworld =
  bw_os :: 'w
  bw_built :: bool
  bw_zone :: "string option"
  bw_server :: "server option"
  bw_checked :: "string list"
  bw_bin_ready :: bool

type_synonym ('w, 'a) g = "('w bworld, heff, 'a) io"

definition on_host :: "('w, heff, 'a) io \<Rightarrow> ('w, 'a) g" where
  "on_host m = (\<lambda>w. case m (bw_os w) of (r, u, cs) \<Rightarrow> (r, w\<lparr>bw_os := u\<rparr>, cs))"

definition api :: "('w, aws, 'a) io \<Rightarrow> ('w, 'a) g" where
  "api m = on_host (io_lift Api m)"

definition host_now :: "'w host \<Rightarrow> ('w, rat) g" where
  "host_now h = on_host (\<lambda>u. case h_now h u of (t, u') \<Rightarrow> (Inr t, u', []))"

definition nap :: "'w host \<Rightarrow> rat \<Rightarrow> ('w, unit) g" where
  "nap h d = on_host (io_call (Napped d) (\<lambda>u. (Inr (), h_sleep h d u)))"

definition run_cmd_env :: "'w host \<Rightarrow> string list \<Rightarrow> (string \<times> string) list \<Rightarrow> ('w, int \<times> string) g" where
  "run_cmd_env h c env = on_host (io_call (RanCmd c env) (\<lambda>u. case h_run h c env u of (r, u') \<Rightarrow> (Inr r, u')))"

definition need_env :: "'w host \<Rightarrow> string \<Rightarrow> string res" where
  "need_env h k = of_option (KeyErr k) (h_env h k)"

definition env_get :: "'w host \<Rightarrow> string \<Rightarrow> string \<Rightarrow> string" where
  "env_get h k d = (case h_env h k of Some v \<Rightarrow> v | None \<Rightarrow> d)"

text \<open>\<open>cfg[k]\<close>.\<close>

definition knob :: "pyval dict \<Rightarrow> string \<Rightarrow> pyval res" where
  "knob cfg k = of_option (KeyErr k) (map_of cfg k)"

definition knob_str :: "pyval dict \<Rightarrow> string \<Rightarrow> string res" where
  "knob_str cfg k = res_bind (knob cfg k) (\<lambda>v. Inr (py_str v))"

text \<open>\<open>str(cfg.get(k) or "")\<close>.\<close>

definition knob_or_empty :: "pyval dict \<Rightarrow> string \<Rightarrow> string" where
  "knob_or_empty cfg k = (if truthy (dict_get cfg k) then py_str (dict_get cfg k) else [])"

definition live :: "'w host \<Rightarrow> string \<Rightarrow> ('w, string list) g" where
  "live h tag = on_host (io_call (LiveOf tag) (h_live h tag))"

definition write_log :: "string \<Rightarrow> string \<Rightarrow> ('w, unit) g" where
  "write_log file text = io_emit (LogFile file text)"

section \<open>The guest's program\<close>

definition lf :: char where
  "lf = char_of (10 :: nat)"

text \<open>\<open>body.split("\n", 1)[1] if body.startswith("#!") else body\<close>.\<close>

definition without_shebang :: "string \<Rightarrow> string res" where
  "without_shebang body =
     (if starts_with ''#!'' body
      then (case dropWhile (\<lambda>c. c \<noteq> lf) body of [] \<Rightarrow> Inl IndexErr | _ # body' \<Rightarrow> Inr body')
      else Inr body)"

definition shebang :: string where
  "shebang = ''#!/usr/bin/env python3'' @ [lf]"

definition guest_script :: "'w host \<Rightarrow> string \<Rightarrow> (string \<times> string) list \<Rightarrow> string res" where
  "guest_script h scripts conf =
     res_bind (without_shebang (h_source h (scripts @ ''/instance.py''))) (\<lambda>body.
     Inr (shebang @ ''CONFIG = '' @ h_json h conf @ [lf] @ h_source h ''competitors/common/instance_prelude.py'' @ [lf] @ body))"

definition user_data_max :: nat where
  "user_data_max = 16 * 1024"

definition blob_of :: "'w host \<Rightarrow> string \<Rightarrow> string res" where
  "blob_of h raw =
     (let blob = h_gzip h raw in
      if length blob > user_data_max
      then Inl (SystemExit (''user-data is '' @ show_nat (length blob) @ '' bytes gzipped (from '' @ show_nat (length raw)
        @ ''), over cloud-init'' @ [CHR 0x27] @ ''s '' @ show_nat user_data_max))
      else Inr blob)"

section \<open>The console\<close>

definition verdict_rx :: rx where
  "verdict_rx = re ''^(COMPLETE|INCOMPLETE):''"

definition complete_rx :: rx where
  "complete_rx = re ''^COMPLETE:''"

text \<open>
  The poll: until the deadline, wait, read the console, keep the read if it is longer than what was
  kept, and stop at the guest's verdict. A read that fails counts as empty. \<open>clean\<close> is what the driver
  makes of a read. The loop runs on fuel, one unit a round; None when it runs out.
\<close>

definition read_console :: "'w host \<Rightarrow> string \<Rightarrow> ('w, string) g" where
  "read_console h iid =
     io_catch (on_host (io_call (ReadConsole iid) (h_console h iid))) (\<lambda>e. if is_system_exit e then None else Some (io_ret []))"

fun poll_console :: "nat \<Rightarrow> 'w host \<Rightarrow> rat \<Rightarrow> (string \<Rightarrow> string) \<Rightarrow> string \<Rightarrow> string \<Rightarrow> rat \<Rightarrow> string \<Rightarrow> ('w, string option) g" where
  "poll_console 0 h d clean iid file deadline text = io_ret None"
| "poll_console (Suc n) h d clean iid file deadline text =
     io_bind (host_now h) (\<lambda>t.
     if t < deadline
     then io_seq (nap h d) (io_bind (read_console h iid) (\<lambda>got.
       let longer = length text < length got; text' = (if longer then clean got else text) in
       io_seq (io_when longer (write_log file text'))
       (if rx_search verdict_rx text' \<noteq> None then io_ret (Some text')
        else poll_console n h d clean iid file deadline text')))
     else io_ret (Some text))"

text \<open>The \<open>finally\<close>: ask whether EC2 reclaimed the instance, then terminate it.\<close>

definition put_down :: "'w host \<Rightarrow> string \<Rightarrow> ('w, bool) g" where
  "put_down h iid =
     io_bind (api (interrupted (h_ec2 h) iid)) (\<lambda>b.
     io_seq (api (terminate (h_ec2 h) [Some iid])) (io_ret b))"

text \<open>The rounds a poll can need: one for every nap that fits before the deadline, and the last look.\<close>

definition poll_fuel :: "rat \<Rightarrow> int \<Rightarrow> nat" where
  "poll_fuel d cap = nat \<lceil>of_int cap / d\<rceil> + 1"

definition watch_guest :: "'w host \<Rightarrow> rat \<Rightarrow> (string \<Rightarrow> string) \<Rightarrow> string \<Rightarrow> string \<Rightarrow> int \<Rightarrow> ('w, string option \<times> bool) g" where
  "watch_guest h d clean iid file cap =
     io_finally (io_bind (host_now h) (\<lambda>t. poll_console (poll_fuel d cap) h d clean iid file (t + of_int cap) [])) (put_down h iid)"

text \<open>
  Launch, watch, put down. The result is the console's text, the instance's id, whether it was
  reclaimed, the market and the zone. Running out of fuel would be the exception \<open>OtherExn ''fuel''\<close>.
\<close>

definition first_id :: "inst list \<Rightarrow> string res" where
  "first_id is = (case is of [] \<Rightarrow> Inl IndexErr | i # _ \<Rightarrow> Inr (in_id i))"

definition guest_run ::
  "'w host \<Rightarrow> rat \<Rightarrow> (string \<Rightarrow> string) \<Rightarrow> run_kwargs \<Rightarrow> string \<Rightarrow> string option \<Rightarrow> string \<Rightarrow> int \<Rightarrow>
     ('w, string \<times> string \<times> bool \<times> string \<times> string) g" where
  "guest_run h d clean kw market zone file cap =
     io_bind (api (launch (h_ec2 h) kw market zone)) (\<lambda>(is, mk, zn).
     io_bind (io_res (first_id is)) (\<lambda>iid.
     io_bind (watch_guest h d clean iid file cap) (\<lambda>(text, reclaimed).
       case text of None \<Rightarrow> io_raise (OtherExn ''fuel'')
       | Some s \<Rightarrow> io_seq (write_log file s) (io_ret (s, iid, reclaimed, mk, zn)))))"

end
