(* ===== verification/Http.thy ===== *)
theory Http
  imports Host "HOL-Library.Word"
begin

unbundle bit_operations_syntax

text \<open>
  \<^verbatim>\<open>scripts/bench/httpserver.py\<close>: the zones ranked for a server, the check that a long-living server
  is where the run assumes it is, the upload of nginx, and a server's life: \<open>start\<close> and \<open>stop\<close>.
\<close>

section \<open>Addresses\<close>

text \<open>
  \<open>ipaddress\<close> on dotted quads: four decimal octets of at most three digits and without leading zeros.
  An address is a 32-bit word; a network is its address and prefix length. IPv6 is not modelled: the
  guests and their servers have IPv4 addresses.
\<close>

definition octet :: "string \<Rightarrow> nat option" where
  "octet s =
     (if all_digits s \<and> length s \<le> 3 \<and> (length s = 1 \<or> hd s \<noteq> CHR ''0'') \<and> nat_of_digits s \<le> 255
      then Some (nat_of_digits s) else None)"

definition word_of_octets :: "nat list \<Rightarrow> 32 word" where
  "word_of_octets ns = foldl (\<lambda>a n. push_bit 8 a OR word_of_nat n) 0 ns"

definition ip_address :: "string \<Rightarrow> 32 word option" where
  "ip_address s =
     (let os = map octet (split_on CHR ''.'' s) in
      if length os = 4 \<and> None \<notin> set os then Some (word_of_octets (map the os)) else None)"

definition in_net :: "32 word \<Rightarrow> nat list \<times> nat \<Rightarrow> bool" where
  "in_net a = (\<lambda>(os, n). drop_bit (32 - n) a = drop_bit (32 - n) (word_of_octets os))"

definition private_networks :: "(nat list \<times> nat) list" where
  "private_networks =
     [([0, 0, 0, 0], 8), ([10, 0, 0, 0], 8), ([127, 0, 0, 0], 8), ([169, 254, 0, 0], 16), ([172, 16, 0, 0], 12),
      ([192, 0, 0, 0], 24), ([192, 0, 0, 170], 31), ([192, 0, 2, 0], 24), ([192, 168, 0, 0], 16), ([198, 18, 0, 0], 15),
      ([198, 51, 100, 0], 24), ([203, 0, 113, 0], 24), ([240, 0, 0, 0], 4), ([255, 255, 255, 255], 32)]"

definition private_exceptions :: "(nat list \<times> nat) list" where
  "private_exceptions = [([192, 0, 0, 9], 32), ([192, 0, 0, 10], 32)]"

definition is_private :: "32 word \<Rightarrow> bool" where
  "is_private a \<longleftrightarrow> list_ex (in_net a) private_networks \<and> \<not> list_ex (in_net a) private_exceptions"

section \<open>Ranking the zones\<close>

text \<open>\<open>{k: v for ...}\<close>: the last of several values stays.\<close>

definition last_of :: "(string \<times> 'v) list \<Rightarrow> string \<Rightarrow> 'v option" where
  "last_of ps k = map_of (rev ps) k"

definition score_map :: "(string \<times> string) list \<Rightarrow> (string \<times> int) list \<Rightarrow> (string \<times> int) list" where
  "score_map zones scores = map (\<lambda>(i, s). ((case last_of zones i of Some n \<Rightarrow> n | None \<Rightarrow> []), s)) scores"

definition score_of :: "(string \<times> int) list \<Rightarrow> string \<Rightarrow> int" where
  "score_of sm z = (case last_of sm z of Some s \<Rightarrow> s | None \<Rightarrow> 0)"

definition zones_by_hand :: "string \<Rightarrow> string list \<Rightarrow> string list" where
  "zones_by_hand order names =
     filter (\<lambda>z. z \<in> set names) (split_on CHR '','' order) @ filter (\<lambda>z. \<not> is_infix z order) names"

definition placement :: "'w host \<Rightarrow> string \<Rightarrow> string list \<Rightarrow> ('w, string list) g" where
  "placement h inst names =
     io_catch
       (io_bind (on_host (io_call AskZones (h_zones h))) (\<lambda>zones.
        io_bind (io_res (need_env h ''AWS_REGION'')) (\<lambda>_.
        io_bind (on_host (io_call (AskScores inst) (h_scores h inst))) (\<lambda>scores.
        io_ret (sort_key (\<lambda>z. - score_of (score_map zones scores) z) names)))))
       (\<lambda>e. if is_client_error e then Some (io_ret names) else None)"

definition spot_ranked_zones :: "'w host \<Rightarrow> string \<Rightarrow> ('w, string list) g" where
  "spot_ranked_zones h inst =
     io_bind (io_res (need_env h ''AWS_SUBNET'')) (\<lambda>subnet.
     io_bind (api (spot_subnets (h_ec2 h) (Some subnet))) (\<lambda>zs.
       let names = map snd zs; order = env_get h ''BENCH_ZONES'' [] in
       if order \<noteq> [] then io_ret (zones_by_hand order names) else placement h inst names))"

section \<open>A server that was started by hand\<close>

definition sys_exit :: "string \<Rightarrow> ('w, 'c, 'a) io" where
  "sys_exit s = io_raise (SystemExit s)"

definition quoted :: "string \<Rightarrow> string" where
  "quoted s = [CHR 0x27] @ s @ [CHR 0x27]"

text \<open>The checks on the recorded server, in their order.\<close>

definition check_recorded :: "string \<Rightarrow> string option \<Rightarrow> string \<Rightarrow> inst \<Rightarrow> ('w, unit) g" where
  "check_recorded target zone iid i =
     (if in_state i \<noteq> ''running'' then sys_exit (''the recorded nginx '' @ iid @ '' is '' @ in_state i @ '', not running'')
      else if in_private_ip i \<noteq> Some target
      then sys_exit (''--target-ip '' @ target @ '' is not '' @ iid @ '' (that instance is '' @ show_opt (in_private_ip i) @ '')'')
      else if \<not> given zone
      then sys_exit (''BENCH_ZONE is unset; '' @ iid @ '' is in '' @ in_zone i @ '' and the client must be pinned there'')
      else if the zone \<noteq> in_zone i
      then sys_exit (''BENCH_ZONE='' @ the zone @ '' but '' @ iid @ '' is in '' @ in_zone i
        @ '': the client would be pinned to the wrong zone and every byte billed at $0.01/GB each way'')
      else io_ret ())"

definition recorded_server :: "'w host \<Rightarrow> string \<Rightarrow> ('w, inst) g" where
  "recorded_server h iid =
     io_catch (api (io_bind (describe_instances (h_ec2 h) [iid]) first_instance))
       (\<lambda>e. if is_system_exit e then None
            else Some (sys_exit (''cannot read the recorded server '' @ iid @ '': '' @ error_text (h_ec2 h) e)))"

definition verify_external :: "'w host \<Rightarrow> string \<Rightarrow> string option \<Rightarrow> ('w, unit) g" where
  "verify_external h target zone =
     (if target = [] then io_ret ()
      else (case ip_address target of
          None \<Rightarrow> sys_exit (''--target-ip '' @ quoted target @ '' is not an address'')
        | Some a \<Rightarrow> io_bind (on_host (io_ask (h_record h))) (\<lambda>rec.
            if \<not> is_private a then io_ret ()
            else (case rec of
                None \<Rightarrow> sys_exit (''--target-ip '' @ target @ '' is private but no long-living server is recorded.'' @ [lf]
                   @ ''  start one with scripts/bench/nginx-server.py start, or pass the type as `server`.'')
              | Some (iid, ip) \<Rightarrow> io_bind (recorded_server h iid) (check_recorded target zone iid)))))"

section \<open>A server of the bench's own\<close>

definition put_world :: "('w bworld \<Rightarrow> 'w bworld) \<Rightarrow> ('w, unit) g" where
  "put_world f = (\<lambda>w. (Inr (), f w, []))"

definition nginx_key :: string where
  "nginx_key = ''bin/nginx-static/nginx''"

definition run_or_exit :: "'w host \<Rightarrow> string list \<Rightarrow> (string \<times> string) list \<Rightarrow> string \<Rightarrow> ('w, unit) g" where
  "run_or_exit h c env what =
     io_bind (run_cmd_env h c env) (\<lambda>(code, out). if code \<noteq> 0 then sys_exit (what @ [lf] @ out) else io_ret ())"

definition ensure_binary :: "'w host \<Rightarrow> ('w, unit) g" where
  "ensure_binary h =
     io_bind (io_ask bw_bin_ready) (\<lambda>ready.
     if ready then io_ret ()
     else io_bind
       (io_catch
         (io_bind (io_res (need_env h ''AWS_REGION'')) (\<lambda>_. io_bind (io_res (need_env h ''AWS_BUCKET'')) (\<lambda>_.
          io_seq (on_host (io_call (HeadObject nginx_key) (h_head h nginx_key))) (io_ret True))))
         (\<lambda>e. if is_client_error e then Some (io_ret False) else None)) (\<lambda>there.
       io_seq (if there then io_ret ()
           else run_or_exit h [''just'', ''setup'', ''competitors/nginx-static''] [] ''nginx-static setup failed:'')
         (put_world (\<lambda>w. w\<lparr>bw_bin_ready := True\<rparr>))))"

definition new_server :: "string \<Rightarrow> string \<Rightarrow> string \<Rightarrow> string \<Rightarrow> string option \<Rightarrow> server" where
  "new_server ty market sz workers client = \<lparr>sv_type = ty, sv_market = market, sv_client = (if given client then the client else ty),
     sv_size = sz, sv_workers = workers, sv_iid = None, sv_ip = None, sv_zone = None\<rparr>"

definition server_tag :: string where
  "server_tag = ''miniosv-nginx-server''"

definition ready_s :: int where
  "ready_s = 600"

definition server_conf :: "'w host \<Rightarrow> server \<Rightarrow> (string \<times> string) list res" where
  "server_conf h sv =
     res_bind (need_env h ''AWS_BUCKET'') (\<lambda>b. res_bind (need_env h ''AWS_REGION'') (\<lambda>r.
     Inr [(''AWS_BUCKET'', b), (''AWS_REGION'', r), (''BENCH_OBJECT_SIZE'', sv_size sv), (''BENCH_SERVER_WORKERS'', sv_workers sv)]))"

definition server_user_data :: "'w host \<Rightarrow> server \<Rightarrow> string res" where
  "server_user_data h sv =
     res_bind (server_conf h sv) (\<lambda>conf.
     res_bind (without_shebang (h_source h ''competitors/nginx-static/scripts/server.py'')) (\<lambda>body.
     Inr (h_gzip h (shebang @ ''CONFIG = '' @ h_json h conf @ [lf] @ body))))"

definition server_kwargs :: "'w host \<Rightarrow> server \<Rightarrow> string \<Rightarrow> run_kwargs res" where
  "server_kwargs h sv ami =
     res_bind (need_env h ''AWS_SUBNET'') (\<lambda>subnet. res_bind (server_user_data h sv) (\<lambda>ud.
     Inr \<lparr>kw_subnet = Some subnet, kw_market = None, kw_image = Some ami, kw_type = sv_type sv, kw_user_data = ud,
       kw_name = server_tag, kw_bench = ''nginx-static''\<rparr>))"

text \<open>\<open>for zone in ...: try: launch; break\<close>, with its \<open>else\<close>.\<close>

fun launch_in_zones :: "'w host \<Rightarrow> run_kwargs \<Rightarrow> string \<Rightarrow> string list \<Rightarrow> ('w, launch_result) g" where
  "launch_in_zones h kw market [] = sys_exit ''spot requested but not provided: no zone would launch the server''"
| "launch_in_zones h kw market (z # zs) =
     io_catch (api (launch (h_ec2 h) kw market (Some z)))
       (\<lambda>e. if is_client_error e \<or> is_system_exit e then Some (launch_in_zones h kw market zs) else None)"

definition ready_rx :: rx where
  "ready_rx = re ''SERVER READY ip=([~d.]+)''"

fun poll_server :: "nat \<Rightarrow> 'w host \<Rightarrow> string \<Rightarrow> string \<Rightarrow> rat \<Rightarrow> string \<Rightarrow> ('w, string option option) g" where
  "poll_server 0 h iid file deadline text = io_ret None"
| "poll_server (Suc n) h iid file deadline text =
     io_bind (host_now h) (\<lambda>t.
     if t < deadline
     then io_seq (nap h 10) (io_bind (read_console h iid) (\<lambda>got.
       let longer = length text < length got; text' = (if longer then got else text) in
       io_seq (io_when longer (write_log file text'))
       (case rx_search ready_rx text' of
          Some m \<Rightarrow> io_ret (Some (group 1 m))
        | None \<Rightarrow> if is_infix ''SERVER FAILED'' text' then io_ret (Some None) else poll_server n h iid file deadline text')))
     else io_ret (Some None))"

definition server_stop :: "'w host \<Rightarrow> ('w, unit) g" where
  "server_stop h =
     io_bind (io_ask bw_server) (\<lambda>s. case s of
       None \<Rightarrow> io_ret ()
     | Some sv \<Rightarrow>
         if \<not> given (sv_iid sv) then io_ret ()
         else io_seq (io_catch (api (terminate (h_ec2 h) [sv_iid sv])) (\<lambda>e. if is_system_exit e then None else Some (io_ret ())))
           (put_world (\<lambda>w. w\<lparr>bw_server := Some (sv\<lparr>sv_iid := None, sv_ip := None\<rparr>)\<rparr>)))"

text \<open>\<open>start\<close> from the moment its instance is launched, and \<open>start\<close>, of the server the bench holds.\<close>

definition server_wait :: "'w host \<Rightarrow> string \<Rightarrow> server \<Rightarrow> string \<Rightarrow> string \<Rightarrow> ('w, string) g" where
  "server_wait h logdir sv iid zone =
     (let file = logdir @ ''/server-'' @ iid @ ''.log''; sv' = sv\<lparr>sv_iid := Some iid, sv_zone := Some zone\<rparr> in
     io_seq (put_world (\<lambda>w. w\<lparr>bw_server := Some sv'\<rparr>))
     (io_bind (host_now h) (\<lambda>t.
     io_bind (poll_server (poll_fuel 10 ready_s) h iid file (t + of_int ready_s) []) (\<lambda>got. case got of
         None \<Rightarrow> io_raise (OtherExn ''fuel'')
       | Some ip \<Rightarrow>
           if \<not> given ip then io_seq (server_stop h) (sys_exit (''nginx server never became ready; see '' @ file))
           else io_seq (put_world (\<lambda>w. w\<lparr>bw_server := Some (sv'\<lparr>sv_ip := ip\<rparr>)\<rparr>)) (io_ret (the ip))))))"

definition server_start :: "'w host \<Rightarrow> string \<Rightarrow> server \<Rightarrow> ('w, string) g" where
  "server_start h logdir sv =
     io_seq (ensure_binary h)
     (io_bind (io_res (need_env h ''AWS_REGION'')) (\<lambda>_.
     io_bind (on_host (io_call AskAmi (h_ami h))) (\<lambda>ami.
     io_bind (io_res (server_kwargs h sv ami)) (\<lambda>kw.
     io_bind (spot_ranked_zones h (sv_client sv)) (\<lambda>zones.
     io_bind (launch_in_zones h kw (sv_market sv) zones) (\<lambda>(is, mk, zone).
     io_bind (io_res (first_id is)) (\<lambda>iid. server_wait h logdir sv iid zone)))))))"

text \<open>
  What the benches' \<open>build\<close> do to move to a server of a new point: the one before is stopped, the new
  one becomes the bench's and is started.
\<close>

definition next_server :: "'w host \<Rightarrow> string \<Rightarrow> string \<Rightarrow> ('w, string) g" where
  "next_server h ty client =
     (let sv = new_server ty (env_get h ''BENCH_SERVER_MARKET'' ''spot'') (env_get h ''AWS_BUCKET_SIZE'' ''10G'') ''auto'' (Some client) in
      io_seq (server_stop h)
      (io_seq (put_world (\<lambda>w. w\<lparr>bw_server := Some sv\<rparr>))
      (server_start h (h_root h @ ''/results/http/logs'') sv)))"

end
