(* ===== verification/BenchLinux.thy ===== *)
theory BenchLinux
  imports Http
begin

text \<open>
  The benches whose client is a stock Linux guest: \<^verbatim>\<open>linux-s3/bench.py\<close> (\<open>LinuxS3\<close>) and the two that
  inherit from it, \<^verbatim>\<open>anyblob/bench.py\<close> and \<^verbatim>\<open>linux-http/bench.py\<close>. What a subclass overrides is the
  record \<open>linux_class\<close>; \<open>linux_run_once\<close> is \<open>LinuxS3.run_once\<close> over it.
\<close>

section \<open>Knobs\<close>

text \<open>A knob: its name, the variable it is handed over in, if any, and its parser.\<close>

type_synonym knob_spec = "string \<times> string option \<times> cast"

definition parsers :: "knob_spec list \<Rightarrow> (string \<times> cast) list" where
  "parsers ks = map (\<lambda>(k, _, c). (k, c)) ks"

text \<open>\<open>{"ENV": str(cfg["knob"]), ...}\<close>.\<close>

definition str_knobs :: "pyval dict \<Rightarrow> (string \<times> string) list \<Rightarrow> (string \<times> string) list res" where
  "str_knobs cfg = res_list (\<lambda>(var, k). res_bind (knob_str cfg k) (\<lambda>s. Inr (var, s)))"

definition bucket_conf :: "'w host \<Rightarrow> (string \<times> string) list res" where
  "bucket_conf h = res_bind (need_env h ''AWS_BUCKET'') (\<lambda>b. res_bind (need_env h ''AWS_REGION'') (\<lambda>r.
     Inr [(''AWS_BUCKET'', b), (''AWS_REGION'', r)]))"

definition opt_cell :: "string option \<Rightarrow> pyval" where
  "opt_cell s = (case s of None \<Rightarrow> PNone | Some t \<Rightarrow> PStr t)"

text \<open>What a launch is asked for apart from its user-data.\<close>

record driver =
  dv_ami :: "string option"
  dv_market :: string
  dv_cap :: int
  dv_instance :: string

record 'w linux_class =
  lc_name :: string
  lc_path :: string
  lc_scripts :: string
  lc_tag :: string
  lc_metrics :: metrics
  lc_conf :: "'w host \<Rightarrow> server option \<Rightarrow> pyval dict \<Rightarrow> string \<Rightarrow> string \<Rightarrow> (string \<times> string) list res"

section \<open>linux-s3\<close>

definition s3_knobs :: "knob_spec list" where
  "s3_knobs = [
     (''workers'', Some ''BENCH_WORKERS'', as_size),
     (''conns'', Some ''BENCH_CONNS_PER_WORKER'', as_size),
     (''block'', Some ''BENCH_BLOCK_SIZE'', as_size),
     (''blocks'', Some ''BENCH_BLOCKS_PER_WORKER'', as_size),
     (''mode'', Some ''MODE'', as_str)]"

definition s3_defaults :: "pyval dict" where
  "s3_defaults = [(''workers'', PInt 8), (''conns'', PInt 24), (''block'', PInt (128 * 2 ^ 20)), (''blocks'', PInt 0),
     (''mode'', PStr ''stock'')]"

definition s3_conf :: "'w host \<Rightarrow> server option \<Rightarrow> pyval dict \<Rightarrow> string \<Rightarrow> string \<Rightarrow> (string \<times> string) list res" where
  "s3_conf h sv cfg ip run_id =
     res_bind (bucket_conf h) (\<lambda>bk.
     res_bind (str_knobs cfg [(''BENCH_WORKERS'', ''workers''), (''BENCH_CONNS_PER_WORKER'', ''conns''),
       (''BENCH_BLOCK_SIZE'', ''block''), (''BENCH_BLOCKS_PER_WORKER'', ''blocks'')]) (\<lambda>ks.
     res_bind (knob_str cfg ''mode'') (\<lambda>mode.
     Inr (bk @ [(''AWS_BUCKET_SIZE'', env_get h ''AWS_BUCKET_SIZE'' ''10G''), (''AWS_TARGET_IP'', ip)] @ ks
       @ [(''BENCH_TLS_STUB'', env_get h ''BENCH_TLS_STUB'' ''0''), (''BENCH_SCHEME'', env_get h ''BENCH_SCHEME'' ''https''),
          (''MODE'', mode), (''RUN_ID'', run_id)]))))"

definition user_data_blob :: "'w host \<Rightarrow> 'w linux_class \<Rightarrow> server option \<Rightarrow> pyval dict \<Rightarrow> string \<Rightarrow> string \<Rightarrow> string res" where
  "user_data_blob h lc sv cfg ip run_id =
     res_bind (lc_conf lc h sv cfg ip run_id) (\<lambda>conf. res_bind (guest_script h (lc_scripts lc) conf) (blob_of h))"

definition guest_kwargs :: "'w host \<Rightarrow> driver \<Rightarrow> string \<Rightarrow> string \<Rightarrow> string \<Rightarrow> string \<Rightarrow> run_kwargs res" where
  "guest_kwargs h dv tag name inst blob =
     res_bind (need_env h ''AWS_SUBNET'') (\<lambda>subnet.
     Inr \<lparr>kw_subnet = Some subnet, kw_market = None, kw_image = dv_ami dv, kw_type = inst, kw_user_data = blob,
       kw_name = tag, kw_bench = name\<rparr>)"

definition s3_build :: "'w host \<Rightarrow> 'w linux_class \<Rightarrow> ('w, unit) g" where
  "s3_build h lc =
     io_bind (io_ask bw_built) (\<lambda>built.
     if built then io_ret ()
     else io_seq (run_or_exit h [''just'', ''setup'', lc_path lc] [] ''setup/build failed:'')
       (put_world (\<lambda>w. w\<lparr>bw_built := True\<rparr>)))"

definition shaped_rx :: rx where
  "shaped_rx = re ''allowance_exceeded.*(?:RUN INVALID|EC2 SHAPED)''"

definition linux_row :: "metrics \<Rightarrow> string \<Rightarrow> string \<Rightarrow> string \<Rightarrow> bool \<Rightarrow> string \<Rightarrow> string \<Rightarrow> row res" where
  "linux_row ms text file iid reclaimed mk zn =
     res_bind (parse ms text) (\<lambda>row.
     Inr (dict_merge row [(''market'', PStr mk), (''zone'', PStr zn), (''complete'', PBool (rx_search complete_rx text \<noteq> None)),
       (''instance_id'', PStr iid), (''log'', PStr file), (''interrupted'', PBool reclaimed),
       (''allowance_exceeded'', PInt (int (length (rx_finditer shaped_rx text))))]))"

definition linux_run_once :: "'w host \<Rightarrow> 'w linux_class \<Rightarrow> driver \<Rightarrow> string \<Rightarrow> string \<Rightarrow> pyval dict \<Rightarrow> string \<Rightarrow> ('w, row) g" where
  "linux_run_once h lc dv inst logs cfg ip =
     io_bind (host_now h) (\<lambda>t.
     let mode = (case map_of cfg ''mode'' of None \<Rightarrow> lc_name lc | Some v \<Rightarrow> py_str v);
         run_id = inst @ ''-'' @ mode @ ''-'' @ show_int \<lfloor>t\<rfloor>; file = ''run-'' @ run_id @ ''.log'' in
     io_bind (live h (lc_tag lc)) (\<lambda>up.
     io_bind (io_ask (\<lambda>w. (bw_server w, bw_zone w))) (\<lambda>(sv, zone).
     io_bind (io_res (res_bind (user_data_blob h lc sv cfg ip run_id) (guest_kwargs h dv (lc_tag lc) (lc_name lc) inst))) (\<lambda>kw.
     io_bind (guest_run h 15 (\<lambda>s. s) kw (dv_market dv) zone (logs @ ''/'' @ file) (dv_cap dv)) (\<lambda>(text, iid, reclaimed, mk, zn).
     io_res (linux_row (lc_metrics lc) text file iid reclaimed mk zn))))))"

definition s3_class :: "'w linux_class" where
  "s3_class = \<lparr>lc_name = ''linux-s3'', lc_path = ''competitors/linux-s3'', lc_scripts = ''competitors/linux-s3/scripts'',
     lc_tag = ''linux-s3-bench'', lc_metrics = linux_s3_metrics, lc_conf = s3_conf\<rparr>"

text \<open>\<open>LinuxS3.__init__\<close>: nothing built, the zone the environment pins, no server.\<close>

definition fresh_bench :: "'w host \<Rightarrow> 'w \<Rightarrow> 'w bworld" where
  "fresh_bench h u = \<lparr>bw_os = u, bw_built = False,
     bw_zone = (if env_get h ''BENCH_ZONE'' [] \<noteq> [] then h_env h ''BENCH_ZONE'' else None),
     bw_server = None, bw_checked = [], bw_bin_ready = False\<rparr>"

text \<open>An operation of the model as the sweep calls it: its effects are those of the host.\<close>

definition bench_call :: "('w, 'a) g \<Rightarrow> 'w bworld \<Rightarrow> (exn + 'a) \<times> 'w bworld" where
  "bench_call m w = (case m w of (r, w', _) \<Rightarrow> (r, w'))"

definition one_row :: "('w, row) g \<Rightarrow> ('w, row list) g" where
  "one_row m = io_bind m (\<lambda>r. io_ret [r])"

definition linux_s3 :: "'w host \<Rightarrow> driver \<Rightarrow> 'w bworld bench" where
  "linux_s3 h dv = \<lparr>b_name = ''linux-s3'', b_os = ''linux'', b_knobs = parsers s3_knobs, b_defaults = s3_defaults,
     b_build = (\<lambda>cfg ip. bench_call (s3_build h s3_class)),
     b_run = (\<lambda>inst logs cfg ip. bench_call (one_row (linux_run_once h s3_class dv inst logs cfg ip))),
     b_valid = bench_valid, b_summary = bench_summary, b_headline = ''gbps'', b_best_is_max = True, b_unit = ''Gbps''\<rparr>"

section \<open>Servers of a point\<close>

text \<open>The part of \<open>build\<close> that \<open>AnyBlob\<close> and \<open>WrkHttp\<close> share: check the server dialled by hand, or launch this point's own.\<close>

definition settle_server :: "'w host \<Rightarrow> driver \<Rightarrow> pyval dict \<Rightarrow> string \<Rightarrow> ('w, unit) g" where
  "settle_server h dv cfg ip =
     (let bench_zone = (if env_get h ''BENCH_ZONE'' [] \<noteq> [] then h_env h ''BENCH_ZONE'' else None) in
      if \<not> truthy (dict_get cfg ''server'')
      then io_seq (verify_external h ip (h_env h ''BENCH_ZONE'')) (put_world (\<lambda>w. w\<lparr>bw_zone := bench_zone\<rparr>))
      else io_seq (next_server h (py_str (dict_get cfg ''server'')) (dv_instance dv))
        (put_world (\<lambda>w. w\<lparr>bw_zone := (case bw_server w of Some sv \<Rightarrow> sv_zone sv | None \<Rightarrow> bw_zone w)\<rparr>)))"

definition server_cells :: "server \<Rightarrow> pyval dict" where
  "server_cells sv = [(''server_id'', opt_cell (sv_iid sv)), (''server_zone'', opt_cell (sv_zone sv)), (''target_ip'', opt_cell (sv_ip sv))]"

section \<open>anyblob\<close>

definition lower :: "char \<Rightarrow> char" where
  "lower c = (if 65 \<le> (of_char c :: nat) \<and> (of_char c :: nat) \<le> 90 then char_of (of_char c + 32 :: nat) else c)"

definition flag :: cast where
  "flag v = Inr (PInt (if map lower (strip v) \<in> {''1'', ''true'', ''yes'', ''pinned'', ''pin''} then 1 else 0))"

definition anyblob_knobs :: "knob_spec list" where
  "anyblob_knobs = [
     (''workers'', Some ''BENCH_WORKERS'', as_size),
     (''conns'', Some ''BENCH_CONNS_PER_WORKER'', as_size),
     (''block'', Some ''BENCH_BLOCK_SIZE'', as_size),
     (''blocks'', Some ''BENCH_BLOCKS'', as_size),
     (''chunk'', Some ''BENCH_CHUNK'', as_size),
     (''pin'', Some ''BENCH_PIN'', flag),
     (''scheme'', Some ''BENCH_SCHEME'', as_str),
     (''url'', Some ''BENCH_URL'', as_str),
     (''cpus'', Some ''BENCH_CPUS'', as_int),
     (''mode'', Some ''MODE'', as_str),
     (''server'', Some ''BENCH_SERVER'', as_str)]"

definition anyblob_defaults :: "pyval dict" where
  "anyblob_defaults = [(''workers'', PInt 0), (''conns'', PInt 24), (''block'', PInt (128 * 2 ^ 20)), (''blocks'', PInt 0),
     (''chunk'', PInt (64 * 2 ^ 10)), (''pin'', PInt 0), (''scheme'', PStr ''https''), (''url'', PStr []),
     (''cpus'', PInt 0), (''mode'', PStr ''stock''), (''server'', PStr [])]"

text \<open>\<open>s.replace(p, q)\<close> for a pattern that is not empty; the number counts characters still to be skipped.\<close>

fun str_replace :: "string \<Rightarrow> string \<Rightarrow> nat \<Rightarrow> string \<Rightarrow> string" where
  "str_replace p q n [] = []"
| "str_replace p q (Suc n) (c # s) = str_replace p q n s"
| "str_replace p q 0 (c # s) = (if starts_with p (c # s) then q @ str_replace p q (length p - 1) s else c # str_replace p q 0 s)"

definition target_ip :: "server option \<Rightarrow> string \<Rightarrow> string option" where
  "target_ip sv ip = (case sv of Some s \<Rightarrow> sv_ip s | None \<Rightarrow> Some ip)"

definition anyblob_conf :: "'w host \<Rightarrow> server option \<Rightarrow> pyval dict \<Rightarrow> string \<Rightarrow> string \<Rightarrow> (string \<times> string) list res" where
  "anyblob_conf h sv cfg ip run_id =
     res_bind (of_option TypeErr (target_ip sv ip)) (\<lambda>target.
     res_bind (bucket_conf h) (\<lambda>bk.
     res_bind (knob cfg ''workers'') (\<lambda>workers. res_bind (knob cfg ''cpus'') (\<lambda>cpus.
     res_bind (str_knobs cfg [(''BENCH_CONNS_PER_WORKER'', ''conns''), (''BENCH_BLOCK_SIZE'', ''block''), (''BENCH_BLOCKS'', ''blocks''),
       (''BENCH_CHUNK'', ''chunk''), (''BENCH_PIN'', ''pin''), (''BENCH_SCHEME'', ''scheme'')]) (\<lambda>ks.
     res_bind (str_knobs cfg [(''BENCH_CPUS'', ''cpus''), (''MODE'', ''mode'')]) (\<lambda>ks'.
     Inr (bk @ [(''AWS_BUCKET_SIZE'', env_get h ''AWS_BUCKET_SIZE'' ''10G''), (''AWS_TARGET_IP'', target),
         (''BENCH_WORKERS'', py_str (py_or (py_or workers cpus) (PInt 16)))] @ ks
       @ [(''BENCH_URL'', str_replace ''HOST'' target 0 (knob_or_empty cfg ''url''))] @ ks' @ [(''RUN_ID'', run_id)])))))))"

definition anyblob_class :: "'w linux_class" where
  "anyblob_class = \<lparr>lc_name = ''anyblob'', lc_path = ''competitors/anyblob'', lc_scripts = ''competitors/anyblob/scripts'',
     lc_tag = ''anyblob-bench'', lc_metrics = anyblob_metrics, lc_conf = anyblob_conf\<rparr>"

definition anyblob_build :: "'w host \<Rightarrow> driver \<Rightarrow> pyval dict \<Rightarrow> string \<Rightarrow> ('w, unit) g" where
  "anyblob_build h dv cfg ip =
     io_seq (s3_build h anyblob_class)
       (if truthy (dict_get cfg ''url'') then settle_server h dv cfg ip else io_ret ())"

definition anyblob_run_once :: "'w host \<Rightarrow> driver \<Rightarrow> string \<Rightarrow> string \<Rightarrow> pyval dict \<Rightarrow> string \<Rightarrow> ('w, row) g" where
  "anyblob_run_once h dv inst logs cfg ip =
     io_bind (io_ask bw_server) (\<lambda>sv.
     io_bind (linux_run_once h anyblob_class dv inst logs cfg (case target_ip sv ip of Some t \<Rightarrow> t | None \<Rightarrow> [])) (\<lambda>row.
     io_ret (case sv of
         Some s \<Rightarrow> dict_merge row (server_cells s)
       | None \<Rightarrow> if truthy (dict_get cfg ''url'')
           then dict_merge row [(''server_zone'', PStr (env_get h ''BENCH_ZONE'' [])), (''target_ip'', PStr ip)] else row)))"

definition anyblob_valid :: "row \<Rightarrow> bool res" where
  "anyblob_valid r = res_bind (bench_valid r) (\<lambda>v. Inr (v \<and> py_eq (py_or (dict_get r ''hdr_bad'') (PInt 0)) (PInt 0)))"

definition anyblob_summary :: "row \<Rightarrow> string" where
  "anyblob_summary r =
     shown r ''gbps'' @ '' Gbps, '' @ shown r ''workers_actual'' @ '' workers, ''
     @ shown r ''conns_clean'' @ ''/'' @ shown r ''conns_total'' @ '' requests ok''
     @ (if dict_get r ''cores_avg'' \<noteq> PNone then '', '' @ shown r ''cores_avg'' @ '' cores'' else [])
     @ (if dict_get r ''gbps_wire_steady'' \<noteq> PNone then '', wire steady '' @ shown r ''gbps_wire_steady'' else [])"

definition anyblob :: "'w host \<Rightarrow> driver \<Rightarrow> 'w bworld bench" where
  "anyblob h dv = \<lparr>b_name = ''anyblob'', b_os = ''anyblob'', b_knobs = parsers anyblob_knobs, b_defaults = anyblob_defaults,
     b_build = (\<lambda>cfg ip. bench_call (anyblob_build h dv cfg ip)),
     b_run = (\<lambda>inst logs cfg ip. bench_call (one_row (anyblob_run_once h dv inst logs cfg ip))),
     b_valid = anyblob_valid, b_summary = anyblob_summary, b_headline = ''gbps'', b_best_is_max = True, b_unit = ''Gbps''\<rparr>"

section \<open>linux-http\<close>

definition wrk_knobs :: "knob_spec list" where
  "wrk_knobs = [
     (''threads'', Some ''BENCH_THREADS'', as_int),
     (''conns'', Some ''BENCH_CONNS'', as_int),
     (''conns_per_cpu'', Some ''BENCH_CONNS_PER_CPU'', as_int),
     (''duration'', Some ''BENCH_DURATION'', as_int),
     (''block'', Some ''BENCH_BLOCK_SIZE'', as_size),
     (''close'', Some ''BENCH_CLOSE'', as_str),
     (''cpus'', Some ''BENCH_CPUS'', as_int),
     (''mode'', Some ''MODE'', as_str),
     (''server'', Some ''BENCH_SERVER'', as_str)]"

definition wrk_defaults :: "pyval dict" where
  "wrk_defaults = [(''threads'', PInt 8), (''conns'', PInt 128), (''conns_per_cpu'', PInt 0), (''duration'', PInt 30),
     (''block'', PInt (128 * 2 ^ 20)), (''close'', PStr ''1''), (''server'', PStr ''c6in.8xlarge''), (''cpus'', PInt 0),
     (''mode'', PStr ''stock'')]"

definition wrk_target :: "server option \<Rightarrow> string \<Rightarrow> string res" where
  "wrk_target sv ip = (case target_ip sv ip of
     Some t \<Rightarrow> if t = [] then Inl (OtherExn ''AssertionError'') else Inr t
   | None \<Rightarrow> Inl (OtherExn ''AssertionError''))"

text \<open>\<open>cfg["conns_per_cpu"] * cfg["cpus"]\<close> when both are given, else \<open>cfg["conns"]\<close>.\<close>

definition wrk_conns :: "pyval dict \<Rightarrow> string res" where
  "wrk_conns cfg =
     (if truthy (dict_get cfg ''conns_per_cpu'') \<and> truthy (dict_get cfg ''cpus'')
      then (case (dict_get cfg ''conns_per_cpu'', dict_get cfg ''cpus'') of
          (PInt a, PInt b) \<Rightarrow> Inr (show_int (a * b)) | _ \<Rightarrow> Inl TypeErr)
      else knob_str cfg ''conns'')"

definition wrk_conf :: "'w host \<Rightarrow> server option \<Rightarrow> pyval dict \<Rightarrow> string \<Rightarrow> string \<Rightarrow> (string \<times> string) list res" where
  "wrk_conf h sv cfg ip run_id =
     res_bind (wrk_target sv ip) (\<lambda>target.
     res_bind (bucket_conf h) (\<lambda>bk.
     res_bind (str_knobs cfg [(''BENCH_THREADS'', ''threads'')]) (\<lambda>ks.
     res_bind (wrk_conns cfg) (\<lambda>conns.
     res_bind (str_knobs cfg [(''BENCH_DURATION'', ''duration''), (''BENCH_BLOCK_SIZE'', ''block'')]) (\<lambda>ks'.
     res_bind (size_of (env_get h ''AWS_BUCKET_SIZE'' ''10G'')) (\<lambda>obj.
     res_bind (str_knobs cfg [(''BENCH_CLOSE'', ''close''), (''BENCH_CPUS'', ''cpus''), (''MODE'', ''mode'')]) (\<lambda>ks''.
     Inr (bk @ [(''AWS_TARGET_IP'', target)] @ ks @ [(''BENCH_CONNS'', conns)] @ ks'
       @ [(''BENCH_OBJECT_SIZE'', show_int obj)] @ ks'' @ [(''RUN_ID'', run_id)]))))))))"

definition wrk_class :: "'w linux_class" where
  "wrk_class = \<lparr>lc_name = ''linux-http'', lc_path = ''competitors/linux-http'', lc_scripts = ''competitors/linux-http/scripts'',
     lc_tag = ''miniosv-linux-http-bench'', lc_metrics = linux_http_metrics, lc_conf = wrk_conf\<rparr>"

definition wrk_build :: "'w host \<Rightarrow> driver \<Rightarrow> pyval dict \<Rightarrow> string \<Rightarrow> ('w, unit) g" where
  "wrk_build h dv cfg ip = io_seq (s3_build h wrk_class) (settle_server h dv cfg ip)"

definition wrk_run_once :: "'w host \<Rightarrow> driver \<Rightarrow> string \<Rightarrow> string \<Rightarrow> pyval dict \<Rightarrow> string \<Rightarrow> ('w, row) g" where
  "wrk_run_once h dv inst logs cfg ip =
     io_bind (io_ask bw_server) (\<lambda>sv.
     io_bind (io_res (wrk_target sv ip)) (\<lambda>target.
     io_bind (linux_run_once h wrk_class dv inst logs cfg target) (\<lambda>row.
     io_ret (case sv of
         Some s \<Rightarrow> dict_merge row (server_cells s)
       | None \<Rightarrow> dict_merge row [(''server_zone'', PStr (env_get h ''BENCH_ZONE'' [])), (''target_ip'', PStr target)]))))"

definition wrk_valid :: "row \<Rightarrow> bool res" where
  "wrk_valid r = Inr (truthy (dict_get r ''complete'') \<and>
     \<not> list_ex (\<lambda>k. truthy (dict_get r k)) [''non2xx'', ''sock_err_connect'', ''sock_err_read'', ''sock_err_timeout''])"

definition wrk_summary :: "row \<Rightarrow> string" where
  "wrk_summary r = shown r ''gbps'' @ '' Gbps, '' @ shown r ''rps'' @ '' req/s, p50 '' @ shown r ''lat_p50_ms'' @ '' ms, p99 ''
     @ shown r ''lat_p99_ms'' @ '' ms, '' @ shown r ''cpu_cores'' @ '' cores busy''"

definition wrk_http :: "'w host \<Rightarrow> driver \<Rightarrow> 'w bworld bench" where
  "wrk_http h dv = \<lparr>b_name = ''linux-http'', b_os = ''linux'', b_knobs = parsers wrk_knobs, b_defaults = wrk_defaults,
     b_build = (\<lambda>cfg ip. bench_call (wrk_build h dv cfg ip)),
     b_run = (\<lambda>inst logs cfg ip. bench_call (one_row (wrk_run_once h dv inst logs cfg ip))),
     b_valid = wrk_valid, b_summary = wrk_summary, b_headline = ''gbps'', b_best_is_max = True, b_unit = ''Gbps''\<rparr>"

end
