(* ===== verification/BenchMiniosv.thy ===== *)
theory BenchMiniosv
  imports BenchLinux
begin

text \<open>
  The benches whose client is the miniOSv unikernel, \<^verbatim>\<open>smoltcp-s3/bench.py\<close> here: the deploy they
  share with \<^verbatim>\<open>duckdb-tpch/bench.py\<close> (start \<open>just deploy\<close>, find the instance in its log, wait for the
  guest's verdict, terminate, let the deploy tear down), and the bench itself.
\<close>

section \<open>A deploy\<close>

text \<open>
  \<open>just deploy\<close> runs in a session of its own and writes to the log. The loops are bounded in the code:
  1500 looks for the instance, one look a second for the verdict up to the vm cap.
\<close>

definition deployed_rx :: rx where
  "deployed_rx = re ''Instance running: (i-[0-9a-f]+)''"

definition spot_rx :: rx where
  "spot_rx = re ''^spot requested but not provided: .*''"

definition deploy_log :: "'w host \<Rightarrow> string \<Rightarrow> ('w, string) g" where
  "deploy_log h file = on_host (\<lambda>u. case h_read h file u of (r, u') \<Rightarrow> (r, u', []))"

definition exited :: "'w host \<Rightarrow> int \<Rightarrow> ('w, bool) g" where
  "exited h pid = on_host (\<lambda>u. case h_poll h pid u of (r, u') \<Rightarrow> (Inr (r \<noteq> None), u', []))"

fun await_instance :: "nat \<Rightarrow> 'w host \<Rightarrow> int \<Rightarrow> string \<Rightarrow> ('w, string option) g" where
  "await_instance 0 h pid file = io_ret None"
| "await_instance (Suc n) h pid file =
     io_bind (deploy_log h file) (\<lambda>text. case rx_search deployed_rx text of
       Some m \<Rightarrow> io_ret (group 1 m)
     | None \<Rightarrow> io_bind (exited h pid) (\<lambda>gone.
         if gone then io_ret None else io_seq (nap h 1) (await_instance n h pid file)))"

text \<open>The result is whether the guest was seen dead, by a pattern only \<open>duckdb-tpch\<close> looks for.\<close>

definition rx_found :: "rx option \<Rightarrow> string \<Rightarrow> bool" where
  "rx_found r s = (case r of None \<Rightarrow> False | Some x \<Rightarrow> rx_search x s \<noteq> None)"

fun await_verdict :: "nat \<Rightarrow> 'w host \<Rightarrow> rx option \<Rightarrow> int \<Rightarrow> string \<Rightarrow> ('w, bool) g" where
  "await_verdict 0 h crash pid file = io_ret False"
| "await_verdict (Suc n) h crash pid file =
     io_bind (deploy_log h file) (\<lambda>text.
       if rx_search verdict_rx text \<noteq> None then io_ret False
       else if rx_found crash text then io_ret True
       else io_bind (exited h pid) (\<lambda>gone.
         if gone then io_ret False else io_seq (nap h 1) (await_verdict n h crash pid file)))"

definition signal_group :: "'w host \<Rightarrow> int \<Rightarrow> string \<Rightarrow> ('w, unit) g" where
  "signal_group h pid sig = on_host (io_call (SigGroup pid sig) (\<lambda>u. (Inr (), h_killpg h pid sig u)))"

definition tear_down :: "'w host \<Rightarrow> int \<Rightarrow> ('w, unit) g" where
  "tear_down h pid =
     io_seq (signal_group h pid ''SIGINT'')
     (io_bind (on_host (io_call (WaitFor pid 75) (\<lambda>u. case h_wait h pid 75 u of (b, u') \<Rightarrow> (Inr b, u')))) (\<lambda>finished.
       io_when (\<not> finished) (signal_group h pid ''SIGKILL'')))"

definition watch_deploy :: "'w host \<Rightarrow> rx option \<Rightarrow> int \<Rightarrow> int \<Rightarrow> string \<Rightarrow> string option \<Rightarrow> ('w, bool \<times> bool) g" where
  "watch_deploy h crash cap pid file iid =
     (case iid of
        None \<Rightarrow> io_ret (False, False)
      | Some i \<Rightarrow> io_bind (await_verdict (nat cap) h crash pid file) (\<lambda>dead.
          io_bind (put_down h i) (\<lambda>reclaimed. io_ret (reclaimed, dead))))"

text \<open>The log at the end; one that names a refused spot launch ends the run.\<close>

definition measured_log :: "'w host \<Rightarrow> string \<Rightarrow> ('w, string) g" where
  "measured_log h file =
     io_bind (deploy_log h file) (\<lambda>text. case rx_search spot_rx text of
         Some m \<Rightarrow> sys_exit (m_text m)
       | None \<Rightarrow> io_ret text)"

definition deploy_run :: "'w host \<Rightarrow> rx option \<Rightarrow> int \<Rightarrow> string list \<Rightarrow> string \<Rightarrow> ('w, string \<times> bool \<times> bool) g" where
  "deploy_run h crash cap cmd file =
     io_bind (on_host (io_call (Deploy cmd file) (h_spawn h cmd file))) (\<lambda>pid.
     io_bind (await_instance 1500 h pid file) (\<lambda>iid.
     io_bind (watch_deploy h crash cap pid file iid) (\<lambda>(reclaimed, dead).
     io_seq (tear_down h pid)
     (io_bind (measured_log h file) (\<lambda>text. io_ret (text, reclaimed, dead))))))"

section \<open>smoltcp-s3\<close>

definition smoltcp_knobs :: "knob_spec list" where
  "smoltcp_knobs = [
     (''workers'', Some ''BENCH_WORKERS'', as_size),
     (''conns'', Some ''BENCH_CONNS_PER_WORKER'', as_size),
     (''block'', Some ''BENCH_BLOCK_SIZE'', as_size),
     (''rxdesc'', Some ''BENCH_RX_DESC'', as_size),
     (''blocks'', Some ''BENCH_BLOCKS_PER_WORKER'', as_size),
     (''redial'', Some ''BENCH_SYN_REDIAL_MS'', as_size),
     (''server'', Some ''BENCH_SERVER'', as_str)]"

definition smoltcp_defaults :: "pyval dict" where
  "smoltcp_defaults = [(''workers'', PInt 8), (''conns'', PInt 24), (''block'', PInt (128 * 2 ^ 20)), (''rxdesc'', PInt 0),
     (''blocks'', PInt 0), (''redial'', PInt 0), (''server'', PStr [])]"

definition knob_env :: "knob_spec list \<Rightarrow> string \<times> pyval \<Rightarrow> (string \<times> string) res" where
  "knob_env ks = (\<lambda>(k, v). res_bind (of_option (KeyErr k) (map_of ks k)) (\<lambda>(var, _).
     res_bind (of_option TypeErr var) (\<lambda>n. Inr (n, py_str v))))"

text \<open>The variables the build gets over the environment.\<close>

definition smoltcp_env :: "pyval dict \<Rightarrow> string \<Rightarrow> (string \<times> string) list res" where
  "smoltcp_env cfg ip = res_bind (res_list (knob_env smoltcp_knobs) cfg) (\<lambda>kvs. Inr (dict_merge [(''AWS_TARGET_IP'', ip)] kvs))"

definition smoltcp_build :: "'w host \<Rightarrow> driver \<Rightarrow> pyval dict \<Rightarrow> string \<Rightarrow> ('w, unit) g" where
  "smoltcp_build h dv cfg ip =
     io_bind (if truthy (dict_get cfg ''server'')
         then next_server h (py_str (dict_get cfg ''server'')) (dv_instance dv)
         else io_seq (verify_external h ip (h_env h ''BENCH_ZONE'')) (io_ret ip)) (\<lambda>target.
     io_bind (io_res (smoltcp_env cfg target)) (\<lambda>env.
     run_or_exit h [''just'', ''build'', ''apps/bench/smoltcp-s3'', ''-j'' @ show_nat (h_cpus h)] env ''build failed''))"

definition smoltcp_valid :: "bool \<Rightarrow> row \<Rightarrow> bool res" where
  "smoltcp_valid has_server r = bench_valid (if has_server then dict_set ''setup_us_max'' (PInt 0) r else r)"

definition deploy_args :: "'w host \<Rightarrow> server option \<Rightarrow> string \<Rightarrow> string \<Rightarrow> string list res" where
  "deploy_args h sv inst market =
     res_bind (case sv of None \<Rightarrow> Inr [] | Some s \<Rightarrow> res_bind (of_option TypeErr (sv_zone s)) (\<lambda>z. Inr [''--zone'', z])) (\<lambda>zone.
     Inr ([''just'', ''deploy'', inst, ''--market'', market] @ zone
       @ (if env_get h ''BENCH_ENIS'' [] \<noteq> [] then [''--enis'', env_get h ''BENCH_ENIS'' []] else [])
       @ (if env_get h ''BENCH_ZONE'' [] \<noteq> [] \<and> sv = None then [''--zone'', env_get h ''BENCH_ZONE'' []] else [])))"

definition smoltcp_row :: "string \<Rightarrow> string \<Rightarrow> bool \<Rightarrow> row res" where
  "smoltcp_row text file reclaimed =
     res_bind (parse smoltcp_s3_metrics text) (\<lambda>row.
     Inr (dict_merge row [(''complete'', PBool (rx_search complete_rx text \<noteq> None)), (''log'', PStr file),
       (''interrupted'', PBool reclaimed)]))"

definition smoltcp_deploy :: "'w host \<Rightarrow> driver \<Rightarrow> string \<Rightarrow> string \<Rightarrow> ('w, row) g" where
  "smoltcp_deploy h dv inst logs =
     io_bind (host_now h) (\<lambda>t.
     let file = ''deploy-'' @ inst @ ''-'' @ show_int \<lfloor>t\<rfloor> @ ''.log'' in
     io_bind (live h ''miniosv-loader-*'') (\<lambda>up.
     io_bind (io_ask bw_server) (\<lambda>sv.
     io_bind (io_res (deploy_args h sv inst (dv_market dv))) (\<lambda>cmd.
     io_bind (deploy_run h None (dv_cap dv) cmd (logs @ ''/'' @ file)) (\<lambda>(text, reclaimed, dead).
     io_res (smoltcp_row text file reclaimed))))))"

definition smoltcp_run_once :: "'w host \<Rightarrow> driver \<Rightarrow> string \<Rightarrow> string \<Rightarrow> pyval dict \<Rightarrow> string \<Rightarrow> ('w, row) g" where
  "smoltcp_run_once h dv inst logs cfg ip =
     io_bind (smoltcp_deploy h dv inst logs) (\<lambda>row.
     io_bind (io_ask bw_server) (\<lambda>sv.
     io_ret (case sv of
         Some s \<Rightarrow> dict_merge row (server_cells s)
       | None \<Rightarrow> if env_get h ''BENCH_ZONE'' [] \<noteq> []
           then dict_merge row [(''server_zone'', PStr (env_get h ''BENCH_ZONE'' [])), (''target_ip'', PStr ip)] else row)))"

text \<open>
  The bench. Its gate asks whether it holds a server; that is fixed by the first build unless the axis
  is \<open>server\<close> itself, and is an argument here.
\<close>

definition smoltcp_s3 :: "bool \<Rightarrow> 'w host \<Rightarrow> driver \<Rightarrow> 'w bworld bench" where
  "smoltcp_s3 has_server h dv = \<lparr>b_name = ''smoltcp-s3'', b_os = ''miniosv'', b_knobs = parsers smoltcp_knobs,
     b_defaults = smoltcp_defaults,
     b_build = (\<lambda>cfg ip. bench_call (smoltcp_build h dv cfg ip)),
     b_run = (\<lambda>inst logs cfg ip. bench_call (one_row (smoltcp_run_once h dv inst logs cfg ip))),
     b_valid = smoltcp_valid has_server, b_summary = bench_summary, b_headline = ''gbps'', b_best_is_max = True, b_unit = ''Gbps''\<rparr>"

end
