(* ===== verification/Logs.thy ===== *)
theory Logs
  imports Metrics
begin

text \<open>
  Cutting the log of a boot that ran several queries into one block per query, as
  \<^verbatim>\<open>duckdb-tpch/bench.py\<close> and \<^verbatim>\<open>duckdb-linux/bench.py\<close> do: the heads are the \<open>Qnn:\<close> lines, and the
  Linux driver drops a head that echoes the one before it. Also its clean-up of cloud-init's prefixes.
\<close>

section \<open>Prefixes\<close>

definition nl :: char where
  "nl = char_of (10 :: nat)"

text \<open>\<open>sub(q, s)\<close> for a replacement without references, from position \<open>k\<close> on.\<close>

fun sub_from :: "string \<Rightarrow> nat \<Rightarrow> string \<Rightarrow> rxm list \<Rightarrow> string" where
  "sub_from q k s [] = drop k s"
| "sub_from q k s (m # ms) =
     take (length (m_before m) - k) (drop k s) @ q @ sub_from q (length (m_before m) + length (m_text m)) s ms"

definition cloud_init_rx :: rx where
  "cloud_init_rx = re ''~[[~s~d.]+~] cloud-init~[~d+~]: ''"

definition strip_cloud_init :: "string \<Rightarrow> string" where
  "strip_cloud_init s = sub_from [nl] 0 s (rx_finditer cloud_init_rx s)"

section \<open>Heads and blocks\<close>

definition head_rx :: rx where
  "head_rx = re ''^Q(~d+): ''"

definition heads_of :: "string \<Rightarrow> rxm list" where
  "heads_of text = rx_finditer head_rx text"

definition head_start :: "rxm \<Rightarrow> nat" where
  "head_start m = length (m_before m)"

definition head_line :: "string \<Rightarrow> rxm \<Rightarrow> string" where
  "head_line text m = takeWhile (\<lambda>c. c \<noteq> nl) (drop (head_start m) text)"

text \<open>\<open>for h in raw_heads: if heads and head_line(h) == head_line(heads[-1]): continue; heads.append(h)\<close>.\<close>

fun drop_echoes :: "string \<Rightarrow> rxm list \<Rightarrow> rxm list \<Rightarrow> rxm list" where
  "drop_echoes text heads [] = heads"
| "drop_echoes text heads (h # raw) =
     (if heads \<noteq> [] \<and> head_line text h = head_line text (last heads) then drop_echoes text heads raw
      else drop_echoes text (heads @ [h]) raw)"

text \<open>The block of each head: from its line to the next head's, the last one to the end.\<close>

fun blocks :: "string \<Rightarrow> rxm list \<Rightarrow> string list" where
  "blocks text [] = []"
| "blocks text (h # hs) =
     (let stop = (case hs of [] \<Rightarrow> length text | h' # _ \<Rightarrow> head_start h')
      in take (stop - head_start h) (drop (head_start h) text) # blocks text hs)"

definition head_number :: "rxm \<Rightarrow> pyval res" where
  "head_number m = res_bind (of_option TypeErr (group 1 m)) (\<lambda>s. as_int s)"

text \<open>\<open>enumerate(heads)\<close> from 1: the query, its turn, and its block.\<close>

definition numbered :: "string \<Rightarrow> rxm list \<Rightarrow> (nat \<times> rxm \<times> string) list" where
  "numbered text hs = zip [1..<Suc (length hs)] (zip hs (blocks text hs))"

section \<open>Matches come in order\<close>

lemma scan_before:
  "scan r p b s = Some m \<Longrightarrow> \<exists>u. m_before m = b @ u \<and> s = u @ m_text m @ m_after m"
  using scan_spec [where r = r and p = p and b = b and s = s] by auto

lemma iter_in_order:
  "\<forall>m \<in> set (rx_iter r p b s). (\<exists>u. m_before m = b @ u) \<and> m_before m @ m_text m @ m_after m = b @ s"
  "sorted (map head_start (rx_iter r p b s))"
proof (induction r p b s rule: rx_iter.induct)
  case (1 r p b s)
  have "(\<forall>m \<in> set (rx_iter r p b s). (\<exists>u. m_before m = b @ u) \<and> m_before m @ m_text m @ m_after m = b @ s) \<and>
     sorted (map head_start (rx_iter r p b s))"
  proof (cases "scan r p b s")
    case None
    then show ?thesis by (simp add: rx_iter.simps)
  next
    case (Some m)
    then obtain u where u: "m_before m = b @ u" "s = u @ m_text m @ m_after m" using scan_before by blast
    show ?thesis
    proof (cases "m_after m")
      case Nil
      with Some u show ?thesis by (subst (1 2) rx_iter.simps) simp
    next
      case (Cons c s')
      show ?thesis
      proof (cases "m_text m = []")
        case True
        have l: "length s' < length s" using u Cons by simp
        have it: "rx_iter r p b s = m # rx_iter r (Some c) (m_before m @ [c]) s'"
          by (subst rx_iter.simps) (simp add: Some Cons True l)
        from 1(1) [OF Some Cons True l] 1(2) [OF Some Cons True l]
        have "\<forall>x \<in> set (rx_iter r (Some c) (m_before m @ [c]) s'). (\<exists>v. m_before x = (m_before m @ [c]) @ v) \<and>
            m_before x @ m_text x @ m_after x = (m_before m @ [c]) @ s'"
          and "sorted (map head_start (rx_iter r (Some c) (m_before m @ [c]) s'))" by blast+
        with u Cons True show ?thesis unfolding it by (fastforce simp: head_start_def)
      next
        case False
        have l: "length (c # s') < length s" using u Cons False by (cases "m_text m") auto
        have it: "rx_iter r p b s = m # rx_iter r (Some (last (m_text m))) (m_before m @ m_text m) (c # s')"
          by (subst rx_iter.simps) (use Some Cons False l in simp)
        from 1(3) [OF Some Cons False l] 1(4) [OF Some Cons False l]
        have "\<forall>x \<in> set (rx_iter r (Some (last (m_text m))) (m_before m @ m_text m) (c # s')).
            (\<exists>v. m_before x = (m_before m @ m_text m) @ v) \<and> m_before x @ m_text x @ m_after x = (m_before m @ m_text m) @ c # s'"
          and "sorted (map head_start (rx_iter r (Some (last (m_text m))) (m_before m @ m_text m) (c # s')))" by blast+
        with u Cons show ?thesis unfolding it by (fastforce simp: head_start_def)
      qed
    qed
  qed
  then show "\<forall>m \<in> set (rx_iter r p b s). (\<exists>u. m_before m = b @ u) \<and> m_before m @ m_text m @ m_after m = b @ s"
    "sorted (map head_start (rx_iter r p b s))" by blast+
qed

lemma finditer_texts: "m \<in> set (rx_finditer r s) \<Longrightarrow> m_before m @ m_text m @ m_after m = s"
  using iter_in_order(1) [of r None "[]" s] by (auto simp: rx_finditer_def)

lemma finditer_sorted: "sorted (map head_start (rx_finditer r s))"
  using iter_in_order(2) [of r None "[]" s] by (simp add: rx_finditer_def)

lemma finditer_bound: "m \<in> set (rx_finditer r s) \<Longrightarrow> head_start m \<le> length s"
  using finditer_texts [of m r s] by (auto simp: head_start_def)

section \<open>Blocks partition the log\<close>

lemma concat_blocks:
  "sorted (map head_start hs) \<Longrightarrow> \<forall>h \<in> set hs. head_start h \<le> length text \<Longrightarrow> hs \<noteq> [] \<Longrightarrow>
   concat (blocks text hs) = drop (head_start (hd hs)) text"
proof (induction hs)
  case (Cons h hs)
  show ?case
  proof (cases hs)
    case (Cons h' hs')
    with Cons.prems have le: "head_start h \<le> head_start h'" "head_start h' \<le> length text" by auto
    have "concat (blocks text hs) = drop (head_start h') text" using Cons.IH Cons.prems Cons by simp
    moreover have "drop (head_start h) text = take (head_start h' - head_start h) (drop (head_start h) text) @ drop (head_start h') text"
      using le by (metis append_take_drop_id drop_drop le_add_diff_inverse2)
    ultimately show ?thesis by (simp add: Cons Let_def)
  qed (simp add: Let_def)
qed simp

lemma length_blocks [simp]: "length (blocks text hs) = length hs"
  by (induction hs) (simp_all add: Let_def)

section \<open>Echoes\<close>

lemma drop_echoes_adj:
  "map (head_line text) (drop_echoes text heads raw) =
     (if heads = [] then remdups_adj (map (head_line text) raw)
      else butlast (map (head_line text) heads) @ remdups_adj (map (head_line text) (last heads # raw)))"
proof (induction raw arbitrary: heads)
  case Nil
  then show ?case by (cases heads rule: rev_cases) simp_all
next
  case (Cons h raw)
  show ?case
  proof (cases heads rule: rev_cases)
    case Nil
    then show ?thesis by (simp add: Cons.IH)
  next
    case (snoc hs l)
    then show ?thesis by (auto simp: Cons.IH butlast_append)
  qed
qed

lemma drop_echoes_subseq: "\<exists>xs. drop_echoes text heads raw = heads @ xs \<and> set xs \<subseteq> set raw \<and>
   (sorted (map head_start raw) \<longrightarrow> sorted (map head_start xs))"
proof (induction raw arbitrary: heads)
  case (Cons h raw)
  from Cons.IH [of heads] Cons.IH [of "heads @ [h]"] show ?case
    by (auto simp: subset_iff)
qed simp

end
