(* ===== verification/BenchDuckdb.thy ===== *)
theory BenchDuckdb
  imports BenchMiniosv Logs
begin

text \<open>
  The TPC-H benches: \<^verbatim>\<open>duckdb-tpch/bench.py\<close>, DuckDB on the unikernel, and \<^verbatim>\<open>duckdb-linux/bench.py\<close>,
  DuckDB on a stock Linux guest. Both answer a boot of several queries with a row per query.
\<close>

section \<open>duckdb-tpch\<close>

definition crash_rx :: rx where
  "crash_rx = re ''^(?:page fault outside application.*|Assertion failed:.*|Aborted|~[backtrace~]|sched: n==p.*)$''"

definition probe_step_names :: "string list" where
  "probe_step_names = [''dbgen'', ''range_scan'', ''hash_agg'', ''par_t1'', ''par_tall'', ''par_t1_4x'', ''par_tall_4x'',
     ''q01_local'', ''q06_local'']"

definition tpch_knobs :: "knob_spec list" where
  "tpch_knobs = [
     (''query'', None, as_query),
     (''sf'', None, as_str),
     (''threads'', None, as_int),
     (''memlimit'', None, as_str),
     (''httplog'', None, as_str),
     (''cpuprobe'', None, as_str),
     (''profile'', None, as_str),
     (''workers'', Some ''MININET_WORKERS'', as_int),
     (''conns'', Some ''MININET_CONNS'', as_int),
     (''tls'', Some ''MININET_TLS'', as_int)]"

definition tpch_defaults :: "pyval dict" where
  "tpch_defaults = [(''query'', PInt 6), (''sf'', PStr ''1''), (''threads'', PInt 0), (''memlimit'', PStr []), (''httplog'', PStr []),
     (''cpuprobe'', PStr []), (''profile'', PStr []), (''workers'', PInt 2), (''conns'', PInt 8), (''tls'', PInt 1)]"

definition duckdb_summary :: "row \<Rightarrow> string" where
  "duckdb_summary r = ''Q'' @ shown r ''query'' @ '': '' @ shown r ''query_ms'' @ '' ms, '' @ shown r ''rows'' @ '' rows, match='' @ shown r ''match''"

definition tpch_summary :: "row \<Rightarrow> string" where
  "tpch_summary r = duckdb_summary r
     @ (if dict_get r ''net_ms'' \<noteq> PNone then '', net '' @ shown r ''net_ms'' @ '' ms over '' @ shown r ''net_calls'' @ '' calls'' else [])
     @ (if dict_get r ''mb_per_s'' \<noteq> PNone then '', '' @ shown r ''mb_per_s'' @ '' MB/s/conn'' else [])
     @ (if dict_get r ''poll_gap_us_avg'' \<noteq> PNone
        then '', poll gap '' @ shown r ''poll_gap_us_avg'' @ '' us avg / '' @ shown r ''poll_gap_us_max'' @ '' us max'' else [])"

text \<open>
  \<open>require_data\<close>: botocore reports a HEAD that found nothing as code 404, and the code is all of the
  response's status that is modelled.
\<close>

definition tpch_key :: "string \<Rightarrow> string" where
  "tpch_key sf = ''tpch/sf'' @ sf @ ''/lineitem.parquet''"

definition error_code :: "exn \<Rightarrow> string" where
  "error_code e = (case e of ClientError (Some c) _ \<Rightarrow> c | _ \<Rightarrow> [])"

definition no_data :: "'w host \<Rightarrow> string \<Rightarrow> string \<Rightarrow> exn \<Rightarrow> exn" where
  "no_data h bucket sf e =
     (if error_code e \<notin> {''404'', ''NoSuchKey'', ''NotFound''}
      then SystemExit (''could not check s3://'' @ bucket @ ''/'' @ tpch_key sf @ '': '' @ error_text (h_ec2 h) e)
      else SystemExit (''no TPC-H data at sf='' @ sf @ '' in s3://'' @ bucket @ '' (looked for '' @ tpch_key sf @ '').''))"

definition require_data :: "'w host \<Rightarrow> string \<Rightarrow> string \<Rightarrow> ('w, unit) g" where
  "require_data h bucket sf =
     io_bind (io_ask bw_checked) (\<lambda>checked.
     if sf \<in> set checked then io_ret ()
     else io_seq
       (io_catch (io_bind (io_res (need_env h ''AWS_REGION'')) (\<lambda>_. on_host (io_call (HeadObject (tpch_key sf)) (h_head h (tpch_key sf)))))
         (\<lambda>e. if is_system_exit e then None else Some (io_raise (no_data h bucket sf e))))
       (put_world (\<lambda>w. w\<lparr>bw_checked := sf # bw_checked w\<rparr>)))"

definition is_one :: "pyval dict \<Rightarrow> string \<Rightarrow> bool" where
  "is_one cfg k \<longleftrightarrow> knob_or_empty cfg k = ''1''"

definition boot_args :: "pyval dict \<Rightarrow> string res" where
  "boot_args cfg =
     (if is_one cfg ''cpuprobe'' then Inr ''cpuprobe''
      else res_bind (knob_str cfg ''sf'') (\<lambda>sf. res_bind (knob_str cfg ''query'') (\<lambda>query.
       Inr (''tpch --sf '' @ sf
         @ (if truthy (dict_get cfg ''threads'') then '' --threads '' @ py_str (dict_get cfg ''threads'') else [])
         @ (if truthy (dict_get cfg ''memlimit'') then '' --memlimit '' @ py_str (dict_get cfg ''memlimit'') else [])
         @ (if is_one cfg ''httplog'' then '' --httplog'' else []) @ (if is_one cfg ''profile'' then '' --profile'' else [])
         @ '' '' @ query))))"

definition setargs :: "'w host \<Rightarrow> pyval dict \<Rightarrow> ('w, unit) g" where
  "setargs h cfg =
     io_bind (io_res (boot_args cfg)) (\<lambda>args.
     run_or_exit h [h_python h, h_root h @ ''/miniosv/scripts/setargs.py'', h_root h @ ''/miniosv/build/release.x64/loader.img'', args]
       [] ''setargs failed'')"

definition tpch_env :: "'w host \<Rightarrow> pyval dict \<Rightarrow> string \<Rightarrow> string \<Rightarrow> string \<Rightarrow> (string \<times> string) list res" where
  "tpch_env h cfg bucket region ip =
     res_bind (str_knobs cfg [(''MININET_WORKERS'', ''workers''), (''MININET_CONNS'', ''conns''), (''MININET_TLS'', ''tls'')]) (\<lambda>ks.
     Inr ([(''MININET_HOST'', bucket @ ''.s3.'' @ region @ ''.amazonaws.com''), (''MININET_ADDR'', ip)] @ ks))"

definition tpch_build :: "'w host \<Rightarrow> pyval dict \<Rightarrow> string \<Rightarrow> ('w, unit) g" where
  "tpch_build h cfg ip =
     io_bind (io_res (need_env h ''AWS_BUCKET'')) (\<lambda>bucket.
     io_bind (io_res (need_env h ''AWS_REGION'')) (\<lambda>region.
     io_bind (io_res (knob_str cfg ''sf'')) (\<lambda>sf.
     io_seq (require_data h bucket sf)
     (io_bind (io_res (tpch_env h cfg bucket region ip)) (\<lambda>env.
     io_seq (run_or_exit h [''make'', ''-C'', h_root h @ ''/miniosv'', ''app='' @ h_root h @ ''/apps/bench/duckdb-tpch'',
         ''-j'' @ show_nat (h_cpus h)] env ''build failed'')
       (setargs h cfg))))))"

definition turn_cells :: "(pyval \<times> nat) option \<Rightarrow> pyval dict" where
  "turn_cells q = (case q of None \<Rightarrow> [] | Some (n, seq) \<Rightarrow> [(''query'', n), (''query_seq'', PInt (int seq))])"

definition tpch_finish :: "bool \<Rightarrow> bool \<Rightarrow> string \<Rightarrow> bool \<Rightarrow> row \<Rightarrow> (pyval \<times> nat) option \<Rightarrow> row" where
  "tpch_finish whole crashed file reclaimed row q =
     dict_merge row ([(''complete'', PBool whole), (''crashed'', PBool crashed), (''log'', PStr file),
       (''interrupted'', PBool reclaimed)] @ turn_cells q)"

text \<open>One head or none: the whole log is a row. Otherwise a row per block.\<close>

definition rows_of_log :: "metrics \<Rightarrow> string \<Rightarrow> rxm list \<Rightarrow> (row \<Rightarrow> (pyval \<times> nat) option \<Rightarrow> row) \<Rightarrow> row list res" where
  "rows_of_log ms text heads fin =
     (if length heads \<le> 1 then res_bind (parse ms text) (\<lambda>row. Inr [fin row None])
      else res_list (\<lambda>(i, h, block). res_bind (parse ms block) (\<lambda>row. res_bind (head_number h) (\<lambda>n. Inr (fin row (Some (n, i))))))
        (numbered text heads))"

definition tpch_rows :: "string \<Rightarrow> string \<Rightarrow> bool \<Rightarrow> bool \<Rightarrow> row list res" where
  "tpch_rows text file reclaimed dead =
     rows_of_log duckdb_tpch_metrics text (heads_of text)
       (tpch_finish (rx_search complete_rx text \<noteq> None) (dead \<or> rx_search crash_rx text \<noteq> None) file reclaimed)"

definition tpch_run_once :: "'w host \<Rightarrow> driver \<Rightarrow> string \<Rightarrow> string \<Rightarrow> pyval dict \<Rightarrow> ('w, row list) g" where
  "tpch_run_once h dv inst logs cfg =
     io_seq (setargs h cfg)
     (io_bind (host_now h) (\<lambda>t.
     let file = ''deploy-'' @ inst @ ''-'' @ show_int \<lfloor>t\<rfloor> @ ''.log'' in
     io_bind (live h ''miniosv-loader-*'') (\<lambda>up.
     io_bind (deploy_run h (Some crash_rx) (dv_cap dv) [''just'', ''deploy'', inst, ''--market'', dv_market dv] (logs @ ''/'' @ file))
       (\<lambda>(text, reclaimed, dead). io_res (tpch_rows text file reclaimed dead)))))"

definition tpch_valid :: "row \<Rightarrow> bool res" where
  "tpch_valid r = Inr
     (if \<not> truthy (dict_get r ''complete'') then False
      else if \<not> is_one r ''cpuprobe'' \<and> dict_get r ''query_ms'' = PNone then False
      else if is_one r ''cpuprobe''
      then dict_get r ''probe_failed'' = PNone \<and> py_eq (dict_get r ''cpuprobe_ok'') (PInt (int (length probe_step_names)))
      else \<not> py_eq (dict_get r ''match'') (PStr ''no''))"

definition duckdb_tpch :: "'w host \<Rightarrow> driver \<Rightarrow> 'w bworld bench" where
  "duckdb_tpch h dv = \<lparr>b_name = ''duckdb-tpch'', b_os = ''miniosv'', b_knobs = parsers tpch_knobs, b_defaults = tpch_defaults,
     b_build = (\<lambda>cfg ip. bench_call (tpch_build h cfg ip)),
     b_run = (\<lambda>inst logs cfg ip. bench_call (tpch_run_once h dv inst logs cfg)),
     b_valid = tpch_valid, b_summary = tpch_summary, b_headline = ''query_ms'', b_best_is_max = False, b_unit = ''ms''\<rparr>"

section \<open>duckdb-linux\<close>

definition dlinux_knobs :: "knob_spec list" where
  "dlinux_knobs = [
     (''query'', None, as_query),
     (''sf'', None, as_str),
     (''pin'', None, as_str),
     (''gro'', None, as_str),
     (''queues'', None, as_str),
     (''httplog'', None, as_str),
     (''netphase'', None, as_str),
     (''cpuprobe'', None, as_str),
     (''threads'', None, as_int),
     (''scheme'', None, as_str)]"

definition dlinux_defaults :: "pyval dict" where
  "dlinux_defaults = [(''query'', PInt 6), (''sf'', PStr ''1''), (''pin'', PStr []), (''gro'', PStr []), (''queues'', PStr []),
     (''httplog'', PStr []), (''netphase'', PStr []), (''cpuprobe'', PStr []), (''threads'', PInt 0), (''scheme'', PStr ''https'')]"

definition dlinux_conf :: "'w host \<Rightarrow> server option \<Rightarrow> pyval dict \<Rightarrow> string \<Rightarrow> string \<Rightarrow> (string \<times> string) list res" where
  "dlinux_conf h sv cfg ip run_id =
     (let pin = knob_or_empty cfg ''pin'' in
      res_bind (bucket_conf h) (\<lambda>bk. res_bind (knob_str cfg ''sf'') (\<lambda>sf. res_bind (knob_str cfg ''query'') (\<lambda>query.
      Inr (bk @ [(''BENCH_SF'', sf), (''BENCH_QUERIES'', join '','' (words query)), (''BENCH_PIN_IP'', if pin = ''auto'' then ip else pin),
        (''BENCH_GRO'', knob_or_empty cfg ''gro''), (''BENCH_NIC_QUEUES'', knob_or_empty cfg ''queues''),
        (''BENCH_HTTP_LOG'', knob_or_empty cfg ''httplog''), (''BENCH_NET_PHASE'', knob_or_empty cfg ''netphase''),
        (''BENCH_CPU_PROBE'', knob_or_empty cfg ''cpuprobe''), (''BENCH_THREADS'', knob_or_empty cfg ''threads''),
        (''BENCH_SCHEME'', knob_or_empty cfg ''scheme'')])))))"

definition dlinux_class :: "'w linux_class" where
  "dlinux_class = \<lparr>lc_name = ''duckdb-linux'', lc_path = ''competitors/duckdb-linux'', lc_scripts = ''competitors/duckdb-linux/scripts'',
     lc_tag = ''duckdb-linux-bench'', lc_metrics = duckdb_linux_metrics, lc_conf = dlinux_conf\<rparr>"

definition dlinux_build :: "'w host \<Rightarrow> ('w, unit) g" where
  "dlinux_build h =
     io_bind (io_ask bw_built) (\<lambda>built.
     if built then io_ret ()
     else io_seq (run_or_exit h [''just'', ''setup'', lc_path (dlinux_class :: 'w linux_class)] [] ''setup failed:'')
       (put_world (\<lambda>w. w\<lparr>bw_built := True\<rparr>)))"

text \<open>A row's number may be recovered from the boot's summary when the boot ran one query.\<close>

definition recover_ms :: "row \<Rightarrow> row" where
  "recover_ms row =
     (if dict_get row ''query_ms'' = PNone \<and> py_eq (dict_get row ''queries_total'') (PInt 1) \<and> dict_get row ''summary_ms'' \<noteq> PNone
      then dict_merge row [(''query_ms'', dict_get row ''summary_ms''), (''query_ms_from_summary'', PBool True)] else row)"

definition dlinux_finish :: "string \<Rightarrow> string \<Rightarrow> bool \<Rightarrow> string \<Rightarrow> string \<Rightarrow> bool \<Rightarrow> row \<Rightarrow> (pyval \<times> nat) option \<Rightarrow> row" where
  "dlinux_finish mk zn whole iid file reclaimed row q =
     recover_ms (dict_merge row ([(''market'', PStr mk), (''zone'', PStr zn), (''complete'', PBool whole), (''instance_id'', PStr iid),
       (''log'', PStr file), (''interrupted'', PBool reclaimed)] @ turn_cells q))"

definition runwide_fields :: "string list" where
  "runwide_fields = [''nic_gro'', ''nic_queues'', ''nic_tune_failed'']"

definition fill_runwide :: "pyval dict \<Rightarrow> row \<Rightarrow> row" where
  "fill_runwide runwide row =
     foldl (\<lambda>r (k, v). if v \<noteq> PNone \<and> dict_get r k \<in> {PNone, PStr []} then dict_set k v r else r) row runwide"

definition dlinux_rows :: "string \<Rightarrow> string \<Rightarrow> string \<Rightarrow> bool \<Rightarrow> string \<Rightarrow> string \<Rightarrow> row list res" where
  "dlinux_rows text file iid reclaimed mk zn =
     (let fin = dlinux_finish mk zn (rx_search complete_rx text \<noteq> None) iid file reclaimed;
          heads = drop_echoes text [] (heads_of text) in
      if length heads \<le> 1 then rows_of_log duckdb_linux_metrics text heads fin
      else res_bind (parse (filter (\<lambda>(k, _). k \<in> set runwide_fields) duckdb_linux_metrics) text) (\<lambda>runwide.
        rows_of_log duckdb_linux_metrics text heads (\<lambda>row q. fill_runwide runwide (fin row q))))"

definition dlinux_run_once :: "'w host \<Rightarrow> driver \<Rightarrow> string \<Rightarrow> string \<Rightarrow> pyval dict \<Rightarrow> string \<Rightarrow> ('w, row list) g" where
  "dlinux_run_once h dv inst logs cfg ip =
     io_bind (io_res (knob_str cfg ''query'')) (\<lambda>query.
     io_bind (host_now h) (\<lambda>t.
     let file = ''run-'' @ inst @ ''-q'' @ query @ ''-'' @ show_int \<lfloor>t\<rfloor> @ ''.log'' in
     io_bind (live h (lc_tag (dlinux_class :: 'w linux_class))) (\<lambda>up.
     io_bind (io_res (res_bind (user_data_blob h dlinux_class None cfg ip [])
       (guest_kwargs h dv (lc_tag (dlinux_class :: 'w linux_class)) (lc_name (dlinux_class :: 'w linux_class)) inst))) (\<lambda>kw.
     io_bind (guest_run h 10 strip_cloud_init kw (dv_market dv) None (logs @ ''/'' @ file) (dv_cap dv)) (\<lambda>(text, iid, reclaimed, mk, zn).
     io_res (dlinux_rows text file iid reclaimed mk zn))))))"

text \<open>The gate; \<open>int(row["queues"])\<close> may raise. \<open>int\<close> cuts a float off, and takes a bool for 0 or 1.\<close>

definition int_of :: "pyval \<Rightarrow> int res" where
  "int_of v = (case v of
     PStr s \<Rightarrow> py_int s
   | PInt i \<Rightarrow> Inr i
   | PBool b \<Rightarrow> Inr (if b then 1 else 0)
   | PFloat x \<Rightarrow> Inr (if 0 \<le> x then \<lfloor>x\<rfloor> else \<lceil>x\<rceil>)
   | PNone \<Rightarrow> Inl TypeErr)"

definition queues_match :: "row \<Rightarrow> bool res" where
  "queues_match r =
     (if \<not> truthy (dict_get r ''queues'') then Inr True
      else res_bind (int_of (dict_get r ''queues'')) (\<lambda>n.
        Inr (py_eq (PInt n) (py_or (dict_get r ''nic_queues'') (PInt (- 1))))))"

definition dlinux_gate :: "row \<Rightarrow> bool res" where
  "dlinux_gate r =
     (if \<not> truthy (dict_get r ''complete'') then Inr False
      else if is_one r ''cpuprobe''
      then Inr (dict_get r ''probe_failed'' = PNone \<and> py_eq (dict_get r ''cpuprobe_ok'') (PInt 9))
      else if py_eq (dict_get r ''match'') (PStr ''no'') then Inr False
      else if dict_get r ''query_ms'' = PNone then Inr False
      else if truthy (dict_get r ''nic_tune_failed'') then Inr False
      else if truthy (dict_get r ''gro'') \<and> py_str (dict_get r ''gro'') \<noteq> py_str (dict_get r ''nic_gro'') then Inr False
      else queues_match r)"

text \<open>The bench.\<close>

definition duckdb_linux :: "'w host \<Rightarrow> driver \<Rightarrow> 'w bworld bench" where
  "duckdb_linux h dv = \<lparr>b_name = ''duckdb-linux'', b_os = ''linux'', b_knobs = parsers dlinux_knobs, b_defaults = dlinux_defaults,
     b_build = (\<lambda>cfg ip. bench_call (dlinux_build h)),
     b_run = (\<lambda>inst logs cfg ip. bench_call (dlinux_run_once h dv inst logs cfg ip)),
     b_valid = dlinux_gate, b_summary = duckdb_summary, b_headline = ''query_ms'', b_best_is_max = False, b_unit = ''ms''\<rparr>"

end
