(* ===== verification/GuestRun.thy ===== *)
theory GuestRun
  imports BenchDuckdb
begin

text \<open>
  What a run on an instance guarantees, whatever EC2, the console and the clock answer: what was
  launched is terminated, nothing else is, and the poll ends.
\<close>

section \<open>Effects of the host's operations\<close>

lemma emits_on_host [io_intros]: "emits P m \<Longrightarrow> emits P (on_host m)"
  by (rule emitsI) (auto simp: on_host_def dest: emits_run split: prod.splits)

lemma emits_api [io_intros]: "emits (\<lambda>a. P (Api a)) m \<Longrightarrow> emits P (api m)"
  unfolding api_def by (intro io_intros)

lemma emits_host_now [io_intros]: "emits P (host_now h)"
  by (rule emitsI) (auto simp: host_now_def on_host_def split: prod.splits)

lemma emits_nap [io_intros]: "P (Napped d) \<Longrightarrow> emits P (nap h d)"
  unfolding nap_def by (intro io_intros)

lemma emits_put_world [io_intros]: "emits P (put_world f)"
  by (simp add: emits_def put_world_def)

lemma emits_res [io_intros]: "emits P (io_res r)"
  by (auto simp: io_res_def split: sum.splits intro: io_intros)

lemma emits_run_cmd [io_intros]: "P (RanCmd c env) \<Longrightarrow> emits P (run_cmd_env h c env)"
  unfolding run_cmd_env_def by (intro io_intros)

lemma emits_run_or_exit [io_intros]: "P (RanCmd c env) \<Longrightarrow> emits P (run_or_exit h c env what)"
  unfolding run_or_exit_def sys_exit_def by (auto split: prod.splits intro!: io_intros)

lemma emits_live [io_intros]: "P (LiveOf tag) \<Longrightarrow> emits P (live h tag)"
  unfolding live_def by (intro io_intros)

lemma emits_log [io_intros]: "P (LogFile f s) \<Longrightarrow> emits P (write_log f s)"
  unfolding write_log_def by (intro io_intros)

lemma emits_read_console [io_intros]: "P (ReadConsole i) \<Longrightarrow> emits P (read_console h i)"
  unfolding read_console_def by (intro io_intros) (auto split: if_splits intro: io_intros)

lemma emits_poll_console [io_intros]:
  assumes "P (Napped d)" "P (ReadConsole iid)" "\<And>s. P (LogFile file s)"
  shows "emits P (poll_console n h d clean iid file deadline s)"
proof (induction n arbitrary: s)
  case (Suc n)
  then show ?case by (auto simp: Let_def intro!: io_intros assms)
qed (simp add: emits_ret)

lemma api_run: "api m w = (r, w', es) \<Longrightarrow> \<exists>u cs. m (bw_os w) = (r, u, cs) \<and> w' = w\<lparr>bw_os := u\<rparr> \<and> es = map Api cs"
  by (auto simp: api_def on_host_def io_lift_def split: prod.splits)

section \<open>Putting an instance down\<close>

definition forgiven :: "exn \<Rightarrow> bool" where
  "forgiven e \<longleftrightarrow> (case e of ClientError _ _ \<Rightarrow> True | IndexErr \<Rightarrow> True | KeyErr _ \<Rightarrow> True | _ \<Rightarrow> False)"

lemma lookup_handler_None: "lookup_handler n e = None \<longleftrightarrow> \<not> forgiven e"
  by (cases e) (simp_all add: lookup_handler_def forgiven_def)

lemma lookup_handler_Some: "lookup_handler n e = Some k \<Longrightarrow> k = n"
  by (cases e) (simp_all add: lookup_handler_def)

lemma interrupted_raises:
  assumes "interrupted c iid u = (Inl e, u', es)"
  shows "\<not> forgiven e \<and> (\<exists>v v'. ec2_describe_instances c [iid] v = (Inl e, v'))"
  using assms unfolding interrupted_def
proof (cases rule: io_catch_cases)
  case 1
  from 1(2) have "\<not> forgiven e" by (simp add: lookup_handler_None)
  with 1(1) show ?thesis
    by (auto simp: io_bind_def describe_instances_def io_call_def first_instance_def io_ret_def io_raise_def forgiven_def
        split: prod.splits sum.splits list.splits)
next
  case (2 e' n w1 cs1 cs2)
  then show ?thesis by (auto dest!: lookup_handler_Some simp: io_ret_def)
qed

lemma emits_interrupted [io_intros]: "P (DescribeInstances [iid]) \<Longrightarrow> emits P (interrupted c iid)"
  unfolding interrupted_def by (intro io_intros) (auto dest!: lookup_handler_Some intro: io_intros)

text \<open>An operation that begins with an effect, whatever comes of it.\<close>

definition begins :: "'c \<Rightarrow> ('w, 'c, 'a) io \<Rightarrow> bool" where
  "begins x m \<longleftrightarrow> (\<forall>u. \<exists>r v es. m u = (r, v, x # es))"

lemma begins_call: "begins x (io_call x f)"
  by (auto simp: begins_def io_call_def split: prod.splits)

lemma beginsI: "(\<And>u r v es. m u = (r, v, es) \<Longrightarrow> \<exists>es'. es = x # es') \<Longrightarrow> begins x m"
  unfolding begins_def by (metis prod_cases3)

lemma beginsD: "begins x m \<Longrightarrow> m u = (r, v, es) \<Longrightarrow> \<exists>es'. es = x # es'"
  unfolding begins_def by (metis Pair_inject)

lemma begins_catch: "begins x m \<Longrightarrow> begins x (io_catch m h)"
  by (rule beginsI, erule io_catch_cases) (auto dest: beginsD)

lemma begins_seq: "begins x m \<Longrightarrow> begins x (io_seq m n)"
  unfolding io_seq_def by (rule beginsI, erule io_bind_cases) (auto dest: beginsD)

lemma begins_in: "begins x m \<Longrightarrow> m u = (r, v, es) \<Longrightarrow> x \<in> set es"
  unfolding begins_def by (metis Pair_inject list.set_intros(1))

lemma terminate_begins: "iid \<noteq> [] \<Longrightarrow> begins (TerminateInstances [iid]) (terminate c [Some iid])"
  by (auto simp: terminate_def given_def io_suppress_client_def terminate_instances_def Let_def intro!: begins_seq begins_catch begins_call)

lemma emits_terminate_of [io_intros]:
  assumes "P (TerminateInstances [iid])" "P (SpotRequestsOf [iid])" "\<And>ids. P (CancelSpotRequests ids)"
  shows "emits P (terminate c [Some iid])"
  using assms by (auto simp: terminate_def Let_def split: if_splits intro!: io_intros)

text \<open>What may happen to the account after the launch: only the instance itself is terminated, nothing is launched.\<close>

definition puts_down :: "string \<Rightarrow> heff \<Rightarrow> bool" where
  "puts_down iid e \<longleftrightarrow> (\<forall>ids. e = Api (TerminateInstances ids) \<longrightarrow> ids = [iid]) \<and> (\<forall>kw. e \<noteq> Api (RunInstances kw))"

lemma puts_down_simps [simp]:
  "puts_down i (Api (TerminateInstances [i]))" "puts_down i (Api (SpotRequestsOf x))" "puts_down i (Api (CancelSpotRequests x))"
  "puts_down i (Api (DescribeInstances x))" "puts_down i (Napped d)" "puts_down i (ReadConsole j)" "puts_down i (LogFile f s)"
  by (simp_all add: puts_down_def)

lemma put_down_spec:
  assumes "put_down h iid w = (r, w', es)" "iid \<noteq> []"
  shows "Api (TerminateInstances [iid]) \<in> set es \<or>
     (\<exists>e u u'. r = Inl e \<and> \<not> forgiven e \<and> ec2_describe_instances (h_ec2 h) [iid] u = (Inl e, u'))"
proof -
  obtain rb w1 cs1 where b: "api (interrupted (h_ec2 h) iid) w = (rb, w1, cs1)" by (metis prod_cases3)
  obtain rt w2 cs2 where t: "api (terminate (h_ec2 h) [Some iid]) w1 = (rt, w2, cs2)" by (metis prod_cases3)
  show ?thesis
  proof (cases rb)
    case (Inl e)
    with assms(1) b have r: "r = Inl e" by (simp add: put_down_def io_bind_def)
    from api_run [OF b [unfolded Inl]] obtain u cs where "interrupted (h_ec2 h) iid (bw_os w) = (Inl e, u, cs)" by blast
    from interrupted_raises [OF this] r show ?thesis by blast
  next
    case (Inr x)
    with assms(1) b t have "set cs2 \<subseteq> set es" by (cases rt) (auto simp: put_down_def io_bind_def io_seq_def io_ret_def)
    moreover from api_run [OF t] obtain u cs where "terminate (h_ec2 h) [Some iid] (bw_os w1) = (rt, u, cs)" "cs2 = map Api cs" by blast
    with begins_in [OF terminate_begins [OF assms(2)]] have "Api (TerminateInstances [iid]) \<in> set cs2" by fastforce
    ultimately show ?thesis by blast
  qed
qed

lemma emits_put_down [io_intros]:
  assumes "P (Api (DescribeInstances [iid]))" "P (Api (TerminateInstances [iid]))" "P (Api (SpotRequestsOf [iid]))"
    "\<And>ids. P (Api (CancelSpotRequests ids))"
  shows "emits P (put_down h iid)"
  unfolding put_down_def by (intro io_intros assms)

lemma emits_watch_guest [io_intros]:
  assumes "P (Napped d)" "P (ReadConsole iid)" "\<And>s. P (LogFile file s)"
    "P (Api (DescribeInstances [iid]))" "P (Api (TerminateInstances [iid]))" "P (Api (SpotRequestsOf [iid]))"
    "\<And>ids. P (Api (CancelSpotRequests ids))"
  shows "emits P (watch_guest h d clean iid file cap)"
  unfolding watch_guest_def by (intro io_intros assms)

section \<open>What is launched is terminated\<close>

text \<open>
  C11. A Linux guest never outlives its run: once the launch returned an instance, the rest of the run,
  whatever it meets (a console that cannot be read, the vm cap, an exception), terminates exactly that
  instance and launches nothing; unless asking EC2 about the instance itself raised an error that
  \<open>interrupted\<close> does not forgive, which then leaves the run.
\<close>

theorem guest_put_down:
  assumes run: "guest_run h d clean kw market zone file cap w = (r, w', es)"
    and launch: "api (launch (h_ec2 h) kw market zone) w = (Inr (i # is, mk, zn), w1, es1)" and named: "in_id i \<noteq> []"
  shows "\<exists>es2. es = es1 @ es2 \<and> list_all (puts_down (in_id i)) es2 \<and>
     (Api (TerminateInstances [in_id i]) \<in> set es2 \<or>
      (\<exists>e u u'. r = Inl e \<and> \<not> forgiven e \<and> ec2_describe_instances (h_ec2 h) [in_id i] u = (Inl e, u')))"
proof -
  let ?iid = "in_id i"
  define more' :: "string option \<times> bool \<Rightarrow> ('a, string \<times> string \<times> bool \<times> string \<times> string) g"
    where "more' = (\<lambda>(text, reclaimed). (case text of None \<Rightarrow> io_raise (OtherExn ''fuel'')
       | Some s \<Rightarrow> io_seq (write_log file s) (io_ret (s, ?iid, reclaimed, mk, zn))))"
  obtain r2 w2 es2 where m: "io_bind (watch_guest h d clean ?iid file cap) more' w1 = (r2, w2, es2)" by (metis prod_cases3)
  with run launch have fin: "r = r2" "es = es1 @ es2"
    by (auto simp: guest_run_def io_bind_def io_res_def first_id_def io_ret_def more'_def split: prod.splits sum.splits)
  have "emits (puts_down ?iid) (io_bind (watch_guest h d clean ?iid file cap) more')"
    unfolding more'_def by (auto split: option.splits intro!: io_intros)
  then have only: "list_all (puts_down ?iid) es2" using m by (auto simp: list_all_iff dest: emits_run)
  obtain r3 w3 es3 where g: "watch_guest h d clean ?iid file cap w1 = (r3, w3, es3)" by (metis prod_cases3)
  from g [unfolded watch_guest_def] obtain rm wm cs1 rf cs2 where
    p: "put_down h ?iid wm = (rf, w3, cs2)" "es3 = cs1 @ cs2" and r3: "\<And>e. rf = Inl e \<Longrightarrow> r3 = Inl e"
    by (cases rule: io_finally_cases) auto
  from m g have es3: "\<exists>cs. es2 = es3 @ cs" and fail: "\<And>e. r3 = Inl e \<Longrightarrow> r2 = Inl e"
    by (auto simp: io_bind_def split: sum.splits prod.splits)
  from put_down_spec [OF p(1) named] show ?thesis
  proof
    assume "Api (TerminateInstances [?iid]) \<in> set cs2"
    with fin only p(2) es3 show ?thesis by auto
  next
    assume "\<exists>e u u'. rf = Inl e \<and> \<not> forgiven e \<and> ec2_describe_instances (h_ec2 h) [?iid] u = (Inl e, u')"
    with fin only r3 fail show ?thesis by blast
  qed
qed


section \<open>The end of the poll\<close>

text \<open>
  A clock that moves forward: reading it and the console takes no negative time, and a nap of \<open>d\<close>
  seconds takes at least \<open>d\<close>. \<open>time\<close> is the time of a world.
\<close>

definition steady_host :: "'w host \<Rightarrow> ('w \<Rightarrow> rat) \<Rightarrow> bool" where
  "steady_host h time \<longleftrightarrow>
     (\<forall>u. time u \<le> fst (h_now h u) \<and> fst (h_now h u) \<le> time (snd (h_now h u))) \<and>
     (\<forall>d u. 0 \<le> d \<longrightarrow> time u + d \<le> time (h_sleep h d u)) \<and>
     (\<forall>i u. time u \<le> time (snd (h_console h i u)))"

fun is_nap :: "heff \<Rightarrow> bool" where
  "is_nap (Napped d) = True"
| "is_nap _ = False"

abbreviation naps :: "heff list \<Rightarrow> nat" where
  "naps es \<equiv> length (filter is_nap es)"

lemma host_now_run: "host_now h w = (Inr (fst (h_now h (bw_os w))), w\<lparr>bw_os := snd (h_now h (bw_os w))\<rparr>, [])"
  by (simp add: host_now_def on_host_def split: prod.splits)

lemma read_console_run:
  "\<exists>r v. read_console h i w = (r, w\<lparr>bw_os := v\<rparr>, [ReadConsole i]) \<and> v = snd (h_console h i (bw_os w))"
  by (auto simp: read_console_def io_catch_def on_host_def io_call_def io_ret_def split: prod.splits sum.splits)

text \<open>One round of the poll, written out: the time, the read, what is kept, and whether it goes on.\<close>

definition kept_text :: "(string \<Rightarrow> string) \<Rightarrow> string \<Rightarrow> string \<Rightarrow> string" where
  "kept_text clean s got = (if length s < length got then clean got else s)"

definition kept_log :: "string \<Rightarrow> (string \<Rightarrow> string) \<Rightarrow> string \<Rightarrow> string \<Rightarrow> heff list" where
  "kept_log file clean s got = (if length s < length got then [LogFile file (clean got)] else [])"

lemma nap_run: "nap h d w = (Inr (), w\<lparr>bw_os := h_sleep h d (bw_os w)\<rparr>, [Napped d])"
  by (simp add: nap_def on_host_def io_call_def)

lemma poll_round:
  assumes rc: "read_console h iid (w\<lparr>bw_os := h_sleep h d (snd (h_now h (bw_os w)))\<rparr>) = (rc, x, [ReadConsole iid])"
    and t: "fst (h_now h (bw_os w)) < deadline"
  shows "poll_console (Suc n) h d clean iid file deadline s w =
    (case rc of
       Inl e \<Rightarrow> (Inl e, x, [Napped d, ReadConsole iid])
     | Inr got \<Rightarrow>
         if rx_search verdict_rx (kept_text clean s got) \<noteq> None
         then (Inr (Some (kept_text clean s got)), x, [Napped d, ReadConsole iid] @ kept_log file clean s got)
         else (case poll_console n h d clean iid file deadline (kept_text clean s got) x of
           (r, w', es) \<Rightarrow> (r, w', [Napped d, ReadConsole iid] @ kept_log file clean s got @ es)))"
proof (cases rc)
  case (Inl e)
  with rc t show ?thesis by (simp add: io_bind_def io_seq_def host_now_run nap_run)
next
  case (Inr got)
  show ?thesis
  proof (cases "poll_console n h d clean iid file deadline (kept_text clean s got) x")
    case (fields r w' es)
    with rc t Inr show ?thesis
      by (cases "length s < length got")
        (simp_all add: io_bind_def io_seq_def host_now_run nap_run kept_text_def kept_log_def io_when_def write_log_def io_emit_def io_ret_def Let_def)
  qed
qed

lemma poll_over:
  "\<not> fst (h_now h (bw_os w)) < deadline \<Longrightarrow>
   poll_console (Suc n) h d clean iid file deadline s w = (Inr (Some s), w\<lparr>bw_os := snd (h_now h (bw_os w))\<rparr>, [])"
  by (simp add: io_bind_def host_now_run io_ret_def)

lemma naps_kept_log [simp]: "filter is_nap (kept_log file clean s got) = []"
  by (simp add: kept_log_def)

lemma poll_console_returns:
  assumes steady: "steady_host h time" and "0 < d"
  shows "deadline \<le> time (bw_os w) + of_nat n * d \<Longrightarrow>
     poll_console (Suc n) h d clean iid file deadline s w = (r, w', es) \<Longrightarrow> r \<noteq> Inr None \<and> naps es \<le> n"
proof (induction n arbitrary: s w r w' es)
  case 0
  have "time (bw_os w) \<le> fst (h_now h (bw_os w))" using steady by (simp add: steady_host_def)
  with 0(1) have "\<not> fst (h_now h (bw_os w)) < deadline" by simp
  from poll_over [OF this] 0(2) show ?case by auto
next
  case (Suc n)
  let ?t = "fst (h_now h (bw_os w))" and ?u = "snd (h_now h (bw_os w))"
  have t: "time (bw_os w) \<le> time ?u" using steady unfolding steady_host_def by (meson order_trans)
  show ?case
  proof (cases "?t < deadline")
    case False
    from poll_over [OF this] Suc.prems(2) show ?thesis by auto
  next
    case True
    let ?v = "h_sleep h d ?u"
    let ?x = "w\<lparr>bw_os := snd (h_console h iid ?v)\<rparr>"
    have "time ?u + d \<le> time ?v" "time ?v \<le> time (bw_os ?x)" using steady \<open>0 < d\<close> by (auto simp: steady_host_def)
    with t Suc.prems(1) have late: "deadline \<le> time (bw_os ?x) + of_nat n * d" by (simp add: algebra_simps)
    obtain rc where rc: "read_console h iid (w\<lparr>bw_os := ?v\<rparr>) = (rc, ?x, [ReadConsole iid])"
      using read_console_run [of h iid "w\<lparr>bw_os := ?v\<rparr>"] by auto
    show ?thesis
    proof (cases rc)
      case (Inl e)
      with poll_round [OF rc True] Suc.prems(2) show ?thesis by (auto simp del: poll_console.simps)
    next
      case (Inr got)
      obtain r2 w2 es2 where again: "poll_console (Suc n) h d clean iid file deadline (kept_text clean s got) ?x = (r2, w2, es2)"
        by (metis prod_cases3)
      from Suc.IH [OF late again] poll_round [OF rc True, where n = "Suc n"] Suc.prems(2) Inr again show ?thesis
        by (auto simp del: poll_console.simps split: if_splits)
    qed
  qed
qed

lemma emits_no_naps: "emits (\<lambda>e. \<not> is_nap e) m \<Longrightarrow> m w = (r, w', es) \<Longrightarrow> naps es = 0"
  by (auto simp: filter_empty_conv dest: emits_run)

text \<open>
  The wait for a guest ends: on a clock that moves forward the poll of the console returns with
  the text it kept, after at most as many naps as fit before the vm cap and one more.
\<close>

theorem guest_watch_ends:
  assumes steady: "steady_host h time" and d: "0 < d" and run: "watch_guest h d clean iid file cap w = (r, w', es)"
  shows "(\<forall>b. r \<noteq> Inr (None, b)) \<and> naps es \<le> nat \<lceil>of_int cap / d\<rceil>"
proof -
  let ?n = "nat \<lceil>of_int cap / d\<rceil>" and ?t = "fst (h_now h (bw_os w))" and ?u = "w\<lparr>bw_os := snd (h_now h (bw_os w))\<rparr>"
  from run [unfolded watch_guest_def] obtain rm wm cs1 rf cs2 where
    p: "put_down h iid wm = (rf, w', cs2)" "es = cs1 @ cs2"
      "io_bind (host_now h) (\<lambda>t. poll_console (poll_fuel d cap) h d clean iid file (t + of_int cap) []) w = (rm, wm, cs1)"
    and r: "r = (case rf of Inl e \<Rightarrow> Inl e | Inr y \<Rightarrow> (case rm of Inl e \<Rightarrow> Inl e | Inr x \<Rightarrow> Inr (x, y)))"
    by (cases rule: io_finally_cases) blast
  from p(3) have q: "poll_console (Suc ?n) h d clean iid file (?t + of_int cap) [] ?u = (rm, wm, cs1)"
    by (simp add: io_bind_def host_now_run poll_fuel_def split: prod.splits del: poll_console.simps)
  have "of_int cap / d \<le> of_int \<lceil>of_int cap / d\<rceil>" by simp
  then have "of_int cap / d \<le> (of_nat ?n :: rat)" by (smt (verit) of_int_of_nat_eq of_nat_nat of_int_0_le_iff of_nat_0_le_iff nat_0_iff of_nat_0 of_int_le_0_iff order_trans linorder_linear)
  with d have "of_int cap \<le> of_nat ?n * d" by (simp add: divide_le_eq)
  moreover have "?t \<le> time (bw_os ?u)" using steady by (simp add: steady_host_def)
  ultimately have "?t + of_int cap \<le> time (bw_os ?u) + of_nat ?n * d" by linarith
  from poll_console_returns [OF steady d this q] have "rm \<noteq> Inr None" "naps cs1 \<le> ?n" by auto
  moreover have "naps cs2 = 0" by (rule emits_no_naps [where m = "put_down h iid", OF _ p(1)]) (auto intro!: io_intros)
  ultimately show ?thesis using p(2) r by (auto split: sum.splits)
qed

section \<open>An error that is not forgiven\<close>

text \<open>
  \<open>interrupted\<close> is asked before \<open>terminate\<close> and forgives a \<open>ClientError\<close> only: when the lookup
  fails in botocore itself (no endpoint, a timeout, expired credentials), the instance just launched is
  never terminated by its run.
\<close>

theorem guest_leaked:
  assumes launch: "api (launch (h_ec2 h) kw market zone) w = (Inr (i # is, mk, zn), w1, es1)"
    and down: "\<And>u. \<exists>v. ec2_describe_instances (h_ec2 h) [in_id i] u = (Inl (BotoCoreError s), v)"
    and run: "guest_run h d clean kw market zone file cap w = (r, w', es)"
  shows "r = Inl (BotoCoreError s) \<and> (\<forall>ids. Api (TerminateInstances ids) \<in> set es \<longrightarrow> Api (TerminateInstances ids) \<in> set es1)"
proof -
  let ?P = "\<lambda>e. \<forall>ids. e \<noteq> Api (TerminateInstances ids)"
  obtain r3 w3 es3 where g: "watch_guest h d clean (in_id i) file cap w1 = (r3, w3, es3)" by (metis prod_cases3)
  from g [unfolded watch_guest_def] obtain rm wm cs1 rf cs2 where
    p: "put_down h (in_id i) wm = (rf, w3, cs2)" "es3 = cs1 @ cs2"
      "io_bind (host_now h) (\<lambda>t. poll_console (poll_fuel d cap) h d clean (in_id i) file (t + of_int cap) []) w1 = (rm, wm, cs1)"
    and r3: "\<And>e. rf = Inl e \<Longrightarrow> r3 = Inl e"
    by (cases rule: io_finally_cases) auto
  obtain v where v: "ec2_describe_instances (h_ec2 h) [in_id i] (bw_os wm) = (Inl (BotoCoreError s), v)" using down by blast
  have int: "interrupted (h_ec2 h) (in_id i) (bw_os wm) = (Inl (BotoCoreError s), v, [DescribeInstances [in_id i]])"
    by (simp add: interrupted_def io_catch_def io_bind_def describe_instances_def io_call_def v lookup_handler_def)
  with p(1) have rf: "rf = Inl (BotoCoreError s)" and cs2: "cs2 = [Api (DescribeInstances [in_id i])]"
    by (auto simp: put_down_def io_bind_def api_def on_host_def io_lift_def)
  from r3 [OF rf] g launch run have "r = Inl (BotoCoreError s)" "es = es1 @ es3"
    by (auto simp: guest_run_def io_bind_def io_res_def first_id_def io_ret_def)
  moreover have "emits ?P (io_bind (host_now h) (\<lambda>t. poll_console (poll_fuel d cap) h d clean (in_id i) file (t + of_int cap) []))"
    by (auto intro!: io_intros)
  then have "\<forall>e \<in> set cs1. ?P e" using p(3) by (auto dest: emits_run)
  ultimately show ?thesis using p(2) cs2 by auto
qed

section \<open>A scripted host\<close>

definition mock_host_on :: "mock_world ec2 \<Rightarrow> mock_world host" where
  "mock_host_on c = \<lparr>h_ec2 = c, h_env = (\<lambda>k. Some k), h_root = ''/r'', h_source = (\<lambda>p. []), h_python = ''python3'', h_cpus = 8,
     h_json = (\<lambda>x. ''{}''), h_gzip = (\<lambda>s. s), h_console = (\<lambda>i u. (Inr ''COMPLETE: ok'', u)), h_live = (\<lambda>t u. (Inr [], u)),
     h_now = (\<lambda>u. (mw_clock u, u)), h_sleep = (\<lambda>d u. u\<lparr>mw_clock := mw_clock u + d\<rparr>), h_run = (\<lambda>c e u. ((0, []), u)),
     h_head = (\<lambda>k u. (Inr (), u)), h_ami = (\<lambda>u. (Inr ''ami'', u)), h_zones = (\<lambda>u. (Inr [], u)), h_scores = (\<lambda>i u. (Inr [], u)),
     h_record = (\<lambda>u. None), h_spawn = (\<lambda>c f u. (Inr 7, u)), h_poll = (\<lambda>p u. (None, u)), h_read = (\<lambda>f u. (Inr [], u)),
     h_killpg = (\<lambda>p s u. u), h_wait = (\<lambda>p d u. (True, u))\<rparr>"

definition mock_bworld :: "mock_world bworld" where
  "mock_bworld = \<lparr>bw_os = \<lparr>mw_capacity = [], mw_clock = 0\<rparr>, bw_built = False, bw_zone = None, bw_server = None,
     bw_checked = [], bw_bin_ready = False\<rparr>"

definition offline :: "mock_world ec2" where
  "offline = mock\<lparr>ec2_describe_instances := (\<lambda>ids w. (Inl (BotoCoreError ''no endpoint''), w))\<rparr>"

lemma mock_launch:
  "c = mock \<or> c = offline \<Longrightarrow> \<exists>mk zn w1 es1. api (launch (h_ec2 (mock_host_on c)) mock_kw ''on-demand'' None) mock_bworld
     = (Inr ([mock_inst ''pending''], mk, zn), w1, es1)"
  by (auto simp: api_def on_host_def io_lift_def mock_host_on_def mock_bworld_def offline_def mock_simps)

lemma guest_put_down_witness:
  "\<exists>r w' es. guest_run (mock_host_on mock) 15 (\<lambda>s. s) mock_kw ''on-demand'' None ''f'' 900 mock_bworld = (r, w', es) \<and>
     Api (TerminateInstances [''i-1'']) \<in> set es"
proof -
  obtain mk zn w1 es1 where l: "api (launch (h_ec2 (mock_host_on mock)) mock_kw ''on-demand'' None) mock_bworld
     = (Inr ([mock_inst ''pending''], mk, zn), w1, es1)" using mock_launch [of mock] by auto
  obtain r w' es where run: "guest_run (mock_host_on mock) 15 (\<lambda>s. s) mock_kw ''on-demand'' None ''f'' 900 mock_bworld = (r, w', es)"
    by (metis prod_cases3)
  have "in_id (mock_inst ''pending'') \<noteq> []" by (simp add: mock_inst_def)
  from guest_put_down [OF run l this] run show ?thesis by (auto simp: mock_inst_def mock_host_on_def mock_def)
qed

lemma mock_steady: "steady_host (mock_host_on c) mw_clock"
  by (simp add: steady_host_def mock_host_on_def)

lemma guest_watch_ends_witness:
  "\<forall>b. fst (watch_guest (mock_host_on mock) 15 (\<lambda>s. s) ''i-1'' ''f'' 900 mock_bworld) \<noteq> Inr (None, b)"
  using guest_watch_ends [OF mock_steady, of 15 mock "\<lambda>s. s" "''i-1''" "''f''" 900 mock_bworld] by (metis prod_cases3 fst_conv zero_less_numeral)

lemma guest_leaked_witness:
  "\<exists>w' es. guest_run (mock_host_on offline) 15 (\<lambda>s. s) mock_kw ''on-demand'' None ''f'' 900 mock_bworld
     = (Inl (BotoCoreError ''no endpoint''), w', es)"
proof -
  obtain mk zn w1 es1 where l: "api (launch (h_ec2 (mock_host_on offline)) mock_kw ''on-demand'' None) mock_bworld
     = (Inr ([mock_inst ''pending''], mk, zn), w1, es1)" using mock_launch [of offline] by auto
  obtain r w' es where run: "guest_run (mock_host_on offline) 15 (\<lambda>s. s) mock_kw ''on-demand'' None ''f'' 900 mock_bworld = (r, w', es)"
    by (metis prod_cases3)
  have "\<exists>v. ec2_describe_instances (h_ec2 (mock_host_on offline)) [in_id (mock_inst ''pending'')] u = (Inl (BotoCoreError ''no endpoint''), v)" for u
    by (simp add: mock_host_on_def offline_def)
  from guest_leaked [OF l this run] run show ?thesis by auto
qed

end
