(* ===== verification/SweepRun.thy ===== *)
theory SweepRun
  imports Sweep "HOL-Library.Sublist"
begin

text \<open>
  What the sweep loop of \<open>runner.main\<close> guarantees: what it builds and runs and in which order, that the
  CSV only grows and by labelled rows, where it stops, and that a recorded run is found on resuming.
\<close>

section \<open>The attempts of a run\<close>

definition tries :: "nat \<Rightarrow> string \<Rightarrow> pyval dict \<Rightarrow> seff list" where
  "tries k inst cfg = concat (replicate k [RunBench inst cfg, QuotaWait])"

lemma tries_Suc: "tries (Suc k) inst cfg = RunBench inst cfg # QuotaWait # tries k inst cfg"
  by (simp add: tries_def)

lemma tries_0 [simp]: "tries 0 inst cfg = []"
  by (simp add: tries_def)

text \<open>
  A run is tried at most six times, with 90 seconds of waiting for the quota after every try but
  one that stands or raises; nothing else happens, and rows that are answered are those of the last try.
\<close>

theorem attempts_bounded:
  "case attempts n b s out inst cfg ip prev w of (r, w', es) \<Rightarrow>
     (\<exists>k \<le> n. es = tries k inst cfg \<and> k = n \<or> k < n \<and> es = tries k inst cfg @ [RunBench inst cfg])"
proof (induction n arbitrary: prev w)
  case 0
  then show ?case by (simp add: io_ret_def)
next
  case (Suc n)
  have step: "\<exists>k \<le> Suc n. RunBench inst cfg # QuotaWait # es = tries k inst cfg \<and> k = Suc n \<or>
      k < Suc n \<and> RunBench inst cfg # QuotaWait # es = tries k inst cfg @ [RunBench inst cfg]"
    if "attempts n b s out inst cfg ip prev' v = (r, w', es)" for prev' v r w' es
  proof -
    from Suc.IH [of prev' v] that obtain k where
      "k \<le> n \<and> es = tries k inst cfg \<and> k = n \<or> k < n \<and> es = tries k inst cfg @ [RunBench inst cfg]" by auto
    then show ?thesis by (intro exI [of _ "Suc k"]) (auto simp: tries_Suc)
  qed
  have last: "\<exists>k \<le> Suc n. [RunBench inst cfg] = tries k inst cfg \<and> k = Suc n \<or>
      k < Suc n \<and> [RunBench inst cfg] = tries k inst cfg @ [RunBench inst cfg]"
    by (rule exI [of _ 0]) simp
  obtain res v where run: "b_run b inst (logs_dir out) cfg ip w = (res, v)" by fastforce
  show ?case
  proof (cases res)
    case (Inl e)
    show ?thesis
    proof (cases "\<not> is_system_exit e \<and> is_infix quota (s_text s e) \<and> n \<noteq> 0")
      case True
      obtain r w' es where rest: "attempts n b s out inst cfg ip [] (s_sleep s 90 v) = (r, w', es)" by (metis prod_cases3)
      from step [OF rest] show ?thesis
        by (simp add: run Inl True rest io_bind_def io_catch_def io_call_def io_ret_def io_seq_def quota_wait_def)
    next
      case False
      with last show ?thesis by (auto simp: run Inl io_bind_def io_catch_def io_call_def)
    qed
  next
    case (Inr rows)
    show ?thesis
    proof (cases "rows = [] \<or> rows_stand b rows (s_log s (log_path out (hd rows)) v) = Inr False")
      case True
      obtain r w' es where rest: "attempts n b s out inst cfg ip rows (s_sleep s 90 v) = (r, w', es)" by (metis prod_cases3)
      from step [OF rest] True rest show ?thesis
        by (cases "rows = []")
          (simp_all add: run Inr io_bind_def io_catch_def io_call_def io_seq_def quota_wait_def io_ask_def io_res_def io_ret_def)
    next
      case False
      with last show ?thesis
        by (cases "rows_stand b rows (s_log s (log_path out (hd rows)) v)")
          (simp_all add: run Inr io_bind_def io_catch_def io_call_def io_ask_def io_ret_def io_res_def io_raise_def)
    qed
  qed
qed

section \<open>One step of the loop\<close>

lemma annotate_all_quiet: "annotate_all b s inst axis value rep cfg rows w = (r, w', es) \<Longrightarrow> es = []"
proof (induction rows arbitrary: w r w' es)
  case (Cons x xs)
  then show ?case
    by (auto simp: io_bind_def io_ret_def io_res_def io_raise_def site_clock_def split: prod.splits sum.splits)
qed (simp add: io_ret_def)

text \<open>The rows a run was recorded with are its answer, annotated one by one.\<close>

lemma annotate_all_rows:
  "annotate_all b s inst axis value rep cfg rows w = (Inr rows', w', es) \<Longrightarrow>
   list_all2 (\<lambda>r r'. \<exists>ts. annotate b (labels ts inst axis value rep (env_or s ''BENCH_NOTE'' [])) cfg r = Inr r') rows rows'"
proof (induction rows arbitrary: w rows' w' es)
  case (Cons x xs)
  then show ?case
    by (auto simp: io_bind_def io_ret_def io_res_def io_raise_def site_clock_def list_all2_Cons1
        split: prod.splits sum.splits)
qed (simp add: io_ret_def)

definition run_effects :: "string \<Rightarrow> pyval dict \<Rightarrow> seff list \<Rightarrow> bool" where
  "run_effects inst cfg es \<longleftrightarrow> (\<exists>k \<le> 6. es = tries k inst cfg \<or> k < 6 \<and> es = tries k inst cfg @ [RunBench inst cfg])"

text \<open>The rows of a recorded run: answered by the bench and annotated for this run.\<close>

definition answered :: "'w bench \<Rightarrow> string \<Rightarrow> string \<Rightarrow> pyval dict \<Rightarrow> string \<Rightarrow> table \<Rightarrow> bool" where
  "answered b inst logs cfg ip rows \<longleftrightarrow> (\<exists>v v'. b_run b inst logs cfg ip v = (Inr rows, v'))"

lemma attempts_answered:
  assumes "attempts n b s out inst cfg ip prev w = (Inr rows, w', es)" "rows \<noteq> []" "n \<noteq> 0"
  shows "answered b inst (logs_dir out) cfg ip rows"
  using assms
proof (induction n arbitrary: prev w w' es)
  case (Suc n)
  obtain res v where run: "b_run b inst (logs_dir out) cfg ip w = (res, v)" by fastforce
  have again: "answered b inst (logs_dir out) cfg ip rows"
    if "attempts n b s out inst cfg ip prev' v' = (Inr rows, w1, es1)" "n = 0 \<Longrightarrow> prev' = rows \<Longrightarrow> answered b inst (logs_dir out) cfg ip rows"
    for prev' v' w1 es1
    using Suc.IH [OF that(1) Suc.prems(2)] that by (cases n) (auto simp: io_ret_def)
  show ?case
  proof (cases res)
    case (Inl x)
    show ?thesis
    proof (cases "\<not> is_system_exit x \<and> is_infix quota (s_text s x) \<and> n \<noteq> 0")
      case True
      with Suc.prems(1) run Inl obtain w1 es1 where "attempts n b s out inst cfg ip [] (s_sleep s 90 v) = (Inr rows, w1, es1)"
        by (auto simp: io_bind_def io_catch_def io_call_def io_ret_def io_seq_def quota_wait_def split: prod.splits)
      from again [OF this] True show ?thesis by simp
    next
      case False
      with Suc.prems(1) run Inl show ?thesis by (auto simp: io_bind_def io_catch_def io_call_def)
    qed
  next
    case (Inr rs)
    then have a: "answered b inst (logs_dir out) cfg ip rs" using run by (auto simp: answered_def)
    show ?thesis
    proof (cases "rs = [] \<or> rows_stand b rs (s_log s (log_path out (hd rs)) v) = Inr False")
      case True
      with Suc.prems(1) run Inr obtain w1 es1 where "attempts n b s out inst cfg ip rs (s_sleep s 90 v) = (Inr rows, w1, es1)"
        by (cases "rs = []")
          (auto simp: io_bind_def io_catch_def io_call_def io_seq_def quota_wait_def io_ask_def io_res_def io_ret_def split: prod.splits)
      then show ?thesis by (rule again) (use a in simp)
    next
      case False
      with Suc.prems(1) run Inr a show ?thesis
        by (cases "rows_stand b rs (s_log s (log_path out (hd rs)) v)")
          (auto simp: io_bind_def io_catch_def io_call_def io_ask_def io_ret_def io_res_def io_raise_def split: if_splits)
    qed
  qed
qed simp

definition rows_for :: "'w bench \<Rightarrow> 'w site \<Rightarrow> sargs \<Rightarrow> sweep_env \<Rightarrow> pyval \<Rightarrow> int \<Rightarrow> table \<Rightarrow> bool" where
  "rows_for b s g e value rep rows' \<longleftrightarrow> rows' \<noteq> [] \<and>
     (\<exists>rows. answered b (instance_at (e_axis e) (g_instance g) value) (logs_dir (e_out e)) (cfg_at (e_axis e) (e_base e) value) (e_ip e) rows \<and>
       list_all2 (\<lambda>r r'. \<exists>ts. annotate b (labels ts (instance_at (e_axis e) (g_instance g) value) (e_axis e) value rep
        (env_or s ''BENCH_NOTE'' [])) (cfg_at (e_axis e) (e_base e) value) r = Inr r') rows rows')"

lemma sweep_run_spec:
  assumes "sweep_run b s g e value rep w = (r, w', es)"
  shows "run_effects (instance_at (e_axis e) (g_instance g) value) (cfg_at (e_axis e) (e_base e) value) es \<and>
     (\<forall>rows. r = Inr rows \<longrightarrow> rows_for b s g e value rep rows)"
proof -
  let ?i = "instance_at (e_axis e) (g_instance g) value" and ?c = "cfg_at (e_axis e) (e_base e) value"
  obtain r1 w1 es1 where a: "attempts 6 b s (e_out e) ?i ?c (e_ip e) [] w = (r1, w1, es1)" by (metis prod_cases3)
  have es1: "run_effects ?i ?c es1"
    using attempts_bounded [where n = 6 and b = b and s = s and out = "e_out e" and inst = ?i and cfg = ?c and ip = "e_ip e" and prev = "[]" and w = w] unfolding a run_effects_def by auto
  show ?thesis
  proof (cases r1)
    case (Inl x)
    with assms a es1 show ?thesis by (auto simp: sweep_run_def Let_def io_bind_def)
  next
    case (Inr rows)
    obtain r2 w2 es2 where n: "annotate_all b s ?i (e_axis e) value rep ?c rows w1 = (r2, w2, es2)" by (metis prod_cases3)
    have "es2 = []" by (rule annotate_all_quiet [OF n])
    with assms a Inr n have "es = es1" "r = (case r2 of Inl x \<Rightarrow> Inl x | Inr rs \<Rightarrow> if rs = [] then Inl IndexErr else Inr rs)"
      by (cases r2; auto simp: sweep_run_def Let_def io_bind_def io_raise_def io_ret_def split: if_splits)+
    moreover have "rows_for b s g e value rep rs" if "r2 = Inr rs" "rs \<noteq> []" for rs
    proof -
      note l = annotate_all_rows [OF n [unfolded that(1)]]
      with that(2) have "rows \<noteq> []" by auto
      from attempts_answered [OF a [unfolded Inr] this] l that(2) show ?thesis by (auto simp: rows_for_def)
    qed
    ultimately show ?thesis using es1 by (auto split: sum.splits if_splits)
  qed
qed

definition build_part :: "sweep_env \<Rightarrow> pyval dict option \<Rightarrow> pyval dict \<Rightarrow> seff list" where
  "build_part e built cfg = (if built = Some cfg then [] else [Build cfg (e_ip e)])"

definition cool_part :: "sargs \<Rightarrow> bool \<Rightarrow> seff list" where
  "cool_part g begun = (if begun \<and> g_cooldown g \<noteq> 0 then [CoolDown (g_cooldown g)] else [])"

text \<open>
  What one entry of the plan leads to: it is skipped; or it aborts the sweep with an exception before
  anything is recorded; or its rows are recorded, and the sweep stops or goes on.
\<close>

lemma sweep_step:
  assumes "sweep_loop b s g e ((value, rep) # plan) t built begun w = (r, w', es)"
  obtains
    (skip) "t \<noteq> []" "run_done t (e_axis e) value rep (cfg_at (e_axis e) (e_base e) value)"
      "sweep_loop b s g e plan t built begun w = (r, w', es)"
  | (broken) x where "\<not> (t \<noteq> [] \<and> run_done t (e_axis e) value rep (cfg_at (e_axis e) (e_base e) value))"
      "r = Inl x" "es = [Build (cfg_at (e_axis e) (e_base e) value) (e_ip e)]" "built \<noteq> Some (cfg_at (e_axis e) (e_base e) value)"
  | (abort) x runs where "\<not> (t \<noteq> [] \<and> run_done t (e_axis e) value rep (cfg_at (e_axis e) (e_base e) value))"
      "r = Inl x" "es = build_part e built (cfg_at (e_axis e) (e_base e) value) @ cool_part g begun @ runs"
      "run_effects (instance_at (e_axis e) (g_instance g) value) (cfg_at (e_axis e) (e_base e) value) runs"
  | (stop) rows runs p q p' q' where "\<not> (t \<noteq> [] \<and> run_done t (e_axis e) value rep (cfg_at (e_axis e) (e_base e) value))"
      "r = Inr (t @ rows)" "es = build_part e built (cfg_at (e_axis e) (e_base e) value) @ cool_part g begun @ runs
         @ [Wrote (e_out e) (t @ rows), Push p q, Push p' q']"
      "run_effects (instance_at (e_axis e) (g_instance g) value) (cfg_at (e_axis e) (e_base e) value) runs"
      "rows_for b s g e value rep rows" "\<not> is_valid (last rows)" "\<not> g_keep_going g"
  | (go) rows runs p q v es' where "\<not> (t \<noteq> [] \<and> run_done t (e_axis e) value rep (cfg_at (e_axis e) (e_base e) value))"
      "sweep_loop b s g e plan (t @ rows) (Some (cfg_at (e_axis e) (e_base e) value)) True v = (r, w', es')"
      "es = build_part e built (cfg_at (e_axis e) (e_base e) value) @ cool_part g begun @ runs
         @ [Wrote (e_out e) (t @ rows), Push p q] @ es'"
      "run_effects (instance_at (e_axis e) (g_instance g) value) (cfg_at (e_axis e) (e_base e) value) runs"
      "rows_for b s g e value rep rows" "is_valid (last rows) \<or> g_keep_going g"
proof (cases "t \<noteq> [] \<and> run_done t (e_axis e) value rep (cfg_at (e_axis e) (e_base e) value)")
  case True
  with assms show ?thesis by (intro skip) (auto simp: Let_def)
next
  case False
  let ?c = "cfg_at (e_axis e) (e_base e) value"
  define after_run where "after_run = (\<lambda>rows. io_seq (write_csv s (e_out e) (t @ rows))
       (io_seq (tell b s e (length plan) value rep (last rows))
         (if \<not> is_valid (last rows) \<and> \<not> g_keep_going g
            then io_seq (push (arm_of b s @ '' '' @ stem_of (file_name (e_out e)) @ '' sweep STOPPED'') (stop_msg b e (length plan) value rep (last rows))) (io_ret (t @ rows))
            else sweep_loop b s g e plan (t @ rows) (Some ?c) True)))"
  have run: "io_seq (if built = Some ?c then io_ret () else io_call (Build ?c (e_ip e)) (b_build b ?c (e_ip e)))
        (io_seq (io_when (begun \<and> g_cooldown g \<noteq> 0) (cool_for s (g_cooldown g)))
        (io_bind (sweep_run b s g e value rep) after_run)) w = (r, w', es)"
    using assms False by (simp add: Let_def after_run_def cong: if_cong)
  obtain rb wb where built: "(if built = Some ?c then io_ret () else io_call (Build ?c (e_ip e)) (b_build b ?c (e_ip e))) w
      = (rb, wb, build_part e built ?c)" "built = Some ?c \<Longrightarrow> rb = Inr ()"
    by (cases "b_build b ?c (e_ip e) w"; cases "built = Some ?c") (simp_all add: build_part_def io_ret_def io_call_def)
  show ?thesis
  proof (cases rb)
    case (Inl x)
    with built have "built \<noteq> Some ?c" by auto
    with run built(1) Inl have "r = Inl x" "es = [Build ?c (e_ip e)]"
      by (simp_all add: io_seq_def io_bind_def build_part_def split: if_splits)
    with \<open>built \<noteq> Some ?c\<close> False show ?thesis by (intro broken)
  next
    case (Inr u)
    obtain wc where cooled: "io_when (begun \<and> g_cooldown g \<noteq> 0) (cool_for s (g_cooldown g)) wb = (Inr (), wc, cool_part g begun)"
      by (cases "begun \<and> g_cooldown g \<noteq> 0") (auto simp: io_when_def cool_for_def io_call_def io_ret_def cool_part_def)
    obtain r1 w1 runs where one: "sweep_run b s g e value rep wc = (r1, w1, runs)" by (metis prod_cases3)
    note spec = sweep_run_spec [OF one]
    show ?thesis
    proof (cases r1)
      case (Inl x)
      with run built(1) Inr cooled one have "r = Inl x" "es = build_part e built ?c @ cool_part g begun @ runs"
        by (simp_all add: io_seq_def io_bind_def)
      with spec False show ?thesis by (intro abort) auto
    next
      case (Inr rows)
      with run built(1) \<open>rb = Inr u\<close> cooled one obtain es2 where
        fin: "after_run rows w1 = (r, w', es2)" "es = build_part e built ?c @ cool_part g begun @ runs @ es2"
        by (cases "after_run rows w1") (simp add: io_seq_def io_bind_def)
      show ?thesis
      proof (cases "\<not> is_valid (last rows) \<and> \<not> g_keep_going g")
        case True
        with fin spec Inr False show ?thesis
          by (intro stop) (auto simp: after_run_def io_seq_def io_bind_def write_csv_def io_call_def tell_def push_def io_emit_def io_ret_def)
      next
        case go_on: False
        obtain r3 w3 es3 where l: "sweep_loop b s g e plan (t @ rows) (Some ?c) True (s_write s (e_out e) (t @ rows) w1) = (r3, w3, es3)"
          by (metis prod_cases3)
        with fin(1) go_on obtain p q where "r = r3" "w' = w3" "es2 = [Wrote (e_out e) (t @ rows), Push p q] @ es3"
          by (auto simp: after_run_def io_seq_def io_bind_def write_csv_def io_call_def tell_def push_def io_emit_def)
        with go [OF False, of rows "s_write s (e_out e) (t @ rows) w1" es3 runs p q] l fin(2) spec Inr go_on
        show ?thesis by auto
      qed
    qed
  qed
qed

section \<open>Builds and idle time\<close>

text \<open>Reading the effects with the point last built: no point is built twice in a row, and every run is of the point last built.\<close>

fun built_first :: "pyval dict option \<Rightarrow> seff list \<Rightarrow> bool" where
  "built_first c [] = True"
| "built_first c (Build cfg ip # es) = (c \<noteq> Some cfg \<and> built_first (Some cfg) es)"
| "built_first c (RunBench i cfg # es) = (c = Some cfg \<and> built_first c es)"
| "built_first c (_ # es) = built_first c es"

text \<open>
  Reading the effects with whether a run may start: not before the quota's 90 seconds are waited for after a
  try, and not before the cool-down \<open>cd\<close> after a run was recorded, which counts as waited for when it is 0.
\<close>

fun paced :: "int \<Rightarrow> bool \<Rightarrow> seff list \<Rightarrow> bool" where
  "paced cd ok [] = True"
| "paced cd ok (RunBench i cfg # es) = (ok \<and> paced cd False es)"
| "paced cd ok (CoolDown d # es) = (d = cd \<and> cd \<noteq> 0 \<and> paced cd True es)"
| "paced cd ok (QuotaWait # es) = paced cd True es"
| "paced cd ok (Wrote p t # es) = paced cd (cd = 0) es"
| "paced cd ok (_ # es) = paced cd ok es"

lemma tries_built [simp]: "built_first (Some cfg) (tries k inst cfg @ es) = built_first (Some cfg) es"
  by (induction k) (simp_all add: tries_Suc)





lemma paced_build [simp]: "paced cd ok (build_part e built cfg @ es) = paced cd ok es"
  by (auto simp: build_part_def)

lemma cool_part_built [simp]: "built_first c (cool_part g begun @ es) = built_first c es"
  by (auto simp: cool_part_def)







section \<open>What is recorded\<close>

fun writes :: "seff list \<Rightarrow> table list" where
  "writes [] = []"
| "writes (Wrote p t # es) = t # writes es"
| "writes (_ # es) = writes es"

lemma writes_append [simp]: "writes (xs @ ys) = writes xs @ writes ys"
  by (induction xs rule: writes.induct) simp_all

lemma writes_tries [simp]: "writes (tries k inst cfg) = []"
  by (induction k) (simp_all add: tries_Suc)

lemma writes_run [simp]: "run_effects inst cfg es \<Longrightarrow> writes es = []"
  by (auto simp: run_effects_def)

lemma writes_parts [simp]: "writes (build_part e built cfg) = []" "writes (cool_part g begun) = []"
  by (simp_all add: build_part_def cool_part_def)

text \<open>The tables written as the runs \<open>rs\<close> are recorded one after another.\<close>

fun tables :: "table \<Rightarrow> ((pyval \<times> int) \<times> table) list \<Rightarrow> table list" where
  "tables t [] = []"
| "tables t (x # rs) = (t @ snd x) # tables (t @ snd x) rs"

abbreviation after_runs :: "table \<Rightarrow> ((pyval \<times> int) \<times> table) list \<Rightarrow> table" where
  "after_runs t rs \<equiv> t @ concat (map snd rs)"

text \<open>Every entry of the plan was recorded by one of the runs, or found in the table as it stood when its turn came.\<close>

definition covered :: "sweep_env \<Rightarrow> (pyval \<times> int) list \<Rightarrow> table \<Rightarrow> ((pyval \<times> int) \<times> table) list \<Rightarrow> bool" where
  "covered e plan t rs \<longleftrightarrow> (\<forall>v rep. (v, rep) \<in> set plan \<longrightarrow> (v, rep) \<in> fst ` set rs \<or>
     (\<exists>k \<le> length rs. run_done (after_runs t (take k rs)) (e_axis e) v rep (cfg_at (e_axis e) (e_base e) v)))"

definition recorded :: "'w bench \<Rightarrow> 'w site \<Rightarrow> sargs \<Rightarrow> sweep_env \<Rightarrow> (pyval \<times> int) list \<Rightarrow> table \<Rightarrow> exn + table \<Rightarrow> seff list \<Rightarrow>
    ((pyval \<times> int) \<times> table) list \<Rightarrow> bool" where
  "recorded b s g e plan t r es rs \<longleftrightarrow>
     writes es = tables t rs \<and> subseq (map fst rs) plan \<and>
     (\<forall>v rep rows. ((v, rep), rows) \<in> set rs \<longrightarrow> rows_for b s g e v rep rows) \<and>
     (g_keep_going g \<or> list_all (\<lambda>x. is_valid (last (snd x))) (butlast rs)) \<and>
     (case r of Inl _ \<Rightarrow> True | Inr t' \<Rightarrow> t' = after_runs t rs \<and>
        (g_keep_going g \<or> rs = [] \<or> is_valid (last (snd (last rs))) \<longrightarrow> covered e plan t rs))"

lemma covered_skip:
  "covered e plan t rs \<Longrightarrow> run_done t (e_axis e) v rep (cfg_at (e_axis e) (e_base e) v) \<Longrightarrow> covered e ((v, rep) # plan) t rs"
  unfolding covered_def by (auto intro!: exI [of _ 0])

lemma covered_cons:
  assumes "covered e plan (t @ rows) rs"
  shows "covered e ((v, rep) # plan) t (((v, rep), rows) # rs)"
proof -
  have "\<exists>k \<le> Suc (length rs). run_done (after_runs t (take k (((v, rep), rows) # rs))) a v' rep' c"
    if "k \<le> length rs" "run_done (after_runs (t @ rows) (take k rs)) a v' rep' c" for k a v' rep' c
    using that by (intro exI [of _ "Suc k"]) simp
  note later = this
  show ?thesis unfolding covered_def
  proof (intro allI impI)
    fix v' rep'
    assume "(v', rep') \<in> set ((v, rep) # plan)"
    then consider "(v', rep') = (v, rep)" | "(v', rep') \<in> fst ` set rs"
      | k where "k \<le> length rs" "run_done (after_runs (t @ rows) (take k rs)) (e_axis e) v' rep' (cfg_at (e_axis e) (e_base e) v')"
      using assms [unfolded covered_def, rule_format, of v' rep'] by auto
    then show "(v', rep') \<in> fst ` set (((v, rep), rows) # rs) \<or>
       (\<exists>k \<le> length (((v, rep), rows) # rs). run_done (after_runs t (take k (((v, rep), rows) # rs))) (e_axis e) v' rep' (cfg_at (e_axis e) (e_base e) v'))"
      by cases (simp, simp, metis later length_Cons)
  qed
qed

lemma recorded_skip:
  assumes "recorded b s g e plan t r es rs" "run_done t (e_axis e) v rep (cfg_at (e_axis e) (e_base e) v)"
  shows "recorded b s g e ((v, rep) # plan) t r es rs"
  using assms unfolding recorded_def by (auto split: sum.splits intro: covered_skip)

lemma recorded_none:
  assumes "writes es = []"
  shows "recorded b s g e plan t (Inl x) es []"
  using assms by (simp add: recorded_def)

lemma recorded_cons:
  assumes "recorded b s g e plan (t @ rows) r es rs" "rows_for b s g e v rep rows" "writes pre = [t @ rows]"
    and "is_valid (last rows) \<or> g_keep_going g"
  shows "recorded b s g e ((v, rep) # plan) t r (pre @ es) (((v, rep), rows) # rs)"
proof -
  note rec = assms(1) [unfolded recorded_def]
  let ?rs = "((v, rep), rows) # rs"
  have 1: "writes (pre @ es) = tables t ?rs" using rec assms(3) by simp
  have 2: "subseq (map fst ?rs) ((v, rep) # plan)" using rec by simp
  have 3: "\<forall>v rep rows. ((v, rep), rows) \<in> set ?rs \<longrightarrow> rows_for b s g e v rep rows" using rec assms(2) by auto
  have 4: "g_keep_going g \<or> list_all (\<lambda>x. is_valid (last (snd x))) (butlast ?rs)"
    using rec assms(4) by (cases rs) auto
  have 5: "case r of Inl _ \<Rightarrow> True | Inr t' \<Rightarrow> t' = after_runs t ?rs \<and>
      (g_keep_going g \<or> ?rs = [] \<or> is_valid (last (snd (last ?rs))) \<longrightarrow> covered e ((v, rep) # plan) t ?rs)"
  proof (cases r)
    case (Inr t')
    with rec have t': "t' = after_runs (t @ rows) rs"
      and c: "g_keep_going g \<or> rs = [] \<or> is_valid (last (snd (last rs))) \<longrightarrow> covered e plan (t @ rows) rs" by auto
    have "covered e plan (t @ rows) rs" if "g_keep_going g \<or> is_valid (last (snd (last ?rs)))"
      using c that by (cases "rs = []") auto
    with Inr t' show ?thesis by (auto intro: covered_cons)
  qed simp
  show ?thesis unfolding recorded_def by (intro conjI 1 2 3 4 5)
qed

lemma sweep_loop_records:
  "sweep_loop b s g e plan t built begun w = (r, w', es) \<Longrightarrow> \<exists>rs. recorded b s g e plan t r es rs"
proof (induction plan arbitrary: t built begun w r w' es)
  case Nil
  then have "recorded b s g e [] t r es []" by (auto simp: io_ret_def recorded_def covered_def)
  then show ?case ..
next
  case (Cons vr plan)
  obtain val rep where vr: "vr = (val, rep)" by fastforce
  from Cons.prems [unfolded vr] show ?case unfolding vr
  proof (cases rule: sweep_step)
    case skip
    from Cons.IH [OF skip(3)] recorded_skip [OF _ skip(2)] show "\<exists>rs. recorded b s g e ((val, rep) # plan) t r es rs" by blast
  next
    case (broken x)
    then have "recorded b s g e ((val, rep) # plan) t r es []" by (simp add: recorded_none)
    then show "\<exists>rs. recorded b s g e ((val, rep) # plan) t r es rs" ..
  next
    case (abort x runs)
    then have "recorded b s g e ((val, rep) # plan) t r es []" by (simp add: recorded_none)
    then show "\<exists>rs. recorded b s g e ((val, rep) # plan) t r es rs" ..
  next
    case (stop rows runs p q p' q')
    then have "recorded b s g e ((val, rep) # plan) t r es [((val, rep), rows)]"
      by (simp add: recorded_def)
    then show "\<exists>rs. recorded b s g e ((val, rep) # plan) t r es rs" ..
  next
    case (go rows runs p q v es')
    from Cons.IH [OF go(2)] obtain rs where "recorded b s g e plan (t @ rows) r es' rs" ..
    from recorded_cons [OF this go(5), of "build_part e built (cfg_at (e_axis e) (e_base e) val) @ cool_part g begun @ runs @ [Wrote (e_out e) (t @ rows), Push p q]"]
    have "recorded b s g e ((val, rep) # plan) t r es (((val, rep), rows) # rs)"
      using go(3,4,6) by simp
    then show "\<exists>rs. recorded b s g e ((val, rep) # plan) t r es rs" ..
  qed
qed

text \<open>
  C19. Nothing measured is lost or invented: the CSV is written after every run, each time the table
  before it with the rows that run answered, labelled with its axis value and repetition; the runs
  recorded are entries of the plan in its order; without \<open>--keep-going\<close> only the last one recorded can
  be invalid; and a sweep that returns without such a stop has recorded every entry of the plan or found
  it in the table when its turn came.
\<close>

theorem sweep_records:
  "case sweep_loop b s g e plan t None False w of (r, w', es) \<Rightarrow> \<exists>rs. recorded b s g e plan t r es rs"
  using sweep_loop_records [where b = b and s = s and g = g and e = e and plan = plan and t = t and built = None and begun = False and w = w]
  by (auto split: prod.splits)

section \<open>The CSV between two sweeps\<close>

text \<open>
  The next sweep does not see the cells of this one: it reads the text \<open>to_csv\<close> wrote, and \<open>read_csv\<close> guesses
  a column's type from all its texts. Three kinds of columns are described here. In one of integers a cell
  that is the text of an integer comes back as that integer; in one of flags nothing changes; in one of
  texts that pandas takes for nothing else, an empty text comes back as a missing cell. Of any other
  column (floats, numbers with gaps, texts like \<open>NA\<close> or \<open>1e3\<close>) nothing is assumed.
\<close>

datatype kind = KInt | KBool | KText

definition letter :: "char \<Rightarrow> bool" where
  "letter c \<longleftrightarrow> 65 \<le> (of_char c :: nat) \<and> (of_char c :: nat) \<le> 90 \<or> 97 \<le> (of_char c :: nat) \<and> (of_char c :: nat) \<le> 122"

definition lowered :: "char \<Rightarrow> char" where
  "lowered c = (if 65 \<le> (of_char c :: nat) \<and> (of_char c :: nat) \<le> 90 then char_of (of_char c + 32 :: nat) else c)"

definition solid :: "string \<Rightarrow> bool" where
  "solid x \<longleftrightarrow> x \<noteq> [] \<and> letter (hd x) \<and> list_all (\<lambda>c. 32 \<le> (of_char c :: nat) \<and> (of_char c :: nat) < 127) x
     \<and> map lowered x \<notin> {''na'', ''n/a'', ''nan'', ''null'', ''none'', ''true'', ''false'', ''inf'', ''infinity''}"

definition int_text :: "string \<Rightarrow> int option" where
  "int_text x =
     (let i = (if take 1 x = ''-'' then - int (nat_of_digits (drop 1 x)) else int (nat_of_digits x))
      in if show_int i = x then Some i else None)"

definition int64 :: "int \<Rightarrow> bool" where
  "int64 i \<longleftrightarrow> - (2 ^ 63) \<le> i \<and> i < 2 ^ 63"

text \<open>How a cell comes back in a column of a kind; None if it is not of that kind.\<close>

fun csv_cell :: "kind \<Rightarrow> pyval \<Rightarrow> pyval option" where
  "csv_cell KInt (PInt i) = (if int64 i then Some (PInt i) else None)"
| "csv_cell KInt (PStr x) = (case int_text x of Some i \<Rightarrow> if int64 i then Some (PInt i) else None | None \<Rightarrow> None)"
| "csv_cell KBool (PBool c) = Some (PBool c)"
| "csv_cell KText PNone = Some PNone"
| "csv_cell KText (PStr x) = (if x = [] then Some PNone else if solid x then Some (PStr x) else None)"
| "csv_cell _ _ = None"

definition of_kind :: "kind \<Rightarrow> string \<Rightarrow> table \<Rightarrow> bool" where
  "of_kind kd k t \<longleftrightarrow> list_all (\<lambda>r. csv_cell kd (dict_get r k) \<noteq> None) t"

text \<open>The table \<open>t2\<close> is what \<open>read_csv\<close> makes of the CSV \<open>t\<close> was written to.\<close>

definition csv_reads :: "table \<Rightarrow> table \<Rightarrow> bool" where
  "csv_reads t t2 \<longleftrightarrow> length t2 = length t \<and> columns t2 = columns t \<and>
     (\<forall>k kd. of_kind kd k t \<longrightarrow> (\<forall>i < length t. csv_cell kd (dict_get (t ! i) k) = Some (dict_get (t2 ! i) k)))"

text \<open>A reading like that exists for every table, as no column is of two kinds.\<close>

definition reread_cell :: "table \<Rightarrow> string \<Rightarrow> pyval \<Rightarrow> pyval" where
  "reread_cell t k v =
     (if of_kind KInt k t then the (csv_cell KInt v) else if of_kind KBool k t then the (csv_cell KBool v)
      else if of_kind KText k t then the (csv_cell KText v) else v)"

definition reread :: "table \<Rightarrow> table" where
  "reread t = map (map (\<lambda>(k, v). (k, reread_cell t k v))) t"

lemma show_nat_hd: "is_digit (hd (show_nat n))"
  using show_nat_digits [of n] show_nat_nonempty [of n] by (cases "show_nat n") auto

lemma int_text_show [simp]: "int_text (show_int i) = Some i"
proof -
  have "take 1 (show_nat n) \<noteq> ''-''" for n
    using show_nat_hd [of n] by (cases "show_nat n") (auto simp: is_digit_def)
  then show ?thesis by (simp add: int_text_def show_int_def)
qed

lemma int_text_Some: "int_text x = Some i \<Longrightarrow> x = show_int i"
  by (auto simp: int_text_def Let_def split: if_splits)

lemma solid_no_int: "solid x \<Longrightarrow> int_text x = None"
proof (rule ccontr)
  assume s: "solid x" and "int_text x \<noteq> None"
  then obtain i where "x = show_int i" by (auto dest: int_text_Some)
  with s show False using show_nat_hd [of "nat i"]
    by (auto simp: solid_def show_int_def letter_def is_digit_def split: if_splits)
qed

lemma int_text_empty [simp]: "int_text [] = None"
  by (auto simp: int_text_def show_int_def)

lemma one_kind: "csv_cell kd v = Some u \<Longrightarrow> csv_cell kd' v = Some u' \<Longrightarrow> kd' = kd"
  by (cases kd; cases kd'; cases v) (auto split: if_splits option.splits dest: solid_no_int)

lemma of_kindD: "of_kind kd k t \<Longrightarrow> r \<in> set t \<Longrightarrow> \<exists>u. csv_cell kd (dict_get r k) = Some u"
  by (auto simp: of_kind_def list_all_iff)

lemma reread_cell_kind: "of_kind kd k t \<Longrightarrow> t \<noteq> [] \<Longrightarrow> reread_cell t k v = the (csv_cell kd v)"
proof -
  assume a: "of_kind kd k t" "t \<noteq> []"
  then have "hd t \<in> set t" by simp
  with a one_kind have "of_kind kd' k t \<longleftrightarrow> kd' = kd" for kd' by (meson of_kindD)
  then show ?thesis by (cases kd) (simp_all add: reread_cell_def)
qed

lemma csv_cell_again: "csv_cell kd v = Some u \<Longrightarrow> csv_cell kd u = Some u"
  by (cases "(kd, v)" rule: csv_cell.cases) (auto split: if_splits option.splits)

lemma csv_cell_int: "csv_cell KInt v = Some u \<Longrightarrow> \<exists>i. u = PInt i"
  by (cases v) (auto split: if_splits option.splits)

lemma csv_cell_absent: "csv_cell kd PNone = Some u \<Longrightarrow> u = PNone"
  by (cases kd) auto

lemma dict_get_cells: "dict_get (map (\<lambda>(k, v). (k, f k v)) r) k = (case map_of r k of Some v \<Rightarrow> f k v | None \<Rightarrow> PNone)"
  by (induction r) (auto simp: dict_get_def split: prod.splits option.splits)

lemma csv_reads_reread: "csv_reads t (reread t)"
  unfolding csv_reads_def
proof (intro conjI allI impI)
  show "length (reread t) = length t" by (simp add: reread_def)
  have "map fst (map (\<lambda>(k, v). (k, reread_cell t k v)) r) = map fst r" for r by (induction r) auto
  then have "map (map fst) (reread t) = map (map fst) t" by (simp add: reread_def)
  then show "columns (reread t) = columns t" by (simp add: columns_def)
next
  fix k kd i assume a: "of_kind kd k t" "i < length t"
  then have m: "t ! i \<in> set t" by simp
  with a(1) obtain u where u: "csv_cell kd (dict_get (t ! i) k) = Some u" by (blast dest: of_kindD)
  from m have ne: "t \<noteq> []" by auto
  have "dict_get (reread t ! i) k = (case map_of (t ! i) k of Some v \<Rightarrow> the (csv_cell kd v) | None \<Rightarrow> PNone)"
    using a(2) by (simp add: reread_def dict_get_cells reread_cell_kind [OF a(1) ne] cong: option.case_cong)
  with u show "csv_cell kd (dict_get (t ! i) k) = Some (dict_get (reread t ! i) k)"
    by (cases "map_of (t ! i) k") (auto simp: dict_get_def dest: csv_cell_absent)
qed

text \<open>
  A text that is a number is not recognised: the knob is a string, the column comes back as integers, and
  \<open>done\<close> compares one with the other.
\<close>

lemma text_number_not_done:
  assumes reads: "csv_reads t t2" and col: "of_kind KInt ''axis_value'' t"
  shows "\<not> run_done t2 axis (PStr x) rep cfg"
proof -
  have "\<exists>i. dict_get r ''axis_value'' = PInt i" if m: "r \<in> set t2" for r
  proof -
    from m reads obtain i where i: "i < length t" "r = t2 ! i" by (auto simp: in_set_conv_nth csv_reads_def)
    with reads col have "csv_cell KInt (dict_get (t ! i) ''axis_value'') = Some (dict_get r ''axis_value'')" by (auto simp: csv_reads_def)
    then show ?thesis by (rule csv_cell_int)
  qed
  then have "\<not> cell_is r ''axis_value'' (PStr x)" if "r \<in> set t2" for r using that by (force simp: cell_is_def)
  then show ?thesis by (auto simp: run_done_def row_done_def list_ex_iff)
qed

section \<open>Resuming\<close>

text \<open>A table in which the columns \<open>ks\<close> are there and of the kinds \<open>kd\<close>, and what \<open>done\<close> makes of it.\<close>

definition kinded :: "(string \<Rightarrow> kind) \<Rightarrow> string set \<Rightarrow> table \<Rightarrow> bool" where
  "kinded kd ks t \<longleftrightarrow> (t = [] \<or> ks \<subseteq> columns t) \<and> (\<forall>k \<in> ks. of_kind (kd k) k t)"

definition text_of :: "pyval \<Rightarrow> string" where
  "text_of v = (if v = PNone then [] else py_str v)"

lemma text_of_csv: "csv_cell kd v = Some u \<Longrightarrow> text_of u = text_of v"
  by (cases "(kd, v)" rule: csv_cell.cases) (auto simp: text_of_def dest!: int_text_Some split: if_splits option.splits)

lemma kind_cell: "of_kind kd k t \<Longrightarrow> r \<in> set t \<Longrightarrow> cell_text t k r = text_of (dict_get r k)"
proof -
  assume a: "of_kind kd k t" "r \<in> set t"
  have "\<not> float_column t k" if "dict_get r k = PInt i" for i
  proof -
    from a that have kd: "kd = KInt" by (cases kd) (auto dest: of_kindD)
    have "\<not> (v = PNone \<or> is_float v)" if "csv_cell KInt v = Some u" for v u using that by (cases v) auto
    with a(1) show ?thesis by (fastforce simp: float_column_def list_ex_iff Let_def kd dest: of_kindD)
  qed
  then show ?thesis by (cases "dict_get r k") (auto simp: cell_text_def text_of_def)
qed

lemma row_done_kinded:
  assumes "kinded kd (fst ` set cfg) t" "r \<in> set t"
  shows "row_done t axis v rep cfg r \<longleftrightarrow>
    cell_is r ''axis'' (PStr axis) \<and> cell_is r ''axis_value'' v \<and> cell_is r ''rep'' (PInt rep) \<and>
    list_all (\<lambda>(k, u). k \<noteq> axis \<longrightarrow> text_of (dict_get r k) = py_str u) cfg"
proof -
  have "k \<in> columns t \<and> cell_text t k r = text_of (dict_get r k)" if "(k, u) \<in> set cfg" for k u
    using assms that kind_cell [OF _ assms(2)] by (force simp: kinded_def)
  then show ?thesis unfolding row_done_def list_all_iff by fastforce
qed

lemma run_done_mono:
  assumes "kinded kd (fst ` set cfg) t" "kinded kd (fst ` set cfg) t'" "set t \<subseteq> set t'" "run_done t axis v rep cfg"
  shows "run_done t' axis v rep cfg"
proof -
  from assms(4) obtain r where r: "r \<in> set t" "row_done t axis v rep cfg r" by (auto simp: run_done_def list_ex_iff)
  with row_done_kinded [OF assms(1) r(1)] row_done_kinded [OF assms(2), of r axis v rep] assms(3) have "row_done t' axis v rep cfg r" by auto
  with r assms(3) show ?thesis by (auto simp: run_done_def list_ex_iff)
qed

text \<open>Values that come back as they are: what a run is recognised by must be.\<close>

definition steady :: "kind \<Rightarrow> pyval \<Rightarrow> bool" where
  "steady kd v \<longleftrightarrow> v \<noteq> PNone \<and> csv_cell kd v = Some v"

lemma steady_cell:
  assumes "steady kd v" "csv_cell kd c = Some c'" "py_eq c v" "c \<noteq> PNone"
  shows "c' \<noteq> PNone \<and> py_eq c' v"
  using assms by (cases "(kd, c)" rule: csv_cell.cases; cases v)
    (auto simp: steady_def dest!: int_text_Some split: if_splits option.splits)

text \<open>A run that is found in a table is found in what \<open>read_csv\<close> makes of its CSV.\<close>

lemma run_done_read:
  assumes reads: "csv_reads t t2" and t: "kinded kd (fst ` set cfg) t"
    and labels: "of_kind (kd ''axis'') ''axis'' t" "of_kind (kd ''axis_value'') ''axis_value'' t" "of_kind (kd ''rep'') ''rep'' t"
    and st: "steady (kd ''axis'') (PStr axis)" "steady (kd ''axis_value'') v" "steady (kd ''rep'') (PInt rep)"
    and fin: "run_done t axis v rep cfg"
  shows "run_done t2 axis v rep cfg"
proof -
  have cell: "csv_cell d (dict_get (t ! i) k) = Some (dict_get (t2 ! i) k)" if "of_kind d k t" "i < length t" for d i k
    using reads that by (auto simp: csv_reads_def)
  have t2: "length t2 = length t" "columns t2 = columns t" using reads by (auto simp: csv_reads_def)
  from fin obtain i where i: "i < length t" "row_done t axis v rep cfg (t ! i)"
    by (auto simp: run_done_def list_ex_iff in_set_conv_nth)
  have m: "t ! i \<in> set t" "t2 ! i \<in> set t2" using i(1) t2(1) by auto
  have lab: "cell_is (t2 ! i) k u" if "cell_is (t ! i) k u" "of_kind (kd k) k t" "steady (kd k) u" for k u
    using that steady_cell [OF that(3) cell [OF that(2) i(1)]] by (auto simp: cell_is_def)
  note r = i(2) [unfolded row_done_kinded [OF t m(1)]]
  have knob: "cell_text t2 k (t2 ! i) = py_str u" if "(k, u) \<in> set cfg" "k \<noteq> axis" for k u
  proof -
    from that(1) t have k: "of_kind (kd k) k t" by (force simp: kinded_def)
    have "of_kind (kd k) k t2" unfolding of_kind_def list_all_length
    proof (intro allI impI)
      fix j assume "j < length t2"
      with cell [OF k, of j] t2(1) show "csv_cell (kd k) (dict_get (t2 ! j) k) \<noteq> None"
        by (metis csv_cell_again option.distinct(1))
    qed
    from kind_cell [OF this m(2)] text_of_csv [OF cell [OF k i(1)]] r that show ?thesis by (auto simp: list_all_iff)
  qed
  have "row_done t2 axis v rep cfg (t2 ! i)"
    using r lab labels st knob unfolding row_done_def list_all_iff by auto
  with m(2) show ?thesis by (auto simp: run_done_def list_ex_iff)
qed

text \<open>The keys \<open>main\<close> writes itself; no knob has one of these names.\<close>

definition reserved :: "string set" where
  "reserved = {''timestamp'', ''instance'', ''axis'', ''axis_value'', ''rep'', ''note'', ''valid'', ''est_rx_pps'', ''gbps_per_worker'', ''setup_degraded''}"

lemma not_derived: "k \<notin> reserved \<Longrightarrow> k \<notin> {''valid'', ''est_rx_pps'', ''gbps_per_worker'', ''setup_degraded''}"
  by (auto simp: reserved_def)

lemma if_both_get: "if_both r a b f = Inr r' \<Longrightarrow> (\<And>x y. dict_get (f x y) k = dict_get r k) \<Longrightarrow> dict_get r' k = dict_get r k"
  by (auto simp: if_both_def res_bind_Inr split: if_splits)

lemma annotate_get:
  assumes "annotate b ls cfg r = Inr r'" "k \<notin> {''valid'', ''est_rx_pps'', ''gbps_per_worker'', ''setup_degraded''}"
  shows "dict_get r' k = dict_get (dict_merge r (dict_merge ls (point_cells cfg r))) k"
proof -
  let ?r1 = "dict_merge r (dict_merge ls (point_cells cfg r))"
  from assms(1) obtain v r3 r4 where a: "rx_pps (dict_set ''valid'' (PBool v) ?r1) = Inr r3"
    "per_worker r3 = Inr r4" "degraded r4 = Inr r'"
    by (auto simp: annotate_def Let_def res_bind_Inr)
  from a(3) assms(2) have "dict_get r' k = dict_get r4 k" by (auto simp: degraded_def res_bind_Inr split: if_splits)
  also have "\<dots> = dict_get r3 k" using if_both_get [OF a(2) [unfolded per_worker_def], of k] assms(2) by simp
  also have "\<dots> = dict_get (dict_set ''valid'' (PBool v) ?r1) k"
    using if_both_get [OF a(1) [unfolded rx_pps_def], of k] assms(2) by simp
  finally show ?thesis using assms(2) by simp
qed

lemma annotate_cells:
  assumes "annotate b (labels ts inst axis v rep note) cfg r = Inr r'" "distinct (map fst cfg)"
    and "fst ` set cfg \<inter> reserved = {}" "dict_get r ''query'' = PNone"
  shows "dict_get r' ''axis'' = PStr axis" "dict_get r' ''axis_value'' = v" "dict_get r' ''rep'' = PInt rep"
    and "k \<in> fst ` set cfg \<Longrightarrow> dict_get r' k = dict_get cfg k"
proof -
  have pc: "point_cells cfg r = cfg" using assms(4) by (simp add: point_cells_def)
  have dl: "distinct (map fst (labels ts inst axis v rep note))" by (simp add: labels_def)
  have m: "map_of (dict_merge r (dict_merge (labels ts inst axis v rep note) (point_cells cfg r)))
     = map_of r ++ (map_of (labels ts inst axis v rep note) ++ map_of cfg)"
    using assms(2) dl by (simp add: map_of_dict_merge distinct_dict_merge pc)
  have none: "map_of cfg k = None" if "k \<in> reserved" for k
    using that assms(3) by (auto simp: map_of_eq_None_iff)
  have l: "map_of (labels ts inst axis v rep note) ''axis'' = Some (PStr axis)"
    "map_of (labels ts inst axis v rep note) ''axis_value'' = Some v"
    "map_of (labels ts inst axis v rep note) ''rep'' = Some (PInt rep)" by (simp_all add: labels_def)
  show "dict_get r' ''axis'' = PStr axis" "dict_get r' ''axis_value'' = v" "dict_get r' ''rep'' = PInt rep"
    by (subst annotate_get [OF assms(1)], simp, simp add: dict_get_def m none reserved_def map_add_def l)+
  assume k: "k \<in> fst ` set cfg"
  with assms(3) have "k \<notin> {''valid'', ''est_rx_pps'', ''gbps_per_worker'', ''setup_degraded''}"
    by (intro not_derived) blast
  moreover from k obtain u where "map_of cfg k = Some u" by (metis map_of_eq_None_iff not_None_eq)
  ultimately show "dict_get r' k = dict_get cfg k"
    by (subst annotate_get [OF assms(1)], simp, simp add: dict_get_def m)
qed

definition queryless :: "'w bench \<Rightarrow> bool" where
  "queryless b \<longleftrightarrow> (\<forall>inst logs cfg ip rows. answered b inst logs cfg ip rows \<longrightarrow> (\<forall>r \<in> set rows. dict_get r ''query'' = PNone))"

lemma list_all2_right: "list_all2 P xs ys \<Longrightarrow> y \<in> set ys \<Longrightarrow> \<exists>x \<in> set xs. P x y"
  by (induction rule: list_all2_induct) auto

lemma rows_for_cells:
  assumes "rows_for b s g e v rep rows'" "queryless b" "r' \<in> set rows'"
    and "cfg = cfg_at (e_axis e) (e_base e) v" "distinct (map fst cfg)" "fst ` set cfg \<inter> reserved = {}"
  shows "dict_get r' ''axis'' = PStr (e_axis e) \<and> dict_get r' ''axis_value'' = v \<and> dict_get r' ''rep'' = PInt rep \<and>
     (\<forall>k \<in> fst ` set cfg. dict_get r' k = dict_get cfg k)"
proof -
  from assms(1) [unfolded rows_for_def] obtain rows where
    ans: "answered b (instance_at (e_axis e) (g_instance g) v) (logs_dir (e_out e)) cfg (e_ip e) rows"
    and l: "list_all2 (\<lambda>r r'. \<exists>ts. annotate b (labels ts (instance_at (e_axis e) (g_instance g) v) (e_axis e) v rep
       (env_or s ''BENCH_NOTE'' [])) cfg r = Inr r') rows rows'" unfolding assms(4) by blast
  from l assms(3) obtain r ts where r: "r \<in> set rows"
    "annotate b (labels ts (instance_at (e_axis e) (g_instance g) v) (e_axis e) v rep (env_or s ''BENCH_NOTE'' [])) cfg r = Inr r'"
    using list_all2_right [OF l assms(3)] by blast
  from ans r(1) assms(2) have "dict_get r ''query'' = PNone" by (auto simp: queryless_def)
  from annotate_cells [OF r(2) assms(5,6) this] show ?thesis by blast
qed

text \<open>
  What a plan's points must be for their rows to be recognised: one set of knobs, all given, of the kinds
  \<open>kd\<close>, and axis values and repetitions that come back as they are.
\<close>

definition steady_plan :: "(string \<Rightarrow> kind) \<Rightarrow> sweep_env \<Rightarrow> string set \<Rightarrow> (pyval \<times> int) list \<Rightarrow> bool" where
  "steady_plan kd e ks plan \<longleftrightarrow> (\<forall>(v, rep) \<in> set plan. steady (kd ''axis_value'') v \<and> steady (kd ''rep'') (PInt rep) \<and>
     distinct (map fst (cfg_at (e_axis e) (e_base e) v)) \<and> fst ` set (cfg_at (e_axis e) (e_base e) v) = ks \<and>
     (\<forall>k \<in> ks. dict_get (cfg_at (e_axis e) (e_base e) v) k \<noteq> PNone \<and> csv_cell (kd k) (dict_get (cfg_at (e_axis e) (e_base e) v) k) \<noteq> None))"

lemma steady_planD:
  assumes "steady_plan kd e ks plan" "(v, rep) \<in> set plan"
  shows "steady (kd ''axis_value'') v" "steady (kd ''rep'') (PInt rep)" "distinct (map fst (cfg_at (e_axis e) (e_base e) v))"
    "fst ` set (cfg_at (e_axis e) (e_base e) v) = ks"
    "k \<in> ks \<Longrightarrow> dict_get (cfg_at (e_axis e) (e_base e) v) k \<noteq> PNone"
    "k \<in> ks \<Longrightarrow> csv_cell (kd k) (dict_get (cfg_at (e_axis e) (e_base e) v) k) \<noteq> None"
  using bspec [OF assms(1) [unfolded steady_plan_def] assms(2)] by simp_all

lemma recorded_planned:
  assumes "recorded b s g e plan t r es rs" "((v, rep), rows) \<in> set rs"
  shows "(v, rep) \<in> set plan" "rows_for b s g e v rep rows"
proof -
  have sub: "subseq (map fst rs) plan" using assms(1) by (simp add: recorded_def)
  have "(v, rep) \<in> set (map fst rs)" using assms(2) by force
  from list_emb_set [OF sub this] show "(v, rep) \<in> set plan" by blast
  show "rows_for b s g e v rep rows" using assms unfolding recorded_def by blast
qed

lemma recorded_cells:
  assumes rec: "recorded b s g e plan t res es rs" and cfgs: "steady_plan kd e ks plan" and ks: "ks \<inter> reserved = {}" and q: "queryless b"
    and row: "((v, rep), rows) \<in> set rs" "r \<in> set rows"
  shows "dict_get r ''axis'' = PStr (e_axis e)" "dict_get r ''axis_value'' = v" "dict_get r ''rep'' = PInt rep"
    "\<And>k. k \<in> ks \<Longrightarrow> dict_get r k = dict_get (cfg_at (e_axis e) (e_base e) v) k"
proof -
  note p = recorded_planned [OF rec row(1)]
  note c = steady_planD [OF cfgs p(1)]
  have "fst ` set (cfg_at (e_axis e) (e_base e) v) \<inter> reserved = {}" using c(4) ks by simp
  from rows_for_cells [OF p(2) q row(2) refl c(3) this] c(4)
  show "dict_get r ''axis'' = PStr (e_axis e)" "dict_get r ''axis_value'' = v" "dict_get r ''rep'' = PInt rep"
    "\<And>k. k \<in> ks \<Longrightarrow> dict_get r k = dict_get (cfg_at (e_axis e) (e_base e) v) k" by auto
qed

text \<open>The columns a run is recognised by, in all tables of a sweep.\<close>

definition key_columns :: "string set \<Rightarrow> string set" where
  "key_columns ks = insert ''axis'' (insert ''axis_value'' (insert ''rep'' ks))"

lemma recorded_key_cells:
  assumes rec: "recorded b s g e plan t res es rs" and cfgs: "steady_plan kd e ks plan" and ks: "ks \<inter> reserved = {}" and q: "queryless b"
    and axis: "steady (kd ''axis'') (PStr (e_axis e))" and row: "((v, rep), rows) \<in> set rs" "r \<in> set rows" and k: "k \<in> key_columns ks"
  shows "dict_get r k \<noteq> PNone \<and> csv_cell (kd k) (dict_get r k) \<noteq> None"
proof -
  note c = recorded_cells [OF rec cfgs ks q row] and p = steady_planD [OF cfgs recorded_planned(1) [OF rec row(1)]]
  from k consider "k = ''axis''" | "k = ''axis_value''" | "k = ''rep''" | "k \<in> ks" by (auto simp: key_columns_def)
  then show ?thesis
  proof cases
    case 4
    with c(4) p(5,6) show ?thesis by simp
  qed (use c(1-3) p(1,2) axis in \<open>simp_all add: steady_def\<close>)
qed

lemma recorded_kinded:
  assumes rec: "recorded b s g e plan t res es rs" and cfgs: "steady_plan kd e ks plan" and ks: "ks \<inter> reserved = {}" and q: "queryless b"
    and axis: "steady (kd ''axis'') (PStr (e_axis e))" and old: "kinded kd (key_columns ks) t" and sub: "set rs' \<subseteq> set rs"
  shows "kinded kd (key_columns ks) (after_runs t rs')"
proof -
  have new: "dict_get r k \<noteq> PNone \<and> csv_cell (kd k) (dict_get r k) \<noteq> None"
    if r: "r \<in> set (after_runs t rs')" "r \<notin> set t" and k: "k \<in> key_columns ks" for r k
  proof -
    from r obtain x where x: "x \<in> set rs'" "r \<in> set (snd x)" by auto
    with sub have "((fst (fst x), snd (fst x)), snd x) \<in> set rs" by auto
    from recorded_key_cells [OF rec cfgs ks q axis this x(2) k] show ?thesis by simp
  qed
  have "key_columns ks \<subseteq> columns (after_runs t rs')" if ne: "after_runs t rs' \<noteq> []"
  proof (cases "t = []")
    case True
    define r where "r = hd (after_runs t rs')"
    with ne have r: "r \<in> set (after_runs t rs')" using hd_in_set by blast
    have "k \<in> fst ` set r" if "k \<in> key_columns ks" for k
      using new [OF r _ that] True by (cases "map_of r k") (auto simp: dict_get_def map_of_eq_None_iff dest: map_of_SomeD intro: rev_image_eqI)
    with r show ?thesis by (force simp: columns_def)
  next
    case False
    with old show ?thesis by (auto simp: kinded_def columns_def)
  qed
  moreover have "of_kind (kd k) k (after_runs t rs')" if k: "k \<in> key_columns ks" for k
    unfolding of_kind_def list_all_iff
  proof
    fix r assume r: "r \<in> set (after_runs t rs')"
    show "csv_cell (kd k) (dict_get r k) \<noteq> None"
    proof (cases "r \<in> set t")
      case True
      with old k show ?thesis by (auto simp: kinded_def dest: of_kindD)
    next
      case False
      with new [OF r False k] show ?thesis by simp
    qed
  qed
  ultimately show ?thesis by (auto simp: kinded_def)
qed

lemma kinded_subset: "kinded kd ks t \<Longrightarrow> ks' \<subseteq> ks \<Longrightarrow> kinded kd ks' t"
  by (auto simp: kinded_def)

lemma recorded_row_done:
  assumes rec: "recorded b s g e plan t res es rs" and cfgs: "steady_plan kd e ks plan" and ks: "ks \<inter> reserved = {}" and q: "queryless b"
    and now: "kinded kd (key_columns ks) (after_runs t rs)" and m: "((v, rep), rows) \<in> set rs" "r \<in> set rows"
  shows "run_done (after_runs t rs) (e_axis e) v rep (cfg_at (e_axis e) (e_base e) v)"
proof -
  let ?c = "cfg_at (e_axis e) (e_base e) v"
  note c = steady_planD [OF cfgs recorded_planned(1) [OF rec m(1)]] and cl = recorded_cells [OF rec cfgs ks q m]
  have rt: "r \<in> set (after_runs t rs)" using m by (auto intro!: bexI [of _ "((v, rep), rows)"])
  have "text_of (dict_get r k) = py_str u" if "(k, u) \<in> set ?c" for k u
  proof -
    from that c(4) have k: "k \<in> ks" by force
    then have "dict_get r k = dict_get ?c k" by (rule cl(4))
    also have "\<dots> = u" using that c(3) by (simp add: dict_get_def)
    finally show ?thesis using c(5) [OF k] cl(4) [OF k] by (simp add: text_of_def)
  qed
  then have "list_all (\<lambda>(k, u). k \<noteq> e_axis e \<longrightarrow> text_of (dict_get r k) = py_str u) ?c" by (auto simp: list_all_iff)
  moreover have "cell_is r ''axis'' (PStr (e_axis e)) \<and> cell_is r ''axis_value'' v \<and> cell_is r ''rep'' (PInt rep)"
    using cl(1-3) c(1) by (auto simp: cell_is_def steady_def)
  moreover have "kinded kd (fst ` set ?c) (after_runs t rs)" by (rule kinded_subset [OF now]) (auto simp: key_columns_def c(4))
  ultimately have "row_done (after_runs t rs) (e_axis e) v rep ?c r" using row_done_kinded [of kd ?c "after_runs t rs" r] rt by simp
  with rt show ?thesis by (auto simp: run_done_def list_ex_iff)
qed

lemma covered_all_done:
  assumes rec: "recorded b s g e plan t res es rs" and cfgs: "steady_plan kd e ks plan" and ks: "ks \<inter> reserved = {}" and q: "queryless b"
    and axis: "steady (kd ''axis'') (PStr (e_axis e))" and old: "kinded kd (key_columns ks) t" and cov: "covered e plan t rs" and m: "(v, rep) \<in> set plan"
  shows "run_done (after_runs t rs) (e_axis e) v rep (cfg_at (e_axis e) (e_base e) v)"
proof -
  note kin = recorded_kinded [OF rec cfgs ks q axis old]
  show ?thesis using cov [unfolded covered_def, rule_format, OF m]
  proof
    assume "(v, rep) \<in> fst ` set rs"
    then obtain rows where row: "((v, rep), rows) \<in> set rs" by auto
    then obtain r where "r \<in> set rows" using recorded_planned(2) [OF rec row] by (cases rows) (auto simp: rows_for_def)
    with row show ?thesis by (rule recorded_row_done [OF rec cfgs ks q kin [OF subset_refl]])
  next
    assume "\<exists>k \<le> length rs. run_done (after_runs t (take k rs)) (e_axis e) v rep (cfg_at (e_axis e) (e_base e) v)"
    then obtain k where k: "run_done (after_runs t (take k rs)) (e_axis e) v rep (cfg_at (e_axis e) (e_base e) v)" by blast
    have "set (after_runs t (take k rs)) \<subseteq> set (after_runs t rs)" using set_take_subset [of k rs] by auto
    moreover have "fst ` set (cfg_at (e_axis e) (e_base e) v) \<subseteq> key_columns ks" using steady_planD(4) [OF cfgs m] by (auto simp: key_columns_def)
    ultimately show ?thesis
      using run_done_mono [OF kinded_subset [OF kin [OF set_take_subset]] kinded_subset [OF kin [OF subset_refl]] _ k] by blast
  qed
qed

lemma last_recorded:
  assumes "recorded b s g e plan t res es rs" "rs \<noteq> []"
  shows "last (after_runs t rs) = last (snd (last rs))"
proof -
  from assms(2) obtain us x where x: "rs = us @ [x]" by (metis append_butlast_last_id)
  with recorded_planned(2) [OF assms(1), of "fst (fst x)" "snd (fst x)" "snd x"] have "snd x \<noteq> []" by (auto simp: rows_for_def)
  with x show ?thesis by simp
qed

lemma sweep_nothing_left:
  assumes "\<forall>(v, rep) \<in> set p. t' \<noteq> [] \<and> run_done t' (e_axis e) v rep (cfg_at (e_axis e) (e_base e) v)"
  shows "sweep_loop b s g e p t' None False u = (Inr t', u, [])"
  using assms by (induction p) (auto simp: io_ret_def Let_def)

text \<open>
  C18. Resuming repeats nothing: a sweep that went through its plan, started again with the same arguments
  on the table \<open>read_csv\<close> makes of the CSV it left, builds nothing, runs nothing and writes nothing. It is
  enough that the columns a run is recognised by (axis, value, repetition and the knobs) are each of one
  kind, integers, flags or texts that pandas takes for nothing else; that the axis's name and values come
  back as what they are (the string \<open>1\<close> does not: see \<open>text_number_not_done\<close>); that every knob has a value and
  none is named like a column \<open>main\<close> writes; and that the bench leaves the query of its rows to the point.
\<close>

theorem resume_repeats_nothing:
  assumes first: "sweep_loop b s g e plan t None False w = (Inr t', w', es)"
    and finished: "g_keep_going g \<or> is_valid (last t')"
    and reads: "csv_reads t' t2"
    and plan: "steady_plan kd e ks plan" and axis: "steady (kd ''axis'') (PStr (e_axis e))"
    and ks: "ks \<inter> reserved = {}" and old: "kinded kd (key_columns ks) t" and q: "queryless b"
  shows "sweep_loop b s g e plan t2 None False u = (Inr t2, u, [])"
proof -
  from sweep_loop_records [OF first] obtain rs where rs: "recorded b s g e plan t (Inr t') es rs" ..
  then have t': "t' = after_runs t rs" by (simp add: recorded_def)
  from last_recorded [OF rs] rs finished t' have cov: "covered e plan t rs" by (cases "rs = []") (auto simp: recorded_def)
  have kin: "kinded kd (key_columns ks) t'" unfolding t' by (rule recorded_kinded [OF rs plan ks q axis old subset_refl])
  have "run_done t2 (e_axis e) v rep (cfg_at (e_axis e) (e_base e) v)" if m: "(v, rep) \<in> set plan" for v rep
  proof (rule run_done_read [OF reads, where kd = kd])
    show "kinded kd (fst ` set (cfg_at (e_axis e) (e_base e) v)) t'"
      by (rule kinded_subset [OF kin]) (use steady_planD(4) [OF plan m] in \<open>auto simp: key_columns_def\<close>)
    show "run_done t' (e_axis e) v rep (cfg_at (e_axis e) (e_base e) v)"
      using covered_all_done [OF rs plan ks q axis old cov m] by (simp add: t')
  qed (use kin axis steady_planD [OF plan m] in \<open>auto simp: kinded_def key_columns_def\<close>)
  then have "\<forall>(v, rep) \<in> set plan. t2 \<noteq> [] \<and> run_done t2 (e_axis e) v rep (cfg_at (e_axis e) (e_base e) v)"
    by (auto simp: run_done_def)
  then show ?thesis by (rule sweep_nothing_left)
qed

section \<open>The contract of a bench\<close>

text \<open>
  What the sweep relies on: a run answers with at least one row. Under it the loop never trips over an
  empty answer (\<open>rows[-1]\<close>); a bench that also leaves the query of its rows to the point resumes.
\<close>

lemma any_valid_raises: "any_valid b rows = Inl x \<Longrightarrow> \<exists>r \<in> set rows. b_valid b r = Inl x"
  by (induction rows) (auto simp: res_bind_def split: sum.splits if_splits)

lemma attempts_raises:
  "attempts n b s out inst cfg ip prev w = (Inl x, w', es) \<Longrightarrow>
   (\<exists>u u'. b_run b inst (logs_dir out) cfg ip u = (Inl x, u')) \<or>
   (\<exists>rows r. answered b inst (logs_dir out) cfg ip rows \<and> r \<in> set rows \<and> b_valid b r = Inl x)"
proof (induction n arbitrary: prev w w' es)
  case (Suc n)
  obtain res v where run: "b_run b inst (logs_dir out) cfg ip w = (res, v)" by fastforce
  show ?case
  proof (cases res)
    case (Inl y)
    with Suc.prems run Suc.IH show ?thesis
      by (auto simp: io_bind_def io_catch_def io_call_def io_seq_def quota_wait_def io_ret_def split: sum.splits if_splits prod.splits)
  next
    case (Inr rows)
    then have a: "answered b inst (logs_dir out) cfg ip rows" using run by (auto simp: answered_def)
    have gate: "\<exists>r \<in> set rows. b_valid b r = Inl x" if "rows_stand b rows l = Inl x" for l
      using that any_valid_raises by (fastforce simp: rows_stand_def res_bind_def split: sum.splits)
    from Suc.prems run Inr Suc.IH a gate show ?thesis
      by (fastforce simp: io_bind_def io_catch_def io_call_def io_seq_def quota_wait_def io_ask_def io_ret_def io_res_def io_raise_def
          split: sum.splits if_splits prod.splits)
  qed
qed (simp add: io_ret_def)

text \<open>What recording a row raises is a figure that is no number, or the gate's exception.\<close>

lemma annotate_raises:
  "annotate b ls cfg r = Inl x \<Longrightarrow> x = TypeErr \<or> b_valid b (dict_merge r (dict_merge ls (point_cells cfg r))) = Inl x"
  by (auto simp: annotate_def Let_def res_bind_def rx_pps_def per_worker_def degraded_def if_both_def num_def of_option_def
      split: sum.splits if_splits option.splits)

lemma annotate_all_raises:
  "annotate_all b s inst axis v rep cfg rows w = (Inl x, w', es) \<Longrightarrow> x = TypeErr \<or> (\<exists>r. b_valid b r = Inl x)"
proof (induction rows arbitrary: w w' es)
  case (Cons r rs)
  then show ?case
    by (auto simp: io_bind_def io_ret_def io_res_def io_raise_def site_clock_def dest!: annotate_raises split: prod.splits sum.splits)
qed (simp add: io_ret_def)

locale bench_contract =
  fixes b :: "'w bench"
  assumes answers: "b_run b inst logs cfg ip w = (Inr rows, w') \<Longrightarrow> rows \<noteq> []"
begin

lemma attempts_rows: "attempts (Suc n) b s out inst cfg ip prev w = (Inr rows, w', es) \<Longrightarrow> rows \<noteq> []"
proof (induction n arbitrary: prev w w' es)
  case 0
  then show ?case
    by (auto simp: io_bind_def io_catch_def io_call_def io_seq_def quota_wait_def io_ask_def io_ret_def
        split: prod.splits sum.splits if_splits dest: answers)
next
  case (Suc n)
  obtain res v where run: "b_run b inst (logs_dir out) cfg ip w = (res, v)" by fastforce
  have again: "rows \<noteq> []" if "(case attempts (Suc n) b s out inst cfg ip p u of (r, w'', cs) \<Rightarrow> (r, w'', c @ cs)) = (Inr rows, w', es)" for p u c
    using that Suc.IH by (auto split: prod.splits)
  show ?case
  proof (cases res)
    case (Inl x)
    show ?thesis
    proof (cases "\<not> is_system_exit x \<and> is_infix quota (s_text s x)")
      case True
      with Suc.prems run Inl show ?thesis
        by (intro again [where p = "[]" and u = "s_sleep s 90 v" and c = "[RunBench inst cfg, QuotaWait]"])
          (auto simp: io_bind_def io_catch_def io_call_def io_ret_def io_seq_def quota_wait_def simp del: attempts.simps(2) split: prod.splits
           simp: attempts.simps(2) [of "Suc n"])
    next
      case False
      with Suc.prems run Inl show ?thesis
        by (auto simp: io_bind_def io_catch_def io_call_def simp del: attempts.simps(2) simp: attempts.simps(2) [of "Suc n"])
    qed
  next
    case (Inr rs)
    with run have "rs \<noteq> []" by (auto dest: answers)
    show ?thesis
    proof (cases "rows_stand b rs (s_log s (log_path out (hd rs)) v) = Inr False")
      case True
      with Suc.prems run Inr \<open>rs \<noteq> []\<close> show ?thesis
        by (intro again [where p = rs and u = "s_sleep s 90 v" and c = "[RunBench inst cfg, QuotaWait]"])
          (auto simp: io_bind_def io_catch_def io_call_def io_ret_def io_seq_def quota_wait_def io_ask_def io_res_def simp del: attempts.simps(2) split: prod.splits
           simp: attempts.simps(2) [of "Suc n"])
    next
      case False
      with Suc.prems run Inr \<open>rs \<noteq> []\<close> show ?thesis
        by (cases "rows_stand b rs (s_log s (log_path out (hd rs)) v)")
          (auto simp: io_bind_def io_catch_def io_call_def io_ask_def io_ret_def io_res_def io_raise_def simp del: attempts.simps(2)
           simp: attempts.simps(2) [of "Suc n"] split: if_splits)
    qed
  qed
qed

text \<open>An \<open>IndexError\<close> that leaves a run is the bench's own, or its gate's.\<close>

lemma no_index_error:
  assumes "sweep_run b s g e v rep w = (Inl IndexErr, w', es)"
  shows "(\<exists>u u'. b_run b (instance_at (e_axis e) (g_instance g) v) (logs_dir (e_out e)) (cfg_at (e_axis e) (e_base e) v) (e_ip e) u = (Inl IndexErr, u'))
     \<or> (\<exists>r. b_valid b r = Inl IndexErr)"
proof -
  let ?i = "instance_at (e_axis e) (g_instance g) v" and ?c = "cfg_at (e_axis e) (e_base e) v"
  obtain r1 w1 es1 where a: "attempts (Suc 5) b s (e_out e) ?i ?c (e_ip e) [] w = (r1, w1, es1)" by (metis prod_cases3)
  then have a': "attempts 6 b s (e_out e) ?i ?c (e_ip e) [] w = (r1, w1, es1)" by (simp del: attempts.simps)
  show ?thesis
  proof (cases r1)
    case (Inl x)
    with assms a' have "x = IndexErr" by (simp add: sweep_run_def Let_def io_bind_def)
    with attempts_raises [OF a' [unfolded Inl]] show ?thesis by blast
  next
    case (Inr rows)
    from attempts_rows [OF a [unfolded Inr]] have ne: "rows \<noteq> []" .
    obtain r2 w2 es2 where n: "annotate_all b s ?i (e_axis e) v rep ?c rows w1 = (r2, w2, es2)" by (metis prod_cases3)
    from assms a' Inr n have "r2 = Inl IndexErr \<or> r2 = Inr []"
      by (cases r2) (auto simp: sweep_run_def Let_def io_bind_def io_raise_def io_ret_def split: if_splits)
    moreover have "r2 \<noteq> Inr []" using annotate_all_rows [where rows' = "[]" and rows = rows] n ne by auto
    ultimately have "annotate_all b s ?i (e_axis e) v rep ?c rows w1 = (Inl IndexErr, w2, es2)" using n by simp
    then have "\<exists>r. b_valid b r = Inl IndexErr" by (auto dest: annotate_all_raises)
    then show ?thesis ..
  qed
qed

end

locale queryless_bench = bench_contract +
  assumes own_query: "b_run b inst logs cfg ip w = (Inr rows, w') \<Longrightarrow> r \<in> set rows \<Longrightarrow> dict_get r ''query'' = PNone"
begin

lemma is_queryless: "queryless b"
  using own_query by (auto simp: queryless_def answered_def)

end

section \<open>A sweep on a scripted bench\<close>

definition mock_bench :: "unit bench" where
  "mock_bench = \<lparr>b_name = ''mock'', b_os = ''linux'', b_knobs = [(''workers'', as_int)], b_defaults = [(''workers'', PInt 8)],
     b_build = (\<lambda>c ip w. (Inr (), w)), b_run = (\<lambda>i l c ip w. (Inr [[(''complete'', PBool True), (''gbps'', PInt 3)]], w)),
     b_valid = (\<lambda>r. Inr (truthy (dict_get r ''complete''))), b_summary = (\<lambda>r. []), b_headline = ''gbps'', b_best_is_max = True, b_unit = ''Gbps''\<rparr>"

definition mock_site :: "unit site" where
  "mock_site = \<lparr>s_ec2 = undefined, s_env = (\<lambda>k. None), s_root = ''/r'', s_csv = (\<lambda>p w. []), s_write = (\<lambda>p t w. w),
     s_log = (\<lambda>p w. None), s_text = (\<lambda>e. []), s_clock = (\<lambda>w. (0, w)), s_sleep = (\<lambda>d w. w)\<rparr>"

definition mock_args :: sargs where
  "mock_args = \<lparr>g_sweep = ''workers=1,2'', g_reps = 1, g_instance = ''c6in.8xlarge'', g_out = Some ''r/a.csv'', g_cooldown = 600,
     g_interleave = False, g_keep_going = True, g_target_ip = None, g_market = ''spot'', g_dry_run = False, g_knobs = []\<rparr>"

definition mock_env :: sweep_env where
  "mock_env = \<lparr>e_axis = ''workers'', e_base = [(''workers'', PInt 8)], e_out = ''r/a.csv'', e_ip = [], e_runs = 2\<rparr>"

lemma mock_queryless: "queryless mock_bench"
  by (auto simp: queryless_def answered_def mock_bench_def dict_get_def)

lemma mock_sweep: "\<exists>t' es. sweep_loop mock_bench mock_site mock_args mock_env [(PInt 1, 1), (PInt 2, 1)] [] None False () = (Inr t', (), es)"
  by (simp add: mock_bench_def mock_site_def mock_args_def mock_env_def eval_nat_numeral Let_def io_defs sweep_run_def rows_stand_def site_clock_def
     io_res_def annotate_def rx_pps_def per_worker_def degraded_def if_both_def env_or_def cfg_at_def instance_axis_def instance_at_def
     labels_def point_cells_def dict_get_def dict_set_def dict_merge_def write_csv_def tell_def push_def cool_for_def is_valid_def
     run_done_def row_done_def cell_is_def stamp_def res_bind_def)

text \<open>The kinds of the mock's columns: its axis is named, all else is counted.\<close>

definition mock_kinds :: "string \<Rightarrow> kind" where
  "mock_kinds k = (if k = ''axis'' then KText else KInt)"

lemma resume_repeats_nothing_witness:
  "\<exists>t' es. sweep_loop mock_bench mock_site mock_args mock_env [(PInt 1, 1), (PInt 2, 1)] [] None False () = (Inr t', (), es) \<and>
     sweep_loop mock_bench mock_site mock_args mock_env [(PInt 1, 1), (PInt 2, 1)] (reread t') None False () = (Inr (reread t'), (), [])"
proof -
  obtain t' es where run: "sweep_loop mock_bench mock_site mock_args mock_env [(PInt 1, 1), (PInt 2, 1)] [] None False () = (Inr t', (), es)"
    using mock_sweep by blast
  have "solid ''workers''" by code_simp
  then have "steady (mock_kinds ''axis'') (PStr (e_axis mock_env))" by (simp add: steady_def mock_kinds_def mock_env_def)
  moreover have "steady_plan mock_kinds mock_env {''workers''} [(PInt 1, 1), (PInt 2, 1)]"
    by (simp add: steady_plan_def steady_def mock_kinds_def mock_env_def cfg_at_def instance_axis_def dict_set_def dict_get_def int64_def)
  moreover have "kinded mock_kinds (key_columns {''workers''}) []" by (simp add: kinded_def of_kind_def)
  moreover have "{''workers''} \<inter> reserved = {}" by (simp add: reserved_def)
  ultimately have "sweep_loop mock_bench mock_site mock_args mock_env [(PInt 1, 1), (PInt 2, 1)] (reread t') None False () = (Inr (reread t'), (), [])"
    by (intro resume_repeats_nothing [OF run _ csv_reads_reread _ _ _ _ mock_queryless]) (simp add: mock_args_def)
  with run show ?thesis by blast
qed

end
