(* ===== verification/BenchRows.thy ===== *)
theory BenchRows
  imports GuestRun SweepRun
begin

text \<open>
  The benches keep the contract the sweep relies on: the locales of SweepRun are interpreted on the six
  drivers, and a further one says that the figures \<open>main\<close> and the gates compute with are numbers or missing.
\<close>

section \<open>Cells of a parsed log\<close>

definition figure :: "pyval \<Rightarrow> bool" where
  "figure v \<longleftrightarrow> v = PNone \<or> is_number v"

definition numeric_cast :: "cast \<Rightarrow> bool" where
  "numeric_cast c \<longleftrightarrow> (\<forall>s v. c s = Inr v \<longrightarrow> is_number v)"

lemma numeric_casts [simp]: "numeric_cast as_int" "numeric_cast as_float" "numeric_cast as_size"
  by (auto simp: numeric_cast_def as_int_def as_float_def as_size_def res_bind_Inr)

lemma metric_key: "metric s kpc = Inr (k, v) \<Longrightarrow> k = fst kpc"
  by (auto simp: metric_def res_bind_Inr split: prod.splits option.splits)

lemma parse_cons: "parse (m # ms) s = Inr row \<longleftrightarrow> (\<exists>kv row'. metric s m = Inr kv \<and> parse ms s = Inr row' \<and> row = kv # row')"
  by (auto simp: parse_def res_bind_Inr)

lemma parse_keys: "parse ms s = Inr row \<Longrightarrow> map fst row = map fst ms"
proof (induction ms arbitrary: row)
  case Nil
  then show ?case by (simp add: parse_def)
next
  case (Cons m ms)
  then show ?case by (auto simp: parse_cons dest!: metric_key)
qed

lemma parse_cell:
  "parse ms s = Inr row \<Longrightarrow> (\<And>pat c. map_of ms k = Some (pat, c) \<Longrightarrow> numeric_cast c) \<Longrightarrow> figure (dict_get row k)"
proof (induction ms arbitrary: row)
  case Nil
  then show ?case by (simp add: parse_def dict_get_def figure_def)
next
  case (Cons m ms)
  obtain k' pat c where m: "m = (k', pat, c)" by (cases m)
  from Cons.prems(1) obtain v row' where row: "metric s m = Inr (k', v)" "parse ms s = Inr row'" "row = (k', v) # row'"
    using metric_key by (fastforce simp: parse_cons m)
  show ?case
  proof (cases "k' = k")
    case True
    with Cons.prems(2) m have "numeric_cast c" by simp
    with row(1) have "figure v" by (auto simp: metric_def m res_bind_Inr figure_def numeric_cast_def split: option.splits)
    with True row(3) show ?thesis by (simp add: dict_get_def)
  next
    case False
    with Cons.IH [OF row(2)] Cons.prems(2) m row(3) show ?thesis by (simp add: dict_get_def)
  qed
qed

lemma fst_dict_set: "fst ` set (dict_set k v d) = insert k (fst ` set d)"
  by (metis dict_set_def dom_map_of_conv_image_fst dom_fun_upd map_of_dict_set option.distinct(1))

lemma fst_dict_merge: "fst ` set (dict_merge a b) = fst ` set a \<union> fst ` set b"
proof (induction b arbitrary: a)
  case (Cons p b)
  obtain k v where "p = (k, v)" by fastforce
  with Cons.IH [of "dict_set k v a"] show ?case by (auto simp: dict_merge_def fst_dict_set)
qed (simp add: dict_merge_def)

lemma dict_get_merge_other: "k \<notin> fst ` set b \<Longrightarrow> dict_get (dict_merge a b) k = dict_get a k"
proof (induction b arbitrary: a)
  case (Cons p b)
  obtain k' v where p: "p = (k', v)" by fastforce
  with Cons.IH [of "dict_set k' v a"] Cons.prems show ?case by (auto simp: dict_merge_def)
qed (simp add: dict_merge_def)

lemma dict_get_absent: "k \<notin> fst ` set d \<Longrightarrow> dict_get d k = PNone"
  by (metis dict_get_def map_of_eq_None_iff option.case(1))

section \<open>Figures\<close>

text \<open>The cells \<open>main\<close> and the shared gate compute with.\<close>

definition figure_cells :: "string set" where
  "figure_cells = {''bytes'', ''elapsed_s'', ''gbps'', ''workers_actual'', ''setup_us_p50'', ''setup_us_max''}"

definition figure_metrics :: "metrics \<Rightarrow> bool" where
  "figure_metrics ms \<longleftrightarrow> (\<forall>k \<in> figure_cells. \<forall>pat c. map_of ms k = Some (pat, c) \<longrightarrow> numeric_cast c) \<and> ''queues'' \<notin> fst ` set ms"

definition figure_row :: "row \<Rightarrow> bool" where
  "figure_row r \<longleftrightarrow> (\<forall>k \<in> figure_cells. figure (dict_get r k))"

text \<open>A row as a run answers it: the figures are numbers, and the queue count asked for is not in it yet.\<close>

definition raw_row :: "row \<Rightarrow> bool" where
  "raw_row r \<longleftrightarrow> figure_row r \<and> ''queues'' \<notin> fst ` set r"

definition raw_cells :: "string set" where
  "raw_cells = insert ''queues'' figure_cells"

lemma parse_figures: "figure_metrics ms \<Longrightarrow> parse ms s = Inr row \<Longrightarrow> raw_row row"
  unfolding figure_metrics_def figure_row_def raw_row_def by (metis image_set parse_cell parse_keys)

text \<open>Cells that are none of the figures.\<close>

definition clear :: "string set \<Rightarrow> pyval dict \<Rightarrow> bool" where
  "clear ks d \<longleftrightarrow> list_all (\<lambda>(k, _). k \<notin> ks) d"

lemma clear_simps [simp]: "clear ks []" "clear ks (p # d) \<longleftrightarrow> fst p \<notin> ks \<and> clear ks d" "clear ks (a @ b) \<longleftrightarrow> clear ks a \<and> clear ks b"
  by (auto simp: clear_def split: prod.splits)

lemma clear_keys: "clear ks d \<longleftrightarrow> fst ` set d \<inter> ks = {}"
  by (auto simp: clear_def list_all_iff)

lemma figure_row_merge: "figure_row r \<Longrightarrow> clear figure_cells b \<Longrightarrow> figure_row (dict_merge r b)"
  unfolding figure_row_def clear_keys by (metis IntI dict_get_merge_other empty_iff)

lemma figure_row_set: "figure_row r \<Longrightarrow> k \<notin> figure_cells \<Longrightarrow> figure_row (dict_set k v r)"
  by (auto simp: figure_row_def)

lemma raw_row_merge: "raw_row r \<Longrightarrow> clear raw_cells b \<Longrightarrow> raw_row (dict_merge r b)"
  unfolding raw_row_def by (auto simp: fst_dict_merge raw_cells_def clear_keys intro!: figure_row_merge)

lemma raw_row_set: "raw_row r \<Longrightarrow> k \<notin> raw_cells \<Longrightarrow> raw_row (dict_set k v r)"
  by (auto simp: raw_row_def raw_cells_def fst_dict_set intro: figure_row_set)

lemma raw_row_figures: "raw_row r \<Longrightarrow> figure_row r \<and> dict_get r ''queues'' = PNone"
  by (simp add: raw_row_def dict_get_absent)

lemma common_figures: "figure_metrics common_metrics"
  by (simp add: figure_metrics_def figure_cells_def common_metrics_def)

lemma figure_metrics_merge:
  "figure_metrics a \<Longrightarrow> figure_metrics b \<Longrightarrow> distinct (map fst b) \<Longrightarrow> figure_metrics (dict_merge a b)"
  unfolding figure_metrics_def by (auto simp: map_of_dict_merge map_add_Some_iff fst_dict_merge)

lemma figure_metrics_all: "list_all (\<lambda>(k, _, c). k \<noteq> ''queues'' \<and> (k \<in> figure_cells \<longrightarrow> numeric_cast c)) ms \<Longrightarrow> figure_metrics ms"
  unfolding figure_metrics_def list_all_iff by (fastforce dest: map_of_SomeD)

lemma linux_s3_figures: "figure_metrics linux_s3_metrics"
  unfolding linux_s3_metrics_def by (rule figure_metrics_merge [OF common_figures], rule figure_metrics_all) (simp_all add: figure_cells_def)

lemma smoltcp_figures: "figure_metrics smoltcp_s3_metrics"
  unfolding smoltcp_s3_metrics_def by (rule figure_metrics_merge [OF common_figures], rule figure_metrics_all) (simp_all add: figure_cells_def)

lemma anyblob_figures: "figure_metrics anyblob_metrics"
  unfolding anyblob_metrics_def by (rule figure_metrics_merge [OF linux_s3_figures], rule figure_metrics_all) (simp_all add: figure_cells_def)

lemma linux_http_figures: "figure_metrics linux_http_metrics"
  unfolding linux_http_metrics_def by (rule figure_metrics_all) (simp add: figure_cells_def)

lemma duckdb_tpch_figures: "figure_metrics duckdb_tpch_metrics"
  unfolding duckdb_tpch_metrics_def by (rule figure_metrics_all) (simp add: figure_cells_def)

lemma duckdb_linux_figures: "figure_metrics duckdb_linux_metrics"
  unfolding duckdb_linux_metrics_def
  by (rule figure_metrics_merge; (rule figure_metrics_all)?) (simp_all add: figure_cells_def)


section \<open>What a run answers\<close>

lemma yields_res [yields_intros]: "(\<And>x. r = Inr x \<Longrightarrow> C x) \<Longrightarrow> yields C (io_res r)"
  by (auto simp: io_res_def split: sum.splits intro: yields_intros)

lemma yields_split [yields_intros]: "(\<And>a b. x = (a, b) \<Longrightarrow> yields C (f a b)) \<Longrightarrow> yields C (case x of (a, b) \<Rightarrow> f a b)"
  by (cases x) simp

lemma call_yields: "yields C m \<Longrightarrow> bench_call m w = (Inr x, w') \<Longrightarrow> C x"
  by (auto simp: bench_call_def split: prod.splits dest: yields_run)

lemma yields_one_row: "yields C m \<Longrightarrow> yields (\<lambda>rs. \<exists>r. rs = [r] \<and> C r) (one_row m)"
  by (auto simp: one_row_def yields_def achieves_def io_bind_def io_ret_def split: prod.splits sum.splits)

text \<open>A row whose figures are numbers, and that has no query of its own.\<close>

definition plain_row :: "row \<Rightarrow> bool" where
  "plain_row r \<longleftrightarrow> raw_row r \<and> ''query'' \<notin> fst ` set r"

lemma plain_row_query: "plain_row r \<Longrightarrow> dict_get r ''query'' = PNone"
  by (simp add: plain_row_def dict_get_absent)

lemma plain_row_merge:
  "plain_row r \<Longrightarrow> clear (insert ''query'' raw_cells) b \<Longrightarrow> plain_row (dict_merge r b)"
  by (auto simp: plain_row_def fst_dict_merge clear_keys intro!: raw_row_merge)

definition plain_metrics :: "metrics \<Rightarrow> bool" where
  "plain_metrics ms \<longleftrightarrow> figure_metrics ms \<and> ''query'' \<notin> fst ` set ms"

lemma parse_plain: "plain_metrics ms \<Longrightarrow> parse ms s = Inr row \<Longrightarrow> plain_row row"
  unfolding plain_metrics_def plain_row_def by (metis image_set parse_figures parse_keys)

lemma plain_tables:
  "plain_metrics linux_s3_metrics" "plain_metrics smoltcp_s3_metrics" "plain_metrics anyblob_metrics" "plain_metrics linux_http_metrics"
  by (simp_all add: plain_metrics_def linux_s3_figures smoltcp_figures anyblob_figures linux_http_figures)
    (simp_all add: linux_s3_metrics_def smoltcp_s3_metrics_def anyblob_metrics_def linux_http_metrics_def common_metrics_def fst_dict_merge)

lemma linux_row_plain: "plain_metrics ms \<Longrightarrow> linux_row ms s f i b mk zn = Inr r \<Longrightarrow> plain_row r"
  by (auto simp: linux_row_def res_bind_Inr raw_cells_def figure_cells_def intro!: plain_row_merge dest: parse_plain)

lemma linux_run_plain: "plain_metrics (lc_metrics lc) \<Longrightarrow> yields plain_row (linux_run_once h lc dv inst logs cfg ip)"
  unfolding linux_run_once_def Let_def by (intro yields_intros) (auto dest: linux_row_plain)

lemma clear_server_cells [simp]: "clear (insert ''query'' raw_cells) (server_cells sv)"
  by (simp add: server_cells_def raw_cells_def figure_cells_def)

lemma raw_cells_not [simp]:
  "''server_zone'' \<notin> raw_cells" "''target_ip'' \<notin> raw_cells" "''query'' \<notin> raw_cells" "''query_seq'' \<notin> raw_cells"
  by (simp_all add: raw_cells_def figure_cells_def)

lemma yields_after: "yields C m \<Longrightarrow> (\<And>x. C x \<Longrightarrow> D (f x)) \<Longrightarrow> yields D (io_bind m (\<lambda>x. io_ret (f x)))"
  by (auto simp: yields_def achieves_def io_bind_def io_ret_def split: prod.splits sum.splits)

lemma yields_after_asking:
  "yields C m \<Longrightarrow> (\<And>x y. C x \<Longrightarrow> D (f x y)) \<Longrightarrow> yields D (io_bind m (\<lambda>x. io_bind (io_ask g) (\<lambda>y. io_ret (f x y))))"
  by (auto simp: yields_def achieves_def io_bind_def io_ret_def io_ask_def split: prod.splits sum.splits) blast

lemma anyblob_run_plain: "yields plain_row (anyblob_run_once h dv inst logs cfg ip)"
  unfolding anyblob_run_once_def
  by (rule yields_bind, rule yields_after, rule linux_run_plain)
    (auto simp: anyblob_class_def plain_tables raw_cells_not split: option.splits intro!: plain_row_merge)

lemma wrk_run_plain: "yields plain_row (wrk_run_once h dv inst logs cfg ip)"
  unfolding wrk_run_once_def
  by (rule yields_bind, rule yields_bind, rule yields_after, rule linux_run_plain)
    (auto simp: wrk_class_def plain_tables raw_cells_not split: option.splits intro!: plain_row_merge)

lemma smoltcp_row_plain: "smoltcp_row s f b = Inr r \<Longrightarrow> plain_row r"
  by (auto simp: smoltcp_row_def res_bind_Inr raw_cells_def figure_cells_def intro!: plain_row_merge dest: parse_plain [OF plain_tables(2)])

lemma smoltcp_deploy_plain: "yields plain_row (smoltcp_deploy h dv inst logs)"
  unfolding smoltcp_deploy_def Let_def by (intro yields_intros) (auto dest: smoltcp_row_plain)

lemma smoltcp_run_plain: "yields plain_row (smoltcp_run_once h dv inst logs cfg ip)"
  unfolding smoltcp_run_once_def
  by (rule yields_after_asking [OF smoltcp_deploy_plain]) (auto simp: raw_cells_not split: option.splits intro!: plain_row_merge)

section \<open>The rows of a log with several queries\<close>

definition figure_rows :: "row list \<Rightarrow> bool" where
  "figure_rows rs \<longleftrightarrow> rs \<noteq> [] \<and> list_all raw_row rs"

lemma list_all2_all: "list_all2 P xs ys \<Longrightarrow> (\<And>x y. P x y \<Longrightarrow> Q y) \<Longrightarrow> list_all Q ys"
  by (induction rule: list_all2_induct) auto

lemma length_numbered [simp]: "length (numbered s hs) = length hs"
  by (simp add: numbered_def del: upt_Suc)

lemma rows_of_log_figures:
  assumes "figure_metrics ms" "\<And>r q. raw_row r \<Longrightarrow> raw_row (fin r q)" "rows_of_log ms s heads fin = Inr rows"
  shows "figure_rows rows"
proof (cases "length heads \<le> 1")
  case True
  with assms show ?thesis by (auto simp: rows_of_log_def res_bind_Inr figure_rows_def dest: parse_figures)
next
  case False
  with assms(3) have l: "list_all2 (\<lambda>(i, h, block) row. \<exists>p n. parse ms block = Inr p \<and> row = fin p (Some (n, i))) (numbered s heads) rows"
    unfolding rows_of_log_def by (auto simp: res_list_Inr res_bind_Inr elim!: list_all2_mono split: prod.splits; blast)
  then have "length rows = length heads" by (auto dest!: list_all2_lengthD)
  with False have "rows \<noteq> []" by auto
  moreover from l have "list_all raw_row rows"
    by (rule list_all2_all) (auto dest: parse_figures [OF assms(1)] intro: assms(2) split: prod.splits)
  ultimately show ?thesis by (simp add: figure_rows_def)
qed

lemma clear_turn_cells [simp]: "clear raw_cells (turn_cells q)"
  by (auto simp: turn_cells_def split: option.splits)

lemma tpch_finish_figures: "raw_row r \<Longrightarrow> raw_row (tpch_finish c d f b r q)"
  unfolding tpch_finish_def by (intro raw_row_merge) (simp_all, simp_all add: raw_cells_def figure_cells_def)

lemma dlinux_finish_figures: "raw_row r \<Longrightarrow> raw_row (dlinux_finish mk zn c i f b r q)"
proof -
  assume r: "raw_row r"
  have "clear raw_cells [(''market'', PStr mk), (''zone'', PStr zn), (''complete'', PBool c), (''instance_id'', PStr i), (''log'', PStr f),
     (''interrupted'', PBool b)]" "\<And>v. clear raw_cells [(''query_ms'', v), (''query_ms_from_summary'', PBool True)]"
    by (simp_all add: raw_cells_def figure_cells_def)
  with r show ?thesis unfolding dlinux_finish_def recover_ms_def by (auto intro!: raw_row_merge simp del: append.simps clear_simps(2))
qed

lemma fill_runwide_figures:
  "raw_row r \<Longrightarrow> fst ` set runwide \<inter> raw_cells = {} \<Longrightarrow> raw_row (fill_runwide runwide r)"
proof (induction runwide arbitrary: r)
  case (Cons p ps)
  then show ?case by (auto simp: fill_runwide_def raw_row_set split: prod.splits)
qed (simp add: fill_runwide_def)

lemma tpch_run_figures: "yields figure_rows (tpch_run_once h dv inst logs cfg)"
  unfolding tpch_run_once_def Let_def tpch_rows_def
  by (intro yields_intros) (auto elim!: rows_of_log_figures [OF duckdb_tpch_figures, rotated] intro: tpch_finish_figures)

lemma dlinux_rows_figures: "dlinux_rows s f i b mk zn = Inr rows \<Longrightarrow> figure_rows rows"
proof -
  assume a: "dlinux_rows s f i b mk zn = Inr rows"
  have wide: "fst ` set w \<inter> raw_cells = {}" if "parse (filter (\<lambda>(k, _). k \<in> set runwide_fields) duckdb_linux_metrics) s = Inr w" for w
  proof -
    have "fst ` set w \<subseteq> set runwide_fields" using parse_keys [OF that, THEN arg_cong [where f = set]] by auto
    then show ?thesis by (auto simp: runwide_fields_def raw_cells_def figure_cells_def)
  qed
  from a show ?thesis
    unfolding dlinux_rows_def Let_def
    by (auto split: if_splits simp: res_bind_Inr
        elim!: rows_of_log_figures [OF duckdb_linux_figures, rotated] intro!: fill_runwide_figures wide dlinux_finish_figures)
qed

lemma dlinux_run_figures: "yields figure_rows (dlinux_run_once h dv inst logs cfg ip)"
  unfolding dlinux_run_once_def Let_def by (intro yields_intros) (auto dest: dlinux_rows_figures)


section \<open>The contract, kept by the six drivers\<close>

text \<open>
  A bench whose rows carry numbers where \<open>main\<close> and the gate compute: what it records cannot fail, except
  that its gate may refuse to read the queue count it was asked for, which no run answers with.
\<close>

locale recording_bench = bench_contract +
  assumes raw: "b_run b inst logs cfg ip w = (Inr rows, w') \<Longrightarrow> r \<in> set rows \<Longrightarrow> raw_row r"
    and gate: "figure_row r \<Longrightarrow> b_valid b r = Inl x \<Longrightarrow> \<exists>q. dict_get r ''queues'' = PStr q \<and> py_int q = Inl x"
begin

lemma annotate_fails:
  assumes r: "raw_row r" and cfg: "clear figure_cells cfg" and "distinct (map fst cfg)"
    and fail: "annotate b (labels ts inst axis v rep note) cfg r = Inl x"
  shows "(\<exists>r. figure_row r \<and> b_valid b r = Inl x) \<and> (\<exists>q. dict_get cfg ''queues'' = PStr q \<and> py_int q = Inl x)"
proof -
  define r1 where "r1 = dict_merge r (dict_merge (labels ts inst axis v rep note) (point_cells cfg r))"
  have "clear figure_cells (labels ts inst axis v rep note)" by (simp add: labels_def figure_cells_def)
  moreover have "clear figure_cells (point_cells cfg r)" using cfg by (auto simp: point_cells_def clear_def list_all_iff)
  ultimately have "clear figure_cells (dict_merge (labels ts inst axis v rep note) (point_cells cfg r))"
    by (auto simp: clear_keys fst_dict_merge)
  then have fig: "figure_row r1" unfolding r1_def by (rule figure_row_merge [rotated]) (use r in \<open>simp add: raw_row_def\<close>)
  have ok: "\<exists>r'. if_both x a c f = Inr r'" if "figure_row x" "a \<in> figure_cells" "c \<in> figure_cells" for x a c f
  proof -
    have "figure (dict_get x a)" "figure (dict_get x c)" using that by (auto simp: figure_row_def)
    then show ?thesis
      by (cases "dict_get x a"; cases "dict_get x c") (auto simp: if_both_def figure_def num_def of_option_def)
  qed
  have keep: "figure_row r'" if "if_both x a c f = Inr r'" "figure_row x" "\<And>m n. figure_row (f m n)" for x a c f r'
    using that by (auto simp: if_both_def res_bind_Inr split: if_splits)
  have figs: "\<exists>r'. res_bind (rx_pps (dict_set ''valid'' (PBool y) r1)) (\<lambda>r3. res_bind (per_worker r3) degraded) = Inr r'" for y
  proof -
    let ?r2 = "dict_set ''valid'' (PBool y) r1"
    have f2: "figure_row ?r2" using fig by (intro figure_row_set) (simp_all add: figure_cells_def)
    obtain r3 where r3: "rx_pps ?r2 = Inr r3" using ok [OF f2] by (fastforce simp: rx_pps_def figure_cells_def)
    have f3: "figure_row r3"
      by (rule keep [OF r3 [unfolded rx_pps_def] f2]) (intro figure_row_set f2, simp add: figure_cells_def)
    obtain r4 where r4: "per_worker r3 = Inr r4" using ok [OF f3] by (fastforce simp: per_worker_def figure_cells_def)
    have f4: "figure_row r4"
      by (rule keep [OF r4 [unfolded per_worker_def] f3]) (intro figure_row_set f3, simp add: figure_cells_def)
    then have "figure (dict_get r4 ''setup_us_p50'')" by (auto simp: figure_row_def figure_cells_def)
    then have "\<exists>r'. degraded r4 = Inr r'"
      by (cases "dict_get r4 ''setup_us_p50''") (auto simp: degraded_def figure_def num_def of_option_def)
    with r3 r4 show ?thesis by simp
  qed
  have bad: "b_valid b r1 = Inl x"
  proof (cases "b_valid b r1")
    case (Inr y)
    with fail figs [of y] show ?thesis by (simp add: annotate_def Let_def flip: r1_def)
  qed (use fail in \<open>simp add: annotate_def Let_def flip: r1_def\<close>)
  from gate [OF fig bad] obtain q where q: "dict_get r1 ''queues'' = PStr q" "py_int q = Inl x" by blast
  have "dict_get r1 ''queues'' = dict_get (point_cells cfg r) ''queues''"
  proof -
    have "map_of (labels ts inst axis v rep note) ''queues'' = None" by (simp add: labels_def)
    moreover have "map_of r ''queues'' = None" using r by (simp add: raw_row_def map_of_eq_None_iff)
    moreover have "distinct (map fst (labels ts inst axis v rep note))" by (simp add: labels_def)
    moreover have "distinct (map fst (point_cells cfg r))" using assms(3) by (simp add: point_cells_def distinct_map_filter)
    ultimately show ?thesis
      by (simp add: r1_def dict_get_def map_of_dict_merge distinct_dict_merge map_add_def split: option.splits)
  qed
  also have "\<dots> = dict_get cfg ''queues''" by (induction cfg) (auto simp: point_cells_def dict_get_def)
  finally have "dict_get cfg ''queues'' = PStr q" using q(1) by simp
  with q(2) fig bad show ?thesis by blast
qed

lemma annotate_all_fails:
  assumes "\<forall>r \<in> set rows. raw_row r" "clear figure_cells cfg" "distinct (map fst cfg)"
    and "annotate_all b s inst axis v rep cfg rows w = (Inl x, w', es)"
  shows "(\<exists>r. figure_row r \<and> b_valid b r = Inl x) \<and> (\<exists>q. dict_get cfg ''queues'' = PStr q \<and> py_int q = Inl x)"
  using assms(1,4)
proof (induction rows arbitrary: w w' es)
  case (Cons r rs)
  then show ?case
    by (auto simp: io_bind_def site_clock_def io_res_def io_ret_def io_raise_def split: prod.splits sum.splits
        dest!: annotate_fails [OF _ assms(2,3), rotated])
qed (simp add: io_ret_def)

lemma raises_own:
  assumes run: "sweep_run b s g e v rep w = (Inl x, w', es)"
    and cfg: "clear figure_cells (cfg_at (e_axis e) (e_base e) v)" "distinct (map fst (cfg_at (e_axis e) (e_base e) v))"
  shows "(\<exists>u u'. b_run b (instance_at (e_axis e) (g_instance g) v) (logs_dir (e_out e)) (cfg_at (e_axis e) (e_base e) v) (e_ip e) u = (Inl x, u'))
    \<or> (\<exists>r. figure_row r \<and> b_valid b r = Inl x) \<and> (\<exists>q. dict_get (cfg_at (e_axis e) (e_base e) v) ''queues'' = PStr q \<and> py_int q = Inl x)"
proof -
  let ?i = "instance_at (e_axis e) (g_instance g) v" and ?c = "cfg_at (e_axis e) (e_base e) v"
  obtain r1 w1 es1 where a: "attempts 6 b s (e_out e) ?i ?c (e_ip e) [] w = (r1, w1, es1)" by (metis prod_cases3)
  have rows: "\<forall>r \<in> set rows. raw_row r" if "answered b ?i (logs_dir (e_out e)) ?c (e_ip e) rows" for rows
    using that by (auto simp: answered_def dest: raw)
  show ?thesis
  proof (cases r1)
    case (Inl y)
    with run a have x: "y = x" by (simp add: sweep_run_def Let_def io_bind_def)
    from attempts_raises [OF a [unfolded Inl x]] show ?thesis
    proof (elim disjE exE conjE)
      fix rs r assume g: "answered b ?i (logs_dir (e_out e)) ?c (e_ip e) rs" "r \<in> set rs" "b_valid b r = Inl x"
      with rows have "figure_row r \<and> dict_get r ''queues'' = PNone" by (blast dest: raw_row_figures)
      with gate [OF _ g(3)] show ?thesis by auto
    qed blast
  next
    case (Inr rs)
    from a Inr have "attempts (Suc 5) b s (e_out e) ?i ?c (e_ip e) [] w = (Inr rs, w1, es1)" by (simp del: attempts.simps)
    from attempts_rows [OF this] have ne: "rs \<noteq> []" .
    from attempts_answered [OF a [unfolded Inr] ne] rows have fig: "\<forall>r \<in> set rs. raw_row r" by simp
    obtain r2 w2 es2 where n: "annotate_all b s ?i (e_axis e) v rep ?c rs w1 = (r2, w2, es2)" by (metis prod_cases3)
    have "r2 = Inl x"
    proof (cases r2)
      case (Inr rs')
      from annotate_all_rows [OF n [unfolded Inr]] ne have "rs' \<noteq> []" by auto
      with run a \<open>r1 = Inr rs\<close> n Inr show ?thesis by (simp add: sweep_run_def Let_def io_bind_def io_ret_def)
    qed (use run a Inr n in \<open>simp add: sweep_run_def Let_def io_bind_def\<close>)
    from annotate_all_fails [OF fig cfg n [unfolded this]] show ?thesis by blast
  qed
qed

end

text \<open>The gates under numeric figures: none raises, but for the queue count that is asked for as a text.\<close>

lemma figure_million: "figure v \<Longrightarrow> \<exists>q. lt_million (py_or v (PInt 0)) = Inr q"
  by (cases v) (auto simp: figure_def lt_million_def num_def of_option_def py_or_def)

lemma bench_gate: "figure_row r \<Longrightarrow> bench_valid r \<noteq> Inl x"
proof -
  assume "figure_row r"
  then have "figure (dict_get r ''setup_us_p50'')" "figure (dict_get r ''setup_us_max'')" by (auto simp: figure_row_def figure_cells_def)
  then have "figure (py_or (dict_get r ''setup_us_p50'') (dict_get r ''setup_us_max''))" by (simp add: py_or_def)
  from figure_million [OF this] show ?thesis by (auto simp: bench_valid_def)
qed

lemma smoltcp_gate: "figure_row r \<Longrightarrow> smoltcp_valid sv r \<noteq> Inl x"
proof -
  assume a: "figure_row r"
  have "figure_row (dict_set ''setup_us_max'' (PInt 0) r)"
    using a by (simp add: figure_row_def figure_def)
  with a show ?thesis by (simp add: smoltcp_valid_def bench_gate)
qed

lemma other_gates: "figure_row r \<Longrightarrow> anyblob_valid r \<noteq> Inl x" "wrk_valid r \<noteq> Inl x" "tpch_valid r \<noteq> Inl x"
  by (auto simp: anyblob_valid_def res_bind_def wrk_valid_def tpch_valid_def bench_gate split: sum.splits)

lemma dlinux_gate_raises: "dlinux_gate r = Inl x \<Longrightarrow> \<exists>q. dict_get r ''queues'' = PStr q \<and> py_int q = Inl x"
  by (cases "dict_get r ''queues''")
    (auto simp: dlinux_gate_def queues_match_def int_of_def res_bind_def split: if_splits sum.splits)


lemma one_row_contract:
  assumes "\<And>inst logs cfg ip. yields plain_row (m inst logs cfg ip)"
    and "\<And>inst logs cfg ip. b_run b inst logs cfg ip = bench_call (one_row (m inst logs cfg ip))"
  shows "b_run b inst logs cfg ip w = (Inr rows, w') \<Longrightarrow> \<exists>r. rows = [r] \<and> plain_row r"
  using call_yields [OF yields_one_row [OF assms(1)]] by (auto simp: assms(2))

lemma linux_s3_answers: "b_run (linux_s3 h dv) inst logs cfg ip w = (Inr rows, w') \<Longrightarrow> \<exists>r. rows = [r] \<and> plain_row r"
  by (rule one_row_contract [where m = "linux_run_once h s3_class dv" and b = "linux_s3 h dv"]) (simp_all add: linux_s3_def linux_run_plain s3_class_def plain_tables)

lemma anyblob_answers: "b_run (anyblob h dv) inst logs cfg ip w = (Inr rows, w') \<Longrightarrow> \<exists>r. rows = [r] \<and> plain_row r"
  by (rule one_row_contract [where m = "anyblob_run_once h dv" and b = "anyblob h dv"]) (simp_all add: anyblob_def anyblob_run_plain)

lemma wrk_answers: "b_run (wrk_http h dv) inst logs cfg ip w = (Inr rows, w') \<Longrightarrow> \<exists>r. rows = [r] \<and> plain_row r"
  by (rule one_row_contract [where m = "wrk_run_once h dv" and b = "wrk_http h dv"]) (simp_all add: wrk_http_def wrk_run_plain)

lemma smoltcp_answers: "b_run (smoltcp_s3 sv h dv) inst logs cfg ip w = (Inr rows, w') \<Longrightarrow> \<exists>r. rows = [r] \<and> plain_row r"
  by (rule one_row_contract [where m = "smoltcp_run_once h dv" and b = "smoltcp_s3 sv h dv"]) (simp_all add: smoltcp_s3_def smoltcp_run_plain)

lemma tpch_answers: "b_run (duckdb_tpch h dv) inst logs cfg ip w = (Inr rows, w') \<Longrightarrow> figure_rows rows"
  by (auto simp: duckdb_tpch_def dest: call_yields [OF tpch_run_figures])

lemma dlinux_answers: "b_run (duckdb_linux h dv) inst logs cfg ip w = (Inr rows, w') \<Longrightarrow> figure_rows rows"
  by (auto simp: duckdb_linux_def dest: call_yields [OF dlinux_run_figures])

interpretation s3: queryless_bench "linux_s3 h dv" for h dv
  by unfold_locales (auto dest!: linux_s3_answers plain_row_query)

interpretation ab: queryless_bench "anyblob h dv" for h dv
  by unfold_locales (auto dest!: anyblob_answers plain_row_query)

interpretation wrk: queryless_bench "wrk_http h dv" for h dv
  by unfold_locales (auto dest!: wrk_answers plain_row_query)

interpretation smol: queryless_bench "smoltcp_s3 sv h dv" for sv h dv
  by unfold_locales (auto dest!: smoltcp_answers plain_row_query)

interpretation s3_rec: recording_bench "linux_s3 h dv" for h dv
  by unfold_locales (auto dest!: linux_s3_answers simp: plain_row_def, simp add: linux_s3_def bench_gate)

interpretation ab_rec: recording_bench "anyblob h dv" for h dv
  by unfold_locales (auto dest!: anyblob_answers simp: plain_row_def, simp add: anyblob_def other_gates)

interpretation wrk_rec: recording_bench "wrk_http h dv" for h dv
  by unfold_locales (auto dest!: wrk_answers simp: plain_row_def, simp add: wrk_http_def other_gates)

interpretation smol_rec: recording_bench "smoltcp_s3 sv h dv" for sv h dv
  by unfold_locales (auto dest!: smoltcp_answers simp: plain_row_def, simp add: smoltcp_s3_def smoltcp_gate)

interpretation tpch_rec: recording_bench "duckdb_tpch h dv" for h dv
  by unfold_locales (auto dest!: tpch_answers simp: figure_rows_def list_all_iff, simp add: duckdb_tpch_def other_gates)

interpretation dlinux_rec: recording_bench "duckdb_linux h dv" for h dv
  by unfold_locales (auto dest!: dlinux_answers simp: figure_rows_def list_all_iff, simp add: duckdb_linux_def dlinux_gate_raises)

text \<open>
  C21. What can end a recorded run: for each of the six drivers, whatever the console printed, an exception
  that leaves a run of the sweep is one the driver's own run raised, with one exception: the gate of the
  DuckDB driver on Linux, asked for a queue count that is no number, raises when it reads it, after the run
  was paid for. In particular the figures \<open>main\<close> and the gates compute with never meet a cell that is no
  number, and no answer is without rows. No knob is named like one of these figures.
\<close>

theorem recording_raises_nothing:
  assumes "b \<in> {linux_s3 h dv, anyblob h dv, wrk_http h dv, smoltcp_s3 sv h dv, duckdb_tpch h dv, duckdb_linux h dv}"
    and cfg: "clear figure_cells (cfg_at (e_axis e) (e_base e) v)" "distinct (map fst (cfg_at (e_axis e) (e_base e) v))"
    and run: "sweep_run b s g e v rep w = (Inl x, w', es)"
  shows "(\<exists>u u'. b_run b (instance_at (e_axis e) (g_instance g) v) (logs_dir (e_out e)) (cfg_at (e_axis e) (e_base e) v) (e_ip e) u = (Inl x, u'))
    \<or> b = duckdb_linux h dv \<and> (\<exists>q. dict_get (cfg_at (e_axis e) (e_base e) v) ''queues'' = PStr q \<and> py_int q = Inl x)"
proof -
  from assms(1) consider "b = linux_s3 h dv" | "b = anyblob h dv" | "b = wrk_http h dv" | "b = smoltcp_s3 sv h dv"
    | "b = duckdb_tpch h dv" | "b = duckdb_linux h dv" by blast
  then show ?thesis
  proof cases
    case 1
    from s3_rec.raises_own [OF run [unfolded 1] cfg] show ?thesis by (auto simp: 1 linux_s3_def bench_gate)
  next
    case 2
    from ab_rec.raises_own [OF run [unfolded 2] cfg] show ?thesis by (auto simp: 2 anyblob_def other_gates)
  next
    case 3
    from wrk_rec.raises_own [OF run [unfolded 3] cfg] show ?thesis by (auto simp: 3 wrk_http_def other_gates)
  next
    case 4
    from smol_rec.raises_own [OF run [unfolded 4] cfg] show ?thesis by (auto simp: 4 smoltcp_s3_def smoltcp_gate)
  next
    case 5
    from tpch_rec.raises_own [OF run [unfolded 5] cfg] show ?thesis by (auto simp: 5 duckdb_tpch_def other_gates)
  next
    case 6
    from dlinux_rec.raises_own [OF run [unfolded 6] cfg] show ?thesis by (auto simp: 6)
  qed
qed

text \<open>That exception is real: a complete, matching run, asked for a queue count of \<open>all\<close>.\<close>

lemma text_queues_raise:
  "dlinux_gate [(''complete'', PBool True), (''match'', PStr ''yes''), (''query_ms'', PInt 5), (''queues'', PStr ''all'')] = Inl (ValueErr ''all'')"
  by code_simp

definition mock_driver :: driver where
  "mock_driver = \<lparr>dv_ami = Some ''ami'', dv_market = ''spot'', dv_cap = 900, dv_instance = ''c6in.8xlarge''\<rparr>"

text \<open>A host whose environment names nothing, and a site around it.\<close>

definition bare_host :: "mock_world host" where
  "bare_host = (mock_host_on mock)\<lparr>h_env := (\<lambda>k. None)\<rparr>"

definition bare_site :: "mock_world bworld site" where
  "bare_site = \<lparr>s_ec2 = undefined, s_env = (\<lambda>k. None), s_root = ''/r'', s_csv = (\<lambda>p w. []), s_write = (\<lambda>p t w. w),
     s_log = (\<lambda>p w. None), s_text = (\<lambda>e. []), s_clock = (\<lambda>w. (0, w)), s_sleep = (\<lambda>d w. w)\<rparr>"

lemma recording_raises_nothing_witness:
  "\<exists>w' es. sweep_run (linux_s3 bare_host mock_driver) bare_site mock_args mock_env (PInt 1) 1 mock_bworld = (Inl (KeyErr ''AWS_BUCKET''), w', es) \<and>
     (\<exists>u u'. b_run (linux_s3 bare_host mock_driver) ''c6in.8xlarge'' (logs_dir ''r/a.csv'') [(''workers'', PInt 1)] [] u = (Inl (KeyErr ''AWS_BUCKET''), u'))"
proof -
  obtain w' es where run: "sweep_run (linux_s3 bare_host mock_driver) bare_site mock_args mock_env (PInt 1) 1 mock_bworld = (Inl (KeyErr ''AWS_BUCKET''), w', es)"
    by (simp add: sweep_run_def Let_def eval_nat_numeral io_defs linux_s3_def bench_call_def one_row_def linux_run_once_def host_now_def on_host_def live_def
        user_data_blob_def s3_class_def s3_conf_def bucket_conf_def need_env_def of_option_def io_res_def bare_host_def mock_host_on_def
        bare_site_def mock_bworld_def quota_def)
  have "clear figure_cells (cfg_at (e_axis mock_env) (e_base mock_env) (PInt 1))" "distinct (map fst (cfg_at (e_axis mock_env) (e_base mock_env) (PInt 1)))"
    by (simp_all add: mock_env_def cfg_at_def instance_axis_def dict_set_def figure_cells_def)
  from recording_raises_nothing [OF _ this run, of bare_host mock_driver False] run show ?thesis
    by (auto simp: mock_env_def mock_args_def cfg_at_def instance_at_def instance_axis_def dict_set_def dict_get_def)
qed

end
