(* ===== verification/HttpRun.thy ===== *)
theory HttpRun
  imports BenchRows QueueMain
begin

text \<open>
  Servers: what the check of a server started by hand establishes, that a server launched for a point is
  never forgotten, that the wait for it ends, and that the queue's sweep knows the name of everything the
  drivers launch. Also the reading of an IPv4 address and its networks.
\<close>

section \<open>A server started by hand\<close>

lemma check_recorded_ok:
  "check_recorded target zone iid i w = (Inr (), w', es) \<Longrightarrow>
   in_state i = ''running'' \<and> in_private_ip i = Some target \<and> given zone \<and> zone = Some (in_zone i)"
  by (auto simp: check_recorded_def sys_exit_def io_raise_def given_def split: if_splits option.splits)

lemma emits_recorded_server [io_intros]: "P (Api (DescribeInstances [iid])) \<Longrightarrow> emits P (recorded_server h iid)"
  unfolding recorded_server_def sys_exit_def first_instance_def
  by (auto split: if_splits list.splits intro!: io_intros)

lemma emits_check_recorded [io_intros]: "emits P (check_recorded t z i x)"
  unfolding check_recorded_def sys_exit_def by (auto intro!: io_intros)

lemma recorded_server_ok:
  assumes "recorded_server h iid w = (Inr i, w', es)"
  shows "\<exists>u u' is res. ec2_describe_instances (h_ec2 h) [iid] u = (Inr ((i # is) # res), u')"
  using assms unfolding recorded_server_def
proof (cases rule: io_catch_cases)
  case 1
  from api_run [OF 1(1)] obtain u cs where "io_bind (describe_instances (h_ec2 h) [iid]) first_instance (bw_os w) = (Inr i, u, cs)" by blast
  then obtain res v where "ec2_describe_instances (h_ec2 h) [iid] (bw_os w) = (Inr res, v)" "first_instance res v = (Inr i, u, [])"
    by (auto elim!: io_bind_InrE simp: describe_instances_def io_call_def first_instance_def io_ret_def io_raise_def split: prod.splits list.splits)
  then show ?thesis by (auto simp: first_instance_def io_ret_def io_raise_def split: list.splits)
next
  case (2 e n w1 cs1 cs2)
  then show ?thesis by (auto simp: sys_exit_def io_raise_def split: if_splits)
qed

text \<open>
  C33. A private target is dialled only where the record, EC2 and the pin agree: when the check passes, a
  server is recorded, EC2 describes it as running under exactly the target address, and \<open>BENCH_ZONE\<close>
  names the zone it is in. The check itself only looks that instance up.
\<close>

theorem verify_external_sound:
  assumes run: "verify_external h target zone w = (Inr (), w', es)" and ip: "ip_address target = Some a" "is_private a"
  shows "\<exists>iid ip u u' i is res. h_record h (bw_os w) = Some (iid, ip) \<and>
     ec2_describe_instances (h_ec2 h) [iid] u = (Inr ((i # is) # res), u') \<and>
     in_state i = ''running'' \<and> in_private_ip i = Some target \<and> zone = Some (in_zone i) \<and>
     list_all (\<lambda>e. e = Api (DescribeInstances [iid])) es"
proof -
  from ip have "target \<noteq> []" by (auto simp: ip_address_def Let_def octet_def all_digits_def)
  obtain rec where rec: "h_record h (bw_os w) = rec" by blast
  from run ip \<open>target \<noteq> []\<close> rec obtain iid sip where r: "rec = Some (iid, sip)"
    by (cases rec) (auto simp: verify_external_def io_bind_def on_host_def io_ask_def sys_exit_def io_raise_def)
  from run ip \<open>target \<noteq> []\<close> rec r have m: "io_bind (recorded_server h iid) (check_recorded target zone iid) w = (Inr (), w', es)"
    by (auto simp: verify_external_def io_bind_def on_host_def io_ask_def split: prod.splits sum.splits)
  have "emits (\<lambda>e. e = Api (DescribeInstances [iid])) (io_bind (recorded_server h iid) (check_recorded target zone iid))"
    by (auto intro!: io_intros)
  with m have only: "list_all (\<lambda>e. e = Api (DescribeInstances [iid])) es" by (auto simp: list_all_iff dest: emits_run)
  from m obtain i w1 cs1 cs2 where "recorded_server h iid w = (Inr i, w1, cs1)" "check_recorded target zone iid i w1 = (Inr (), w', cs2)"
    by (elim io_bind_InrE) auto
  from recorded_server_ok [OF this(1)] check_recorded_ok [OF this(2)] rec r only show ?thesis by blast
qed

section \<open>Expressions that begin with a literal text\<close>

text \<open>The expression of a literal text before another.\<close>

fun lits :: "string \<Rightarrow> rx \<Rightarrow> rx" where
  "lits [] r = r"
| "lits (c # s) r = Cat (Set False (single c)) (lits s r)"

lemma in_single: "in_ranges (single c) d \<longleftrightarrow> d = c"
  by (auto simp: in_ranges_def single_def)

lemma mt_lits: "mt (lits s r) a c \<Longrightarrow> \<exists>b. mt r b c \<and> snd a = s @ snd b"
proof (induction s arbitrary: a)
  case (Cons x s)
  from Cons.prems obtain p t where "a = (p, x # t)" "mt (lits s r) (Some x, t) c"
    by (auto elim!: mt_CatE mt_SetE simp: in_single)
  with Cons.IH [OF this(2)] show ?case by auto
qed auto

lemma lits_mt: "mt r (if s = [] then p else Some (last s), t) c \<Longrightarrow> mt (lits s r) (p, s @ t) c"
proof (induction s arbitrary: p)
  case (Cons x s)
  have "mt (Set False (single x)) (p, x # s @ t) (Some x, s @ t)" by (rule mt.set) (simp add: in_single)
  moreover from Cons.prems have "mt (lits s r) (Some x, s @ t) c" by (intro Cons.IH) (auto split: if_splits)
  ultimately show ?case by (auto intro: mt.cat)
qed simp

text \<open>A literal text before a group: what is matched is that text and what the group captured.\<close>

lemma match_lits_group:
  "st' \<in> set (rx_match (lits l (Group k q)) (p, s, caps)) \<Longrightarrow>
   \<exists>u x. s = l @ u @ rest st' \<and> map_of (snd (snd st')) k = Some u \<and> mt q (x, u @ rest st') (pos st')"
proof (induction l arbitrary: p s caps)
  case Nil
  then obtain p0 s0 c0 where st0: "(p0, s0, c0) \<in> set (rx_match q (p, s, caps))" and st': "st' = capture k (p, s, caps) (p0, s0, c0)"
    by auto
  from rx_match_sound [OF st0] have m: "mt q (p, s) (p0, s0)" by (simp add: pos_def rest_def)
  from mt_suffix [OF m] obtain u where u: "s = u @ s0" by auto
  have "map_of (snd (snd st')) k = Some u" "rest st' = s0" "pos st' = (p0, s0)"
    unfolding st' by (simp_all add: capture_def rest_def pos_def u update_conv')
  with m u show ?case by (intro exI [of _ u] exI [of _ p]) simp
next
  case (Cons c l)
  from Cons.prems obtain t where "s = c # t" "st' \<in> set (rx_match (lits l (Group k q)) (Some c, t, caps))"
    by (cases s) (auto simp: advance_def in_single split: if_splits)
  with Cons.IH [OF this(2)] show ?case by simp
qed

lemma scan_match:
  "scan r p b s = Some m \<Longrightarrow> \<exists>x b' t st'. st' \<in> set (rx_match r (x, t, [])) \<and> b @ s = b' @ t \<and> m = mk_match b' t st'"
proof (induction s arbitrary: p b)
  case Nil
  show ?case
  proof (cases "rx_match r (p, [], [])")
    case Nil
    with \<open>scan r p b [] = Some m\<close> show ?thesis by (simp add: scan.simps [of r p b])
  next
    case (Cons st sts)
    with \<open>scan r p b [] = Some m\<close> have "m = mk_match b [] st" by (simp add: scan.simps [of r p b])
    moreover from Cons have "st \<in> set (rx_match r (p, [], []))" by simp
    ultimately show ?thesis by blast
  qed
next
  case (Cons c s)
  show ?case
  proof (cases "rx_match r (p, c # s, [])")
    case Nil
    with Cons.prems have "scan r (Some c) (b @ [c]) s = Some m" by (simp add: scan.simps [of r p b])
    from Cons.IH [OF this] show ?thesis by simp
  next
    case (Cons st sts)
    with \<open>scan r p b (c # s) = Some m\<close> have "m = mk_match b (c # s) st" by (simp add: scan.simps [of r p b])
    moreover from Cons have "st \<in> set (rx_match r (p, c # s, []))" by simp
    ultimately show ?thesis by blast
  qed
qed

lemma search_lits_group:
  assumes "rx_search (lits l (Group k q)) s = Some m"
  shows "\<exists>u x y. s = m_before m @ l @ u @ m_after m \<and> group k m = Some u \<and> mt q (x, u @ m_after m) (y, m_after m)"
proof -
  from scan_match [OF assms [unfolded rx_search_def]] obtain x b t st' where
    st: "st' \<in> set (rx_match (lits l (Group k q)) (x, t, []))" "s = b @ t" "m = mk_match b t st'" by auto
  from match_lits_group [OF st(1)] obtain u y where
    u: "t = l @ u @ rest st'" "map_of (snd (snd st')) k = Some u" "mt q (y, u @ rest st') (pos st')" by blast
  have "m_before m = b" "m_after m = rest st'" "group k m = Some u" unfolding st(3) group_def using u(2) by (simp_all add: mk_match_def)
  with u(1,3) st(2) show ?thesis
    by (intro exI [of _ u] exI [of _ y] exI [of _ "fst st'"]) (simp add: pos_def)
qed

definition ready_word :: string where
  "ready_word = ''SERVER READY ip=''"

lemma ready_rx_lits: "ready_rx = lits ready_word (Group 1 (Cat (Set False [(48, 57), (46, 46)]) (Star True (Set False [(48, 57), (46, 46)]))))"
  by code_simp

lemma ready_rx_found:
  assumes "rx_search ready_rx s = Some m"
  shows "\<exists>ip. group 1 m = Some ip \<and> ip \<noteq> [] \<and> s = m_before m @ ready_word @ ip @ m_after m"
proof -
  from search_lits_group [OF assms [unfolded ready_rx_lits]] obtain ip x y where
    ip: "s = m_before m @ ready_word @ ip @ m_after m" "group 1 m = Some ip"
    "mt (Cat (Set False [(48, 57), (46, 46)]) (Star True (Set False [(48, 57), (46, 46)]))) (x, ip @ m_after m) (y, m_after m)" by blast
  have "ip \<noteq> []"
  proof
    assume "ip = []"
    with ip(3) obtain b where b: "mt (Set False [(48, 57), (46, 46)]) (x, m_after m) b"
      "mt (Star True (Set False [(48, 57), (46, 46)])) b (y, m_after m)" by (auto elim: mt_CatE)
    from mt_suffix [OF b(2)] have "length (m_after m) \<le> length (snd b)" by auto
    with b(1) show False by (auto elim: mt_SetE)
  qed
  with ip show ?thesis by blast
qed

section \<open>A server launched for a point\<close>

lemma poll_server_returns:
  assumes steady: "steady_host h time"
  shows "deadline \<le> time (bw_os w) + of_nat n * 10 \<Longrightarrow>
     poll_server (Suc n) h iid file deadline s w = (r, w', es) \<Longrightarrow> r \<noteq> Inr None \<and> naps es \<le> n"
proof (induction n arbitrary: s w r w' es)
  case 0
  have "time (bw_os w) \<le> fst (h_now h (bw_os w))" using steady by (simp add: steady_host_def)
  with 0(1) have "\<not> fst (h_now h (bw_os w)) < deadline" by simp
  with 0(2) show ?case by (auto simp: io_bind_def host_now_run io_ret_def)
next
  case (Suc n)
  let ?t = "fst (h_now h (bw_os w))" and ?u = "snd (h_now h (bw_os w))"
  have t: "time (bw_os w) \<le> time ?u" using steady unfolding steady_host_def by (meson order_trans)
  show ?case
  proof (cases "?t < deadline")
    case False
    with Suc.prems(2) show ?thesis by (auto simp: io_bind_def host_now_run io_ret_def)
  next
    case True
    let ?v = "h_sleep h 10 ?u"
    let ?x = "w\<lparr>bw_os := snd (h_console h iid ?v)\<rparr>"
    have "time ?u + 10 \<le> time ?v" "time ?v \<le> time (bw_os ?x)" using steady by (auto simp: steady_host_def)
    with t Suc.prems(1) have late: "deadline \<le> time (bw_os ?x) + of_nat n * 10" by (simp add: algebra_simps)
    obtain rc where rc: "read_console h iid (w\<lparr>bw_os := ?v\<rparr>) = (rc, ?x, [ReadConsole iid])"
      using read_console_run [of h iid "w\<lparr>bw_os := ?v\<rparr>"] by auto
    show ?thesis
    proof (cases rc)
      case (Inl e)
      with rc True Suc.prems(2) show ?thesis
        by (auto simp: io_bind_def io_seq_def host_now_run nap_run poll_server.simps(2) [of "Suc n"] simp del: poll_server.simps)
    next
      case (Inr got)
      define s' where "s' = (if length s < length got then got else s)"
      obtain r2 w2 es2 where again: "poll_server (Suc n) h iid file deadline s' ?x = (r2, w2, es2)" by (metis prod_cases3)
      have "(r, naps es) = (case rx_search ready_rx s' of Some m \<Rightarrow> (Inr (Some (group 1 m)), 1)
          | None \<Rightarrow> if is_infix ''SERVER FAILED'' s' then (Inr (Some None), 1) else (r2, Suc (naps es2)))"
        using rc True Suc.prems(2) Inr again
        by (cases "length s < length got"; cases "rx_search ready_rx s'")
          (auto simp: io_bind_def io_seq_def host_now_run nap_run io_when_def write_log_def io_emit_def io_ret_def s'_def Let_def
             poll_server.simps(2) [of "Suc n"] simp del: poll_server.simps)
      with Suc.IH [OF late again] show ?thesis by (auto split: option.splits if_splits)
    qed
  qed
qed

lemma emits_poll_server [io_intros]:
  assumes "P (Napped 10)" "P (ReadConsole iid)" "\<And>s. P (LogFile file s)"
  shows "emits P (poll_server n h iid file deadline s)"
proof (induction n arbitrary: s)
  case (Suc n)
  then show ?case by (auto simp: Let_def split: option.splits intro!: io_intros assms)
qed (simp add: emits_ret)

interpretation keeps_server: trace_relation "\<lambda>w _ w'. bw_server w' = bw_server w"
  by unfold_locales auto

lemma traced_on_host: "traced (\<lambda>w _ w'. bw_server w' = bw_server w) (on_host m)"
  by (auto simp: traced_def on_host_def split: prod.splits)

lemma traced_emit: "traced (\<lambda>w _ w'. bw_server w' = bw_server w) (io_emit c)"
  by (simp add: traced_def io_emit_def)

lemma poll_server_traced: "traced (\<lambda>w _ w'. bw_server w' = bw_server w) (poll_server n h iid file deadline s)"
proof (induction n arbitrary: s)
  case (Suc n)
  then show ?case
    by (auto simp: Let_def host_now_def nap_def write_log_def read_console_def split: option.splits if_splits
        intro!: keeps_server.traced_rules traced_on_host traced_emit)
qed (simp add: keeps_server.traced_ret)

lemma throws_seq: "throws P m \<Longrightarrow> throws P n \<Longrightarrow> throws P (io_seq m n)"
  by (simp add: io_seq_def throws_bind)

lemma throws_quiet: "throws P (host_now h)" "throws P (nap h d)" "throws P (write_log f s)"
  by (auto simp: throws_def host_now_def nap_def on_host_def io_call_def write_log_def io_emit_def split: prod.splits)

lemma throws_read_console: "throws is_system_exit (read_console h i)"
  by (rule throwsI, unfold read_console_def, erule io_catch_cases) (auto simp: io_ret_def split: if_splits)

lemma poll_server_throws: "throws is_system_exit (poll_server n h iid file deadline s)"
proof (induction n arbitrary: s)
  case (Suc n)
  then show ?case
    by (auto simp: Let_def io_when_def split: option.splits
        intro!: throws_bind throws_seq throws_quiet throws_read_console throws_ret)
qed (simp add: throws_ret)

lemma poll_server_server: "poll_server n h iid file deadline s w = (r, w', es) \<Longrightarrow> bw_server w' = bw_server w"
  using traced_run [OF poll_server_traced] by blast

lemma poll_server_raises: "poll_server n h iid file deadline s w = (Inl e, w', es) \<Longrightarrow> is_system_exit e"
  using throws_run [OF poll_server_throws] by blast

lemma server_stop_run:
  assumes "bw_server w = Some sv" "sv_iid sv = Some iid" "iid \<noteq> []" "server_stop h w = (r, w', es)"
  shows "Api (TerminateInstances [iid]) \<in> set es \<and>
     (r = Inr () \<and> bw_server w' = Some (sv\<lparr>sv_iid := None, sv_ip := None\<rparr>) \<or> (\<exists>e. r = Inl e \<and> is_system_exit e))"
proof -
  obtain rt wt cs where t: "api (terminate (h_ec2 h) [Some iid]) w = (rt, wt, cs)" by (metis prod_cases3)
  from api_run [OF t] begins_in [OF terminate_begins [OF assms(3)]] have stopped: "Api (TerminateInstances [iid]) \<in> set cs" by fastforce
  show ?thesis
    using assms t stopped
    by (cases rt) (auto simp: server_stop_def io_bind_def io_ask_def given_def io_seq_def io_catch_def put_world_def io_ret_def split: if_splits)
qed

lemma server_wait_run:
  assumes p: "poll_server (Suc 60) h iid (logdir @ ''/server-'' @ iid @ ''.log'') (fst (h_now h (bw_os w)) + 600) []
      (w\<lparr>bw_server := Some (sv\<lparr>sv_iid := Some iid, sv_zone := Some zone\<rparr>), bw_os := snd (h_now h (bw_os w))\<rparr>) = (rp, w3, cs)"
  shows "server_wait h logdir sv iid zone w = (case rp of Inl e \<Rightarrow> (Inl e, w3, cs) | Inr got \<Rightarrow>
      (case (case got of None \<Rightarrow> io_raise (OtherExn ''fuel'') | Some ip \<Rightarrow>
          if \<not> given ip then io_seq (server_stop h) (sys_exit (''nginx server never became ready; see '' @ logdir @ ''/server-'' @ iid @ ''.log''))
          else io_seq (put_world (\<lambda>w. w\<lparr>bw_server := Some (sv\<lparr>sv_iid := Some iid, sv_zone := Some zone, sv_ip := ip\<rparr>)\<rparr>)) (io_ret (the ip))) w3 of
        (r, w'', cs') \<Rightarrow> (r, w'', cs @ cs')))"
proof -
  have fuel: "poll_fuel 10 ready_s = Suc 60" by (simp add: poll_fuel_def ready_s_def)
  show ?thesis
    using p unfolding server_wait_def Let_def fuel
    by (cases rp) (simp_all add: io_seq_def io_bind_def put_world_def host_now_run ready_s_def del: poll_server.simps)
qed

lemma server_stop_naps:
  assumes "server_stop h w = (r, w', es)"
  shows "naps es = 0"
  by (rule emits_no_naps [where m = "server_stop h", OF _ assms])
    (auto simp: server_stop_def terminate_def Let_def split: option.splits if_splits intro!: io_intros)

text \<open>
  What the poll makes of the console: the text it works on is the one it wrote to the log last
  (\<open>logged\<close>, from the text before on); the address it comes back with is what the ready line of that
  text shows, and it comes back without one only if that text has no ready line, and names a failure or
  the deadline has passed.
\<close>

fun logged :: "string \<Rightarrow> heff list \<Rightarrow> string" where
  "logged s [] = s"
| "logged s (LogFile f t # es) = logged t es"
| "logged s (_ # es) = logged s es"

definition ready_ip :: "string \<Rightarrow> string option" where
  "ready_ip s = Option.bind (rx_search ready_rx s) (group 1)"

lemma ready_ip_found: "ready_ip s = Some ip \<Longrightarrow> ip \<noteq> [] \<and> is_infix (ready_word @ ip) s"
  using ready_rx_found [of s] by (auto simp: ready_ip_def bind_eq_Some_conv is_infix_iff) (metis append.assoc)

lemma ready_ip_match: "rx_search ready_rx s = Some m \<Longrightarrow> \<exists>ip. ready_ip s = Some ip \<and> group 1 m = Some ip \<and> ip \<noteq> []"
  using ready_rx_found [of s m] by (auto simp: ready_ip_def)

lemma read_console_raises: "read_console h iid w = (Inl e, w', cs) \<Longrightarrow> is_system_exit e \<and> (\<exists>u. h_console h iid (bw_os w) = (Inl e, u))"
  by (auto simp: read_console_def io_catch_def on_host_def io_call_def io_ret_def split: prod.splits sum.splits if_splits)

lemma poll_server_console:
  assumes steady: "steady_host h time"
  shows "poll_server n h iid file deadline s w = (r, w', es) \<Longrightarrow> rx_search ready_rx s = None \<Longrightarrow>
     (case r of
        Inl e \<Rightarrow> is_system_exit e \<and> (\<exists>u u'. h_console h iid u = (Inl e, u'))
      | Inr None \<Rightarrow> True
      | Inr (Some got) \<Rightarrow> got = ready_ip (logged s es) \<and>
          (got = None \<longrightarrow> is_infix ''SERVER FAILED'' (logged s es) \<or> deadline \<le> time (bw_os w')))"
proof (induction n arbitrary: s w r w' es)
  case 0
  then show ?case by (auto simp: io_ret_def)
next
  case (Suc n)
  let ?t = "fst (h_now h (bw_os w))" and ?u = "snd (h_now h (bw_os w))"
  show ?case
  proof (cases "?t < deadline")
    case False
    moreover have "?t \<le> time ?u" using steady by (simp add: steady_host_def)
    ultimately show ?thesis using Suc.prems by (auto simp: io_bind_def host_now_run io_ret_def ready_ip_def)
  next
    case True
    let ?v = "h_sleep h 10 ?u"
    let ?x = "w\<lparr>bw_os := snd (h_console h iid ?v)\<rparr>"
    obtain rc where rc: "read_console h iid (w\<lparr>bw_os := ?v\<rparr>) = (rc, ?x, [ReadConsole iid])"
      using read_console_run [of h iid "w\<lparr>bw_os := ?v\<rparr>"] by auto
    show ?thesis
    proof (cases rc)
      case (Inl e)
      from read_console_raises [OF rc [unfolded Inl]] have exits: "is_system_exit e" "\<exists>u u'. h_console h iid u = (Inl e, u')"
        by blast+
      from rc True Suc.prems Inl have "r = Inl e" by (auto simp: io_bind_def io_seq_def host_now_run nap_run)
      with exits show ?thesis by simp
    next
      case (Inr got)
      define s' where "s' = (if length s < length got then got else s)"
      obtain r2 w2 es2 where again: "poll_server n h iid file deadline s' ?x = (r2, w2, es2)" by (metis prod_cases3)
      define pre where "pre = [Napped 10, ReadConsole iid] @ (if length s < length got then [LogFile file s'] else [])"
      have pre: "logged s (pre @ cs) = logged s' cs" for cs by (simp add: pre_def s'_def)
      have step: "(r, w', es) = (case rx_search ready_rx s' of Some m \<Rightarrow> (Inr (Some (group 1 m)), ?x, pre)
          | None \<Rightarrow> if is_infix ''SERVER FAILED'' s' then (Inr (Some None), ?x, pre) else (r2, w2, pre @ es2))"
        using rc True Suc.prems(1) Inr again
        by (cases "length s < length got"; cases "rx_search ready_rx s'")
          (auto simp: io_bind_def io_seq_def host_now_run nap_run io_when_def write_log_def io_emit_def io_ret_def s'_def pre_def Let_def)
      show ?thesis
      proof (cases "rx_search ready_rx s'")
        case None
        show ?thesis
        proof (cases "is_infix ''SERVER FAILED'' s'")
          case True
          with step None have "r = Inr (Some None)" "es = pre" by simp_all
          with True None pre [of "[]"] show ?thesis by (simp add: ready_ip_def)
        next
          case False
          with step None have same: "r = r2" "w' = w2" "es = pre @ es2" by simp_all
          from Suc.IH [OF again None] show ?thesis unfolding same pre .
        qed
      next
        case (Some m)
        with step pre [of "[]"] show ?thesis using ready_ip_match [OF Some] by (auto simp: ready_ip_def)
      qed
    qed
  qed
qed

text \<open>
  C34. A server is never forgotten: once its instance is launched, \<open>start\<close> polls its console, on a clock
  that moves forward at most 60 times ten seconds. If the poll finds a ready line, \<open>start\<close> returns exactly
  the address that line of the console shows, the bench holds the server with it, and nothing was
  terminated. If the console shows a failure or the ten minutes are over, it terminates that instance,
  after the poll, and exits. If the console's client itself exits, that exit is passed on and the bench
  still holds the server with its instance.
\<close>

theorem server_start_settles:
  assumes steady: "steady_host h time" and run: "server_wait h logdir sv iid zone w = (r, w', es)" and named: "iid \<noteq> []"
  shows "let sv' = sv\<lparr>sv_iid := Some iid, sv_zone := Some zone\<rparr>; (t, u) = h_now h (bw_os w) in
    \<exists>rp w3 cs post. es = cs @ post \<and> naps es \<le> 60 \<and>
     poll_server (Suc 60) h iid (logdir @ ''/server-'' @ iid @ ''.log'') (t + 600) [] (w\<lparr>bw_server := Some sv', bw_os := u\<rparr>) = (rp, w3, cs) \<and>
     (case rp of
        Inl e \<Rightarrow> r = Inl e \<and> is_system_exit e \<and> (\<exists>u u'. h_console h iid u = (Inl e, u')) \<and> post = [] \<and> bw_server w' = Some sv'
      | Inr None \<Rightarrow> False
      | Inr (Some (Some ip)) \<Rightarrow> r = Inr ip \<and> ready_ip (logged [] cs) = Some ip \<and> post = [] \<and>
          bw_server w' = Some (sv'\<lparr>sv_ip := Some ip\<rparr>) \<and> (\<forall>ids. Api (TerminateInstances ids) \<notin> set es)
      | Inr (Some None) \<Rightarrow> ready_ip (logged [] cs) = None \<and> (is_infix ''SERVER FAILED'' (logged [] cs) \<or> t + 600 \<le> time (bw_os w3)) \<and>
          Api (TerminateInstances [iid]) \<in> set post \<and> (\<exists>e. r = Inl e \<and> is_system_exit e))"
proof -
  define sv' where "sv' = sv\<lparr>sv_iid := Some iid, sv_zone := Some zone\<rparr>"
  define file' where "file' = logdir @ ''/server-'' @ iid @ ''.log''"
  obtain t u where now: "h_now h (bw_os w) = (t, u)" by fastforce
  let ?w2 = "w\<lparr>bw_server := Some sv', bw_os := u\<rparr>"
  obtain rp w3 cs where p: "poll_server (Suc 60) h iid file' (t + 600) [] ?w2 = (rp, w3, cs)" by (metis prod_cases3)
  have "t \<le> time (bw_os ?w2)" using steady now by (simp add: steady_host_def) (metis fst_conv snd_conv)
  with poll_server_returns [OF steady _ p] have rp: "rp \<noteq> Inr None" "naps cs \<le> 60" by auto
  have none: "rx_search ready_rx [] = None" using ready_rx_found [of "[]"] by (cases "rx_search ready_rx []") (auto simp: ready_word_def)
  note seen = poll_server_console [OF steady p none]
  have held: "bw_server w3 = Some sv'" using poll_server_server [OF p] by simp
  have "emits (\<lambda>e. \<forall>ids. e \<noteq> Api (TerminateInstances ids)) (poll_server (Suc 60) h iid file' (t + 600) [])"
    by (rule emits_poll_server) simp_all
  then have quiet: "Api (TerminateInstances ids) \<notin> set cs" for ids using p by (auto dest: emits_run)
  have p': "poll_server (Suc 60) h iid file' (fst (h_now h (bw_os w)) + 600) []
      (w\<lparr>bw_server := Some sv', bw_os := snd (h_now h (bw_os w))\<rparr>) = (rp, w3, cs)" using p by (simp add: now del: poll_server.simps)
  note run' = run [unfolded server_wait_run [OF p' [unfolded file'_def sv'_def]]]
  have "\<exists>post. es = cs @ post \<and> naps es \<le> 60 \<and> (case rp of
        Inl e \<Rightarrow> r = Inl e \<and> is_system_exit e \<and> (\<exists>u u'. h_console h iid u = (Inl e, u')) \<and> post = [] \<and> bw_server w' = Some sv'
      | Inr None \<Rightarrow> False
      | Inr (Some (Some ip)) \<Rightarrow> r = Inr ip \<and> ready_ip (logged [] cs) = Some ip \<and> post = [] \<and>
          bw_server w' = Some (sv'\<lparr>sv_ip := Some ip\<rparr>) \<and> (\<forall>ids. Api (TerminateInstances ids) \<notin> set es)
      | Inr (Some None) \<Rightarrow> ready_ip (logged [] cs) = None \<and> (is_infix ''SERVER FAILED'' (logged [] cs) \<or> t + 600 \<le> time (bw_os w3)) \<and>
          Api (TerminateInstances [iid]) \<in> set post \<and> (\<exists>e. r = Inl e \<and> is_system_exit e))"
  proof (cases rp)
    case (Inl e)
    with run' held rp(2) seen show ?thesis by auto
  next
    case (Inr got)
    with rp(1) obtain ip where ip: "got = Some ip" by auto
    show ?thesis
    proof (cases ip)
      case (Some a)
      with seen Inr ip ready_ip_found [of "logged [] cs" a] have "a \<noteq> []" "ready_ip (logged [] cs) = Some a" by auto
      with run' Inr ip rp(2) quiet Some show ?thesis
        by (auto simp: io_seq_def io_bind_def put_world_def io_ret_def given_def sv'_def)
    next
      case None
      obtain rs w4 cs4 where s: "server_stop h w3 = (rs, w4, cs4)" by (metis prod_cases3)
      from server_stop_run [OF held _ named s] have
        "Api (TerminateInstances [iid]) \<in> set cs4" "rs = Inr () \<or> (\<exists>e. rs = Inl e \<and> is_system_exit e)" by (auto simp: sv'_def)
      with run' Inr ip None s rp(2) server_stop_naps [OF s] seen show ?thesis
        by (auto simp: io_seq_def io_bind_def sys_exit_def io_raise_def given_def)
    qed
  qed
  with p show ?thesis unfolding Let_def now prod.case sv'_def [symmetric] file'_def [symmetric] by blast
qed

section \<open>Names the queue's sweep knows\<close>

text \<open>EC2's filter patterns: a star stands for any text, a question mark for any character.\<close>

fun glob :: "string \<Rightarrow> string \<Rightarrow> bool" where
  "glob [] s = (s = [])"
| "glob (c # p) [] = (c = CHR ''*'' \<and> glob p [])"
| "glob (c # p) (d # s) =
     (if c = CHR ''*'' then glob p (d # s) \<or> glob (c # p) s else (c = d \<or> c = CHR ''?'') \<and> glob p s)"

definition swept_name :: "string \<Rightarrow> bool" where
  "swept_name n \<longleftrightarrow> list_ex (\<lambda>p. glob p n) our_tags"

text \<open>\<open>P\<close> holds of every request that launches nothing, and of launches with the name of \<open>kw\<close>.\<close>

definition names_only :: "(aws \<Rightarrow> bool) \<Rightarrow> run_kwargs \<Rightarrow> bool" where
  "names_only P kw \<longleftrightarrow> (\<forall>kw'. kw_name kw' = kw_name kw \<longrightarrow> P (RunInstances kw')) \<and> (\<forall>e. no_runs e \<longrightarrow> P e)"

lemma names_onlyD:
  assumes "names_only P kw"
  shows "kw_name kw' = kw_name kw \<Longrightarrow> P (RunInstances kw')" "P (DescribeSubnet s)" "P (DescribeDefaultSubnets s)"
    "P (DescribeInstances ids)" "P OpenSpotRequests" "P (CancelSpotRequests ids)"
  using assms by (simp_all add: names_only_def)

lemma emits_launch_in_name:
  assumes "names_only P kw" "kw_name kw' = kw_name kw"
  shows "emits P (launch_in c kw' market zs)"
  unfolding launch_in_def using assms(2)
  by (auto split: sum.splits intro!: io_intros names_onlyD [OF assms(1)])

lemma emits_launch_name:
  assumes "names_only P kw"
  shows "emits P (launch c kw market zone)"
  unfolding launch_def
  by (auto split: list.splits intro!: emits_bind emits_spot_subnets emits_raise emits_launch_in_name [OF assms] names_onlyD [OF assms])

lemma emits_launch_in_zones:
  assumes "names_only (\<lambda>a. P (Api a)) kw"
  shows "emits P (launch_in_zones h kw market zs)"
proof (induction zs)
  case (Cons z zs)
  then show ?case by (auto split: if_splits intro!: emits_catch emits_api emits_launch_name [OF assms])
qed (simp add: sys_exit_def emits_raise)

lemma emits_bind_res: "(\<And>x. r = Inr x \<Longrightarrow> emits P (f x)) \<Longrightarrow> emits P (io_bind (io_res r) f)"
  by (cases r) (simp_all add: io_res_def emits_raise)

text \<open>An effect that launches something has the name \<open>n\<close>.\<close>

definition names_run :: "string \<Rightarrow> heff \<Rightarrow> bool" where
  "names_run n e \<longleftrightarrow> (\<forall>kw. e = Api (RunInstances kw) \<longrightarrow> kw_name kw = n)"

lemma names_run_simps [simp]:
  "names_run n (Api (RunInstances kw)) \<longleftrightarrow> kw_name kw = n" "no_runs a \<Longrightarrow> names_run n (Api a)"
  "names_run n (LiveOf x)" "names_run n (ReadConsole x)" "names_run n (LogFile f s)" "names_run n (Napped d)"
  "names_run n (RanCmd c e)" "names_run n (HeadObject k)" "names_run n AskAmi" "names_run n AskZones" "names_run n (AskScores i)"
  by (auto simp: names_run_def no_runs_def)

lemma names_only_run: "names_only (\<lambda>a. names_run (kw_name kw) (Api a)) kw"
  by (simp add: names_only_def)

lemma guest_run_names:
  "kw_name kw = n \<Longrightarrow> emits (names_run n) (guest_run h d clean kw market zone file cap)"
  unfolding guest_run_def
  by (rule emits_bind [OF emits_api [OF emits_launch_name]])
    (use names_only_run [of kw] in \<open>auto split: prod.splits option.splits intro!: io_intros\<close>)

lemma guest_run_row_names:
  "kw_name kw = n \<Longrightarrow> emits (names_run n) (io_bind (guest_run h d clean kw market zone file cap) (\<lambda>(s, iid, b, mk, zn). io_res (f s iid b mk zn)))"
  by (rule emits_bind [OF guest_run_names]) (auto split: prod.splits intro: emits_res)

lemma linux_run_names: "emits (names_run (lc_tag lc)) (linux_run_once h lc dv inst logs cfg ip)"
  unfolding linux_run_once_def Let_def
  by (rule emits_bind [OF emits_host_now], rule emits_bind [OF emits_live], simp, rule emits_bind [OF emits_ask])
    (auto split: prod.splits intro!: emits_bind_res guest_run_row_names simp: res_bind_Inr guest_kwargs_def)

lemma dlinux_run_names: "emits (names_run ''duckdb-linux-bench'') (dlinux_run_once h dv inst logs cfg ip)"
  unfolding dlinux_run_once_def Let_def
  by (rule emits_bind [OF emits_res], rule emits_bind [OF emits_host_now], rule emits_bind [OF emits_live], simp)
    (auto intro!: emits_bind_res guest_run_row_names simp: res_bind_Inr guest_kwargs_def dlinux_class_def)

lemma server_wait_names: "emits (names_run n) (server_wait h logdir sv iid zone)"
  unfolding server_wait_def Let_def server_stop_def sys_exit_def terminate_def
  by (auto simp: Let_def split: option.splits if_splits intro!: io_intros)

lemma server_launch_names:
  assumes "server_kwargs h sv ami = Inr kw"
  shows "emits (names_run server_tag) (io_bind (spot_ranked_zones h (sv_client sv)) (\<lambda>zones.
      io_bind (launch_in_zones h kw (sv_market sv) zones) (\<lambda>(is, mk, zone).
      io_bind (io_res (first_id is)) (\<lambda>iid. server_wait h logdir sv iid zone))))"
proof -
  from assms have "kw_name kw = server_tag" by (auto simp: res_bind_Inr server_kwargs_def)
  then have only: "names_only (\<lambda>a. names_run server_tag (Api a)) kw" using names_only_run [of kw] by simp
  have "emits (names_run server_tag) (spot_ranked_zones h x)" for x
    unfolding spot_ranked_zones_def placement_def Let_def by (auto split: if_splits intro!: io_intros)
  then show ?thesis
    by (auto split: prod.splits intro!: emits_bind emits_res emits_launch_in_zones [OF only] server_wait_names)
qed

lemma server_start_names: "emits (names_run server_tag) (server_start h logdir sv)"
proof -
  have e: "emits (names_run server_tag) (ensure_binary h)"
    unfolding ensure_binary_def by (auto split: if_splits intro!: io_intros)
  show ?thesis unfolding server_start_def
    by (rule emits_seq [OF e], rule emits_bind [OF emits_res], rule emits_bind [OF emits_on_host [OF emits_call]])
      (simp, rule emits_bind_res, erule server_launch_names)
qed

text \<open>
  C35. The queue's sweep looks for instances by the names of \<open>OUR_TAGS\<close>; every instance that a run of a
  Linux bench or the start of a server asks EC2 for has a name one of those patterns covers.
\<close>

theorem launches_are_swept:
  "list_all (\<lambda>lc. emits (\<lambda>e. case e of Api (RunInstances kw) \<Rightarrow> swept_name (kw_name kw) | _ \<Rightarrow> True) (linux_run_once h lc dv inst logs cfg ip))
     [s3_class, anyblob_class, wrk_class] \<and>
   emits (\<lambda>e. case e of Api (RunInstances kw) \<Rightarrow> swept_name (kw_name kw) | _ \<Rightarrow> True) (dlinux_run_once h dv inst logs cfg ip) \<and>
   emits (\<lambda>e. case e of Api (RunInstances kw) \<Rightarrow> swept_name (kw_name kw) | _ \<Rightarrow> True) (server_start h logs sv)"
proof -
  have named: "swept_name n \<Longrightarrow> names_run n e \<Longrightarrow> (case e of Api (RunInstances kw) \<Rightarrow> swept_name (kw_name kw) | _ \<Rightarrow> True)" for n e
    by (auto split: heff.splits aws.splits)
  have "swept_name ''linux-s3-bench'' \<and> swept_name ''anyblob-bench'' \<and> swept_name ''miniosv-linux-http-bench''
      \<and> swept_name ''duckdb-linux-bench'' \<and> swept_name ''miniosv-nginx-server''"
    by (simp add: swept_name_def our_tags_def)
  then show ?thesis
    using linux_run_names [of s3_class h dv inst logs cfg ip] linux_run_names [of anyblob_class h dv inst logs cfg ip]
      linux_run_names [of wrk_class h dv inst logs cfg ip] dlinux_run_names [of h dv inst logs cfg ip] server_start_names [of h logs sv]
    by (auto simp: s3_class_def anyblob_class_def wrk_class_def server_tag_def elim!: emits_mono intro: named)
qed

section \<open>Witnesses\<close>

definition nginx_host :: "mock_world host" where
  "nginx_host = (mock_host_on (mock\<lparr>ec2_describe_instances := (\<lambda>ids w. (Inr [[(mock_inst ''running'')\<lparr>in_private_ip := Some ''10.0.0.1''\<rparr>]], w))\<rparr>))
     \<lparr>h_record := (\<lambda>u. Some (''i-1'', ''10.0.0.1''))\<rparr>"

lemma nginx_address: "ip_address ''10.0.0.1'' = Some (10 * 2 ^ 24 + 1) \<and> is_private (10 * 2 ^ 24 + 1)"
  by code_simp

lemma verify_external_sound_witness:
  "\<exists>w' es iid ip. verify_external nginx_host ''10.0.0.1'' (Some ''1b'') mock_bworld = (Inr (), w', es) \<and>
     h_record nginx_host (bw_os mock_bworld) = Some (iid, ip)"
proof -
  obtain w' es where run: "verify_external nginx_host ''10.0.0.1'' (Some ''1b'') mock_bworld = (Inr (), w', es)"
    using nginx_address
    by (simp add: verify_external_def nginx_host_def mock_host_on_def recorded_server_def check_recorded_def api_def on_host_def io_lift_def
        mock_simps mock_bworld_def del: drop_bit_numeral_bit1)
  from verify_external_sound [OF run] nginx_address run show ?thesis by blast
qed

definition mock_server :: server where
  "mock_server = new_server ''c6in.8xlarge'' ''spot'' ''10G'' ''auto'' None"

lemma server_start_settles_witness:
  "\<exists>r w' es. server_wait (mock_host_on mock) ''/r'' mock_server ''i-1'' ''1b'' mock_bworld = (r, w', es) \<and> naps es \<le> 60"
proof -
  obtain r w' es where run: "server_wait (mock_host_on mock) ''/r'' mock_server ''i-1'' ''1b'' mock_bworld = (r, w', es)" by (metis prod_cases3)
  have "''i-1'' \<noteq> []" by simp
  from server_start_settles [OF mock_steady run this] run show ?thesis by (auto simp: Let_def split: prod.splits)
qed

end
