(* ===== verification/DeployRun.thy ===== *)
theory DeployRun
  imports HttpRun
begin

text \<open>
  What a deploy of the unikernel guarantees: how long it waits, in which order it terminates and tears
  down, and that a refused launch is never measured; and how a log of several queries becomes rows.
\<close>

section \<open>The order of a deploy\<close>

lemma emits_nothing: "emits (\<lambda>_. False) m \<Longrightarrow> m w = (r, w', es) \<Longrightarrow> es = []"
  by (cases es) (auto dest: emits_run)

lemma emits_deploy_log [io_intros]: "emits P (deploy_log h file)"
  by (rule emitsI) (auto simp: deploy_log_def on_host_def split: prod.splits)

lemma emits_measured_log [io_intros]: "emits P (measured_log h file)"
  unfolding measured_log_def sys_exit_def by (auto split: option.splits intro!: io_intros emits_deploy_log)

lemma emits_exited [io_intros]: "emits P (exited h pid)"
  by (rule emitsI) (auto simp: exited_def on_host_def split: prod.splits)

lemma deploy_log_run: "\<exists>r v. deploy_log h file w = (r, w\<lparr>bw_os := v\<rparr>, [])"
  by (auto simp: deploy_log_def on_host_def split: prod.splits)

lemma exited_run: "\<exists>b v. exited h pid w = (Inr b, w\<lparr>bw_os := v\<rparr>, [])"
  by (auto simp: exited_def on_host_def split: prod.splits)

lemma deployed_rx_lits: "deployed_rx = lits ''Instance running: ''
   (Group 1 (lits ''i-'' (Cat (Set False [(48, 57), (97, 102)]) (Star True (Set False [(48, 57), (97, 102)])))))"
  by code_simp

lemma deployed_found:
  assumes "rx_search deployed_rx s = Some m"
  shows "\<exists>i. group 1 m = Some i \<and> starts_with ''i-'' i \<and> is_infix (''Instance running: '' @ i) s"
proof -
  let ?q = "lits ''i-'' (Cat (Set False [(48, 57), (97, 102)]) (Star True (Set False [(48, 57), (97, 102)])))"
  from search_lits_group [OF assms [unfolded deployed_rx_lits]] obtain i x y where
    i: "s = m_before m @ ''Instance running: '' @ i @ m_after m" "group 1 m = Some i" "mt ?q (x, i @ m_after m) (y, m_after m)" by blast
  from mt_lits [OF i(3)] obtain b where b: "mt (Cat (Set False [(48, 57), (97, 102)]) (Star True (Set False [(48, 57), (97, 102)]))) b (y, m_after m)"
    "i @ m_after m = ''i-'' @ snd b" by auto
  from mt_suffix [OF b(1)] obtain u where "snd b = u @ m_after m" by auto
  with b(2) have "i = ''i-'' @ u" by simp
  moreover from i(1) have "is_infix (''Instance running: '' @ i) s" unfolding is_infix_iff by (metis append.assoc)
  ultimately show ?thesis using i(2) by (auto simp: starts_with_iff)
qed

text \<open>
  What the search for the instance comes back with: an id that the log shows, as it was read last; or
  none, because the deploy is gone, as it was asked last, or because all looks were taken.
\<close>

definition instance_seen :: "'w host \<Rightarrow> int \<Rightarrow> string \<Rightarrow> string option \<Rightarrow> bool \<Rightarrow> 'w \<Rightarrow> bool" where
  "instance_seen h pid file iid all_looks v \<longleftrightarrow> (case iid of
     Some i \<Rightarrow> starts_with ''i-'' i \<and> (\<exists>u s m. h_read h file u = (Inr s, v) \<and> rx_search deployed_rx s = Some m \<and> group 1 m = Some i)
   | None \<Rightarrow> all_looks \<or> (\<exists>u c. h_poll h pid u = (Some c, v)))"

lemma exited_gone: "exited h pid w = (Inr True, w', cs) \<Longrightarrow> \<exists>u c. h_poll h pid u = (Some c, bw_os w')"
  by (cases "h_poll h pid (bw_os w)") (auto simp: exited_def on_host_def intro: exI [of _ "bw_os w"])

lemma deploy_log_read: "deploy_log h file w = (Inr s, w', cs) \<Longrightarrow> cs = [] \<and> (\<exists>u. h_read h file u = (Inr s, bw_os w'))"
  by (auto simp: deploy_log_def on_host_def split: prod.splits)

lemma await_instance_run:
  "await_instance n h pid file w = (Inr iid, w', es) \<Longrightarrow>
   \<exists>k \<le> n. es = replicate k (Napped 1) \<and> instance_seen h pid file iid (k = n) (bw_os w')"
proof (induction n arbitrary: w es)
  case 0
  then show ?case by (auto simp: io_ret_def instance_seen_def)
next
  case (Suc n)
  from Suc.prems obtain s w1 cs cs' where log: "deploy_log h file w = (Inr s, w1, cs)"
    and go: "(case rx_search deployed_rx s of Some m \<Rightarrow> io_ret (group 1 m)
     | None \<Rightarrow> io_bind (exited h pid) (\<lambda>gone.
         if gone then io_ret None else io_seq (nap h 1) (await_instance n h pid file))) w1 = (Inr iid, w', cs')" and es: "es = cs @ cs'"
    by (auto elim!: io_bind_InrE)
  from deploy_log_read [OF log] obtain u where cs: "cs = []" and u: "h_read h file u = (Inr s, bw_os w1)" by blast
  show ?case
  proof (cases "rx_search deployed_rx s")
    case (Some m)
    from deployed_found [OF this] obtain i where i: "group 1 m = Some i" "starts_with ''i-'' i" by blast
    with go Some have "iid = Some i" "w' = w1" "cs' = []" by (auto simp: io_ret_def)
    with i Some u es cs show ?thesis by (intro exI [of _ 0]) (auto simp: instance_seen_def)
  next
    case None
    with go obtain gone w2 cs2 cs3 where gone: "exited h pid w1 = (Inr gone, w2, cs2)" and cs': "cs' = cs2 @ cs3"
      and after: "(if gone then io_ret None else io_seq (nap h 1) (await_instance n h pid file)) w2 = (Inr iid, w', cs3)"
      by (auto elim!: io_bind_InrE)
    have cs2: "cs2 = []" using gone exited_run [of h pid w1] by auto
    show ?thesis
    proof (cases gone)
      case True
      with after exited_gone [of h pid w1 w2 cs2] gone have "iid = None" "cs3 = []" "\<exists>u c. h_poll h pid u = (Some c, bw_os w')"
        by (auto simp: io_ret_def)
      with es cs cs' cs2 show ?thesis by (intro exI [of _ 0]) (simp add: instance_seen_def)
    next
      case False
      with after obtain w3 cs4 where "await_instance n h pid file w3 = (Inr iid, w', cs4)" "cs3 = Napped 1 # cs4"
        by (auto simp: nap_run elim!: io_seq_InrE)
      moreover from Suc.IH [OF this(1)] obtain k where "k \<le> n" "cs4 = replicate k (Napped 1)"
        "instance_seen h pid file iid (k = n) (bw_os w')" by blast
      ultimately show ?thesis using es cs cs' cs2 by (intro exI [of _ "Suc k"]) simp
    qed
  qed
qed

text \<open>A look at which the wait for the verdict may end early: the log shows one, or a crash, or the deploy is gone.\<close>

definition verdict_seen :: "'w host \<Rightarrow> rx option \<Rightarrow> int \<Rightarrow> string \<Rightarrow> 'w \<Rightarrow> bool" where
  "verdict_seen h crash pid file v \<longleftrightarrow>
     (\<exists>u s. h_read h file u = (Inr s, v) \<and> (rx_search verdict_rx s \<noteq> None \<or> rx_found crash s)) \<or> (\<exists>u c. h_poll h pid u = (Some c, v))"

lemma await_verdict_run:
  "await_verdict n h crash pid file w = (Inr dead, w', es) \<Longrightarrow>
   \<exists>k \<le> n. es = replicate k (Napped 1) \<and> (k = n \<or> verdict_seen h crash pid file (bw_os w'))"
proof (induction n arbitrary: w es)
  case 0
  then show ?case by (simp add: io_ret_def)
next
  case (Suc n)
  from Suc.prems obtain s w1 cs cs' where log: "deploy_log h file w = (Inr s, w1, cs)"
    and go: "(if rx_search verdict_rx s \<noteq> None then io_ret False
       else if rx_found crash s then io_ret True
       else io_bind (exited h pid) (\<lambda>gone.
         if gone then io_ret False else io_seq (nap h 1) (await_verdict n h crash pid file))) w1 = (Inr dead, w', cs')" and es: "es = cs @ cs'"
    by (auto elim!: io_bind_InrE)
  from deploy_log_read [OF log] obtain u where cs: "cs = []" and u: "h_read h file u = (Inr s, bw_os w1)" by blast
  show ?case
  proof (cases "rx_search verdict_rx s \<noteq> None \<or> rx_found crash s")
    case True
    with go have "w' = w1" "cs' = []" by (auto simp: io_ret_def split: if_splits)
    with True u es cs show ?thesis by (intro exI [of _ 0]) (auto simp: verdict_seen_def)
  next
    case False
    with go obtain gone w2 cs2 cs3 where gone: "exited h pid w1 = (Inr gone, w2, cs2)" and cs': "cs' = cs2 @ cs3"
      and after: "(if gone then io_ret False else io_seq (nap h 1) (await_verdict n h crash pid file)) w2 = (Inr dead, w', cs3)"
      by (auto elim!: io_bind_InrE)
    have cs2: "cs2 = []" using gone exited_run [of h pid w1] by auto
    show ?thesis
    proof (cases gone)
      case True
      with after exited_gone [of h pid w1 w2 cs2] gone have "cs3 = []" "\<exists>u c. h_poll h pid u = (Some c, bw_os w')"
        by (auto simp: io_ret_def)
      with es cs cs' cs2 show ?thesis by (intro exI [of _ 0]) (simp add: verdict_seen_def)
    next
      case False
      with after obtain w3 cs4 where "await_verdict n h crash pid file w3 = (Inr dead, w', cs4)" "cs3 = Napped 1 # cs4"
        by (auto simp: nap_run elim!: io_seq_InrE)
      moreover from Suc.IH [OF this(1)] obtain k where "k \<le> n" "cs4 = replicate k (Napped 1)"
        "k = n \<or> verdict_seen h crash pid file (bw_os w')" by blast
      ultimately show ?thesis using es cs cs' cs2 by (intro exI [of _ "Suc k"]) simp
    qed
  qed
qed

lemma put_down_run:
  assumes "put_down h iid w = (Inr b, w', es)" "iid \<noteq> []"
  shows "Api (TerminateInstances [iid]) \<in> set es \<and> list_all (puts_down iid) es \<and> naps es = 0"
proof -
  have "emits (puts_down iid) (put_down h iid)" "emits (\<lambda>e. \<not> is_nap e) (put_down h iid)" by (auto intro!: io_intros)
  with put_down_spec [OF assms] assms(1) show ?thesis by (auto simp: list_all_iff dest: emits_run emits_no_naps)
qed

text \<open>The end of the deploy's process group, from the world \<open>u\<close>: killed exactly when it is not gone in time.\<close>

definition torn_down :: "'w host \<Rightarrow> int \<Rightarrow> 'w \<Rightarrow> heff list \<Rightarrow> bool" where
  "torn_down h pid u es \<longleftrightarrow> es = [SigGroup pid ''SIGINT'', WaitFor pid 75] @
     (if fst (h_wait h pid 75 (h_killpg h pid ''SIGINT'' u)) then [] else [SigGroup pid ''SIGKILL''])"

lemma tear_down_run: "tear_down h pid w = (r, w', es) \<Longrightarrow> r = Inr () \<and> torn_down h pid (bw_os w) es"
  by (auto simp: tear_down_def torn_down_def signal_group_def io_seq_def io_bind_def on_host_def io_call_def io_when_def io_ret_def
      split: prod.splits if_splits)

text \<open>
  The part of a deploy that concerns the instance, from the world \<open>w\<close> to \<open>w'\<close>: none was seen, or it is
  waited for, up to the cap unless a verdict is seen before, and put down.
\<close>

definition watched :: "'w host \<Rightarrow> rx option \<Rightarrow> int \<Rightarrow> int \<Rightarrow> string \<Rightarrow> string option \<Rightarrow> 'w bworld \<Rightarrow> 'w bworld \<Rightarrow> heff list \<Rightarrow> bool" where
  "watched h crash cap pid file iid w w' es \<longleftrightarrow> (case iid of
     None \<Rightarrow> es = [] \<and> w' = w
   | Some i \<Rightarrow> \<exists>k dead v b down. es = replicate k (Napped 1) @ down \<and>
       await_verdict (nat cap) h crash pid file w = (Inr dead, v, replicate k (Napped 1)) \<and> k \<le> nat cap \<and>
       (k = nat cap \<or> verdict_seen h crash pid file (bw_os v)) \<and> put_down h i v = (Inr b, w', down) \<and>
       Api (TerminateInstances [i]) \<in> set down \<and> list_all (puts_down i) down \<and> naps down = 0)"

lemma watch_deploy_run:
  assumes "watch_deploy h crash cap pid file iid w = (Inr x, w', es)" "\<And>i. iid = Some i \<Longrightarrow> i \<noteq> []"
  shows "watched h crash cap pid file iid w w' es"
proof (cases iid)
  case None
  with assms show ?thesis by (simp add: watch_deploy_def watched_def io_ret_def)
next
  case (Some i)
  with assms obtain dead v cs1 b cs2 where v: "await_verdict (nat cap) h crash pid file w = (Inr dead, v, cs1)"
    and d: "put_down h i v = (Inr b, w', cs2)" and es: "es = cs1 @ cs2"
    by (auto simp: watch_deploy_def io_ret_def elim!: io_bind_InrE)
  from await_verdict_run [OF v] obtain k where "k \<le> nat cap" "cs1 = replicate k (Napped 1)"
    "k = nat cap \<or> verdict_seen h crash pid file (bw_os v)" by blast
  with put_down_run [OF d assms(2) [OF Some]] v d es Some show ?thesis
    unfolding watched_def by auto
qed

text \<open>
  C22. A deploy that returns a log has, in this order: started \<open>just deploy\<close>; looked for the instance, once
  a second and at most 1500 times, which gave the id the log shows when it was read last, or none, the
  deploy being gone or all looks taken; with an instance, waited for its verdict, one second per second of
  the vm cap, or less if the log shows a verdict or a crash or the deploy is gone, and terminated exactly
  that instance; without one, terminated nothing; and only then interrupted the process group of the deploy
  it had started, which it kills exactly if it is not gone within 75 seconds.
\<close>

theorem deploy_run_order:
  assumes "deploy_run h crash cap cmd file w = (Inr x, w', es)"
  shows "\<exists>pid u iid k w2 w3 ws td. es = Deploy cmd file # replicate k (Napped 1) @ ws @ td \<and>
     h_spawn h cmd file (bw_os w) = (Inr pid, u) \<and>
     await_instance 1500 h pid file (w\<lparr>bw_os := u\<rparr>) = (Inr iid, w2, replicate k (Napped 1)) \<and> k \<le> 1500 \<and>
     instance_seen h pid file iid (k = 1500) (bw_os w2) \<and>
     watched h crash cap pid file iid w2 w3 ws \<and> torn_down h pid (bw_os w3) td"
proof -
  from assms obtain pid w1 cs1 iid w2 cs2 reclaimed dead w3 cs3 w4 cs4 got w5 cs5 where
    s: "on_host (io_call (Deploy cmd file) (h_spawn h cmd file)) w = (Inr pid, w1, cs1)"
    and i: "await_instance 1500 h pid file w1 = (Inr iid, w2, cs2)"
    and v: "watch_deploy h crash cap pid file iid w2 = (Inr (reclaimed, dead), w3, cs3)"
    and t: "tear_down h pid w3 = (Inr (), w4, cs4)"
    and l: "measured_log h file w4 = (Inr got, w5, cs5)" and es: "es = cs1 @ cs2 @ cs3 @ cs4 @ cs5"
    unfolding deploy_run_def
    by (auto elim!: io_bind_InrE io_seq_InrE simp: io_ret_def simp del: await_instance.simps split: prod.splits)
  from s obtain u where u: "h_spawn h cmd file (bw_os w) = (Inr pid, u)" "w1 = w\<lparr>bw_os := u\<rparr>" "cs1 = [Deploy cmd file]"
    by (auto simp: on_host_def io_call_def split: prod.splits)
  from await_instance_run [OF i] obtain k where k: "k \<le> 1500" "cs2 = replicate k (Napped 1)"
    "instance_seen h pid file iid (k = 1500) (bw_os w2)" by blast
  have "watched h crash cap pid file iid w2 w3 cs3"
    using k(3) by (intro watch_deploy_run [OF v]) (auto simp: instance_seen_def starts_with_iff)
  moreover have "torn_down h pid (bw_os w3) cs4" using tear_down_run [OF t] by simp
  moreover have "cs5 = []" using emits_nothing [OF emits_measured_log l] .
  ultimately show ?thesis using es u k i
    by (intro exI [of _ pid] exI [of _ u] exI [of _ iid] exI [of _ k] exI [of _ w2] exI [of _ w3] exI [of _ cs3] exI [of _ cs4])
      (simp del: await_instance.simps)
qed

section \<open>A refused launch is not measured\<close>

lemma spot_rx_lits: "spot_rx = Cat Bol (lits (spot_refused @ '': '') (Star True (Set True [(10, 10)])))"
  by code_simp

text \<open>A line of the text that begins with \<open>p\<close>.\<close>

definition line_begins :: "string \<Rightarrow> string \<Rightarrow> bool" where
  "line_begins p s \<longleftrightarrow> (\<exists>a b. s = a @ p @ b \<and> (a = [] \<or> last a = lf))"

lemma spot_search_finds:
  assumes "line_begins (spot_refused @ '': '') s"
  shows "rx_search spot_rx s \<noteq> None"
proof
  assume none: "rx_search spot_rx s = None"
  from assms obtain a b where s: "s = a @ (spot_refused @ '': '') @ b" "a = [] \<or> last a = lf" by (auto simp: line_begins_def)
  let ?p = "if a = [] then None else Some (last a)"
  have "mt Bol (?p, (spot_refused @ '': '') @ b) (?p, (spot_refused @ '': '') @ b)"
    by (rule mt.bol) (use s(2) in \<open>auto simp: at_bol_def lf_def\<close>)
  moreover have "mt (lits (spot_refused @ '': '') (Star True (Set True [(10, 10)]))) (?p, (spot_refused @ '': '') @ b) (Some CHR '' '', b)"
    by (rule lits_mt) (simp add: mt.stop)
  ultimately have "mt spot_rx (after None a ((spot_refused @ '': '') @ b)) (Some CHR '' '', b)"
    unfolding spot_rx_lits after_def by (rule mt.cat)
  with search_leftmost [where r = spot_rx and s = s] none s(1) show False by auto
qed

lemma spot_search_names:
  assumes "rx_search spot_rx s = Some m"
  shows "starts_with spot_refused (m_text m) \<and> line_begins (spot_refused @ '': '') s"
proof -
  from search_leftmost [where r = spot_rx and s = s] assms obtain q where s: "s = m_before m @ m_text m @ m_after m"
    and m: "mt spot_rx (after None (m_before m) (m_text m @ m_after m)) (q, m_after m)" by auto
  let ?p = "if m_before m = [] then None else Some (last (m_before m))"
  from m have x: "mt (lits (spot_refused @ '': '') (Star True (Set True [(10, 10)]))) (?p, m_text m @ m_after m) (q, m_after m)"
    and bol: "at_bol (?p, m_text m @ m_after m, [])"
    unfolding spot_rx_lits after_def by (auto elim!: mt_CatE mt_BolE)
  from mt_lits [OF x] obtain y where y: "mt (Star True (Set True [(10, 10)])) y (q, m_after m)"
    "m_text m @ m_after m = (spot_refused @ '': '') @ snd y" by auto
  from mt_suffix [OF y(1)] obtain u where "snd y = u @ m_after m" by auto
  with y(2) have u: "m_text m = (spot_refused @ '': '') @ u" by simp
  from bol have "m_before m = [] \<or> last (m_before m) = lf" by (auto simp: at_bol_def lf_def split: if_splits) (metis char_of_char)
  with u s have "line_begins (spot_refused @ '': '') s" unfolding line_begins_def by (metis append.assoc)
  with u show ?thesis by (auto simp: starts_with_iff)
qed

text \<open>
  C23. A refused launch measures nothing: with the log read at the end, a run goes on exactly when no line
  of it begins with the message of a refused spot launch; else it raises an exit that begins with
  the words by which the queue recognises scarcity.
\<close>

theorem refusal_never_measured:
  "case measured_log h file w of (r, w', es) \<Rightarrow> es = [] \<and>
     (case fst (h_read h file (bw_os w)) of
        Inl e \<Rightarrow> r = Inl e
      | Inr s \<Rightarrow> if line_begins (spot_refused @ '': '') s
          then (\<exists>msg. r = Inl (SystemExit msg) \<and> starts_with spot_refused msg) else r = Inr s)"
proof -
  obtain rd v where rd: "h_read h file (bw_os w) = (rd, v)" by fastforce
  show ?thesis
  proof (cases rd)
    case (Inl e)
    with rd show ?thesis by (simp add: measured_log_def deploy_log_def on_host_def io_bind_def)
  next
    case (Inr s)
    with rd spot_search_finds [of s] spot_search_names [of s] show ?thesis
      by (cases "rx_search spot_rx s")
        (auto simp: measured_log_def deploy_log_def on_host_def io_bind_def sys_exit_def io_raise_def io_ret_def)
  qed
qed

section \<open>Several queries in one log\<close>

















section \<open>A witness\<close>

text \<open>A deploy whose log shows an instance and its verdict.\<close>

definition deployed_log :: string where
  "deployed_log = ''Instance running: i-0'' @ [lf] @ ''COMPLETE: ok''"

definition log_host :: "mock_world host" where
  "log_host = (mock_host_on mock)\<lparr>h_read := (\<lambda>f u. (Inr deployed_log, u)), h_wait := (\<lambda>p d u. (False, u))\<rparr>"

lemma deployed_log_seen: "\<exists>m. rx_search deployed_rx deployed_log = Some m \<and> group 1 m = Some ''i-0''"
  "rx_search verdict_rx deployed_log \<noteq> None" "rx_search spot_rx deployed_log = None"
proof -
  have "Option.bind (rx_search deployed_rx deployed_log) (group 1) = Some ''i-0''" by code_simp
  then show "\<exists>m. rx_search deployed_rx deployed_log = Some m \<and> group 1 m = Some ''i-0''" by (simp add: bind_eq_Some_conv)
  have "\<not> Option.is_none (rx_search verdict_rx deployed_log)" by code_simp
  then show "rx_search verdict_rx deployed_log \<noteq> None" by (simp add: Option.is_none_def)
  have "Option.is_none (rx_search spot_rx deployed_log)" by code_simp
  then show "rx_search spot_rx deployed_log = None" by (simp add: Option.is_none_def)
qed

lemma log_deploy: "\<exists>w' es. deploy_run log_host None 110 [''just''] ''f'' mock_bworld = (Inr (deployed_log, False, False), w', es)"
proof -
  have log: "deploy_log log_host ''f'' mock_bworld = (Inr deployed_log, mock_bworld, [])"
    by (simp add: deploy_log_def on_host_def log_host_def mock_host_on_def mock_bworld_def)
  have "await_instance (Suc n) log_host 7 ''f'' mock_bworld = (Inr (Some ''i-0''), mock_bworld, [])" for n
    using deployed_log_seen(1) by (auto simp: io_bind_def log io_ret_def)
  from this [of 1499] have i: "await_instance 1500 log_host 7 ''f'' mock_bworld = (Inr (Some ''i-0''), mock_bworld, [])"
    by (simp del: await_instance.simps)
  have "await_verdict (Suc n) log_host None 7 ''f'' mock_bworld = (Inr False, mock_bworld, [])" for n
    using deployed_log_seen(2) by (simp add: io_bind_def log io_ret_def)
  from this [of 109] have v: "await_verdict 110 log_host None 7 ''f'' mock_bworld = (Inr False, mock_bworld, [])"
    by (simp del: await_verdict.simps)
  have d: "\<exists>es. put_down log_host ''i-0'' mock_bworld = (Inr False, mock_bworld, es)"
    by (simp add: put_down_def interrupted_def terminate_def api_def on_host_def io_lift_def log_host_def mock_host_on_def mock_bworld_def mock_simps
        io_suppress_client_def)
  have s: "on_host (io_call (Deploy [''just''] ''f'') (h_spawn log_host [''just''] ''f'')) mock_bworld = (Inr 7, mock_bworld, [Deploy [''just''] ''f''])"
    by (simp add: on_host_def io_call_def log_host_def mock_host_on_def mock_bworld_def)
  have t: "\<exists>es. tear_down log_host 7 mock_bworld = (Inr (), mock_bworld, es)"
    by (simp add: tear_down_def signal_group_def on_host_def log_host_def mock_host_on_def mock_bworld_def io_defs)
  have l: "measured_log log_host ''f'' mock_bworld = (Inr deployed_log, mock_bworld, [])"
    by (simp add: measured_log_def io_bind_def log deployed_log_seen(3) io_ret_def)
  from d obtain es1 where d: "put_down log_host ''i-0'' mock_bworld = (Inr False, mock_bworld, es1)" by blast
  from t obtain es2 where t: "tear_down log_host 7 mock_bworld = (Inr (), mock_bworld, es2)" by blast
  show ?thesis
    by (simp add: deploy_run_def io_bind_def io_seq_def s i watch_deploy_def v d t l io_ret_def del: await_instance.simps await_verdict.simps)
qed

lemma deploy_run_order_witness:
  "\<exists>w' es pid iid w2 w3 ws. deploy_run log_host None 110 [''just''] ''f'' mock_bworld = (Inr (deployed_log, False, False), w', es) \<and>
     iid = Some ''i-0'' \<and> watched log_host None 110 pid ''f'' iid w2 w3 ws \<and> Api (TerminateInstances [''i-0'']) \<in> set ws"
proof -
  obtain w' es where run: "deploy_run log_host None 110 [''just''] ''f'' mock_bworld = (Inr (deployed_log, False, False), w', es)"
    using log_deploy by blast
  from deploy_run_order [OF run] obtain pid u iid w2 w3 ws k where
    a: "await_instance 1500 log_host pid ''f'' (mock_bworld\<lparr>bw_os := u\<rparr>) = (Inr iid, w2, replicate k (Napped 1))"
    and ws: "watched log_host None 110 pid ''f'' iid w2 w3 ws" by blast
  have "await_instance (Suc n) log_host pid ''f'' (mock_bworld\<lparr>bw_os := u\<rparr>) = (Inr (Some ''i-0''), mock_bworld\<lparr>bw_os := u\<rparr>, [])" for n
    using deployed_log_seen(1) by (auto simp: io_bind_def deploy_log_def on_host_def log_host_def mock_host_on_def mock_bworld_def io_ret_def)
  from this [of 1499] a have iid: "iid = Some ''i-0''" by (simp del: await_instance.simps)
  with ws have "Api (TerminateInstances [''i-0'']) \<in> set ws" by (auto simp: watched_def)
  with run iid ws show ?thesis by blast
qed

end
