(* ===== verification/QueueCmd.thy ===== *)
theory QueueCmd
  imports QueueMain Experiment Units
begin

text \<open>
  The commands of \<^verbatim>\<open>scripts/bench/runqueue.py\<close> beside the runner itself: \<open>submit\<close> with its \<open>checks\<close>,
  \<open>status\<close> and \<open>stop\<close>.
\<close>

section \<open>The desk\<close>

text \<open>
  What a command reads and does: the environment, the experiments, AWS, the files under results/queue,
  processes. \<open>d_latest\<close> is the text of the file \<open>latest\<close>, if it is one; \<open>d_state\<close> reads a queue's
  state file; \<open>d_probe\<close> is signal 0.
\<close>

datatype probe = Found | NoProcess | NotPermitted

record 'w desk =
  d_env :: "string \<Rightarrow> string option"
  d_files :: files
  d_ec2 :: "'w ec2"
  d_python :: string
  d_identity :: "'w \<Rightarrow> (exn + string) \<times> 'w"
  d_endpoints :: "string \<Rightarrow> 'w \<Rightarrow> (exn + string list) \<times> 'w"
  d_head :: "string \<Rightarrow> 'w \<Rightarrow> (exn + unit) \<times> 'w"
  d_run :: "string list \<Rightarrow> 'w \<Rightarrow> (int \<times> string) \<times> 'w"
  d_ours :: "'w \<Rightarrow> (exn + inst list list) \<times> 'w"
  d_latest :: "'w \<Rightarrow> string option"
  d_state :: "string \<Rightarrow> 'w \<Rightarrow> qstate res"
  d_probe :: "int \<Rightarrow> 'w \<Rightarrow> probe"
  d_now :: "'w \<Rightarrow> rat \<times> 'w"
  d_mkdir :: "string \<Rightarrow> 'w \<Rightarrow> (exn + unit) \<times> 'w"
  d_put_state :: "string \<Rightarrow> qstate \<Rightarrow> 'w \<Rightarrow> 'w"
  d_put_latest :: "string \<Rightarrow> 'w \<Rightarrow> 'w"
  d_spawn :: "string list \<Rightarrow> string \<Rightarrow> 'w \<Rightarrow> (exn + int) \<times> 'w"
  d_kill :: "int \<Rightarrow> string \<Rightarrow> 'w \<Rightarrow> (exn + unit) \<times> 'w"
  d_sleep :: "rat \<Rightarrow> 'w \<Rightarrow> 'w"

datatype ceff =
    CallAws aws
  | WhoAmI
  | Endpoints string
  | HeadBlob string
  | PlanRun "string list"
  | ListOurs
  | MadeDir string
  | WroteState string qstate
  | WroteLatest string
  | Spawned "string list" string
  | Signalled int string
  | Waited rat
  | Said string

type_synonym ('w, 'a) c = "('w, ceff, 'a) io"

definition desk_clock :: "'w desk \<Rightarrow> ('w, rat) c" where
  "desk_clock d = (\<lambda>w. case d_now d w of (t, w') \<Rightarrow> (Inr t, w', []))"

definition exits :: "string \<Rightarrow> ('w, 'a) c" where
  "exits s = io_raise (SystemExit s)"

definition queues_dir :: "'w desk \<Rightarrow> string" where
  "queues_dir d = f_root (d_files d) @ ''/results/queue''"

definition state_path :: "'w desk \<Rightarrow> string \<Rightarrow> string" where
  "state_path d qid = queues_dir d @ ''/'' @ qid @ ''/state.json''"

section \<open>Which queue runs\<close>

definition alive :: "'w desk \<Rightarrow> int \<Rightarrow> ('w, bool) c" where
  "alive d pid = io_ask (\<lambda>w. case d_probe d pid w of NoProcess \<Rightarrow> False | _ \<Rightarrow> True)"

definition pid_of :: "qstate \<Rightarrow> int" where
  "pid_of q = (case q_pid q of None \<Rightarrow> 0 | Some p \<Rightarrow> p)"

definition is_reading_error :: "exn \<Rightarrow> bool" where
  "is_reading_error e = (case e of ValueErr _ \<Rightarrow> True | OtherExn s \<Rightarrow> s = ''OSError'' | _ \<Rightarrow> False)"

definition running_queue :: "'w desk \<Rightarrow> ('w, qstate option) c" where
  "running_queue d =
     io_bind (io_ask (d_latest d)) (\<lambda>latest. case latest of
       None \<Rightarrow> io_ret None
     | Some text \<Rightarrow> io_bind (io_ask (d_state d (state_path d (strip text)))) (\<lambda>st. case st of
           Inl e \<Rightarrow> if is_reading_error e then io_ret None else io_raise e
         | Inr q \<Rightarrow>
             if q_status q = ''running'' \<or> q_status q = ''waiting for spot''
             then io_bind (alive d (pid_of q)) (\<lambda>b. io_ret (if b then Some q else None))
             else io_ret None))"

definition our_instances_up :: "'w desk \<Rightarrow> ('w, inst list) c" where
  "our_instances_up d = io_bind (io_call ListOurs (d_ours d)) (\<lambda>res. io_ret (concat res))"

section \<open>The checks\<close>

record qargs =
  qa_names :: "string list"
  qa_interleave :: bool
  qa_concurrent :: bool
  qa_reps :: "int option"
  qa_ttl :: int
  qa_retry_wait :: int
  qa_market :: string
  qa_dry_run :: bool

definition ttl_default :: int where
  "ttl_default = 5 * 3600"

definition ttl_max :: int where
  "ttl_max = 6 * 3600"

text \<open>An experiment with the number of its group.\<close>

type_synonym member = "nat \<times> config"

definition reps_given :: "qargs \<Rightarrow> bool" where
  "reps_given a \<longleftrightarrow> (case qa_reps a of None \<Rightarrow> False | Some r \<Rightarrow> r \<noteq> 0)"

definition plan_cmd :: "'w desk \<Rightarrow> qargs \<Rightarrow> config \<Rightarrow> string list" where
  "plan_cmd d a x =
     [d_python d, f_root (d_files d) @ ''/scripts/bench/experiment.py'', c_path x, ''--dry-run'']
     @ (if reps_given a then [''--reps'', show_int (the (qa_reps a))] else [])"

definition needs_blob :: "config \<Rightarrow> bool" where
  "needs_blob x \<longleftrightarrow> file_name (c_bench x) \<in> {''smoltcp-s3'', ''linux-s3'', ''anyblob''}"

definition not_sweep :: "config \<Rightarrow> bool" where
  "not_sweep x \<longleftrightarrow> given (c_deploy x) \<or> given (c_prep x)"

definition check_blob :: "'w desk \<Rightarrow> ('w, unit) c" where
  "check_blob d =
     io_catch (io_call (HeadBlob ''blob.bin'') (d_head d ''blob.bin''))
       (\<lambda>e. if is_client_error e
         then Some (exits (''s3://'' @ the (d_env d ''AWS_BUCKET'') @ ''/blob.bin is missing; run `just setup apps/bench/smoltcp-s3 < /dev/null` (every GET would be a 403)''))
         else None)"

definition check_experiment :: "'w desk \<Rightarrow> qargs \<Rightarrow> config \<Rightarrow> ('w, unit) c" where
  "check_experiment d a x =
     (if not_sweep x then exits (qualified_name (d_files d) (c_path x) @ '' is not a sweep; the queue runs sweeps only'')
      else io_seq (io_when (needs_blob x) (check_blob d))
        (io_bind (io_call (PlanRun (plan_cmd d a x)) (\<lambda>w. case d_run d (plan_cmd d a x) w of (r, w') \<Rightarrow> (Inr r, w'))) (\<lambda>(code, out).
           if code \<noteq> 0 then exits (qualified_name (d_files d) (c_path x) @ '' does not plan:'' @ newline @ out) else io_ret ())))"

definition check_account :: "'w desk \<Rightarrow> ('w, unit) c" where
  "check_account d =
     (case filter (\<lambda>k. d_env d k = None) required_env of
        k # ks \<Rightarrow> exits (join '', '' (k # ks) @ '' missing from the environment; run `just setup apps/bench/smoltcp-s3`'')
      | [] \<Rightarrow>
        io_bind (io_catch (io_call WhoAmI (d_identity d))
            (\<lambda>e. if is_aws_error e then Some (exits (''no usable AWS credentials: '' @ error_text (d_ec2 d) e)) else None)) (\<lambda>who.
        io_seq (io_lift CallAws (check_bucket_region (d_ec2 d) (the (d_env d ''AWS_REGION'')) (the (d_env d ''AWS_BUCKET''))))
        (io_bind (io_catch (io_lift CallAws (describe_subnet (d_ec2 d) (the (d_env d ''AWS_SUBNET''))))
            (\<lambda>e. if is_client_error e
              then Some (exits (''AWS_SUBNET '' @ the (d_env d ''AWS_SUBNET'') @ '' is not in '' @ the (d_env d ''AWS_REGION'') @ '': '' @ error_text (d_ec2 d) e))
              else None)) (\<lambda>subnets. case subnets of
          [] \<Rightarrow> io_raise IndexErr
        | sn # _ \<Rightarrow> io_bind (io_call (Endpoints (sn_vpc sn)) (d_endpoints d (sn_vpc sn))) (\<lambda>eps.
            if eps = [] then exits (sn_vpc sn @ '' has no S3 gateway endpoint; the bucket policy would refuse every GET'')
            else io_ret ())))))"

definition members_of :: "member list \<Rightarrow> (nat \<times> config list) list" where
  "members_of xs = map (\<lambda>g. (g, map snd (filter (\<lambda>m. fst m = g) xs))) (remdups (map fst xs))"

definition check_groups :: "member list \<Rightarrow> unit res" where
  "check_groups xs =
     (if list_ex (\<lambda>(_, g). \<not> distinct (map c_bench g)) (members_of xs)
      then Inl (SystemExit (''--concurrent runs a group'' @ [CHR 0x27] @ ''s experiments side by side, and two on one bench would build into the same tree''))
      else res_bind (res_list (\<lambda>(_, g). res_list (\<lambda>x. vcpus (c_instance x)) g) (members_of xs)) (\<lambda>ns.
        if ns = [] then Inl (ValueErr ''max() iterable argument is empty'') else Inr ()))"

definition check_idle :: "'w desk \<Rightarrow> ('w, unit) c" where
  "check_idle d =
     io_bind (running_queue d) (\<lambda>q. case q of
       Some s \<Rightarrow> exits (''queue '' @ q_id s @ '' is still '' @ q_status s @ '' (pid '' @ show_int (pid_of s) @ ''); `just queue-stop` first'')
     | None \<Rightarrow> io_bind (our_instances_up d) (\<lambda>up.
         if up \<noteq> [] then exits (''instances of ours are already up: '' @ join '', '' (map (\<lambda>i. in_id i @ '' ('' @ in_type i @ '')'') up)
           @ ''; a queue would share the build tree and the bucket with them'')
         else io_ret ()))"

definition checks :: "'w desk \<Rightarrow> qargs \<Rightarrow> member list \<Rightarrow> ('w, unit) c" where
  "checks d a xs =
     io_seq (check_account d)
     (io_seq (io_for (\<lambda>(_, x). check_experiment d a x) xs)
     (io_seq (check_idle d)
       (if qa_ttl a > ttl_max then exits (''--ttl '' @ show_int (qa_ttl a) @ ''s is over the '' @ show_int (ttl_max div 3600) @ '' h a queue may live'')
        else if qa_concurrent a then io_res (check_groups xs) else io_ret ())))"

section \<open>Submitting\<close>

definition load_group :: "files \<Rightarrow> nat \<times> string \<Rightarrow> member list res" where
  "load_group f = (\<lambda>(g, arg). res_list (\<lambda>n. res_bind (load_experiment f n) (\<lambda>x. Inr (g, x))) (filter (\<lambda>n. n \<noteq> []) (split_on CHR '','' arg)))"

definition load_groups :: "files \<Rightarrow> string list \<Rightarrow> member list res" where
  "load_groups f names = res_bind (res_list (load_group f) (zip [0..<length names] names)) (\<lambda>gs. Inr (concat gs))"

definition qid_of :: "rat \<Rightarrow> string" where
  "qid_of t =
     (let s = \<lfloor>t\<rfloor>; (y, m, dd) = civil (s div 86400); r = s mod 86400
      in pad 4 y @ pad 2 m @ pad 2 dd @ ''T'' @ pad 2 (r div 3600) @ pad 2 (r mod 3600 div 60) @ pad 2 (r mod 60) @ ''Z'')"

definition axis_values :: "config \<Rightarrow> string list res" where
  "axis_values x =
     res_bind (of_option (KeyErr ''axis'') (c_axis x)) (\<lambda>axis. res_bind (of_option (KeyErr ''points'') (c_points x)) (\<lambda>ps.
     res_list (\<lambda>p. res_bind (of_option (KeyErr axis) (map_of p axis)) (\<lambda>v. Inr (py_str v))) ps))"

definition queued_exp :: "files \<Rightarrow> qargs \<Rightarrow> member \<Rightarrow> exper res" where
  "queued_exp f a = (\<lambda>(g, x). res_bind (axis_values x) (\<lambda>vs.
     Inr \<lparr>ex_name = qualified_name f (c_path x), ex_path = c_path x, ex_status = ''queued'', ex_group = g,
       ex_reps = nat (if reps_given a then the (qa_reps a) else c_reps x), ex_attempts = 0, ex_refusals = 0, ex_last = None,
       ex_axis = the (c_axis x), ex_values = vs\<rparr>))"

definition new_queue :: "qargs \<Rightarrow> string \<Rightarrow> rat \<Rightarrow> rat \<Rightarrow> exper list \<Rightarrow> qstate" where
  "new_queue a qid t0 t1 exps = \<lparr>q_id = qid, q_status = ''starting'', q_pid = None, q_started = t0, q_ttl = qa_ttl a,
     q_deadline = t1 + of_int (qa_ttl a), q_market = qa_market a, q_interleave = (qa_interleave a \<or> qa_concurrent a),
     q_concurrent = qa_concurrent a, q_retry_wait = qa_retry_wait a, q_exps = exps, q_events = [], q_updated = None, q_finished = None\<rparr>"

definition put_file :: "ceff \<Rightarrow> ('w \<Rightarrow> 'w) \<Rightarrow> ('w, unit) c" where
  "put_file e f = io_call e (\<lambda>w. (Inr (), f w))"

definition run_queue_cmd :: "'w desk \<Rightarrow> string \<Rightarrow> string list" where
  "run_queue_cmd d qdir = [d_python d, f_root (d_files d) @ ''/scripts/bench/runqueue.py'', ''run'', qdir]"

definition enqueue :: "'w desk \<Rightarrow> qargs \<Rightarrow> member list \<Rightarrow> ('w, int) c" where
  "enqueue d a xs =
     io_bind (desk_clock d) (\<lambda>t.
     let qid = qid_of t; qdir = queues_dir d @ ''/'' @ qid in
     io_seq (io_call (MadeDir qdir) (d_mkdir d qdir))
     (io_bind (desk_clock d) (\<lambda>t0. io_bind (desk_clock d) (\<lambda>t1.
     io_bind (io_res (res_list (queued_exp (d_files d) a) xs)) (\<lambda>exps.
     let q = new_queue a qid t0 t1 exps in
     io_seq (put_file (WroteState (state_path d qid) q) (d_put_state d (state_path d qid) q))
     (io_seq (put_file (WroteLatest qid) (d_put_latest d qid))
     (io_bind (io_call (Spawned (run_queue_cmd d qdir) (qdir @ ''/runner.log'')) (d_spawn d (run_queue_cmd d qdir) (qdir @ ''/runner.log''))) (\<lambda>pid.
      io_ret 0))))))))"

definition submit :: "'w desk \<Rightarrow> qargs \<Rightarrow> ('w, int) c" where
  "submit d a =
     io_bind (io_res (load_groups (d_files d) (qa_names a))) (\<lambda>xs.
     io_seq (checks d a xs)
       (if qa_dry_run a then io_ret 0 else enqueue d a xs))"

section \<open>Status and stop\<close>

definition latest_state :: "'w desk \<Rightarrow> ('w, qstate) c" where
  "latest_state d =
     io_bind (io_ask (d_latest d)) (\<lambda>latest. case latest of
       None \<Rightarrow> exits ''no queue has run yet''
     | Some text \<Rightarrow> io_bind (io_ask (d_state d (state_path d (strip text)))) io_res)"

definition fill :: "nat \<Rightarrow> string \<Rightarrow> string" where
  "fill n s = s @ replicate (n - length s) CHR '' ''"

definition exp_line :: "exper \<Rightarrow> string" where
  "exp_line x = ''  '' @ fill 40 (ex_name x) @ '' '' @ fill 16 (ex_status x) @ '' attempts '' @ show_nat (ex_attempts x)
     @ (if ex_refusals x \<noteq> 0 then '', '' @ show_nat (ex_refusals x) @ '' spot refusal(s)'' else [])"

definition last_events :: "qstate \<Rightarrow> string list" where
  "last_events q = drop (length (q_events q) - 8) (q_events q)"

definition status_lines :: "'w desk \<Rightarrow> qstate \<Rightarrow> bool \<Rightarrow> string list" where
  "status_lines d q up =
     [''queue '' @ q_id q @ '': '' @ q_status q @ (if up then [] else '' (runner gone)'') @ '', pid ''
        @ (case q_pid q of None \<Rightarrow> ''None'' | Some p \<Rightarrow> show_int p),
      ''  started '' @ stamp (q_started q) @ '', deadline '' @ stamp (q_deadline q) @ '', market '' @ q_market q @ '', ''
        @ (if q_concurrent q then ''concurrent'' else if q_interleave q then ''interleaved'' else ''sequential'')]
     @ map exp_line (q_exps q) @ map (\<lambda>l. ''  '' @ l) (last_events q)
     @ [''  log: '' @ queues_dir d @ ''/'' @ q_id q @ ''/runner.log'']"

definition show_status :: "'w desk \<Rightarrow> ('w, int) c" where
  "show_status d =
     io_bind (latest_state d) (\<lambda>q. io_bind (alive d (pid_of q)) (\<lambda>up.
     io_seq (io_for (\<lambda>l. io_emit (Said l)) (status_lines d q up)) (io_ret 0)))"

fun await_end :: "nat \<Rightarrow> 'w desk \<Rightarrow> int \<Rightarrow> ('w, unit) c" where
  "await_end 0 d pid = io_ret ()"
| "await_end (Suc n) d pid =
     io_seq (io_call (Waited 2) (\<lambda>w. (Inr (), d_sleep d 2 w)))
       (io_bind (alive d pid) (\<lambda>up. if up then await_end n d pid else io_ret ()))"

definition stop_queue :: "'w desk \<Rightarrow> ('w, int) c" where
  "stop_queue d =
     io_bind (latest_state d) (\<lambda>q. io_bind (alive d (pid_of q)) (\<lambda>up.
     if \<not> up then io_seq (io_emit (Said (''queue '' @ q_id q @ '' is not running ('' @ q_status q @ '')''))) (io_ret 0)
     else io_seq (io_call (Signalled (pid_of q) ''SIGTERM'') (d_kill d (pid_of q) ''SIGTERM''))
       (io_seq (io_emit (Said (''asked queue '' @ q_id q @ '' (pid '' @ show_int (pid_of q) @ '') to stop; it ends the run in progress and sweeps its instances'')))
       (io_seq (await_end 60 d (pid_of q)) (show_status d)))))"

end
