(* ===== verification/QueueCmdRun.thy ===== *)
theory QueueCmdRun
  imports QueueCmd
begin

text \<open>
  What \<open>submit\<close>, \<open>status\<close> and \<open>stop\<close> guarantee: a runner is only spawned after every check passed, on a
  state file that is there; what a stop signals; and which queue the checks do not see.
\<close>

section \<open>Looking only\<close>

text \<open>An effect that leaves the account, the files and the processes alone.\<close>

fun looking :: "ceff \<Rightarrow> bool" where
  "looking (MadeDir p) = False"
| "looking (WroteState p q) = False"
| "looking (WroteLatest s) = False"
| "looking (Spawned c l) = False"
| "looking (Signalled p s) = False"
| "looking (CallAws a) = no_runs a"
| "looking _ = True"

lemma emits_bucket_region [io_intros]: "P (GetBucketLocation b) \<Longrightarrow> emits P (check_bucket_region c r b)"
  unfolding check_bucket_region_def bucket_region_def by (auto split: exn.splits intro!: io_intros)

lemma emits_cres [io_intros]: "emits P (io_res r)"
  by (auto simp: io_res_def split: sum.splits intro: io_intros)

lemma emits_alive [io_intros]: "emits P (alive d pid)"
  unfolding alive_def by (intro io_intros)

lemma emits_running_queue [io_intros]: "emits P (running_queue d)"
  unfolding running_queue_def by (auto split: option.splits sum.splits if_splits intro!: io_intros)

lemma emits_exits [io_intros]: "emits P (exits s)"
  unfolding exits_def by (intro io_intros)

lemma emits_check_account: "emits looking (check_account d)"
  unfolding check_account_def by (auto split: list.splits if_splits intro!: io_intros)

lemma emits_check_experiment: "emits looking (check_experiment d a x)"
  unfolding check_experiment_def check_blob_def by (auto split: if_splits intro!: io_intros)

lemma emits_check_idle: "emits looking (check_idle d)"
  unfolding check_idle_def our_instances_up_def by (auto split: option.splits if_splits intro!: io_intros)

lemma emits_checks: "emits looking (checks d a xs)"
  unfolding checks_def
  by (auto split: prod.splits if_splits intro!: io_intros emits_check_account emits_check_experiment emits_check_idle)

section \<open>What passing the checks means\<close>

lemma io_for_runs: "io_for f xs w = (Inr (), w', es) \<Longrightarrow> x \<in> set xs \<Longrightarrow> \<exists>u u' cs. f x u = (Inr (), u', cs) \<and> set cs \<subseteq> set es"
proof (induction xs arbitrary: w es)
  case (Cons y ys)
  from Cons.prems(1) obtain w1 cs1 cs2 where
    "f y w = (Inr (), w1, cs1)" "io_for f ys w1 = (Inr (), w', cs2)" "es = cs1 @ cs2"
    by (auto elim!: io_seq_InrE)
  with Cons.IH [of w1 cs2] Cons.prems(2) show ?case by fastforce
qed simp

text \<open>
  The checks as answers, from the world each was asked in. \<open>account_ok d w w'\<close>: the environment is
  complete, the caller is known, the bucket is in the region, the subnet exists and its network has an
  endpoint for S3. \<open>plans_ok d a xs w w'\<close>: each experiment is a sweep, its blob is there if it needs
  one, and its dry run came back with return code 0. \<open>idle_at d w w'\<close>: the state file shows no queue
  that runs, and of our instances none is up. Each leaves the world \<open>w'\<close> to the next.
\<close>

definition account_ok :: "'w desk \<Rightarrow> 'w \<Rightarrow> 'w \<Rightarrow> bool" where
  "account_ok d w w' \<longleftrightarrow>
     list_all (\<lambda>k. d_env d k \<noteq> None) required_env \<and>
     (\<exists>who u1 loc u2 sn sns u3 eps.
        d_identity d w = (Inr who, u1) \<and>
        s3_location (d_ec2 d) (the (d_env d ''AWS_BUCKET'')) u1 = (Inr loc, u2) \<and>
        the (region_name loc) = the (d_env d ''AWS_REGION'') \<and>
        ec2_describe_subnet (d_ec2 d) (the (d_env d ''AWS_SUBNET'')) u2 = (Inr (sn # sns), u3) \<and>
        d_endpoints d (sn_vpc sn) u3 = (Inr eps, w') \<and> eps \<noteq> [])"

fun plans_ok :: "'w desk \<Rightarrow> qargs \<Rightarrow> member list \<Rightarrow> 'w \<Rightarrow> 'w \<Rightarrow> bool" where
  "plans_ok d a [] w w' = (w' = w)"
| "plans_ok d a ((g, x) # xs) w w' =
     (\<not> not_sweep x \<and>
      (\<exists>v out u. (if needs_blob x then d_head d ''blob.bin'' w = (Inr (), v) else v = w) \<and>
         d_run d (plan_cmd d a x) v = ((0, out), u) \<and> plans_ok d a xs u w'))"

definition idle_at :: "'w desk \<Rightarrow> 'w \<Rightarrow> 'w \<Rightarrow> bool" where
  "idle_at d w w' \<longleftrightarrow> running_queue d w = (Inr None, w, []) \<and> (\<exists>res. d_ours d w = (Inr res, w') \<and> concat res = [])"

lemma check_bucket_passed:
  "check_bucket_region c r b w = (Inr (), w', es) \<Longrightarrow> \<exists>loc. s3_location c b w = (Inr loc, w') \<and> the (region_name loc) = r"
  by (auto simp: check_bucket_region_def bucket_region_def io_defs split: sum.splits prod.splits exn.splits if_splits)

lemma io_lift_Inr: "io_lift f m w = (Inr x, w', es) \<Longrightarrow> \<exists>cs. m w = (Inr x, w', cs)"
  by (auto simp: io_lift_def split: prod.splits)

text \<open>A handler that only raises does not bring a value back.\<close>

lemma io_catch_exits:
  assumes "io_catch m (\<lambda>e. if p e then Some (exits (s e)) else None) w = (Inr x, w', es)"
  shows "m w = (Inr x, w', es)"
  using assms by (auto simp: io_catch_def exits_def io_raise_def split: prod.splits sum.splits option.splits if_splits)

lemma check_account_passed:
  assumes "check_account d w = (Inr (), w', es)"
  shows "account_ok d w w'"
proof -
  have env: "filter (\<lambda>k. d_env d k = None) required_env = []"
    using assms by (auto simp: check_account_def exits_def io_raise_def split: list.splits)
  from assms [unfolded check_account_def env, simplified] show ?thesis
  proof (elim io_bind_InrE io_seq_InrE, goal_cases)
    case (1 who u1 c1 c2 u u2 c3 c4 sns u3 c5 c6)
    from 1(1) have who: "d_identity d w = (Inr who, u1)"
      by (auto dest!: io_catch_exits simp: io_call_def split: prod.splits)
    from 1 obtain cs where bucket: "check_bucket_region (d_ec2 d) (the (d_env d ''AWS_REGION'')) (the (d_env d ''AWS_BUCKET'')) u1 = (Inr (), u2, cs)"
      by (auto dest: io_lift_Inr)
    from check_bucket_passed [OF bucket] obtain loc where loc: "s3_location (d_ec2 d) (the (d_env d ''AWS_BUCKET'')) u1 = (Inr loc, u2)"
      "the (region_name loc) = the (d_env d ''AWS_REGION'')" by auto
    from 1 have sub: "ec2_describe_subnet (d_ec2 d) (the (d_env d ''AWS_SUBNET'')) u2 = (Inr sns, u3)"
      by (auto dest!: io_catch_exits io_lift_Inr simp: describe_subnet_def io_call_def split: prod.splits)
    from 1 obtain sn rest eps where "sns = sn # rest" "d_endpoints d (sn_vpc sn) u3 = (Inr eps, w')" "eps \<noteq> []"
      by (cases sns) (auto simp: io_raise_def exits_def io_ret_def io_call_def split: if_splits prod.splits elim!: io_bind_InrE)
    with who loc sub env show ?case by (auto simp: account_ok_def list_all_iff filter_empty_conv)
  qed
qed

lemma check_blob_passed: "check_blob d w = (Inr (), w', es) \<Longrightarrow> d_head d ''blob.bin'' w = (Inr (), w')"
  unfolding check_blob_def by (auto dest!: io_catch_exits simp: io_call_def split: prod.splits)

definition planned :: "'w desk \<Rightarrow> qargs \<Rightarrow> ceff list \<Rightarrow> member \<Rightarrow> bool" where
  "planned d a es = (\<lambda>(g, x). PlanRun (plan_cmd d a x) \<in> set es)"

lemma check_experiment_passed:
  assumes "check_experiment d a x w = (Inr (), w', es)"
  shows "\<not> not_sweep x \<and> PlanRun (plan_cmd d a x) \<in> set es \<and>
    (\<exists>v out. (if needs_blob x then d_head d ''blob.bin'' w = (Inr (), v) else v = w) \<and> d_run d (plan_cmd d a x) v = ((0, out), w'))"
proof -
  from assms have sweep: "\<not> not_sweep x" by (auto simp: check_experiment_def exits_def io_raise_def split: if_splits)
  with assms obtain u v cs1 cs2 where blob: "io_when (needs_blob x) (check_blob d) w = (Inr u, v, cs1)"
    and run: "io_bind (io_call (PlanRun (plan_cmd d a x)) (\<lambda>w. case d_run d (plan_cmd d a x) w of (r, w') \<Rightarrow> (Inr r, w'))) (\<lambda>(code, out).
       if code \<noteq> 0 then exits (qualified_name (d_files d) (c_path x) @ '' does not plan:'' @ newline @ out) else io_ret ()) v = (Inr (), w', cs2)"
    and es: "es = cs1 @ cs2"
    by (auto simp: check_experiment_def elim!: io_seq_InrE)
  from run obtain out where "d_run d (plan_cmd d a x) v = ((0, out), w')" "PlanRun (plan_cmd d a x) \<in> set cs2"
    by (auto simp: exits_def io_raise_def io_ret_def io_call_def split: if_splits prod.splits elim!: io_bind_InrE)
  with blob check_blob_passed [of d w v] sweep es show ?thesis
    by (auto simp: io_when_def io_ret_def split: if_splits)
qed

lemma plans_passed:
  "io_for (\<lambda>(_, x). check_experiment d a x) xs w = (Inr (), w', es) \<Longrightarrow> plans_ok d a xs w w' \<and> list_all (planned d a es) xs"
proof (induction xs arbitrary: w es)
  case Nil
  then show ?case by (simp add: io_ret_def)
next
  case (Cons m xs)
  obtain g x where m: "m = (g, x)" by fastforce
  from Cons.prems obtain w1 cs1 cs2 where hd: "check_experiment d a x w = (Inr (), w1, cs1)"
    and tl: "io_for (\<lambda>(_, x). check_experiment d a x) xs w1 = (Inr (), w', cs2)" and es: "es = cs1 @ cs2"
    by (auto simp: m elim!: io_seq_InrE)
  from Cons.IH [OF tl] check_experiment_passed [OF hd] es m show ?case
    by (auto simp: planned_def list_all_iff)
qed

lemma running_queue_run: "running_queue d w = (r, w', es) \<Longrightarrow> w' = w \<and> es = []"
  by (auto simp: running_queue_def alive_def io_bind_def io_ask_def io_ret_def io_raise_def split: option.splits sum.splits if_splits)

lemma check_idle_passed:
  assumes "check_idle d w = (Inr (), w', es)"
  shows "idle_at d w w'"
  using assms unfolding check_idle_def
proof (cases rule: io_bind_InrE)
  case (1 q w1 cs1 cs2)
  from running_queue_run [OF 1(1)] have same: "w1 = w" "cs1 = []" by auto
  with 1(1) have ask: "running_queue d w = (Inr q, w, [])" by simp
  show ?thesis
  proof (cases q)
    case None
    with 1(2) obtain res where ours: "d_ours d w1 = (Inr res, w')" "concat res = []"
      by (auto simp: exits_def io_raise_def our_instances_up_def io_call_def io_ret_def
          split: if_splits prod.splits elim!: io_bind_InrE)
    with ask None same show ?thesis unfolding idle_at_def by blast
  next
    case (Some s)
    with 1(2) show ?thesis by (simp add: exits_def io_raise_def)
  qed
qed

definition distinct_benches :: "member list \<Rightarrow> bool" where
  "distinct_benches xs \<longleftrightarrow> list_all (\<lambda>(_, g). distinct (map c_bench g)) (members_of xs)"

lemma check_groups_passed: "check_groups xs = Inr () \<Longrightarrow> distinct_benches xs"
  by (auto simp: check_groups_def distinct_benches_def list_all_iff list_ex_iff split: if_splits)

lemma checks_passed:
  assumes "checks d a xs w = (Inr (), w', es)"
  shows "\<exists>w1 w2. account_ok d w w1 \<and> plans_ok d a xs w1 w2 \<and> idle_at d w2 w'"
    and "list_all (planned d a es) xs \<and> qa_ttl a \<le> ttl_max \<and> (\<not> qa_concurrent a \<or> distinct_benches xs) \<and> list_all looking es"
proof -
  from assms obtain w1 es1 w2 es2 w3 es3 es4 where
    c1: "check_account d w = (Inr (), w1, es1)" and c2: "io_for (\<lambda>(_, x). check_experiment d a x) xs w1 = (Inr (), w2, es2)"
    and c3: "check_idle d w2 = (Inr (), w3, es3)"
    and c4: "(if qa_ttl a > ttl_max then exits (''--ttl '' @ show_int (qa_ttl a) @ ''s is over the '' @ show_int (ttl_max div 3600) @ '' h a queue may live'')
        else if qa_concurrent a then io_res (check_groups xs) else io_ret ()) w3 = (Inr (), w', es4)"
    and es: "es = es1 @ es2 @ es3 @ es4"
    unfolding checks_def by (elim io_seq_InrE) auto
  from c4 have "w' = w3" by (auto simp: exits_def io_raise_def io_res_def io_ret_def split: if_splits sum.splits)
  with check_account_passed [OF c1] plans_passed [OF c2] check_idle_passed [OF c3]
  show "\<exists>w1 w2. account_ok d w w1 \<and> plans_ok d a xs w1 w2 \<and> idle_at d w2 w'" by blast
  have "list_all (planned d a es) xs"
    using plans_passed [OF c2] es by (fastforce simp: list_all_iff planned_def)
  moreover have "qa_ttl a \<le> ttl_max" "\<not> qa_concurrent a \<or> distinct_benches xs"
    using c4 check_groups_passed [of xs] by (auto simp: exits_def io_raise_def io_res_def split: if_splits sum.splits)
  moreover have "list_all looking es" using emits_run [OF emits_checks assms] by (simp add: list_all_iff)
  ultimately show "list_all (planned d a es) xs \<and> qa_ttl a \<le> ttl_max \<and> (\<not> qa_concurrent a \<or> distinct_benches xs) \<and> list_all looking es"
    by simp
qed

section \<open>Submitting\<close>

text \<open>
  The clock as \<open>enqueue\<close> reads it: for the queue's name, and, once its directory is made, for its start
  and for its deadline.
\<close>

definition stamped :: "'w desk \<Rightarrow> 'w \<Rightarrow> string \<Rightarrow> rat \<Rightarrow> rat \<Rightarrow> bool" where
  "stamped d w qid t0 t1 \<longleftrightarrow>
     (\<exists>t u1 u2 u3 u4. d_now d w = (t, u1) \<and> qid = qid_of t \<and> d_mkdir d (queues_dir d @ ''/'' @ qid) u1 = (Inr (), u2) \<and>
        d_now d u2 = (t0, u3) \<and> d_now d u3 = (t1, u4))"

text \<open>What \<open>enqueue\<close> does: a directory; unless a point lacks the axis, the state, its name, and the runner.\<close>

lemma enqueue_effects:
  assumes "enqueue d a xs w = (r, w', es)" "Spawned c l \<in> set es"
  shows "\<exists>qid t0 t1 exps. stamped d w qid t0 t1 \<and> c = run_queue_cmd d (queues_dir d @ ''/'' @ qid) \<and>
     es = [MadeDir (queues_dir d @ ''/'' @ qid), WroteState (state_path d qid) (new_queue a qid t0 t1 exps), WroteLatest qid,
        Spawned c l] \<and>
     res_list (queued_exp (d_files d) a) xs = Inr exps"
  using assms
  by (auto simp: stamped_def enqueue_def Let_def io_seq_def io_bind_def desk_clock_def io_call_def put_file_def io_res_def io_raise_def io_ret_def
      split: prod.splits sum.splits)

text \<open>
  C3. A queue is spawned only after its checks: when \<open>submit\<close> starts a runner, all it did before was look;
  asked one after the other from the world \<open>submit\<close> began in, the account was complete (environment,
  caller, bucket in its region, subnet, endpoint), then every experiment was a sweep whose dry run came
  back with return code 0, then no queue was running and no instance of ours was up; the ttl is within six
  hours, and side by side runs never share a bench; it was no dry run; and the state file and its name
  were written before, the state starting, without a pid, with its experiments queued, and with a name, a
  start and a deadline from the clock as read after the checks.
\<close>

theorem submit_spawns_checked:
  assumes run: "submit d a w = (r, w', es)" and spawned: "Spawned c l \<in> set es"
  shows "\<exists>xs pre qid t0 t1 exps w1 w2 w3.
     load_groups (d_files d) (qa_names a) = Inr xs \<and> res_list (queued_exp (d_files d) a) xs = Inr exps \<and>
     es = pre @ [MadeDir (queues_dir d @ ''/'' @ qid), WroteState (state_path d qid) (new_queue a qid t0 t1 exps), WroteLatest qid, Spawned c l] \<and>
     c = run_queue_cmd d (queues_dir d @ ''/'' @ qid) \<and> list_all looking pre \<and> \<not> qa_dry_run a \<and>
     account_ok d w w1 \<and> plans_ok d a xs w1 w2 \<and> idle_at d w2 w3 \<and> stamped d w3 qid t0 t1 \<and>
     list_all (planned d a pre) xs \<and> qa_ttl a \<le> ttl_max \<and> (\<not> qa_concurrent a \<or> distinct_benches xs)"
proof -
  from run spawned obtain xs where xs: "load_groups (d_files d) (qa_names a) = Inr xs"
    by (cases "load_groups (d_files d) (qa_names a)") (auto simp: submit_def io_res_def io_bind_def io_raise_def)
  obtain rc w3 pre where c: "checks d a xs w = (rc, w3, pre)" by (metis prod_cases3)
  have look: "list_all looking pre" using emits_run [OF emits_checks c] by (simp add: list_all_iff)
  with spawned run xs c obtain u where rc: "rc = Inr u"
    by (cases rc) (auto simp: submit_def io_res_def io_seq_def io_bind_def io_ret_def list_all_iff)
  obtain r2 u2 post where e: "enqueue d a xs w3 = (r2, u2, post)" by (metis prod_cases3)
  have dry: "\<not> qa_dry_run a" "es = pre @ post"
    using run spawned look xs c rc e by (auto simp: submit_def io_res_def io_seq_def io_bind_def io_ret_def list_all_iff split: if_splits)
  from spawned look dry(2) have "Spawned c l \<in> set post" by (auto simp: list_all_iff)
  from enqueue_effects [OF e this] obtain qid t0 t1 exps where
    post: "stamped d w3 qid t0 t1" "c = run_queue_cmd d (queues_dir d @ ''/'' @ qid)" "res_list (queued_exp (d_files d) a) xs = Inr exps"
    "post = [MadeDir (queues_dir d @ ''/'' @ qid), WroteState (state_path d qid) (new_queue a qid t0 t1 exps), WroteLatest qid, Spawned c l]"
    by blast
  from c rc have passed: "checks d a xs w = (Inr (), w3, pre)" by simp
  from checks_passed(1) [OF passed] obtain w1 w2 where
    "account_ok d w w1" "plans_ok d a xs w1 w2" "idle_at d w2 w3" by blast
  with checks_passed(2) [OF passed] post xs dry show ?thesis
    by (intro exI [of _ xs] exI [of _ pre] exI [of _ qid] exI [of _ t0] exI [of _ t1] exI [of _ exps]
        exI [of _ w1] exI [of _ w2] exI [of _ w3]) simp
qed

section \<open>Stopping\<close>

fun is_signal :: "ceff \<Rightarrow> bool" where
  "is_signal (Signalled p s) = True"
| "is_signal _ = False"

fun is_wait :: "ceff \<Rightarrow> bool" where
  "is_wait (Waited d) = True"
| "is_wait _ = False"

lemma await_end_effects: "await_end n d pid w = (r, w', es) \<Longrightarrow> r = Inr () \<and> (\<exists>k \<le> n. es = replicate k (Waited 2))"
proof (induction n arbitrary: w r w' es)
  case 0
  then show ?case by (simp add: io_ret_def)
next
  case (Suc n)
  let ?v = "d_sleep d 2 w"
  show ?case
  proof (cases "d_probe d pid ?v = NoProcess")
    case True
    with Suc.prems show ?thesis
      by (auto simp: io_seq_def io_bind_def io_call_def alive_def io_ask_def io_ret_def intro!: exI [of _ 1])
  next
    case False
    obtain r2 w2 es2 where again: "await_end n d pid ?v = (r2, w2, es2)" by (metis prod_cases3)
    from False Suc.prems again have "r = r2" "es = Waited 2 # es2"
      by (auto simp: io_seq_def io_bind_def io_call_def alive_def io_ask_def split: probe.splits)
    from Suc.IH [OF again] obtain k where "r2 = Inr ()" "k \<le> n" "es2 = replicate k (Waited 2)" by blast
    with \<open>r = r2\<close> \<open>es = Waited 2 # es2\<close> have "r = Inr () \<and> Suc k \<le> Suc n \<and> es = replicate (Suc k) (Waited 2)" by simp
    then show ?thesis by blast
  qed
qed

lemma show_status_quiet: "emits (\<lambda>e. \<not> is_signal e \<and> \<not> is_wait e) (show_status d)"
  unfolding show_status_def latest_state_def by (auto split: option.splits intro!: io_intros)

text \<open>
  A stop signals the latest queue once: when its process is there it is sent one SIGTERM, then the
  command, unless sending failed, waits at most a minute of sixty looks before it shows the status; else nothing is signalled.
\<close>

theorem stop_signals_once:
  "case stop_queue d w of (r, w', es) \<Rightarrow>
     (case d_latest d w of None \<Rightarrow> es = []
      | Some s \<Rightarrow> (case d_state d (state_path d (strip s)) w of Inl e \<Rightarrow> r = Inl e \<and> es = []
          | Inr q \<Rightarrow>
              if d_probe d (pid_of q) w = NoProcess then filter is_signal es = [] \<and> r = Inr 0
              else filter is_signal es = [Signalled (pid_of q) ''SIGTERM''] \<and> length (filter is_wait es) \<le> 60))"
proof (cases "d_latest d w")
  case None
  then show ?thesis by (simp add: stop_queue_def latest_state_def io_bind_def io_ask_def exits_def io_raise_def)
next
  case (Some s)
  show ?thesis
  proof (cases "d_state d (state_path d (strip s)) w")
    case (Inl e)
    with Some show ?thesis by (simp add: stop_queue_def latest_state_def io_bind_def io_ask_def io_res_def io_raise_def)
  next
    case (Inr q)
    show ?thesis
    proof (cases "d_probe d (pid_of q) w = NoProcess")
      case True
      with Some Inr show ?thesis
        by (simp add: stop_queue_def latest_state_def io_bind_def io_ask_def io_res_def io_ret_def alive_def io_seq_def io_emit_def)
    next
      case False
      have up: "(case d_probe d (pid_of q) w of NoProcess \<Rightarrow> False | _ \<Rightarrow> True)" using False by (auto split: probe.splits)
      obtain rk v where kill: "d_kill d (pid_of q) ''SIGTERM'' w = (rk, v)" by fastforce
      show ?thesis
      proof (cases rk)
        case (Inl e)
        with Some Inr False up kill show ?thesis
          by (simp add: stop_queue_def latest_state_def io_bind_def io_ask_def io_res_def io_ret_def alive_def io_seq_def io_call_def)
      next
        case k0: (Inr y)
        obtain r1 w1 es1 where a: "await_end 60 d (pid_of q) v = (r1, w1, es1)" by (metis prod_cases3)
        obtain r2 w2 es2 where s: "show_status d w1 = (r2, w2, es2)" by (metis prod_cases3)
        from await_end_effects [OF a] obtain k where k: "r1 = Inr ()" "k \<le> 60" "es1 = replicate k (Waited 2)" by blast
        have quiet: "filter is_signal es2 = []" "filter is_wait es2 = []"
          using emits_run [OF show_status_quiet s] by (auto simp: filter_empty_conv)
        obtain p where "stop_queue d w = (r2, w2, Signalled (pid_of q) ''SIGTERM'' # Said p # es1 @ es2)"
          using Some Inr a s k(1) up kill k0
          by (simp add: stop_queue_def latest_state_def io_bind_def io_ask_def io_res_def io_ret_def alive_def io_seq_def io_emit_def
              io_call_def del: await_end.simps)
        with Some Inr False k quiet show ?thesis by simp
      qed
    qed
  qed
qed

text \<open>
  A queue that is only just submitted has no pid in its state file. A stop then signals process 0,
  and signal 0 to process 0 always finds the caller's own process group: the command takes the queue for
  alive and sends SIGTERM to itself and the shell's group; the checks of a further submit, at the same
  time, see no queue.
\<close>

theorem starting_queue_unseen:
  assumes latest: "d_latest d w = Some s" "d_state d (state_path d (strip s)) w = Inr (new_queue a qid t0 t1 exps)"
    and group: "d_probe d 0 w = Found"
  shows "running_queue d w = (Inr None, w, []) \<and> Signalled 0 ''SIGTERM'' \<in> set (io_effects (stop_queue d w))"
proof
  show "running_queue d w = (Inr None, w, [])"
    using latest by (simp add: running_queue_def io_bind_def io_ask_def io_ret_def new_queue_def)
  show "Signalled 0 ''SIGTERM'' \<in> set (io_effects (stop_queue d w))"
    using latest group
    by (simp add: stop_queue_def latest_state_def io_bind_def io_ask_def io_res_def io_ret_def alive_def io_seq_def io_emit_def
        put_file_def io_call_def new_queue_def pid_of_def del: await_end.simps split: prod.splits sum.splits)
qed

section \<open>A scripted desk\<close>

definition desk_world :: mock_world where
  "desk_world = \<lparr>mw_capacity = [], mw_clock = 0\<rparr>"

definition desk0 :: "mock_world desk" where
  "desk0 = \<lparr>d_env = (\<lambda>k. Some (if k = ''AWS_REGION'' then ''eu-north-1'' else k)), d_files = no_files, d_ec2 = mock, d_python = ''python3'',
     d_identity = (\<lambda>w. (Inr ''me'', w)), d_endpoints = (\<lambda>v w. (Inr [''vpce''], w)), d_head = (\<lambda>b w. (Inr (), w)),
     d_run = (\<lambda>cmd w. ((0, ''plan''), w)), d_ours = (\<lambda>w. (Inr [], w)), d_latest = (\<lambda>w. None), d_state = (\<lambda>p w. Inl (OtherExn ''OSError'')),
     d_probe = (\<lambda>pid w. if pid = 0 then Found else NoProcess), d_now = (\<lambda>w. (mw_clock w, w)), d_mkdir = (\<lambda>p w. (Inr (), w)),
     d_put_state = (\<lambda>p q w. w), d_put_latest = (\<lambda>s w. w), d_spawn = (\<lambda>c l w. (Inr 9, w)), d_kill = (\<lambda>p s w. (Inr (), w)),
     d_sleep = (\<lambda>t w. w\<lparr>mw_clock := mw_clock w + t\<rparr>)\<rparr>"

definition qargs0 :: qargs where
  "qargs0 = \<lparr>qa_names = [''a''], qa_interleave = False, qa_concurrent = False, qa_reps = None, qa_ttl = 18000,
     qa_retry_wait = 600, qa_market = ''spot'', qa_dry_run = False\<rparr>"

definition loaded0 :: config where
  "loaded0 = two_points\<lparr>c_path := ''a''\<rparr>"

lemma desk0_loads: "load_groups no_files [''a''] = Inr [(0, loaded0)]"
  by (simp add: load_groups_def load_group_def load_experiment_def find_experiment_def load_config_def no_files_def
      two_points_def loaded0_def Let_def)

lemma desk0_queues:
  "res_list (queued_exp no_files qargs0) [(0, loaded0)] = Inr [\<lparr>ex_name = qualified_name no_files ''a'', ex_path = ''a'',
     ex_status = ''queued'', ex_group = 0, ex_reps = 1, ex_attempts = 0, ex_refusals = 0, ex_last = None, ex_axis = ''mode'',
     ex_values = [''http'', ''tls'']\<rparr>]"
  by (simp add: queued_exp_def axis_values_def loaded0_def two_points_def of_option_def reps_given_def qargs0_def)

lemma desk0_checks: "\<exists>w es. checks desk0 qargs0 [(0, loaded0)] desk_world = (Inr (), w, es)"
  by (simp add: checks_def check_account_def check_experiment_def check_blob_def check_idle_def running_queue_def our_instances_up_def
      check_bucket_region_def bucket_region_def describe_subnet_def desk0_def desk_world_def qargs0_def mock_def mock_subnet_def
      loaded0_def two_points_def not_sweep_def needs_blob_def given_def ttl_max_def required_env_def region_name_def io_defs io_lift_def)

lemma submit_spawns_checked_witness:
  "\<exists>r w' es c l. submit desk0 qargs0 desk_world = (r, w', es) \<and> Spawned c l \<in> set es \<and> \<not> qa_dry_run qargs0 \<and>
     (\<exists>xs w1 w2 w3. account_ok desk0 desk_world w1 \<and> plans_ok desk0 qargs0 xs w1 w2 \<and> idle_at desk0 w2 w3)"
proof -
  obtain w1 pre where c: "checks desk0 qargs0 [(0, loaded0)] desk_world = (Inr (), w1, pre)" using desk0_checks by blast
  obtain r w' es where run: "submit desk0 qargs0 desk_world = (r, w', es)" by (metis prod_cases3)
  have files: "d_files desk0 = no_files" "qa_names qargs0 = [''a'']" "\<not> qa_dry_run qargs0" by (simp_all add: desk0_def qargs0_def)
  have "\<exists>c l. Spawned c l \<in> set es"
    using run c unfolding submit_def enqueue_def files desk0_loads desk0_queues
    by (auto simp: io_res_def io_bind_def io_ret_def io_seq_def files desk0_queues [simplified] Let_def desk_clock_def io_call_def put_file_def
        desk0_def) blast
  then obtain c l where s: "Spawned c l \<in> set es" by blast
  from submit_spawns_checked [OF run s] run s show ?thesis by blast
qed

lemma starting_queue_unseen_witness:
  "let d = desk0\<lparr>d_latest := \<lambda>w. Some ''q'', d_state := \<lambda>p w. Inr (new_queue qargs0 ''q'' 0 0 [])\<rparr>
   in running_queue d desk_world = (Inr None, desk_world, []) \<and> Signalled 0 ''SIGTERM'' \<in> set (io_effects (stop_queue d desk_world))"
  unfolding Let_def
  by (rule starting_queue_unseen [where s = "''q''" and a = qargs0 and qid = "''q''" and ?t0.0 = 0 and ?t1.0 = 0 and exps = "[]"])
    (simp_all add: desk0_def)

end
