(* ===== verification/BucketPolicy.thy ===== *)
theory BucketPolicy
  imports Prelude
begin

text \<open>
  \<^verbatim>\<open>scripts/bucket_policy.py\<close>: one statement of a bucket's policy is added or removed, by its Sid. The
  abstract policy is what each Sid is granted; the document refines it.
\<close>

section \<open>Documents\<close>

datatype json =
    JNull
  | JBool bool
  | JNum rat
  | JStr string
  | JList "json list"
  | JObj "(string \<times> json) list"

text \<open>S3's policy calls; what \<open>ba_get\<close> answers is the parsed document.\<close>

record 'w bucket_api =
  ba_get :: "string \<Rightarrow> 'w \<Rightarrow> (exn + json) \<times> 'w"
  ba_put :: "string \<Rightarrow> json \<Rightarrow> 'w \<Rightarrow> (exn + unit) \<times> 'w"
  ba_delete :: "string \<Rightarrow> 'w \<Rightarrow> (exn + unit) \<times> 'w"

datatype peff = GetPolicy string | PutPolicy string json | DeletePolicy string

record pargs =
  pa_add :: bool
  pa_sid :: string
  pa_bucket :: "string option"
  pa_resource :: "string option"
  pa_vpce :: "string option"

definition empty_policy :: json where
  "empty_policy = JObj [(''Version'', JStr ''2012-10-17''), (''Statement'', JList [])]"

definition no_attribute :: exn where
  "no_attribute = OtherExn ''AttributeError''"

text \<open>\<open>doc.get("Statement", [])\<close> as the comprehension iterates it: an object by its keys, a string by its characters.\<close>

definition statements :: "json \<Rightarrow> json list res" where
  "statements doc = (case doc of
     JObj d \<Rightarrow> (case map_of d ''Statement'' of
         None \<Rightarrow> Inr []
       | Some (JList ss) \<Rightarrow> Inr ss
       | Some (JObj e) \<Rightarrow> Inr (map (\<lambda>(k, _). JStr k) e)
       | Some (JStr s) \<Rightarrow> Inr (map (\<lambda>c. JStr [c]) s)
       | Some _ \<Rightarrow> Inl TypeErr)
   | _ \<Rightarrow> Inl no_attribute)"

text \<open>\<open>s.get("Sid") != sid\<close>.\<close>

definition other_sid :: "string \<Rightarrow> json \<Rightarrow> bool res" where
  "other_sid sid s = (case s of JObj d \<Rightarrow> Inr (map_of d ''Sid'' \<noteq> Some (JStr sid)) | _ \<Rightarrow> Inl no_attribute)"

fun keep_others :: "string \<Rightarrow> json list \<Rightarrow> json list res" where
  "keep_others sid [] = Inr []"
| "keep_others sid (s # ss) =
     res_bind (other_sid sid s) (\<lambda>b. res_bind (keep_others sid ss) (\<lambda>ks. Inr (if b then s # ks else ks)))"

definition grant :: "string \<Rightarrow> string \<Rightarrow> string \<Rightarrow> json" where
  "grant sid resource vpce =
     JObj [(''Sid'', JStr sid), (''Effect'', JStr ''Allow''), (''Principal'', JStr ''*''), (''Action'', JStr ''s3:GetObject''),
       (''Resource'', JStr resource),
       (''Condition'', JObj [(''StringEquals'', JObj [(''aws:sourceVpce'', JStr vpce)])])]"

definition kept_statements :: "pargs \<Rightarrow> json \<Rightarrow> json list res" where
  "kept_statements a doc =
     res_bind (statements doc) (\<lambda>ss. res_bind (keep_others (pa_sid a) ss) (\<lambda>kept.
     Inr (if pa_add a then kept @ [grant (pa_sid a) (the (pa_resource a)) (the (pa_vpce a))] else kept)))"

definition with_statements :: "json \<Rightarrow> json list \<Rightarrow> json" where
  "with_statements doc ss = (case doc of JObj d \<Rightarrow> JObj (dict_set ''Statement'' (JList ss) d) | _ \<Rightarrow> doc)"

section \<open>The command\<close>

definition fetch_policy :: "'w bucket_api \<Rightarrow> string \<Rightarrow> ('w, peff, json) io" where
  "fetch_policy s3 b =
     io_catch (io_call (GetPolicy b) (ba_get s3 b))
       (\<lambda>e. case e of
          ClientError (Some c) _ \<Rightarrow> if c \<noteq> ''NoSuchBucketPolicy'' then None else Some (io_ret empty_policy)
        | ClientError None _ \<Rightarrow> Some (io_raise (KeyErr ''Code''))
        | _ \<Rightarrow> None)"

definition policy_main :: "'w bucket_api \<Rightarrow> pargs \<Rightarrow> ('w, peff, int) io" where
  "policy_main s3 a =
     (if \<not> given (pa_bucket a) then io_raise (SystemExit ''no bucket: pass --bucket or set AWS_BUCKET'')
      else if pa_add a \<and> \<not> (given (pa_resource a) \<and> given (pa_vpce a)) then io_raise (SystemExit ''add needs --resource and --vpce'')
      else let b = the (pa_bucket a) in
        io_bind (fetch_policy s3 b) (\<lambda>doc.
        case kept_statements a doc of
          Inl e \<Rightarrow> io_raise e
        | Inr kept \<Rightarrow>
            io_seq (if kept \<noteq> [] then io_call (PutPolicy b (with_statements doc kept)) (ba_put s3 b (with_statements doc kept))
                else io_call (DeletePolicy b) (ba_delete s3 b))
              (io_ret 0)))"

section \<open>The abstract policy\<close>

text \<open>What a document grants under each Sid, in order; statements without a Sid are under None.\<close>

type_synonym policy = "json option \<Rightarrow> json list"

definition sid_of :: "json \<Rightarrow> json option" where
  "sid_of s = (case s of JObj d \<Rightarrow> map_of d ''Sid'' | _ \<Rightarrow> None)"

definition policy_of :: "json list \<Rightarrow> policy" where
  "policy_of ss k = filter (\<lambda>s. sid_of s = k) ss"

definition granted :: "pargs \<Rightarrow> policy \<Rightarrow> policy" where
  "granted a p = p(Some (JStr (pa_sid a)) :=
     (if pa_add a then [grant (pa_sid a) (the (pa_resource a)) (the (pa_vpce a))] else []))"

lemma sid_of_grant [simp]: "sid_of (grant sid r v) = Some (JStr sid)"
  by (simp add: sid_of_def grant_def)

lemma keep_others_Inr: "keep_others sid ss = Inr ks \<Longrightarrow> ks = filter (\<lambda>s. sid_of s \<noteq> Some (JStr sid)) ss"
proof (induction ss arbitrary: ks)
  case (Cons s ss)
  from Cons.prems obtain b ks' where b: "other_sid sid s = Inr b" "keep_others sid ss = Inr ks'" "ks = (if b then s # ks' else ks')"
    by (auto simp: res_bind_Inr)
  from b(1) have "b \<longleftrightarrow> sid_of s \<noteq> Some (JStr sid)" by (cases s) (simp_all add: other_sid_def sid_of_def)
  with b Cons.IH [OF b(2)] show ?case by simp
qed simp

lemma kept_statements_Inr:
  assumes "kept_statements a doc = Inr kept"
  obtains ss where "statements doc = Inr ss"
    "kept = filter (\<lambda>s. sid_of s \<noteq> Some (JStr (pa_sid a))) ss
       @ (if pa_add a then [grant (pa_sid a) (the (pa_resource a)) (the (pa_vpce a))] else [])"
  using assms by (auto simp: kept_statements_def res_bind_Inr dest!: keep_others_Inr split: if_splits)

lemma policy_of_kept:
  assumes "kept_statements a doc = Inr kept" "statements doc = Inr ss"
  shows "policy_of kept = granted a (policy_of ss)"
proof
  fix k
  from assms obtain "kept = filter (\<lambda>s. sid_of s \<noteq> Some (JStr (pa_sid a))) ss
       @ (if pa_add a then [grant (pa_sid a) (the (pa_resource a)) (the (pa_vpce a))] else [])"
    by (auto elim: kept_statements_Inr)
  then show "policy_of kept k = granted a (policy_of ss) k"
    by (cases "k = Some (JStr (pa_sid a))") (auto simp: policy_of_def granted_def filter_empty_conv intro!: filter_cong)
qed

lemma policy_of_empty: "(\<forall>k. policy_of ss k = []) \<longleftrightarrow> ss = []"
  by (auto simp: policy_of_def filter_empty_conv) (metis list.set_intros(1) neq_Nil_conv)

lemma statements_with [simp]: "statements doc = Inr ss \<Longrightarrow> statements (with_statements doc ks) = Inr ks"
  by (auto simp: statements_def with_statements_def split: json.splits)

text \<open>
  C4. The command refines an update of one Sid: when it succeeds, it has read the policy of the bucket
  once (none is the empty policy) and then written once; the policy it wrote is the one it read with
  exactly the Sid it was given replaced, by the new read-only grant or by nothing; every other member
  of the document and every other statement, in its order, is kept; and the document is deleted rather than
  put exactly when no statement is left.
\<close>

theorem policy_refines:
  assumes "policy_main s3 a w = (Inr x, w', es)"
  shows "\<exists>b doc ss kept w1. pa_bucket a = Some b \<and>
     (ba_get s3 b w = (Inr doc, w1) \<or>
        (\<exists>m. ba_get s3 b w = (Inl (ClientError (Some ''NoSuchBucketPolicy'') m), w1)) \<and> doc = empty_policy) \<and>
     statements doc = Inr ss \<and> policy_of kept = granted a (policy_of ss) \<and>
     filter (\<lambda>s. sid_of s \<noteq> Some (JStr (pa_sid a))) kept = filter (\<lambda>s. sid_of s \<noteq> Some (JStr (pa_sid a))) ss \<and>
     es = [GetPolicy b, if granted a (policy_of ss) = (\<lambda>_. []) then DeletePolicy b else PutPolicy b (with_statements doc kept)] \<and>
     statements (with_statements doc kept) = Inr kept"
proof -
  from assms obtain b where b: "pa_bucket a = Some b" by (cases "pa_bucket a") (auto simp: policy_main_def given_def io_raise_def)
  from assms b obtain doc w1 es1 es2 where f: "fetch_policy s3 b w = (Inr doc, w1, es1)"
    and p: "(case kept_statements a doc of Inl e \<Rightarrow> io_raise e | Inr kept \<Rightarrow>
            io_seq (if kept \<noteq> [] then io_call (PutPolicy b (with_statements doc kept)) (ba_put s3 b (with_statements doc kept))
                else io_call (DeletePolicy b) (ba_delete s3 b)) (io_ret 0)) w1 = (Inr x, w', es2)" and es: "es = es1 @ es2"
    by (auto simp: policy_main_def io_raise_def Let_def split: if_splits elim!: io_bind_InrE)
  have fetched: "es1 = [GetPolicy b]" "ba_get s3 b w = (Inr doc, w1) \<or>
        (\<exists>m. ba_get s3 b w = (Inl (ClientError (Some ''NoSuchBucketPolicy'') m), w1)) \<and> doc = empty_policy"
    using f by (auto simp: fetch_policy_def io_catch_def io_call_def io_ret_def io_raise_def
        split: prod.splits sum.splits exn.splits option.splits if_splits)
  from p obtain kept where kept: "kept_statements a doc = Inr kept"
    by (cases "kept_statements a doc") (auto simp: io_raise_def)
  from kept obtain ss where ss: "statements doc = Inr ss" and form: "kept = filter (\<lambda>s. sid_of s \<noteq> Some (JStr (pa_sid a))) ss
       @ (if pa_add a then [grant (pa_sid a) (the (pa_resource a)) (the (pa_vpce a))] else [])" by (rule kept_statements_Inr)
  note pol = policy_of_kept [OF kept ss]
  have "kept = [] \<longleftrightarrow> granted a (policy_of ss) = (\<lambda>_. [])"
    unfolding pol [symmetric] using policy_of_empty [of kept] by (auto simp: fun_eq_iff)
  with p kept have "es2 = [if granted a (policy_of ss) = (\<lambda>_. []) then DeletePolicy b else PutPolicy b (with_statements doc kept)]"
    by (auto simp: io_seq_def io_call_def io_ret_def io_bind_def split: if_splits prod.splits sum.splits)
  moreover have "filter (\<lambda>s. sid_of s \<noteq> Some (JStr (pa_sid a))) kept = filter (\<lambda>s. sid_of s \<noteq> Some (JStr (pa_sid a))) ss"
    by (simp add: form)
  ultimately show ?thesis using b fetched es ss pol by (intro exI [of _ b] exI [of _ doc] exI [of _ ss] exI [of _ kept] exI [of _ w1]) simp
qed

definition two_grants :: json where
  "two_grants = JObj [(''Version'', JStr ''2012-10-17''), (''Statement'', JList [grant ''A'' ''r'' ''v'', grant ''B'' ''r'' ''v''])]"

definition mock_policy :: "unit bucket_api" where
  "mock_policy = \<lparr>ba_get = (\<lambda>b w. (Inr two_grants, w)), ba_put = (\<lambda>b d w. (Inr (), w)), ba_delete = (\<lambda>b w. (Inr (), w))\<rparr>"

definition removal :: pargs where
  "removal = \<lparr>pa_add = False, pa_sid = ''A'', pa_bucket = Some ''bk'', pa_resource = None, pa_vpce = None\<rparr>"

lemma policy_refines_witness:
  "\<exists>kept. io_effects (policy_main mock_policy removal ()) = [GetPolicy ''bk'', PutPolicy ''bk'' (with_statements two_grants kept)] \<and>
     policy_of kept (Some (JStr ''A'')) = [] \<and> policy_of kept (Some (JStr ''B'')) = [grant ''B'' ''r'' ''v'']"
proof -
  have run: "policy_main mock_policy removal () = (Inr 0, (), [GetPolicy ''bk'', PutPolicy ''bk'' (with_statements two_grants [grant ''B'' ''r'' ''v''])])"
    by (simp add: policy_main_def mock_policy_def removal_def given_def Let_def fetch_policy_def io_defs kept_statements_def
        statements_def two_grants_def other_sid_def grant_def)
  from policy_refines [OF run] obtain kept where "policy_of kept = granted removal (policy_of [grant ''A'' ''r'' ''v'', grant ''B'' ''r'' ''v''])"
    "PutPolicy ''bk'' (with_statements two_grants [grant ''B'' ''r'' ''v'']) = PutPolicy ''bk'' (with_statements two_grants kept)"
    by (auto simp: removal_def mock_policy_def statements_def two_grants_def split: if_splits)
  with run show ?thesis by (intro exI [of _ kept]) (simp add: granted_def removal_def policy_of_def)
qed

end
