(* ===== verification/CovDecode.thy ===== *)
theory CovDecode
  imports Logs "HOL-Library.Word"
begin

unbundle bit_operations_syntax

text \<open>
  \<^verbatim>\<open>scripts/cov/decode.py\<close>: the coverage dump a guest prints on its console, as numbered lines of base64
  over a run-length code, is put together again from several logs.
\<close>

section \<open>Lines\<close>

definition cov_line_rx :: rx where
  "cov_line_rx = re ''^COV:(~d+):([A-Za-z0-9+/=]+)~r?$''"

definition cov_begin_rx :: rx where
  "cov_begin_rx = re ''^COV BEGIN raw=(~d+)''"

definition cov_end_rx :: rx where
  "cov_end_rx = re ''^COV END lines=(~d+)''"

definition cov_group :: "nat \<Rightarrow> rxm \<Rightarrow> string" where
  "cov_group n m = (case group n m of None \<Rightarrow> [] | Some s \<Rightarrow> s)"

definition cov_lines :: "string \<Rightarrow> (nat \<times> string) list" where
  "cov_lines text = map (\<lambda>m. (nat_of_digits (cov_group 1 m), cov_group 2 m)) (rx_finditer cov_line_rx text)"

definition cov_number :: "rx \<Rightarrow> string \<Rightarrow> nat option" where
  "cov_number r text = map_option (\<lambda>m. nat_of_digits (cov_group 1 m)) (rx_search r text)"

text \<open>What was collected: the lines by number, the first of several; the last sizes a log names.\<close>

record dump =
  du_lines :: "(nat \<times> string) list"
  du_want :: "nat option"
  du_end :: "nat option"

definition setdefault :: "nat \<times> string \<Rightarrow> (nat \<times> string) list \<Rightarrow> (nat \<times> string) list" where
  "setdefault = (\<lambda>(k, v) d. if map_of d k = None then d @ [(k, v)] else d)"

definition or_else :: "'a option \<Rightarrow> 'a option \<Rightarrow> 'a option" where
  "or_else a b = (case a of None \<Rightarrow> b | Some x \<Rightarrow> Some x)"

definition scan_log :: "dump \<Rightarrow> string \<Rightarrow> dump" where
  "scan_log d text = \<lparr>du_lines = fold setdefault (cov_lines text) (du_lines d),
     du_want = or_else (cov_number cov_begin_rx text) (du_want d),
     du_end = or_else (cov_number cov_end_rx text) (du_end d)\<rparr>"

definition collect_dump :: "string list \<Rightarrow> dump" where
  "collect_dump texts = foldl scan_log \<lparr>du_lines = [], du_want = None, du_end = None\<rparr> texts"

section \<open>base64\<close>

text \<open>
  \<open>binascii.a2b_base64\<close>, not strict: characters outside the alphabet are skipped, a pad that completes
  its quad ends the text. \<open>q\<close> is the place in the quad, \<open>left\<close> the bits left over.
\<close>

definition b64_alphabet :: string where
  "b64_alphabet = ''ABCDEFGHIJKLMNOPQRSTUVWXYZabcdefghijklmnopqrstuvwxyz0123456789+/''"

definition b64_val :: "char \<Rightarrow> 8 word option" where
  "b64_val c = map_of (zip b64_alphabet (map word_of_nat [0..<64])) c"

definition res_cons :: "'a \<Rightarrow> 'a list res \<Rightarrow> 'a list res" where
  "res_cons x r = res_bind r (\<lambda>xs. Inr (x # xs))"

fun a2b :: "nat \<Rightarrow> 8 word \<Rightarrow> nat \<Rightarrow> string \<Rightarrow> 8 word list res" where
  "a2b q left pads [] = (if q = 0 then Inr [] else Inl (ValueErr ''Incorrect padding''))"
| "a2b q left pads (c # s) =
     (if c = CHR ''=''
      then (if q < 2 then a2b q left pads s else if 4 \<le> q + Suc pads then Inr [] else a2b q left (Suc pads) s)
      else (case b64_val c of
          None \<Rightarrow> a2b q left pads s
        | Some v \<Rightarrow>
            if q = 0 then a2b 1 v 0 s
            else if q = 1 then res_cons (push_bit 2 left OR drop_bit 4 v) (a2b 2 (v AND 15) 0 s)
            else if q = 2 then res_cons (push_bit 4 left OR drop_bit 2 v) (a2b 3 (v AND 3) 0 s)
            else res_cons (push_bit 6 left OR v) (a2b 0 0 0 s)))"

definition b64decode :: "string \<Rightarrow> 8 word list res" where
  "b64decode s = a2b 0 0 0 s"

section \<open>The run-length code\<close>

definition le32 :: "8 word \<Rightarrow> 8 word \<Rightarrow> 8 word \<Rightarrow> 8 word \<Rightarrow> 32 word" where
  "le32 a b c d = ucast a OR push_bit 8 (ucast b) OR push_bit 16 (ucast c) OR push_bit 24 (ucast d)"

fun unroll :: "8 word list \<Rightarrow> 8 word list res" where
  "unroll [] = Inr []"
| "unroll (b # r) =
     (if b \<noteq> 0 then res_cons b (unroll r)
      else (case r of
          b0 # b1 # b2 # b3 # r' \<Rightarrow> res_bind (unroll r') (\<lambda>out. Inr (replicate (unat (le32 b0 b1 b2 b3)) 0 @ out))
        | _ \<Rightarrow> Inl (OtherExn ''struct.error'')))"

section \<open>Decoding\<close>

definition missing_lines :: "dump \<Rightarrow> nat \<Rightarrow> nat list" where
  "missing_lines d n = filter (\<lambda>i. map_of (du_lines d) i = None) [0..<n]"

definition payload :: "dump \<Rightarrow> nat \<Rightarrow> string" where
  "payload d n = concat (map (\<lambda>i. case map_of (du_lines d) i of None \<Rightarrow> [] | Some s \<Rightarrow> s) [0..<n])"

definition decode_dump :: "dump \<Rightarrow> 8 word list res" where
  "decode_dump d = (case (du_end d, du_want d) of
     (Some n, Some want) \<Rightarrow>
       if missing_lines d n \<noteq> []
       then Inl (SystemExit (show_nat (length (missing_lines d n)) @ '' of '' @ show_nat n @ '' lines missing, first ''
         @ CHR ''['' # join '', '' (map show_nat (take 8 (missing_lines d n))) @ '']''))
       else res_bind (b64decode (payload d n)) (\<lambda>rle. res_bind (unroll rle) (\<lambda>out.
         if length out \<noteq> want
         then Inl (SystemExit (''decoded '' @ show_nat (length out) @ '' bytes, the guest wrote '' @ show_nat want))
         else Inr out))
   | _ \<Rightarrow> Inl (SystemExit ''no complete COV dump in the logs''))"

definition cov_decode :: "string list \<Rightarrow> 8 word list res" where
  "cov_decode texts = decode_dump (collect_dump texts)"

section \<open>base64 is undone\<close>

text \<open>The encoding of RFC 4648.\<close>

definition b64_char :: "8 word \<Rightarrow> char" where
  "b64_char v = b64_alphabet ! unat v"

fun b64_text :: "8 word list \<Rightarrow> string" where
  "b64_text [] = []"
| "b64_text [a] = [b64_char (drop_bit 2 a), b64_char (push_bit 4 (a AND 3)), CHR ''='', CHR ''='']"
| "b64_text [a, b] = [b64_char (drop_bit 2 a), b64_char (push_bit 4 (a AND 3) OR drop_bit 4 b), b64_char (push_bit 2 (b AND 15)), CHR ''='']"
| "b64_text (a # b # c # s) =
     [b64_char (drop_bit 2 a), b64_char (push_bit 4 (a AND 3) OR drop_bit 4 b), b64_char (push_bit 2 (b AND 15) OR drop_bit 6 c),
      b64_char (c AND 63)] @ b64_text s"

lemma b64_table: "list_all (\<lambda>n. b64_val (b64_alphabet ! n) = Some (word_of_nat n) \<and> b64_alphabet ! n \<noteq> CHR ''='') [0..<64]"
  by code_simp

lemma b64_val_char:
  assumes "v < 64"
  shows "b64_val (b64_char v) = Some v" "b64_char v \<noteq> CHR ''=''"
proof -
  from assms have "unat v < 64" by (simp add: word_less_nat_alt)
  then have "unat v \<in> set [0..<64]" by simp
  with b64_table have "b64_val (b64_alphabet ! unat v) = Some (word_of_nat (unat v)) \<and> b64_alphabet ! unat v \<noteq> CHR ''=''"
    unfolding list_all_iff by blast
  then show "b64_val (b64_char v) = Some v" "b64_char v \<noteq> CHR ''=''" by (simp_all add: b64_char_def)
qed

lemma and_masks: "(v :: 8 word) AND 3 = take_bit 2 v" "v AND 15 = take_bit 4 v" "v AND 63 = take_bit 6 v"
  by (simp_all add: take_bit_eq_mask mask_eq_exp_minus_1)

lemma six_bits:
  assumes "\<And>n. bit (v :: 8 word) n \<Longrightarrow> n < 6"
  shows "v < 64"
proof -
  have "take_bit 6 v = v" using assms by (auto simp: bit_eq_iff bit_take_bit_iff)
  then have "unat v = take_bit 6 (unat v)" by (metis of_nat_eq_iff unsigned_take_bit_eq)
  then have "unat v < 2 ^ 6" by (metis take_bit_nat_less_exp)
  then show ?thesis by (simp add: word_less_nat_alt)
qed

lemma bit8: "bit (a :: 8 word) n \<Longrightarrow> n < 8"
  using bit_imp_le_length [of a n] by simp

lemma b64_parts:
  fixes a b c :: "8 word"
  shows "drop_bit 2 a < 64" "push_bit 4 (take_bit 2 a) OR drop_bit 4 b < 64" "push_bit 2 (take_bit 4 b) OR drop_bit 6 c < 64"
    "take_bit 6 c < 64" "push_bit 4 (take_bit 2 a) < 64" "push_bit 2 (take_bit 4 b) < 64"
  by (rule six_bits; auto simp: bit_simps dest: bit8)+

lemma b64_joins:
  fixes a b c :: "8 word"
  shows "push_bit 2 (drop_bit 2 a) OR drop_bit 4 (push_bit 4 (take_bit 2 a) OR drop_bit 4 b) = a"
    "push_bit 4 (take_bit 4 (push_bit 4 (take_bit 2 a) OR drop_bit 4 b)) OR drop_bit 2 (push_bit 2 (take_bit 4 b) OR drop_bit 6 c) = b"
    "push_bit 6 (take_bit 2 (push_bit 2 (take_bit 4 b) OR drop_bit 6 c)) OR take_bit 6 c = c"
    "push_bit 2 (drop_bit 2 a) OR drop_bit 4 (push_bit 4 (take_bit 2 a)) = a"
    "push_bit 4 (take_bit 4 (push_bit 4 (take_bit 2 a) OR drop_bit 4 b)) OR drop_bit 2 (push_bit 2 (take_bit 4 b)) = b"
proof -
  have two: "n \<ge> 2 \<Longrightarrow> Suc (Suc (n - 2)) = n" for n :: nat by simp
  show "push_bit 2 (drop_bit 2 a) OR drop_bit 4 (push_bit 4 (take_bit 2 a) OR drop_bit 4 b) = a"
    "push_bit 4 (take_bit 4 (push_bit 4 (take_bit 2 a) OR drop_bit 4 b)) OR drop_bit 2 (push_bit 2 (take_bit 4 b) OR drop_bit 6 c) = b"
    "push_bit 6 (take_bit 2 (push_bit 2 (take_bit 4 b) OR drop_bit 6 c)) OR take_bit 6 c = c"
    "push_bit 2 (drop_bit 2 a) OR drop_bit 4 (push_bit 4 (take_bit 2 a)) = a"
    "push_bit 4 (take_bit 4 (push_bit 4 (take_bit 2 a) OR drop_bit 4 b)) OR drop_bit 2 (push_bit 2 (take_bit 4 b)) = b"
    by (rule bit_word_eqI, rename_tac n, case_tac "n \<ge> 2"; auto simp: bit_simps two dest: bit8)+
qed

lemma a2b_b64_text: "b64decode (b64_text bs) = Inr bs"
proof -
  have "a2b 0 l p (b64_text bs) = Inr bs" for l p
  proof (induction bs arbitrary: l p rule: b64_text.induct)
    case (2 a)
    then show ?case by (simp add: and_masks b64_val_char b64_parts b64_joins res_cons_def del: push_bit_or take_bit_or drop_bit_or)
  next
    case (3 a b)
    then show ?case by (simp add: and_masks b64_val_char b64_parts b64_joins res_cons_def del: push_bit_or take_bit_or drop_bit_or)
  next
    case (4 a b c s)
    then show ?case by (simp add: and_masks b64_val_char b64_parts b64_joins res_cons_def del: push_bit_or take_bit_or drop_bit_or)
  qed simp
  then show ?thesis by (simp add: b64decode_def)
qed

section \<open>The run-length code is undone\<close>

text \<open>A code of some bytes: a byte that is not zero stands for itself, a zero and four bytes for a run of zeros.\<close>

inductive codes :: "8 word list \<Rightarrow> 8 word list \<Rightarrow> bool" where
  none: "codes [] []"
| one: "b \<noteq> 0 \<Longrightarrow> codes r bs \<Longrightarrow> codes (b # r) (b # bs)"
| run: "codes r bs \<Longrightarrow> codes (0 # ucast (n :: 32 word) # ucast (drop_bit 8 n) # ucast (drop_bit 16 n) # ucast (drop_bit 24 n) # r)
     (replicate (unat n) 0 @ bs)"

lemma le32_bytes: "le32 (ucast n) (ucast (drop_bit 8 n)) (ucast (drop_bit 16 n)) (ucast (drop_bit 24 n)) = (n :: 32 word)"
  unfolding le32_def by (rule bit_word_eqI, rename_tac k, case_tac "k \<ge> 24"; case_tac "k \<ge> 16"; auto simp: bit_simps)

lemma le32_of_bytes:
  "ucast (le32 a b c d) = a" "ucast (drop_bit 8 (le32 a b c d)) = b" "ucast (drop_bit 16 (le32 a b c d)) = c"
  "ucast (drop_bit 24 (le32 a b c d)) = d"
  unfolding le32_def by (rule bit_word_eqI; auto simp: bit_simps dest: bit8)+

lemma unroll_codes: "unroll r = Inr bs \<longleftrightarrow> codes r bs"
proof
  assume "codes r bs"
  then show "unroll r = Inr bs" by induction (simp_all add: res_cons_def le32_bytes)
next
  assume "unroll r = Inr bs"
  then show "codes r bs"
  proof (induction r arbitrary: bs rule: unroll.induct)
    case 1
    then show ?case by (simp add: codes.none)
  next
    case (2 b r)
    show ?case
    proof (cases "b = 0")
      case False
      with 2 show ?thesis by (auto simp: res_cons_def res_bind_Inr intro: codes.one)
    next
      case True
      with 2(3) obtain b0 b1 b2 b3 r' out where r: "r = b0 # b1 # b2 # b3 # r'" "unroll r' = Inr out"
        "bs = replicate (unat (le32 b0 b1 b2 b3)) 0 @ out"
        by (auto simp: res_bind_Inr split: list.splits)
      from 2(2) [of b0 _ b1 _ b2 _ b3 r'] r True have "codes r' out" by simp
      from codes.run [OF this, of "le32 b0 b1 b2 b3"] r True show ?thesis by (simp add: le32_of_bytes)
    qed
  qed
qed

section \<open>Logs are merged\<close>

lemma setdefault_map: "map_of (fold setdefault xs d) = map_of (d @ xs)"
proof (induction xs arbitrary: d)
  case (Cons x xs)
  obtain k v where x: "x = (k, v)" by fastforce
  have "map_of (setdefault x d) = map_of (d @ [x])"
    by (auto simp: setdefault_def x map_add_def fun_eq_iff split: option.splits)
  with Cons.IH [of "setdefault x d"] show ?case by simp
qed simp

text \<open>Of the texts shown under a number the first is kept, over all the logs in their order.\<close>

lemma collect_lines: "map_of (du_lines (foldl scan_log d texts)) = map_of (du_lines d @ concat (map cov_lines texts))"
proof (induction texts arbitrary: d)
  case (Cons t ts)
  have "du_lines (scan_log d t) = fold setdefault (cov_lines t) (du_lines d)" by (simp add: scan_log_def)
  with Cons.IH [of "scan_log d t"] show ?case by (simp add: setdefault_map)
qed simp

definition first_shown :: "string list \<Rightarrow> nat \<Rightarrow> string option" where
  "first_shown texts = map_of (concat (map cov_lines texts))"

text \<open>No log has to be without a cut line; it is enough that none comes before a whole one.\<close>

lemma first_shown_whole:
  assumes "i \<in> fst ` set (concat (map cov_lines texts))" "\<forall>t \<in> set texts. \<forall>(k, s) \<in> set (cov_lines t). k = i \<longrightarrow> s = p"
  shows "first_shown texts i = Some p"
proof -
  from assms(1) obtain s where s: "map_of (concat (map cov_lines texts)) i = Some s"
    by (metis domD dom_map_of_conv_image_fst)
  with map_of_SomeD [OF s] assms(2) show ?thesis by (fastforce simp: first_shown_def)
qed

text \<open>The number a log names last.\<close>

lemma collect_number:
  "\<forall>t \<in> set texts. cov_number cov_begin_rx t \<in> {None, Some a} \<and> cov_number cov_end_rx t \<in> {None, Some b} \<Longrightarrow>
   du_want (foldl scan_log d texts) = (if \<exists>t \<in> set texts. cov_number cov_begin_rx t \<noteq> None then Some a else du_want d) \<and>
   du_end (foldl scan_log d texts) = (if \<exists>t \<in> set texts. cov_number cov_end_rx t \<noteq> None then Some b else du_end d)"
proof (induction texts arbitrary: d)
  case (Cons t ts)
  then have t: "cov_number cov_begin_rx t = None \<or> cov_number cov_begin_rx t = Some a"
    "cov_number cov_end_rx t = None \<or> cov_number cov_end_rx t = Some b" by auto
  from Cons.IH [of "scan_log d t"] Cons.prems t show ?case by (auto simp: scan_log_def or_else_def)
qed simp

text \<open>
  C5. The dump survives the console: let a guest print the bytes \<open>bs\<close>, run-length coded in any of the
  possible ways and in base64 cut into \<open>n\<close> numbered lines anywhere. If the first text the logs show under
  each of the \<open>n\<close> numbers is the whole line, and the sizes the logs name are all the sizes of this dump and
  each is named, the decoder gives back exactly \<open>bs\<close>: which log shows a line, what is shown under its
  number later, cut or not, and all other lines do not matter. The condition on the first text is needed
  (\<open>cut_line_first\<close>): a line that a snapshot's end cut short is kept before the whole one.
\<close>

theorem cov_dump_survives:
  assumes code: "codes r bs" and cut: "concat (map pay [0..<n]) = b64_text r"
    and whole: "\<forall>i < n. first_shown texts i = Some (pay i)"
    and sizes: "\<forall>t \<in> set texts. cov_number cov_begin_rx t \<in> {None, Some (length bs)} \<and> cov_number cov_end_rx t \<in> {None, Some n}"
    and named: "\<exists>t \<in> set texts. cov_number cov_begin_rx t \<noteq> None" "\<exists>t \<in> set texts. cov_number cov_end_rx t \<noteq> None"
  shows "cov_decode texts = Inr bs"
proof -
  have size: "du_want (collect_dump texts) = Some (length bs)" "du_end (collect_dump texts) = Some n"
    unfolding collect_dump_def using collect_number [OF sizes] named by simp_all
  have all: "map_of (du_lines (collect_dump texts)) i = Some (pay i)" if "i < n" for i
    using that whole collect_lines [of "\<lparr>du_lines = [], du_want = None, du_end = None\<rparr>" texts]
    by (simp add: collect_dump_def first_shown_def)
  then have "missing_lines (collect_dump texts) n = []" by (simp add: missing_lines_def filter_empty_conv)
  moreover have "payload (collect_dump texts) n = b64_text r"
    unfolding payload_def cut [symmetric] by (rule arg_cong [where f = concat], rule map_cong) (simp_all add: all)
  ultimately show ?thesis using code size unfolding unroll_codes [symmetric]
    by (simp add: cov_decode_def decode_dump_def a2b_b64_text)
qed

text \<open>A dump of one byte and three zeros, in two lines, each whole in one of two snapshots.\<close>

definition cov_log1 :: string where
  "cov_log1 = ''COV BEGIN raw=4'' @ [nl] @ ''COV:0:BwAD'' @ [nl] @ ''COV:1''"

definition cov_log2 :: string where
  "cov_log2 = ''COV:1:AAAA'' @ [nl] @ ''COV END lines=2'' @ [nl]"

lemmas cov_eval = cov_lines_def cov_number_def cov_line_rx_def cov_begin_rx_def cov_end_rx_def cov_group_def rx_parse rx_run nl_def
  nat_of_digits_def digit_val_def

lemma cov_logs_seen: "cov_lines cov_log1 = [(0, ''BwAD'')]" "cov_lines cov_log2 = [(1, ''AAAA'')]"
  "cov_number cov_begin_rx cov_log1 = Some 4" "cov_number cov_begin_rx cov_log2 = None"
  "cov_number cov_end_rx cov_log1 = None" "cov_number cov_end_rx cov_log2 = Some 2"
  by (simp_all add: cov_log1_def cov_log2_def cov_eval)

text \<open>
  A line cut short is kept: with a first snapshot that ends inside the second line, the whole line of
  the next one is not used, and the dump is lost though all of it was printed.
\<close>

definition cov_log_cut :: string where
  "cov_log_cut = cov_log1 @ '':AA''"

lemma cov_log_cut_seen: "cov_lines cov_log_cut = [(0, ''BwAD''), (1, ''AA'')]" "cov_number cov_begin_rx cov_log_cut = Some 4"
  "cov_number cov_end_rx cov_log_cut = None"
  by (simp_all add: cov_log_cut_def cov_log1_def cov_eval)

lemma cut_line_first: "\<exists>e. cov_decode [cov_log_cut, cov_log2] = Inl e"
proof -
  have d: "collect_dump [cov_log_cut, cov_log2] = \<lparr>du_lines = [(0, ''BwAD''), (1, ''AA'')], du_want = Some 4, du_end = Some 2\<rparr>"
    by (simp add: collect_dump_def scan_log_def cov_log_cut_seen cov_logs_seen setdefault_def or_else_def)
  have "isl (decode_dump \<lparr>du_lines = [(0, ''BwAD''), (1, ''AA'')], du_want = Some 4, du_end = Some 2\<rparr>)"
    by code_simp
  then show ?thesis by (auto simp: cov_decode_def d isl_def)
qed

lemma cov_dump_survives_witness: "cov_decode [cov_log1, cov_log2, cov_log_cut] = Inr [7, 0, 0, 0]"
proof (rule cov_dump_survives [where r = "[7, 0, 3, 0, 0, 0]" and n = 2 and pay = "\<lambda>i. if i = 0 then ''BwAD'' else ''AAAA''"])
  have "codes [0, 3, 0, 0, 0] (replicate (unat (3 :: 32 word)) 0 @ [])"
    using codes.run [OF codes.none, of 3] by simp
  moreover have "unat (3 :: 32 word) = Suc (Suc (Suc 0))" by simp
  ultimately have "codes [0, 3, 0, 0, 0] [0, 0, 0]" by (simp only: replicate.simps append_Cons append_Nil)
  then show "codes [7, 0, 3, 0, 0, 0] [7, 0, 0, 0]" by (rule codes.one [rotated]) simp
  show "concat (map (\<lambda>i. if i = 0 then ''BwAD'' else ''AAAA'') [0..<2]) = b64_text [7, 0, 3, 0, 0, 0]"
    by code_simp
qed (auto simp: cov_logs_seen cov_log_cut_seen first_shown_def less_2_cases_iff)

end
