(* ===== verification/Cost.thy ===== *)
theory Cost
  imports Units
begin

text \<open>
  \<^verbatim>\<open>scripts/bench/cost.py\<close>: what the runs recorded in some CSV files cost. The price of an instance type is
  a parameter (\<open>spot_price\<close> asks EC2 and answers None when anything fails); what is printed is the record
  \<open>bill\<close>. Cells are decimal texts; exponents and the names of infinities are not read.
\<close>

section \<open>Boots\<close>

definition get_per_1000 :: rat where "get_per_1000 = 4 / 10000"
definition cross_az_per_gb :: rat where "cross_az_per_gb = 1 / 100"
definition igw_per_gb :: rat where "igw_per_gb = 9 / 100"
definition boot_s :: rat where "boot_s = 90"
definition min_bill_s :: rat where "min_bill_s = 60"

type_synonym csv_row = "(string \<times> string) list"

text \<open>A file: its name, whether it is one, its rows.\<close>

type_synonym csv_file = "string \<times> bool \<times> csv_row list"

record boot =
  bo_inst :: string
  bo_req :: int
  bo_bytes :: int
  bo_ms :: rat
  bo_rows :: nat

text \<open>\<open>float(r.get(col) or 0)\<close> and \<open>int\<close> of a float.\<close>

definition cell_float :: "csv_row \<Rightarrow> string \<Rightarrow> rat res" where
  "cell_float r col = (case map_of r col of None \<Rightarrow> Inr 0 | Some s \<Rightarrow> if s = [] then Inr 0 else py_float s)"

definition trunc :: "rat \<Rightarrow> int" where
  "trunc x = (if 0 \<le> x then \<lfloor>x\<rfloor> else \<lceil>x\<rceil>)"

definition cell_count :: "csv_row \<Rightarrow> string \<Rightarrow> int" where
  "cell_count r col = (case cell_float r col of Inr x \<Rightarrow> trunc x | Inl _ \<Rightarrow> 0)"

text \<open>The loop over \<open>query_ms\<close> and \<open>elapsed_s\<close>, left after the first that is a number.\<close>

definition row_ms :: "csv_row \<Rightarrow> rat" where
  "row_ms r = (case cell_float r ''query_ms'' of
     Inr v \<Rightarrow> v
   | Inl _ \<Rightarrow> (case cell_float r ''elapsed_s'' of Inr v \<Rightarrow> v * 1000 | Inl _ \<Rightarrow> 0))"

definition text_or :: "csv_row \<Rightarrow> string \<Rightarrow> string \<Rightarrow> string" where
  "text_or r col d = (case map_of r col of None \<Rightarrow> d | Some s \<Rightarrow> if s = [] then d else s)"

definition boot_key :: "string \<Rightarrow> csv_row \<Rightarrow> string \<times> string" where
  "boot_key f r = (f, text_or r ''log'' (text_or r ''instance_id'' ''?''))"

text \<open>\<open>d.setdefault(k, new)\<close>, then an update of that value in place.\<close>

definition upsert :: "'k \<Rightarrow> 'v \<Rightarrow> ('v \<Rightarrow> 'v) \<Rightarrow> ('k \<times> 'v) list \<Rightarrow> ('k \<times> 'v) list" where
  "upsert k new f d = AList.update k (f (case map_of d k of None \<Rightarrow> new | Some v \<Rightarrow> v)) d"

definition new_boot :: "csv_row \<Rightarrow> boot" where
  "new_boot r = \<lparr>bo_inst = (case map_of r ''instance'' of None \<Rightarrow> ''?'' | Some s \<Rightarrow> s), bo_req = 0, bo_bytes = 0, bo_ms = 0, bo_rows = 0\<rparr>"

definition add_row :: "csv_row \<Rightarrow> boot \<Rightarrow> boot" where
  "add_row r g = g\<lparr>bo_rows := bo_rows g + 1, bo_req := bo_req g + cell_count r ''requests'',
     bo_bytes := bo_bytes g + cell_count r ''body_bytes'', bo_ms := bo_ms g + row_ms r\<rparr>"

type_synonym runs = "((string \<times> string) \<times> boot) list"

definition bill_row :: "string \<times> csv_row \<Rightarrow> runs \<Rightarrow> runs" where
  "bill_row = (\<lambda>(f, r). upsert (boot_key f r) (new_boot r) (add_row r))"

definition rows_in :: "csv_file list \<Rightarrow> (string \<times> csv_row) list" where
  "rows_in files = concat (map (\<lambda>(f, is_file, rs). if is_file then map (\<lambda>r. (f, r)) rs else []) files)"

definition boots_of :: "csv_file list \<Rightarrow> runs" where
  "boots_of files = fold bill_row (rows_in files) []"

section \<open>The bill\<close>

record inst_total =
  it_boots :: nat
  it_req :: int
  it_bytes :: int
  it_s :: rat

definition no_total :: inst_total where
  "no_total = \<lparr>it_boots = 0, it_req = 0, it_bytes = 0, it_s = 0\<rparr>"

definition boot_seconds :: "boot \<Rightarrow> rat" where
  "boot_seconds g = max min_bill_s (bo_ms g / 1000 + boot_s)"

definition add_boot :: "boot \<Rightarrow> inst_total \<Rightarrow> inst_total" where
  "add_boot g b = b\<lparr>it_boots := it_boots b + 1, it_req := it_req b + bo_req g, it_bytes := it_bytes b + bo_bytes g,
     it_s := it_s b + boot_seconds g\<rparr>"

definition by_inst :: "runs \<Rightarrow> (string \<times> inst_total) list" where
  "by_inst runs = fold (\<lambda>(k, g). upsert (bo_inst g) no_total (add_boot g)) runs []"

definition blind_boots :: "runs \<Rightarrow> (string \<times> nat) list" where
  "blind_boots runs = fold (\<lambda>((f, l), g). if bo_req g = 0 then upsert f 0 Suc else id) runs []"

definition inst_cost :: "(string \<Rightarrow> rat option) \<Rightarrow> string \<times> inst_total \<Rightarrow> rat" where
  "inst_cost price = (\<lambda>(inst, b). case price inst of None \<Rightarrow> 0 | Some p \<Rightarrow> if p = 0 then 0 else it_s b / 3600 * p)"

record bill =
  bi_insts :: "(string \<times> inst_total) list"
  bi_req :: int
  bi_bytes :: int
  bi_s3 :: rat
  bi_compute :: rat
  bi_total :: rat
  bi_cross_az :: rat
  bi_igw :: rat
  bi_minutes :: rat
  bi_blind :: nat

definition cost_main :: "(string \<Rightarrow> rat option) \<Rightarrow> csv_file list \<Rightarrow> bill" where
  "cost_main price files =
     (let runs = boots_of files; bi = by_inst runs;
          tot_req = sum_list (map (it_req \<circ> snd) bi); tot_b = sum_list (map (it_bytes \<circ> snd) bi);
          s3 = of_int tot_req * get_per_1000 / 1000;
          compute = sum_list (map (inst_cost price) (sort_key fst bi)) in
      \<lparr>bi_insts = sort_key fst bi, bi_req = tot_req, bi_bytes = tot_b, bi_s3 = s3, bi_compute = compute, bi_total = s3 + compute,
        bi_cross_az = of_int tot_b / 10 ^ 9 * cross_az_per_gb * 2, bi_igw = of_int tot_b / 10 ^ 9 * igw_per_gb,
        bi_minutes = sum_list (map (it_s \<circ> snd) bi) / 60, bi_blind = sum_list (map snd (blind_boots runs))\<rparr>)"

section \<open>Sums over a dictionary\<close>

definition total :: "('v \<Rightarrow> 'b :: ab_group_add) \<Rightarrow> ('k \<times> 'v) list \<Rightarrow> 'b" where
  "total m d = sum_list (map (\<lambda>(k, v). m v) d)"

lemma total_simps [simp]: "total m [] = 0" "total m ((k, v) # d) = m v + total m d"
  by (simp_all add: total_def)

lemma upsert_keys: "set (map fst (upsert k new f d)) = insert k (set (map fst d))"
  unfolding upsert_def by (simp add: dom_update)

lemma upsert_distinct: "distinct (map fst d) \<Longrightarrow> distinct (map fst (upsert k new f d))"
  unfolding upsert_def by (rule distinct_update)

lemma update_total:
  "distinct (map fst d) \<Longrightarrow> total m (AList.update k v d) = total m d + m v - (case map_of d k of None \<Rightarrow> 0 | Some u \<Rightarrow> m u)"
proof (induction d)
  case (Cons p d)
  then have "fst p = k \<Longrightarrow> map_of d k = None" by (auto simp: map_of_eq_None_iff)
  with Cons show ?case by (cases p) auto
qed simp

lemma upsert_total:
  assumes "distinct (map fst d)" "\<And>v. m (f v) = m v + a" "m new = 0"
  shows "total m (upsert k new f d) = total m d + a"
  unfolding upsert_def update_total [OF assms(1)] assms(2) by (simp add: assms(3) split: option.splits)

lemma upsert_all:
  assumes "list_all (\<lambda>(k, v). P v) d" "P new" "\<And>v. P v \<Longrightarrow> P (f v)"
  shows "list_all (\<lambda>(k, v). P v) (upsert k new f d)"
proof -
  have "list_all (\<lambda>(k, v). P v) d \<Longrightarrow> P u \<Longrightarrow> list_all (\<lambda>(k, v). P v) (AList.update k u d)" for u
    by (induction d) auto
  moreover have "P (case map_of d k of None \<Rightarrow> new | Some v \<Rightarrow> v)"
    using assms(1,2) by (auto simp: list_all_iff dest!: map_of_SomeD split: option.splits)
  ultimately show ?thesis unfolding upsert_def using assms(1,3) by blast
qed

lemma bill_row_step:
  assumes "distinct (map fst d)"
  shows "distinct (map fst (bill_row (f, r) d))" "set (map fst (bill_row (f, r) d)) = insert (boot_key f r) (set (map fst d))"
    "total bo_req (bill_row (f, r) d) = total bo_req d + cell_count r ''requests''"
    "total bo_bytes (bill_row (f, r) d) = total bo_bytes d + cell_count r ''body_bytes''"
    "total bo_ms (bill_row (f, r) d) = total bo_ms d + row_ms r"
  using assms unfolding bill_row_def prod.case
  by (auto intro!: upsert_distinct upsert_keys upsert_total simp del: set_map simp: add_row_def new_boot_def)

lemma bill_rows:
  "distinct (map fst d) \<Longrightarrow>
   distinct (map fst (fold bill_row rs d)) \<and>
   set (map fst (fold bill_row rs d)) = set (map fst d) \<union> set (map (\<lambda>(f, r). boot_key f r) rs) \<and>
   total bo_req (fold bill_row rs d) = total bo_req d + (\<Sum>(f, r) \<leftarrow> rs. cell_count r ''requests'') \<and>
   total bo_bytes (fold bill_row rs d) = total bo_bytes d + (\<Sum>(f, r) \<leftarrow> rs. cell_count r ''body_bytes'') \<and>
   total bo_ms (fold bill_row rs d) = total bo_ms d + (\<Sum>(f, r) \<leftarrow> rs. row_ms r)"
proof (induction rs arbitrary: d)
  case (Cons p rs)
  obtain f r where p: "p = (f, r)" by fastforce
  note s = bill_row_step [OF Cons.prems, of f r]
  from Cons.IH [OF s(1)] s(2-5) show ?case unfolding p fold_simps o_apply by (simp del: set_map)
qed simp

lemma by_inst_fold:
  "distinct (map fst d) \<Longrightarrow> d' = fold (\<lambda>(k, g). upsert (bo_inst g) no_total (add_boot g)) runs d \<Longrightarrow>
   total it_req d' = total it_req d + total bo_req runs \<and> total it_bytes d' = total it_bytes d + total bo_bytes runs \<and>
   total it_s d' = total it_s d + total boot_seconds runs \<and>
   total (\<lambda>b. int (it_boots b)) d' = total (\<lambda>b. int (it_boots b)) d + int (length runs)"
proof (induction runs arbitrary: d)
  case (Cons p runs)
  obtain k g where p: "p = (k, g)" by fastforce
  let ?d = "upsert (bo_inst g) no_total (add_boot g) d"
  have "distinct (map fst ?d)" using Cons.prems(1) by (rule upsert_distinct)
  moreover have "total it_req ?d = total it_req d + bo_req g" "total it_bytes ?d = total it_bytes d + bo_bytes g"
    "total it_s ?d = total it_s d + boot_seconds g" "total (\<lambda>b. int (it_boots b)) ?d = total (\<lambda>b. int (it_boots b)) d + 1"
    by (rule upsert_total [OF Cons.prems(1)]; simp add: add_boot_def no_total_def)+
  ultimately show ?case using Cons.IH [of ?d] Cons.prems(2) by (simp add: p)
qed simp

lemma boot_seconds_pos: "0 \<le> bo_ms g \<Longrightarrow> boot_seconds g = bo_ms g / 1000 + boot_s"
  by (simp add: boot_seconds_def min_bill_s_def boot_s_def max_def)

lemma boots_nonneg:
  "list_all (\<lambda>(f, r). 0 \<le> row_ms r) rs \<Longrightarrow> list_all (\<lambda>(k, g). 0 \<le> bo_ms g) d \<Longrightarrow> list_all (\<lambda>(k, g). 0 \<le> bo_ms g) (fold bill_row rs d)"
proof (induction rs arbitrary: d)
  case (Cons p rs)
  obtain f r where p: "p = (f, r)" by fastforce
  have "list_all (\<lambda>(k, g). 0 \<le> bo_ms g) (bill_row (f, r) d)" unfolding bill_row_def prod.case
    by (rule upsert_all) (use Cons.prems p in \<open>auto simp: add_row_def new_boot_def\<close>)
  with Cons show ?case by (simp add: p)
qed simp

lemma total_seconds: "list_all (\<lambda>(k, g). 0 \<le> bo_ms g) runs \<Longrightarrow> total boot_seconds runs = total bo_ms runs / 1000 + 90 * of_nat (length runs)"
  by (induction runs) (auto simp: boot_seconds_pos boot_s_def add_divide_distrib algebra_simps)

lemma total_snd: "sum_list (map (m \<circ> snd) d) = total m d"
  by (simp add: total_def case_prod_unfold o_def)

lemma total_sorted: "(\<Sum>(i, t) \<leftarrow> sort_key fst d. m t) = total m d"
  by (simp add: total_def sum_mset_sum_list [symmetric])

section \<open>What is billed\<close>

text \<open>The time a row's query took: its \<open>query_ms\<close>, nothing where that is missing or empty.\<close>

definition query_time :: "csv_row \<Rightarrow> rat" where
  "query_time r = (case cell_float r ''query_ms'' of Inr v \<Rightarrow> v | Inl _ \<Rightarrow> 0)"

definition has_query_time :: "csv_row \<Rightarrow> bool" where
  "has_query_time r \<longleftrightarrow> (case cell_float r ''query_ms'' of Inr v \<Rightarrow> 0 \<le> v | Inl _ \<Rightarrow> False)"

lemma row_ms_query: "has_query_time r \<Longrightarrow> row_ms r = query_time r \<and> 0 \<le> query_time r"
  by (auto simp: has_query_time_def row_ms_def query_time_def split: sum.splits)

text \<open>
  C36. What is billed, of rows whose \<open>query_ms\<close> is a number that is not negative, missing or empty: the
  requests and bytes of the bill are those of all rows of the files, each row once, whatever boots and
  instance types they are spread over; every boot counts once, however many rows it wrote; and the time is
  90 seconds for each boot and the time the rows' queries took, and no more: what a row says in \<open>elapsed_s\<close>
  is not billed, so a boot of a download bench, which has no \<open>query_ms\<close>, is billed 90 seconds however long it
  ran. The minimum of 60 seconds a boot never applies.
\<close>

theorem cost_conserves:
  assumes "list_all (\<lambda>(f, r). has_query_time r) (rows_in files)"
  shows "let b = cost_main price files; boots = card (set (map (\<lambda>(f, r). boot_key f r) (rows_in files))) in
     bi_req b = (\<Sum>(f, r) \<leftarrow> rows_in files. cell_count r ''requests'') \<and>
     bi_bytes b = (\<Sum>(f, r) \<leftarrow> rows_in files. cell_count r ''body_bytes'') \<and>
     (\<Sum>(i, t) \<leftarrow> bi_insts b. int (it_boots t)) = int boots \<and>
     bi_minutes b * 60 = (\<Sum>(f, r) \<leftarrow> rows_in files. query_time r) / 1000 + 90 * of_nat boots \<and>
     bi_total b = of_int (bi_req b) * get_per_1000 / 1000 + bi_compute b"
proof -
  let ?runs = "boots_of files"
  from assms have nonneg: "list_all (\<lambda>(f, r). 0 \<le> row_ms r) (rows_in files)"
    by (auto simp: list_all_iff row_ms_query)
  have times: "(\<Sum>(f, r) \<leftarrow> rows_in files. row_ms r) = (\<Sum>(f, r) \<leftarrow> rows_in files. query_time r)"
    using assms by (intro arg_cong [where f = sum_list] map_cong) (auto simp: list_all_iff row_ms_query)
  from bill_rows [of "[]" "rows_in files"] have runs: "distinct (map fst ?runs)"
    "set (map fst ?runs) = set (map (\<lambda>(f, r). boot_key f r) (rows_in files))"
    "total bo_req ?runs = (\<Sum>(f, r) \<leftarrow> rows_in files. cell_count r ''requests'')"
    "total bo_bytes ?runs = (\<Sum>(f, r) \<leftarrow> rows_in files. cell_count r ''body_bytes'')"
    "total bo_ms ?runs = (\<Sum>(f, r) \<leftarrow> rows_in files. row_ms r)"
    unfolding boots_of_def by simp_all
  have boots: "card (set (map (\<lambda>(f, r). boot_key f r) (rows_in files))) = length ?runs"
    using distinct_card [OF runs(1)] unfolding runs(2) by simp
  have "total boot_seconds ?runs = total bo_ms ?runs / 1000 + 90 * of_nat (length ?runs)"
    unfolding boots_of_def by (rule total_seconds [OF boots_nonneg [OF nonneg]]) simp
  moreover note by_inst_fold [of "[]" "by_inst ?runs" ?runs, OF _ by_inst_def]
  ultimately show ?thesis using runs(3-5) unfolding Let_def boots times [symmetric] cost_main_def bill.select_convs total_snd total_sorted by simp
qed

definition cost_files :: "csv_file list" where
  "cost_files = [(''a.csv'', True, [[(''log'', ''l''), (''instance'', ''m5''), (''requests'', ''10''), (''query_ms'', ''1500''), (''elapsed_s'', ''3600'')],
     [(''log'', ''l''), (''instance'', ''m5''), (''requests'', ''5''), (''elapsed_s'', ''3600'')]])]"

lemma cost_files_rows: "rows_in cost_files = map (Pair ''a.csv'') [[(''log'', ''l''), (''instance'', ''m5''), (''requests'', ''10''), (''query_ms'', ''1500''), (''elapsed_s'', ''3600'')],
     [(''log'', ''l''), (''instance'', ''m5''), (''requests'', ''5''), (''elapsed_s'', ''3600'')]]"
  by (simp add: rows_in_def cost_files_def)

lemmas cost_cells = cell_float_def py_float_def strip_def is_space_def in_ranges_def space_ranges_def
  all_digits_def is_digit_def nat_of_digits_def digit_val_def Let_def

lemma cost_conserves_witness: "bi_req (cost_main (\<lambda>i. None) cost_files) = 15 \<and> bi_minutes (cost_main (\<lambda>i. None) cost_files) * 60 = 3 / 2 + 90"
proof -
  have "list_all (\<lambda>(f, r). has_query_time r) (rows_in cost_files)"
    unfolding cost_files_rows by (simp add: has_query_time_def cost_cells)
  from cost_conserves [OF this, of "\<lambda>i. None"] show ?thesis unfolding Let_def cost_files_rows
    by (simp add: cell_count_def query_time_def cost_cells boot_key_def text_or_def trunc_def)
qed

text \<open>
  Elapsed times are never billed: in a row whose \<open>query_ms\<close> is a number, missing or empty (as it is in
  every row of the download benches), the loop over the two columns is left before \<open>elapsed_s\<close> is read. Files
  without those cells get the same bill, however long their runs took.
\<close>

theorem cost_ignores_elapsed:
  assumes "list_all (\<lambda>(f, is_file, rs). list_all (\<lambda>r. \<exists>v. cell_float r ''query_ms'' = Inr v) rs) files"
  shows "cost_main price (map (\<lambda>(f, is_file, rs). (f, is_file, map (dict_del ''elapsed_s'') rs)) files) = cost_main price files"
proof -
  have get: "map_of (dict_del ''elapsed_s'' r) k = map_of r k" if "k \<noteq> ''elapsed_s''" for r :: csv_row and k
    using that by (simp add: map_of_dict_del)
  have same: "bill_row (f, dict_del ''elapsed_s'' r) d = bill_row (f, r) d" if "\<exists>v. cell_float r ''query_ms'' = Inr v" for f r d
  proof -
    have "cell_float (dict_del ''elapsed_s'' r) k = cell_float r k" if "k \<noteq> ''elapsed_s''" for k
      using that by (simp add: cell_float_def get)
    then have "add_row (dict_del ''elapsed_s'' r) = add_row r"
      using that by (auto simp: fun_eq_iff add_row_def cell_count_def row_ms_def)
    moreover have "text_or (dict_del ''elapsed_s'' r) k u = text_or r k u" if "k \<noteq> ''elapsed_s''" for k u
      using that by (simp add: text_or_def get)
    ultimately show ?thesis by (simp add: bill_row_def boot_key_def new_boot_def get)
  qed
  have "fold bill_row (rows_in (map (\<lambda>(f, is_file, rs). (f, is_file, map (dict_del ''elapsed_s'') rs)) files)) d = fold bill_row (rows_in files) d" for d
    using assms
  proof (induction files arbitrary: d)
    case (Cons x files)
    obtain f b rs where x: "x = (f, b, rs)" by (cases x) auto
    have "list_all (\<lambda>r. \<exists>v. cell_float r ''query_ms'' = Inr v) rs \<Longrightarrow>
        fold bill_row (map (\<lambda>r. (f, dict_del ''elapsed_s'' r)) rs) d = fold bill_row (map (\<lambda>r. (f, r)) rs) d" for d
      by (induction rs arbitrary: d) (simp_all add: same)
    with Cons show ?case by (simp add: x rows_in_def o_def)
  qed (simp add: rows_in_def)
  then show ?thesis by (simp add: cost_main_def boots_of_def)
qed

lemma cost_ignores_elapsed_witness:
  "cost_main price (map (\<lambda>(f, is_file, rs). (f, is_file, map (dict_del ''elapsed_s'') rs)) cost_files) = cost_main price cost_files"
  by (rule cost_ignores_elapsed) (simp add: cost_files_def cost_cells)

end
