(* ===== verification/NginxCmd.thy ===== *)
theory NginxCmd
  imports HttpRun
begin

text \<open>
  \<^verbatim>\<open>scripts/bench/nginx-server.py\<close>: a server kept running between experiments, recorded in
  \<^verbatim>\<open>results/http/nginx-server.json\<close>; \<open>verify_external\<close> reads that record before a run dials the server.
\<close>

section \<open>The record\<close>

record nginx_state =
  ns_iid :: string
  ns_ip :: string
  ns_zone :: "string option"
  ns_instance :: string
  ns_size :: string

text \<open>The host and the state file; \<open>sh_load\<close> is None when there is none to read.\<close>

record 'w shed =
  sh_host :: "'w host"
  sh_load :: "'w \<Rightarrow> nginx_state option"
  sh_store :: "nginx_state \<Rightarrow> 'w \<Rightarrow> 'w"
  sh_unlink :: "'w \<Rightarrow> 'w"

datatype neff = OnHost heff | StoredServer nginx_state | RemovedServer | Told string

type_synonym ('w, 'a) n = "('w bworld, neff, 'a) io"

record nargs =
  na_instance :: string
  na_client :: "string option"
  na_size :: string
  na_workers :: string
  na_market :: string

section \<open>The commands\<close>

definition nginx_load :: "'w shed \<Rightarrow> ('w, nginx_state option) n" where
  "nginx_load s = io_ask (\<lambda>w. sh_load s (bw_os w))"

definition nginx_live :: "'w shed \<Rightarrow> string \<Rightarrow> ('w, bool) n" where
  "nginx_live s iid =
     io_catch (io_lift OnHost (api (io_bind (io_bind (describe_instances (h_ec2 (sh_host s)) [iid]) first_instance)
         (\<lambda>i. io_ret (in_state i \<in> {''pending'', ''running''})))))
       (\<lambda>e. if is_system_exit e then None else Some (io_ret False))"

definition on_state :: "neff \<Rightarrow> ('w \<Rightarrow> 'w) \<Rightarrow> ('w, unit) n" where
  "on_state e f = io_call e (\<lambda>w. (Inr (), w\<lparr>bw_os := f (bw_os w)\<rparr>))"

definition nginx_launch :: "'w shed \<Rightarrow> nargs \<Rightarrow> ('w, int) n" where
  "nginx_launch s a =
     (let h = sh_host s;
          sv = new_server (na_instance a) (na_market a) (na_size a) (na_workers a) (Some (if given (na_client a) then the (na_client a) else na_instance a)) in
      io_bind (io_lift OnHost (server_start h (h_root h @ ''/results/http/logs'') sv)) (\<lambda>ip.
      io_bind (io_ask bw_server) (\<lambda>held.
      io_bind (io_res (res_bind (of_option TypeErr held) (\<lambda>srv. of_option TypeErr (map_option (Pair srv) (sv_iid srv))))) (\<lambda>(srv, iid).
      io_seq (on_state (StoredServer \<lparr>ns_iid = iid, ns_ip = ip, ns_zone = sv_zone srv, ns_instance = na_instance a, ns_size = na_size a\<rparr>)
          (sh_store s \<lparr>ns_iid = iid, ns_ip = ip, ns_zone = sv_zone srv, ns_instance = na_instance a, ns_size = na_size a\<rparr>))
        (io_ret 0)))))"

definition nginx_start :: "'w shed \<Rightarrow> nargs \<Rightarrow> ('w, int) n" where
  "nginx_start s a =
     io_bind (nginx_load s) (\<lambda>old. case old of
       None \<Rightarrow> nginx_launch s a
     | Some o' \<Rightarrow> io_bind (nginx_live s (ns_iid o')) (\<lambda>up.
         if up then io_seq (io_emit (Told (''already running: '' @ ns_iid o' @ '' at '' @ ns_ip o' @ '' ('' @ show_opt (ns_zone o') @ '')''))) (io_ret 1)
         else nginx_launch s a))"

definition nginx_status :: "'w shed \<Rightarrow> ('w, int) n" where
  "nginx_status s =
     io_bind (nginx_load s) (\<lambda>old. case old of
       None \<Rightarrow> io_seq (io_emit (Told ''no server recorded'')) (io_ret 1)
     | Some o' \<Rightarrow> io_bind (nginx_live s (ns_iid o')) (\<lambda>up.
         io_seq (io_emit (Told (ns_iid o' @ '' at '' @ ns_ip o' @ '' in '' @ show_opt (ns_zone o') @ '' ('' @ ns_instance o' @ '', blob ''
           @ ns_size o' @ ''): '' @ (if up then ''RUNNING'' else ''gone'')))) (io_ret 0)))"

definition nginx_stop :: "'w shed \<Rightarrow> ('w, int) n" where
  "nginx_stop s =
     io_bind (nginx_load s) (\<lambda>old. case old of
       None \<Rightarrow> io_seq (io_emit (Told ''no server recorded'')) (io_ret 1)
     | Some o' \<Rightarrow>
         io_seq (io_lift OnHost (api (terminate (h_ec2 (sh_host s)) [Some (ns_iid o')])))
         (io_seq (io_emit (Told (''terminated '' @ ns_iid o')))
         (io_seq (on_state RemovedServer (sh_unlink s)) (io_ret 0))))"

section \<open>A server started is one that can be dialled\<close>

lemma server_wait_Inr:
  assumes "server_wait h logdir sv iid zone w = (Inr ip, w', es)"
  shows "ip \<noteq> [] \<and> bw_server w' = Some (sv\<lparr>sv_iid := Some iid, sv_zone := Some zone, sv_ip := Some ip\<rparr>)"
  using assms unfolding server_wait_def Let_def
  by (auto elim!: io_seq_InrE io_bind_InrE simp: put_world_def io_ret_def io_raise_def sys_exit_def given_def split: option.splits if_splits)

lemma server_start_Inr:
  assumes "server_start h logdir sv w = (Inr ip, w', es)"
  obtains iid zone where "ip \<noteq> []" "bw_server w' = Some (sv\<lparr>sv_iid := Some iid, sv_zone := Some zone, sv_ip := Some ip\<rparr>)"
  using assms unfolding server_start_def
  by (auto elim!: io_seq_InrE io_bind_InrE dest!: server_wait_Inr split: prod.splits)

lemma nginx_launch_Inr:
  assumes "nginx_launch s a w = (Inr x, w', es)"
  obtains srv iid ip u where "bw_server w' = Some srv" "sv_iid srv = Some iid" "sv_ip srv = Some ip" "ip \<noteq> []"
    "bw_os w' = sh_store s \<lparr>ns_iid = iid, ns_ip = ip, ns_zone = sv_zone srv, ns_instance = na_instance a, ns_size = na_size a\<rparr> u"
proof -
  from assms obtain sv ip w1 cs1 srv iid cs2 where
    start: "io_lift OnHost (server_start (sh_host s) (h_root (sh_host s) @ ''/results/http/logs'') sv) w = (Inr ip, w1, cs1)"
    and held: "bw_server w1 = Some srv" "sv_iid srv = Some iid"
    and put: "on_state (StoredServer \<lparr>ns_iid = iid, ns_ip = ip, ns_zone = sv_zone srv, ns_instance = na_instance a, ns_size = na_size a\<rparr>)
          (sh_store s \<lparr>ns_iid = iid, ns_ip = ip, ns_zone = sv_zone srv, ns_instance = na_instance a, ns_size = na_size a\<rparr>) w1 = (Inr (), w', cs2)"
    unfolding nginx_launch_def Let_def
    by (auto elim!: io_seq_InrE io_bind_InrE simp: io_ask_def io_ret_def io_res_def io_raise_def of_option_def res_bind_Inr split: option.splits sum.splits)
  from start obtain cs where "server_start (sh_host s) (h_root (sh_host s) @ ''/results/http/logs'') sv w = (Inr ip, w1, cs)"
    by (auto simp: io_lift_def split: prod.splits)
  then obtain iid' zone where "ip \<noteq> []" "bw_server w1 = Some (sv\<lparr>sv_iid := Some iid', sv_zone := Some zone, sv_ip := Some ip\<rparr>)"
    by (rule server_start_Inr)
  with held put that [of srv iid ip "bw_os w1"] show ?thesis by (auto simp: on_state_def io_call_def)
qed

lemma verify_external_accepts:
  assumes "h_record h (bw_os w) = Some (iid, ip)" "ec2_describe_instances (h_ec2 h) [iid] (bw_os w) = (Inr ((i # is) # res), u)"
    and "in_state i = ''running''" "in_private_ip i = Some ip" "ip_address ip = Some a" "in_zone i \<noteq> []"
  shows "\<exists>w' es. verify_external h ip (Some (in_zone i)) w = (Inr (), w', es)"
  using assms
  by (auto simp: verify_external_def recorded_server_def check_recorded_def given_def io_defs on_host_def api_def io_lift_def
      describe_instances_def first_instance_def)

text \<open>
  C30. A server the command started can be dialled: when it returns 0, the state file names the server that the
  command launched, by its id, its address and its zone; and as long as EC2 describes that instance as running
  under the address in that zone, the check that the drivers make before they dial it passes with
  \<open>BENCH_ZONE\<close> set as the command says.
\<close>

theorem nginx_start_dialled:
  assumes start: "nginx_start s a w = (Inr 0, w', es)"
    and store: "\<And>n u. sh_load s (sh_store s n u) = Some n"
    and same: "\<And>u. h_record (sh_host s) u = map_option (\<lambda>n. (ns_iid n, ns_ip n)) (sh_load s u)"
  shows "\<exists>n srv. sh_load s (bw_os w') = Some n \<and> bw_server w' = Some srv \<and>
     sv_iid srv = Some (ns_iid n) \<and> sv_ip srv = Some (ns_ip n) \<and> sv_zone srv = ns_zone n \<and>
     (\<forall>i is res u a. ec2_describe_instances (h_ec2 (sh_host s)) [ns_iid n] (bw_os w') = (Inr ((i # is) # res), u) \<and>
        in_state i = ''running'' \<and> in_private_ip i = Some (ns_ip n) \<and> ns_zone n = Some (in_zone i) \<and> in_zone i \<noteq> [] \<and>
        ip_address (ns_ip n) = Some a \<longrightarrow>
        (\<exists>w2 cs. verify_external (sh_host s) (ns_ip n) (ns_zone n) w' = (Inr (), w2, cs)))"
proof -
  from start obtain w1 cs where "nginx_launch s a w1 = (Inr 0, w', cs)"
    by (auto simp: nginx_start_def io_ret_def io_seq_def io_emit_def elim!: io_bind_InrE split: option.splits if_splits)
  then obtain srv iid ip u where l: "bw_server w' = Some srv" "sv_iid srv = Some iid" "sv_ip srv = Some ip"
    "bw_os w' = sh_store s \<lparr>ns_iid = iid, ns_ip = ip, ns_zone = sv_zone srv, ns_instance = na_instance a, ns_size = na_size a\<rparr> u"
    by (rule nginx_launch_Inr)
  let ?n = "\<lparr>ns_iid = iid, ns_ip = ip, ns_zone = sv_zone srv, ns_instance = na_instance a, ns_size = na_size a\<rparr>"
  have load: "sh_load s (bw_os w') = Some ?n" using l(4) store by simp
  have "\<exists>w2 cs. verify_external (sh_host s) ip (Some (in_zone i)) w' = (Inr (), w2, cs)"
    if "ec2_describe_instances (h_ec2 (sh_host s)) [iid] (bw_os w') = (Inr ((i # is) # res), u)"
      "in_state i = ''running''" "in_private_ip i = Some ip" "in_zone i \<noteq> []" "ip_address ip = Some a" for i "is" res u a
    by (rule verify_external_accepts [OF _ that(1,2,3,5,4)]) (simp add: same load)
  with load l show ?thesis by (intro exI [of _ ?n] exI [of _ srv]) auto
qed

section \<open>A scripted shed\<close>

definition shed_inst :: inst where
  "shed_inst = \<lparr>in_id = ''i-1'', in_state = ''running'', in_reason = None, in_type = ''m5.large'', in_launch = 0,
     in_private_ip = Some ''10.0.0.1'', in_zone = ''1b''\<rparr>"

definition shed_ec2 :: "nginx_state option ec2" where
  "shed_ec2 = \<lparr>ec2_describe_subnet = (\<lambda>s w. (Inr [\<lparr>sn_id = s, sn_az = ''1b'', sn_vpc = ''v''\<rparr>], w)),
     ec2_default_subnets = (\<lambda>v w. (Inr [], w)), ec2_run_instances = (\<lambda>kw w. (Inr [shed_inst], w)),
     ec2_describe_instances = (\<lambda>ids w. (Inr [[shed_inst]], w)), ec2_terminate = (\<lambda>ids w. (Inr (), w)),
     ec2_spot_of = (\<lambda>ids w. (Inr [], w)), ec2_spot_open = (\<lambda>w. (Inr [], w)), ec2_cancel_spot = (\<lambda>ids w. (Inr (), w)),
     s3_location = (\<lambda>b w. (Inr None, w)), error_text = (\<lambda>e. ''error''), wall_clock = (\<lambda>w. 0), pause = (\<lambda>d w. w)\<rparr>"

definition shed0 :: "nginx_state option shed" where
  "shed0 = \<lparr>sh_host = \<lparr>h_ec2 = shed_ec2, h_env = (\<lambda>k. Some k), h_root = ''/r'', h_source = (\<lambda>p. []), h_python = ''python3'', h_cpus = 8,
       h_json = (\<lambda>x. ''{}''), h_gzip = (\<lambda>s. s), h_console = (\<lambda>i u. (Inr ''SERVER READY ip=10.0.0.1'', u)), h_live = (\<lambda>t u. (Inr [], u)),
       h_now = (\<lambda>u. (0, u)), h_sleep = (\<lambda>d u. u), h_run = (\<lambda>c e u. ((0, []), u)), h_head = (\<lambda>k u. (Inr (), u)), h_ami = (\<lambda>u. (Inr ''ami'', u)),
       h_zones = (\<lambda>u. (Inr [], u)), h_scores = (\<lambda>i u. (Inr [], u)), h_record = map_option (\<lambda>n. (ns_iid n, ns_ip n)), h_spawn = (\<lambda>c f u. (Inr 7, u)),
       h_poll = (\<lambda>p u. (None, u)), h_read = (\<lambda>f u. (Inr [], u)), h_killpg = (\<lambda>p s u. u), h_wait = (\<lambda>p d u. (True, u))\<rparr>,
     sh_load = id, sh_store = (\<lambda>n u. Some n), sh_unlink = (\<lambda>u. None)\<rparr>"

definition nargs0 :: nargs where
  "nargs0 = \<lparr>na_instance = ''m5.large'', na_client = None, na_size = ''50G'', na_workers = ''auto'', na_market = ''on-demand''\<rparr>"

definition shed_bench :: "nginx_state option bworld" where
  "shed_bench = \<lparr>bw_os = None, bw_built = False, bw_zone = None, bw_server = None, bw_checked = [], bw_bin_ready = True\<rparr>"

lemma ready_found: "map_option (group 1) (rx_search ready_rx ''SERVER READY ip=10.0.0.1'') = Some (Some ''10.0.0.1'')"
  by (simp add: ready_rx_def rx_parse rx_run)

lemmas shed_eval = shed0_def shed_ec2_def shed_inst_def shed_bench_def io_defs io_res_def api_def on_host_def io_lift_def
  need_env_def of_option_def env_get_def given_def Let_def

lemma shed_zones: "spot_ranked_zones (sh_host shed0) k shed_bench = (Inr [''1b''], shed_bench, io_effects (spot_ranked_zones (sh_host shed0) k shed_bench))"
  by (simp add: spot_ranked_zones_def shed_eval spot_subnets_def zones_by_hand_def)

lemma shed_launched:
  assumes "kw_subnet kw = Some k" "k \<noteq> []"
  shows "\<exists>es. launch_in_zones (sh_host shed0) kw ''on-demand'' [''1b''] shed_bench = (Inr ([shed_inst], ''on-demand'', ''1b''), shed_bench, es)"
  using assms by (simp add: shed_eval spot_subnets_def launch_def launch_in_def on_demand_def)

lemma shed_polled: "\<exists>es. poll_server (Suc n) (sh_host shed0) i f 600 [] (shed_bench\<lparr>bw_server := s\<rparr>) =
    (Inr (Some (Some ''10.0.0.1'')), shed_bench\<lparr>bw_server := s\<rparr>, es)"
proof -
  obtain m where m: "rx_search ready_rx ''SERVER READY ip=10.0.0.1'' = Some m" "group 1 m = Some ''10.0.0.1''"
    using ready_found by auto
  show ?thesis
    by (simp add: shed_eval host_now_def nap_def read_console_def write_log_def m m(2) [unfolded One_nat_def])
qed

lemma shed_now: "host_now (sh_host shed0) w = (Inr 0, w, [])"
  by (simp add: host_now_def on_host_def shed0_def)

definition shed_server :: server where
  "shed_server = (new_server ''m5.large'' ''on-demand'' ''50G'' ''auto'' (Some ''m5.large''))
     \<lparr>sv_iid := Some ''i-1'', sv_zone := Some ''1b'', sv_ip := Some ''10.0.0.1''\<rparr>"

lemma shed_waited: "\<exists>es. server_wait (sh_host shed0) d (new_server ''m5.large'' ''on-demand'' ''50G'' ''auto'' (Some ''m5.large'')) ''i-1'' ''1b'' shed_bench =
    (Inr ''10.0.0.1'', shed_bench\<lparr>bw_server := Some shed_server\<rparr>, es)"
proof -
  let ?sv = "(new_server ''m5.large'' ''on-demand'' ''50G'' ''auto'' (Some ''m5.large''))\<lparr>sv_iid := Some ''i-1'', sv_zone := Some ''1b''\<rparr>"
  have fuel: "poll_fuel 10 ready_s = Suc 60" "0 + of_int ready_s = (600 :: rat)" by (simp_all add: poll_fuel_def ready_s_def)
  have put: "\<exists>es. put_world f w = (Inr (), f w, es)" for f and w :: "nginx_state option bworld" by (simp add: put_world_def)
  have now: "\<exists>es. host_now (sh_host shed0) w = (Inr 0, w, es)" for w by (simp add: shed_now)
  have up: "\<exists>es. io_bind (put_world (\<lambda>w. w\<lparr>bw_server := Some (?sv\<lparr>sv_ip := Some ''10.0.0.1''\<rparr>)\<rparr>)) (\<lambda>_. io_ret (the (Some ''10.0.0.1'')))
      (shed_bench\<lparr>bw_server := Some ?sv\<rparr>) = (Inr ''10.0.0.1'', shed_bench\<lparr>bw_server := Some shed_server\<rparr>, es)"
    by (rule bind_returns, rule put) (simp add: io_ret_def shed_server_def)
  show ?thesis
    unfolding server_wait_def Let_def io_seq_def fuel
    apply (rule bind_returns, rule put)
    apply (rule bind_returns, rule now)
    unfolding fuel
    apply (rule bind_returns, rule shed_polled)
    using up by (simp add: given_def)
qed

lemma shed_env: "need_env (sh_host shed0) k = Inr k"
  by (simp add: need_env_def of_option_def shed0_def)

lemma shed_kwargs: "\<exists>kw. server_kwargs (sh_host shed0) sv ami = Inr kw \<and> kw_subnet kw = Some ''AWS_SUBNET''"
proof -
  have "without_shebang (h_source (sh_host shed0) f) = Inr []" for f by (simp add: shed0_def without_shebang_def)
  then show ?thesis by (simp add: server_kwargs_def server_user_data_def server_conf_def shed_env res_bind_def)
qed

lemma shed_started: "\<exists>es. server_start (sh_host shed0) d (new_server ''m5.large'' ''on-demand'' ''50G'' ''auto'' (Some ''m5.large'')) shed_bench =
    (Inr ''10.0.0.1'', shed_bench\<lparr>bw_server := Some shed_server\<rparr>, es)"
proof -
  let ?sv = "new_server ''m5.large'' ''on-demand'' ''50G'' ''auto'' (Some ''m5.large'')"
  have bin: "\<exists>es. ensure_binary (sh_host shed0) shed_bench = (Inr (), shed_bench, es)"
    by (simp add: ensure_binary_def io_bind_def io_ask_def io_ret_def shed_bench_def)
  have ami: "\<exists>es. on_host (io_call AskAmi (h_ami (sh_host shed0))) shed_bench = (Inr ''ami'', shed_bench, es)" by (simp add: shed_eval)
  have env: "\<exists>es. io_res (need_env (sh_host shed0) k) shed_bench = (Inr k, shed_bench, es)" for k by (simp add: shed_eval)
  obtain kw where kws: "server_kwargs (sh_host shed0) ?sv ''ami'' = Inr kw" and subnet: "kw_subnet kw = Some ''AWS_SUBNET''"
    using shed_kwargs by blast
  have kw: "\<exists>es. io_res (server_kwargs (sh_host shed0) ?sv ''ami'') shed_bench = (Inr kw, shed_bench, es)" using kws by (simp add: io_res_def io_ret_def)
  have zones: "\<exists>es. spot_ranked_zones (sh_host shed0) k shed_bench = (Inr [''1b''], shed_bench, es)" for k
    by (rule exI, rule shed_zones)
  have launched: "\<exists>es. launch_in_zones (sh_host shed0) kw (sv_market ?sv) [''1b''] shed_bench = (Inr ([shed_inst], ''on-demand'', ''1b''), shed_bench, es)"
    using shed_launched [OF subnet] by (simp add: new_server_def)
  have first: "\<exists>es. io_res (first_id [shed_inst]) shed_bench = (Inr ''i-1'', shed_bench, es)" by (simp add: io_res_def io_ret_def first_id_def shed_inst_def)
  have last: "\<exists>es. (case ([shed_inst], ''on-demand'', ''1b'') of (is, mk, zone) \<Rightarrow> io_bind (io_res (first_id is)) (\<lambda>iid. server_wait (sh_host shed0) d ?sv iid zone)) shed_bench
      = (Inr ''10.0.0.1'', shed_bench\<lparr>bw_server := Some shed_server\<rparr>, es)"
    unfolding prod.case by (rule bind_returns, rule first, rule shed_waited)
  show ?thesis
    unfolding server_start_def io_seq_def
    apply (rule bind_returns, rule bin)
    apply (rule bind_returns, rule env)
    apply (rule bind_returns, rule ami)
    apply (rule bind_returns, rule kw)
    apply (rule bind_returns, rule zones)
    apply (rule bind_returns, rule launched)
    apply (rule last)
    done
qed

lemma shed_runs: "\<exists>w' es. nginx_start shed0 nargs0 shed_bench = (Inr 0, w', es)"
proof -
  have load: "nginx_load shed0 shed_bench = (Inr None, shed_bench, [])" by (simp add: nginx_load_def shed0_def shed_bench_def io_ask_def)
  obtain es where "server_start (sh_host shed0) (h_root (sh_host shed0) @ ''/results/http/logs'')
      (new_server ''m5.large'' ''on-demand'' ''50G'' ''auto'' (Some ''m5.large'')) shed_bench = (Inr ''10.0.0.1'', shed_bench\<lparr>bw_server := Some shed_server\<rparr>, es)"
    using shed_started by blast
  then have "\<exists>es. io_lift OnHost (server_start (sh_host shed0) (h_root (sh_host shed0) @ ''/results/http/logs'')
      (new_server ''m5.large'' ''on-demand'' ''50G'' ''auto'' (Some ''m5.large''))) shed_bench = (Inr ''10.0.0.1'', shed_bench\<lparr>bw_server := Some shed_server\<rparr>, es)"
    by (simp add: io_lift_def)
  then have "\<exists>w' es. nginx_launch shed0 nargs0 shed_bench = (Inr 0, w', es)"
    by (auto simp: nginx_launch_def nargs0_def given_def io_bind_def io_ask_def io_res_def res_bind_def of_option_def io_ret_def io_seq_def
        on_state_def io_call_def shed_server_def new_server_def Let_def)
  with load show ?thesis by (simp add: nginx_start_def io_bind_def)
qed

theorem nginx_start_dialled_witness:
  "\<exists>w' es n srv. nginx_start shed0 nargs0 shed_bench = (Inr 0, w', es) \<and> sh_load shed0 (bw_os w') = Some n \<and> bw_server w' = Some srv \<and>
     sv_iid srv = Some (ns_iid n) \<and> sv_ip srv = Some (ns_ip n)"
proof -
  obtain w' es where run: "nginx_start shed0 nargs0 shed_bench = (Inr 0, w', es)" using shed_runs by blast
  have "sh_load shed0 (sh_store shed0 n u) = Some n" "h_record (sh_host shed0) u = map_option (\<lambda>n. (ns_iid n, ns_ip n)) (sh_load shed0 u)" for n u
    by (simp_all add: shed0_def)
  from nginx_start_dialled [OF run this] run show ?thesis by blast
qed

end
