(* ===== verification/Guest.thy ===== *)
theory Guest
  imports Logs
begin

text \<open>
  \<^verbatim>\<open>competitors/common/instance_prelude.py\<close>: what the programs that run on the Linux instances share.
  The machine is the record \<open>box\<close>: its files, its tools, its clock and the network. Every line the program
  says, tool it runs and file it writes is an effect, in order.
\<close>

section \<open>The machine\<close>

text \<open>
  \<open>bx_run\<close> is \<open>subprocess.run\<close> of a command with an input, \<open>bx_stream\<close> a process read line by line with its
  exit code, \<open>bx_fetch\<close> a download to a file with its size. A file that cannot be read is None.
\<close>

record proc =
  pr_code :: int
  pr_out :: string
  pr_err :: string

record 'w box =
  bx_config :: "(string \<times> string) list"
  bx_environ :: "string \<Rightarrow> string option"
  bx_run :: "string list \<Rightarrow> string \<Rightarrow> 'w \<Rightarrow> (exn + proc) \<times> 'w"
  bx_stream :: "string list \<Rightarrow> (string \<times> string) list \<Rightarrow> 'w \<Rightarrow> (exn + string list \<times> int) \<times> 'w"
  bx_read :: "string \<Rightarrow> 'w \<Rightarrow> string option"
  bx_write :: "string \<Rightarrow> string \<Rightarrow> 'w \<Rightarrow> bool \<times> 'w"
  bx_dir :: "string \<Rightarrow> 'w \<Rightarrow> string list option"
  bx_mkdir :: "string \<Rightarrow> 'w \<Rightarrow> (exn + unit) \<times> 'w"
  bx_fetch :: "string \<Rightarrow> string \<Rightarrow> 'w \<Rightarrow> (exn + int) \<times> 'w"
  bx_chmod :: "string \<Rightarrow> 'w \<Rightarrow> (exn + unit) \<times> 'w"
  bx_imds :: "string \<Rightarrow> 'w \<Rightarrow> string option \<times> 'w"
  bx_resolve :: "string \<Rightarrow> 'w \<Rightarrow> (exn + string) \<times> 'w"
  bx_clock :: "'w \<Rightarrow> rat \<times> 'w"
  bx_append :: "string \<Rightarrow> string \<Rightarrow> 'w \<Rightarrow> (exn + unit) \<times> 'w"
  bx_nap :: "rat \<Rightarrow> 'w \<Rightarrow> 'w"
  bx_release :: string
  bx_cpus :: int
  bx_hz :: int
  bx_error :: "exn \<Rightarrow> string"

datatype geff = Say string | Printed string | Ran "string list" | Pulled string | Streamed "string list" "(string \<times> string) list" | Wrote string string | Removed string
  | Appended string string
  | MadeDir string | SetEnv string string | Downloaded string string | Chmod string | KilledProc int | AskedImds string | Resolved string | Slept rat

type_synonym ('w, 'a) gu = "('w, geff, 'a) io"

section \<open>Text\<close>

text \<open>\<open>str.splitlines\<close>, on the code points below 256.\<close>

definition line_end :: "char \<Rightarrow> bool" where
  "line_end c = (of_char c \<in> {10, 11, 12, 13, 28, 29, 30, 133 :: nat})"

fun splitlines :: "string \<Rightarrow> string list" where
  "splitlines [] = []"
| "splitlines (c # s) =
     (if line_end c
      then [] # (case s of [] \<Rightarrow> [] | d # s' \<Rightarrow> if c = CHR 0x0D \<and> d = nl then splitlines s' else splitlines (d # s'))
      else (case splitlines s of [] \<Rightarrow> [[c]] | l # ls \<Rightarrow> (c # l) # ls))"

text \<open>\<open>s.partition(c)\<close>, without the separator.\<close>

definition parted :: "char \<Rightarrow> string \<Rightarrow> string \<times> string" where
  "parted c s = (takeWhile (\<lambda>d. d \<noteq> c) s, tl (dropWhile (\<lambda>d. d \<noteq> c) s))"

text \<open>\<open>f[f.index(w) + 1]\<close> of a list that has \<open>w\<close>.\<close>

definition word_after :: "string \<Rightarrow> string list \<Rightarrow> string res" where
  "word_after w ws = (case dropWhile (\<lambda>x. x \<noteq> w) ws of _ # y # _ \<Rightarrow> Inr y | _ \<Rightarrow> Inl IndexErr)"

text \<open>\<open>'{:.kf}'\<close>, on the rational number, a tie to the even digit; \<open>'{:<n}'\<close>, \<open>'{:>n}'\<close>, \<open>'{:+nd}'\<close>; \<open>format(n, 'x')\<close>.\<close>

definition fixed_point :: "nat \<Rightarrow> rat \<Rightarrow> string" where
  "fixed_point k r =
     (let m = nat (round_even (\<bar>r\<bar> * 10 ^ k)) in
      (if r < 0 then ''-'' else []) @ show_nat (m div 10 ^ k) @ (if k = 0 then [] else ''.'' @ pad k (int (m mod 10 ^ k))))"

definition to_left :: "nat \<Rightarrow> string \<Rightarrow> string" where
  "to_left n s = s @ replicate (n - length s) CHR '' ''"

definition to_right :: "nat \<Rightarrow> string \<Rightarrow> string" where
  "to_right n s = replicate (n - length s) CHR '' '' @ s"

definition signed :: "int \<Rightarrow> string" where
  "signed i = (if 0 \<le> i then ''+'' else []) @ show_int i"

definition hex_digit :: "nat \<Rightarrow> char" where
  "hex_digit d = char_of (if d < 10 then 48 + d else 87 + d)"

fun show_hex :: "nat \<Rightarrow> string" where
  "show_hex n = (if n < 16 then [hex_digit n] else show_hex (n div 16) @ [hex_digit (n mod 16)])"

declare show_hex.simps [simp del]

text \<open>A text with tildes for apostrophes.\<close>

definition apos :: "string \<Rightarrow> string" where
  "apos s = map (\<lambda>c. if c = CHR ''~'' then CHR 0x27 else c) s"

section \<open>Configuration and speech\<close>

text \<open>\<open>cfg\<close>: what the driver put ahead of the program, else the environment.\<close>

definition guest_cfg :: "'w box \<Rightarrow> string \<Rightarrow> string \<Rightarrow> string" where
  "guest_cfg b k d = (case map_of (bx_config b) k of
     Some v \<Rightarrow> v
   | None \<Rightarrow> (case bx_environ b k of Some v \<Rightarrow> v | None \<Rightarrow> d))"

definition is_local :: "'w box \<Rightarrow> bool" where
  "is_local b = (guest_cfg b ''BENCH_LOCAL'' ''0'' = ''1'')"

definition work_dir :: "'w box \<Rightarrow> string" where
  "work_dir b = guest_cfg b ''BENCH_WORK'' ''/run''"

definition s3_host :: "'w box \<Rightarrow> string" where
  "s3_host b = guest_cfg b ''AWS_BUCKET'' [] @ ''.s3.'' @ guest_cfg b ''AWS_REGION'' [] @ ''.amazonaws.com''"

definition guest_scheme :: "'w box \<Rightarrow> string" where
  "guest_scheme b = (let s = guest_cfg b ''BENCH_SCHEME'' ''https'' in if s = [] then ''https'' else s)"

definition endpoint :: "'w box \<Rightarrow> string" where
  "endpoint b = guest_scheme b @ ''://'' @ s3_host b"

definition say :: "string \<Rightarrow> ('w, unit) gu" where
  "say t = io_emit (Say t)"

definition say_rule :: "string \<Rightarrow> ('w, unit) gu" where
  "say_rule t = io_seq (say []) (say (''=== '' @ t @ '' ===''))"

section \<open>Tools and files\<close>

definition is_tool_error :: "exn \<Rightarrow> bool" where
  "is_tool_error e = (case e of OtherExn s \<Rightarrow> s = ''OSError'' \<or> s = ''SubprocessError'' | _ \<Rightarrow> False)"

text \<open>\<open>subprocess.run\<close> of a command, and \<open>run\<close>, which turns a missing or hanging tool into a text.\<close>

definition feed_tool :: "'w box \<Rightarrow> string list \<Rightarrow> string \<Rightarrow> ('w, proc) gu" where
  "feed_tool b c input = io_call (Ran c) (bx_run b c input)"

definition exec_tool :: "'w box \<Rightarrow> string list \<Rightarrow> ('w, proc) gu" where
  "exec_tool b c = feed_tool b c []"

definition run_tool :: "'w box \<Rightarrow> string list \<Rightarrow> bool \<Rightarrow> ('w, string) gu" where
  "run_tool b c with_err =
     io_catch (io_bind (exec_tool b c) (\<lambda>r. io_ret (pr_out r @ (if with_err then pr_err r else []))))
       (\<lambda>e. if is_tool_error e then Some (io_ret (''('' @ hd c @ '': '' @ bx_error b e @ '')'')) else None)"

definition read_file :: "'w box \<Rightarrow> string \<Rightarrow> string \<Rightarrow> ('w, string) gu" where
  "read_file b p d = io_ask (\<lambda>w. case bx_read b p w of Some t \<Rightarrow> strip t | None \<Rightarrow> d)"

definition write_file :: "'w box \<Rightarrow> string \<Rightarrow> string \<Rightarrow> ('w, bool) gu" where
  "write_file b p v = io_call (Wrote p v) (\<lambda>w. case bx_write b p v w of (done', w') \<Rightarrow> (Inr done', w'))"

definition guest_clock :: "'w box \<Rightarrow> ('w, rat) gu" where
  "guest_clock b = (\<lambda>w. case bx_clock b w of (t, w') \<Rightarrow> (Inr t, w', []))"

definition imds :: "'w box \<Rightarrow> string \<Rightarrow> ('w, string) gu" where
  "imds b p = io_call (AskedImds p) (\<lambda>w. case bx_imds b p w of (got, w') \<Rightarrow> (Inr (case got of Some t \<Rightarrow> t | None \<Rightarrow> ''?''), w'))"

definition nap_guest :: "'w box \<Rightarrow> rat \<Rightarrow> ('w, unit) gu" where
  "nap_guest b d = io_call (Slept d) (\<lambda>w. (Inr (), bx_nap b d w))"

definition make_dir :: "'w box \<Rightarrow> string \<Rightarrow> ('w, unit) gu" where
  "make_dir b p = io_call (MadeDir p) (bx_mkdir b p)"

definition make_executable :: "'w box \<Rightarrow> string \<Rightarrow> ('w, unit) gu" where
  "make_executable b p = io_call (Chmod p) (bx_chmod b p)"

text \<open>A download that may fail in any way, and what \<open>except Exception\<close> catches.\<close>

definition download :: "'w box \<Rightarrow> string \<Rightarrow> string \<Rightarrow> ('w, int) gu" where
  "download b url dest = io_call (Downloaded url dest) (bx_fetch b url dest)"

definition is_exception :: "exn \<Rightarrow> bool" where
  "is_exception e = (\<not> is_system_exit e)"

text \<open>\<open>try: m finally: ...\<close> with a finalizer that depends on how far \<open>m\<close> got: the outcome as a value.\<close>

definition io_try :: "('w, 'c, 'a) io \<Rightarrow> ('w, 'c, 'a res) io" where
  "io_try m = (\<lambda>w. case m w of (r, w', cs) \<Rightarrow> (Inr r, w', cs))"

definition io_finish :: "'a res \<Rightarrow> ('w, 'c, unit) io \<Rightarrow> ('w, 'c, 'a) io" where
  "io_finish r fin = io_seq fin (io_res r)"

text \<open>The end of every guest: the machine stays up for the console to be read, and is off in a quarter of an hour.
  Dashes are written with two ASCII ones.\<close>

definition farewell :: "'w box \<Rightarrow> int \<Rightarrow> ('w, unit) gu" where
  "farewell b rc =
     (if is_local b then say (''rc='' @ show_int rc @ '' -- BENCH_LOCAL=1, staying up'')
      else io_seq (say (''rc='' @ show_int rc @ '' -- staying up for the console read''))
        (io_seq (exec_tool b [''sync'']) (io_bind (exec_tool b [''shutdown'', ''-h'', ''+15'']) (\<lambda>_. io_ret ()))))"

section \<open>The interface\<close>

fun route_of :: "string list \<Rightarrow> (string \<times> string) res" where
  "route_of [] = Inr (''eth0'', [])"
| "route_of (l # ls) =
     (let f = words l in
      if ''dev'' \<in> set f
      then res_bind (word_after ''dev'' f) (\<lambda>d. res_bind (if ''via'' \<in> set f then word_after ''via'' f else Inr []) (\<lambda>v. Inr (d, v)))
      else route_of ls)"

definition default_route :: "'w box \<Rightarrow> ('w, string \<times> string) gu" where
  "default_route b =
     io_bind (run_tool b [''ip'', ''-o'', ''-4'', ''route'', ''show'', ''default''] False) (\<lambda>t. io_res (route_of (splitlines t)))"

definition combined_of :: "string list \<Rightarrow> string" where
  "combined_of ls =
     (let cur = map (\<lambda>l. last (words l)) (filter (is_infix ''Combined'') ls) in
      (if cur = [] then ''?'' else last cur) @ '' combined of '' @ (if cur = [] then ''?'' else hd cur) @ '' max'')"

definition channels :: "'w box \<Rightarrow> string \<Rightarrow> ('w, string) gu" where
  "channels b iface = io_bind (run_tool b [''ethtool'', ''-l'', iface] False) (\<lambda>t. io_ret (combined_of (splitlines t)))"

definition mtu_path :: "string \<Rightarrow> string" where
  "mtu_path iface = ''/sys/class/net/'' @ iface @ ''/mtu''"

definition gro_off :: "'w box \<Rightarrow> string \<Rightarrow> ('w, unit) gu" where
  "gro_off b iface =
     io_bind (read_file b (mtu_path iface) []) (\<lambda>mtu.
     io_seq (say (''nogro        : GRO off, mtu '' @ mtu @ '' left alone''))
     (io_seq (run_tool b [''ethtool'', ''-K'', iface, ''gro'', ''off''] False)
     (io_seq (run_tool b [''ethtool'', ''-K'', iface, ''lro'', ''off''] False)
     (io_bind (run_tool b [''ethtool'', ''-k'', iface] False) (\<lambda>t.
       let gro = filter (starts_with ''generic-receive-offload'') (splitlines t) in
       say (''             : '' @ (if gro = [] then ''gro unknown'' else hd gro) @ '', mtu '' @ mtu))))))"

section \<open>The core budget\<close>

text \<open>\<open>a % n\<close> and \<open>1 << k\<close>, on Python's integers.\<close>

definition zero_div :: exn where
  "zero_div = OtherExn ''ZeroDivisionError''"

definition py_mod :: "int \<Rightarrow> int \<Rightarrow> int res" where
  "py_mod a n = (if n = 0 then Inl zero_div else Inr (a mod n))"

definition one_shifted :: "int \<Rightarrow> nat res" where
  "one_shifted k = (if k < 0 then Inl (ValueErr ''negative shift count'') else Inr (2 ^ nat k))"

definition irq_of :: "string \<Rightarrow> string \<Rightarrow> string option" where
  "irq_of iface l =
     (if is_infix iface l \<and> CHR '':'' \<in> set l
      then (let irq = strip (fst (parted CHR '':'' l)) in if all_digits irq then Some irq else None)
      else None)"

definition irq_path :: "string \<Rightarrow> string" where
  "irq_path irq = ''/proc/irq/'' @ irq @ ''/smp_affinity_list''"

definition queue_dir :: "string \<Rightarrow> string" where
  "queue_dir iface = ''/sys/class/net/'' @ iface @ ''/queues''"

fun pin_irqs :: "'w box \<Rightarrow> int \<Rightarrow> string list \<Rightarrow> nat \<Rightarrow> ('w, nat) gu" where
  "pin_irqs b n [] pinned = io_ret pinned"
| "pin_irqs b n (irq # irqs) pinned =
     io_bind (io_res (py_mod (int pinned) n)) (\<lambda>cpu.
     io_bind (write_file b (irq_path irq) (show_int cpu)) (\<lambda>held.
     pin_irqs b n irqs (if held then Suc pinned else pinned)))"

fun pin_queues :: "'w box \<Rightarrow> string \<Rightarrow> int \<Rightarrow> string list \<Rightarrow> nat \<Rightarrow> ('w, nat) gu" where
  "pin_queues b dir n [] xps = io_ret xps"
| "pin_queues b dir n (q # qs) xps =
     io_bind (io_res (res_bind (py_mod (int xps) n) one_shifted)) (\<lambda>mask.
     io_bind (write_file b (dir @ ''/'' @ q @ ''/xps_cpus'') (show_hex mask)) (\<lambda>held.
     pin_queues b dir n qs (if held then Suc xps else xps)))"

definition cap_cores :: "'w box \<Rightarrow> string \<Rightarrow> int \<Rightarrow> ('w, unit) gu" where
  "cap_cores b iface n =
     io_seq (say (''cap          : '' @ show_int n @ '' cores, '' @ show_int n @ '' channels, IRQs and XPS on 0-'' @ show_int (n - 1)))
     (io_seq (run_tool b [''systemctl'', ''stop'', ''irqbalance''] False)
     (io_seq (run_tool b [''ethtool'', ''-L'', iface, ''combined'', show_int n] False)
     (io_bind (read_file b ''/proc/interrupts'' []) (\<lambda>t.
     io_bind (pin_irqs b n (List.map_filter (irq_of iface) (splitlines t)) 0) (\<lambda>pinned.
     io_bind (io_ask (bx_dir b (queue_dir iface))) (\<lambda>dir.
     io_bind (pin_queues b (queue_dir iface) n
         (filter (starts_with ''tx-'') (sort (case dir of None \<Rightarrow> [] | Some qs \<Rightarrow> qs))) 0) (\<lambda>xps.
     io_bind (channels b iface) (\<lambda>ch.
     say (''             : '' @ show_nat pinned @ '' IRQs pinned, XPS on '' @ show_nat xps @ '' tx queues, '' @ ch)))))))))"

text \<open>Busy and total jiffies, by cpu. \<open>nth_res\<close> is indexing from the left.\<close>

type_synonym jiffies = "(int \<times> int \<times> int) list"

definition nth_res :: "'a list \<Rightarrow> nat \<Rightarrow> 'a res" where
  "nth_res xs i = (if i < length xs then Inr (xs ! i) else Inl IndexErr)"

definition busy_total :: "int list \<Rightarrow> (int \<times> int) res" where
  "busy_total v = res_bind (nth_res v 3) (\<lambda>idle. Inr (sum_list v - idle - (if 4 < length v then v ! 4 else 0), sum_list v))"

definition is_cpu_line :: "string list \<Rightarrow> bool" where
  "is_cpu_line f = (f \<noteq> [] \<and> starts_with ''cpu'' (hd f) \<and> hd f \<noteq> ''cpu'')"

fun stat_lines :: "string list \<Rightarrow> jiffies \<Rightarrow> jiffies res" where
  "stat_lines [] out = Inr out"
| "stat_lines (l # ls) out =
     (let f = words l in
      if \<not> is_cpu_line f then stat_lines ls out
      else res_bind (res_list py_int (tl f)) (\<lambda>v. res_bind (busy_total v) (\<lambda>bt. res_bind (py_int (drop 3 (hd f))) (\<lambda>cpu.
           stat_lines ls (AList.update cpu bt out)))))"

definition percpu :: "'w box \<Rightarrow> ('w, jiffies) gu" where
  "percpu b = io_bind (read_file b ''/proc/stat'' []) (\<lambda>t. io_res (stat_lines (splitlines t) []))"

text \<open>The loop of \<open>report_cpu_budget\<close>: cores inside, cores outside, the busy ones outside.\<close>

record budget =
  bg_in :: rat
  bg_out :: rat
  bg_hot :: "string list"

definition budget_step :: "jiffies \<Rightarrow> int \<Rightarrow> budget \<Rightarrow> int \<times> int \<times> int \<Rightarrow> budget" where
  "budget_step before n g = (\<lambda>(cpu, b1, t1). case (case map_of before cpu of None \<Rightarrow> (0, 0) | Some x \<Rightarrow> x) of (b0, t0) \<Rightarrow>
     if t1 - t0 \<le> 0 then g
     else (let frac = of_int (b1 - b0) / of_int (t1 - t0) in
       if n \<noteq> 0 \<and> n \<le> cpu
       then g\<lparr>bg_out := bg_out g + frac, bg_hot := bg_hot g @ (if frac > 2 / 100 then [''cpu'' @ show_int cpu @ ''='' @ fixed_point 2 frac] else [])\<rparr>
       else g\<lparr>bg_in := bg_in g + frac\<rparr>))"

definition cpu_budget :: "jiffies \<Rightarrow> jiffies \<Rightarrow> int \<Rightarrow> budget" where
  "cpu_budget before after' n = foldl (budget_step before n) \<lparr>bg_in = 0, bg_out = 0, bg_hot = []\<rparr> (sort_key fst after')"

definition budget_line :: "budget \<Rightarrow> int \<Rightarrow> string" where
  "budget_line g n = ''CPU BUDGET: cores_in='' @ fixed_point 2 (bg_in g) @ '' cores_out='' @ fixed_point 2 (bg_out g) @ '' budget='' @ show_int n"

definition report_cpu_budget :: "jiffies \<Rightarrow> jiffies \<Rightarrow> int \<Rightarrow> ('w, unit) gu" where
  "report_cpu_budget before after' n =
     (let g = cpu_budget before after' n in
      io_seq (say_rule ''cpu budget'')
      (io_seq (say (''budget       : '' @ (if n \<noteq> 0 then ''0-'' @ show_int (n - 1) else ''all cpus'')))
      (io_seq (io_when (bg_hot g \<noteq> []) (say (''outside >2%  : '' @ join '', '' (take 12 (bg_hot g)))))
      (say (budget_line g n)))))"

section \<open>Counters\<close>

text \<open>The counters worth printing a delta for.\<close>

definition keep_rx :: rx where
  "keep_rx = re (''^(Tcp:(ActiveOpens|InSegs|OutSegs|RetransSegs|InErrs|AttemptFails|EstabResets)''
     @ ''|Ip:(InReceives|InDiscards|InHdrErrors)|Udp:InErrors''
     @ ''|rx_packets|tx_packets|rx_bytes|tx_bytes|rx_drops|tx_drops|rx_overruns''
     @ ''|.*allowance_exceeded)$'')"

text \<open>The table of the kernel: a line of names, then a line of figures, by protocol.\<close>

fun snmp_lines :: "string list \<Rightarrow> (string \<times> string list) list \<Rightarrow> int dict \<Rightarrow> int dict res" where
  "snmp_lines [] header out = Inr out"
| "snmp_lines (l # ls) header out =
     (case parted CHR '':'' l of (proto, tail) \<Rightarrow> (case map_of header proto of
        None \<Rightarrow> snmp_lines ls (header @ [(proto, words tail)]) out
      | Some names \<Rightarrow>
          res_bind (res_list (\<lambda>(k, v). res_bind (py_int v) (\<lambda>i. Inr (proto @ '':'' @ k, i))) (zip names (words tail)))
            (\<lambda>kvs. snmp_lines ls header (dict_merge out kvs))))"

definition nic_line :: "int dict \<Rightarrow> string \<Rightarrow> int dict" where
  "nic_line out l = (case parted CHR '':'' l of (name, v) \<Rightarrow>
     if all_digits (strip v) then dict_set (strip name) (int (nat_of_digits (strip v))) out else out)"

definition counters :: "'w box \<Rightarrow> string \<Rightarrow> ('w, int dict) gu" where
  "counters b iface =
     io_bind (read_file b ''/proc/net/snmp'' []) (\<lambda>t.
     io_bind (io_res (snmp_lines (splitlines t) [] [])) (\<lambda>out.
     io_bind (run_tool b [''ethtool'', ''-S'', iface] False) (\<lambda>s. io_ret (foldl nic_line out (splitlines s)))))"

definition delta_lines :: "int dict \<Rightarrow> int dict \<Rightarrow> string list" where
  "delta_lines before after' = List.map_filter (\<lambda>name. case (map_of before name, map_of after' name) of
     (Some x, Some y) \<Rightarrow>
       if rx_match_start keep_rx name \<noteq> None \<and> y - x \<noteq> 0
       then Some (to_left 30 name @ '' '' @ to_right 14 (signed (y - x)) @ ''   ('' @ show_int x @ '' -> '' @ show_int y @ '')'')
       else None
   | _ \<Rightarrow> None) (sort (map fst before))"

definition shaped_lines :: "int dict \<Rightarrow> string list" where
  "shaped_lines after' = map (\<lambda>(name, v). to_left 30 name @ '' '' @ to_right 14 (show_int v) @ ''   <-- EC2 SHAPED'')
     (filter (\<lambda>(name, v). ends_with ''allowance_exceeded'' name \<and> 0 < v) (sort_key fst after'))"

definition report_counters :: "int dict \<Rightarrow> int dict \<Rightarrow> ('w, unit) gu" where
  "report_counters before after' =
     io_seq (say_rule ''counters'') (io_seq (io_for say (delta_lines before after')) (io_for say (shaped_lines after')))"

end
