(* ===== verification/S3Guest.thy ===== *)
theory S3Guest
  imports Guest
begin

text \<open>
  \<^verbatim>\<open>competitors/linux-s3/scripts/instance.py\<close>: the program on the instance of the Linux download bench. It
  says what the machine is, removes what the arm is not to have, fetches the binary, runs it line by line and
  says what the run cost.
\<close>

section \<open>Knobs\<close>

definition guest_mode :: "'w box \<Rightarrow> string" where
  "guest_mode b = guest_cfg b ''MODE'' ''stock''"

definition s3_bin :: "'w box \<Rightarrow> string" where
  "s3_bin b = work_dir b @ ''/linux-s3''"

definition core_budget :: "'w box \<Rightarrow> int res" where
  "core_budget b = (let v = guest_cfg b ''BENCH_WORKERS'' ''8'' in if v = [] then Inr 8 else py_int v)"

definition rcvbuf :: "'w box \<Rightarrow> int res" where
  "rcvbuf b = py_int (guest_cfg b ''RCVBUF'' (show_int (4 * 1024 * 1024)))"

definition capped_modes :: "string list" where
  "capped_modes = [''capped'', ''parity'', ''nogro'', ''nogro1500'']"

definition is_capped :: "'w box \<Rightarrow> bool" where
  "is_capped b = (guest_mode b \<in> set capped_modes)"

section \<open>Fingerprint\<close>

definition say_file :: "'w box \<Rightarrow> string \<Rightarrow> string \<Rightarrow> ('w, unit) gu" where
  "say_file b label p = io_bind (read_file b p []) (\<lambda>t. say (label @ t))"

definition say_lines :: "(string \<Rightarrow> bool) \<Rightarrow> string \<Rightarrow> ('w, unit) gu" where
  "say_lines p t = io_for say (filter p (splitlines t))"

definition field_in :: "string list \<Rightarrow> string \<Rightarrow> bool" where
  "field_in names l = (fst (parted CHR '':'' l) \<in> set names)"

definition fingerprint_run :: "'w box \<Rightarrow> ('w, unit) gu" where
  "fingerprint_run b =
     (let c = guest_cfg b; ip = c ''AWS_TARGET_IP'' [] in
      io_seq (say_rule ''run'') (io_for say
       [''run id       : '' @ c ''RUN_ID'' ''unknown'',
        ''mode         : '' @ guest_mode b,
        ''shape        : '' @ c ''BENCH_WORKERS'' [] @ '' workers x '' @ c ''BENCH_CONNS_PER_WORKER'' [] @ '' conns x '' @ c ''BENCH_BLOCK_SIZE'' [] @ '' block'',
        ''object       : '' @ c ''BENCH_SCHEME'' ''https'' @ ''://'' @ s3_host b @ ''/blob.bin ('' @ c ''AWS_BUCKET_SIZE'' [] @ '')'',
        ''target ip    : '' @ (if ip = [] then ''resolved here'' else ip),
        ''tls stub     : '' @ c ''BENCH_TLS_STUB'' ''0'',
        ''scheme       : '' @ c ''BENCH_SCHEME'' ''https'']))"

definition fingerprint_machine :: "'w box \<Rightarrow> string \<Rightarrow> string \<Rightarrow> ('w, unit) gu" where
  "fingerprint_machine b iface gw =
     io_seq (say_rule ''machine'')
     (io_bind (imds b ''instance-type'') (\<lambda>ty. io_bind (imds b ''instance-id'') (\<lambda>iid.
     io_seq (say (''instance     : '' @ ty @ '' '' @ iid))
     (io_bind (imds b ''placement/availability-zone'') (\<lambda>az. io_for say
       [''az           : '' @ az, ''kernel       : '' @ bx_release b, ''nproc        : '' @ show_int (bx_cpus b),
        ''interface    : '' @ iface @ '' (gw '' @ gw @ '')''])))))"

definition fingerprint_nic :: "'w box \<Rightarrow> string \<Rightarrow> ('w, unit) gu" where
  "fingerprint_nic b iface =
     io_seq (say_rule ''nic'')
     (io_bind (run_tool b [''ethtool'', ''-i'', iface] False) (\<lambda>i.
     io_seq (say_lines (field_in [''driver'', ''version'', ''firmware-version'', ''bus-info'']) i)
     (io_bind (run_tool b [''ethtool'', ''-k'', iface] False) (\<lambda>k.
     io_seq (say_lines (field_in [''rx-checksumming'', ''tx-checksumming'', ''generic-receive-offload'', ''large-receive-offload'',
         ''tcp-segmentation-offload'', ''generic-segmentation-offload'']) k)
     (io_seq (say_file b ''mtu          : '' (mtu_path iface))
     (io_bind (channels b iface) (\<lambda>ch. say (''channels     : '' @ ch))))))))"

definition sysctl_knobs :: "string list" where
  "sysctl_knobs = [''net/core/rmem_max'', ''net/core/rmem_default'', ''net/ipv4/tcp_rmem'', ''net/ipv4/tcp_window_scaling'',
     ''net/ipv4/tcp_moderate_rcvbuf'', ''net/core/busy_poll'', ''net/core/busy_read'', ''net/ipv4/tcp_syn_retries'']"

definition fingerprint_sysctls :: "'w box \<Rightarrow> ('w, unit) gu" where
  "fingerprint_sysctls b =
     io_seq (say_rule ''sysctls'')
     (io_for (\<lambda>knob. io_bind (read_file b (''/proc/sys/'' @ knob) ''n/a'') (\<lambda>v.
        say (to_left 28 (map (\<lambda>c. if c = CHR ''/'' then CHR ''.'' else c) knob) @ '' = '' @ v))) sysctl_knobs)"

definition fingerprint_clock :: "'w box \<Rightarrow> ('w, unit) gu" where
  "fingerprint_clock b =
     io_seq (say_rule ''clock'')
     (io_bind (run_tool b [''date'', ''-u'', ''+%Y-%m-%dT%H:%M:%SZ''] False) (\<lambda>d.
     io_seq (say (''date         : '' @ strip d))
     (io_bind (run_tool b [''chronyc'', ''tracking''] False) (\<lambda>t.
       say_lines (\<lambda>l. list_ex (\<lambda>p. starts_with p l) [''Reference ID'', ''System time'', ''Leap status'']) t))))"

definition fingerprint :: "'w box \<Rightarrow> string \<Rightarrow> string \<Rightarrow> ('w, unit) gu" where
  "fingerprint b iface gw =
     io_seq (fingerprint_run b) (io_seq (fingerprint_machine b iface gw)
     (io_seq (fingerprint_nic b iface) (io_seq (fingerprint_sysctls b) (fingerprint_clock b))))"

section \<open>The knobs of the arms\<close>

definition say_step :: "string \<Rightarrow> ('w, unit) gu" where
  "say_step t = io_seq (say []) (say (''-- '' @ t))"

definition show_label :: "string \<Rightarrow> string \<Rightarrow> ('w, unit) gu" where
  "show_label l v = say (''   '' @ to_left 12 l @ '' '' @ v)"

definition show_read :: "'w box \<Rightarrow> string \<Rightarrow> string \<Rightarrow> ('w, unit) gu" where
  "show_read b l p = io_bind (read_file b p []) (show_label l)"

definition show_pair :: "'w box \<Rightarrow> string \<Rightarrow> string \<Rightarrow> string \<Rightarrow> ('w, unit) gu" where
  "show_pair b l p q = io_bind (read_file b p []) (\<lambda>x. io_bind (read_file b q []) (\<lambda>y. show_label l (x @ '' / '' @ y)))"

definition set_mtu :: "'w box \<Rightarrow> string \<Rightarrow> ('w, unit) gu" where
  "set_mtu b iface = io_seq (show_read b ''before'' (mtu_path iface)) (io_seq (write_file b (mtu_path iface) ''1500'') (show_read b ''after'' (mtu_path iface)))"

definition mtu_1500 :: "'w box \<Rightarrow> string \<Rightarrow> ('w, unit) gu" where
  "mtu_1500 b iface = io_seq (say_step (apos ''MTU 1500, alone (smoltcp~s frame is 1514 = 1500 payload)'')) (set_mtu b iface)"

definition quickack :: "'w box \<Rightarrow> ('w, unit) gu" where
  "quickack b =
     io_bind (run_tool b [''ip'', ''route'', ''show'', ''default''] False) (\<lambda>t. let before = strip t in
     io_seq (show_label ''before'' before)
     (io_seq (if before \<noteq> []
         then io_bind (run_tool b ([''ip'', ''route'', ''replace''] @ words before @ [''quickack'', ''1'']) True) (\<lambda>e.
           io_when (strip e \<noteq> []) (show_label ''warn'' (strip e)))
         else show_label ''skip'' ''no default route; the socket option still applies'')
     (io_bind (run_tool b [''ip'', ''route'', ''show'', ''default''] False) (\<lambda>u. let now = strip u in
     io_seq (show_label ''after'' now)
       (io_when (before \<noteq> [] \<and> \<not> is_infix ''quickack'' now) (show_label ''warn'' ''route quickack did not apply; the socket option still does''))))))"

definition rmem_ceiling :: "'w box \<Rightarrow> ('w, unit) gu" where
  "rmem_ceiling b =
     (let p = ''/proc/sys/net/core/rmem_max''; q = ''/proc/sys/net/ipv4/tcp_rmem'' in
      io_seq (show_pair b ''before'' p q) (io_seq (write_file b p ''16777216'')
      (io_seq (write_file b q ''4096 131072 16777216'') (show_pair b ''after'' p q))))"

definition busy_poll :: "'w box \<Rightarrow> ('w, unit) gu" where
  "busy_poll b =
     (let p = ''/proc/sys/net/core/busy_poll''; q = ''/proc/sys/net/core/busy_read''; v = guest_cfg b ''BUSY_POLL'' ''50'' in
      io_seq (show_pair b ''before'' p q) (io_seq (write_file b p v) (io_seq (write_file b q v) (show_pair b ''after'' p q))))"

definition match_smoltcp :: "'w box \<Rightarrow> string \<Rightarrow> ('w, unit) gu" where
  "match_smoltcp b iface =
     io_seq (say_step (apos ''MTU 1500 (smoltcp~s frame is 1514 = 1500 payload; ENA defaults to 9001)''))
     (io_seq (set_mtu b iface) (io_seq (gro_off b iface)
     (io_seq (say_step (apos ''quickack on the default route (matches smoltcp~s set_ack_delay(None))''))
     (io_seq (quickack b)
     (io_seq (say_step (apos ''rmem ceiling (smoltcp~s rx ring is a fixed 4 MiB, no autotuning)''))
     (io_seq (rmem_ceiling b)
     (io_seq (say_step ''busy poll (socket option is set by the binary; sysctls are the fallback)'')
     (io_seq (busy_poll b)
       (show_label ''note'' ''24 busy-polling threads per core is expected to hurt -- a finding, not a bug'')))))))))"

section \<open>What the run cost\<close>

type_synonym times = "(string \<times> int \<times> int) list"

fun time_lines :: "string list \<Rightarrow> times \<Rightarrow> times res" where
  "time_lines [] out = Inr out"
| "time_lines (l # ls) out =
     (let f = words l in
      if \<not> is_cpu_line f then time_lines ls out
      else res_bind (res_list py_int (tl f)) (\<lambda>v. res_bind (busy_total v) (\<lambda>bt. time_lines ls (AList.update (hd f) bt out))))"

definition cpu_times :: "'w box \<Rightarrow> ('w, times) gu" where
  "cpu_times b = io_bind (read_file b ''/proc/stat'' []) (\<lambda>t. io_res (time_lines (splitlines t) []))"

definition busy_seconds :: "int \<Rightarrow> times \<Rightarrow> times \<Rightarrow> (string \<times> rat) list" where
  "busy_seconds hz before after' = List.map_filter (\<lambda>(c, b0, t0). map_option (\<lambda>(b1, t1). (c, of_int (b1 - b0) / of_int hz)) (map_of after' c)) before"

definition report_cpu :: "'w box \<Rightarrow> times \<Rightarrow> times \<Rightarrow> rat \<Rightarrow> ('w, unit) gu" where
  "report_cpu b before after' elapsed =
     (let busy = busy_seconds (bx_hz b) before after'; all = sum_list (map snd busy);
          active = length (filter (\<lambda>(_, v). 0 < elapsed \<and> v / elapsed > 1 / 2) busy);
          busiest = take 8 (sort_key (\<lambda>(_, v). - v) busy) in
      io_seq (say_rule ''cpu'')
      (io_seq (say (''cpus         : '' @ show_nat (length busy)))
      (io_seq (say (''cpu seconds  : '' @ fixed_point 1 all @ '' busy over '' @ fixed_point 3 elapsed @ '' s wall''))
      (io_seq (say (''cores >50%   : '' @ show_nat active))
      (io_seq (say (''busiest      : '' @ join '' '' (map (\<lambda>(c, v). c @ ''='' @ fixed_point 1 v @ ''s'') busiest)))
      (io_emit (Printed (''CPU: cpus='' @ show_nat (length busy) @ '' cpu_s='' @ fixed_point 1 all @ '' elapsed='' @ fixed_point 3 elapsed
        @ '' cores_over_50pct='' @ show_nat active))))))))"

section \<open>The frame probe\<close>

text \<open>
  A download in the background keeps a socket open while \<open>ss\<close> is sampled, at most twelve times. What the
  download failed with, if it did, is read at the end.
\<close>

definition probe_keys :: "string list" where
  "probe_keys = [''pmtu'', ''advmss'', ''rcvmss'', ''mss'']"

definition key_rx :: "string \<Rightarrow> rx" where
  "key_rx key = re (''~b'' @ key @ '':(~d+)'')"

definition probe_key :: "string \<Rightarrow> string \<Rightarrow> (string \<times> nat) list \<Rightarrow> (string \<times> nat) list" where
  "probe_key out key best = fold (\<lambda>s d. let v = nat_of_digits s in
     if (case map_of d key of None \<Rightarrow> 0 | Some x \<Rightarrow> x) < v then AList.update key v d else d) (rx_findall (key_rx key) out) best"

fun probe_rounds :: "nat \<Rightarrow> 'w box \<Rightarrow> (string \<times> nat) list \<Rightarrow> ('w, (string \<times> nat) list) gu" where
  "probe_rounds 0 b best = io_ret best"
| "probe_rounds (Suc n) b best =
     io_seq (nap_guest b (1 / 2))
     (io_bind (run_tool b [''ss'', ''-tin'', ''state'', ''established'', ''( dport = :80 or dport = :443 )''] False) (\<lambda>out.
      let best' = fold (probe_key out) probe_keys best in
      if length best' = 4 then io_ret best' else probe_rounds n b best'))"

definition frame_probe_of :: "'w box \<Rightarrow> ('w \<Rightarrow> string option) \<Rightarrow> string \<Rightarrow> ('w, unit) gu" where
  "frame_probe_of b pull_error ip =
     io_seq (say (''front-end    : '' @ ip))
     (io_bind (run_tool b [''ip'', ''route'', ''get'', ip] False) (\<lambda>t.
     io_seq (say (''route        : '' @ join '' '' (words t)))
     (io_seq (io_emit (Pulled (endpoint b @ ''/blob.bin'')))
     (io_bind (probe_rounds 12 b []) (\<lambda>best.
     io_seq (io_for (\<lambda>key. show_label key (case map_of best key of Some v \<Rightarrow> show_nat v | None \<Rightarrow> ''not seen'')) probe_keys)
     (io_seq (case map_of best ''rcvmss'' of
         None \<Rightarrow> io_ret ()
       | Some v \<Rightarrow> say (''   largest segment S3 sent: '' @ show_nat v @ '' B payload -> '' @ show_nat (v + 14 + 20 + 20) @ '' B frame''))
     (io_bind (io_ask pull_error) (\<lambda>err. case err of None \<Rightarrow> io_ret () | Some e \<Rightarrow> say (''   probe GET: '' @ e)))))))))"

definition frame_probe :: "'w box \<Rightarrow> ('w \<Rightarrow> string option) \<Rightarrow> ('w, unit) gu" where
  "frame_probe b pull_error =
     io_seq (say_rule ''frame probe'')
     (let ip = guest_cfg b ''AWS_TARGET_IP'' [] in
      if ip \<noteq> [] then frame_probe_of b pull_error ip
      else io_bind (io_try (io_call (Resolved (s3_host b)) (bx_resolve b (s3_host b)))) (\<lambda>r. case r of
          Inl e \<Rightarrow> if e = OtherExn ''OSError'' then say (''skipped: cannot resolve ('' @ bx_error b e @ '')'') else io_raise e
        | Inr ip' \<Rightarrow> frame_probe_of b pull_error ip'))"

section \<open>The binary\<close>

definition fetch_from :: "'w box \<Rightarrow> string \<Rightarrow> string \<Rightarrow> ('w, bool) gu" where
  "fetch_from b url dest =
     (let from = guest_cfg b ''BENCH_BIN'' [];
          finish = (\<lambda>n. io_seq (make_executable b dest) (io_seq (say (''fetched '' @ show_int n @ '' bytes'')) (io_ret True))) in
      io_seq (say_rule ''fetch'')
      (if from \<noteq> []
       then io_seq (say (''using '' @ from @ '' (BENCH_BIN set, skipping the S3 fetch)'')) (io_bind (download b from dest) finish)
       else io_bind (io_try (download b url dest)) (\<lambda>r. case r of
           Inl e \<Rightarrow> if is_exception e
             then io_seq (say (''FAIL: could not fetch '' @ url @ '': '' @ bx_error b e)) (io_seq (say ''INCOMPLETE: binary unavailable'') (io_ret False))
             else io_raise e
         | Inr n \<Rightarrow> finish n)))"

definition fetch_binary :: "'w box \<Rightarrow> ('w, bool) gu" where
  "fetch_binary b = fetch_from b (endpoint b @ ''/bin/linux-s3'') (s3_bin b)"

text \<open>The address the binary dials: given, or resolved once.\<close>

definition bench_ip :: "'w box \<Rightarrow> ('w, string) gu" where
  "bench_ip b =
     (let ip = guest_cfg b ''AWS_TARGET_IP'' [] in
      if ip \<noteq> [] then io_ret ip
      else io_bind (io_call (Resolved (s3_host b)) (bx_resolve b (s3_host b))) (\<lambda>ip'. io_seq (say (''resolved     : '' @ ip')) (io_ret ip')))"

definition bench_argv :: "'w box \<Rightarrow> int \<Rightarrow> string list" where
  "bench_argv b n = (if is_capped b then [''taskset'', ''-c'', ''0-'' @ show_int (n - 1), s3_bin b] else [s3_bin b])"

definition bench_env :: "'w box \<Rightarrow> string \<Rightarrow> string \<Rightarrow> (string \<times> string) list" where
  "bench_env b iface ip = dict_set ''AWS_TARGET_IP'' ip (dict_set ''BENCH_IFACE'' iface (bx_config b))"

definition run_bench :: "'w box \<Rightarrow> string \<Rightarrow> int \<Rightarrow> ('w, int) gu" where
  "run_bench b iface n =
     io_seq (say_rule ''bench'')
     (io_bind (bench_ip b) (\<lambda>ip.
     io_seq (io_when (is_capped b) (say (''taskset      : 0-'' @ show_int (n - 1))))
     (io_bind (io_call (Streamed (bench_argv b n) (bench_env b iface ip)) (bx_stream b (bench_argv b n) (bench_env b iface ip))) (\<lambda>(ls, code).
     io_seq (io_for say ls) (io_seq (say (''bench exit   : '' @ show_int code)) (io_ret code))))))"

section \<open>Main\<close>

definition tune :: "'w box \<Rightarrow> string \<Rightarrow> int \<Rightarrow> ('w, unit) gu" where
  "tune b iface n =
     (let m = guest_mode b in
      io_seq (say_rule ''tune'')
      (io_seq (io_when (m \<noteq> ''stock'' \<and> m \<notin> set capped_modes) (say (''WARNING: unknown MODE='' @ m @ '' -- running as stock'')))
      (io_seq (io_when (m \<in> set capped_modes) (cap_cores b iface n))
      (io_seq (io_when (m = ''parity'') (match_smoltcp b iface))
      (io_seq (io_when (m = ''nogro'') (gro_off b iface))
      (io_seq (io_when (m = ''nogro1500'') (io_seq (gro_off b iface) (mtu_1500 b iface)))
      (if m = ''stock'' then say ''MODE=stock -- as-shipped AL2023 defaults, nothing changed''
       else if m = ''capped'' then io_for say [[], ''   kept         jumbo, GRO, delayed ACK, rmem autotuning'']
       else if m = ''nogro'' then io_for say [[], ''   kept         delayed ACK, rmem autotuning, no busy poll'', ''   removed      GRO only'']
       else if m = ''nogro1500'' then io_for say [[], ''   kept         delayed ACK, rmem autotuning, no busy poll'', ''   removed      GRO and jumbo'']
       else io_ret ())))))))"

text \<open>The readings before the run, and the reports after it.\<close>

type_synonym readings = "jiffies \<times> int dict \<times> times \<times> rat"

definition s3_prepare :: "'w box \<Rightarrow> ('w \<Rightarrow> string option) \<Rightarrow> string \<Rightarrow> string \<Rightarrow> int \<Rightarrow> ('w, readings option) gu" where
  "s3_prepare b pull_error iface gw n =
     io_seq (fingerprint b iface gw) (io_seq (tune b iface n) (io_seq (frame_probe b pull_error)
     (io_bind (fetch_binary b) (\<lambda>ok.
      if \<not> ok then io_ret None
      else io_bind (percpu b) (\<lambda>cpu0. io_bind (counters b iface) (\<lambda>before. io_bind (cpu_times b) (\<lambda>cpu.
           io_bind (guest_clock b) (\<lambda>t0. io_ret (Some (cpu0, before, cpu, t0))))))))))"

definition s3_reports :: "'w box \<Rightarrow> string \<Rightarrow> int \<Rightarrow> readings \<Rightarrow> ('w, unit) gu" where
  "s3_reports b iface n = (\<lambda>(cpu0, before, cpu, t0).
     io_bind (percpu b) (\<lambda>cpu1.
     io_seq (report_cpu_budget cpu0 cpu1 (if is_capped b then n else 0))
     (io_bind (guest_clock b) (\<lambda>t1. io_bind (cpu_times b) (\<lambda>cpu'.
     io_seq (report_cpu b cpu cpu' (t1 - t0))
     (io_bind (counters b iface) (\<lambda>after'. report_counters before after')))))))"

definition s3_main :: "'w box \<Rightarrow> ('w \<Rightarrow> string option) \<Rightarrow> int \<Rightarrow> ('w, int) gu" where
  "s3_main b pull_error n =
     io_bind (io_ask (bx_dir b (work_dir b))) (\<lambda>dir.
     io_seq (io_when (dir = None) (make_dir b (work_dir b)))
     (io_bind (default_route b) (\<lambda>(iface, gw).
     io_bind (io_try (s3_prepare b pull_error iface gw n)) (\<lambda>p. case p of
       Inl e \<Rightarrow> io_finish (Inl e) (farewell b 1)
     | Inr None \<Rightarrow> io_finish (Inr 1) (farewell b 1)
     | Inr (Some rd) \<Rightarrow>
         io_bind (io_try (run_bench b iface n)) (\<lambda>r. case r of
           Inl e \<Rightarrow> io_finish (Inl e) (farewell b 1)
         | Inr rc \<Rightarrow> io_bind (io_try (s3_reports b iface n rd)) (\<lambda>q. io_finish (res_bind q (\<lambda>_. Inr rc)) (farewell b rc)))))))"

definition s3_program :: "'w box \<Rightarrow> ('w \<Rightarrow> string option) \<Rightarrow> ('w, int) gu" where
  "s3_program b pull_error = io_bind (io_res (res_bind (rcvbuf b) (\<lambda>_. core_budget b))) (s3_main b pull_error)"

end
