(* ===== verification/DuckGuest.thy ===== *)
theory DuckGuest
  imports Guest
begin

text \<open>
  \<^verbatim>\<open>competitors/duckdb-linux/scripts/instance.py\<close>: the program on the instance of the Linux query bench.
  It tunes the NIC, fetches DuckDB, runs the queries one process each and says a line per query, a summary
  and the verdict that the driver waits for.
\<close>

section \<open>The machine and the knobs\<close>

text \<open>
  Beside the box: what \<open>json.loads\<close> makes of DuckDB's output, the files of the profiling pass, and a process
  that is polled. Rows are objects with values that are no containers.
\<close>

record 'w duck =
  dk_box :: "'w box"
  dk_json :: "string \<Rightarrow> pyval dict list res"
  dk_remove :: "string \<Rightarrow> 'w \<Rightarrow> (exn + unit) \<times> 'w"
  dk_spawn :: "string list \<Rightarrow> (string \<times> string) list \<Rightarrow> 'w \<Rightarrow> (exn + int) \<times> 'w"
  dk_poll :: "int \<Rightarrow> 'w \<Rightarrow> int option \<times> 'w"
  dk_tasks :: "int \<Rightarrow> 'w \<Rightarrow> string list option"
  dk_sched :: "int \<Rightarrow> string \<Rightarrow> 'w \<Rightarrow> string option"
  dk_kill :: "int \<Rightarrow> 'w \<Rightarrow> 'w"
  dk_reap :: "int \<Rightarrow> 'w \<Rightarrow> (string \<times> string) \<times> 'w"
  dk_which :: "string \<Rightarrow> 'w \<Rightarrow> bool"

definition duck_cfg :: "'w duck \<Rightarrow> string \<Rightarrow> string \<Rightarrow> string" where
  "duck_cfg d k v = guest_cfg (dk_box d) k v"

definition duck_sf :: "'w duck \<Rightarrow> string" where
  "duck_sf d = duck_cfg d ''BENCH_SF'' ''1''"

definition duck_queries :: "'w duck \<Rightarrow> int list res" where
  "duck_queries d = res_list py_int (filter (\<lambda>x. strip x \<noteq> []) (split_on CHR '','' (duck_cfg d ''BENCH_QUERIES'' ''6'')))"

definition duck_flag :: "'w duck \<Rightarrow> string \<Rightarrow> bool" where
  "duck_flag d k = (duck_cfg d k [] = ''1'')"

definition in_work :: "'w duck \<Rightarrow> string \<Rightarrow> string" where
  "in_work d f = work_dir (dk_box d) @ ''/'' @ f"

definition duck_bin :: "'w duck \<Rightarrow> string" where
  "duck_bin d = in_work d ''duckdb''"

definition duck_ext :: "'w duck \<Rightarrow> string" where
  "duck_ext d = in_work d ''httpfs.duckdb_extension''"

definition duck_shim :: "'w duck \<Rightarrow> string" where
  "duck_shim d = in_work d ''netphase.so''"

definition duck_db :: "'w duck \<Rightarrow> string" where
  "duck_db d = in_work d ''tpch.duckdb''"

definition bin_prefix :: "'w duck \<Rightarrow> string" where
  "bin_prefix d = duck_cfg d ''BENCH_BIN_PREFIX'' ''bin/duckdb-linux''"

definition load_httpfs :: "'w duck \<Rightarrow> string" where
  "load_httpfs d = (if duck_flag d ''BENCH_HTTPFS_BUILTIN'' then ''LOAD httpfs;'' else apos ''LOAD ~'' @ duck_ext d @ apos ''~;'')"

definition no_cache :: string where
  "no_cache = ''SET enable_external_file_cache=false; ''"

definition tpch_tables :: "string list" where
  "tpch_tables = [''customer'', ''lineitem'', ''nation'', ''orders'', ''part'', ''partsupp'', ''region'', ''supplier'']"

text \<open>What the module does before \<open>main\<close>: the pin in \<^verbatim>\<open>/etc/hosts\<close>, the client's variables.\<close>

definition duck_init :: "'w duck \<Rightarrow> ('w, unit) gu" where
  "duck_init d =
     (let b = dk_box d; pin = duck_cfg d ''BENCH_PIN_IP'' []; hosts = nl # pin @ '' '' @ s3_host b @ [nl] in
      io_seq (io_when (pin \<noteq> [])
          (io_seq (io_call (Appended ''/etc/hosts'' hosts) (bx_append b ''/etc/hosts'' hosts))
            (say (''pinned '' @ s3_host b @ '' -> '' @ pin))))
        (io_for (\<lambda>(k, v). io_when (starts_with ''HTTPFS_'' k \<and> v \<noteq> []) (io_emit (SetEnv k v))) (bx_config b)))"

section \<open>The NIC\<close>

text \<open>A tool whose failure to run is an exception: \<open>subprocess.run\<close> outside of \<open>run\<close>.\<close>

definition default_iface :: "'w duck \<Rightarrow> ('w, string) gu" where
  "default_iface d =
     io_catch
       (io_bind (exec_tool (dk_box d) [''ip'', ''-o'', ''route'', ''get'', ''1.1.1.1'']) (\<lambda>r.
        let parts = words (pr_out r) in
        io_res (if ''dev'' \<in> set parts then word_after ''dev'' parts else Inr [])))
       (\<lambda>e. if is_exception e then Some (io_ret []) else None)"

definition ethtool :: "'w duck \<Rightarrow> string list \<Rightarrow> ('w, int \<times> string) gu" where
  "ethtool d args = io_bind (exec_tool (dk_box d) (''ethtool'' # args)) (\<lambda>r. io_ret (pr_code r, pr_out r @ pr_err r))"

text \<open>\<open>line.split(":", 1)[1]\<close>.\<close>

definition after_colon :: "string \<Rightarrow> string" where
  "after_colon l = snd (parted CHR '':'' l)"

fun gro_now :: "string list \<Rightarrow> string \<Rightarrow> string res" where
  "gro_now [] now = Inr now"
| "gro_now (l # ls) now =
     (if starts_with ''generic-receive-offload:'' (strip l)
      then res_bind (nth_res (words (strip (after_colon l))) 0) (gro_now ls)
      else gro_now ls now)"

definition combined_now :: "string list \<Rightarrow> string" where
  "combined_now ls = foldl (\<lambda>now l. if starts_with ''Combined:'' (strip l) then strip (after_colon l) else now) ''?'' ls"

definition gro_disable :: "'w duck \<Rightarrow> string \<Rightarrow> ('w, unit) gu" where
  "gro_disable d iface =
     io_for (\<lambda>feature. io_bind (ethtool d [''-K'', iface, feature, ''off'']) (\<lambda>(rc, out).
       io_when (rc \<noteq> 0 \<and> feature = ''gro'') (say (''nic: FAILED gro off: '' @ strip out)))) [''gro'', ''lro'']"

definition nic_readback :: "'w duck \<Rightarrow> string \<Rightarrow> ('w, unit) gu" where
  "nic_readback d iface =
     io_bind (ethtool d [''-k'', iface]) (\<lambda>(_, feats).
     io_bind (io_res (gro_now (splitlines feats) ''?'')) (\<lambda>gro.
     io_bind (ethtool d [''-l'', iface]) (\<lambda>(_, chans).
     say (''nic: iface='' @ iface @ '' gro='' @ gro @ '' combined='' @ combined_now (splitlines chans)))))"

definition tune_nic :: "'w duck \<Rightarrow> ('w, unit) gu" where
  "tune_nic d =
     (let gro = duck_cfg d ''BENCH_GRO'' []; queues = duck_cfg d ''BENCH_NIC_QUEUES'' [] in
      if gro = [] \<and> queues = [] then io_ret ()
      else io_bind (default_iface d) (\<lambda>iface.
        if iface = [] then say ''nic: FAILED no default-route interface''
        else io_bind (io_ask (dk_which d ''ethtool'')) (\<lambda>there.
          if \<not> there then say ''nic: FAILED ethtool not installed (no route to a package mirror)''
          else io_seq (io_when (gro = ''off'') (gro_disable d iface))
            (io_seq (io_when (queues \<noteq> []) (io_bind (ethtool d [''-L'', iface, ''combined'', queues]) (\<lambda>(rc, out).
                io_when (rc \<noteq> 0) (say (''nic: FAILED combined '' @ queues @ '': '' @ strip out)))))
              (nic_readback d iface)))))"

section \<open>Fetching and asking\<close>

definition duck_fetch :: "'w duck \<Rightarrow> string \<Rightarrow> string \<Rightarrow> ('w, bool) gu" where
  "duck_fetch d url dest =
     io_bind (io_try (download (dk_box d) url dest)) (\<lambda>r. case r of
       Inl e \<Rightarrow> if is_exception e then io_seq (say (''FAIL: could not fetch '' @ url @ '': '' @ bx_error (dk_box d) e)) (io_ret False) else io_raise e
     | Inr n \<Rightarrow> io_seq (say (''fetched '' @ file_name dest @ '' ('' @ show_int n @ '' bytes)'')) (io_ret True))"

definition runtime_error :: "string \<Rightarrow> exn" where
  "runtime_error s = OtherExn (''RuntimeError: '' @ s)"

definition run_sql :: "'w duck \<Rightarrow> string \<Rightarrow> bool \<Rightarrow> ('w, string) gu" where
  "run_sql d q json_out =
     io_bind (exec_tool (dk_box d) ([duck_bin d, duck_db d] @ (if json_out then [''-json''] else []) @ [''-c'', q])) (\<lambda>r.
     if pr_code r \<noteq> 0 then io_raise (runtime_error (strip (if pr_err r \<noteq> [] then pr_err r else pr_out r))) else io_ret (pr_out r))"

definition thread_setting :: "'w duck \<Rightarrow> string res" where
  "thread_setting d =
     (let t = duck_cfg d ''BENCH_THREADS'' [] in
      if t = [] then Inr [] else res_bind (py_int t) (\<lambda>n. Inr (''SET threads='' @ show_int n @ ''; '')))"

definition view_of :: "'w duck \<Rightarrow> string \<Rightarrow> string" where
  "view_of d t = ''CREATE VIEW '' @ t @ apos '' AS SELECT * FROM read_parquet(~'' @ endpoint (dk_box d) @ ''/tpch/sf'' @ duck_sf d @ ''/'' @ t
     @ apos ''.parquet~);''"

definition setup_views :: "'w duck \<Rightarrow> ('w, unit) gu" where
  "setup_views d = io_bind (run_sql d (join '' '' (load_httpfs d # map (view_of d) tpch_tables)) False) (\<lambda>_. io_ret ())"

type_synonym answers = "(pyval \<times> pyval) list"

definition answers_of :: "pyval dict list \<Rightarrow> answers res" where
  "answers_of rows = res_list (\<lambda>r. res_bind (of_option (KeyErr ''query_nr'') (map_of r ''query_nr'')) (\<lambda>q.
     res_bind (of_option (KeyErr ''answer'') (map_of r ''answer'')) (\<lambda>a. Inr (q, a)))) rows"

definition fetch_answers :: "'w duck \<Rightarrow> ('w, answers) gu" where
  "fetch_answers d =
     io_bind (run_sql d (load_httpfs d @ '' SELECT query_nr, answer FROM tpch_answers() WHERE scale_factor = '' @ duck_sf d @ '';'') True) (\<lambda>out.
     io_res (res_bind (dk_json d out) answers_of))"

text \<open>\<open>answers.get(qn)\<close>: of several answers for a query the last; None for none.\<close>

definition answer_of :: "answers \<Rightarrow> int \<Rightarrow> pyval" where
  "answer_of as qn = (case filter (\<lambda>(k, _). py_eq k (PInt qn)) (rev as) of [] \<Rightarrow> PNone | (_, v) # _ \<Rightarrow> v)"

section \<open>Comparing\<close>

text \<open>\<open>float(v)\<close> of a value, None where it raises a \<open>TypeError\<close> or \<open>ValueError\<close>.\<close>

definition float_of :: "pyval \<Rightarrow> rat option" where
  "float_of v = (case v of PStr s \<Rightarrow> (case py_float s of Inr x \<Rightarrow> Some x | Inl _ \<Rightarrow> None) | _ \<Rightarrow> as_num v)"

definition fields_match :: "pyval \<Rightarrow> string \<Rightarrow> bool" where
  "fields_match a s = (case (float_of a, float_of (PStr s)) of
     (Some x, Some y) \<Rightarrow> \<bar>x - y\<bar> \<le> max 1 \<bar>x\<bar> / 10 ^ 6
   | _ \<Rightarrow> py_str a = s)"

fun fields_all :: "pyval dict \<Rightarrow> (string \<times> string) list \<Rightarrow> bool res" where
  "fields_all r [] = Inr True"
| "fields_all r ((name, want) # ps) =
     res_bind (of_option (KeyErr name) (map_of r name)) (\<lambda>v. if fields_match v want then fields_all r ps else Inr False)"

fun rows_all :: "string list \<Rightarrow> (string list \<times> pyval dict) list \<Rightarrow> bool res" where
  "rows_all header [] = Inr True"
| "rows_all header ((wr, r) # ps) =
     (if length wr \<noteq> length header then Inr False
      else res_bind (fields_all r (zip header wr)) (\<lambda>ok. if ok then rows_all header ps else Inr False))"

text \<open>\<open>answer_text.strip("\n").split("\n")\<close>, each line cut at the bars.\<close>

definition strip_nl :: "string \<Rightarrow> string" where
  "strip_nl s = rev (dropWhile (\<lambda>c. c = nl) (rev (dropWhile (\<lambda>c. c = nl) s)))"

definition answer_table :: "string \<Rightarrow> string list list" where
  "answer_table text' = map (split_on CHR ''|'') (split_on nl (strip_nl text'))"

definition result_matches :: "pyval dict list \<Rightarrow> string \<Rightarrow> bool option res" where
  "result_matches rows text' = (case rows of
     [] \<Rightarrow> Inr None
   | r0 # _ \<Rightarrow>
       (let header = map fst r0; table = answer_table text' in
        if hd table \<noteq> header \<or> length (tl table) \<noteq> length rows then Inr (Some False)
        else res_bind (rows_all header (zip (tl table) rows)) (\<lambda>ok. Inr (Some ok))))"

end
