(* ===== verification/DuckMain.thy ===== *)
theory DuckMain
  imports DuckGuest
begin

text \<open>
  \<^verbatim>\<open>competitors/duckdb-linux/scripts/instance.py\<close>, its main: the profiling pass, the ladder without a network,
  the queries, their tally and the verdict.
\<close>

section \<open>The profiling pass\<close>

text \<open>
  \<open>run_sql_sampled\<close>: the process is polled every 50 ms; \<open>waits\<close> holds the last reading of each thread. The
  loop runs on fuel, None when it runs out; with naps of 50 ms it ends within 6002 rounds of its 300 seconds.
\<close>

type_synonym sched_waits = "(string \<times> int) list"

definition sched_wait :: "string \<Rightarrow> int option" where
  "sched_wait t = (case res_bind (nth_res (words t) 1) py_int of Inr i \<Rightarrow> Some i | Inl _ \<Rightarrow> None)"

definition sample_tasks :: "'w duck \<Rightarrow> int \<Rightarrow> 'w \<Rightarrow> sched_waits \<Rightarrow> sched_waits" where
  "sample_tasks d pid w waits = (case dk_tasks d pid w of
     None \<Rightarrow> waits
   | Some tids \<Rightarrow> fold (\<lambda>tid ws. case dk_sched d pid tid w of
         None \<Rightarrow> ws
       | Some t \<Rightarrow> (case sched_wait t of None \<Rightarrow> ws | Some i \<Rightarrow> AList.update tid i ws)) tids waits)"

fun sample_loop :: "nat \<Rightarrow> 'w duck \<Rightarrow> int \<Rightarrow> rat \<Rightarrow> sched_waits \<Rightarrow> ('w, (int \<times> sched_waits) option) gu" where
  "sample_loop 0 d pid t_end waits = io_ret None"
| "sample_loop (Suc n) d pid t_end waits =
     io_bind (\<lambda>w. case dk_poll d pid w of (c, w') \<Rightarrow> (Inr c, w', [])) (\<lambda>code. case code of
       Some c \<Rightarrow> io_ret (Some (c, waits))
     | None \<Rightarrow> io_bind (io_ask (\<lambda>w. sample_tasks d pid w waits)) (\<lambda>waits'.
         io_bind (guest_clock (dk_box d)) (\<lambda>t.
         if t > t_end
         then io_seq (io_call (KilledProc pid) (\<lambda>w. (Inr (), dk_kill d pid w))) (io_raise (runtime_error ''netphase pass exceeded 300 s''))
         else io_seq (nap_guest (dk_box d) (1 / 20)) (sample_loop n d pid t_end waits'))))"

definition sample_fuel :: nat where
  "sample_fuel = 6002"

definition run_sql_sampled :: "'w duck \<Rightarrow> string \<Rightarrow> (string \<times> string) list \<Rightarrow> ('w, rat option) gu" where
  "run_sql_sampled d q env =
     (let c = [duck_bin d, duck_db d, ''-c'', q] in
      io_bind (io_call (Streamed c env) (dk_spawn d c env)) (\<lambda>pid.
      io_bind (guest_clock (dk_box d)) (\<lambda>t.
      io_bind (sample_loop sample_fuel d pid (t + 300) []) (\<lambda>got. case got of
        None \<Rightarrow> io_raise (OtherExn ''fuel'')
      | Some (code, waits) \<Rightarrow>
          io_bind (\<lambda>w. case dk_reap d pid w of (oe, w') \<Rightarrow> (Inr oe, w', [])) (\<lambda>(out, err).
          if code \<noteq> 0 then io_raise (runtime_error (strip (if err \<noteq> [] then err else out)))
          else io_ret (if waits = [] then None else Some (of_int (sum_list (map snd waits)) / 10 ^ 6)))))))"

text \<open>The report of the socket shim: \<open>key=value\<close> lines, histograms of 1 ms buckets.\<close>

definition file_lines :: "string \<Rightarrow> string list" where
  "file_lines t = (let ls = split_on nl t in if last ls = [] then butlast ls else ls)"

definition kv_lines :: "string \<Rightarrow> string dict" where
  "kv_lines t = foldl (\<lambda>d l. case parted CHR ''='' l of (k, v) \<Rightarrow> dict_set k v d) [] (file_lines t)"

definition kv_int :: "string dict \<Rightarrow> string \<Rightarrow> int res" where
  "kv_int kv k = res_bind (of_option (KeyErr k) (map_of kv k)) py_int"

fun p50_scan :: "int \<Rightarrow> int \<Rightarrow> nat \<Rightarrow> int list \<Rightarrow> rat" where
  "p50_scan total' acc i [] = 0"
| "p50_scan total' acc i (c # cs) =
     (if total' \<noteq> 0 \<and> total' \<le> (acc + c) * 2 then of_nat i + 1 / 2 else p50_scan total' (acc + c) (Suc i) cs)"

definition p50_of :: "int list \<Rightarrow> rat" where
  "p50_of h = p50_scan (sum_list h) 0 0 h"

definition kv_p50 :: "string dict \<Rightarrow> string \<Rightarrow> rat res" where
  "kv_p50 kv k = res_bind (of_option (KeyErr k) (map_of kv k)) (\<lambda>v. res_bind (res_list py_int (split_on CHR '','' v)) (\<lambda>h. Inr (p50_of h)))"

definition kv_ms :: "string dict \<Rightarrow> string \<Rightarrow> int \<Rightarrow> rat res" where
  "kv_ms kv k n = (if n = 0 then Inr 0 else res_bind (kv_int kv k) (\<lambda>i. Inr (of_int i / 10 ^ 6 / of_int n)))"

definition netphase_line :: "string dict \<Rightarrow> int \<Rightarrow> rat option \<Rightarrow> string res" where
  "netphase_line kv qn rq =
     res_bind (kv_int kv ''req_n'') (\<lambda>n. res_bind (kv_int kv ''hs_n'') (\<lambda>hs.
     res_bind (kv_ms kv ''req_ttfb_ns'' n) (\<lambda>ttfb. res_bind (kv_ms kv ''req_body_ns'' n) (\<lambda>body.
     res_bind (kv_int kv ''req_gap_n'') (\<lambda>gn. res_bind (kv_ms kv ''req_gap_ns'' gn) (\<lambda>gap.
     res_bind (kv_p50 kv ''req_hist_ttfb_ms'') (\<lambda>p1. res_bind (kv_p50 kv ''req_hist_body_ms'') (\<lambda>p2.
     res_bind (if hs = 0 then Inr 0 else res_bind (kv_int kv ''hs_ttfb_ns'') (\<lambda>x. res_bind (kv_int kv ''hs_body_ns'') (\<lambda>y.
       Inr (of_int (x + y) / 10 ^ 6 / of_int hs)))) (\<lambda>hsms.
     res_bind (of_option (KeyErr ''conns'') (map_of kv ''conns'')) (\<lambda>conns. res_bind (of_option (KeyErr ''req_bytes'') (map_of kv ''req_bytes'')) (\<lambda>bytes.
     res_bind (kv_int kv ''window_ns'') (\<lambda>window.
     Inr (''NET PHASE: q='' @ show_int qn @ '' n='' @ show_int n @ '' ttfb_ms_avg='' @ fixed_point 2 ttfb @ '' body_ms_avg='' @ fixed_point 2 body
       @ '' gap_ms_avg='' @ fixed_point 2 gap @ '' ttfb_ms_p50='' @ fixed_point 1 p1 @ '' body_ms_p50='' @ fixed_point 1 p2 @ '' hs_n='' @ show_int hs
       @ '' hs_ms_avg='' @ fixed_point 2 hsms @ '' conns='' @ conns @ '' bytes='' @ bytes @ '' window_ms='' @ fixed_point 1 (of_int window / 10 ^ 6)
       @ '' rq_wait_ms='' @ (case rq of Some x \<Rightarrow> fixed_point 1 x | None \<Rightarrow> ''na''))))))))))))))"

text \<open>What aggregates DuckDB's own log of its requests, into the file \<open>out\<close>.\<close>

definition http_stats_sql :: "string \<Rightarrow> string" where
  "http_stats_sql out = join [nl]
    [[],
     ''COPY ('',
     ''  WITH r AS ('',
     ''    SELECT request.type AS type,'',
     ''           epoch_us(request.start_time) AS t0_us,'',
     ''           request.duration_ms AS ms'',
     apos ''    FROM duckdb_logs_parsed(~HTTP~)'',
     ''  ),'',
     apos ''  -- active_ms: the union of the requests~ intervals, i.e. wall time with at'',
     apos ''  -- least one request outstanding (the miniOSv arm~s net_active_ms), as'',
     ''  -- opposed to window_ms, which spans the idle stretches between them too.'',
     ''  iv AS ('',
     ''    SELECT t0_us AS s, t0_us + ms * 1000 AS e,'',
     ''           max(t0_us + ms * 1000) OVER (ORDER BY t0_us'',
     ''             ROWS BETWEEN UNBOUNDED PRECEDING AND 1 PRECEDING) AS reach'',
     ''    FROM r'',
     ''  ),'',
     ''  isl AS ('',
     ''    SELECT s, e,'',
     ''           sum(CASE WHEN reach IS NULL OR s > reach THEN 1 ELSE 0 END)'',
     ''             OVER (ORDER BY s ROWS UNBOUNDED PRECEDING) AS island'',
     ''    FROM iv'',
     ''  ),'',
     ''  act AS ('',
     ''    SELECT sum(mx - mn) / 1000.0 AS active_ms'',
     ''    FROM (SELECT island, min(s) AS mn, max(e) AS mx FROM isl GROUP BY island)'',
     ''  )'',
     ''  SELECT count(*) AS n,'',
     apos ''         count(*) FILTER (WHERE type = ~GET~) AS n_get,'',
     apos ''         count(*) FILTER (WHERE type = ~HEAD~) AS n_head,'',
     ''         round(avg(ms), 2) AS ms_avg,'',
     ''         round(quantile_cont(ms, 0.5), 2) AS ms_p50,'',
     ''         round(quantile_cont(ms, 0.9), 2) AS ms_p90,'',
     ''         round(quantile_cont(ms, 0.99), 2) AS ms_p99,'',
     ''         min(ms) AS ms_min,'',
     ''         max(ms) AS ms_max,'',
     ''         sum(ms) AS ms_sum,'',
     ''         round((max(t0_us + ms * 1000) - min(t0_us)) / 1000.0, 2) AS window_ms,'',
     ''         round((SELECT active_ms FROM act), 2) AS active_ms'',
     ''  FROM r'',
     apos '') TO ~'' @ out @ apos ''~ (FORMAT json, ARRAY true)'',
     []]"

definition profile_sql :: "'w duck \<Rightarrow> string \<Rightarrow> int \<Rightarrow> string \<Rightarrow> string" where
  "profile_sql d threads qn out = load_httpfs d @ '' '' @ no_cache @ threads
     @ apos ''SET logging_storage=~memory~; SET logging_level=~debug~; SET logging_mode=~ENABLE_SELECTED~; SET enabled_log_types=~HTTP~; ''
     @ ''SET enable_logging=true; PRAGMA tpch('' @ show_int qn @ '');'' @ http_stats_sql out"

text \<open>\<open>str(e).replace("\n", " ")[:300]\<close>.\<close>

definition error_line :: "'w duck \<Rightarrow> exn \<Rightarrow> string" where
  "error_line d e = take 300 (map (\<lambda>c. if c = nl then CHR '' '' else c) (bx_error (dk_box d) e))"

definition remove_old :: "'w duck \<Rightarrow> string \<Rightarrow> ('w, unit) gu" where
  "remove_old d p = io_bind (io_ask (bx_read (dk_box d) p)) (\<lambda>old. io_when (old \<noteq> None) (io_call (Removed p) (dk_remove d p)))"

definition num_or_zero :: "pyval \<Rightarrow> rat res" where
  "num_or_zero v = (if truthy v then of_option TypeErr (as_num v) else Inr 0)"

definition concurrency :: "pyval dict \<Rightarrow> rat res" where
  "concurrency r =
     (if \<not> truthy (dict_get r ''window_ms'') then Inr 0
      else res_bind (num_or_zero (dict_get r ''ms_sum'')) (\<lambda>s. res_bind (num_or_zero (dict_get r ''window_ms'')) (\<lambda>w. Inr (s / w))))"

definition stats_line :: "int \<Rightarrow> pyval dict \<Rightarrow> rat \<Rightarrow> rat \<Rightarrow> string" where
  "stats_line qn r conc ms = ''HTTP STATS: q='' @ show_int qn
     @ concat (map (\<lambda>(k, c). '' '' @ k @ ''='' @ py_str (dict_get r c)) [(''n'', ''n''), (''get'', ''n_get''), (''head'', ''n_head''), (''ms_avg'', ''ms_avg''),
         (''ms_p50'', ''ms_p50''), (''ms_p90'', ''ms_p90''), (''ms_p99'', ''ms_p99''), (''ms_min'', ''ms_min''), (''ms_max'', ''ms_max''), (''ms_sum'', ''ms_sum''),
         (''window_ms'', ''window_ms''), (''active_ms'', ''active_ms'')])
     @ '' concurrency='' @ fixed_point 2 conc @ '' profile_ms='' @ fixed_point 1 ms"

definition say_stats :: "'w duck \<Rightarrow> int \<Rightarrow> string \<Rightarrow> rat \<Rightarrow> ('w, unit) gu" where
  "say_stats d qn out ms =
     io_bind (io_ask (bx_read (dk_box d) out)) (\<lambda>t.
     case res_bind (of_option (OtherExn ''OSError'') t) (dk_json d) of
       Inl e \<Rightarrow> if is_exception e then say (''HTTP STATS: FAILED unreadable '' @ out @ '': '' @ bx_error (dk_box d) e) else io_raise e
     | Inr [] \<Rightarrow> say ''HTTP STATS: FAILED no rows''
     | Inr (r # _) \<Rightarrow> io_bind (io_res (concurrency r)) (\<lambda>conc. say (stats_line qn r conc ms)))"

definition say_netphase :: "'w duck \<Rightarrow> int \<Rightarrow> string \<Rightarrow> rat option \<Rightarrow> ('w, unit) gu" where
  "say_netphase d qn np_out rq =
     io_bind (io_ask (bx_read (dk_box d) np_out)) (\<lambda>t.
     case res_bind (of_option (OtherExn ''OSError'') t) (\<lambda>s. netphase_line (kv_lines s) qn rq) of
       Inl e \<Rightarrow> if is_exception e then say (''NET PHASE: FAILED '' @ error_line d e) else io_raise e
     | Inr l \<Rightarrow> say l)"

definition http_profile :: "'w duck \<Rightarrow> int \<Rightarrow> ('w, unit) gu" where
  "http_profile d qn =
     (let out = in_work d (''http-q'' @ show_int qn @ ''.json''); np_out = in_work d (''netphase-q'' @ show_int qn @ ''.txt''); np = duck_flag d ''BENCH_NET_PHASE'' in
      io_seq (remove_old d out)
      (io_bind (io_res (thread_setting d)) (\<lambda>threads.
      io_seq (remove_old d np_out)
      (io_bind (guest_clock (dk_box d)) (\<lambda>t0.
      io_bind (io_try (if np
          then run_sql_sampled d (profile_sql d threads qn out) [(''LD_PRELOAD'', duck_shim d), (''NETPHASE_OUT'', np_out)]
          else io_bind (run_sql d (profile_sql d threads qn out) False) (\<lambda>_. io_ret None))) (\<lambda>r. case r of
        Inl e \<Rightarrow> if is_exception e
          then io_seq (say (''HTTP STATS: FAILED '' @ error_line d e)) (io_when np (say ''NET PHASE: FAILED same pass''))
          else io_raise e
      | Inr rq \<Rightarrow> io_bind (guest_clock (dk_box d)) (\<lambda>t1.
          io_seq (io_when np (say_netphase d qn np_out rq)) (say_stats d qn out ((t1 - t0) * 1000)))))))))"

section \<open>The ladder\<close>

definition probe_work :: string where
  "probe_work = ''ln(1+abs(sin(l_extendedprice))) + ln(1+abs(cos(l_quantity))) + ln(1+abs(sin(l_discount))) + ln(1+abs(cos(l_tax''
     @ ''))) + sqrt(abs(l_extendedprice)) + sqrt(abs(l_quantity)) + ln(2+abs(sin(l_tax))) + sqrt(1+abs(l_discount))''"

definition probe_predicate :: string where
  "probe_predicate = ''SELECT count(*) FROM lineitem WHERE '' @ probe_work @ '' > -1''"

definition probe_predicate_4x :: string where
  "probe_predicate_4x = ''SELECT count(*) FROM lineitem WHERE '' @ join '' + '' (replicate 4 probe_work) @ '' > -1''"

definition probe_steps :: "(string \<times> string option \<times> string) list" where
  "probe_steps =
    [(''dbgen'', None, ''CALL dbgen(sf=1)''),
     (''range_scan'', None, ''SELECT count(*) FROM range(1000000000) WHERE range % 7 = 0''),
     (''hash_agg'', None, ''SELECT count(*) FROM (SELECT range % 1000 AS k, sum(range) FROM range(250000000) GROUP BY k)''),
     (''par_t1'', Some ''SET threads=1'', probe_predicate),
     (''par_tall'', Some ''RESET threads'', probe_predicate),
     (''par_t1_4x'', Some ''SET threads=1'', probe_predicate_4x),
     (''par_tall_4x'', Some ''RESET threads'', probe_predicate_4x),
     (''q01_local'', None, ''PRAGMA tpch(1)''),
     (''q06_local'', None, ''PRAGMA tpch(6)'')]"

definition probe_script :: string where
  "probe_script = join [nl] (''.timer on'' # concat (map (\<lambda>(name, pre, q).
     (case pre of None \<Rightarrow> [] | Some p \<Rightarrow> [p @ '';'']) @ [''.print PROBE_BEGIN '' @ name, q @ '';'']) probe_steps)) @ [nl]"

definition timing_rx :: rx where
  "timing_rx = re ''real ([~d.]+)~s+user ([~d.]+)~s+sys ([~d.]+)''"

definition group_ms :: "nat \<Rightarrow> rxm \<Rightarrow> rat res" where
  "group_ms n m = res_bind (of_option TypeErr (group n m)) (\<lambda>s. res_bind (py_float s) (\<lambda>x. Inr (x * 1000)))"

definition probe_line :: "string \<Rightarrow> rxm \<Rightarrow> string res" where
  "probe_line name m = res_bind (group_ms 1 m) (\<lambda>a. res_bind (group_ms 2 m) (\<lambda>u. res_bind (group_ms 3 m) (\<lambda>s.
     Inr (''PROBE: name='' @ name @ '' ms='' @ fixed_point 1 a @ '' user_ms='' @ fixed_point 1 u @ '' sys_ms='' @ fixed_point 1 s))))"

text \<open>The walk over the output: the marker seen last and the names timed so far.\<close>

fun probe_walk :: "string list \<Rightarrow> string option \<Rightarrow> string list \<Rightarrow> ('w, string list) gu" where
  "probe_walk [] pending seen = io_ret seen"
| "probe_walk (l0 # ls) pending seen =
     (let l = strip l0 in
      if starts_with ''PROBE_BEGIN '' l then probe_walk ls (Some (dropWhile is_space (drop 11 l))) seen
      else if given pending \<and> starts_with ''Run Time (s):'' l
      then (case rx_search timing_rx l of
          None \<Rightarrow> probe_walk ls None seen
        | Some m \<Rightarrow> io_bind (io_res (probe_line (the pending) m)) (\<lambda>t. io_seq (say t) (probe_walk ls None (List.insert (the pending) seen))))
      else probe_walk ls pending seen)"

definition cpu_probe :: "'w duck \<Rightarrow> ('w, int) gu" where
  "cpu_probe d =
     io_bind (feed_tool (dk_box d) [duck_bin d, '':memory:''] probe_script) (\<lambda>r.
     io_bind (probe_walk (splitlines (pr_out r @ [nl] @ pr_err r)) None []) (\<lambda>seen.
     io_seq (io_for (\<lambda>(name, _). io_when (name \<notin> set seen) (say (''PROBE: name='' @ name @ '' FAILED no timing''))) probe_steps)
     (io_seq (say ((if length seen = length probe_steps then ''COMPLETE'' else ''INCOMPLETE'') @ '': cpuprobe ok='' @ show_nat (length seen)
         @ ''/'' @ show_nat (length probe_steps)))
       (io_ret (if length seen = length probe_steps then 0 else 1)))))"

section \<open>The queries\<close>

text \<open>
  What became of a query: it failed, or it ran so long, with so many rows, it was checked or not, and what the
  comparison said.
\<close>

datatype outcome = Failed exn | Answered rat nat bool "bool option"

definition match_answer :: "pyval dict list \<Rightarrow> pyval \<Rightarrow> bool option res" where
  "match_answer rows ans = (case ans of
     PStr s \<Rightarrow> result_matches rows s
   | _ \<Rightarrow> if rows = [] then Inr None else Inl (OtherExn ''AttributeError''))"

definition ask_query :: "'w duck \<Rightarrow> int \<Rightarrow> ('w, pyval dict list) gu" where
  "ask_query d qn =
     io_bind (io_res (thread_setting d)) (\<lambda>threads.
     io_bind (run_sql d (load_httpfs d @ '' '' @ no_cache @ threads @ ''PRAGMA tpch('' @ show_int qn @ '');'') True) (\<lambda>out.
     if strip out = [] then io_ret [] else io_res (dk_json d out)))"

definition run_query :: "'w duck \<Rightarrow> answers \<Rightarrow> int \<Rightarrow> ('w, outcome) gu" where
  "run_query d as qn =
     io_bind (guest_clock (dk_box d)) (\<lambda>t0.
     io_bind (io_try (ask_query d qn)) (\<lambda>r. case r of
       Inl e \<Rightarrow> if is_exception e then io_ret (Failed e) else io_raise e
     | Inr rows \<Rightarrow> io_bind (guest_clock (dk_box d)) (\<lambda>t1.
         let ms = (t1 - t0) * 1000; ans = answer_of as qn in
         if ans = PNone then io_ret (Answered ms (length rows) False None)
         else io_bind (io_res (match_answer rows ans)) (\<lambda>m. io_ret (Answered ms (length rows) True m)))))"

definition match_word :: "bool option \<Rightarrow> string" where
  "match_word m = (case m of None \<Rightarrow> ''unchecked'' | Some b \<Rightarrow> if b then ''yes'' else ''no'')"

definition outcome_line :: "'w duck \<Rightarrow> int \<Rightarrow> outcome \<Rightarrow> string" where
  "outcome_line d qn o' = ''Q'' @ pad 2 qn @ (case o' of
     Failed e \<Rightarrow> '': FAIL 0.0 ms: '' @ bx_error (dk_box d) e
   | Answered ms n c m \<Rightarrow> '': '' @ fixed_point 1 ms @ '' ms, '' @ show_nat n @ '' rows, match='' @ match_word m)"

record tally =
  ta_ok :: nat
  ta_ms :: rat
  ta_checked :: nat
  ta_matched :: nat

definition tally0 :: tally where
  "tally0 = \<lparr>ta_ok = 0, ta_ms = 0, ta_checked = 0, ta_matched = 0\<rparr>"

definition tallied :: "outcome \<Rightarrow> tally \<Rightarrow> tally" where
  "tallied o' t = (case o' of
     Failed e \<Rightarrow> t
   | Answered ms n c m \<Rightarrow> \<lparr>ta_ok = ta_ok t + 1, ta_ms = ta_ms t + ms, ta_checked = ta_checked t + (if c then 1 else 0),
       ta_matched = ta_matched t + (if c \<and> m = Some True then 1 else 0)\<rparr>)"

definition query_ran :: "outcome \<Rightarrow> bool" where
  "query_ran o' = (case o' of Failed _ \<Rightarrow> False | Answered _ _ _ _ \<Rightarrow> True)"

fun run_queries :: "'w duck \<Rightarrow> answers \<Rightarrow> int list \<Rightarrow> tally \<Rightarrow> ('w, tally) gu" where
  "run_queries d as [] t = io_ret t"
| "run_queries d as (qn # qs) t =
     io_bind (run_query d as qn) (\<lambda>o'.
     io_seq (say (outcome_line d qn o'))
     (io_seq (io_when (query_ran o' \<and> (duck_flag d ''BENCH_HTTP_LOG'' \<or> duck_flag d ''BENCH_NET_PHASE'')) (http_profile d qn))
       (run_queries d as qs (tallied o' t))))"

section \<open>Main\<close>

definition all_well :: "int list \<Rightarrow> tally \<Rightarrow> bool" where
  "all_well qs t = (ta_ok t = length qs \<and> ta_matched t = ta_checked t)"

definition summary_line :: "int list \<Rightarrow> tally \<Rightarrow> string" where
  "summary_line qs t = ''TPCH SUMMARY: ok='' @ show_nat (ta_ok t) @ '' total='' @ show_nat (length qs) @ '' ms='' @ fixed_point 1 (ta_ms t)
     @ '' checked='' @ show_nat (ta_checked t) @ '' matched='' @ show_nat (ta_matched t)"

definition verdict_line :: "'w duck \<Rightarrow> int list \<Rightarrow> tally \<Rightarrow> string" where
  "verdict_line d qs t = (if all_well qs t then ''COMPLETE'' else ''INCOMPLETE'') @ '': tpch sf='' @ duck_sf d @ '' ok='' @ show_nat (ta_ok t) @ ''/'' @ show_nat (length qs)"

text \<open>\<open>rc\<close>, which the end says, and what main returns: of a ladder the first stays 1.\<close>

definition duck_suite :: "'w duck \<Rightarrow> int list \<Rightarrow> ('w, int \<times> int) gu" where
  "duck_suite d qs =
     io_seq (setup_views d)
     (io_bind (fetch_answers d) (\<lambda>as.
     io_bind (run_queries d as qs tally0) (\<lambda>t.
     io_seq (say []) (io_seq (say (summary_line qs t)) (io_seq (say (verdict_line d qs t))
       (let rc = (if all_well qs t then 0 else 1) in io_ret (rc, rc)))))))"

definition unless_fetched :: "'w duck \<Rightarrow> bool \<Rightarrow> string \<Rightarrow> string \<Rightarrow> string \<Rightarrow> ('w, int \<times> int) gu \<Rightarrow> ('w, int \<times> int) gu" where
  "unless_fetched d wanted name dest complaint cont =
     (if \<not> wanted then cont
      else io_bind (duck_fetch d (endpoint (dk_box d) @ ''/'' @ bin_prefix d @ ''/'' @ name) dest) (\<lambda>ok.
        if ok then cont else io_seq (say (''INCOMPLETE: '' @ complaint)) (io_ret (1, 1))))"

definition duck_body :: "'w duck \<Rightarrow> int list \<Rightarrow> ('w, int \<times> int) gu" where
  "duck_body d qs =
     (let b = dk_box d in
      io_seq (make_dir b (work_dir b))
      (io_seq (io_when (\<not> given (bx_environ b ''HOME'')) (io_emit (SetEnv ''HOME'' (work_dir b))))
      (io_seq (say (''tpch-linux: sf='' @ duck_sf d @ '', '' @ show_nat (length qs) @ '' quer'' @ (if length qs = 1 then ''y'' else ''ies'')
          @ '', bucket '' @ guest_cfg b ''AWS_BUCKET'' [] @ '' ('' @ guest_scheme b @ '')''))
      (io_seq (tune_nic d)
      (unless_fetched d True ''duckdb'' (duck_bin d) ''duckdb binary unavailable''
      (io_seq (make_executable b (duck_bin d))
      (if duck_flag d ''BENCH_CPU_PROBE'' then io_bind (cpu_probe d) (\<lambda>code. io_ret (1, code))
       else unless_fetched d (\<not> duck_flag d ''BENCH_HTTPFS_BUILTIN'') ''httpfs.duckdb_extension'' (duck_ext d) ''httpfs extension unavailable''
         (unless_fetched d (duck_flag d ''BENCH_NET_PHASE'') ''netphase.so'' (duck_shim d)
            ''netphase.so unavailable (just setup-netphase in competitors/duckdb-linux)''
            (duck_suite d qs)))))))))"

definition duck_main :: "'w duck \<Rightarrow> int list \<Rightarrow> ('w, int) gu" where
  "duck_main d qs =
     io_bind (io_try (duck_body d qs)) (\<lambda>r. case r of
       Inl e \<Rightarrow> io_finish (Inl e) (farewell (dk_box d) 1)
     | Inr (rc, code) \<Rightarrow> io_finish (Inr code) (farewell (dk_box d) rc))"

definition duck_program :: "'w duck \<Rightarrow> ('w, int) gu" where
  "duck_program d = io_bind (io_seq (duck_init d) (io_res (duck_queries d))) (duck_main d)"

end
