(* ===== verification/GuestArms.thy ===== *)
theory GuestArms
  imports S3Guest DuckMain
begin

text \<open>
  What the guests' programs do to their machine: how they end, what each arm of the download bench may touch,
  where its core budget puts interrupts, and what the accounting of the budget can say.
\<close>

section \<open>Every guest goes down\<close>

definition goes_down :: "int \<Rightarrow> geff list \<Rightarrow> bool" where
  "goes_down rc es \<longleftrightarrow> (\<exists>pre. es = pre @ [Say (''rc='' @ show_int rc @ '' -- staying up for the console read''), Ran [''sync''],
     Ran [''shutdown'', ''-h'', ''+15'']])"

lemma goes_down_append: "goes_down rc es \<Longrightarrow> goes_down rc (cs @ es)"
  unfolding goes_down_def by (metis append.assoc)

text \<open>The exceptions of the power-off itself, which replace what \<open>main\<close> was about to return.\<close>

definition shutdown_raises :: "'w box \<Rightarrow> exn \<Rightarrow> bool" where
  "shutdown_raises b e \<longleftrightarrow> (\<exists>u u'. bx_run b [''shutdown'', ''-h'', ''+15''] [] u = (Inl e, u'))"

lemma finish_effects:
  assumes "io_finish q (farewell b rc) w = (r, w', es)" "\<not> is_local b" "\<And>u. \<exists>p u'. bx_run b [''sync''] [] u = (Inr p, u')"
  shows "goes_down rc es \<and> (r = q \<or> (\<exists>e. r = Inl e \<and> shutdown_raises b e))"
proof -
  from assms(3) [of w] obtain p u' where p: "bx_run b [''sync''] [] w = (Inr p, u')" by blast
  obtain r3 w3 where sh: "bx_run b [''shutdown'', ''-h'', ''+15''] [] u' = (r3, w3)" by fastforce
  note unf = io_finish_def farewell_def say_def exec_tool_def feed_tool_def io_seq_def io_bind_def io_emit_def io_call_def io_ret_def
    io_res_def io_raise_def
  have "es = [] @ [Say (''rc='' @ show_int rc @ '' -- staying up for the console read''), Ran [''sync''], Ran [''shutdown'', ''-h'', ''+15'']]"
    using assms(1,2) by (cases r3; cases q) (auto simp: unf p sh)
  moreover have "shutdown_raises b e" if "r3 = Inl e" for e using sh that unfolding shutdown_raises_def by blast
  then have "r = q \<or> (\<exists>e. r = Inl e \<and> shutdown_raises b e)"
    using assms(1,2) by (cases r3; cases q) (auto simp: unf p sh)
  ultimately show ?thesis unfolding goes_down_def by blast
qed

text \<open>
  \<open>ends_down R m\<close>: the effects of every run of \<open>m\<close>, whatever its result, end with the machine going down,
  and the code it says there stands to the result in the relation \<open>R\<close>.
\<close>

definition ends_down :: "('a res \<Rightarrow> int \<Rightarrow> bool) \<Rightarrow> ('w, geff, 'a) io \<Rightarrow> bool" where
  "ends_down R m \<longleftrightarrow> (\<forall>w. \<exists>rc. goes_down rc (io_effects (m w)) \<and> R (io_result (m w)) rc)"

text \<open>The code a guest is to say: what it returns; 1 when it raises, unless it raised \<open>late\<close> or as it powered off.\<close>

definition says_code :: "'w box \<Rightarrow> (exn \<Rightarrow> bool) \<Rightarrow> int res \<Rightarrow> int \<Rightarrow> bool" where
  "says_code b late r rc = (case r of Inr code \<Rightarrow> rc = code | Inl e \<Rightarrow> rc = 1 \<or> late e \<or> shutdown_raises b e)"

text \<open>The query guest says 1 for its ladder, whatever that returns.\<close>

definition duck_says_code :: "'w duck \<Rightarrow> int res \<Rightarrow> int \<Rightarrow> bool" where
  "duck_says_code d r rc = (case r of
     Inr code \<Rightarrow> rc = (if duck_flag d ''BENCH_CPU_PROBE'' then 1 else code)
   | Inl e \<Rightarrow> rc = 1 \<or> shutdown_raises (dk_box d) e)"

lemma ending_try:
  assumes "\<And>w r w' cs. m w = (r, w', cs) \<Longrightarrow> ends_down R (f r)"
  shows "ends_down R (io_bind (io_try m) f)"
  unfolding ends_down_def
proof
  fix w
  obtain r w1 cs where m: "m w = (r, w1, cs)" by (metis prod_cases3)
  obtain r' w2 cs' where f: "f r w1 = (r', w2, cs')" by (metis prod_cases3)
  from assms [OF m] have "\<exists>rc. goes_down rc (io_effects (f r w1)) \<and> R (io_result (f r w1)) rc"
    unfolding ends_down_def by blast
  then obtain rc where "goes_down rc cs'" "R r' rc" unfolding f by auto
  then show "\<exists>rc. goes_down rc (io_effects (io_bind (io_try m) f w)) \<and> R (io_result (io_bind (io_try m) f w)) rc"
    by (auto simp: io_bind_def io_try_def m f intro: goes_down_append)
qed

lemma ending_finish:
  assumes "\<not> is_local b" "\<And>u. \<exists>p u'. bx_run b [''sync''] [] u = (Inr p, u')" "R q rc" "\<And>e. shutdown_raises b e \<Longrightarrow> R (Inl e) rc"
  shows "ends_down R (io_finish q (farewell b rc))"
  unfolding ends_down_def
proof
  fix w
  obtain r w' es where run: "io_finish q (farewell b rc) w = (r, w', es)" by (metis prod_cases3)
  from finish_effects [OF run assms(1,2)] assms(3,4)
  show "\<exists>rc'. goes_down rc' (io_effects (io_finish q (farewell b rc) w)) \<and> R (io_result (io_finish q (farewell b rc) w)) rc'"
    unfolding run by auto
qed

lemma finish_says_code:
  assumes "\<not> is_local b" "\<And>u. \<exists>p u'. bx_run b [''sync''] [] u = (Inr p, u')" "says_code b late q rc"
  shows "ends_down (says_code b late) (io_finish q (farewell b rc))"
  using assms(3) by (intro ending_finish [OF assms(1,2)]) (auto simp: says_code_def)

definition says_nothing :: "geff list \<Rightarrow> bool" where
  "says_nothing es \<longleftrightarrow> (\<forall>t. Say t \<notin> set es)"

lemma quiet_tools:
  "emits (\<lambda>e. \<forall>t. e \<noteq> Say t) (run_tool b c we)" "emits (\<lambda>e. \<forall>t. e \<noteq> Say t) (make_dir b p)"
  by (auto simp: run_tool_def exec_tool_def feed_tool_def make_dir_def intro!: io_intros split: if_splits)

lemma emits_io_res [io_intros]: "emits P (io_res r)"
  by (cases r) (simp_all add: io_res_def emits_ret emits_raise)

lemma default_route_quiet: "emits (\<lambda>e. \<forall>t. e \<noteq> Say t) (default_route b)"
  unfolding default_route_def by (intro io_intros quiet_tools)

text \<open>A run that ends by going down, or raises before a word was said.\<close>

definition ends_late :: "('a res \<Rightarrow> int \<Rightarrow> bool) \<Rightarrow> ('w, geff, 'a) io \<Rightarrow> bool" where
  "ends_late R m \<longleftrightarrow> (\<forall>w. (\<exists>rc. goes_down rc (io_effects (m w)) \<and> R (io_result (m w)) rc) \<or> says_nothing (io_effects (m w)) \<and> (\<exists>e. io_result (m w) = Inl e))"

lemma ending_late_end: "ends_down R m \<Longrightarrow> ends_late R m"
  by (simp add: ends_down_def ends_late_def)

lemma ending_late_bind:
  assumes "emits (\<lambda>e. \<forall>t. e \<noteq> Say t) m" "\<And>x. ends_late R (f x)"
  shows "ends_late R (io_bind m f)"
  unfolding ends_late_def
proof
  fix w
  let ?go = "io_bind m f w"
  obtain r w1 cs where m: "m w = (r, w1, cs)" by (metis prod_cases3)
  with emits_run [OF assms(1)] have quiet: "says_nothing cs" unfolding says_nothing_def by metis
  show "(\<exists>rc. goes_down rc (io_effects ?go) \<and> R (io_result ?go) rc) \<or> says_nothing (io_effects ?go) \<and> (\<exists>e. io_result ?go = Inl e)"
  proof (cases r)
    case (Inl e)
    with m quiet show ?thesis by (simp add: io_bind_def)
  next
    case (Inr x)
    obtain r' w2 cs' where f: "f x w1 = (r', w2, cs')" by (metis prod_cases3)
    have "(\<exists>rc. goes_down rc cs' \<and> R r' rc) \<or> says_nothing cs' \<and> (\<exists>e. r' = Inl e)"
      using assms(2) [of x] f unfolding ends_late_def by (metis fst_conv snd_conv)
    with quiet show ?thesis by (auto simp: io_bind_def m Inr f says_nothing_def intro: goes_down_append)
  qed
qed

text \<open>The code \<open>main\<close> of the query guest holds for the end, and the one it is about to return.\<close>

lemma unless_fetched_codes:
  assumes "unless_fetched d wanted name dest complaint cont w = (Inr (rc, code), w', es)"
    and "\<And>w w' es. cont w = (Inr (rc, code), w', es) \<Longrightarrow> P rc code" "P 1 1"
  shows "P rc code"
  using assms by (auto simp: unless_fetched_def io_ret_def split: if_splits elim!: io_bind_InrE io_seq_InrE)

lemma duck_suite_codes: "duck_suite d qs w = (Inr (rc, code), w', es) \<Longrightarrow> rc = code"
  by (auto simp: duck_suite_def Let_def io_ret_def elim!: io_bind_InrE io_seq_InrE)

lemma duck_body_codes:
  assumes "duck_body d qs w = (Inr (rc, code), w', es)"
  shows "rc = (if duck_flag d ''BENCH_CPU_PROBE'' then 1 else code)"
proof -
  let ?P = "\<lambda>rc code. rc = (if duck_flag d ''BENCH_CPU_PROBE'' then 1 else code :: int)"
  from assms show ?thesis
    unfolding duck_body_def Let_def
    by (elim io_seq_InrE) (erule unless_fetched_codes [where P = ?P],
      auto simp: io_ret_def split: if_splits elim!: io_bind_InrE io_seq_InrE unless_fetched_codes [where P = "(=)"] dest: duck_suite_codes)
qed

lemma duck_ends_down:
  assumes "\<not> is_local (dk_box d)" "\<And>u. \<exists>p u'. bx_run (dk_box d) [''sync''] [] u = (Inr p, u')"
  shows "ends_down (duck_says_code d) (duck_main d qs)"
  unfolding duck_main_def
proof (rule ending_try)
  fix w r w' cs assume body: "duck_body d qs w = (r, w', cs)"
  show "ends_down (duck_says_code d) (case r of Inl e \<Rightarrow> io_finish (Inl e) (farewell (dk_box d) 1)
     | Inr (rc, code) \<Rightarrow> io_finish (Inr code) (farewell (dk_box d) rc))"
  proof (cases r)
    case (Inl e)
    then show ?thesis by (auto simp: duck_says_code_def intro!: ending_finish [OF assms])
  next
    case (Inr p)
    obtain rc code where p: "p = (rc, code)" by fastforce
    with duck_body_codes [of d qs w rc code w' cs] body Inr show ?thesis
      by (auto simp: duck_says_code_def intro!: ending_finish [OF assms])
  qed
qed

text \<open>A guest that makes its directory and asks for the route before its \<open>try\<close>.\<close>

lemma routed_ends_late:
  assumes "\<And>iface gw. ends_down R (f iface gw)"
  shows "ends_late R (io_bind (default_route b) (\<lambda>(iface, gw). f iface gw))"
    "ends_late R (io_bind (io_ask (bx_dir b p)) (\<lambda>dir. io_bind (io_when (dir = None) (make_dir b p))
      (\<lambda>_. io_bind (default_route b) (\<lambda>(iface, gw). f iface gw))))"
proof -
  have "ends_late R (case ig of (iface, gw) \<Rightarrow> f iface gw)" for ig using assms by (cases ig) (simp add: ending_late_end)
  then show "ends_late R (io_bind (default_route b) (\<lambda>(iface, gw). f iface gw))"
    "ends_late R (io_bind (io_ask (bx_dir b p)) (\<lambda>dir. io_bind (io_when (dir = None) (make_dir b p))
      (\<lambda>_. io_bind (default_route b) (\<lambda>(iface, gw). f iface gw))))"
    using quiet_tools default_route_quiet by (auto intro!: ending_late_bind io_intros)
qed

section \<open>What an arm touches\<close>

text \<open>A write that puts an interrupt, or a transmit queue, on one core below \<open>n\<close>.\<close>

definition pins_below :: "int \<Rightarrow> string \<Rightarrow> string \<Rightarrow> bool" where
  "pins_below n p v \<longleftrightarrow> (\<exists>k. 0 \<le> k \<and> k < n \<and>
     ((\<exists>irq. p = irq_path irq \<and> v = show_int k) \<or> (\<exists>iface q. p = queue_dir iface @ ''/'' @ q @ ''/xps_cpus'' \<and> v = show_hex (2 ^ nat k))))"

definition parity_knobs :: "'w box \<Rightarrow> (string \<times> string) list" where
  "parity_knobs b = [(''/proc/sys/net/core/rmem_max'', ''16777216''), (''/proc/sys/net/ipv4/tcp_rmem'', ''4096 131072 16777216''),
     (''/proc/sys/net/core/busy_poll'', guest_cfg b ''BUSY_POLL'' ''50''), (''/proc/sys/net/core/busy_read'', guest_cfg b ''BUSY_POLL'' ''50'')]"

text \<open>
  What an arm may do: pin interrupts and queues with a core budget; offloads off where aggregation is to go;
  frames of 1500 bytes where jumbo is to go; the route and the knobs of the stack for parity. A process that is
  read line by line is the binary, on the cores of the budget where there is one.
\<close>

definition within_arm :: "'w box \<Rightarrow> int \<Rightarrow> geff \<Rightarrow> bool" where
  "within_arm b n e = (let m = guest_mode b in case e of
     Wrote p v \<Rightarrow> m \<in> set capped_modes \<and> pins_below n p v
       \<or> m \<in> {''parity'', ''nogro1500''} \<and> (\<exists>iface. p = mtu_path iface) \<and> v = ''1500''
       \<or> m = ''parity'' \<and> (p, v) \<in> set (parity_knobs b)
   | Ran c \<Rightarrow> (c \<noteq> [] \<and> hd c = ''systemctl'' \<longrightarrow> m \<in> set capped_modes)
       \<and> (take 2 c = [''ethtool'', ''-L''] \<longrightarrow> m \<in> set capped_modes \<and> last c = show_int n)
       \<and> (take 2 c = [''ethtool'', ''-K''] \<longrightarrow> m \<in> {''parity'', ''nogro'', ''nogro1500''} \<and> last c = ''off'')
       \<and> (take 3 c = [''ip'', ''route'', ''replace''] \<longrightarrow> m = ''parity'')
   | Streamed c env \<Rightarrow> c = (if m \<in> set capped_modes then [''taskset'', ''-c'', ''0-'' @ show_int (n - 1)] else []) @ [s3_bin b]
   | Removed p \<Rightarrow> False | Appended p v \<Rightarrow> False | SetEnv k v \<Rightarrow> False | KilledProc p \<Rightarrow> False
   | _ \<Rightarrow> True)"

lemma emits_guest_clock [io_intros]: "emits P (guest_clock b)"
  by (auto simp: emits_def guest_clock_def split: prod.splits)

lemma arm_prims [io_intros]:
  "emits (within_arm b n) (say t)" "emits (within_arm b n) (say_rule t)" "emits (within_arm b n) (read_file b p v)"
  "emits (within_arm b n) (imds b p)" "emits (within_arm b n) (nap_guest b d)"
  "emits (within_arm b n) (make_dir b p)" "emits (within_arm b n) (make_executable b p)" "emits (within_arm b n) (download b p q)"
  "emits (within_arm b n) (say_file b p q)" "emits (within_arm b n) (say_lines pr t)" "emits (within_arm b n) (say_step t)"
  "emits (within_arm b n) (show_label t u)" "emits (within_arm b n) (show_read b t p)" "emits (within_arm b n) (show_pair b t p q)"
  by (auto intro!: io_intros split: prod.splits
      simp: say_def say_rule_def read_file_def imds_def nap_guest_def make_dir_def make_executable_def download_def within_arm_def
      say_file_def say_lines_def say_step_def show_label_def show_read_def show_pair_def)

lemma arm_run: "within_arm b n (Ran c) \<Longrightarrow> emits (within_arm b n) (run_tool b c we)"
  by (auto simp: run_tool_def exec_tool_def feed_tool_def intro!: io_intros split: if_splits)

lemma arm_write: "within_arm b n (Wrote p v) \<Longrightarrow> emits (within_arm b n) (write_file b p v)"
  by (auto simp: write_file_def intro!: io_intros)

lemma arm_exec: "within_arm b n (Ran c) \<Longrightarrow> emits (within_arm b n) (exec_tool b c)"
  by (auto simp: exec_tool_def feed_tool_def intro!: io_intros)

lemma arm_harmless:
  "within_arm b n (Ran [''ethtool'', ''-l'', iface])" "within_arm b n (Ran [''ethtool'', ''-k'', iface])" "within_arm b n (Ran [''ethtool'', ''-i'', iface])"
  "within_arm b n (Ran [''ethtool'', ''-S'', iface])" "within_arm b n (Ran [''ip'', ''-o'', ''-4'', ''route'', ''show'', ''default''])"
  "within_arm b n (Ran [''ip'', ''route'', ''show'', ''default''])" "within_arm b n (Ran [''ip'', ''route'', ''get'', ip])"
  "within_arm b n (Ran [''date'', ''-u'', f])" "within_arm b n (Ran [''chronyc'', ''tracking''])" "within_arm b n (Ran [''sync''])"
  "within_arm b n (Ran [''shutdown'', ''-h'', ''+15''])" "within_arm b n (Ran [''ss'', ''-tin'', ''state'', ''established'', f])"
  by (simp_all add: within_arm_def Let_def)

lemma arm_changes:
  "guest_mode b \<in> set capped_modes \<Longrightarrow> within_arm b n (Ran [''systemctl'', ''stop'', ''irqbalance''])"
  "guest_mode b \<in> set capped_modes \<Longrightarrow> within_arm b n (Ran [''ethtool'', ''-L'', iface, ''combined'', show_int n])"
  "guest_mode b \<in> {''parity'', ''nogro'', ''nogro1500''} \<Longrightarrow> within_arm b n (Ran [''ethtool'', ''-K'', iface, f, ''off''])"
  "guest_mode b = ''parity'' \<Longrightarrow> within_arm b n (Ran ([''ip'', ''route'', ''replace''] @ c))"
  by (simp_all add: within_arm_def Let_def)

lemma emits_try [io_intros]: "emits P m \<Longrightarrow> emits P (io_try m)"
  by (rule emitsI) (auto simp: io_try_def dest: emits_run split: prod.splits)

lemma emits_finish [io_intros]: "emits P fin \<Longrightarrow> emits P (io_finish r fin)"
  unfolding io_finish_def by (intro io_intros)

lemma emits_option [io_intros]: "(x = None \<Longrightarrow> emits P m) \<Longrightarrow> (\<And>y. x = Some y \<Longrightarrow> emits P (f y)) \<Longrightarrow> emits P (case x of None \<Rightarrow> m | Some y \<Rightarrow> f y)"
  by (cases x) auto

lemma emits_sum [io_intros]: "(\<And>y. x = Inl y \<Longrightarrow> emits P (g y)) \<Longrightarrow> (\<And>y. x = Inr y \<Longrightarrow> emits P (f y)) \<Longrightarrow> emits P (case x of Inl y \<Rightarrow> g y | Inr y \<Rightarrow> f y)"
  by (cases x) auto

lemma emits_prod [io_intros]: "(\<And>y z. emits P (f y z)) \<Longrightarrow> emits P (case x of (y, z) \<Rightarrow> f y z)"
  by (cases x) auto

lemmas arm_rules = io_intros arm_run arm_exec arm_harmless arm_changes

lemma arm_irqs: "0 < n \<Longrightarrow> guest_mode b \<in> set capped_modes \<Longrightarrow> emits (within_arm b n) (pin_irqs b n irqs k)"
proof (induction irqs arbitrary: k)
  case (Cons irq irqs)
  then have "within_arm b n (Wrote (irq_path irq) (show_int (int k mod n)))"
    by (auto simp: within_arm_def pins_below_def Let_def intro!: exI [of _ "int k mod n"])
  with Cons show ?case by (auto simp: py_mod_def io_res_def intro!: io_intros arm_write)
qed (simp add: io_intros)

lemma arm_queues: "0 < n \<Longrightarrow> guest_mode b \<in> set capped_modes \<Longrightarrow> emits (within_arm b n) (pin_queues b (queue_dir iface) n qs k)"
proof (induction qs arbitrary: k)
  case (Cons q qs)
  then have "within_arm b n (Wrote (queue_dir iface @ ''/'' @ q @ ''/xps_cpus'') (show_hex (2 ^ nat (int k mod n))))"
    by (auto simp: within_arm_def pins_below_def Let_def intro!: exI [of _ "int k mod n"])
  with Cons show ?case by (auto simp: py_mod_def one_shifted_def io_res_def intro!: io_intros arm_write split: if_splits)
qed (simp add: io_intros)

lemma arm_channels: "emits (within_arm b n) (channels b iface)"
  unfolding channels_def by (intro arm_rules)

lemma arm_cap: "0 < n \<Longrightarrow> guest_mode b \<in> set capped_modes \<Longrightarrow> emits (within_arm b n) (cap_cores b iface n)"
  unfolding cap_cores_def by (intro arm_rules arm_irqs arm_queues arm_channels)

lemma arm_gro: "guest_mode b \<in> {''parity'', ''nogro'', ''nogro1500''} \<Longrightarrow> emits (within_arm b n) (gro_off b iface)"
  unfolding gro_off_def Let_def by (intro arm_rules)

lemma arm_fingerprint: "emits (within_arm b n) (fingerprint b iface gw)"
  unfolding fingerprint_def fingerprint_run_def fingerprint_machine_def fingerprint_nic_def fingerprint_sysctls_def fingerprint_clock_def Let_def
  by (intro arm_rules arm_channels)

lemma arm_mtu: "guest_mode b \<in> {''parity'', ''nogro1500''} \<Longrightarrow> emits (within_arm b n) (set_mtu b iface)"
  unfolding set_mtu_def by (intro arm_rules arm_write) (auto simp: within_arm_def)

lemma arm_knob: "guest_mode b = ''parity'' \<Longrightarrow> (p, v) \<in> set (parity_knobs b) \<Longrightarrow> emits (within_arm b n) (write_file b p v)"
  by (intro arm_write) (auto simp: within_arm_def)

lemma arm_parity: "guest_mode b = ''parity'' \<Longrightarrow> emits (within_arm b n) (match_smoltcp b iface)"
  unfolding match_smoltcp_def quickack_def rmem_ceiling_def busy_poll_def Let_def
  by (intro arm_rules arm_gro arm_mtu arm_knob) (simp_all add: parity_knobs_def)

lemma arm_tune: "0 < n \<Longrightarrow> emits (within_arm b n) (tune b iface n)"
  unfolding tune_def Let_def
  by (intro arm_rules arm_cap arm_parity arm_gro) (simp_all add: mtu_1500_def arm_mtu io_intros)

lemma arm_rounds: "emits (within_arm b n) (probe_rounds k b best)"
  by (induction k arbitrary: best) (auto simp: Let_def intro!: arm_rules)

lemma arm_probe: "emits (within_arm b n) (frame_probe b pe)"
proof -
  have "emits (within_arm b n) (frame_probe_of b pe ip)" for ip
    unfolding frame_probe_of_def by (intro arm_rules arm_rounds) (simp_all add: within_arm_def)
  then show ?thesis unfolding frame_probe_def Let_def by (intro arm_rules) (simp_all add: within_arm_def)
qed

lemma arm_fetch: "emits (within_arm b n) (fetch_binary b)"
  unfolding fetch_binary_def fetch_from_def Let_def by (intro arm_rules)

lemma arm_bench: "emits (within_arm b n) (run_bench b iface n)"
  unfolding run_bench_def bench_ip_def Let_def
  by (intro arm_rules) (simp_all add: within_arm_def bench_argv_def is_capped_def Let_def)

lemma arm_percpu: "emits (within_arm b n) (percpu b)" "emits (within_arm b n) (cpu_times b)" "emits (within_arm b n) (counters b iface)"
  unfolding percpu_def cpu_times_def counters_def by (intro arm_rules)+

lemma arm_reports: "emits (within_arm b n) (s3_reports b iface k rd)"
  unfolding s3_reports_def report_cpu_budget_def report_cpu_def report_counters_def Let_def
  by (intro arm_rules arm_percpu) (simp_all add: within_arm_def)

lemma arm_farewell: "emits (within_arm b n) (farewell b rc)"
  unfolding farewell_def by (intro arm_rules)

text \<open>
  C25. An arm is what its name says: whatever a run of the download guest meets, its writes and tools are
  those of its mode. A stock arm writes nothing and turns nothing off; with a core budget interrupts and
  queues are put on the cores below the budget only, one each, and the binary runs under \<open>taskset\<close> on just
  these; segments are no longer joined, frames shrink, and route and stack are changed only where the mode says.
\<close>

theorem s3_arm_touches_only:
  assumes "0 < n"
  shows "emits (within_arm b n) (s3_main b pe n)"
  unfolding s3_main_def s3_prepare_def default_route_def
  by (intro arm_rules arm_fingerprint arm_tune arm_probe arm_fetch arm_percpu arm_bench arm_reports arm_farewell assms)

section \<open>Where the interrupts go\<close>

definition writes_of :: "geff list \<Rightarrow> (string \<times> string) list" where
  "writes_of es = List.map_filter (\<lambda>e. case e of Wrote p v \<Rightarrow> Some (p, v) | _ \<Rightarrow> None) es"

lemma writes_of_simps [simp]:
  "writes_of [] = []" "writes_of (Wrote p v # es) = (p, v) # writes_of es" "writes_of (es @ cs) = writes_of es @ writes_of cs"
  by (simp_all add: writes_of_def List.map_filter_def)

definition writes_none :: "geff \<Rightarrow> bool" where
  "writes_none e \<longleftrightarrow> (\<forall>p v. e \<noteq> Wrote p v)"

lemma writes_of_none: "(\<And>e. e \<in> set es \<Longrightarrow> writes_none e) \<Longrightarrow> writes_of es = []"
  by (induction es) (auto simp: writes_of_def writes_none_def List.map_filter_def split: geff.splits)

lemma writes_of_run: "emits writes_none m \<Longrightarrow> m w = (r, w', es) \<Longrightarrow> writes_of es = []"
  by (rule writes_of_none) (rule emits_run)

lemma no_writes [io_intros]:
  "emits writes_none (say t)" "emits writes_none (run_tool b c we)" "emits writes_none (read_file b p d)" "emits writes_none (channels b iface)"
  by (auto simp: say_def run_tool_def exec_tool_def feed_tool_def read_file_def channels_def writes_none_def intro!: io_intros split: if_splits)

definition round_robin :: "(nat \<Rightarrow> string) \<Rightarrow> (string \<Rightarrow> string) \<Rightarrow> string list \<Rightarrow> nat \<Rightarrow> (string \<times> string) list" where
  "round_robin core path ns k = map2 (\<lambda>i s. (path s, core i)) [k..<k + length ns] ns"

lemma round_robin_simps: "round_robin core path [] k = []" "round_robin core path (s # ns) k = (path s, core k) # round_robin core path ns (Suc k)"
  by (simp_all add: round_robin_def upt_conv_Cons del: upt_Suc)

lemma pin_irqs_run:
  assumes "0 < n" "\<And>p v u. fst (bx_write b p v u)" "pin_irqs b n irqs k w = (Inr j, w', es)"
  shows "j = k + length irqs \<and> writes_of es = round_robin (\<lambda>i. show_int (int i mod n)) irq_path irqs k"
  using assms(3)
proof (induction irqs arbitrary: k w es)
  case (Cons irq irqs)
  obtain u' where u: "bx_write b (irq_path irq) (show_int (int k mod n)) w = (True, u')"
    using assms(2) [of "irq_path irq" "show_int (int k mod n)" w] by (metis prod.collapse)
  from Cons.prems assms(1) obtain es' where "pin_irqs b n irqs (Suc k) u' = (Inr j, w', es')" "es = Wrote (irq_path irq) (show_int (int k mod n)) # es'"
    by (auto simp: py_mod_def io_res_def io_ret_def write_file_def io_call_def io_bind_def u split: prod.splits sum.splits)
  with Cons.IH show ?case by (fastforce simp: round_robin_simps)
qed (simp add: io_ret_def round_robin_simps)

lemma pin_queues_run:
  assumes "0 < n" "\<And>p v u. fst (bx_write b p v u)" "pin_queues b dir n qs k w = (Inr j, w', es)"
  shows "j = k + length qs \<and> writes_of es = round_robin (\<lambda>i. show_hex (2 ^ (i mod nat n))) (\<lambda>q. dir @ ''/'' @ q @ ''/xps_cpus'') qs k"
  using assms(3)
proof (induction qs arbitrary: k w es)
  case (Cons q qs)
  let ?p = "dir @ ''/'' @ q @ ''/xps_cpus''"
  have core: "nat (int k mod n) = k mod nat n" using assms(1) by (simp add: nat_mod_distrib)
  obtain u' where u: "bx_write b ?p (show_hex (2 ^ (k mod nat n))) w = (True, u')"
    using assms(2) [of ?p "show_hex (2 ^ (k mod nat n))" w] by (metis prod.collapse)
  have held: "write_file b ?p (show_hex (2 ^ (k mod nat n))) w = (Inr True, u', [Wrote ?p (show_hex (2 ^ (k mod nat n)))])"
    by (simp add: write_file_def io_call_def u del: append_Cons)
  have mask: "res_bind (py_mod (int k) n) one_shifted = Inr (2 ^ (k mod nat n))"
    using assms(1) by (simp add: py_mod_def one_shifted_def core not_less)
  from Cons.prems obtain es' where "pin_queues b dir n qs (Suc k) u' = (Inr j, w', es')" "es = Wrote ?p (show_hex (2 ^ (k mod nat n))) # es'"
    unfolding pin_queues.simps mask io_res_def sum.case io_bind_ret by (elim io_bind_InrE) (auto simp: held simp del: append_Cons)
  with Cons.IH show ?case by (fastforce simp: round_robin_simps)
qed (simp add: io_ret_def round_robin_simps)

text \<open>
  The budget is filled evenly: with a budget of \<open>n\<close> cores, and files that can be written, the
  \<open>i\<close>-th interrupt of the interface goes to core \<open>i mod n\<close>, in the order of the kernel's table, and the
  \<open>i\<close>-th transmit queue, by name, to core \<open>i mod n\<close> alone; nothing else is written, and what is said of them are
  their numbers.
\<close>

theorem cap_cores_round_robin:
  assumes n: "0 < n" and held: "\<And>p v u. fst (bx_write b p v u)"
    and table: "\<And>u. bx_read b ''/proc/interrupts'' u = Some t" and queues: "\<And>u. bx_dir b (queue_dir iface) u = Some qs"
    and run: "cap_cores b iface n w = (Inr (), w', es)"
  shows "let irqs = List.map_filter (irq_of iface) (splitlines (strip t)); txs = filter (starts_with ''tx-'') (sort qs) in
    writes_of es = round_robin (\<lambda>i. show_int (int i mod n)) irq_path irqs 0
      @ round_robin (\<lambda>i. show_hex (2 ^ (i mod nat n))) (\<lambda>q. queue_dir iface @ ''/'' @ q @ ''/xps_cpus'') txs 0 \<and>
    (\<exists>ch. last es = Say (''             : '' @ show_nat (length irqs) @ '' IRQs pinned, XPS on '' @ show_nat (length txs) @ '' tx queues, '' @ ch))"
proof -
  let ?irqs = "List.map_filter (irq_of iface) (splitlines (strip t))" and ?txs = "filter (starts_with ''tx-'') (sort qs)"
  from run obtain w1 e1 x2 w2 e2 x3 w3 e3 i w4 e4 j w5 e5 ch w6 e6 where
    parts: "say (''cap          : '' @ show_int n @ '' cores, '' @ show_int n @ '' channels, IRQs and XPS on 0-'' @ show_int (n - 1)) w = (Inr (), w1, e1)"
    "run_tool b [''systemctl'', ''stop'', ''irqbalance''] False w1 = (Inr x2, w2, e2)"
    "run_tool b [''ethtool'', ''-L'', iface, ''combined'', show_int n] False w2 = (Inr x3, w3, e3)"
    "pin_irqs b n ?irqs 0 w3 = (Inr i, w4, e4)" "pin_queues b (queue_dir iface) n ?txs 0 w4 = (Inr j, w5, e5)"
    "channels b iface w5 = (Inr ch, w6, e6)"
    "es = e1 @ e2 @ e3 @ e4 @ e5 @ e6 @ [Say (''             : '' @ show_nat i @ '' IRQs pinned, XPS on '' @ show_nat j @ '' tx queues, '' @ ch)]"
    unfolding cap_cores_def
    by (elim io_seq_InrE io_bind_InrE) (auto simp: read_file_def io_ask_def table queues say_def io_emit_def)
  note quiet = writes_of_run [OF no_writes(1) parts(1)] writes_of_run [OF no_writes(2) parts(2)] writes_of_run [OF no_writes(2) parts(3)]
    writes_of_run [OF no_writes(4) parts(6)]
  from pin_irqs_run [OF n held parts(4)] pin_queues_run [OF n held parts(5)] show ?thesis
    unfolding Let_def parts(7) by (auto simp: quiet writes_of_def [of "[Say _]"] List.map_filter_def)
qed

section \<open>What the accounting can say\<close>

text \<open>The share of its time a cpu was busy between two readings.\<close>

definition busy_share :: "jiffies \<Rightarrow> int \<times> int \<times> int \<Rightarrow> rat" where
  "busy_share before = (\<lambda>(cpu, b1, t1). case (case map_of before cpu of None \<Rightarrow> (0, 0) | Some x \<Rightarrow> x) of (b0, t0) \<Rightarrow>
     if t1 - t0 \<le> 0 then 0 else of_int (b1 - b0) / of_int (t1 - t0))"

lemma budget_step_shares:
  "bg_in (budget_step before n g x) = bg_in g + (if n \<noteq> 0 \<and> n \<le> fst x then 0 else busy_share before x)"
  "bg_out (budget_step before n g x) = bg_out g + (if n \<noteq> 0 \<and> n \<le> fst x then busy_share before x else 0)"
  by (simp_all add: budget_step_def busy_share_def Let_def split: prod.splits)

lemma budget_sums:
  "bg_in (foldl (budget_step before n) g xs) = bg_in g + sum_list (map (busy_share before) (filter (\<lambda>x. \<not> (n \<noteq> 0 \<and> n \<le> fst x)) xs))"
  "bg_out (foldl (budget_step before n) g xs) = bg_out g + sum_list (map (busy_share before) (filter (\<lambda>x. n \<noteq> 0 \<and> n \<le> fst x) xs))"
  by (induction xs arbitrary: g) (simp_all add: budget_step_shares)

lemma stat_lines_distinct: "stat_lines ls out = Inr after' \<Longrightarrow> distinct (map fst out) \<Longrightarrow> distinct (map fst after')"
proof (induction ls arbitrary: out)
  case (Cons l ls)
  then show ?case
    by (auto simp: Let_def res_bind_Inr distinct_update split: if_splits)
qed simp

text \<open>What the kernel keeps: no cpu is busy for less than nothing, or for more than the time that passed.\<close>

definition steady_jiffies :: "jiffies \<Rightarrow> jiffies \<Rightarrow> bool" where
  "steady_jiffies before after' \<longleftrightarrow> list_all (\<lambda>(cpu, b1, t1). 0 \<le> cpu \<and> (case (case map_of before cpu of None \<Rightarrow> (0, 0) | Some x \<Rightarrow> x) of (b0, t0) \<Rightarrow>
     b0 \<le> b1 \<and> b1 - b0 \<le> t1 - t0)) after'"

lemma busy_share_bounds: "steady_jiffies before after' \<Longrightarrow> x \<in> set after' \<Longrightarrow> 0 \<le> busy_share before x \<and> busy_share before x \<le> 1"
  by (auto simp: steady_jiffies_def list_all_iff busy_share_def divide_simps split: prod.splits)

lemma shares_bounds:
  assumes "\<And>x. x \<in> set xs \<Longrightarrow> 0 \<le> f x \<and> f x \<le> (1 :: rat)"
  shows "0 \<le> sum_list (map f xs) \<and> sum_list (map f xs) \<le> of_nat (length xs)"
  using assms by (induction xs) (auto simp: add_nonneg_nonneg algebra_simps add_mono)

lemma length_below:
  assumes "distinct cs" "\<And>c. c \<in> set cs \<Longrightarrow> 0 \<le> c \<and> c < (n :: int)"
  shows "int (length cs) \<le> max n 0"
proof -
  have "set cs \<subseteq> {0..<n}" using assms(2) by auto
  then have "card (set cs) \<le> card {0..<n}" by (intro card_mono) auto
  with assms(1) show ?thesis by (simp add: distinct_card)
qed

text \<open>
  The accounting of a core budget: over two readings of the kernel's table with counters that only grow, the
  cores busy inside the budget are between none and all of it, those outside between none and the cpus there are,
  and none at all exactly when every cpu outside was idle; without a budget every cpu is inside.
\<close>

theorem cpu_budget_bounds:
  assumes now: "stat_lines ls [] = Inr after'" and steady: "steady_jiffies before after'" and n: "0 \<le> n"
  shows "let g = cpu_budget before after' n; out = filter (\<lambda>x. n \<noteq> 0 \<and> n \<le> fst x) after' in
     0 \<le> bg_in g \<and> (n \<noteq> 0 \<longrightarrow> bg_in g \<le> of_int n) \<and> 0 \<le> bg_out g \<and> bg_out g \<le> of_nat (length out) \<and>
     (bg_out g = 0 \<longleftrightarrow> (\<forall>x \<in> set out. busy_share before x = 0)) \<and> bg_in g + bg_out g = sum_list (map (busy_share before) after')"
proof -
  let ?in = "filter (\<lambda>x. \<not> (n \<noteq> 0 \<and> n \<le> fst x)) (sort_key fst after')" and ?out = "filter (\<lambda>x. n \<noteq> 0 \<and> n \<le> fst x) (sort_key fst after')"
  let ?g = "cpu_budget before after' n" and ?f = "busy_share before"
  have sums: "bg_in ?g = sum_list (map ?f ?in)" "bg_out ?g = sum_list (map ?f ?out)"
    by (simp_all add: cpu_budget_def budget_sums)
  have share: "0 \<le> ?f x \<and> ?f x \<le> 1" if "x \<in> set after'" for x using busy_share_bounds [OF steady that] .
  have bounds: "0 \<le> sum_list (map ?f ?in) \<and> sum_list (map ?f ?in) \<le> of_nat (length ?in)" "0 \<le> sum_list (map ?f ?out) \<and> sum_list (map ?f ?out) \<le> of_nat (length ?out)"
    by (rule shares_bounds; use share in auto)+
  have outs: "length ?out = length (filter (\<lambda>x. n \<noteq> 0 \<and> n \<le> fst x) after')"
    by (metis mset_filter mset_sort size_mset)
  have whole: "sum_list (map ?f ?in) + sum_list (map ?f ?out) = sum_list (map ?f after')"
  proof -
    have "sum_list (map ?f (filter (\<lambda>x. \<not> P x) xs)) + sum_list (map ?f (filter P xs)) = sum_list (map ?f xs)" for P xs
      by (induction xs) auto
    from this [of "\<lambda>x. n \<noteq> 0 \<and> n \<le> fst x" "sort_key fst after'"] have "sum_list (map ?f ?in) + sum_list (map ?f ?out) = sum_list (map ?f (sort_key fst after'))"
      .
    also have "\<dots> = sum_list (map ?f after')" by (metis mset_map mset_sort sum_mset_sum_list)
    finally show ?thesis .
  qed
  have budget: "of_nat (length ?in) \<le> (of_int n :: rat)" if "n \<noteq> 0"
  proof -
    have "distinct (map fst after')" using stat_lines_distinct [OF now] by simp
    then have "distinct (map fst (sort_key fst after'))" by (metis distinct_map mset_map mset_sort set_mset_mset mset_eq_imp_distinct_iff)
    then have "distinct (map fst ?in)" by (rule distinct_map_filter)
    moreover have "0 \<le> c \<and> c < n" if "c \<in> set (map fst ?in)" for c
      using that steady \<open>n \<noteq> 0\<close> by (auto simp: steady_jiffies_def list_all_iff)
    ultimately have "int (length (map fst ?in)) \<le> max n 0" by (rule length_below)
    with n show ?thesis by (metis length_map max.absorb1 of_int_le_iff of_int_of_nat_eq)
  qed
  have zero: "sum_list (map ?f ?out) = 0 \<longleftrightarrow> (\<forall>x \<in> set (filter (\<lambda>x. n \<noteq> 0 \<and> n \<le> fst x) after'). ?f x = 0)"
    by (subst sum_list_nonneg_eq_0_iff) (use share in auto)
  have "n \<noteq> 0 \<longrightarrow> bg_in ?g \<le> of_int n" unfolding sums using bounds budget order_trans by blast
  then show ?thesis unfolding Let_def sums zero [symmetric] whole using bounds outs by simp
qed

section \<open>A scripted machine\<close>

definition irq_table :: string where
  "irq_table = ''24: 7 ens5-Tx-Rx-0'' @ [nl] @ ''25: 7 ens5-Tx-Rx-1'' @ [nl] @ ''NMI: 0''"

definition box0 :: "unit box" where
  "box0 = \<lparr>bx_config = [(''MODE'', ''capped'')], bx_environ = (\<lambda>k. None), bx_run = (\<lambda>c i u. (Inr \<lparr>pr_code = 0, pr_out = [], pr_err = []\<rparr>, u)),
     bx_stream = (\<lambda>c e u. (Inr ([], 0), u)), bx_read = (\<lambda>p u. if p = ''/proc/interrupts'' then Some irq_table else None),
     bx_write = (\<lambda>p v u. (True, u)), bx_dir = (\<lambda>p u. Some [''tx-1'', ''rx-0'', ''tx-0'']), bx_mkdir = (\<lambda>p u. (Inr (), u)),
     bx_fetch = (\<lambda>a p u. (Inr 1, u)), bx_chmod = (\<lambda>p u. (Inr (), u)), bx_imds = (\<lambda>p u. (None, u)), bx_resolve = (\<lambda>h u. (Inr ''10.0.0.1'', u)),
     bx_clock = (\<lambda>u. (0, u)), bx_append = (\<lambda>p t u. (Inr (), u)), bx_nap = (\<lambda>d u. u), bx_release = ''6.1'', bx_cpus = 4, bx_hz = 100, bx_error = (\<lambda>e. ''error'')\<rparr>"

definition duck0 :: "unit duck" where
  "duck0 = \<lparr>dk_box = box0, dk_json = (\<lambda>t. Inr []), dk_remove = (\<lambda>p u. (Inr (), u)), dk_spawn = (\<lambda>c e u. (Inr 7, u)), dk_poll = (\<lambda>p u. (Some 0, u)),
     dk_tasks = (\<lambda>p u. None), dk_sched = (\<lambda>p t u. None), dk_kill = (\<lambda>p u. u), dk_reap = (\<lambda>p u. (([], []), u)), dk_which = (\<lambda>t u. True)\<rparr>"

lemma s3_arm_touches_only_witness: "emits (within_arm box0 8) (s3_main box0 (\<lambda>_. None) 8)"
  by (rule s3_arm_touches_only) simp

lemma irqs0: "List.map_filter (irq_of ''ens5'') (splitlines (strip irq_table)) = [''24'', ''25'']"
  by (simp add: irq_table_def nl_def strip_def is_space_def in_ranges_def space_ranges_def line_end_def irq_of_def parted_def all_digits_def is_digit_def
      List.map_filter_def)

lemma cap0: "\<exists>es. cap_cores box0 ''ens5'' 2 () = (Inr (), (), es)"
proof -
  have tools: "\<exists>es. run_tool box0 c we () = (Inr [], (), es)" for c we
    by (simp add: run_tool_def exec_tool_def feed_tool_def box0_def io_defs)
  have said: "\<exists>es. say t () = (Inr (), (), es)" for t by (simp add: say_def io_emit_def)
  have read: "\<exists>es. read_file box0 ''/proc/interrupts'' [] () = (Inr (strip irq_table), (), es)"
    by (simp add: read_file_def io_ask_def box0_def)
  have irqs: "\<exists>es. pin_irqs box0 2 (List.map_filter (irq_of ''ens5'') (splitlines (strip irq_table))) 0 () = (Inr 2, (), es)"
    unfolding irqs0 by (simp add: py_mod_def io_res_def write_file_def box0_def io_defs)
  have dir: "\<exists>es. io_ask (bx_dir box0 p) () = (Inr (Some [''tx-1'', ''rx-0'', ''tx-0'']), (), es)" for p
    by (simp add: io_ask_def box0_def)
  have queues: "\<exists>es. pin_queues box0 p 2 (filter (starts_with ''tx-'') (sort (case Some [''tx-1'', ''rx-0'', ''tx-0''] of None \<Rightarrow> [] | Some qs \<Rightarrow> qs))) 0 () = (Inr 2, (), es)" for p
    by (simp add: py_mod_def one_shifted_def io_res_def write_file_def box0_def io_defs)
  have chan: "\<exists>es. channels box0 ''ens5'' () = (Inr (combined_of []), (), es)"
    by (simp add: channels_def run_tool_def exec_tool_def feed_tool_def box0_def io_defs)
  show ?thesis unfolding cap_cores_def io_seq_def
    apply (rule bind_returns, rule said)
    apply (rule bind_returns, rule tools)+
    apply (rule bind_returns, rule read)
    apply (rule bind_returns, rule irqs)
    apply (rule bind_returns, rule dir)
    apply (rule bind_returns, rule queues)
    apply (rule bind_returns, rule chan)
    by (rule said)
qed

lemma cap_cores_round_robin_witness:
  "\<exists>w' es. cap_cores box0 ''ens5'' 2 () = (Inr (), w', es) \<and>
     writes_of es = [(''/proc/irq/24/smp_affinity_list'', ''0''), (''/proc/irq/25/smp_affinity_list'', ''1''),
       (''/sys/class/net/ens5/queues/tx-0/xps_cpus'', ''1''), (''/sys/class/net/ens5/queues/tx-1/xps_cpus'', ''2'')]"
proof -
  obtain es where run: "cap_cores box0 ''ens5'' 2 () = (Inr (), (), es)" using cap0 by blast
  have "fst (bx_write box0 p v u)" "bx_read box0 ''/proc/interrupts'' u = Some irq_table" "bx_dir box0 (queue_dir ''ens5'') u = Some [''tx-1'', ''rx-0'', ''tx-0'']" for p v u
    by (simp_all add: box0_def)
  from cap_cores_round_robin [OF _ this run] have "writes_of es = round_robin (\<lambda>i. show_int (int i mod 2)) irq_path [''24'', ''25''] 0
      @ round_robin (\<lambda>i. show_hex (2 ^ (i mod nat 2))) (\<lambda>q. queue_dir ''ens5'' @ ''/'' @ q @ ''/xps_cpus'') (filter (starts_with ''tx-'') (sort [''tx-1'', ''rx-0'', ''tx-0''])) 0"
    by (simp add: irqs0 Let_def)
  then have "writes_of es = [(''/proc/irq/24/smp_affinity_list'', ''0''), (''/proc/irq/25/smp_affinity_list'', ''1''),
       (''/sys/class/net/ens5/queues/tx-0/xps_cpus'', ''1''), (''/sys/class/net/ens5/queues/tx-1/xps_cpus'', ''2'')]"
    by (simp add: round_robin_simps irq_path_def queue_dir_def show_int_def show_nat.simps digit_char_def show_hex.simps hex_digit_def char_of_def bit_0)
  with run show ?thesis by blast
qed

lemma stat0: "stat_lines [''cpu0 1 0 0 9'', ''cpu1 0 0 0 10''] [] = Inr [(0, 1, 10), (1, 0, 10)]"
  by (simp add: Let_def is_cpu_line_def is_space_def in_ranges_def space_ranges_def py_int_def strip_def all_digits_def is_digit_def nat_of_digits_def
      digit_val_def busy_total_def nth_res_def res_bind_def)

lemma cpu_budget_bounds_witness: "bg_in (cpu_budget [] [(0, 1, 10), (1, 0, 10)] 1) \<le> 1 \<and> bg_out (cpu_budget [] [(0, 1, 10), (1, 0, 10)] 1) = 0"
proof -
  have "steady_jiffies [] [(0, 1, 10), (1, 0, 10)]" by (simp add: steady_jiffies_def)
  from cpu_budget_bounds [OF stat0 this, of 1] show ?thesis by (simp add: Let_def busy_share_def)
qed

end
