(* ===== verification/AnyGuest.thy ===== *)
theory AnyGuest
  imports S3Guest
begin

text \<open>
  \<^verbatim>\<open>competitors/anyblob/scripts/instance.py\<close>: the program on the instance of the AnyBlob bench. It says what
  the machine is, fetches the binary, pins the name it dials if asked to, runs it and says what the run cost.
\<close>

section \<open>Knobs\<close>

definition any_bin :: "'w box \<Rightarrow> string" where
  "any_bin b = work_dir b @ ''/anyblob-s3''"

text \<open>\<open>int(cfg("BENCH_CPUS", "0") or 0)\<close>.\<close>

definition cpu_knob :: "'w box \<Rightarrow> int res" where
  "cpu_knob b = (let v = guest_cfg b ''BENCH_CPUS'' ''0'' in if v = [] then Inr 0 else py_int v)"

section \<open>Fingerprint\<close>

definition any_run_lines :: "'w box \<Rightarrow> string list" where
  "any_run_lines b =
     (let c = guest_cfg b; url = c ''BENCH_URL'' []; cpus = c ''BENCH_CPUS'' ''0'' in
      [''run id       : '' @ c ''RUN_ID'' ''unknown'',
       ''stack        : anyblob (io_uring, OpenSSL), stock AL2023'',
       ''shape        : '' @ c ''BENCH_WORKERS'' [] @ '' workers x '' @ c ''BENCH_CONNS_PER_WORKER'' [] @ '' conns x '' @ c ''BENCH_BLOCK_SIZE'' []
         @ '' block, '' @ c ''BENCH_BLOCKS'' ''0'' @ '' blocks/worker, chunk '' @ c ''BENCH_CHUNK'' ''65536'',
       ''object       : '' @ (if url \<noteq> [] then url else c ''BENCH_SCHEME'' ''https'' @ ''://'' @ s3_host b @ ''/blob.bin'')
         @ '' ('' @ c ''AWS_BUCKET_SIZE'' [] @ '')'',
       ''cpus         : '' @ (if cpus \<noteq> [] then cpus else ''all''),
       ''target ip    : '' @ c ''AWS_TARGET_IP'' [],
       ''scheme       : '' @ c ''BENCH_SCHEME'' ''https''])"

definition any_machine :: "'w box \<Rightarrow> string \<Rightarrow> string \<Rightarrow> ('w, unit) gu" where
  "any_machine b iface gw =
     io_seq (fingerprint_machine b iface gw)
     (io_bind (read_file b ''/proc/sys/kernel/io_uring_disabled'' ''n/a (older kernel: enabled)'') (\<lambda>t.
       say (''io_uring     : kernel.io_uring_disabled = '' @ t)))"

definition any_nic :: "'w box \<Rightarrow> string \<Rightarrow> ('w, unit) gu" where
  "any_nic b iface =
     io_seq (say_rule ''nic'')
     (io_bind (run_tool b [''ethtool'', ''-i'', iface] False) (\<lambda>i.
     io_seq (say_lines (field_in [''driver'', ''version'', ''firmware-version'']) i)
     (io_bind (run_tool b [''ethtool'', ''-k'', iface] False) (\<lambda>k.
     io_seq (say_lines (field_in [''generic-receive-offload'', ''large-receive-offload'', ''tcp-segmentation-offload'']) k)
     (io_seq (say_file b ''mtu          : '' (mtu_path iface))
     (io_bind (channels b iface) (\<lambda>ch. say (''channels     : '' @ ch))))))))"

definition any_knobs :: "string list" where
  "any_knobs = [''net/core/rmem_max'', ''net/ipv4/tcp_rmem'', ''net/ipv4/tcp_window_scaling'', ''net/ipv4/tcp_moderate_rcvbuf'',
     ''net/core/somaxconn'', ''fs/nr_open'']"

definition any_sysctls :: "'w box \<Rightarrow> ('w, unit) gu" where
  "any_sysctls b =
     io_seq (say_rule ''sysctls'')
     (io_seq (io_for (\<lambda>knob. io_bind (read_file b (''/proc/sys/'' @ knob) ''n/a'') (\<lambda>v.
        say (to_left 28 (map (\<lambda>c. if c = CHR ''/'' then CHR ''.'' else c) knob) @ '' = '' @ v))) any_knobs)
     (io_bind (run_tool b [''bash'', ''-c'', ''ulimit -Hn''] False) (\<lambda>u. say (to_left 28 ''ulimit -n (hard)'' @ '' = '' @ strip u))))"

definition any_clock :: "'w box \<Rightarrow> ('w, unit) gu" where
  "any_clock b = io_seq (say_rule ''clock'')
     (io_bind (run_tool b [''date'', ''-u'', ''+%Y-%m-%dT%H:%M:%SZ''] False) (\<lambda>d. say (''date         : '' @ strip d)))"

definition any_fingerprint :: "'w box \<Rightarrow> string \<Rightarrow> string \<Rightarrow> ('w, unit) gu" where
  "any_fingerprint b iface gw =
     io_seq (say_rule ''run'') (io_seq (io_for say (any_run_lines b)) (io_seq (any_machine b iface gw)
     (io_seq (any_nic b iface) (io_seq (any_sysctls b) (any_clock b)))))"

section \<open>The name it dials\<close>

definition resolved_names :: "string \<Rightarrow> string list" where
  "resolved_names t = sort (remdups (map (\<lambda>l. hd (words l)) (filter (\<lambda>l. strip l \<noteq> []) (splitlines t))))"

definition hosts_line :: "'w box \<Rightarrow> string \<Rightarrow> string" where
  "hosts_line b ip = [nl] @ ip @ '' '' @ s3_host b @ [nl]"

definition any_pin :: "'w box \<Rightarrow> ('w, unit) gu" where
  "any_pin b =
     (let ip = guest_cfg b ''AWS_TARGET_IP'' []; url = guest_cfg b ''BENCH_URL'' [] in
      io_seq (say_rule ''resolver'')
      (if url \<noteq> [] then say (''pinned       : n/a, BENCH_URL is '' @ url)
       else if guest_cfg b ''BENCH_PIN'' ''0'' = ''1'' \<and> ip \<noteq> [] then
         io_seq (io_call (Appended ''/etc/hosts'' (hosts_line b ip)) (bx_append b ''/etc/hosts'' (hosts_line b ip)))
         (io_seq (say (''pinned       : '' @ s3_host b @ '' -> '' @ ip @ '' (/etc/hosts)''))
         (io_bind (run_tool b [''getent'', ''ahostsv4'', s3_host b] False) (\<lambda>t. say (''resolves to  : '' @ hd (split_on nl t)))))
       else
         io_seq (say (''pinned       : no (AnyBlob resolves '' @ s3_host b @ '' itself)''))
         (io_bind (run_tool b [''getent'', ''ahostsv4'', s3_host b] False) (\<lambda>t. say (''resolves to  : '' @ join '', '' (resolved_names t))))))"

section \<open>The run\<close>

definition any_fetch :: "'w box \<Rightarrow> ('w, bool) gu" where
  "any_fetch b = fetch_from b (endpoint b @ ''/bin/anyblob-s3'') (any_bin b)"

definition ca_files :: "string list" where
  "ca_files = [''/etc/pki/tls/certs/ca-bundle.crt'', ''/etc/ssl/certs/ca-certificates.crt'']"

text \<open>The first trust store that exists.\<close>

definition any_ca :: "'w box \<Rightarrow> ('w, string option) gu" where
  "any_ca b = io_ask (\<lambda>w. List.find (\<lambda>ca. bx_read b ca w \<noteq> None) ca_files)"

text \<open>What the environment of the binary has beside the program's own; \<open>setdefault\<close> keeps a trust store that is set.\<close>

definition any_env :: "'w box \<Rightarrow> string \<Rightarrow> string option \<Rightarrow> (string \<times> string) list" where
  "any_env b iface ca =
     (let env = dict_set ''BENCH_IFACE'' iface (bx_config b) in
      case ca of None \<Rightarrow> env
      | Some p \<Rightarrow> if map_of env ''SSL_CERT_FILE'' = None \<and> bx_environ b ''SSL_CERT_FILE'' = None then dict_set ''SSL_CERT_FILE'' p env else env)"

definition any_argv :: "'w box \<Rightarrow> int \<Rightarrow> string list" where
  "any_argv b cpus = (if 0 < cpus then [''taskset'', ''-c'', ''0-'' @ show_int (cpus - 1), any_bin b] else [any_bin b])"

definition any_bench :: "'w box \<Rightarrow> string \<Rightarrow> ('w, int) gu" where
  "any_bench b iface =
     io_seq (say_rule ''bench'')
     (io_bind (any_ca b) (\<lambda>ca.
     io_seq (case ca of None \<Rightarrow> io_ret () | Some p \<Rightarrow> say (''ca bundle    : '' @ p))
     (io_bind (io_res (cpu_knob b)) (\<lambda>cpus.
     io_seq (io_when (0 < cpus) (say (''taskset      : 0-'' @ show_int (cpus - 1))))
     (io_bind (io_call (Streamed (any_argv b cpus) (any_env b iface ca)) (bx_stream b (any_argv b cpus) (any_env b iface ca))) (\<lambda>(ls, code).
     io_seq (io_for say ls) (io_seq (say (''bench exit   : '' @ show_int code)) (io_ret code))))))))"

section \<open>Main\<close>

type_synonym any_readings = "int \<times> int dict \<times> jiffies"

definition any_prepare :: "'w box \<Rightarrow> string \<Rightarrow> string \<Rightarrow> ('w, any_readings option) gu" where
  "any_prepare b iface gw =
     io_seq (any_fingerprint b iface gw)
     (io_bind (any_fetch b) (\<lambda>ok.
      if \<not> ok then io_ret None
      else io_bind (io_res (cpu_knob b)) (\<lambda>cpus.
        io_seq (io_when (guest_cfg b ''MODE'' [] = ''nogro'') (gro_off b iface))
        (io_seq (io_when (0 < cpus) (cap_cores b iface cpus))
        (io_seq (any_pin b)
        (io_bind (counters b iface) (\<lambda>before. io_bind (percpu b) (\<lambda>cpu0. io_ret (Some (cpus, before, cpu0))))))))))"

definition any_reports :: "'w box \<Rightarrow> string \<Rightarrow> any_readings \<Rightarrow> ('w, unit) gu" where
  "any_reports b iface = (\<lambda>(cpus, before, cpu0).
     io_bind (percpu b) (\<lambda>cpu1. io_seq (report_cpu_budget cpu0 cpu1 cpus)
     (io_bind (counters b iface) (\<lambda>after'. report_counters before after'))))"

definition any_main :: "'w box \<Rightarrow> ('w, int) gu" where
  "any_main b =
     io_bind (io_ask (bx_dir b (work_dir b))) (\<lambda>dir.
     io_seq (io_when (dir = None) (make_dir b (work_dir b)))
     (io_bind (default_route b) (\<lambda>(iface, gw).
     io_bind (io_try (any_prepare b iface gw)) (\<lambda>p. case p of
       Inl e \<Rightarrow> io_finish (Inl e) (farewell b 1)
     | Inr None \<Rightarrow> io_finish (Inr 1) (farewell b 1)
     | Inr (Some rd) \<Rightarrow>
         io_bind (io_try (any_bench b iface)) (\<lambda>r. case r of
           Inl e \<Rightarrow> io_finish (Inl e) (farewell b 1)
         | Inr rc \<Rightarrow> io_bind (io_try (any_reports b iface rd)) (\<lambda>q. io_finish (res_bind q (\<lambda>_. Inr rc)) (farewell b rc)))))))"

end
