(* ===== verification/HttpGuest.thy ===== *)
theory HttpGuest
  imports AnyGuest
begin

text \<open>
  \<^verbatim>\<open>competitors/linux-http/scripts/instance.py\<close>: the program on the instance of the HTTP load bench. It
  fetches \<open>wrk\<close> and its script, makes the wire what the arm is to have, runs \<open>wrk\<close> against the server and
  turns what it printed into lines the driver reads. File modes are left out.
\<close>

section \<open>Knobs\<close>

text \<open>The machine, and a run of a command with an environment that may time out (a \<open>SubprocessError\<close>).\<close>

record 'w wrk =
  wk_box :: "'w box"
  wk_exec :: "string list \<Rightarrow> (string \<times> string) list \<Rightarrow> int \<Rightarrow> 'w \<Rightarrow> (exn + proc) \<times> 'w"

definition wrk_cfg :: "'w wrk \<Rightarrow> string \<Rightarrow> string \<Rightarrow> string" where
  "wrk_cfg k key d = guest_cfg (wk_box k) key d"

definition wrk_prefix :: "'w wrk \<Rightarrow> string" where
  "wrk_prefix k = wrk_cfg k ''BENCH_BIN_PREFIX'' ''bin/linux-http''"

definition wrk_duration :: "'w wrk \<Rightarrow> string" where
  "wrk_duration k = wrk_cfg k ''BENCH_DURATION'' ''30''"

definition wrk_bin :: "'w wrk \<Rightarrow> string" where
  "wrk_bin k = work_dir (wk_box k) @ ''/wrk''"

definition wrk_lua :: "'w wrk \<Rightarrow> string" where
  "wrk_lua k = work_dir (wk_box k) @ ''/range.lua''"

definition wrk_url :: "'w wrk \<Rightarrow> string" where
  "wrk_url k = ''http://'' @ wrk_cfg k ''AWS_TARGET_IP'' [] @ ''/blob.bin''"

definition wrk_sizes :: "'w wrk \<Rightarrow> (string \<times> string) list" where
  "wrk_sizes k = [(''BENCH_BLOCK_SIZE'', wrk_cfg k ''BENCH_BLOCK_SIZE'' ''134217728''), (''BENCH_OBJECT_SIZE'', wrk_cfg k ''BENCH_OBJECT_SIZE'' ''10737418240''),
     (''BENCH_CLOSE'', wrk_cfg k ''BENCH_CLOSE'' ''1'')]"

section \<open>The wire\<close>

definition match_mininet :: "'w box \<Rightarrow> string \<Rightarrow> ('w, unit) gu" where
  "match_mininet b iface =
     io_bind (read_file b (mtu_path iface) []) (\<lambda>mtu.
     io_seq (say (''parity       : mtu '' @ mtu @ '' -> 1500, GRO off, quickack, rmem ceiling fixed''))
     (io_seq (write_file b (mtu_path iface) ''1500'')
     (io_seq (run_tool b [''ethtool'', ''-K'', iface, ''gro'', ''off''] False)
     (io_seq (run_tool b [''ethtool'', ''-K'', iface, ''lro'', ''off''] False)
     (io_bind (run_tool b [''ip'', ''route'', ''show'', ''default''] False) (\<lambda>t. let route = strip t in
     io_seq (io_when (route \<noteq> [] \<and> \<not> is_infix ''quickack'' route)
       (io_bind (run_tool b ([''ip'', ''route'', ''replace''] @ words route @ [''quickack'', ''1'']) False) (\<lambda>_. io_ret ())))
     (io_seq (write_file b ''/proc/sys/net/core/rmem_max'' ''16777216'')
     (io_seq (write_file b ''/proc/sys/net/ipv4/tcp_rmem'' ''4096 131072 16777216'')
     (io_bind (run_tool b [''ethtool'', ''-k'', iface] False) (\<lambda>feats. let gro = filter (starts_with ''generic-receive-offload'') (splitlines feats) in
     io_bind (read_file b (mtu_path iface) []) (\<lambda>mtu'.
     io_bind (run_tool b [''ip'', ''route'', ''show'', ''default''] False) (\<lambda>u.
       say (''             : mtu '' @ mtu' @ '' now, '' @ (if gro = [] then ''gro unknown'' else hd gro) @ '', route ''
         @ (if is_infix ''quickack'' u then ''quickack'' else ''no quickack''))))))))))))))"

section \<open>Readings\<close>

definition wrk_fetch :: "'w wrk \<Rightarrow> string \<Rightarrow> string \<Rightarrow> ('w, bool) gu" where
  "wrk_fetch k name dest =
     (let b = wk_box k; url = endpoint b @ ''/'' @ wrk_prefix k @ ''/'' @ name in
      io_bind (io_try (download b url dest)) (\<lambda>r. case r of
        Inl e \<Rightarrow> if is_exception e then io_seq (say (''FAIL: could not fetch '' @ url @ '': '' @ bx_error b e)) (io_ret False) else io_raise e
      | Inr n \<Rightarrow> io_seq (make_executable b dest) (io_seq (say (''fetched '' @ name @ '' ('' @ show_int n @ '' bytes)'')) (io_ret True))))"

definition nic_rx :: "'w box \<Rightarrow> string \<Rightarrow> ('w, int \<times> int) gu" where
  "nic_rx b iface =
     (let base = ''/sys/class/net/'' @ iface @ ''/statistics/'' in
      io_bind (read_file b (base @ ''rx_bytes'') ''0'') (\<lambda>x. io_bind (io_res (py_int x)) (\<lambda>bs.
      io_bind (read_file b (base @ ''rx_packets'') ''0'') (\<lambda>y. io_bind (io_res (py_int y)) (\<lambda>ps. io_ret (bs, ps))))))"

text \<open>Busy and total jiffies over every cpu, from the first line of the table.\<close>

definition all_cpus :: "string \<Rightarrow> (int \<times> int) res" where
  "all_cpus t = res_bind (nth_res (splitlines t) 0) (\<lambda>l. res_bind (res_list py_int (tl (words l))) busy_total)"

definition cpu_now :: "'w box \<Rightarrow> ('w, int \<times> int) gu" where
  "cpu_now b = io_bind (read_file b ''/proc/stat'' []) (\<lambda>t. io_res (all_cpus t))"

section \<open>What wrk printed\<close>

definition latency_rx :: rx where
  "latency_rx = re ''([~d.]+)(us|ms|s|m)$''"

definition time_us :: "(string \<times> rat) list" where
  "time_us = [(''us'', 1), (''ms'', 1000), (''s'', 1000000), (''m'', 60000000)]"

definition byte_units :: "(string \<times> rat) list" where
  "byte_units = [(''B'', 1), (''KB'', 2 ^ 10), (''MB'', 2 ^ 20), (''GB'', 2 ^ 30), (''TB'', 2 ^ 40)]"

definition group_res :: "nat \<Rightarrow> rxm \<Rightarrow> string res" where
  "group_res n m = of_option TypeErr (group n m)"

definition latency_ms :: "string \<Rightarrow> rat option res" where
  "latency_ms s = (case rx_match_start latency_rx s of
     None \<Rightarrow> Inr None
   | Some m \<Rightarrow> res_bind (group_res 1 m) (\<lambda>x. res_bind (py_float x) (\<lambda>f. res_bind (group_res 2 m) (\<lambda>u.
       res_bind (of_option (KeyErr u) (map_of time_us u)) (\<lambda>us. Inr (Some (f * us / 1000)))))))"

type_synonym latency = "rat option dict"

definition pct_rx :: "string \<Rightarrow> rx" where
  "pct_rx pct = re (''^~s+'' @ pct @ ''%~s+(~S+)'')"

fun percentiles :: "string \<Rightarrow> string list \<Rightarrow> latency \<Rightarrow> latency res" where
  "percentiles out [] lat = Inr lat"
| "percentiles out (pct # pcts) lat = (case rx_search (pct_rx pct) out of
     None \<Rightarrow> percentiles out pcts lat
   | Some m \<Rightarrow> res_bind (group_res 1 m) (\<lambda>s. res_bind (latency_ms s) (\<lambda>v.
       percentiles out pcts (case v of None \<Rightarrow> lat | Some _ \<Rightarrow> dict_set (CHR ''p'' # pct) v lat))))"

definition spread_rx :: rx where
  "spread_rx = re ''^~s+Latency~s+(~S+)~s+(~S+)~s+(~S+)''"

definition latencies :: "string \<Rightarrow> latency res" where
  "latencies out =
     res_bind (percentiles out [''50'', ''75'', ''90'', ''99''] []) (\<lambda>lat. case rx_search spread_rx out of
       None \<Rightarrow> Inr lat
     | Some m \<Rightarrow> res_bind (res_list (\<lambda>n. res_bind (group_res n m) latency_ms) [1, 2, 3]) (\<lambda>vs.
         Inr (foldl (\<lambda>d (key, v). dict_set key v d) lat (zip [''avg'', ''stdev'', ''max''] vs))))"

definition latency_line :: "latency \<Rightarrow> string" where
  "latency_line lat = ''LATENCY: '' @ join '' '' (List.map_filter (\<lambda>(key, v). map_option (\<lambda>x. key @ ''_ms='' @ fixed_point 3 x) v) lat)"

definition summary_rx :: rx where
  "summary_rx = re ''(~d+) requests in ([~d.]+(?:us|ms|s|m)), ([~d.]+)(~w+) read''"

text \<open>The two lines of a run that went through: the rate, and the verdict.\<close>

definition aggregate_line :: "string \<Rightarrow> rat \<Rightarrow> string" where
  "aggregate_line reqs gbps = ''AGGREGATE: '' @ reqs @ '' requests, '' @ fixed_point 3 gbps @ '' Gbps''"

definition bytes_read :: "rxm \<Rightarrow> rat res" where
  "bytes_read m = res_bind (group_res 3 m) (\<lambda>x. res_bind (py_float x) (\<lambda>f. res_bind (group_res 4 m) (\<lambda>u.
     Inr (f * (case map_of byte_units u of Some n \<Rightarrow> n | None \<Rightarrow> 1)))))"

definition gbps_of :: "rxm \<Rightarrow> rat res" where
  "gbps_of m = res_bind (bytes_read m) (\<lambda>n. res_bind (res_bind (group_res 2 m) latency_ms) (\<lambda>t. case t of
     None \<Rightarrow> Inl TypeErr
   | Some ms \<Rightarrow> if ms = 0 then Inl zero_div else Inr (n * 8 / (ms / 1000) / 10 ^ 9)))"

definition summary_lines :: "rxm \<Rightarrow> (string \<times> string) res" where
  "summary_lines m = res_bind (gbps_of m) (\<lambda>g. res_bind (group_res 1 m) (\<lambda>reqs. res_bind (group_res 3 m) (\<lambda>n. res_bind (group_res 4 m) (\<lambda>u.
     Inr (aggregate_line reqs g, ''COMPLETE: '' @ reqs @ '' requests, '' @ n @ u @ '' read'')))))"

definition wrk_verdict :: "proc \<Rightarrow> ('w, int) gu" where
  "wrk_verdict p = (case (pr_code p = 0, rx_search summary_rx (pr_out p)) of
     (True, Some m) \<Rightarrow> io_bind (io_res (summary_lines m)) (\<lambda>(agg, all). io_seq (say agg) (io_seq (say all) (io_ret 0)))
   | _ \<Rightarrow> io_seq (say (''INCOMPLETE: wrk exit '' @ show_int (pr_code p))) (io_ret 1))"

section \<open>Main\<close>

definition wrk_argv :: "'w wrk \<Rightarrow> int \<Rightarrow> string list" where
  "wrk_argv k cpus =
     (if cpus \<noteq> 0 then [''taskset'', ''-c'', ''0-'' @ show_int (cpus - 1)] else [])
     @ [wrk_bin k, ''-t'', wrk_cfg k ''BENCH_THREADS'' ''8'', ''-c'', wrk_cfg k ''BENCH_CONNS'' ''128'', ''-d'', wrk_duration k @ ''s'', ''--latency'',
        ''--timeout'', ''30s'', ''-s'', wrk_lua k, wrk_url k]"

definition wrk_fingerprint :: "'w wrk \<Rightarrow> int \<Rightarrow> string \<Rightarrow> ('w, unit) gu" where
  "wrk_fingerprint k cpus iface =
     (let b = wk_box k; c = wrk_cfg k in
      io_seq (io_for say
        [''=== linux-http ==='', ''run id       : '' @ c ''RUN_ID'' ''unknown'', ''target       : '' @ wrk_url k,
         ''shape        : '' @ c ''BENCH_THREADS'' ''8'' @ '' threads x '' @ c ''BENCH_CONNS'' ''128'' @ '' conns, '' @ wrk_duration k @ '' s, ''
           @ c ''BENCH_BLOCK_SIZE'' ''134217728'' @ '' byte blocks, close='' @ c ''BENCH_CLOSE'' ''1'',
         ''mode         : '' @ guest_mode b @ '', cpu budget '' @ (if cpus \<noteq> 0 then show_int cpus else ''all'')])
      (io_bind (imds b ''instance-type'') (\<lambda>ty. io_bind (imds b ''instance-id'') (\<lambda>iid.
      io_seq (say (''instance     : '' @ ty @ '' '' @ iid))
      (io_bind (imds b ''placement/availability-zone'') (\<lambda>az.
      io_seq (io_for say [''az           : '' @ az, ''kernel       : '' @ bx_release b, ''nproc        : '' @ show_int (bx_cpus b)])
      (io_bind (read_file b (mtu_path iface) []) (\<lambda>mtu. say (''interface    : '' @ iface @ '' mtu '' @ mtu)))))))))"

definition wrk_tune :: "'w wrk \<Rightarrow> int \<Rightarrow> string \<Rightarrow> ('w, unit) gu" where
  "wrk_tune k cpus iface =
     (let b = wk_box k; m = guest_mode b in
      io_seq (say ''=== bench ==='')
      (io_seq (if m = ''parity'' then match_mininet b iface
         else if m = ''nogro'' then gro_off b iface
         else io_when (m \<noteq> ''stock'') (say (''WARNING: unknown MODE='' @ m @ '' -- running as stock'')))
      (io_when (cpus \<noteq> 0) (cap_cores b iface cpus))))"

text \<open>What is read before the run: the bytes and packets of the interface, the jiffies, the clock, the jiffies by cpu.\<close>

type_synonym wrk_readings = "(int \<times> int) \<times> (int \<times> int) \<times> rat \<times> jiffies"

definition wrk_before :: "'w box \<Rightarrow> string \<Rightarrow> ('w, wrk_readings) gu" where
  "wrk_before b iface =
     io_bind (nic_rx b iface) (\<lambda>n0. io_bind (cpu_now b) (\<lambda>c0. io_bind (guest_clock b) (\<lambda>t0. io_bind (percpu b) (\<lambda>pc0.
     io_ret (n0, c0, t0, pc0)))))"

definition wire_line :: "int \<Rightarrow> int \<Rightarrow> rat \<Rightarrow> string res" where
  "wire_line bs ps elapsed =
     (if elapsed = 0 then Inl zero_div
      else Inr (''RX: '' @ show_int bs @ '' bytes, '' @ show_int ps @ '' packets in '' @ fixed_point 2 elapsed @ '' s => ''
        @ fixed_point 3 (of_int (bs * 8) / elapsed / 10 ^ 9) @ '' Gbps on the wire''))"

definition busy_line :: "int \<Rightarrow> int \<Rightarrow> int \<Rightarrow> string" where
  "busy_line busy all cpus =
     (let frac = (if all \<noteq> 0 then of_int busy / of_int all else 0) in
      ''CPU: busy='' @ fixed_point 4 frac @ '' cores='' @ fixed_point 2 (frac * of_int cpus) @ '' of '' @ show_int cpus)"

definition wrk_reports :: "'w wrk \<Rightarrow> int \<Rightarrow> string \<Rightarrow> wrk_readings \<Rightarrow> proc \<Rightarrow> ('w, int) gu" where
  "wrk_reports k cpus iface = (\<lambda>((b0, p0), (busy0, all0), t0, pc0) p.
     (let b = wk_box k in
      io_bind (guest_clock b) (\<lambda>t1.
      io_bind (nic_rx b iface) (\<lambda>(b1, p1). io_bind (cpu_now b) (\<lambda>(busy1, all1).
      io_bind (percpu b) (\<lambda>pc1. io_seq (report_cpu_budget pc0 pc1 cpus)
      (io_seq (io_for say (splitlines (pr_out p @ pr_err p)))
      (io_seq (say ''=== counters ==='')
      (io_bind (io_res (wire_line (b1 - b0) (p1 - p0) (t1 - t0))) (\<lambda>rx. io_seq (say rx)
      (io_seq (say (busy_line (busy1 - busy0) (all1 - all0) (bx_cpus b)))
      (io_bind (io_res (latencies (pr_out p))) (\<lambda>lat. io_seq (say (latency_line lat)) (wrk_verdict p))))))))))))))"

definition wrk_run :: "'w wrk \<Rightarrow> int \<Rightarrow> string \<Rightarrow> ('w, int) gu" where
  "wrk_run k cpus iface =
     (let b = wk_box k; argv = wrk_argv k cpus in
      io_seq (say (''cmd          : '' @ join '' '' argv))
      (io_bind (wrk_before b iface) (\<lambda>rd.
      io_bind (io_try (io_bind (io_res (py_int (wrk_duration k))) (\<lambda>s.
        io_call (Streamed argv (wrk_sizes k)) (wk_exec k argv (wrk_sizes k) (s + 180))))) (\<lambda>r. case r of
        Inl e \<Rightarrow> if e = OtherExn ''SubprocessError''
          then io_seq (say ''INCOMPLETE: wrk did not finish'')
            (io_bind (percpu b) (\<lambda>pc1. io_seq (report_cpu_budget (snd (snd (snd rd))) pc1 cpus) (io_ret 1)))
          else io_raise e
      | Inr p \<Rightarrow> wrk_reports k cpus iface rd p))))"

definition wrk_body :: "'w wrk \<Rightarrow> int \<Rightarrow> string \<Rightarrow> ('w, int) gu" where
  "wrk_body k cpus iface =
     io_seq (wrk_fingerprint k cpus iface)
     (io_seq (make_dir (wk_box k) (work_dir (wk_box k)))
     (io_bind (wrk_fetch k ''wrk'' (wrk_bin k)) (\<lambda>ok.
      io_bind (if ok then wrk_fetch k ''range.lua'' (wrk_lua k) else io_ret False) (\<lambda>ok'.
      if \<not> ok' then io_seq (say ''INCOMPLETE: binaries unavailable'') (io_ret 1)
      else io_seq (wrk_tune k cpus iface) (wrk_run k cpus iface)))))"

definition wrk_main :: "'w wrk \<Rightarrow> int \<Rightarrow> ('w, int) gu" where
  "wrk_main k cpus =
     io_bind (default_route (wk_box k)) (\<lambda>(iface, gw).
     io_bind (io_try (wrk_body k cpus iface)) (\<lambda>r.
       io_finish r (farewell (wk_box k) (case r of Inl e \<Rightarrow> 1 | Inr rc \<Rightarrow> rc))))"

definition wrk_program :: "'w wrk \<Rightarrow> ('w, int) gu" where
  "wrk_program k = io_bind (io_res (cpu_knob (wk_box k))) (wrk_main k)"

end
