(* ===== verification/ServerGuest.thy ===== *)
theory ServerGuest
  imports Guest
begin

text \<open>
  \<^verbatim>\<open>competitors/nginx-static/scripts/server.py\<close>: the program on the instance of the file server. It fetches
  nginx, lays the blob in memory, starts the server and says that it is ready once a ranged request is answered.
\<close>

section \<open>The machine and its knobs\<close>

text \<open>Beside the machine: starting the server, asking whether it has ended, a request with its status, waiting for the end.\<close>

record 'w srv =
  sv_box :: "'w box"
  sv_spawn :: "string list \<Rightarrow> 'w \<Rightarrow> (exn + unit) \<times> 'w"
  sv_poll :: "'w \<Rightarrow> int option \<times> 'w"
  sv_get :: "string \<Rightarrow> 'w \<Rightarrow> (exn + int) \<times> 'w"
  sv_wait :: "'w \<Rightarrow> 'w"

definition sv_cfg :: "'w srv \<Rightarrow> string \<Rightarrow> string \<Rightarrow> string" where
  "sv_cfg s key d = guest_cfg (sv_box s) key d"

definition sv_work :: "'w srv \<Rightarrow> string" where
  "sv_work s = sv_cfg s ''BENCH_WORK'' ''/run/nginx''"

definition sv_www :: "'w srv \<Rightarrow> string" where
  "sv_www s = sv_cfg s ''BENCH_WWW'' ''/dev/shm/www''"

definition sv_size :: "'w srv \<Rightarrow> string" where
  "sv_size s = sv_cfg s ''BENCH_OBJECT_SIZE'' ''10G''"

definition sv_workers :: "'w srv \<Rightarrow> string" where
  "sv_workers s = (let n = sv_cfg s ''BENCH_SERVER_WORKERS'' ''auto'' in if n = [] then ''auto'' else n)"

definition sv_url :: "'w srv \<Rightarrow> string" where
  "sv_url s = ''https://'' @ s3_host (sv_box s) @ ''/'' @ sv_cfg s ''BENCH_BIN_PREFIX'' ''bin/nginx-static'' @ ''/nginx''"

definition nginx_conf :: "string \<Rightarrow> string \<Rightarrow> string \<Rightarrow> string" where
  "nginx_conf workers work www = join [nl]
    [''daemon off;'',
     ''# The nix build defaults to group \"nogroup\", which AL2023 does not have.'',
     ''user nobody nobody;'',
     ''worker_processes '' @ workers @ '';'',
     ''worker_rlimit_nofile 200000;'',
     ''error_log '' @ work @ ''/error.log warn;'',
     ''pid '' @ work @ ''/nginx.pid;'',
     ''events { worker_connections 65536; multi_accept on; }'',
     ''http {'',
     ''    access_log off;'',
     ''    default_type application/octet-stream;'',
     ''    sendfile on;'',
     ''    tcp_nopush on;'',
     ''    tcp_nodelay on;'',
     ''    keepalive_timeout 75;'',
     ''    keepalive_requests 1000000;'',
     ''    server {'',
     ''        listen 80 default_server reuseport backlog=65535;'',
     ''        root '' @ www @ '';'',
     ''    }'',
     ''}'',
     []]"

text \<open>A question that leaves no trace.\<close>

definition io_silent :: "('w \<Rightarrow> 'a \<times> 'w) \<Rightarrow> ('w, 'a) gu" where
  "io_silent f = (\<lambda>w. case f w of (x, w') \<Rightarrow> (Inr x, w', []))"

text \<open>The metadata service; nothing where it does not answer.\<close>

definition sv_imds :: "'w srv \<Rightarrow> string \<Rightarrow> ('w, string) gu" where
  "sv_imds s p = io_call (AskedImds p) (\<lambda>w. case bx_imds (sv_box s) p w of (got, w') \<Rightarrow> (Inr (case got of Some t \<Rightarrow> t | None \<Rightarrow> []), w'))"

definition or_unknown :: "string \<Rightarrow> string" where
  "or_unknown t = (if t = [] then ''unknown'' else t)"

section \<open>Getting ready\<close>

definition sv_get_blob :: "'w srv \<Rightarrow> ('w, bool) gu" where
  "sv_get_blob s =
     io_bind (io_try (io_call (Pulled ''http://127.0.0.1/blob.bin'') (sv_get s ''http://127.0.0.1/blob.bin''))) (\<lambda>r. case r of
       Inl e \<Rightarrow> if is_exception e then io_ret False else io_raise e
     | Inr status \<Rightarrow> io_ret (status = 206))"

definition server_failed :: "string \<Rightarrow> ('w, bool) gu" where
  "server_failed why = io_seq (say (''SERVER FAILED: '' @ why)) (io_ret False)"

text \<open>The loop that waits for the first answer, with the rounds that are left; False when main is to return 1.\<close>

fun await_206 :: "nat \<Rightarrow> 'w srv \<Rightarrow> ('w, bool) gu" where
  "await_206 0 s = server_failed ''no 206 from nginx''"
| "await_206 (Suc n) s =
     io_seq (nap_guest (sv_box s) (1 / 2))
     (io_bind (io_silent (sv_poll s)) (\<lambda>ended. case ended of
       Some code \<Rightarrow> server_failed (''nginx exited '' @ show_int code)
     | None \<Rightarrow> io_bind (sv_get_blob s) (\<lambda>ok. if ok then io_ret True else await_206 n s)))"

definition sv_fetch :: "'w srv \<Rightarrow> string \<Rightarrow> ('w, bool) gu" where
  "sv_fetch s nginx =
     io_bind (io_try (download (sv_box s) (sv_url s) nginx)) (\<lambda>r. case r of
       Inl e \<Rightarrow> if is_exception e then server_failed (''fetch '' @ sv_url s @ '': '' @ bx_error (sv_box s) e) else io_raise e
     | Inr n \<Rightarrow> io_ret True)"

definition sv_lay :: "'w srv \<Rightarrow> ('w, bool) gu" where
  "sv_lay s =
     (let blob = sv_www s @ ''/blob.bin'' in
      io_bind (exec_tool (sv_box s) [''fallocate'', ''-l'', sv_size s, blob]) (\<lambda>r.
      if pr_code r \<noteq> 0 then server_failed (''fallocate '' @ sv_size s @ '' '' @ blob) else io_ret True))"

definition sv_start :: "'w srv \<Rightarrow> string \<Rightarrow> ('w, unit) gu" where
  "sv_start s nginx =
     (let conf = sv_work s @ ''/nginx.conf''; argv = [nginx, ''-p'', sv_work s, ''-c'', conf] in
      io_bind (write_file (sv_box s) conf (nginx_conf (sv_workers s) (sv_work s) (sv_www s))) (\<lambda>held.
      if held then io_call (Streamed argv []) (sv_spawn s argv) else io_raise (OtherExn ''OSError'')))"

definition ready_line :: "'w srv \<Rightarrow> string \<Rightarrow> string \<Rightarrow> string" where
  "ready_line s ip ty = ''SERVER READY ip='' @ or_unknown ip @ '' object='' @ sv_size s @ '' workers='' @ sv_workers s
     @ '' nproc='' @ show_int (bx_cpus (sv_box s)) @ '' type='' @ or_unknown ty @ '' kernel='' @ bx_release (sv_box s)"

section \<open>Main\<close>

definition sv_serve :: "'w srv \<Rightarrow> ('w, int) gu" where
  "sv_serve s =
     io_bind (sv_imds s ''local-ipv4'') (\<lambda>ip. io_bind (sv_imds s ''instance-type'') (\<lambda>ty.
     io_seq (say (ready_line s ip ty))
     (io_seq (io_when (\<not> is_local (sv_box s))
       (io_bind (exec_tool (sv_box s) [''shutdown'', ''-h'', ''+120'']) (\<lambda>_. io_silent (\<lambda>w. ((), sv_wait s w)))))
     (io_ret 0))))"

text \<open>Once the binary is there, once the blob is.\<close>

definition sv_up :: "'w srv \<Rightarrow> string \<Rightarrow> ('w, int) gu" where
  "sv_up s nginx = io_seq (sv_start s nginx) (io_bind (await_206 60 s) (\<lambda>up. if \<not> up then io_ret 1 else sv_serve s))"

definition sv_install :: "'w srv \<Rightarrow> string \<Rightarrow> ('w, int) gu" where
  "sv_install s nginx =
     io_seq (make_executable (sv_box s) nginx)
     (io_bind (sv_lay s) (\<lambda>laid. if \<not> laid then io_ret 1 else sv_up s nginx))"

definition sv_main :: "'w srv \<Rightarrow> ('w, int) gu" where
  "sv_main s =
     (let b = sv_box s; nginx = sv_work s @ ''/nginx'' in
      io_seq (make_dir b (sv_work s)) (io_seq (make_dir b (sv_www s))
      (io_bind (sv_fetch s nginx) (\<lambda>got. if \<not> got then io_ret 1 else sv_install s nginx))))"

end
