(* ===== verification/GuestEnds.thy ===== *)
theory GuestEnds
  imports GuestArms HttpGuest ServerGuest
begin

text \<open>
  What holds at the end of a guest's run: it goes down, its load was measured, its server answers.
\<close>

section \<open>Every guest goes down\<close>

text \<open>What raises after a bench has returned: the reports on it.\<close>

definition s3_report_raises :: "'w box \<Rightarrow> int \<Rightarrow> exn \<Rightarrow> bool" where
  "s3_report_raises b n e \<longleftrightarrow> (\<exists>iface rd u u' cs. s3_reports b iface n rd u = (Inl e, u', cs))"

definition any_report_raises :: "'w box \<Rightarrow> exn \<Rightarrow> bool" where
  "any_report_raises b e \<longleftrightarrow> (\<exists>iface rd u u' cs. any_reports b iface rd u = (Inl e, u', cs))"

lemma report_raises:
  "s3_reports b iface n rd u = (Inl e, u', cs) \<Longrightarrow> s3_report_raises b n e"
  "any_reports b iface rd' u = (Inl e, u', cs') \<Longrightarrow> any_report_raises b e"
  unfolding s3_report_raises_def any_report_raises_def by blast+

lemma s3_ends_late:
  assumes "\<not> is_local b" "\<And>u. \<exists>p u'. bx_run b [''sync''] [] u = (Inr p, u')"
  shows "ends_late (says_code b (s3_report_raises b n)) (s3_main b pe n)"
  unfolding s3_main_def io_seq_def
  by (intro routed_ends_late ending_try) (auto simp: says_code_def res_bind_def
    intro!: finish_says_code [OF assms] ending_try split: sum.splits option.splits; rule report_raises; assumption)

lemma any_ends_late:
  assumes "\<not> is_local b" "\<And>u. \<exists>p u'. bx_run b [''sync''] [] u = (Inr p, u')"
  shows "ends_late (says_code b (any_report_raises b)) (any_main b)"
  unfolding any_main_def io_seq_def
  by (intro routed_ends_late ending_try) (auto simp: says_code_def res_bind_def
    intro!: finish_says_code [OF assms] ending_try split: sum.splits option.splits; rule report_raises; assumption)

lemma wrk_ends_late:
  assumes "\<not> is_local (wk_box k)" "\<And>u. \<exists>p u'. bx_run (wk_box k) [''sync''] [] u = (Inr p, u')"
  shows "ends_late (says_code (wk_box k) (\<lambda>_. False)) (wrk_main k n)"
  unfolding wrk_main_def
  by (intro routed_ends_late ending_try finish_says_code [OF assms]) (auto simp: says_code_def split: sum.splits)

text \<open>
  C8. Every guest goes down: on a machine that is not told to stay up and on which \<open>sync\<close> can be run, whatever
  \<open>main\<close> of the query guest meets, the last thing it does is to say \<open>rc=\<close> with its code, to flush the disks
  and to call for the power-off in a quarter of an hour; so do the three download and load guests, unless
  they raise before they have said a word. The code said is the one \<open>main\<close> returns, except that the query
  guest says 1 for its ladder, whatever that returns. When \<open>main\<close> raises it is 1, unless the exception is
  that of the power-off itself, or of a download guest's reports after its bench had returned.
\<close>

theorem guests_go_down:
  assumes "\<not> is_local b" "\<And>u. \<exists>p u'. bx_run b [''sync''] [] u = (Inr p, u')" "dk_box d = b" "wk_box k = b"
  shows "ends_down (duck_says_code d) (duck_main d qs) \<and>
    ends_late (says_code b (s3_report_raises b n)) (s3_main b pe n) \<and>
    ends_late (says_code b (any_report_raises b)) (any_main b) \<and>
    ends_late (says_code b (\<lambda>_. False)) (wrk_main k cpus)"
  using duck_ends_down [of d qs] s3_ends_late [OF assms(1,2)] any_ends_late [OF assms(1,2)] wrk_ends_late [of k cpus] assms by auto

definition load0 :: "unit wrk" where
  "load0 = \<lparr>wk_box = box0, wk_exec = (\<lambda>c e t u. (Inr \<lparr>pr_code = 0, pr_out = [], pr_err = []\<rparr>, u))\<rparr>"

lemma guests_go_down_witness: "(\<exists>rc. goes_down rc (io_effects (duck_main duck0 [6] ())) \<and> duck_says_code duck0 (io_result (duck_main duck0 [6] ())) rc) \<and>
   ends_late (says_code box0 (\<lambda>_. False)) (wrk_main load0 2)"
proof -
  have "\<not> is_local box0" by (simp add: box0_def is_local_def guest_cfg_def)
  moreover have "\<exists>p u'. bx_run box0 [''sync''] [] u = (Inr p, u')" for u by (simp add: box0_def)
  moreover have "dk_box duck0 = box0" "wk_box load0 = box0" by (simp_all add: duck0_def load0_def)
  ultimately show ?thesis using guests_go_down [where b = box0 and d = duck0 and k = load0 and qs = "[6]" and cpus = 2]
    by (simp add: ends_down_def)
qed

section \<open>A complete load was measured\<close>

lemma io_res_Inr: "io_res r w = (Inr x, w', es) \<longleftrightarrow> r = Inr x \<and> w' = w \<and> es = []"
  by (cases r) (auto simp: io_res_def io_ret_def io_raise_def)

lemma wrk_verdict_run:
  assumes "wrk_verdict p w = (Inr rc, w', es)"
  shows "rc = 0 \<and> pr_code p = 0 \<and> (\<exists>m agg fin. rx_search summary_rx (pr_out p) = Some m \<and> summary_lines m = Inr (agg, fin) \<and> es = [Say agg, Say fin]) \<or>
    rc = 1 \<and> (\<exists>t. es = [Say (''INCOMPLETE: '' @ t)])"
  using assms unfolding wrk_verdict_def
  by (auto split: bool.splits option.splits elim!: io_bind_InrE io_seq_InrE simp: io_res_Inr say_def io_emit_def io_ret_def)

text \<open>\<open>hands_to m n\<close>: a run of \<open>m\<close> that returns ends with a run of \<open>n\<close> that returns the same.\<close>

definition hands_to :: "('w, geff, 'a) io \<Rightarrow> ('w, geff, 'a) io \<Rightarrow> bool" where
  "hands_to m n \<longleftrightarrow> (\<forall>w x w' es. m w = (Inr x, w', es) \<longrightarrow> (\<exists>pre cs u. es = pre @ cs \<and> n u = (Inr x, w', cs)))"

lemma hands_run: "hands_to m n \<Longrightarrow> m w = (Inr x, w', es) \<Longrightarrow> \<exists>pre cs u. es = pre @ cs \<and> n u = (Inr x, w', cs)"
  by (simp add: hands_to_def)

lemma hands_self: "hands_to m m"
  unfolding hands_to_def by (metis append_Nil)

lemma hands_bind: "(\<And>x. hands_to (f x) n) \<Longrightarrow> hands_to (io_bind m f) n"
  unfolding hands_to_def by (metis io_bind_InrE append.assoc)

lemma hands_seq: "hands_to m n \<Longrightarrow> hands_to (io_seq c m) n"
  by (simp add: io_seq_def hands_bind)

lemma hands_prod: "(\<And>a b. hands_to (f a b) n) \<Longrightarrow> hands_to (case x of (a, b) \<Rightarrow> f a b) n"
  by (cases x) simp

lemmas hands_rules = hands_self hands_bind hands_seq hands_prod

lemma wrk_reports_hands: "hands_to (wrk_reports k cpus iface rd p) (wrk_verdict p)"
proof -
  obtain b0 p0 busy0 all0 t0 pc0 where "rd = ((b0, p0), (busy0, all0), t0, pc0)" by (metis surj_pair)
  then show ?thesis by (simp add: wrk_reports_def Let_def) (intro hands_rules)
qed

definition load_measured :: "'w wrk \<Rightarrow> int \<Rightarrow> geff list \<Rightarrow> bool" where
  "load_measured k cpus es \<longleftrightarrow> (\<exists>t u u' p m agg fin pre. wk_exec k (wrk_argv k cpus) (wrk_sizes k) t u = (Inr p, u') \<and> pr_code p = 0 \<and>
     rx_search summary_rx (pr_out p) = Some m \<and> summary_lines m = Inr (agg, fin) \<and> es = pre @ [Say agg, Say fin])"

definition says_incomplete :: "geff list \<Rightarrow> bool" where
  "says_incomplete es \<longleftrightarrow> (\<exists>t. Say t \<in> set es \<and> starts_with ''INCOMPLETE: '' t)"

lemma load_measured_append: "load_measured k cpus es \<Longrightarrow> load_measured k cpus (cs @ es)"
  unfolding load_measured_def by (metis append.assoc)

lemma says_incomplete_simps [simp]:
  "says_incomplete (es @ cs) \<longleftrightarrow> says_incomplete es \<or> says_incomplete cs" "\<not> says_incomplete []"
  "says_incomplete (Say t # es) \<longleftrightarrow> starts_with ''INCOMPLETE: '' t \<or> says_incomplete es"
  by (auto simp: says_incomplete_def)

lemma wrk_run_outcome:
  assumes "wrk_run k cpus iface w = (Inr rc, w', es)"
  shows "rc = 0 \<and> load_measured k cpus es \<or> rc = 1 \<and> says_incomplete es"
proof -
  from assms obtain rd w1 e1 r w2 e2 e3 where
    t: "io_try (io_bind (io_res (py_int (wrk_duration k))) (\<lambda>s.
        io_call (Streamed (wrk_argv k cpus) (wrk_sizes k)) (wk_exec k (wrk_argv k cpus) (wrk_sizes k) (s + 180)))) w1 = (Inr r, w2, e2)"
    and c: "(case r of
        Inl e \<Rightarrow> if e = OtherExn ''SubprocessError''
          then io_seq (say ''INCOMPLETE: wrk did not finish'')
            (io_bind (percpu (wk_box k)) (\<lambda>pc1. io_seq (report_cpu_budget (snd (snd (snd rd))) pc1 cpus) (io_ret 1)))
          else io_raise e
      | Inr p \<Rightarrow> wrk_reports k cpus iface rd p) w2 = (Inr rc, w', e3)" and es: "es = e1 @ e2 @ e3"
    unfolding wrk_run_def Let_def by (auto elim!: io_bind_InrE io_seq_InrE)
  show ?thesis
  proof (cases r)
    case (Inl e)
    with c have "e = OtherExn ''SubprocessError''" by (auto simp: io_raise_def split: if_splits)
    with c Inl have "rc = 1 \<and> says_incomplete e3"
      by (auto elim!: io_bind_InrE io_seq_InrE simp: say_def io_emit_def io_ret_def)
    with es show ?thesis by simp
  next
    case (Inr p)
    with t obtain n u where p: "wk_exec k (wrk_argv k cpus) (wrk_sizes k) (n + 180) u = (Inr p, w2)"
      by (auto simp: io_try_def io_bind_def io_call_def io_res_def io_ret_def io_raise_def split: prod.splits sum.splits)
    from c Inr have "wrk_reports k cpus iface rd p w2 = (Inr rc, w', e3)" by simp
    from hands_run [OF wrk_reports_hands this] obtain pre cs v where e3: "e3 = pre @ cs" "wrk_verdict p v = (Inr rc, w', cs)" by blast
    from wrk_verdict_run [OF e3(2)] have "rc = 0 \<and> load_measured k cpus cs \<or> rc = 1 \<and> says_incomplete cs"
    proof
      assume "rc = 0 \<and> pr_code p = 0 \<and> (\<exists>m agg fin. rx_search summary_rx (pr_out p) = Some m \<and> summary_lines m = Inr (agg, fin) \<and> cs = [Say agg, Say fin])"
      with p show ?thesis unfolding load_measured_def by (metis append_Nil)
    qed auto
    with es e3(1) show ?thesis by (auto intro: load_measured_append)
  qed
qed

text \<open>
  C9. A complete load was measured: when \<open>main\<close> of the load guest returns, its code is 0 or 1. It is 0 only when
  \<open>wrk\<close>, with the arguments and sizes of the configuration, ended with 0 and printed a summary, and the last
  lines before the guest goes down are the rate and the verdict made of that summary; otherwise a line begins
  with \<open>INCOMPLETE\<close>.
\<close>

theorem load_completes_measured:
  assumes "wrk_main k cpus w = (Inr rc, w', es)"
  shows "\<exists>cs down u. es = cs @ down \<and> farewell (wk_box k) rc u = (Inr (), w', down) \<and>
    (rc = 0 \<and> load_measured k cpus cs \<or> rc = 1 \<and> says_incomplete cs)"
proof -
  from assms obtain iface gw w1 e1 r w2 e2 e3 where
    b: "io_try (wrk_body k cpus iface) w1 = (Inr r, w2, e2)" and es: "es = e1 @ e2 @ e3" and
    f: "io_finish r (farewell (wk_box k) (case r of Inl e \<Rightarrow> 1 | Inr rc \<Rightarrow> rc)) w2 = (Inr rc, w', e3)"
    unfolding wrk_main_def by (auto elim!: io_bind_InrE)
  from f have r: "r = Inr rc" and down: "farewell (wk_box k) rc w2 = (Inr (), w', e3)"
    unfolding io_finish_def by (auto elim!: io_seq_InrE simp: io_res_Inr)
  from b r have "wrk_body k cpus iface w1 = (Inr rc, w2, e2)" by (auto simp: io_try_def split: prod.splits)
  then have "rc = 0 \<and> load_measured k cpus e2 \<or> rc = 1 \<and> says_incomplete e2"
    unfolding wrk_body_def
    by (auto elim!: io_bind_InrE io_seq_InrE dest!: wrk_run_outcome intro!: load_measured_append
        simp: say_def io_emit_def io_ret_def split: if_splits)
  with es down show ?thesis by (intro exI [of _ "e1 @ e2"] exI [of _ e3] exI [of _ w2]) (auto intro: load_measured_append)
qed

section \<open>A server that is ready has answered\<close>

definition blob_url :: string where
  "blob_url = ''http://127.0.0.1/blob.bin''"

text \<open>How often the server guest waited.\<close>

definition rounds :: "geff list \<Rightarrow> nat" where
  "rounds es = length (filter (\<lambda>e. e = Slept (1 / 2)) es)"

lemma rounds_simps [simp]:
  "rounds [] = 0" "rounds (es @ cs) = rounds es + rounds cs" "rounds (e # es) = (if e = Slept (1 / 2) then 1 else 0) + rounds es"
  by (simp_all add: rounds_def)

definition restless :: "geff \<Rightarrow> bool" where
  "restless e \<longleftrightarrow> e \<noteq> Slept (1 / 2)"

lemma rounds_restless: "emits restless m \<Longrightarrow> m w = (r, w', es) \<Longrightarrow> rounds es = 0"
  using emits_run by (fastforce simp: rounds_def restless_def filter_empty_conv)

lemma restless_parts [io_intros]:
  "emits restless (say t)" "emits restless (make_dir b p)" "emits restless (make_executable b p)" "emits restless (download b u p)"
  "emits restless (exec_tool b c)" "emits restless (sv_imds s p)" "emits restless (write_file b p v)" "emits restless (io_silent f)"
  "emits restless (server_failed t)"
  by (auto simp: say_def make_dir_def make_executable_def download_def exec_tool_def feed_tool_def sv_imds_def write_file_def io_silent_def
      server_failed_def restless_def emits_def io_defs split: prod.splits sum.splits option.splits)

lemma await_206_run:
  assumes "await_206 n s w = (Inr up, w', es)"
  shows "rounds es \<le> n \<and> (if up then \<exists>pre u. es = pre @ [Pulled blob_url] \<and> sv_get s blob_url u = (Inr 206, w')
    else \<exists>pre why. es = pre @ [Say (''SERVER FAILED: '' @ why)])"
  using assms
proof (induction n arbitrary: w es)
  case 0
  then show ?case by (auto simp: server_failed_def say_def io_defs)
next
  case (Suc n)
  define go where "go = (\<lambda>ended. case ended of
       Some code \<Rightarrow> server_failed (''nginx exited '' @ show_int code)
     | None \<Rightarrow> io_bind (sv_get_blob s) (\<lambda>ok. if ok then io_ret True else await_206 n s))"
  from Suc.prems obtain ended w2 e2 where run: "go ended w2 = (Inr up, w', e2)" and es: "es = Slept (1 / 2) # e2"
    unfolding await_206.simps go_def [symmetric]
    by (auto elim!: io_seq_InrE io_bind_InrE simp: nap_guest_def io_silent_def io_call_def split: prod.splits)
  note c = run [unfolded go_def]
  show ?case
  proof (cases ended)
    case (Some code)
    with c es show ?thesis by (auto simp: server_failed_def say_def io_defs)
  next
    case None
    with c obtain ok w3 e3 e4 where g: "sv_get_blob s w2 = (Inr ok, w3, e3)"
      and n: "(if ok then io_ret True else await_206 n s) w3 = (Inr up, w', e4)" and e2: "e2 = e3 @ e4"
      by (auto elim!: io_bind_InrE)
    from g have e3: "e3 = [Pulled blob_url]" "ok \<Longrightarrow> sv_get s blob_url w2 = (Inr 206, w3)"
      by (auto simp: sv_get_blob_def io_try_def io_bind_def io_call_def io_ret_def io_raise_def blob_url_def split: prod.splits sum.splits if_splits)
    show ?thesis
    proof (cases ok)
      case True
      with n e2 e3 es show ?thesis
        by (auto simp: io_ret_def intro!: exI [of _ "[Slept (1 / 2)]"] exI [of _ w2])
    next
      case False
      with n have "await_206 n s w3 = (Inr up, w', e4)" by simp
      from Suc.IH [OF this] e2 e3(1) es show ?thesis
        by (auto split: if_splits)
    qed
  qed
qed

text \<open>
  What a server's run came to: it said that it is ready, right after nginx answered with 206 and the machine was
  asked who it is; or its last word is why it failed.
\<close>

definition server_ready :: "'w srv \<Rightarrow> geff list \<Rightarrow> bool" where
  "server_ready s es \<longleftrightarrow> (\<exists>pre u u' ip ty post. sv_get s blob_url u = (Inr 206, u') \<and>
     es = pre @ [Pulled blob_url, AskedImds ''local-ipv4'', AskedImds ''instance-type'', Say (ready_line s ip ty)] @ post \<and>
     post = (if is_local (sv_box s) then [] else [Ran [''shutdown'', ''-h'', ''+120'']]))"

definition server_gave_up :: "geff list \<Rightarrow> bool" where
  "server_gave_up es \<longleftrightarrow> (\<exists>pre why. es = pre @ [Say (''SERVER FAILED: '' @ why)])"

lemma server_append:
  "server_ready s es \<Longrightarrow> server_ready s (cs @ es)" "server_gave_up es \<Longrightarrow> server_gave_up (cs @ es)"
proof -
  assume "server_ready s es"
  then obtain pre u u' ip ty post where "sv_get s blob_url u = (Inr 206, u')"
    "es = pre @ [Pulled blob_url, AskedImds ''local-ipv4'', AskedImds ''instance-type'', Say (ready_line s ip ty)] @ post"
    "post = (if is_local (sv_box s) then [] else [Ran [''shutdown'', ''-h'', ''+120'']])" unfolding server_ready_def by blast
  moreover from this(2) have "cs @ es = (cs @ pre) @ [Pulled blob_url, AskedImds ''local-ipv4'', AskedImds ''instance-type'', Say (ready_line s ip ty)] @ post"
    by simp
  ultimately show "server_ready s (cs @ es)" unfolding server_ready_def by blast
next
  assume "server_gave_up es"
  then obtain pre why where "cs @ es = (cs @ pre) @ [Say (''SERVER FAILED: '' @ why)]" unfolding server_gave_up_def by auto
  then show "server_gave_up (cs @ es)" unfolding server_gave_up_def by blast
qed

text \<open>
  \<open>settles n m\<close>: a run of \<open>m\<close> that returns waited at most \<open>n\<close> times, and is ready with 0 or gave up with 1;
  \<open>gate m\<close>: one that returns False gave up, and none waits.
\<close>

definition settles :: "'w srv \<Rightarrow> nat \<Rightarrow> ('w, int) gu \<Rightarrow> bool" where
  "settles s n m \<longleftrightarrow> (\<forall>w rc w' es. m w = (Inr rc, w', es) \<longrightarrow> rounds es \<le> n \<and> (rc = 0 \<and> server_ready s es \<or> rc = 1 \<and> server_gave_up es))"

definition gate :: "('w, bool) gu \<Rightarrow> bool" where
  "gate m \<longleftrightarrow> (\<forall>w ok w' es. m w = (Inr ok, w', es) \<longrightarrow> rounds es = 0 \<and> (\<not> ok \<longrightarrow> server_gave_up es))"

lemma settles_seq: "emits restless c \<Longrightarrow> settles s n m \<Longrightarrow> settles s n (io_seq c m)"
  unfolding settles_def by (auto elim!: io_seq_InrE dest!: rounds_restless) (blast intro: server_append)+

lemma settles_gate: "gate c \<Longrightarrow> settles s n m \<Longrightarrow> settles s n (io_bind c (\<lambda>ok. if \<not> ok then io_ret 1 else m))"
  unfolding settles_def gate_def
  by (auto elim!: io_bind_InrE intro: server_append simp: io_ret_def split: if_splits) (fastforce intro: server_append)+

lemma gate_failed: "gate (server_failed why)"
  by (auto simp: gate_def server_failed_def say_def io_defs server_gave_up_def)

lemma gate_ends: "gate (io_ret True)" "gate (io_raise e)"
  by (simp_all add: gate_def io_ret_def io_raise_def)

lemma gate_bind:
  assumes "emits restless m" "\<And>x. gate (f x)"
  shows "gate (io_bind m f)"
  unfolding gate_def
proof (intro allI impI)
  fix w ok w' es
  assume "io_bind m f w = (Inr ok, w', es)"
  then obtain x w1 e1 e2 where m: "m w = (Inr x, w1, e1)" and f: "f x w1 = (Inr ok, w', e2)" and es: "es = e1 @ e2"
    by (elim io_bind_InrE)
  from assms(2) [of x] f rounds_restless [OF assms(1) m] es show "rounds es = 0 \<and> (\<not> ok \<longrightarrow> server_gave_up es)"
    by (auto simp: gate_def intro: server_append)
qed

lemma gates: "gate (sv_fetch s p)" "gate (sv_lay s)"
  unfolding sv_fetch_def sv_lay_def Let_def
  by (auto intro!: gate_bind restless_parts emits_try gate_failed gate_ends split: sum.splits)

lemma sv_start_restless: "emits restless (sv_start s p)"
  unfolding sv_start_def Let_def by (auto simp: restless_def intro!: io_intros)

lemma sv_serve_run:
  assumes "sv_serve s w = (Inr rc, w', es)"
  shows "rc = 0 \<and> rounds es = 0 \<and> (\<exists>ip ty. es = [AskedImds ''local-ipv4'', AskedImds ''instance-type'', Say (ready_line s ip ty)]
    @ (if is_local (sv_box s) then [] else [Ran [''shutdown'', ''-h'', ''+120'']]))"
  using assms unfolding sv_serve_def
  by (auto elim!: io_bind_InrE io_seq_InrE simp: sv_imds_def say_def io_emit_def io_call_def io_ret_def io_when_def exec_tool_def feed_tool_def
      io_silent_def split: prod.splits if_splits) blast+

lemma await_settles: "settles s n (io_bind (await_206 n s) (\<lambda>up. if \<not> up then io_ret 1 else sv_serve s))"
  unfolding settles_def
proof (intro allI impI)
  fix w rc w' es
  assume "io_bind (await_206 n s) (\<lambda>up. if \<not> up then io_ret 1 else sv_serve s) w = (Inr rc, w', es)"
  then obtain up w1 e1 e2 where a: "await_206 n s w = (Inr up, w1, e1)" and
    v: "(if \<not> up then io_ret 1 else sv_serve s) w1 = (Inr rc, w', e2)" and es: "es = e1 @ e2" by (elim io_bind_InrE)
  show "rounds es \<le> n \<and> (rc = 0 \<and> server_ready s es \<or> rc = 1 \<and> server_gave_up es)"
  proof (cases up)
    case True
    with v have "sv_serve s w1 = (Inr rc, w', e2)" by simp
    from sv_serve_run [OF this] obtain ip ty where r: "rc = 0" "rounds e2 = 0"
      "e2 = [AskedImds ''local-ipv4'', AskedImds ''instance-type'', Say (ready_line s ip ty)]
        @ (if is_local (sv_box s) then [] else [Ran [''shutdown'', ''-h'', ''+120'']])" by blast
    from await_206_run [OF a] True obtain pre u where p: "rounds e1 \<le> n" "e1 = pre @ [Pulled blob_url]" "sv_get s blob_url u = (Inr 206, w1)" by auto
    have "server_ready s es" unfolding server_ready_def
      by (rule exI [of _ pre], rule exI [of _ u], rule exI [of _ w1], rule exI [of _ ip], rule exI [of _ ty]) (use r(3) p(2,3) es in simp)
    with r p es show ?thesis by simp
  next
    case False
    with v await_206_run [OF a] es show ?thesis by (auto simp: io_ret_def server_gave_up_def)
  qed
qed

text \<open>
  C27. A server that says it is ready has answered: when \<open>main\<close> of the server guest returns, it has waited at
  most sixty times half a second, and either its code is 0 and it said the ready line right after nginx answered
  the ranged request with 206, the power-off scheduled after that unless it is local; or its code is 1 and the
  last it said is that the server failed.
\<close>

theorem server_ready_answered:
  assumes "sv_main s w = (Inr rc, w', es)"
  shows "rounds es \<le> 60 \<and> (rc = 0 \<and> server_ready s es \<or> rc = 1 \<and> server_gave_up es)"
proof -
  have "settles s 60 (sv_main s)"
    unfolding sv_main_def sv_install_def sv_up_def Let_def
    by (intro settles_seq settles_gate gates await_settles sv_start_restless restless_parts)
  with assms show ?thesis unfolding settles_def by blast
qed

end
