(* ===== verification/GuestVerdict.thy ===== *)
theory GuestVerdict
  imports GuestArms BenchDuckdb
begin

text \<open>
  What the query guest says and what becomes of it: a line for every query, the verdict, and what the driver
  reads off a line.
\<close>

section \<open>A line for every query\<close>

definition says :: "geff list \<Rightarrow> string list" where
  "says es = List.map_filter (\<lambda>e. case e of Say t \<Rightarrow> Some t | _ \<Rightarrow> None) es"

definition query_says :: "geff list \<Rightarrow> string list" where
  "query_says es = filter (starts_with ''Q'') (says es)"

lemma query_says_simps [simp]:
  "query_says [] = []" "query_says (es @ cs) = query_says es @ query_says cs"
  "query_says (Say t # es) = (if starts_with ''Q'' t then [t] else []) @ query_says es"
  by (simp_all add: query_says_def says_def List.map_filter_def)

definition no_query :: "geff \<Rightarrow> bool" where
  "no_query e \<longleftrightarrow> (\<forall>t. e = Say t \<longrightarrow> \<not> starts_with ''Q'' t)"

lemma set_map_filter: "set (List.map_filter f xs) = {y. \<exists>x \<in> set xs. f x = Some y}"
  by (force simp: List.map_filter_def)

lemma query_says_none: "(\<And>e. e \<in> set es \<Longrightarrow> no_query e) \<Longrightarrow> query_says es = []"
  unfolding query_says_def says_def filter_empty_conv set_map_filter no_query_def by (fastforce split: geff.splits)

lemma query_says_run: "emits no_query m \<Longrightarrow> m w = (r, w', es) \<Longrightarrow> query_says es = []"
  by (rule query_says_none) (rule emits_run)

lemma no_query_tools [io_intros]:
  "emits no_query (exec_tool b c)" "emits no_query (nap_guest b t)" "emits no_query (remove_old d p)" "emits no_query (run_sql d q j)"
  by (auto simp: exec_tool_def feed_tool_def nap_guest_def remove_old_def run_sql_def no_query_def intro!: io_intros)

lemma no_query_say [io_intros]: "\<not> starts_with ''Q'' t \<Longrightarrow> emits no_query (say t)"
  by (auto simp: say_def no_query_def intro!: io_intros)

lemma emits_silent [io_intros]: "emits P (\<lambda>w. case f w of (x, w') \<Rightarrow> (Inr x, w', []))"
  by (auto simp: emits_def split: prod.splits)

lemma netphase_line_head: "netphase_line kv qn rq = Inr l \<Longrightarrow> \<not> starts_with ''Q'' l"
  unfolding netphase_line_def by (auto simp: res_bind_Inr)

lemma no_query_loop: "emits no_query (sample_loop n d pid t waits)"
  by (induction n arbitrary: waits) (auto intro!: io_intros simp: no_query_def)

lemma no_query_profile: "emits no_query (http_profile d qn)"
proof -
  have "emits no_query (say_netphase d qn p rq)" for p rq
    unfolding say_netphase_def by (intro io_intros) (auto simp: res_bind_Inr netphase_line_head)
  moreover have "emits no_query (say_stats d qn p ms)" for p ms
    unfolding say_stats_def by (intro io_intros) (auto intro!: io_intros simp: stats_line_def split: list.splits)
  moreover have "emits no_query (run_sql_sampled d q env)" for q env
    unfolding run_sql_sampled_def Let_def by (intro io_intros no_query_loop) (auto simp: no_query_def)
  ultimately show ?thesis unfolding http_profile_def Let_def by (intro io_intros) simp_all
qed

lemma no_query_run: "emits no_query (run_query d as qn)"
  unfolding run_query_def ask_query_def Let_def by (intro io_intros)

text \<open>A query that counts for the verdict: it ran, and where an answer is known it was matched.\<close>

definition passed :: "outcome \<Rightarrow> bool" where
  "passed o' = (case o' of Failed _ \<Rightarrow> False | Answered _ _ c m \<Rightarrow> c \<longrightarrow> m = Some True)"

lemma outcome_line_head [simp]: "starts_with ''Q'' (outcome_line d qn o')"
  by (simp add: outcome_line_def)

lemma run_queries_outcomes:
  assumes "run_queries d as qs t w = (Inr t', w', es)"
  shows "\<exists>os. list_all2 (\<lambda>q o'. \<exists>u u' cs. run_query d as q u = (Inr o', u', cs)) qs os \<and> t' = fold tallied os t \<and>
    query_says es = map2 (outcome_line d) qs os"
  using assms
proof (induction qs arbitrary: t w es)
  case (Cons q qs)
  from Cons.prems obtain o' w1 e1 w2 e2 e3 where
    q: "run_query d as q w = (Inr o', w1, e1)" and
    p: "io_when (query_ran o' \<and> (duck_flag d ''BENCH_HTTP_LOG'' \<or> duck_flag d ''BENCH_NET_PHASE'')) (http_profile d q) w1 = (Inr (), w2, e2)" and
    r: "run_queries d as qs (tallied o' t) w2 = (Inr t', w', e3)" and es: "es = e1 @ Say (outcome_line d q o') # e2 @ e3"
    by (auto elim!: io_bind_InrE io_seq_InrE simp: say_def io_emit_def)
  have "emits no_query (io_when (query_ran o' \<and> (duck_flag d ''BENCH_HTTP_LOG'' \<or> duck_flag d ''BENCH_NET_PHASE'')) (http_profile d q))"
    by (intro io_intros no_query_profile)
  with p have "query_says e2 = []" by (rule query_says_run [rotated])
  moreover have "query_says e1 = []" using no_query_run q by (rule query_says_run)
  moreover obtain os where "list_all2 (\<lambda>q o'. \<exists>u u' cs. run_query d as q u = (Inr o', u', cs)) qs os" "t' = fold tallied os (tallied o' t)"
    "query_says e3 = map2 (outcome_line d) qs os" using Cons.IH [OF r] by blast
  ultimately show ?case using q es by (intro exI [of _ "o' # os"]) auto
qed (simp add: io_ret_def)

lemma fold_tallied:
  "ta_ok (fold tallied os t) = ta_ok t + length (filter query_ran os)"
  "ta_checked (fold tallied os t) - ta_matched (fold tallied os t) = ta_checked t - ta_matched t + length (filter (\<lambda>o'. query_ran o' \<and> \<not> passed o') os)"
  if "ta_matched t \<le> ta_checked t" for t
  using that
  by (induction os arbitrary: t) (auto simp: tallied_def query_ran_def passed_def split: outcome.splits)

lemma fold_tallied_le: "ta_matched t \<le> ta_checked t \<Longrightarrow> ta_matched (fold tallied os t) \<le> ta_checked (fold tallied os t)"
  by (induction os arbitrary: t) (auto simp: tallied_def split: outcome.splits)

lemma all_well_passed:
  assumes "length os = length qs"
  shows "all_well qs (fold tallied os tally0) \<longleftrightarrow> list_all passed os"
proof -
  have le: "ta_matched tally0 \<le> ta_checked tally0" by (simp add: tally0_def)
  let ?t = "fold tallied os tally0"
  have "ta_ok ?t = length (filter query_ran os)" using fold_tallied(1) [OF le] by (simp add: tally0_def)
  moreover have "ta_matched ?t = ta_checked ?t \<longleftrightarrow> filter (\<lambda>o'. query_ran o' \<and> \<not> passed o') os = []"
    using fold_tallied(2) [OF le, of os] fold_tallied_le [OF le, of os] by (auto simp: tally0_def)
  moreover have "length (filter query_ran os) = length qs \<longleftrightarrow> list_all query_ran os"
    unfolding assms [symmetric] by (metis filter_id_conv length_filter_less less_irrefl list_all_iff)
  moreover have "passed o' \<longrightarrow> query_ran o'" for o' by (simp add: passed_def query_ran_def split: outcome.splits)
  ultimately show ?thesis unfolding all_well_def by (auto simp: list_all_iff filter_empty_conv)
qed

text \<open>
  C7. The verdict of a query guest: when the suite returns it has said exactly one line per query, in
  the order asked, each with what became of that query; the verdict, said last, counts the queries that ran, and
  is \<open>COMPLETE\<close>, with code 0, exactly when every query ran and every one with a known answer matched it.
\<close>

theorem duck_says_each_query:
  assumes "duck_suite d qs w = (Inr (rc, code), w', es)"
  shows "\<exists>as os. (\<exists>u u' cs. fetch_answers d u = (Inr as, u', cs)) \<and>
     list_all2 (\<lambda>q o'. \<exists>u u' cs. run_query d as q u = (Inr o', u', cs)) qs os \<and> query_says es = map2 (outcome_line d) qs os \<and>
     rc = (if list_all passed os then 0 else 1) \<and> code = rc \<and>
     last es = Say ((if list_all passed os then ''COMPLETE'' else ''INCOMPLETE'') @ '': tpch sf='' @ duck_sf d @ '' ok=''
       @ show_nat (length (filter query_ran os)) @ ''/'' @ show_nat (length qs))"
proof -
  from assms obtain w1 e1 as w2 e2 t e3 where
    v: "setup_views d w = (Inr (), w1, e1)" and a: "fetch_answers d w1 = (Inr as, w2, e2)" and q: "run_queries d as qs tally0 w2 = (Inr t, w', e3)"
    and rc: "rc = (if all_well qs t then 0 else 1)" "code = rc" and es: "es = e1 @ e2 @ e3 @ [Say [], Say (summary_line qs t), Say (verdict_line d qs t)]"
    unfolding duck_suite_def Let_def by (auto elim!: io_bind_InrE io_seq_InrE simp: say_def io_emit_def io_ret_def)
  obtain os where os: "list_all2 (\<lambda>q o'. \<exists>u u' cs. run_query d as q u = (Inr o', u', cs)) qs os" "t = fold tallied os tally0" "query_says e3 = map2 (outcome_line d) qs os"
    using run_queries_outcomes [OF q] by blast
  have "emits no_query (setup_views d)" "emits no_query (fetch_answers d)"
    by (auto simp: setup_views_def fetch_answers_def intro!: io_intros)
  with v a have "query_says e1 = []" "query_says e2 = []" by (auto intro: query_says_run)
  moreover have "\<not> starts_with ''Q'' (summary_line qs t)" "\<not> starts_with ''Q'' (verdict_line d qs t)"
    by (simp_all add: summary_line_def verdict_line_def)
  moreover have "all_well qs t \<longleftrightarrow> list_all passed os" using all_well_passed os(1,2) by (simp add: list_all2_lengthD)
  moreover have "ta_ok t = length (filter query_ran os)" using fold_tallied(1) [of tally0 os] os(2) by (simp add: tally0_def)
  ultimately show ?thesis using os(1,3) rc es a by (intro exI [of _ as] exI [of _ os]) (auto simp: verdict_line_def)
qed

text \<open>
  C40. An empty result fails the run: of a query that answered with no rows, where an answer is known, the line
  says \<open>match=unchecked\<close>, but the query counts as checked and not as matched, so whatever became of the others
  the verdict is \<open>INCOMPLETE\<close>.
\<close>

theorem empty_result_incomplete:
  assumes "run_query d as qn w = (Inr (Answered ms 0 c m), w', es)" "answer_of as qn \<noteq> PNone"
  shows "outcome_line d qn (Answered ms 0 c m) = ''Q'' @ pad 2 qn @ '': '' @ fixed_point 1 ms @ '' ms, 0 rows, match=unchecked'' \<and> c \<and>
    (Answered ms 0 c m \<in> set os \<and> length os = length qs \<longrightarrow> \<not> all_well qs (fold tallied os tally0))"
proof -
  have "match_answer [] v = Inr None" for v by (simp add: match_answer_def result_matches_def split: pyval.splits)
  with assms have cm: "c \<and> m = None"
    unfolding run_query_def Let_def
    by (auto elim!: io_bind_InrE simp: io_ret_def io_raise_def io_res_def split: sum.splits if_splits)
  moreover have "show_nat 0 = ''0''" by (simp add: show_nat.simps digit_char_def char_of_def bit_0)
  moreover have "\<not> all_well qs (fold tallied os tally0)" if "Answered ms 0 c m \<in> set os" "length os = length qs"
    using all_well_passed [OF that(2)] that(1) cm by (auto simp: list_all_iff passed_def)
  ultimately show ?thesis by (auto simp: outcome_line_def match_word_def)
qed

section \<open>A scripted suite\<close>

text \<open>
  The world counts the runs of the tool: the second prints the answers, the third the rows of query 6, every later
  one nothing.
\<close>

definition counting_box :: "nat box" where
  "counting_box = \<lparr>bx_config = [], bx_environ = (\<lambda>k. None),
     bx_run = (\<lambda>c i n. (Inr \<lparr>pr_code = 0, pr_out = (if n = 1 then ''answers'' else if n = 2 then ''rows'' else []), pr_err = []\<rparr>, n + 1)),
     bx_stream = (\<lambda>c e n. (Inr ([], 0), n)), bx_read = (\<lambda>p n. None), bx_write = (\<lambda>p v n. (True, n)), bx_dir = (\<lambda>p n. None),
     bx_mkdir = (\<lambda>p n. (Inr (), n)), bx_fetch = (\<lambda>a p n. (Inr 1, n)), bx_chmod = (\<lambda>p n. (Inr (), n)), bx_imds = (\<lambda>p n. (None, n)),
     bx_resolve = (\<lambda>h n. (Inr [], n)), bx_clock = (\<lambda>n. (of_nat n, n)), bx_append = (\<lambda>p t n. (Inr (), n)), bx_nap = (\<lambda>d n. n),
     bx_release = [], bx_cpus = 4, bx_hz = 100, bx_error = (\<lambda>e. [])\<rparr>"

definition counting_duck :: "nat duck" where
  "counting_duck = \<lparr>dk_box = counting_box,
     dk_json = (\<lambda>t. Inr (if t = ''answers'' then [[(''query_nr'', PInt 6), (''answer'', PStr (''revenue'' @ [nl] @ ''7''))]] else [[(''revenue'', PInt 7)]])),
     dk_remove = (\<lambda>p n. (Inr (), n)), dk_spawn = (\<lambda>c e n. (Inr 7, n)), dk_poll = (\<lambda>p n. (Some 0, n)), dk_tasks = (\<lambda>p n. None),
     dk_sched = (\<lambda>p t n. None), dk_kill = (\<lambda>p n. n), dk_reap = (\<lambda>p n. (([], []), n)), dk_which = (\<lambda>t n. True)\<rparr>"

abbreviation answers6 :: answers where
  "answers6 \<equiv> [(PInt 6, PStr (''revenue'' @ [nl] @ ''7''))]"

lemma counting_cfg: "duck_cfg counting_duck k v = v"
  by (simp add: duck_cfg_def guest_cfg_def counting_duck_def counting_box_def)

lemma counting_sql: "\<exists>es. run_sql counting_duck q j n = (Inr (if n = 1 then ''answers'' else if n = 2 then ''rows'' else []), n + 1, es)"
  by (simp add: run_sql_def exec_tool_def feed_tool_def counting_duck_def counting_box_def io_defs)

lemma counting_clock: "guest_clock (dk_box counting_duck) n = (Inr (of_nat n), n, [])"
  by (simp add: guest_clock_def counting_duck_def counting_box_def)

lemma counting_views: "\<exists>es. setup_views counting_duck 0 = (Inr (), 1, es)"
  unfolding setup_views_def using counting_sql [of _ _ 0] by (intro bind_returns [of _ _ "[]" 1]) (auto simp: io_ret_def)

lemma counting_answers: "\<exists>es. fetch_answers counting_duck 1 = (Inr answers6, 2, es)"
  unfolding fetch_answers_def using counting_sql [of _ _ 1]
  by (intro bind_returns [of _ _ "''answers''" 2]) (auto simp: io_res_def answers_of_def counting_duck_def numeral_2_eq_2 of_option_def io_defs)

lemma counting_matches: "match_answer [[(''revenue'', PInt 7)]] (PStr (''revenue'' @ [nl] @ ''7'')) = Inr (Some True)"
  by (simp add: match_answer_def result_matches_def answer_table_def strip_nl_def nl_def Let_def fields_match_def float_of_def py_float_def strip_def
      is_space_def in_ranges_def space_ranges_def all_digits_def is_digit_def nat_of_digits_def digit_val_def of_option_def char_of_def bit_0)

lemma counting_ask: "\<exists>es. ask_query counting_duck 6 n = (Inr (if n = 1 \<or> n = 2 then [[(''revenue'', PInt 7)]] else []), n + 1, es)" if "n \<noteq> 1"
proof -
  have "io_res (thread_setting counting_duck) n = (Inr [], n, [])" by (simp add: thread_setting_def counting_cfg io_res_def io_ret_def)
  moreover have "strip ''rows'' = ''rows''" "strip [] = []" by (simp_all add: strip_def is_space_def in_ranges_def space_ranges_def)
  ultimately show ?thesis unfolding ask_query_def using that
    by (intro bind_returns [of _ _ "[]" n] exI bind_returns [OF counting_sql]) (auto simp: io_ret_def io_res_def counting_duck_def)
qed

lemma counting_query:
  "\<exists>es. run_query counting_duck answers6 6 2 = (Inr (Answered 1000 1 True (Some True)), 3, es)"
  "\<exists>es. run_query counting_duck answers6 6 3 = (Inr (Answered 1000 0 True None), 4, es)"
proof -
  have tried: "\<exists>es. m n = (Inr x, n', es) \<Longrightarrow> \<exists>es. io_try m n = (Inr (Inr x), n', es)" for m :: "(nat, pyval dict list) gu" and n n' x
    by (auto simp: io_try_def)
  have known: "answer_of answers6 6 = PStr (''revenue'' @ [nl] @ ''7'')" by (simp add: answer_of_def py_eq.simps)
  show "\<exists>es. run_query counting_duck answers6 6 2 = (Inr (Answered 1000 1 True (Some True)), 3, es)"
    unfolding run_query_def known Let_def
    by (intro bind_returns [of _ _ "2" 2] bind_returns [OF tried [OF counting_ask]])
      (auto simp: counting_clock counting_matches [simplified] io_res_def io_defs)
  have "match_answer [] (PStr x) = Inr None" for x by (simp add: match_answer_def result_matches_def)
  then show "\<exists>es. run_query counting_duck answers6 6 3 = (Inr (Answered 1000 0 True None), 4, es)"
    unfolding run_query_def known Let_def
    by (intro bind_returns [of _ _ "3" 3] bind_returns [OF tried [OF counting_ask]])
      (auto simp: counting_clock io_res_def io_defs)
qed

lemma counting_suite: "\<exists>es. duck_suite counting_duck [6] 0 = (Inr (0, 0), 3, es)"
proof -
  have said: "\<exists>es. say t n = (Inr (), n, es)" for t and n :: nat by (simp add: say_def io_emit_def)
  have flags: "duck_flag counting_duck k = False" for k by (simp add: duck_flag_def counting_cfg)
  have asked: "\<exists>es. run_queries counting_duck answers6 [6] tally0 2 = (Inr (tallied (Answered 1000 1 True (Some True)) tally0), 3, es)"
    unfolding run_queries.simps io_seq_def flags
    by (rule bind_returns, rule counting_query, rule bind_returns, rule said, rule bind_returns) (auto simp: io_when_def io_ret_def)
  have "all_well [6] (tallied (Answered 1000 1 True (Some True)) tally0)" by (simp add: all_well_def tallied_def tally0_def)
  then have verdict: "(if all_well [6] (tallied (Answered 1000 1 True (Some True)) tally0) then 0 else 1 :: int) = 0" by simp
  show ?thesis unfolding duck_suite_def Let_def io_seq_def
    apply (rule bind_returns, rule counting_views)
    apply (rule bind_returns, rule counting_answers)
    apply (rule bind_returns, rule asked)
    apply (rule bind_returns, rule said)+
    by (simp only: verdict io_ret_def) simp
qed

lemma duck_says_each_query_witness:
  "\<exists>w' es. duck_suite counting_duck [6] 0 = (Inr (0, 0), w', es) \<and> length (query_says es) = 1 \<and> last es = Say ''COMPLETE: tpch sf=1 ok=1/1''"
proof -
  obtain es where run: "duck_suite counting_duck [6] 0 = (Inr (0, 0), 3, es)" using counting_suite by blast
  obtain as os where os: "list_all2 (\<lambda>q o'. \<exists>u u' cs. run_query counting_duck as q u = (Inr o', u', cs)) [6] os"
    and said: "query_says es = map2 (outcome_line counting_duck) [6] os" and rc: "0 = (if list_all passed os then 0 else 1 :: int)"
    and verdict: "last es = Say ((if list_all passed os then ''COMPLETE'' else ''INCOMPLETE'') @ '': tpch sf='' @ duck_sf counting_duck @ '' ok=''
       @ show_nat (length (filter query_ran os)) @ ''/'' @ show_nat (length [6 :: int]))"
    using duck_says_each_query [OF run] by blast
  from os obtain o' where o': "os = [o']" by (cases os) auto
  with rc have "passed o'" by (simp split: if_splits)
  moreover from this have "query_ran o'" by (simp add: passed_def query_ran_def split: outcome.splits)
  ultimately have "last es = Say ''COMPLETE: tpch sf=1 ok=1/1''"
    using verdict o' by (simp add: duck_sf_def counting_cfg show_nat.simps digit_char_def char_of_def bit_0)
  with run said o' show ?thesis by auto
qed

lemma empty_result_incomplete_witness:
  "\<exists>w' es. run_query counting_duck answers6 6 3 = (Inr (Answered 1000 0 True None), w', es) \<and>
    \<not> all_well [6] (fold tallied [Answered 1000 0 True None] tally0)"
proof -
  obtain es where run: "run_query counting_duck answers6 6 3 = (Inr (Answered 1000 0 True None), 4, es)" using counting_query by blast
  have "answer_of answers6 6 \<noteq> PNone" by (simp add: answer_of_def py_eq.simps)
  from empty_result_incomplete [OF run this, of "[Answered 1000 0 True None]" "[6]"] run show ?thesis by auto
qed

end
