(* ===== verification/GuestLine.thy ===== *)
theory GuestLine
  imports GuestVerdict
begin

text \<open>
  Across the serial console: the line a query guest says, as the driver of its bench reads it.
\<close>

section \<open>Running an expression on a text that is known in parts\<close>

text \<open>\<open>first r st st'\<close>: the first way of matching \<open>r\<close> from \<open>st\<close> ends at \<open>st'\<close>.\<close>

definition first :: "rx \<Rightarrow> rxpos \<Rightarrow> rxpos \<Rightarrow> bool" where
  "first r st st' \<longleftrightarrow> (\<exists>tl. rx_match r st = st' # tl)"

lemma first_cat: "first r st a \<Longrightarrow> first q a b \<Longrightarrow> first (Cat r q) st b"
  by (auto simp: first_def)

lemma first_group:
  "first r (p, s, caps) (p', s', caps') \<Longrightarrow> first (Group n r) (p, s, caps) (p', s', AList.update n (take (length s - length s') s) caps')"
  by (auto simp: first_def capture_def rest_def)

lemma first_bol: "first Bol (None, s, caps) (None, s, caps)"
  by (simp add: first_def if_at_def at_bol_def)

lemma first_set: "in_ranges rs c \<noteq> n \<Longrightarrow> first (Set n rs) (p, c # s, caps) (Some c, s, caps)"
  by (simp add: first_def advance_def)

lemma first_star:
  assumes "list_all (in_ranges rs) u" "s = [] \<or> \<not> in_ranges rs (hd s)"
  shows "first (Star True (Set False rs)) (p, u @ s, caps) (if u = [] then p else Some (last u), s, caps)"
  using assms(1)
proof (induction u arbitrary: p)
  case Nil
  have "rx_match (Set False rs) (p, s, caps) = []" using assms(2) by (cases s) (auto simp: advance_def)
  then show ?case by (simp add: first_def rx_match.simps(5) Let_def)
next
  case (Cons c u)
  have "rx_match (Set False rs) (p, (c # u) @ s, caps) = [(Some c, u @ s, caps)]" using Cons.prems by (simp add: advance_def)
  moreover from Cons obtain tl where "rx_match (Star True (Set False rs)) (Some c, u @ s, caps) = (if u = [] then Some c else Some (last u), s, caps) # tl"
    by (auto simp: first_def)
  ultimately show ?case by (simp add: first_def rx_match.simps(5) [of _ _ "(p, _)"] Let_def rest_def)
qed

lemma first_plus:
  assumes "u \<noteq> []" "list_all (in_ranges rs) u" "s = [] \<or> \<not> in_ranges rs (hd s)"
  shows "first (Cat (Set False rs) (Star True (Set False rs))) (p, u @ s, caps) (Some (last u), s, caps)"
proof -
  from assms(1) obtain c v where u: "u = c # v" by (cases u) auto
  have "first (Set False rs) (p, u @ s, caps) (Some c, v @ s, caps)" using assms(2) u by (simp add: first_set)
  moreover have "first (Star True (Set False rs)) (Some c, v @ s, caps) (Some (last u), s, caps)"
    using first_star [of rs v s "Some c" caps] assms(2,3) u by (auto split: if_splits)
  ultimately show ?thesis by (rule first_cat)
qed

lemma first_search: "first r (None, s, []) (p, s', caps) \<Longrightarrow> map_option (group k) (rx_search r s) = Some (map_of caps k)"
  by (auto simp: first_def rx_search_def scan.simps mk_match_def group_def)

text \<open>Digits, digits with a point, and words.\<close>

definition numeral_text :: "string \<Rightarrow> bool" where
  "numeral_text u \<longleftrightarrow> u \<noteq> [] \<and> list_all (in_ranges digit_ranges) u"

definition figure_text :: "string \<Rightarrow> bool" where
  "figure_text u \<longleftrightarrow> u \<noteq> [] \<and> list_all (in_ranges [(48, 57), (46, 46)]) u"

definition word_text :: "string \<Rightarrow> bool" where
  "word_text u \<longleftrightarrow> u \<noteq> [] \<and> list_all (in_ranges word_ranges) u"

lemma first_numeral:
  "numeral_text u \<Longrightarrow> s = [] \<or> \<not> in_ranges [(48, 57)] (hd s) \<Longrightarrow>
     first (Cat (Set False [(48, 57)]) (Star True (Set False [(48, 57)]))) (p, u @ s, caps) (Some (last u), s, caps)"
  by (rule first_plus) (auto simp: numeral_text_def digit_ranges_def)

lemma first_figure:
  "figure_text u \<Longrightarrow> s = [] \<or> \<not> in_ranges [(48, 57), (46, 46)] (hd s) \<Longrightarrow>
     first (Cat (Set False [(48, 57), (46, 46)]) (Star True (Set False [(48, 57), (46, 46)]))) (p, u @ s, caps) (Some (last u), s, caps)"
  by (rule first_plus) (auto simp: figure_text_def)

lemma first_word:
  "word_text u \<Longrightarrow> s = [] \<or> \<not> in_ranges word_ranges (hd s) \<Longrightarrow>
     first (Cat (Set False word_ranges) (Star True (Set False word_ranges))) (p, u @ s, caps) (Some (last u), s, caps)"
  by (rule first_plus) (auto simp: word_text_def)

text \<open>\<open>finds r s k v\<close>: a search of \<open>r\<close> in \<open>s\<close> succeeds at its start, with \<open>v\<close> in its group \<open>k\<close>.\<close>

definition finds :: "rx \<Rightarrow> string \<Rightarrow> nat \<Rightarrow> string \<Rightarrow> bool" where
  "finds r s k v \<longleftrightarrow> (\<exists>m. rx_search r s = Some m \<and> m_before m = [] \<and> group k m = Some v)"

lemma finds_here: "first r (None, s, []) (p, s', caps) \<Longrightarrow> map_of caps k = Some v \<Longrightarrow> finds r s k v"
  by (auto simp: finds_def first_def rx_search_def scan.simps mk_match_def group_def)

lemmas first_steps = first_numeral first_figure first_word first_bol first_group first_set first_cat

lemma finds_query_ms:
  assumes "numeral_text q" "figure_text f"
  shows "finds (re ''^Q~d+: ([~d.]+) ms,'') (''Q'' @ q @ '': '' @ f @ '' ms,'' @ s) 1 f"
  by (simp add: rx_parse, rule finds_here, (rule first_steps | simp add: assms in_ranges_def)+)

lemma finds_rows:
  assumes "numeral_text q" "figure_text f" "numeral_text n"
  shows "finds (re ''^Q~d+: [~d.]+ ms, (~d+) rows'') (''Q'' @ q @ '': '' @ f @ '' ms, '' @ n @ '' rows'' @ s) 1 n"
  by (simp add: rx_parse, rule finds_here, (rule first_steps | simp add: assms in_ranges_def)+)

definition line_over :: "string \<Rightarrow> bool" where
  "line_over s \<longleftrightarrow> (case s of [] \<Rightarrow> True | c # _ \<Rightarrow> c = nl)"

lemma line_over_stops: "line_over s \<Longrightarrow> s = [] \<or> \<not> in_ranges word_ranges (hd s)"
  by (cases s) (simp_all add: line_over_def nl_def in_ranges_def word_ranges_def)

lemma finds_match:
  assumes "numeral_text q" "figure_text f" "numeral_text n" "word_text v" "line_over s"
  shows "finds (re ''^Q~d+: [~d.]+ ms, ~d+ rows, match=(~w+)'') (''Q'' @ q @ '': '' @ f @ '' ms, '' @ n @ '' rows, match='' @ v @ s) 1 v"
  by (simp add: rx_parse, rule finds_here, (rule first_steps [unfolded word_ranges_def] line_over_stops [OF assms(5), unfolded word_ranges_def]
      | simp add: assms [unfolded word_ranges_def] in_ranges_def)+)

section \<open>Numbers on their way through a text\<close>

lemma show_nat_length: "n < 10 ^ k \<Longrightarrow> 0 < k \<Longrightarrow> length (show_nat n) \<le> k"
proof (induction n arbitrary: k rule: show_nat.induct)
  case (1 n)
  show ?case
  proof (cases "n < 10")
    case False
    then obtain j where k: "k = Suc j" "0 < j" using 1(2,3) by (cases k; cases "k - 1"; auto)
    with 1(2) have "n div 10 < 10 ^ j" by (simp add: div_less_iff_less_mult)
    from 1(1) [OF False this k(2)] False show ?thesis by (simp add: show_nat.simps [of n] k)
  qed (use 1(3) in \<open>simp add: show_nat.simps [of n]\<close>)
qed

lemma foldl_digits: "foldl (\<lambda>n c. 10 * n + digit_val c) a s = a * 10 ^ length s + nat_of_digits s"
proof (induction s rule: rev_induct)
  case (snoc c s)
  then show ?case by (simp add: nat_of_digits_snoc algebra_simps)
qed (simp add: nat_of_digits_def)

lemma nat_of_digits_append: "nat_of_digits (a @ b) = nat_of_digits a * 10 ^ length b + nat_of_digits b"
  by (metis foldl_append foldl_digits nat_of_digits_def)

lemma nat_of_digits_zeros: "nat_of_digits (replicate j CHR ''0'' @ s) = nat_of_digits s"
proof -
  have "nat_of_digits (replicate j CHR ''0'') = 0" by (induction j) (simp_all add: nat_of_digits_def digit_val_def)
  then show ?thesis by (simp add: nat_of_digits_append)
qed

lemma pad_value:
  assumes "m < 10 ^ k" "0 < k"
  shows "nat_of_digits (pad k (int m)) = m \<and> length (pad k (int m)) = k \<and> list_all is_digit (pad k (int m))"
  using show_nat_length [OF assms] show_nat_digits [of m]
  by (auto simp: pad_def show_int_def Let_def nat_of_digits_zeros list_all_iff is_digit_def)

lemma split_on_none: "c \<notin> set s \<Longrightarrow> split_on c s = [s]"
  by (induction s) auto

lemma split_on_once: "c \<notin> set a \<Longrightarrow> c \<notin> set b \<Longrightarrow> split_on c (a @ c # b) = [a, b]"
  by (induction a) (auto simp: split_on_none)

lemma strip_solid: "(\<And>c. c \<in> set s \<Longrightarrow> \<not> is_space c) \<Longrightarrow> strip s = s"
proof -
  assume solid: "\<And>c. c \<in> set s \<Longrightarrow> \<not> is_space c"
  have "dropWhile is_space u = u" if "set u \<subseteq> set s" for u using that solid by (cases u) auto
  then show ?thesis by (simp add: strip_def)
qed

lemma digit_solid: "is_digit c \<Longrightarrow> \<not> is_space c \<and> c \<noteq> CHR ''.'' \<and> c \<noteq> CHR ''-'' \<and> c \<noteq> CHR ''+''"
  by (auto simp: is_digit_def is_space_def in_ranges_def space_ranges_def)

text \<open>A number printed with \<open>k\<close> places is read back as the number rounded to them.\<close>

lemma fixed_point_text:
  assumes "0 \<le> r" "0 < k"
  shows "py_float (fixed_point k r) = Inr (round_to k r)" "figure_text (fixed_point k r)"
proof -
  let ?m = "nat (round_even (r * 10 ^ k))"
  let ?a = "show_nat (?m div 10 ^ k)" and ?b = "pad k (int (?m mod 10 ^ k))"
  have t: "fixed_point k r = ?a @ CHR ''.'' # ?b" using assms by (simp add: fixed_point_def Let_def)
  have b: "nat_of_digits ?b = ?m mod 10 ^ k" "length ?b = k" "list_all is_digit ?b" using pad_value [of "?m mod 10 ^ k" k] assms(2) by auto
  have a: "list_all is_digit ?a" by (rule show_nat_digits)
  have "strip (fixed_point k r) = fixed_point k r"
    unfolding t using a b(3) digit_solid by (intro strip_solid) (auto simp: list_all_iff is_space_def in_ranges_def space_ranges_def)
  moreover have "split_on CHR ''.'' (fixed_point k r) = [?a, ?b]"
    unfolding t using a b(3) digit_solid by (intro split_on_once) (auto simp: list_all_iff)
  moreover have "hd (fixed_point k r) \<noteq> CHR ''-'' \<and> hd (fixed_point k r) \<noteq> CHR ''+''"
    unfolding t using a digit_solid by (cases ?a) auto
  moreover have "0 \<le> round_even (r * 10 ^ k)" using assms(1) by (auto simp: round_even_def Let_def)
  then have "of_nat ?m = (of_int (round_even (r * 10 ^ k)) :: rat)" by simp
  moreover have "rat_of_nat (?m div 10 ^ k) * 10 ^ k + of_nat (?m mod 10 ^ k) = of_nat ?m"
  proof -
    have "rat_of_nat (?m div 10 ^ k * 10 ^ k + ?m mod 10 ^ k) = of_nat ?m" by (simp only: div_mult_mod_eq)
    then show ?thesis by simp
  qed
  ultimately show "py_float (fixed_point k r) = Inr (round_to k r)"
    using a b by (simp add: py_float_def Let_def nat_of_digits_append round_to_def)
  have "in_ranges [(48, 57), (46, 46)] c" if "is_digit c" for c using that by (auto simp: is_digit_def in_ranges_def)
  then show "figure_text (fixed_point k r)" unfolding t using a b(3) by (auto simp: figure_text_def list_all_iff in_ranges_def)
qed

lemma numeral_of_digits: "list_all is_digit s \<Longrightarrow> s \<noteq> [] \<Longrightarrow> numeral_text s"
  by (auto simp: numeral_text_def list_all_iff is_digit_def in_ranges_def digit_ranges_def)

lemma show_nat_text: "numeral_text (show_nat n)" "py_int (show_nat n) = Inr (int n)"
proof -
  show "numeral_text (show_nat n)" by (rule numeral_of_digits [OF show_nat_digits]) simp
  have "strip (show_nat n) = show_nat n" using show_nat_digits [of n] digit_solid by (intro strip_solid) (auto simp: list_all_iff)
  moreover have "hd (show_nat n) \<noteq> CHR ''-'' \<and> hd (show_nat n) \<noteq> CHR ''+''" using show_nat_digits [of n] digit_solid by (cases "show_nat n") auto
  moreover have "split_on CHR ''_'' (show_nat n) = [show_nat n]"
    using show_nat_digits [of n] by (intro split_on_none) (auto simp: list_all_iff is_digit_def)
  moreover have "filter is_digit (show_nat n) = show_nat n" using show_nat_digits [of n] by (simp add: list_all_iff filter_id_conv)
  ultimately show "py_int (show_nat n) = Inr (int n)" using show_nat_digits [of n] by (simp add: py_int_def Let_def all_digits_def)
qed

lemma pad_text: "0 \<le> i \<Longrightarrow> numeral_text (pad n i)"
  using show_nat_digits [of "nat i"] by (intro numeral_of_digits) (auto simp: pad_def show_int_def Let_def list_all_iff is_digit_def)

lemma pad_int:
  assumes "0 \<le> i"
  shows "py_int (pad n i) = Inr i"
proof -
  let ?s = "pad n i"
  have s: "?s = replicate (n - length (show_nat (nat i))) CHR ''0'' @ show_nat (nat i)" using assms by (simp add: pad_def show_int_def Let_def)
  have d: "list_all is_digit ?s" using show_nat_digits [of "nat i"] unfolding s by (auto simp: list_all_iff is_digit_def)
  have "?s \<noteq> []" unfolding s by simp
  have "strip ?s = ?s" using d digit_solid by (intro strip_solid) (auto simp: list_all_iff)
  moreover have "hd ?s \<noteq> CHR ''-'' \<and> hd ?s \<noteq> CHR ''+''" using d digit_solid \<open>?s \<noteq> []\<close> by (cases ?s) auto
  moreover have "split_on CHR ''_'' ?s = [?s]" using d by (intro split_on_none) (auto simp: list_all_iff is_digit_def)
  moreover have "filter is_digit ?s = ?s" using d by (simp add: list_all_iff filter_id_conv)
  moreover have "nat_of_digits ?s = nat i" unfolding s by (simp add: nat_of_digits_zeros)
  ultimately show ?thesis using d \<open>?s \<noteq> []\<close> assms by (simp add: py_int_def Let_def all_digits_def)
qed

section \<open>What the driver reads\<close>

text \<open>\<open>reads f text v\<close>: the pattern and the cast of the bench's table for \<open>f\<close> make \<open>v\<close> of the text.\<close>

definition reads :: "string \<Rightarrow> string \<Rightarrow> pyval \<Rightarrow> bool" where
  "reads f text' v \<longleftrightarrow> (case map_of duckdb_linux_metrics f of Some pc \<Rightarrow> metric text' (f, pc) = Inr (f, v) | None \<Rightarrow> False)"

lemma reads_finds:
  assumes "map_of duckdb_linux_metrics f = Some (pat, c)" "finds (re pat) text' 1 s" "c s = Inr v"
  shows "reads f text' v"
  using assms by (auto simp: reads_def finds_def metric_def of_option_def)

lemma duckdb_linux_fields:
  "map_of duckdb_linux_metrics ''query_ms'' = Some (''^Q~d+: ([~d.]+) ms,'', as_float)"
  "map_of duckdb_linux_metrics ''rows'' = Some (''^Q~d+: [~d.]+ ms, (~d+) rows'', as_int)"
  "map_of duckdb_linux_metrics ''match'' = Some (''^Q~d+: [~d.]+ ms, ~d+ rows, match=(~w+)'', as_str)"
  unfolding duckdb_linux_metrics_def by ((subst map_of_dict_merge, simp), simp)+

lemma finds_head: "numeral_text q \<Longrightarrow> finds head_rx (''Q'' @ q @ '': '' @ s) 1 q"
  by (simp add: head_rx_def rx_parse, rule finds_here, (rule first_steps | simp add: in_ranges_def)+)

lemma match_word_text: "word_text (match_word m)"
  by (auto simp: match_word_def word_text_def in_ranges_def word_ranges_def split: option.splits)

text \<open>
  C6. A query's line survives the console: whatever the log says after it, the driver reads off the line of
  a query that ran its time, rounded to a tenth of a millisecond, its number of rows and the word of the
  comparison, and by the head of a row its number.
\<close>

theorem query_line_read:
  assumes "0 \<le> qn" "0 \<le> ms" "line_over s"
  shows "let text' = outcome_line d qn (Answered ms n c m) @ s in
     reads ''query_ms'' text' (PFloat (round_to 1 ms)) \<and> reads ''rows'' text' (PInt (int n)) \<and> reads ''match'' text' (PStr (match_word m)) \<and>
     (\<exists>h. rx_search head_rx text' = Some h \<and> m_before h = [] \<and> head_number h = Inr (PInt qn))"
proof -
  have q: "numeral_text (pad 2 qn)" "figure_text (fixed_point 1 ms)" "numeral_text (show_nat n)" "py_float (fixed_point 1 ms) = Inr (round_to 1 ms)"
    using pad_text [OF assms(1)] fixed_point_text [OF assms(2)] show_nat_text by simp_all
  have line: "outcome_line d qn (Answered ms n c m) @ s
      = ''Q'' @ pad 2 qn @ '': '' @ fixed_point 1 ms @ '' ms, '' @ show_nat n @ '' rows, match='' @ match_word m @ s"
    by (simp add: outcome_line_def)
  have "reads ''query_ms'' (outcome_line d qn (Answered ms n c m) @ s) (PFloat (round_to 1 ms))"
    using finds_query_ms [OF q(1,2), of "'' '' @ show_nat n @ '' rows, match='' @ match_word m @ s"]
    unfolding line by (intro reads_finds [OF duckdb_linux_fields(1), where s = "fixed_point 1 ms"]) (simp_all add: as_float_def q(4) del: One_nat_def)
  moreover have "reads ''rows'' (outcome_line d qn (Answered ms n c m) @ s) (PInt (int n))"
    using finds_rows [OF q(1-3), of "'', match='' @ match_word m @ s"]
    unfolding line by (intro reads_finds [OF duckdb_linux_fields(2), where s = "show_nat n"]) (simp_all add: as_int_def show_nat_text(2))
  moreover have "reads ''match'' (outcome_line d qn (Answered ms n c m) @ s) (PStr (match_word m))"
    using finds_match [OF q(1-3) match_word_text assms(3)]
    unfolding line by (intro reads_finds [OF duckdb_linux_fields(3), where s = "match_word m"]) (simp_all add: as_str_def)
  moreover have "\<exists>h. rx_search head_rx (outcome_line d qn (Answered ms n c m) @ s) = Some h \<and> m_before h = [] \<and> head_number h = Inr (PInt qn)"
    using finds_head [OF q(1), of "fixed_point 1 ms @ '' ms, '' @ show_nat n @ '' rows, match='' @ match_word m @ s"] pad_int [OF assms(1), of 2]
    unfolding line by (auto simp: finds_def head_number_def of_option_def as_int_def)
  ultimately show ?thesis by (simp add: Let_def)
qed

lemma query_line_read_witness:
  "let text' = outcome_line duck0 6 (Answered 123 1 True (Some True)) @ [nl] in
     reads ''query_ms'' text' (PFloat 123) \<and> reads ''rows'' text' (PInt 1) \<and> reads ''match'' text' (PStr ''yes'')"
  using query_line_read [of 6 123 "[nl]" duck0 1 True "Some True"]
  by (simp add: Let_def line_over_def round_to_def round_even_def match_word_def)

end
