(* ===== verification/GuestMeets.thy ===== *)
theory GuestMeets
  imports GuestEnds GuestLine HttpRun DeployRun
begin

text \<open>
  Across the serial console, once more: the line a server says when it is ready and the rate a load guest says, as
  their drivers read them. Scripted machines.
\<close>

section \<open>A scripted server\<close>

definition quiet_box :: "nat box" where
  "quiet_box = \<lparr>bx_config = [], bx_environ = (\<lambda>k. None), bx_run = (\<lambda>c i n. (Inr \<lparr>pr_code = 0, pr_out = [], pr_err = []\<rparr>, n)),
     bx_stream = (\<lambda>c e n. (Inr ([], 0), n)), bx_read = (\<lambda>p n. if p = ''/proc/stat'' then Some ''cpu 1 0 0 9'' else None),
     bx_write = (\<lambda>p v n. (True, n)), bx_dir = (\<lambda>p n. None), bx_mkdir = (\<lambda>p n. (Inr (), n)), bx_fetch = (\<lambda>a p n. (Inr 1, n)),
     bx_chmod = (\<lambda>p n. (Inr (), n)), bx_imds = (\<lambda>p n. (Some ''10.0.0.1'', n)), bx_resolve = (\<lambda>h n. (Inr [], n)), bx_clock = (\<lambda>n. (of_nat n, n)),
     bx_append = (\<lambda>p t n. (Inr (), n)), bx_nap = (\<lambda>d n. n), bx_release = [], bx_cpus = 4, bx_hz = 100, bx_error = (\<lambda>e. [])\<rparr>"

definition srv0 :: "nat srv" where
  "srv0 = \<lparr>sv_box = quiet_box, sv_spawn = (\<lambda>c n. (Inr (), n)), sv_poll = (\<lambda>n. (None, n)), sv_get = (\<lambda>u n. (Inr 206, n)), sv_wait = (\<lambda>n. n)\<rparr>"

lemma srv0_runs: "\<exists>es. sv_main srv0 7 = (Inr 0, 7, es)"
proof -
  have parts: "\<exists>es. make_dir quiet_box p n = (Inr (), n, es)" "\<exists>es. sv_fetch srv0 p n = (Inr True, n, es)" "\<exists>es. make_executable quiet_box p n = (Inr (), n, es)"
    "\<exists>es. sv_lay srv0 n = (Inr True, n, es)" "\<exists>es. sv_start srv0 p n = (Inr (), n, es)" "\<exists>es. await_206 60 srv0 n = (Inr True, n, es)"
    "\<exists>es. sv_serve srv0 n = (Inr 0, n, es)" for p n
    by (simp_all add: srv0_def quiet_box_def make_dir_def sv_fetch_def download_def make_executable_def sv_lay_def exec_tool_def feed_tool_def sv_start_def
        write_file_def numeral_eq_Suc nap_guest_def io_silent_def sv_get_blob_def sv_serve_def sv_imds_def say_def io_try_def Let_def io_defs)
  have box: "sv_box srv0 = quiet_box" by (simp add: srv0_def)
  show ?thesis unfolding sv_main_def sv_install_def sv_up_def Let_def box io_seq_def
    apply (rule bind_returns, rule parts)+
    apply (simp only: not_True_eq_False if_False)
    apply (rule bind_returns, rule parts)+
    apply (simp only: not_True_eq_False if_False)
    apply (rule bind_returns, rule parts)+
    by (simp only: not_True_eq_False if_False parts)
qed

lemma server_ready_answered_witness: "\<exists>es. sv_main srv0 7 = (Inr 0, 7, es) \<and> rounds es \<le> 60 \<and> server_ready srv0 es"
  using srv0_runs server_ready_answered [of srv0 7 0 7] by fastforce

section \<open>The address of a server\<close>

text \<open>A search for a literal beginning goes past a text that does not have it.\<close>

lemma rx_match_lits: "\<not> starts_with l s \<Longrightarrow> rx_match (lits l r) (p, s, caps) = []"
proof (induction l arbitrary: p s caps)
  case (Cons c l)
  then show ?case by (cases s) (auto simp: advance_def in_single)
qed simp

lemma scan_past:
  assumes "\<And>j. j < length pre \<Longrightarrow> \<not> starts_with l (drop j (pre @ s))"
  shows "\<exists>q. scan (lits l r) p b (pre @ s) = scan (lits l r) q (b @ pre) s"
  using assms
proof (induction pre arbitrary: p b)
  case (Cons c pre)
  have "\<not> starts_with l (drop 0 ((c # pre) @ s))" using Cons.prems [of 0] by simp
  then have "scan (lits l r) p b ((c # pre) @ s) = scan (lits l r) (Some c) (b @ [c]) (pre @ s)"
    by (simp add: scan.simps [of _ p b] rx_match_lits)
  moreover have "\<not> starts_with l (drop j (pre @ s))" if "j < length pre" for j using Cons.prems [of "Suc j"] that by simp
  ultimately show ?case using Cons.IH [of "Some c" "b @ [c]"] by auto
qed auto

lemma first_lits: "first r (if l = [] then p else Some (last l), s, caps) b \<Longrightarrow> first (lits l r) (p, l @ s, caps) b"
proof (induction l arbitrary: p)
  case (Cons c l)
  have "first (Set False (single c)) (p, c # l @ s, caps) (Some c, l @ s, caps)" by (simp add: first_set in_single)
  moreover have "first (lits l r) (Some c, l @ s, caps) b" using Cons by (cases "l = []") auto
  ultimately show ?case by (auto intro: first_cat)
qed simp

lemma search_past:
  assumes "\<And>j. j < length pre \<Longrightarrow> \<not> starts_with l (drop j (pre @ l @ s))" "\<And>q. first r (q, s, []) (q', s', caps)" "l \<noteq> []"
  shows "\<exists>m. rx_search (lits l r) (pre @ l @ s) = Some m \<and> m_before m = pre \<and> group k m = map_of caps k"
proof -
  obtain q where "scan (lits l r) None [] (pre @ l @ s) = scan (lits l r) q pre (l @ s)"
    using scan_past [OF assms(1), of r None "[]"] by auto
  moreover have "first (lits l r) (q, l @ s, []) (q', s', caps)" using first_lits [of r l q s "[]"] assms(2) by simp
  ultimately show ?thesis by (auto simp: rx_search_def first_def scan.simps [of _ q] mk_match_def group_def)
qed

definition says_first :: "string \<Rightarrow> string \<Rightarrow> string \<Rightarrow> bool" where
  "says_first l pre s \<longleftrightarrow> (\<forall>j < length pre. \<not> starts_with l (drop j (pre @ s)))"

lemma ready_found_past:
  assumes "says_first ready_word pre (ready_word @ ip @ s)" "figure_text ip" "s = [] \<or> \<not> in_ranges [(48, 57), (46, 46)] (hd s)"
  shows "\<exists>m. rx_search ready_rx (pre @ ready_word @ ip @ s) = Some m \<and> m_before m = pre \<and> group 1 m = Some ip"
proof -
  have "first (Group 1 (Cat (Set False [(48, 57), (46, 46)]) (Star True (Set False [(48, 57), (46, 46)])))) (q, ip @ s, []) (Some (last ip), s, [(1, ip)])" for q
    using first_group [OF first_figure [OF assms(2,3)], of 1 q "[]"] by simp
  from search_past [of pre ready_word "ip @ s", OF _ this, of 1] assms(1) show ?thesis
    unfolding ready_rx_lits says_first_def by (auto simp: ready_word_def)
qed

lemma ready_line_found:
  assumes "figure_text ip" "says_first ready_word pre (ready_line s ip ty @ more')"
  shows "ready_ip (pre @ ready_line s ip ty @ more') = Some ip"
    and "ip = u @ v \<Longrightarrow> u \<noteq> [] \<Longrightarrow> ready_ip (pre @ ready_word @ u) = Some u"
proof -
  obtain t where t: "ready_line s ip ty @ more' = ready_word @ ip @ CHR '' '' # t"
    using assms(1) by (auto simp: ready_line_def ready_word_def or_unknown_def figure_text_def)
  with assms have "\<exists>m. rx_search ready_rx (pre @ ready_line s ip ty @ more') = Some m \<and> m_before m = pre \<and> group 1 m = Some ip"
    unfolding t by (intro ready_found_past) (simp_all add: in_ranges_def)
  then show "ready_ip (pre @ ready_line s ip ty @ more') = Some ip" by (auto simp: ready_ip_def)
  assume uv: "ip = u @ v" "u \<noteq> []"
  have "starts_with ready_word (drop j (pre @ ready_word @ u)) \<Longrightarrow> starts_with ready_word (drop j (pre @ ready_word @ ip @ CHR '' '' # t))"
    if "j < length pre" for j
    using uv that by (simp add: starts_with_iff) (metis append.assoc)
  with assms(2) have "says_first ready_word pre (ready_word @ u @ [])" unfolding t says_first_def by auto
  moreover have "figure_text u" using uv assms(1) by (auto simp: figure_text_def)
  ultimately show "ready_ip (pre @ ready_word @ u) = Some u"
    using ready_found_past [of pre u "[]"] by (auto simp: ready_ip_def)
qed

text \<open>A round of the poll, before its deadline, in which the console shows more than it did.\<close>

lemma poll_server_reads:
  assumes "h_now h (bw_os w) = (t, u1)" "t < deadline" "h_console h iid (h_sleep h 10 u1) = (Inr got, u2)" "length s < length got"
    and "ready_ip got = Some ip"
  shows "io_result (poll_server (Suc n) h iid file deadline s w) = Inr (Some (Some ip))"
proof -
  from assms(5) obtain m where "rx_search ready_rx got = Some m" "group 1 m = Some ip" by (auto simp: ready_ip_def bind_eq_Some_conv)
  with assms(1-4) show ?thesis
    by (simp add: host_now_def nap_def read_console_def on_host_def io_seq_def io_bind_def io_call_def io_catch_def io_when_def
        write_log_def io_emit_def io_ret_def Let_def)
qed

text \<open>
  C28. The address a server says is the one its driver dials: let the driver's poll, before its deadline,
  read a console that shows more than the one before. If that console holds the line the guest says when its
  server answers, for an address of digits and dots, and nothing before that line holds the words the line
  begins with, the poll comes back with the address the machine was told. But the line has no end the
  poll waits for: a console read while only a beginning of the address was out makes it come back with that
  beginning.
\<close>

theorem ready_line_read:
  assumes "figure_text ip" "says_first ready_word pre (ready_line s ip ty @ more')"
    and "h_now h (bw_os w) = (t, u1)" "t < deadline" "h_console h iid (h_sleep h 10 u1) = (Inr got, u2)" "length old < length got"
  shows "(got = pre @ ready_line s ip ty @ more' \<longrightarrow> io_result (poll_server (Suc n) h iid file deadline old w) = Inr (Some (Some ip))) \<and>
    (\<forall>u v. ip = u @ v \<and> u \<noteq> [] \<and> got = pre @ ready_word @ u \<longrightarrow>
       io_result (poll_server (Suc n) h iid file deadline old w) = Inr (Some (Some u)))"
  using ready_line_found [OF assms(1,2)] poll_server_reads [OF assms(3-6)] by blast

definition ready_host :: "string \<Rightarrow> mock_world host" where
  "ready_host s = (mock_host_on mock)\<lparr>h_console := (\<lambda>i u. (Inr s, u))\<rparr>"

lemma ready_line_read_witness:
  "io_result (poll_server 61 (ready_host (''boot: '' @ ready_line srv0 ''10.0.0.1'' [] @ [nl])) ''i-1'' ''f'' 600 [] mock_bworld)
     = Inr (Some (Some ''10.0.0.1'')) \<and>
   io_result (poll_server 61 (ready_host (''boot: '' @ ready_word @ ''10.0'')) ''i-1'' ''f'' 600 [] mock_bworld) = Inr (Some (Some ''10.0''))"
proof -
  have ip: "figure_text ''10.0.0.1''" by (simp add: figure_text_def in_ranges_def)
  have line: "says_first ready_word ''boot: '' (ready_line srv0 ''10.0.0.1'' [] @ [nl])"
    by (auto simp: says_first_def ready_word_def less_Suc_eq numeral_eq_Suc)
  have now: "h_now (ready_host s) (bw_os mock_bworld) = (0, bw_os mock_bworld)" for s
    by (simp add: ready_host_def mock_host_on_def mock_bworld_def)
  have late: "(0 :: rat) < 600" by simp
  have shown: "h_console (ready_host s) ''i-1'' u = (Inr s, u)" for s u by (simp add: ready_host_def)
  have fuel: "(61 :: nat) = Suc 60" by simp
  have more1: "length ([] :: string) < length (''boot: '' @ ready_line srv0 ''10.0.0.1'' [] @ [nl])" by simp
  have more2: "length ([] :: string) < length (''boot: '' @ ready_word @ ''10.0'')" by simp
  have "''10.0.0.1'' = ''10.0'' @ ''.0.1'' \<and> ''10.0'' \<noteq> []" by simp
  with ready_line_read [OF ip line now late shown more1, of 60 "''f''"] ready_line_read [OF ip line now late shown more2, of 60 "''f''"]
  show ?thesis unfolding fuel by blast
qed

section \<open>A scripted load\<close>

definition load1 :: "nat wrk" where
  "load1 = \<lparr>wk_box = quiet_box, wk_exec = (\<lambda>c e t n. (Inr \<lparr>pr_code = 0, pr_out = ''3 requests in 2.00s, 1.00GB read'', pr_err = []\<rparr>, n + 1))\<rparr>"

lemma summary1:
  "\<exists>m. rx_search summary_rx ''3 requests in 2.00s, 1.00GB read'' = Some m \<and> group 1 m = Some ''3'' \<and> group 2 m = Some ''2.00s'' \<and>
     group 3 m = Some ''1.00'' \<and> group 4 m = Some ''GB''"
  by (simp add: summary_rx_def rx_parse rx_run)

lemma quiet1: "rx_search (pct_rx ''50'') ''3 requests in 2.00s, 1.00GB read'' = None" "rx_search (pct_rx ''75'') ''3 requests in 2.00s, 1.00GB read'' = None"
  "rx_search (pct_rx ''90'') ''3 requests in 2.00s, 1.00GB read'' = None" "rx_search (pct_rx ''99'') ''3 requests in 2.00s, 1.00GB read'' = None"
  "rx_search spread_rx ''3 requests in 2.00s, 1.00GB read'' = None"
  by (simp_all add: pct_rx_def spread_rx_def rx_parse rx_run)

lemmas figure_eval = py_float_def py_int_def strip_def is_space_def in_ranges_def space_ranges_def all_digits_def is_digit_def nat_of_digits_def digit_val_def

lemma latency1: "latency_ms ''2.00s'' = Inr (Some 2000)"
  by (simp add: latency_ms_def latency_rx_def rx_parse rx_match_start_def rx_run group_res_def of_option_def)
    (simp add: time_us_def figure_eval)

lemma verdict1: "\<exists>es. wrk_verdict \<lparr>pr_code = 0, pr_out = ''3 requests in 2.00s, 1.00GB read'', pr_err = []\<rparr> n = (Inr 0, n, es)"
proof -
  have "py_float ''1.00'' = Inr 1" by (simp add: figure_eval)
  then have "\<exists>m agg fin. rx_search summary_rx ''3 requests in 2.00s, 1.00GB read'' = Some m \<and> summary_lines m = Inr (agg, fin)"
    using summary1 by (auto simp: summary_lines_def gbps_of_def bytes_read_def group_res_def of_option_def latency1)
  then show ?thesis by (auto simp: wrk_verdict_def io_res_def say_def io_defs)
qed

lemma quiet_parts:
  "\<exists>es. say l n = (Inr (), n, es)" "\<exists>es. io_for say ls n = (Inr (), n, es)" "\<exists>es. imds quiet_box p n = (Inr ''10.0.0.1'', n, es)"
  "\<exists>es. make_dir quiet_box p n = (Inr (), n, es)" "\<exists>es. run_tool quiet_box c we n = (Inr [], n, es)" "\<exists>es. guest_clock quiet_box n = (Inr (of_nat n), n, es)"
  "\<exists>es. io_ret x n = (Inr x, n, es)" "\<exists>es. read_file quiet_box (mtu_path f) d n = (Inr d, n, es)" for n :: nat
proof -
  show "\<exists>es. io_for say ls n = (Inr (), n, es)" by (induction ls) (auto simp: say_def io_defs)
  show "\<exists>es. read_file quiet_box (mtu_path f) d n = (Inr d, n, es)" by (simp add: read_file_def quiet_box_def mtu_path_def io_ask_def)
qed (simp_all add: say_def imds_def make_dir_def run_tool_def exec_tool_def feed_tool_def guest_clock_def quiet_box_def io_defs)

lemma load1_box: "wk_box load1 = quiet_box" "guest_cfg quiet_box key d = d" "wrk_cfg load1 key d = d"
  by (simp_all add: load1_def quiet_box_def wrk_cfg_def guest_cfg_def)

lemma load1_parts:
  "\<exists>es. default_route quiet_box n = (Inr (''eth0'', []), n, es)"
  "\<exists>es. wrk_fingerprint load1 0 ''eth0'' n = (Inr (), n, es)"
  "\<exists>es. wrk_fetch load1 f p n = (Inr True, n, es)"
  "\<exists>es. wrk_tune load1 0 ''eth0'' n = (Inr (), n, es)" for n :: nat
proof -
  show "\<exists>es. default_route quiet_box n = (Inr (''eth0'', []), n, es)"
    unfolding default_route_def by (rule bind_returns, rule quiet_parts) (simp add: io_res_Inr)
  show "\<exists>es. wrk_fingerprint load1 0 ''eth0'' n = (Inr (), n, es)"
    unfolding wrk_fingerprint_def Let_def io_seq_def load1_box by (rule bind_returns, rule quiet_parts)+ (rule quiet_parts)
  show "\<exists>es. wrk_tune load1 0 ''eth0'' n = (Inr (), n, es)"
    unfolding wrk_tune_def Let_def guest_mode_def load1_box by (simp add: say_def io_defs)
  show "\<exists>es. wrk_fetch load1 f p n = (Inr True, n, es)"
    by (simp add: wrk_fetch_def load1_def quiet_box_def download_def make_executable_def say_def io_try_def Let_def io_defs)
qed

lemma stat1: "strip ''cpu 1 0 0 9'' = ''cpu 1 0 0 9''" "splitlines ''cpu 1 0 0 9'' = [''cpu 1 0 0 9'']"
  "words ''cpu 1 0 0 9'' = [''cpu'', ''1'', ''0'', ''0'', ''9'']" "res_list py_int [''1'', ''0'', ''0'', ''9''] = Inr [1, 0, 0, 9]"
  by (simp_all add: figure_eval line_end_def)

lemma load1_before:
  "\<exists>es. percpu quiet_box n = (Inr [], n, es)" "\<exists>es. nic_rx quiet_box ''eth0'' n = (Inr (0, 0), n, es)" "\<exists>es. cpu_now quiet_box n = (Inr (1, 10), n, es)"
  "\<exists>es. wrk_before quiet_box ''eth0'' n = (Inr ((0, 0), (1, 10), of_nat n, []), n, es)"
proof -
  have stat: "\<exists>es. read_file quiet_box ''/proc/stat'' [] n = (Inr ''cpu 1 0 0 9'', n, es)" by (simp add: read_file_def quiet_box_def io_ask_def stat1)
  have zero: "py_int ''0'' = Inr 0" by (simp add: figure_eval)
  have nic: "\<exists>es. read_file quiet_box (''/sys/class/net/eth0/statistics/'' @ f) d n = (Inr d, n, es)" for f d by (simp add: read_file_def quiet_box_def io_ask_def)
  have "all_cpus ''cpu 1 0 0 9'' = res_bind (res_list py_int (tl (words ''cpu 1 0 0 9''))) busy_total"
    unfolding all_cpus_def stat1(2) by (simp only: nth_res_def list.size) simp
  also have "\<dots> = Inr (1, 10)" unfolding stat1(3) list.sel stat1(4) by (simp add: busy_total_def nth_res_def)
  finally have sums: "all_cpus ''cpu 1 0 0 9'' = Inr (1, 10)" .
  have none: "stat_lines [''cpu 1 0 0 9''] [] = Inr []" unfolding stat_lines.simps stat1(3) Let_def by (simp add: is_cpu_line_def)
  show p: "\<exists>es. percpu quiet_box n = (Inr [], n, es)"
    unfolding percpu_def by (rule bind_returns, rule stat) (simp only: stat1(2) none, simp add: io_res_Inr)
  show c: "\<exists>es. cpu_now quiet_box n = (Inr (1, 10), n, es)"
    unfolding cpu_now_def by (rule bind_returns, rule stat) (simp only: sums, simp add: io_res_Inr)
  have res: "\<exists>es. io_res (py_int ''0'') n = (Inr 0, n, es)" by (simp add: zero io_res_Inr)
  show r: "\<exists>es. nic_rx quiet_box ''eth0'' n = (Inr (0, 0), n, es)"
    unfolding nic_rx_def Let_def
    by (simp, rule bind_returns, rule nic [of "''rx_bytes''", simplified],
      rule bind_returns, rule res, rule bind_returns, rule nic [of "''rx_packets''", simplified], rule bind_returns, rule res, rule quiet_parts)
  show "\<exists>es. wrk_before quiet_box ''eth0'' n = (Inr ((0, 0), (1, 10), of_nat n, []), n, es)"
    unfolding wrk_before_def
    by (rule bind_returns, rule r, rule bind_returns, rule c, rule bind_returns, rule quiet_parts, rule bind_returns, rule p, rule quiet_parts)
qed

lemma load1_runs: "\<exists>es. wrk_main load1 0 7 = (Inr 0, 8, es)"
proof -
  let ?p = "\<lparr>pr_code = 0, pr_out = ''3 requests in 2.00s, 1.00GB read'', pr_err = []\<rparr>"
  have budget: "\<exists>es. report_cpu_budget [] [] 0 n = (Inr (), n, es)" for n :: nat
    by (simp add: report_cpu_budget_def cpu_budget_def say_rule_def say_def Let_def io_defs)
  have lats: "\<exists>es. io_res (latencies ''3 requests in 2.00s, 1.00GB read'') n = (Inr [], n, es)" for n :: nat
    by (simp add: latencies_def quiet1 io_res_Inr)
  have wire: "\<exists>l es. io_res (wire_line 0 0 1) n = (Inr l, n, es)" for n :: nat by (simp add: wire_line_def io_res_Inr)
  have same: "wire_line (0 - 0) (0 - 0) (rat_of_nat 8 - 7) = wire_line 0 0 1" by simp
  have reports: "\<exists>es. wrk_reports load1 0 ''eth0'' ((0, 0), (1, 10), 7, []) ?p 8 = (Inr 0, 8, es)"
  proof -
    obtain l where l: "\<exists>es. (io_res (wire_line 0 0 1) :: (nat, string) gu) 8 = (Inr l, 8, es)" using wire by blast
    show ?thesis unfolding wrk_reports_def Let_def load1_box io_seq_def prod.case proc.simps
      apply (rule bind_returns, rule quiet_parts)
      apply (rule bind_returns, rule load1_before, unfold prod.case)
      apply (rule bind_returns, rule load1_before, unfold prod.case)
      apply (rule bind_returns, rule load1_before)
      apply (rule bind_returns, rule budget)
      apply (rule bind_returns, rule quiet_parts)+
      apply (unfold same)
      apply (rule bind_returns, rule l)
      apply (rule bind_returns, rule quiet_parts)+
      apply (rule bind_returns, rule lats)
      apply (rule bind_returns, rule quiet_parts)
      by (rule verdict1)
  qed
  have dur: "py_int (wrk_duration load1) = Inr 30" by (simp add: wrk_duration_def load1_box figure_eval)
  have run: "\<exists>es. io_try (io_bind (io_res (Inr 30)) (\<lambda>s. io_call e (wk_exec load1 c v (s + 180)))) 7 = (Inr (Inr ?p), 8, es)" for e c v
    by (simp add: load1_def io_try_def io_res_def io_defs)
  have load: "\<exists>es. wrk_run load1 0 ''eth0'' 7 = (Inr 0, 8, es)"
    unfolding wrk_run_def Let_def io_seq_def dur load1_box
    apply (rule bind_returns, rule quiet_parts)
    apply (rule bind_returns, rule load1_before)
    apply (rule bind_returns, rule run)
    using reports by simp
  have body: "\<exists>es. wrk_body load1 0 ''eth0'' 7 = (Inr 0, 8, es)"
    unfolding wrk_body_def io_seq_def load1_box
    apply (rule bind_returns, rule load1_parts)
    apply (rule bind_returns, rule quiet_parts)
    apply (rule bind_returns, rule load1_parts, unfold if_True)
    apply (rule bind_returns, rule load1_parts, unfold not_True_eq_False if_False)
    apply (rule bind_returns, rule load1_parts)
    by (rule load)
  then have tried: "\<exists>es. io_try (wrk_body load1 0 ''eth0'') 7 = (Inr (Inr 0), 8, es)" by (auto simp: io_try_def)
  have down: "\<exists>es. io_finish (Inr 0) (farewell quiet_box 0) n = (Inr (0 :: int), n, es)" for n :: nat
    by (simp add: io_finish_def farewell_def is_local_def load1_box say_def exec_tool_def feed_tool_def quiet_box_def io_res_def io_defs)
  show ?thesis unfolding wrk_main_def load1_box
    apply (rule bind_returns, rule load1_parts, unfold prod.case)
    apply (rule bind_returns, rule tried, unfold sum.case)
    by (rule down)
qed

lemma load_completes_measured_witness:
  "\<exists>cs down. wrk_main load1 0 7 = (Inr 0, 8, cs @ down) \<and> load_measured load1 0 cs"
proof -
  obtain es where "wrk_main load1 0 7 = (Inr 0, 8, es)" using load1_runs by blast
  with load_completes_measured [OF this] show ?thesis by auto
qed

end
