(* ===== verification/CovRun.thy ===== *)
theory CovRun
  imports Guest Http Logs "HOL-Library.Product_Lexorder"
begin

text \<open>
  \<^verbatim>\<open>scripts/cov/run.py\<close>: a coverage run. It builds the image, deploys it, waits in its log for the instance and
  for the dump the guest prints twice, ends the deploy whatever happened, and makes the table of functions out of
  what \<open>llvm-cov\<close> exports.
\<close>

section \<open>The machine\<close>

text \<open>A function of the export: its files, its regions (lists of numbers), how often it ran.\<close>

record cov_fn =
  cf_files :: "string list"
  cf_regions :: "int list list"
  cf_count :: int
  cf_name :: string

record 'w covm =
  cv_env :: "string \<Rightarrow> string option"
  cv_root :: string
  cv_python :: string
  cv_cpus :: nat
  cv_sh :: "string list \<Rightarrow> (string \<times> string) list \<Rightarrow> string option \<Rightarrow> 'w \<Rightarrow> (exn + unit) \<times> 'w"
  cv_export :: "string list \<Rightarrow> 'w \<Rightarrow> (exn + cov_fn list) \<times> 'w"
  cv_mkdir :: "string \<Rightarrow> 'w \<Rightarrow> (exn + unit) \<times> 'w"
  cv_store :: "string \<Rightarrow> string \<Rightarrow> 'w \<Rightarrow> (exn + unit) \<times> 'w"
  cv_spawn :: "string list \<Rightarrow> string \<Rightarrow> 'w \<Rightarrow> (exn + unit) \<times> 'w"
  cv_ended :: "'w \<Rightarrow> bool \<times> 'w"
  cv_log :: "string \<Rightarrow> 'w \<Rightarrow> string option \<times> 'w"
  cv_now :: "'w \<Rightarrow> rat \<times> 'w"
  cv_nap :: "rat \<Rightarrow> 'w \<Rightarrow> 'w"
  cv_term :: "'w \<Rightarrow> 'w"
  cv_wait :: "'w \<Rightarrow> 'w"

datatype cov_eff = CovSh "string list" "(string \<times> string) list" "string option" | CovExport "string list" | CovDir string | CovFile string string
  | Deployed "string list" string | Terminated | Reaped | CovNap rat | CovSaid string

type_synonym ('w, 'a) cv = "('w, cov_eff, 'a) io"

text \<open>The arguments.\<close>

record cov_args =
  ca_tls :: int
  ca_sf :: string
  ca_queries :: string
  ca_threads :: int
  ca_workers :: int
  ca_conns :: int
  ca_instance :: string
  ca_miniosv :: string
  ca_out :: string
  ca_profraw :: "string option"

section \<open>Pieces\<close>

definition cov_sources :: "string list" where
  "cov_sources = [''modules/mininet'', ''drivers/enav2'', ''apps/miniduckdb/miniosv/http'', ''smoltcp-'', ''rustls-0'', ''ring-'', ''webpki-'']"

text \<open>A command with what it adds to the environment and the file its output goes to; a status other than 0 is an exception.\<close>

definition cov_sh :: "'w covm \<Rightarrow> string list \<Rightarrow> (string \<times> string) list \<Rightarrow> string option \<Rightarrow> ('w, unit) cv" where
  "cov_sh c cmd env out = io_seq (io_emit (CovSaid (''+ '' @ join '' '' cmd))) (io_call (CovSh cmd env out) (cv_sh c cmd env out))"

text \<open>\<open>range(int(a), int(b or a) + 1)\<close> of each part of \<open>1-22\<close> or \<open>1,6,9\<close>.\<close>

definition query_part :: "string \<Rightarrow> int list res" where
  "query_part p = (case parted CHR ''-'' p of (a, b) \<Rightarrow>
     res_bind (py_int a) (\<lambda>x. res_bind (py_int (if b = [] then a else b)) (\<lambda>y. Inr [x..y])))"

definition cov_queries :: "string \<Rightarrow> int list res" where
  "cov_queries spec = res_bind (res_list query_part (split_on CHR '','' spec)) (\<lambda>xs. Inr (concat xs))"

definition cov_clock :: "'w covm \<Rightarrow> ('w, rat) cv" where
  "cov_clock c = (\<lambda>w. case cv_now c w of (t, w') \<Rightarrow> (Inr t, w', []))"

definition cov_nap :: "'w covm \<Rightarrow> rat \<Rightarrow> ('w, unit) cv" where
  "cov_nap c d = io_call (CovNap d) (\<lambda>w. (Inr (), cv_nap c d w))"

definition cov_ended :: "'w covm \<Rightarrow> ('w, bool) cv" where
  "cov_ended c = (\<lambda>w. case cv_ended c w of (b, w') \<Rightarrow> (Inr b, w', []))"

text \<open>The log, None before the file exists.\<close>

definition cov_log :: "'w covm \<Rightarrow> string \<Rightarrow> ('w, string option) cv" where
  "cov_log c p = (\<lambda>w. case cv_log c p w of (t, w') \<Rightarrow> (Inr t, w', []))"

text \<open>\<open>wait_for\<close>, a unit of fuel a round: the first group of the pattern, None when the time is up or the process ended.\<close>

fun wait_for :: "nat \<Rightarrow> 'w covm \<Rightarrow> string \<Rightarrow> rx \<Rightarrow> rat \<Rightarrow> ('w, string option) cv" where
  "wait_for 0 c p r deadline = io_ret None"
| "wait_for (Suc n) c p r deadline =
     io_bind (cov_clock c) (\<lambda>t.
     if t < deadline
     then io_bind (cov_log c p) (\<lambda>l. case (case l of None \<Rightarrow> None | Some s \<Rightarrow> rx_search r s) of
         Some m \<Rightarrow> io_ret (group 1 m)
       | None \<Rightarrow> io_bind (cov_ended c) (\<lambda>over. if over then io_ret None else io_seq (cov_nap c 3) (wait_for n c p r deadline)))
     else io_ret None)"

text \<open>\<open>s.count(sub)\<close>: occurrences that do not overlap.\<close>

function count_sub :: "string \<Rightarrow> string \<Rightarrow> nat" where
  "count_sub sub [] = 0"
| "count_sub sub (x # s) =
     (if sub \<noteq> [] \<and> starts_with sub (x # s) then Suc (count_sub sub (drop (length sub) (x # s))) else count_sub sub s)"
  by pat_completeness auto
termination by (relation "measure (\<lambda>(_, s). length s)") auto

definition cov_end :: string where
  "cov_end = ''COV END''"

text \<open>The wait for the second copy of the dump; a log that is gone is an \<open>OSError\<close>.\<close>

fun wait_dump :: "nat \<Rightarrow> 'w covm \<Rightarrow> string \<Rightarrow> rat \<Rightarrow> ('w, unit) cv" where
  "wait_dump 0 c p deadline = io_ret ()"
| "wait_dump (Suc n) c p deadline =
     io_bind (cov_clock c) (\<lambda>t.
     if t < deadline
     then io_bind (cov_log c p) (\<lambda>l. case l of
         None \<Rightarrow> io_raise (OtherExn ''OSError'')
       | Some s \<Rightarrow>
           if count_sub cov_end s < 2
           then io_bind (cov_ended c) (\<lambda>over.
             if over then sys_exit (''deploy exited early; see '' @ p) else io_seq (cov_nap c 5) (wait_dump n c p deadline))
           else io_ret ())
     else io_ret ())"

definition instance_rx :: rx where
  "instance_rx = re ''^Instance running: (i-[0-9a-f]+)''"

section \<open>The run\<close>

text \<open>Rounds enough for 900 seconds by threes and 1800 by fives, on a clock that keeps up with the naps.\<close>

definition wait_fuel :: nat where
  "wait_fuel = 302"

definition dump_fuel :: nat where
  "dump_fuel = 362"

definition cov_env :: "'w covm \<Rightarrow> cov_args \<Rightarrow> (string \<times> string) list res" where
  "cov_env c a =
     res_bind (of_option (KeyErr ''AWS_BUCKET'') (cv_env c ''AWS_BUCKET'')) (\<lambda>bucket.
     res_bind (of_option (KeyErr ''AWS_REGION'') (cv_env c ''AWS_REGION'')) (\<lambda>region.
     Inr [(''MININET_COV'', ''1''), (''MININET_HOST'', bucket @ ''.s3.'' @ region @ ''.amazonaws.com''),
       (''MININET_ADDR'', (case cv_env c ''AWS_TARGET_IP'' of Some ip \<Rightarrow> ip | None \<Rightarrow> [])), (''MININET_TLS'', show_int (ca_tls a)),
       (''MININET_WORKERS'', show_int (ca_workers a)), (''MININET_CONNS'', show_int (ca_conns a))]))"

definition cov_build :: "'w covm \<Rightarrow> cov_args \<Rightarrow> ('w, unit) cv" where
  "cov_build c a =
     io_bind (io_res (cov_env c a)) (\<lambda>env.
     io_seq (cov_sh c [''make'', ''-C'', ca_miniosv a, ''app='' @ cv_root c @ ''/apps/bench/duckdb-tpch'', ''-j'' @ show_nat (cv_cpus c)] env (Some (ca_out a @ ''/build.log'')))
     (io_bind (io_res (cov_queries (ca_queries a))) (\<lambda>qs.
       cov_sh c [cv_python c, ca_miniosv a @ ''/scripts/setargs.py'', ca_miniosv a @ ''/build/last/loader.img'',
         ''tpch --sf '' @ ca_sf a @ (if ca_threads a \<noteq> 0 then '' --threads '' @ show_int (ca_threads a) else []) @ '' '' @ join '' '' (map show_int qs)] [] None)))"

definition cov_deploy_cmd :: "cov_args \<Rightarrow> string \<Rightarrow> string \<Rightarrow> string list" where
  "cov_deploy_cmd a region subnet = [ca_miniosv a @ ''/scripts/aws-deploy.py'', ca_miniosv a @ ''/build/last/loader.img'', region, ca_instance a,
     ''--attach'', ''--subnet'', subnet]"

text \<open>What happens while the deploy runs, and how it is ended.\<close>

definition cov_watch :: "'w covm \<Rightarrow> string \<Rightarrow> ('w, unit) cv" where
  "cov_watch c p =
     io_bind (cov_clock c) (\<lambda>t.
     io_bind (wait_for wait_fuel c p instance_rx (t + 900)) (\<lambda>iid.
     if \<not> given iid then sys_exit (''no instance; see '' @ p)
     else io_seq (io_emit (CovSaid (''instance '' @ the iid @ ''; console -> '' @ p)))
       (io_bind (cov_clock c) (\<lambda>u. io_seq (wait_dump dump_fuel c p (u + 1800)) (cov_nap c 10)))))"

definition cov_stop :: "'w covm \<Rightarrow> ('w, unit) cv" where
  "cov_stop c = io_seq (io_call Terminated (\<lambda>w. (Inr (), cv_term c w))) (io_call Reaped (\<lambda>w. (Inr (), cv_wait c w)))"

definition cov_deploy :: "'w covm \<Rightarrow> cov_args \<Rightarrow> ('w, string) cv" where
  "cov_deploy c a =
     (let p = ca_out a @ ''/deploy.log''; raw = ca_out a @ ''/profile.profraw'' in
      io_bind (io_res (of_option (KeyErr ''AWS_SUBNET'') (cv_env c ''AWS_SUBNET''))) (\<lambda>subnet.
      io_bind (io_res (of_option (KeyErr ''AWS_REGION'') (cv_env c ''AWS_REGION''))) (\<lambda>region.
      io_seq (io_call (Deployed (cov_deploy_cmd a region subnet) p) (cv_spawn c (cov_deploy_cmd a region subnet) p))
      (io_seq (io_finally (cov_watch c p) (cov_stop c))
      (io_seq (cov_sh c [cv_python c, cv_root c @ ''/scripts/cov/decode.py'', raw, p] [] None) (io_ret raw))))))"

section \<open>The table\<close>

type_synonym cov_row = "string \<times> int \<times> int \<times> int \<times> string"

text \<open>\<open>sorted({r[0]} | {r[2]})\<close>.\<close>

definition region_lines :: "int list list \<Rightarrow> int list res" where
  "region_lines rs = res_bind (res_list (\<lambda>r. nth_res r 0) rs) (\<lambda>xs. res_bind (res_list (\<lambda>r. nth_res r 2) rs) (\<lambda>ys. Inr (sort (remdups (xs @ ys)))))"

definition fn_row :: "cov_fn \<Rightarrow> cov_row option res" where
  "fn_row f = (case filter (\<lambda>x. list_ex (\<lambda>s. is_infix s x) cov_sources) (cf_files f) of
     [] \<Rightarrow> Inr None
   | x # _ \<Rightarrow> res_bind (region_lines (cf_regions f)) (\<lambda>ls. if ls = [] then Inl IndexErr
       else Inr (Some (x, hd ls, last ls, cf_count f, cf_name f))))"

definition fn_rows :: "cov_fn list \<Rightarrow> cov_row list res" where
  "fn_rows fs = res_bind (res_list fn_row fs) (\<lambda>rs. Inr (sort (List.map_filter id rs)))"

definition row_text :: "cov_row \<Rightarrow> string" where
  "row_text = (\<lambda>(f, a, b, n, name). join [CHR 0x09] [f, show_int a, show_int b, show_int n, name] @ [nl])"

definition table_text :: "cov_row list \<Rightarrow> string" where
  "table_text rows = join [CHR 0x09] [''file'', ''from'', ''to'', ''hits'', ''function''] @ [nl] @ concat (map row_text rows)"

definition cov_report :: "'w covm \<Rightarrow> cov_args \<Rightarrow> string \<Rightarrow> ('w, unit) cv" where
  "cov_report c a raw =
     (let prof = ca_out a @ ''/profile.profdata''; tsv = ca_out a @ ''/functions.tsv''; txt = ca_out a @ ''/report.txt'';
          common = [ca_miniosv a @ ''/build/release/loader.elf'', ''-instr-profile='' @ prof, ''-Xdemangler=llvm-cxxfilt''] in
      io_seq (cov_sh c [''llvm-profdata'', ''merge'', raw, ''-o'', prof] [] None)
      (io_seq (cov_sh c ([''llvm-cov'', ''report''] @ common @ [''-ignore-filename-regex=.*/(core|alloc|compiler_builtins|std)/.*'']) [] (Some txt))
      (io_bind (io_call (CovExport ([''llvm-cov'', ''export'', ''-format=text'', ''-skip-expansions''] @ common))
          (cv_export c ([''llvm-cov'', ''export'', ''-format=text'', ''-skip-expansions''] @ common))) (\<lambda>fs.
      io_bind (io_res (fn_rows fs)) (\<lambda>rows.
      io_seq (io_call (CovFile tsv (table_text rows)) (cv_store c tsv (table_text rows)))
        (io_emit (CovSaid (show_nat (length rows) @ '' functions, '' @ show_nat (length (filter (\<lambda>(_, _, _, n, _). n = 0) rows)) @ '' never run; ''
          @ txt @ '', '' @ tsv))))))))"

definition cov_main :: "'w covm \<Rightarrow> cov_args \<Rightarrow> ('w, unit) cv" where
  "cov_main c a =
     io_seq (io_call (CovDir (ca_out a)) (cv_mkdir c (ca_out a)))
     (case ca_profraw a of
       Some raw \<Rightarrow> cov_report c a raw
     | None \<Rightarrow> io_seq (cov_build c a) (io_bind (cov_deploy c a) (cov_report c a)))"

section \<open>The fuel is enough\<close>

text \<open>A clock \<open>T\<close> that never goes back and keeps up with the naps.\<close>

definition keeps_time :: "'w covm \<Rightarrow> ('w \<Rightarrow> rat) \<Rightarrow> bool" where
  "keeps_time c T \<longleftrightarrow> (\<forall>w. fst (cv_now c w) = T w \<and> T w \<le> T (snd (cv_now c w)) \<and> (\<forall>d. T w + d \<le> T (cv_nap c d w)) \<and>
     (\<forall>p. T w \<le> T (snd (cv_log c p w))) \<and> T w \<le> T (snd (cv_ended c w)))"

lemma wait_for_enough:
  assumes "keeps_time c T" "deadline - T w \<le> 3 * of_nat n"
  shows "wait_for (Suc n + k) c p r deadline w = wait_for (Suc n) c p r deadline w"
  using assms(2)
proof (induction n arbitrary: w)
  case 0
  with assms(1) have "\<not> fst (cv_now c w) < deadline" by (simp add: keeps_time_def)
  then show ?case by (cases "cv_now c w") (simp add: cov_clock_def io_bind_def io_ret_def)
next
  case (Suc n)
  obtain t w1 l w2 over w3 where w: "cv_now c w = (t, w1)" "cv_log c p w1 = (l, w2)" "cv_ended c w2 = (over, w3)" by (metis surj_pair)
  with assms(1) have "T w \<le> T w1" "T w1 \<le> T w2" "T w2 \<le> T w3" "T w3 + 3 \<le> T (cv_nap c 3 w3)"
    unfolding keeps_time_def by (metis snd_conv)+
  with Suc.prems have "deadline - T (cv_nap c 3 w3) \<le> 3 * of_nat n" by simp
  note ih = Suc.IH [OF this]
  show ?case using w ih
    by (auto simp: cov_clock_def cov_log_def cov_ended_def cov_nap_def io_seq_def io_bind_def io_call_def split: option.splits)
qed

lemma wait_dump_enough:
  assumes "keeps_time c T" "deadline - T w \<le> 5 * of_nat n"
  shows "wait_dump (Suc n + k) c p deadline w = wait_dump (Suc n) c p deadline w"
  using assms(2)
proof (induction n arbitrary: w)
  case 0
  with assms(1) have "\<not> fst (cv_now c w) < deadline" by (simp add: keeps_time_def)
  then show ?case by (cases "cv_now c w") (simp add: cov_clock_def io_bind_def io_ret_def)
next
  case (Suc n)
  obtain t w1 l w2 over w3 where w: "cv_now c w = (t, w1)" "cv_log c p w1 = (l, w2)" "cv_ended c w2 = (over, w3)" by (metis surj_pair)
  with assms(1) have "T w \<le> T w1" "T w1 \<le> T w2" "T w2 \<le> T w3" "T w3 + 5 \<le> T (cv_nap c 5 w3)"
    unfolding keeps_time_def by (metis snd_conv)+
  with Suc.prems have "deadline - T (cv_nap c 5 w3) \<le> 5 * of_nat n" by simp
  note ih = Suc.IH [OF this]
  show ?case using w ih
    by (auto simp: cov_clock_def cov_log_def cov_ended_def cov_nap_def io_seq_def io_bind_def io_call_def split: option.splits)
qed

section \<open>A deploy that was started is ended\<close>

definition no_lifecycle :: "cov_eff \<Rightarrow> bool" where
  "no_lifecycle e \<longleftrightarrow> (\<forall>cmd p. e \<noteq> Deployed cmd p) \<and> e \<noteq> Terminated \<and> e \<noteq> Reaped"

lemma emits_cov [io_intros]:
  "emits no_lifecycle (cov_clock c)" "emits no_lifecycle (cov_ended c)" "emits no_lifecycle (cov_log c p)" "emits no_lifecycle (cov_nap c d)"
  "emits no_lifecycle (cov_sh c cmd env out)"
  by (auto simp: cov_clock_def cov_ended_def cov_log_def cov_nap_def cov_sh_def no_lifecycle_def emits_def io_defs split: prod.splits sum.splits)

lemma emits_cov_res [io_intros]: "emits no_lifecycle (io_res r)"
  by (cases r) (simp_all add: io_res_def emits_ret emits_raise)











end
