(* ===== verification/PmcPrep.thy ===== *)
theory PmcPrep
  imports Http BenchLinux Guest "HOL-Library.List_Lexorder" "HOL-Library.Char_ord"
begin

text \<open>
  \<^verbatim>\<open>scripts/bench/pmc-prep.py\<close>: captures of the counter benches made rows that \<^verbatim>\<open>plot.py\<close> can draw. What is in
  the files, and how \<open>pandas\<close> reads a table, is a parameter.
\<close>

section \<open>Files and rows\<close>

text \<open>A table: its columns, its rows by column, a missing figure as None.\<close>

record csv_table =
  ct_columns :: "string list"
  ct_rows :: "pyval dict list"

text \<open>Under \<open>RESULTS\<close>: the names in a directory, whether a file is empty, its table, its text if it exists.\<close>

record pmc_files =
  pf_names :: "string \<Rightarrow> string list"
  pf_empty :: "string \<Rightarrow> bool"
  pf_table :: "string \<Rightarrow> csv_table res"
  pf_text :: "string \<Rightarrow> string option"
  pf_results :: string

record pmc_row =
  pr_axis :: string
  pr_at :: pyval
  pr_figure :: "rat option"
  pr_valid :: bool
  pr_instance :: string
  pr_series :: string

definition counting_keys :: int where
  "counting_keys = 2000"

definition machines :: "string list" where
  "machines = [''c7i.large'', ''c7a.large'', ''c7g.large'']"

definition prims :: "string list" where
  "prims = [''pmc_start_with_conf'', ''pmc_read'', ''pmc_write'', ''pmc_stop'']"

section \<open>What a name says\<close>

text \<open>The stem of a name that ends in \<^verbatim>\<open>.csv\<close>, as all that are looked at do.\<close>

definition capture_stem :: "string \<Rightarrow> string" where
  "capture_stem name = remove_suffix ''.csv'' name"

definition run_id :: "string \<Rightarrow> string \<times> string" where
  "run_id name =
     (let tail = snd (parted CHR ''-'' (remove_suffix ''-perfevent'' (capture_stem name))) in
      if starts_with ''linux-'' tail then (''Linux'', drop (length ''linux-'') tail) else (''miniOSv'', tail))"

definition sample_id :: "string \<Rightarrow> string \<times> string" where
  "sample_id name =
     (let tail = snd (parted CHR ''-'' (remove_suffix ''-sample'' (capture_stem name))) in
      if starts_with ''linuxnt-'' tail then (''Linux (no throttle)'', drop (length ''linuxnt-'') tail)
      else if starts_with ''linux-'' tail then (''Linux'', drop (length ''linux-'') tail)
      else (''miniOSv'', tail))"

text \<open>The clock of a capture in MHz, None for NaN.\<close>

definition mhz_rx :: rx where
  "mhz_rx = re ''cpu_mhz=([0-9.]+)''"

definition clock_of :: "pmc_files \<Rightarrow> string \<Rightarrow> rat option res" where
  "clock_of m lp = (case pf_text m lp of
     None \<Rightarrow> Inr None
   | Some t \<Rightarrow> (case rx_search mhz_rx t of
       None \<Rightarrow> Inr None
     | Some x \<Rightarrow> res_bind (py_float (the (group 1 x))) (\<lambda>f. Inr (Some f))))"

section \<open>Columns\<close>

text \<open>\<open>sorted(dir.glob("*" + suffix))\<close>.\<close>

definition globbed :: "pmc_files \<Rightarrow> string \<Rightarrow> string \<Rightarrow> string list" where
  "globbed m dir suffix = sort (filter (ends_with suffix) (pf_names m dir))"

text \<open>A column by its name, and the rows where another equals a value.\<close>

definition column :: "string \<Rightarrow> csv_table \<Rightarrow> pyval dict list \<Rightarrow> pyval list res" where
  "column k t rows = (if k \<in> set (ct_columns t) then Inr (map (\<lambda>r. dict_get r k) rows) else Inl (KeyErr k))"

definition column_where :: "string \<Rightarrow> pyval \<Rightarrow> string \<Rightarrow> csv_table \<Rightarrow> pyval list res" where
  "column_where k v out t =
     (if k \<in> set (ct_columns t) then column out t (filter (\<lambda>r. py_eq (dict_get r k) v) (ct_rows t)) else Inl (KeyErr k))"

text \<open>A figure, None for NaN; text is no figure.\<close>

definition figure_of :: "pyval \<Rightarrow> rat option res" where
  "figure_of v = (case v of PNone \<Rightarrow> Inr None | PStr _ \<Rightarrow> Inl TypeErr | _ \<Rightarrow> Inr (as_num v))"

text \<open>\<open>ns >= 0\<close>, false of NaN.\<close>

definition not_negative :: "rat option \<Rightarrow> bool" where
  "not_negative x = (case x of None \<Rightarrow> False | Some q \<Rightarrow> 0 \<le> q)"

text \<open>A row of nanoseconds, scaled.\<close>

definition ns_row :: "string \<Rightarrow> string \<Rightarrow> rat \<Rightarrow> string \<Rightarrow> string \<Rightarrow> pyval \<Rightarrow> pmc_row res" where
  "ns_row axis tick scale inst ser v = res_bind (figure_of v) (\<lambda>ns.
     Inr \<lparr>pr_axis = axis, pr_at = PStr tick, pr_figure = map_option (\<lambda>q. q * scale / 1000) ns, pr_valid = not_negative ns, pr_instance = inst,
       pr_series = ser\<rparr>)"

definition res_concat :: "('a \<Rightarrow> 'b list res) \<Rightarrow> 'a list \<Rightarrow> 'b list res" where
  "res_concat f xs = res_bind (res_list f xs) (\<lambda>yss. Inr (concat yss))"

text \<open>A row for each figure of each primitive.\<close>

definition prim_rows :: "csv_table \<Rightarrow> rat \<Rightarrow> string \<Rightarrow> string \<Rightarrow> pmc_row list res" where
  "prim_rows t scale inst ser = res_concat (\<lambda>op.
     res_bind (column_where ''op'' (PStr op) ''ns_per_op'' t) (res_list (ns_row ''op'' op scale inst ser))) prims"

section \<open>The figures\<close>

definition counting :: "pmc_files \<Rightarrow> pmc_row list res" where
  "counting m = res_concat (\<lambda>name.
     (let path = ''pmc-perfevent/'' @ name in
      if pf_empty m path then Inr []
      else (case run_id name of (system, machine) \<Rightarrow>
        res_bind (pf_table m path) (\<lambda>t.
        res_bind (column_where ''keys'' (PInt counting_keys) ''delta_ns'' t) (res_list (ns_row ''machine'' machine 1 machine system))))))
     (globbed m ''pmc-perfevent'' ''-perfevent.csv'')"

definition primitives :: "pmc_files \<Rightarrow> pmc_row list res" where
  "primitives m = res_concat (\<lambda>machine. res_concat (\<lambda>name.
     res_bind (pf_table m (''pmc-cost/'' @ name)) (\<lambda>t. prim_rows t 1 machine machine))
     (globbed m ''pmc-cost'' (''-'' @ machine @ ''-prim.csv''))) machines"

definition metal :: "pmc_files \<Rightarrow> pmc_row list res" where
  "metal m = res_concat (\<lambda>(suffix, label). res_concat (\<lambda>name.
     (let dir = ''pmc-cost/metal-experiment/'' in
      res_bind (clock_of m (dir @ str_replace ''-prim.csv'' ''.log'' 0 name)) (\<lambda>mhz.
      case mhz of
        None \<Rightarrow> Inr []
      | Some f \<Rightarrow> if pf_empty m (dir @ name) then Inr []
          else res_bind (pf_table m (dir @ name)) (\<lambda>t. prim_rows t f ''c7i'' label))))
     (globbed m ''pmc-cost/metal-experiment'' suffix))
     [(''c7i.metal-24xl-prim.csv'', ''Bare metal''), (''c7i.large-prim.csv'', ''Virtualized'')]"

text \<open>\<open>(d["dead"] == 0) & (d["base_ns"] > 0)\<close>.\<close>

definition fired :: "pyval dict \<Rightarrow> bool res" where
  "fired r = res_bind (figure_of (dict_get r ''base_ns'')) (\<lambda>b.
     Inr (py_eq (dict_get r ''dead'') (PInt 0) \<and> (case b of None \<Rightarrow> False | Some q \<Rightarrow> 0 < q)))"

definition overhead_row :: "string \<Rightarrow> string \<Rightarrow> pyval dict \<Rightarrow> pmc_row res" where
  "overhead_row system inst r =
     res_bind (figure_of (dict_get r ''base_ns'')) (\<lambda>b.
     res_bind (figure_of (dict_get r ''sampled_ns'')) (\<lambda>s.
     Inr \<lparr>pr_axis = ''freq_hz'', pr_at = dict_get r ''freq_hz'',
       pr_figure = (case (b, s) of (Some base, Some sampled) \<Rightarrow> Some (100 * (sampled - base) / base) | _ \<Rightarrow> None),
       pr_valid = True, pr_instance = inst, pr_series = system @ '' '' @ inst\<rparr>))"

definition sampling :: "pmc_files \<Rightarrow> pmc_row list res" where
  "sampling m = res_concat (\<lambda>name.
     (let path = ''pmc-sample/'' @ name in
      if pf_empty m path then Inr []
      else res_bind (pf_table m path) (\<lambda>t.
        if \<not> list_all (\<lambda>k. k \<in> set (ct_columns t)) [''freq_hz'', ''base_ns'', ''sampled_ns'', ''dead''] then Inr []
        else res_bind (res_list fired (ct_rows t)) (\<lambda>bs.
          (case sample_id name of (system, inst) \<Rightarrow>
            res_list (overhead_row system inst) (map fst (filter snd (zip (ct_rows t) bs))))))))
     (globbed m ''pmc-sample'' ''-sample.csv'')"

text \<open>What is written: the rows of the figure, if there are any.\<close>

definition pmc_prep :: "pmc_files \<Rightarrow> string \<Rightarrow> pmc_row list res" where
  "pmc_prep m fig =
     res_bind (of_option (KeyErr fig)
       (map_of [(''counting'', counting m), (''primitives'', primitives m), (''metal'', metal m), (''sampling'', sampling m)] fig)) (\<lambda>rows.
     res_bind rows (\<lambda>rs.
     if rs = [] then Inl (SystemExit (''no usable captures for '' @ quoted fig @ '' under '' @ pf_results m)) else Inr rs))"

section \<open>A name is read back\<close>

lemma ends_with_iff: "ends_with p s \<longleftrightarrow> (\<exists>a. s = a @ p)"
  unfolding ends_with_def starts_with_iff by (metis rev_append rev_rev_ident)

lemma remove_suffix_append [simp]: "remove_suffix p (s @ p) = s"
  by (auto simp: remove_suffix_def ends_with_iff)

lemma parted_append: "c \<notin> set a \<Longrightarrow> parted c (a @ c # b) = (a, b)"
  by (induction a) (auto simp: parted_def)

lemma run_id_read:
  assumes "CHR ''-'' \<notin> set date"
  shows "run_id (date @ ''-linux-'' @ machine @ ''-perfevent.csv'') = (''Linux'', machine)"
    and "\<not> starts_with ''linux-'' machine \<Longrightarrow> run_id (date @ ''-'' @ machine @ ''-perfevent.csv'') = (''miniOSv'', machine)"
proof -
  have stem: "remove_suffix ''-perfevent'' (capture_stem (a @ ''-perfevent.csv'')) = a" for a
    using remove_suffix_append [of "''.csv''" "a @ ''-perfevent''"] by (simp add: capture_stem_def)
  show "run_id (date @ ''-linux-'' @ machine @ ''-perfevent.csv'') = (''Linux'', machine)"
    using stem [of "date @ ''-linux-'' @ machine"] parted_append [OF assms, of "''linux-'' @ machine"] by (simp add: run_id_def starts_with_iff)
  show "run_id (date @ ''-'' @ machine @ ''-perfevent.csv'') = (''miniOSv'', machine)" if "\<not> starts_with ''linux-'' machine"
    using that stem [of "date @ ''-'' @ machine"] parted_append [OF assms, of machine] by (simp add: run_id_def)
qed

section \<open>What a valid row says\<close>

lemma res_list_mem:
  assumes "res_list f xs = Inr ys" "y \<in> set ys"
  shows "\<exists>x \<in> set xs. f x = Inr y"
  using assms by (induction xs arbitrary: ys) (auto simp: res_bind_Inr)

lemma res_concat_mem:
  assumes "res_concat f xs = Inr ys" "y \<in> set ys"
  shows "\<exists>x \<in> set xs. \<exists>zs. f x = Inr zs \<and> y \<in> set zs"
proof -
  from assms obtain yss zs where "res_list f xs = Inr yss" "zs \<in> set yss" "y \<in> set zs" by (auto simp: res_concat_def res_bind_Inr)
  with res_list_mem show ?thesis by metis
qed

definition sound_row :: "pmc_row \<Rightarrow> bool" where
  "sound_row r \<longleftrightarrow> (pr_valid r \<longrightarrow> not_negative (pr_figure r))"

lemma ns_row_sound: "ns_row axis tick scale inst ser v = Inr r \<Longrightarrow> 0 \<le> scale \<Longrightarrow> sound_row r"
proof -
  assume run: "ns_row axis tick scale inst ser v = Inr r" and "0 \<le> scale"
  then obtain ns where "r = \<lparr>pr_axis = axis, pr_at = PStr tick, pr_figure = map_option (\<lambda>q. q * scale / 1000) ns, pr_valid = not_negative ns,
    pr_instance = inst, pr_series = ser\<rparr>" by (auto simp: ns_row_def res_bind_Inr)
  with \<open>0 \<le> scale\<close> show ?thesis by (cases ns) (simp_all add: sound_row_def not_negative_def)
qed

lemma ns_rows_sound: "res_bind xs (res_list (ns_row axis tick scale inst ser)) = Inr rs \<Longrightarrow> 0 \<le> scale \<Longrightarrow> r \<in> set rs \<Longrightarrow> sound_row r"
  by (auto simp: res_bind_def dest!: res_list_mem intro: ns_row_sound split: sum.splits)

lemma prim_rows_sound: "prim_rows t scale inst ser = Inr rs \<Longrightarrow> 0 \<le> scale \<Longrightarrow> r \<in> set rs \<Longrightarrow> sound_row r"
  unfolding prim_rows_def by (drule (1) res_concat_mem) (auto intro: ns_rows_sound)

text \<open>A figure of the counting and of the primitives that is said to be valid is there, and not negative.\<close>

lemma counting_sound:
  assumes "counting m = Inr rs" "r \<in> set rs"
  shows "sound_row r"
  using res_concat_mem [OF assms [unfolded counting_def]]
  by (fastforce simp: Let_def res_bind_Inr split: prod.splits if_splits dest: res_list_mem ns_row_sound)

lemma primitives_sound:
  assumes "primitives m = Inr rs" "r \<in> set rs"
  shows "sound_row r"
proof -
  from res_concat_mem [OF assms [unfolded primitives_def]] obtain machine xs name t ys where
    "prim_rows t 1 machine machine = Inr ys" "r \<in> set ys" by (auto simp: res_bind_Inr dest!: res_concat_mem)
  then show ?thesis using prim_rows_sound by fastforce
qed

lemma sampling_valid:
  assumes "sampling m = Inr rs" "r \<in> set rs"
  shows "pr_valid r"
proof -
  have over: "pr_valid y" if "overhead_row a b x = Inr y" for a b x y using that by (auto simp: overhead_row_def res_bind_Inr)
  show ?thesis
  proof -
    from res_concat_mem [OF assms [unfolded sampling_def]] obtain name zs xs where
      "r \<in> set zs" "res_list (overhead_row (fst (sample_id name)) (snd (sample_id name))) xs = Inr zs"
      by (auto simp: Let_def res_bind_Inr case_prod_beta split: if_splits)
    with res_list_mem over show ?thesis by metis
  qed
qed

text \<open>An empty capture ends the figure of the primitives, where the other three skip it.\<close>

lemma empty_capture_ends_primitives:
  assumes "name \<in> set (pf_names m ''pmc-cost'')" "ends_with ''-c7i.large-prim.csv'' name"
    and "pf_table m (''pmc-cost/'' @ name) = Inl (OtherExn ''EmptyDataError'')"
  shows "\<nexists>rs. primitives m = Inr rs"
proof
  assume "\<exists>rs. primitives m = Inr rs"
  moreover have "name \<in> set (globbed m ''pmc-cost'' ''-c7i.large-prim.csv'')" using assms by (simp add: globbed_def)
  ultimately show False using assms(3)
    by (auto simp: primitives_def machines_def res_concat_def res_bind_Inr res_list_Inr list_all2_Cons1 list_all2_conv_all_nth in_set_conv_nth)
qed

end
