(* ===== verification/Breakdown.thy ===== *)
theory Breakdown
  imports Guest
begin

text \<open>
  \<^verbatim>\<open>scripts/bench/breakdown.py\<close>: where a query's wall time goes. A frame is its columns and its rows; a cell
  is a number, None where it is not one (NaN). The CSVs have columns of text, so a row's cells are Python's numbers
  and a division by zero raises. The drawing itself is the list of bands handed to the plot.
\<close>

section \<open>Frames\<close>

type_synonym num_cell = "rat option"

record brow =
  br_query :: int
  br_cell :: "string \<Rightarrow> num_cell"

record frame =
  fr_cols :: "string list"
  fr_rows :: "brow list"

definition cell_at :: "string list \<Rightarrow> brow \<Rightarrow> string \<Rightarrow> num_cell res" where
  "cell_at cols r key = (if key \<in> set cols then Inr (br_cell r key) else Inl (KeyErr key))"

text \<open>\<open>m.get(key)\<close>, where absent and NaN are the same to \<open>pd.notna\<close>; and its truth, where NaN is true.\<close>

definition cell_get :: "string list \<Rightarrow> brow \<Rightarrow> string \<Rightarrow> num_cell" where
  "cell_get cols r key = (if key \<in> set cols then br_cell r key else None)"

definition cell_truthy :: "string list \<Rightarrow> brow \<Rightarrow> string \<Rightarrow> bool" where
  "cell_truthy cols r key = (key \<in> set cols \<and> br_cell r key \<noteq> Some 0)"

section \<open>Numbers that may be NaN\<close>

definition num_add :: "num_cell \<Rightarrow> num_cell \<Rightarrow> num_cell" where
  "num_add a b = (case (a, b) of (Some x, Some y) \<Rightarrow> Some (x + y) | _ \<Rightarrow> None)"

definition num_sub :: "num_cell \<Rightarrow> num_cell \<Rightarrow> num_cell" where
  "num_sub a b = (case (a, b) of (Some x, Some y) \<Rightarrow> Some (x - y) | _ \<Rightarrow> None)"

definition num_mul :: "num_cell \<Rightarrow> num_cell \<Rightarrow> num_cell" where
  "num_mul a b = (case (a, b) of (Some x, Some y) \<Rightarrow> Some (x * y) | _ \<Rightarrow> None)"

definition num_div :: "num_cell \<Rightarrow> num_cell \<Rightarrow> num_cell res" where
  "num_div a b = (case b of
     Some y \<Rightarrow> if y = 0 then Inl zero_div else Inr (map_option (\<lambda>x. x / y) a)
   | None \<Rightarrow> Inr None)"

text \<open>\<open>max(0.0, x)\<close> and \<open>min(a, b)\<close>: a comparison with NaN is false, so the first argument stays.\<close>

definition num_max0 :: "num_cell \<Rightarrow> num_cell" where
  "num_max0 x = (case x of Some v \<Rightarrow> Some (max 0 v) | None \<Rightarrow> Some 0)"

definition num_min :: "num_cell \<Rightarrow> num_cell \<Rightarrow> num_cell" where
  "num_min a b = (case (a, b) of (Some x, Some y) \<Rightarrow> Some (min x y) | _ \<Rightarrow> a)"

definition num_sum :: "num_cell list \<Rightarrow> num_cell" where
  "num_sum xs = foldl num_add (Some 0) xs"

definition show_num :: "nat \<Rightarrow> num_cell \<Rightarrow> string" where
  "show_num k x = (case x of Some v \<Rightarrow> fixed_point k v | None \<Rightarrow> ''nan'')"

section \<open>The median run\<close>

text \<open>\<open>sort_values\<close>: NaN last.\<close>

definition sort_rows :: "string \<Rightarrow> brow list \<Rightarrow> brow list" where
  "sort_rows wall g = sort_key (\<lambda>r. the (br_cell r wall)) (filter (\<lambda>r. br_cell r wall \<noteq> None) g) @ filter (\<lambda>r. br_cell r wall = None) g"

definition median_run :: "string list \<Rightarrow> brow list \<Rightarrow> string \<Rightarrow> brow res" where
  "median_run cols g wall =
     (if wall \<notin> set cols then Inl (KeyErr wall)
      else if g = [] then Inl IndexErr
      else Inr (sort_rows wall g ! ((length g - 1) div 2)))"

section \<open>The parts of a bar\<close>

type_synonym split = "num_cell list \<times> num_cell \<times> num_cell \<times> num_cell"

text \<open>\<open>active * x / whole\<close>.\<close>

definition share_of :: "num_cell \<Rightarrow> num_cell \<Rightarrow> num_cell \<Rightarrow> num_cell res" where
  "share_of active x whole = num_div (num_mul active x) whole"

definition shares :: "num_cell \<Rightarrow> num_cell \<Rightarrow> num_cell \<Rightarrow> num_cell \<Rightarrow> num_cell list res" where
  "shares active s3 wire whole =
     (let stack = num_max0 (num_sub (num_sub whole s3) wire) in
      res_bind (share_of active s3 whole) (\<lambda>a. res_bind (share_of active wire whole) (\<lambda>b. res_bind (share_of active stack whole) (\<lambda>c.
      Inr [a, b, c]))))"

definition miniosv_split :: "string list \<Rightarrow> brow list \<Rightarrow> split res" where
  "miniosv_split cols g =
     res_bind (median_run cols g ''query_ms'') (\<lambda>m.
     res_bind (cell_at cols m ''net_ms'') (\<lambda>net. res_bind (cell_at cols m ''net_calls'') (\<lambda>calls. res_bind (num_div net calls) (\<lambda>per_call.
     res_bind (cell_at cols m ''ttfb_us_avg'') (\<lambda>ttfb. res_bind (cell_at cols m ''xfer_us_avg'') (\<lambda>xfer.
     let s3 = map_option (\<lambda>x. x / 1000) ttfb; wire = map_option (\<lambda>x. x / 1000) xfer in
     res_bind (cell_at cols m ''net_active_ms'') (\<lambda>active.
     res_bind (shares active s3 wire per_call) (\<lambda>ps. res_bind (cell_at cols m ''query_ms'') (\<lambda>wall.
     Inr (ps @ [Some 0, num_max0 (num_sub wall active)], s3, wire, per_call))))))))))"

text \<open>The span with a request outstanding, on the clock of the clean pass.\<close>

definition linux_active :: "string list \<Rightarrow> brow \<Rightarrow> num_cell \<Rightarrow> num_cell res" where
  "linux_active cols m wall =
     res_bind (if cell_get cols m ''http_active_ms'' \<noteq> None then Inr (cell_get cols m ''http_active_ms'') else cell_at cols m ''http_window_ms'') (\<lambda>active.
     res_bind (if cell_truthy cols m ''http_profile_ms'' then num_div wall (cell_get cols m ''http_profile_ms'') else Inr (Some 1)) (\<lambda>scale.
     Inr (num_min (num_mul active scale) wall)))"

text \<open>The parts, a request's life, and its turnaround and body where they were measured.\<close>

definition linux_split :: "string list \<Rightarrow> brow list \<Rightarrow> (num_cell list \<times> num_cell \<times> (num_cell \<times> num_cell) option) res" where
  "linux_split cols g =
     res_bind (median_run cols g ''query_ms'') (\<lambda>m.
     res_bind (cell_at cols m ''http_ms_sum'') (\<lambda>total. res_bind (cell_at cols m ''http_n'') (\<lambda>n. res_bind (num_div total n) (\<lambda>per_req.
     res_bind (cell_at cols m ''query_ms'') (\<lambda>wall.
     res_bind (linux_active cols m wall) (\<lambda>active.
     let idle = num_max0 (num_sub wall active); s3 = cell_get cols m ''np_ttfb_ms_avg'' in
     if s3 \<noteq> None
     then res_bind (cell_at cols m ''np_body_ms_avg'') (\<lambda>wire. res_bind (shares active s3 wire per_req) (\<lambda>ps.
       Inr (ps @ [Some 0, idle], per_req, Some (s3, wire))))
     else Inr ([Some 0, Some 0, Some 0, active, idle], per_req, None)))))))"

section \<open>The bars\<close>

record bar =
  ba_x :: int
  ba_label :: string
  ba_parts :: "num_cell list"
  ba_note :: string

text \<open>\<open>100 * parts[2] / sum(parts)\<close>.\<close>

definition stack_pct :: "num_cell list \<Rightarrow> num_cell res" where
  "stack_pct ps = num_div (num_mul (Some 100) (ps ! 2)) (num_sum ps)"

definition split_note :: "num_cell \<Rightarrow> num_cell list \<Rightarrow> string res" where
  "split_note life ps = res_bind (stack_pct ps) (\<lambda>pct. Inr (show_num 0 life @ '' ms/req, '' @ show_num 1 pct @ ''% stack''))"

definition query_name :: "int \<Rightarrow> string" where
  "query_name q = ''Q'' @ pad 2 q"

definition of_query :: "frame \<Rightarrow> int \<Rightarrow> brow list" where
  "of_query d q = filter (\<lambda>r. br_query r = q) (fr_rows d)"

definition linux_bar :: "frame \<Rightarrow> int \<Rightarrow> int \<Rightarrow> string \<Rightarrow> (bar list \<times> string) res" where
  "linux_bar lx i q line =
     (let lq = of_query lx q in
      if lq = [] then Inr ([], line)
      else res_bind (linux_split (fr_cols lx) lq) (\<lambda>(ps, life, measured). case measured of
        Some (s3, wire) \<Rightarrow> res_bind (split_note life ps) (\<lambda>note.
          Inr ([\<lparr>ba_x = i * 3 + 1, ba_label = query_name q @ [nl] @ ''Linux'', ba_parts = ps, ba_note = note\<rparr>],
            line @ '', '' @ show_num 1 life @ '' ms on Linux (turnaround '' @ show_num 1 s3 @ '', body '' @ show_num 1 wire @ '')''))
      | None \<Rightarrow>
          Inr ([\<lparr>ba_x = i * 3 + 1, ba_label = query_name q @ [nl] @ ''Linux'', ba_parts = ps, ba_note = show_num 0 life @ '' ms/req''\<rparr>],
            line @ '', '' @ show_num 1 life @ '' ms on Linux (no split)'')))"

text \<open>The bars of one query and what is printed of it.\<close>

definition query_bars :: "frame \<Rightarrow> frame option \<Rightarrow> int \<Rightarrow> int \<Rightarrow> (bar list \<times> string list) res" where
  "query_bars d lx i q =
     res_bind (miniosv_split (fr_cols d) (of_query d q)) (\<lambda>(ps, s3, wire, life).
     res_bind (split_note life ps) (\<lambda>note. case lx of
       None \<Rightarrow> Inr ([\<lparr>ba_x = i, ba_label = query_name q, ba_parts = ps, ba_note = note\<rparr>], [])
     | Some l \<Rightarrow>
         res_bind (linux_bar l i q (query_name q @ '': a request lives '' @ show_num 1 life @ '' ms on miniOSv (turnaround '' @ show_num 1 s3
           @ '', body '' @ show_num 1 wire @ '')'')) (\<lambda>(bs, line).
         Inr (\<lparr>ba_x = i * 3, ba_label = query_name q @ [nl] @ ''miniOSv'', ba_parts = ps, ba_note = note\<rparr> # bs, [line]))))"

fun bars_of :: "frame \<Rightarrow> frame option \<Rightarrow> int \<Rightarrow> int list \<Rightarrow> (bar list \<times> string list) res" where
  "bars_of d lx i [] = Inr ([], [])"
| "bars_of d lx i (q # qs) =
     res_bind (query_bars d lx i q) (\<lambda>(bs, ls). res_bind (bars_of d lx (i + 1) qs) (\<lambda>(bs', ls'). Inr (bs @ bs', ls @ ls')))"

text \<open>\<open>--threads\<close> keeps one thread count where the CSV has the column; zero is no choice.\<close>

definition keep_threads :: "int option \<Rightarrow> frame \<Rightarrow> frame" where
  "keep_threads n d = (case n of
     Some k \<Rightarrow> if k \<noteq> 0 \<and> ''threads'' \<in> set (fr_cols d) then d\<lparr>fr_rows := filter (\<lambda>r. br_cell r ''threads'' = Some (of_int k)) (fr_rows d)\<rparr> else d
   | None \<Rightarrow> d)"

definition logged_rows :: "frame \<Rightarrow> frame res" where
  "logged_rows d = (if ''http_n'' \<in> set (fr_cols d) then Inr (d\<lparr>fr_rows := filter (\<lambda>r. br_cell r ''http_n'' \<noteq> None) (fr_rows d)\<rparr>) else Inl (KeyErr ''http_n''))"

definition in_seconds :: "bar \<Rightarrow> bar" where
  "in_seconds b = b\<lparr>ba_parts := map (map_option (\<lambda>v. v / 1000)) (ba_parts b)\<rparr>"

definition breakdown_bars :: "frame \<Rightarrow> frame option \<Rightarrow> int option \<Rightarrow> (bar list \<times> string list) res" where
  "breakdown_bars d0 lx0 n =
     (let d = keep_threads n d0 in
      res_bind (case lx0 of None \<Rightarrow> Inr None | Some l \<Rightarrow> res_bind (logged_rows (keep_threads n l)) (\<lambda>l'. Inr (Some l'))) (\<lambda>lx.
      res_bind (bars_of d lx 0 (sort (remdups (map br_query (fr_rows d))))) (\<lambda>(bs, ls). Inr (map in_seconds bs, ls))))"

section \<open>The bands\<close>

definition band_names :: "(string \<times> bool) list" where
  "band_names = [(''S3 turnaround'', False), (''body on the wire'', False), (''network stack + HTTP client'', False),
     (''request life, split not measured'', True), (''DuckDB, nothing outstanding'', False)]"

text \<open>
  A band: where each of its pieces stands, where it begins and how high it is. The striped band is drawn last, of
  its positive pieces only.
\<close>

type_synonym band = "(int \<times> num_cell \<times> num_cell) list"

fun stack_bands :: "bar list \<Rightarrow> nat \<Rightarrow> (string \<times> bool) list \<Rightarrow> num_cell list \<Rightarrow> band list \<times> num_cell list" where
  "stack_bands bs k [] bottom = ([], bottom)"
| "stack_bands bs k ((name, striped) # names) bottom =
     (let vals = map (\<lambda>b. ba_parts b ! k) bs; here = zip (map ba_x bs) (zip bottom vals) in
      case stack_bands bs (Suc k) names (map2 num_add bottom vals) of (bands, tops) \<Rightarrow>
      ((if striped then filter (\<lambda>(x, b, v). case v of Some y \<Rightarrow> 0 < y | None \<Rightarrow> False) here else here) # bands, tops))"

definition draw :: "bar list \<Rightarrow> band list \<times> num_cell list" where
  "draw bs = stack_bands bs 0 band_names (replicate (length bs) (Some 0))"

section \<open>A bar is as high as the wall time\<close>

lemma num_simps [simp]:
  "num_add (Some x) (Some y) = Some (x + y)" "num_sub (Some x) (Some y) = Some (x - y)" "num_mul (Some x) (Some y) = Some (x * y)"
  "num_max0 (Some x) = Some (max 0 x)" "y \<noteq> 0 \<Longrightarrow> num_div (Some x) (Some y) = Inr (Some (x / y))"
  by (simp_all add: num_add_def num_sub_def num_mul_def num_max0_def num_div_def)

lemma shares_fill:
  assumes "0 < life" "s + w \<le> life"
  shows "\<exists>x y z. shares (Some a) (Some s) (Some w) (Some life) = Inr [Some x, Some y, Some z] \<and> x + y + z = a"
proof -
  have "shares (Some a) (Some s) (Some w) (Some life) = Inr [Some (a * s / life), Some (a * w / life), Some (a * (life - s - w) / life)]"
    using assms by (simp add: shares_def share_of_def)
  moreover have "a * s / life + a * w / life + a * (life - s - w) / life = a"
    using assms(1) by (simp add: add_divide_distrib [symmetric] diff_divide_distrib [symmetric] algebra_simps)
  ultimately show ?thesis by blast
qed

lemma map2_replicate: "map2 f (replicate (length bs) x) bs = map (f x) bs"
  by (induction bs) auto

lemma map2_step:
  "length xs = length bs \<Longrightarrow> map2 g (map2 num_add xs (map h bs)) bs = map2 (\<lambda>x b. g (num_add x (h b)) b) xs bs"
  by (induction xs bs rule: list_induct2) auto

text \<open>The cells of a bar from the \<open>k\<close>th on, added to what is below them.\<close>

definition piled :: "nat \<Rightarrow> nat \<Rightarrow> num_cell \<Rightarrow> bar \<Rightarrow> num_cell" where
  "piled k n x b = foldl num_add x (map (\<lambda>i. ba_parts b ! i) [k..<k + n])"

lemma piled_Suc: "piled k (Suc n) x b = piled (Suc k) n (num_add x (ba_parts b ! k)) b"
  by (simp add: piled_def upt_conv_Cons del: upt_Suc)

lemma stack_tops: "length bottom = length bs \<Longrightarrow> snd (stack_bands bs k names bottom) = map2 (piled k (length names)) bottom bs"
proof (induction names arbitrary: k bottom)
  case Nil
  then show ?case by (induction bottom bs rule: list_induct2) (auto simp: piled_def)
next
  case (Cons ns names)
  obtain name striped where ns: "ns = (name, striped)" by (cases ns)
  let ?b = "map2 num_add bottom (map (\<lambda>b. ba_parts b ! k) bs)"
  have "snd (stack_bands bs k (ns # names) bottom) = snd (stack_bands bs (Suc k) names ?b)" by (simp add: ns Let_def case_prod_beta)
  also have "\<dots> = map2 (piled (Suc k) (length names)) ?b bs" using Cons.prems by (intro Cons.IH) simp
  also have "\<dots> = map2 (piled k (length (ns # names))) bottom bs" unfolding map2_step [OF Cons.prems] by (simp add: piled_Suc)
  finally show ?case .
qed

lemma draw_tops:
  assumes "\<And>b. b \<in> set bs \<Longrightarrow> length (ba_parts b) = 5"
  shows "snd (draw bs) = map (\<lambda>b. num_sum (ba_parts b)) bs"
proof -
  have bands: "length band_names = 5" by (simp add: band_names_def)
  have "piled 0 5 (Some 0) b = num_sum (ba_parts b)" if "b \<in> set bs" for b
    unfolding piled_def num_sum_def using map_nth [of "ba_parts b"] assms [OF that] by (simp only: add_0)
  then show ?thesis unfolding draw_def by (simp only: stack_tops length_replicate bands map2_replicate cong: map_cong)
qed

text \<open>The outstanding span of the Linux arm is never longer than the clean pass.\<close>

lemma linux_active_capped: "linux_active cols m (Some wall) = Inr (Some a) \<Longrightarrow> a \<le> wall"
  unfolding linux_active_def by (auto simp: res_bind_Inr num_min_def split: option.splits if_splits prod.splits)

text \<open>
  C37. A bar is as high as the wall time. Let the wall time of the median run of a query and its outstanding span
  be numbers. The parts of the miniOSv bar, where a request lives for a positive time and at least as long as
  its turnaround and body, add up to the wall time, or to the time requests were outstanding where that was
  reported longer. Those of a Linux bar add up to the wall time of the clean pass, \<open>query_ms\<close>: without a split
  always, with one where turnaround and body are numbers and a request lives for a positive time and at least
  as long as both. The head of the file calls a Linux bar the logged pass's own wall time; the code, and the
  comment on \<open>linux\<close>, take the clean pass's. And the top of each bar drawn is the sum of its five parts.
\<close>

theorem bars_fill_wall:
  assumes "median_run cols g ''query_ms'' = Inr m" "br_cell m ''query_ms'' = Some wall"
  shows "(miniosv_split cols g = Inr (ps, Some s, Some w, Some life) \<and> br_cell m ''net_active_ms'' = Some a \<and>
      0 < life \<and> s + w \<le> life \<longrightarrow> num_sum ps = Some (max wall a)) \<and>
    (linux_split cols g = Inr (ps, l, None) \<and> linux_active cols m (Some wall) = Inr (Some a) \<longrightarrow> num_sum ps = Some wall) \<and>
    (linux_split cols g = Inr (ps, Some life, Some (Some s, Some w)) \<and> linux_active cols m (Some wall) = Inr (Some a) \<and>
      0 < life \<and> s + w \<le> life \<longrightarrow> num_sum ps = Some wall) \<and>
    ((\<forall>b \<in> set bs. length (ba_parts b) = 5) \<longrightarrow> snd (draw bs) = map (\<lambda>b. num_sum (ba_parts b)) bs)"
proof (intro conjI impI)
  assume r: "miniosv_split cols g = Inr (ps, Some s, Some w, Some life) \<and> br_cell m ''net_active_ms'' = Some a \<and> 0 < life \<and> s + w \<le> life"
  then obtain x y z where "shares (Some a) (Some s) (Some w) (Some life) = Inr [Some x, Some y, Some z]" "x + y + z = a"
    using shares_fill by blast
  moreover from r have "\<exists>qs. shares (Some a) (Some s) (Some w) (Some life) = Inr qs \<and> ps = qs @ [Some 0, num_max0 (num_sub (Some wall) (Some a))]"
    using assms unfolding miniosv_split_def by (auto simp: res_bind_Inr cell_at_def Let_def split: if_splits)
  ultimately show "num_sum ps = Some (max wall a)" by (auto simp: num_sum_def max_def)
next
  assume r: "linux_split cols g = Inr (ps, l, None) \<and> linux_active cols m (Some wall) = Inr (Some a)"
  then have "ps = [Some 0, Some 0, Some 0, Some a, num_max0 (num_sub (Some wall) (Some a))]"
    using assms unfolding linux_split_def by (auto simp: res_bind_Inr cell_at_def Let_def split: if_splits)
  with linux_active_capped r show "num_sum ps = Some wall" by (auto simp: num_sum_def)
next
  assume r: "linux_split cols g = Inr (ps, Some life, Some (Some s, Some w)) \<and> linux_active cols m (Some wall) = Inr (Some a) \<and>
      0 < life \<and> s + w \<le> life"
  then have "\<exists>qs. shares (Some a) (Some s) (Some w) (Some life) = Inr qs \<and> ps = qs @ [Some 0, num_max0 (num_sub (Some wall) (Some a))]"
    using assms unfolding linux_split_def by (auto simp: res_bind_Inr cell_at_def cell_get_def Let_def split: if_splits)
  with shares_fill [of life s w a] r linux_active_capped show "num_sum ps = Some wall" by (auto simp: num_sum_def)
next
  assume "\<forall>b \<in> set bs. length (ba_parts b) = 5"
  then show "snd (draw bs) = map (\<lambda>b. num_sum (ba_parts b)) bs" by (intro draw_tops) auto
qed

definition row0 :: brow where
  "row0 = \<lparr>br_query = 6, br_cell = map_of [(''query_ms'', 100), (''net_ms'', 100), (''net_calls'', 10), (''ttfb_us_avg'', 4000), (''xfer_us_avg'', 5000),
     (''net_active_ms'', 90)]\<rparr>"

definition cols0 :: "string list" where
  "cols0 = [''query_ms'', ''net_ms'', ''net_calls'', ''ttfb_us_avg'', ''xfer_us_avg'', ''net_active_ms'']"

text \<open>The same query on Linux, without the shim, logged at a pass twice as slow.\<close>

definition row1 :: brow where
  "row1 = \<lparr>br_query = 6, br_cell = map_of [(''query_ms'', 100), (''http_ms_sum'', 300), (''http_n'', 10), (''http_active_ms'', 160),
     (''http_profile_ms'', 200)]\<rparr>"

definition cols1 :: "string list" where
  "cols1 = [''query_ms'', ''http_ms_sum'', ''http_n'', ''http_active_ms'', ''http_profile_ms'']"

lemma row1_split:
  "median_run cols1 [row1] ''query_ms'' = Inr row1" "linux_active cols1 row1 (Some 100) = Inr (Some 80)"
  "\<exists>ps. linux_split cols1 [row1] = Inr (ps, Some 30, None)"
proof -
  show m: "median_run cols1 [row1] ''query_ms'' = Inr row1" by (simp add: median_run_def cols1_def sort_rows_def row1_def)
  show a: "linux_active cols1 row1 (Some 100) = Inr (Some 80)"
    by (simp add: linux_active_def cell_get_def cell_truthy_def cols1_def row1_def num_min_def)
  show "\<exists>ps. linux_split cols1 [row1] = Inr (ps, Some 30, None)"
    by (simp add: linux_split_def m cell_at_def)
      (simp add: cell_get_def cell_truthy_def cols1_def row1_def linux_active_def num_min_def)
qed

lemma row0_split:
  "median_run cols0 [row0] ''query_ms'' = Inr row0"
  "\<exists>ps. miniosv_split cols0 [row0] = Inr (ps, Some 4, Some 5, Some 10) \<and> length ps = 5"
proof -
  show m: "median_run cols0 [row0] ''query_ms'' = Inr row0" by (simp add: median_run_def cols0_def sort_rows_def row0_def)
  show "\<exists>ps. miniosv_split cols0 [row0] = Inr (ps, Some 4, Some 5, Some 10) \<and> length ps = 5"
    by (simp add: miniosv_split_def m) (simp add: cell_at_def cols0_def row0_def shares_def share_of_def)
qed

lemma bars_fill_wall_witness:
  "(\<exists>ps. miniosv_split cols0 [row0] = Inr (ps, Some 4, Some 5, Some 10) \<and> num_sum ps = Some 100 \<and>
    snd (draw [\<lparr>ba_x = 0, ba_label = [], ba_parts = ps, ba_note = []\<rparr>]) = [Some 100]) \<and>
   (\<exists>ps. linux_split cols1 [row1] = Inr (ps, Some 30, None) \<and> num_sum ps = Some 100)"
proof
  obtain ps where ps: "miniosv_split cols0 [row0] = Inr (ps, Some 4, Some 5, Some 10)" "length ps = 5" using row0_split(2) by blast
  have "br_cell row0 ''query_ms'' = Some 100" "br_cell row0 ''net_active_ms'' = Some 90" by (simp_all add: row0_def)
  from bars_fill_wall [OF row0_split(1) this(1), of ps 4 5 10 90 None "[\<lparr>ba_x = 0, ba_label = [], ba_parts = ps, ba_note = []\<rparr>]"] this(2) ps
  show "\<exists>ps. miniosv_split cols0 [row0] = Inr (ps, Some 4, Some 5, Some 10) \<and> num_sum ps = Some 100 \<and>
    snd (draw [\<lparr>ba_x = 0, ba_label = [], ba_parts = ps, ba_note = []\<rparr>]) = [Some 100]" by simp
  obtain qs where qs: "linux_split cols1 [row1] = Inr (qs, Some 30, None)" using row1_split(3) by blast
  have "br_cell row1 ''query_ms'' = Some 100" by (simp add: row1_def)
  from bars_fill_wall [OF row1_split(1) this, of qs 0 0 1 80 "Some 30" "[]"] qs row1_split(2)
  show "\<exists>ps. linux_split cols1 [row1] = Inr (ps, Some 30, None) \<and> num_sum ps = Some 100" by simp
qed

end
