(* ===== verification/Plot.thy ===== *)
theory Plot
  imports PmcPrep Breakdown
begin

text \<open>
  \<^verbatim>\<open>scripts/bench/plot.py\<close>, what is not drawing: which points a figure has and in which order, what is drawn where,
  what is written beside it. Tables are those of theory \<open>PmcPrep\<close>; a column holds numbers or texts, not both, and
  the axis value of a run is never missing. Colours and fonts are left out.
\<close>

section \<open>Values\<close>

definition float_res :: "pyval \<Rightarrow> rat res" where
  "float_res v = (case v of PStr s \<Rightarrow> py_float s | PNone \<Rightarrow> Inl TypeErr | _ \<Rightarrow> of_option TypeErr (as_num v))"

definition numeric :: "pyval \<Rightarrow> bool" where
  "numeric v = (case float_res v of Inl _ \<Rightarrow> False | Inr _ \<Rightarrow> True)"

text \<open>\<open>rank\<close>: machines by size, numbers by value, the rest by first appearance.\<close>

definition rank_size :: "string \<Rightarrow> rat res" where
  "rank_size s = (let size = last (split_on CHR ''.'' s) in
     if size = ''large'' then Inr 1 else if size = ''xlarge'' then Inr 2
     else res_bind (py_float (remove_suffix ''xlarge'' size)) (\<lambda>x. Inr (x * 2)))"

definition rank_of :: "string \<Rightarrow> (pyval \<times> nat) list \<Rightarrow> pyval \<Rightarrow> rat res" where
  "rank_of axis order v =
     (if axis = ''instance'' then rank_size (py_str v)
      else case float_res v of
        Inr x \<Rightarrow> Inr x
      | Inl _ \<Rightarrow> if order = [] then Inr 0 else res_bind (of_option (KeyErr (py_str v)) (map_of order v)) (\<lambda>i. Inr (of_nat i)))"

text \<open>\<open>f'{x:g}'\<close>: six significant digits, no zeros at the end, an exponent when it is below -4 or above 5.\<close>

fun decade_up :: "nat \<Rightarrow> rat \<Rightarrow> int" where
  "decade_up 0 x = 0"
| "decade_up (Suc n) x = (if x < 10 then 0 else 1 + decade_up n (x / 10))"

fun decade_down :: "nat \<Rightarrow> rat \<Rightarrow> int" where
  "decade_down 0 x = 0"
| "decade_down (Suc n) x = (if 1 \<le> x then 0 else decade_down n (x * 10) - 1)"

definition decade_fuel :: nat where
  "decade_fuel = 330"

definition trim_zeros :: "string \<Rightarrow> string" where
  "trim_zeros s = (if CHR ''.'' \<in> set s
     then (let t = rev (dropWhile (\<lambda>c. c = CHR ''0'') (rev s)) in if last t = CHR ''.'' then butlast t else t) else s)"

definition show_g :: "rat \<Rightarrow> string" where
  "show_g x =
     (if x = 0 then ''0''
      else let a = \<bar>x\<bar>; e0 = (if 1 \<le> a then decade_up decade_fuel a else decade_down decade_fuel a);
               m = round_even (a * 10 powi (5 - e0)); e = (if m = 10 ^ 6 then e0 + 1 else e0);
               sg = (if x < 0 then ''-'' else [])
           in if -4 \<le> e \<and> e \<le> 5 then sg @ trim_zeros (fixed_point (nat (5 - e)) a)
              else sg @ trim_zeros (fixed_point 5 (a / 10 powi e)) @ ''e'' @ (if e < 0 then ''-'' else ''+'') @ pad 2 \<bar>e\<bar>)"

definition int_res :: "pyval \<Rightarrow> int res" where
  "int_res v = (case v of PStr s \<Rightarrow> py_int s | PNone \<Rightarrow> Inl (ValueErr ''NaN'')
     | _ \<Rightarrow> res_bind (of_option TypeErr (as_num v)) (\<lambda>x. Inr (if 0 \<le> x then \<lfloor>x\<rfloor> else \<lceil>x\<rceil>)))"

definition tick_text :: "string \<Rightarrow> pyval \<Rightarrow> bool \<Rightarrow> string res" where
  "tick_text axis v of_plot =
     (let s = py_str v in
      if axis = ''instance'' then Inr (if of_plot \<and> CHR ''.'' \<in> set s then snd (parted CHR ''.'' s) else s)
      else if axis = ''block'' then res_bind (int_res v) (\<lambda>i. Inr (show_int (i div 2 ^ 20) @ ''M''))
      else Inr (case float_res v of Inr x \<Rightarrow> show_g x | Inl _ \<Rightarrow> s))"

definition knob_labels :: "string dict" where
  "knob_labels = [(''conns'', ''Concurrent connections per worker''), (''workers'', ''Worker threads (RSS queues)''),
     (''block'', ''Block size per request''), (''instance'', ''EC2 instance size'')]"

definition label_of :: "string \<Rightarrow> string" where
  "label_of k = (case map_of knob_labels k of Some l \<Rightarrow> l | None \<Rightarrow> k)"

text \<open>EC2's sustained allowance in Gbps.\<close>

definition allowances :: "rat dict" where
  "allowances = [(''c6in.large'', 3125 / 1000), (''c6in.xlarge'', 625 / 100), (''c6in.2xlarge'', 125 / 10), (''c6in.4xlarge'', 25),
     (''c6in.8xlarge'', 50), (''c6in.16xlarge'', 100), (''c7i.8xlarge'', 125 / 10), (''c7i.large'', 125 / 10)]"

definition allowance :: "pyval \<Rightarrow> rat option" where
  "allowance v = (case v of PStr s \<Rightarrow> map_of allowances s | _ \<Rightarrow> None)"

section \<open>One point for a series and an axis value\<close>

text \<open>A point of the figure; the spread is the square of the standard deviation.\<close>

record point =
  st_series :: pyval
  st_at :: pyval
  st_mean :: num_cell
  st_lo :: num_cell
  st_hi :: num_cell
  st_n :: nat
  st_var :: rat

text \<open>\<open>dict.fromkeys\<close>: each value where it first appears.\<close>

definition first_seen :: "'a list \<Rightarrow> 'a list" where
  "first_seen xs = foldl (\<lambda>acc x. if x \<in> set acc then acc else acc @ [x]) [] xs"

definition cell_le :: "pyval \<Rightarrow> pyval \<Rightarrow> bool" where
  "cell_le a b = (case (as_num a, as_num b) of (Some x, Some y) \<Rightarrow> x \<le> y | _ \<Rightarrow> py_str a \<le> py_str b)"

fun insert_cell :: "pyval \<Rightarrow> pyval list \<Rightarrow> pyval list" where
  "insert_cell v [] = [v]"
| "insert_cell v (u # us) = (if cell_le v u then v # u # us else u # insert_cell v us)"

text \<open>The keys of a \<open>groupby\<close>: sorted, without the missing one.\<close>

definition group_keys :: "string \<Rightarrow> pyval dict list \<Rightarrow> pyval list" where
  "group_keys k rows = foldr insert_cell (filter (\<lambda>v. v \<noteq> PNone) (first_seen (map (\<lambda>r. dict_get r k) rows))) []"

definition run_valid :: "pyval dict \<Rightarrow> bool" where
  "run_valid r = truthy (dict_get r ''valid'')"

definition mean_of :: "rat list \<Rightarrow> rat" where
  "mean_of xs = sum_list xs / of_nat (length xs)"

definition point_of :: "pyval \<Rightarrow> pyval \<Rightarrow> rat list \<Rightarrow> point" where
  "point_of ser v xs = \<lparr>st_series = ser, st_at = v,
     st_mean = (if xs = [] then None else Some (mean_of xs)), st_lo = (if xs = [] then None else Some (Min (set xs))),
     st_hi = (if xs = [] then None else Some (Max (set xs))), st_n = length xs,
     st_var = (if xs = [] then 0 else mean_of (map (\<lambda>x. (x - mean_of xs)\<^sup>2) xs))\<rparr>"

definition figures :: "string \<Rightarrow> pyval dict list \<Rightarrow> rat list res" where
  "figures k rows = res_bind (res_list (\<lambda>r. figure_of (dict_get r k)) rows) (\<lambda>xs. Inr (List.map_filter id xs))"

text \<open>The groups: a series, an axis value, the runs that have both; a group without a run is none.\<close>

definition point_groups :: "string option \<Rightarrow> pyval dict list \<Rightarrow> (pyval \<times> pyval \<times> pyval dict list) list" where
  "point_groups ser rows =
     (let ats = group_keys ''axis_value'' rows;
          keys = (case ser of None \<Rightarrow> map (\<lambda>v. (PNone, v)) ats
                  | Some k \<Rightarrow> concat (map (\<lambda>s. map (\<lambda>v. (s, v)) ats) (group_keys k rows)));
          member = (\<lambda>(s, v) r. (case ser of None \<Rightarrow> True | Some k \<Rightarrow> dict_get r k = s) \<and> dict_get r ''axis_value'' = v)
      in filter (\<lambda>(_, _, g). g \<noteq> []) (map (\<lambda>(s, v). (s, v, filter (member (s, v)) rows)) keys))"

definition order_of :: "pyval dict list \<Rightarrow> (pyval \<times> nat) list" where
  "order_of rows = (let vs = first_seen (map (\<lambda>r. dict_get r ''axis_value'') rows) in zip vs [0..<length vs])"

text \<open>Sorted by rank, what has the same rank as it came.\<close>

definition by_rank :: "string \<Rightarrow> (pyval \<times> nat) list \<Rightarrow> ('a \<Rightarrow> pyval) \<Rightarrow> 'a list \<Rightarrow> 'a list res" where
  "by_rank axis order f xs = res_bind (res_list (\<lambda>x. res_bind (rank_of axis order (f x)) (\<lambda>k. Inr (k, x))) xs) (\<lambda>kxs. Inr (map snd (sort_key fst kxs)))"

definition axis_of :: "pyval dict list \<Rightarrow> string" where
  "axis_of rows = py_str (dict_get (hd rows) ''axis'')"

definition summarise :: "string option \<Rightarrow> string \<Rightarrow> pyval dict list \<Rightarrow> point list res" where
  "summarise ser val_col rows =
     res_bind (res_list (\<lambda>(s, v, g). res_bind (figures val_col g) (\<lambda>xs. Inr (point_of s v xs))) (point_groups ser (filter run_valid rows))) (\<lambda>ps.
     by_rank (axis_of rows) (order_of rows) st_at ps)"

section \<open>What is drawn\<close>

record plot_args =
  pa_series :: "string option"
  pa_title :: "string option"
  pa_value :: string
  pa_ylabel :: string
  pa_unit :: string
  pa_bar :: bool
  pa_log :: bool
  pa_box :: bool
  pa_x :: "string option"
  pa_facet :: "string option"
  pa_hline :: "rat option"
  pa_hline_label :: "string option"
  pa_whiskers :: bool
  pa_xlabel :: "string option"
  pa_subtitle :: bool
  pa_peak :: bool

text \<open>How far a mark reaches beside its mean: below and above, or a deviation, by its square.\<close>

datatype reach = Range num_cell num_cell | Deviation rat

text \<open>
  The marks of a panel: the allowance of each tick or of the one machine; the bars, boxes and curves of a series, with
  the slot of its colour, that of its shape and its name; the figures above bars; crosses; the peak; a line asked for.
\<close>

datatype mark =
    AllowanceLine "rat option list"
  | AllowanceRule string rat
  | Bars nat nat pyval "(num_cell \<times> num_cell \<times> reach) list"
  | BarText "(num_cell \<times> string) list"
  | Boxes nat pyval "(rat \<times> rat list) list"
  | Curve nat nat pyval "(num_cell \<times> num_cell \<times> reach) list"
  | Crosses "(num_cell \<times> num_cell) list"
  | Peak string num_cell num_cell
  | Rule rat "string option"

record panel =
  pn_marks :: "mark list"
  pn_ticks :: "(num_cell \<times> string) list"
  pn_limit :: "rat option"
  pn_title :: "string option"
  pn_xlabel :: string
  pn_note :: "string option"

definition n_hue :: nat where
  "n_hue = 5"

definition hue_slot :: "nat \<Rightarrow> nat" where
  "hue_slot i = i mod n_hue"

definition shape_slot :: "nat \<Rightarrow> nat" where
  "shape_slot i = (i + i div n_hue) mod n_hue"

text \<open>The width of a bar or box of \<open>n\<close> series, and how far the \<open>i\<close>th stands from its tick.\<close>

definition bar_width :: "nat \<Rightarrow> rat" where
  "bar_width n = 8 / 10 / of_nat n"

definition dodge :: "nat \<Rightarrow> nat \<Rightarrow> rat" where
  "dodge n i = (of_nat i - (of_nat n - 1) / 2) * bar_width n"

text \<open>The ticks in order; whether they stand evenly instead of at their value; where a value stands.\<close>

definition tick_order :: "string \<Rightarrow> pyval dict list \<Rightarrow> point list \<Rightarrow> pyval list res" where
  "tick_order axis rows ps = by_rank axis (order_of rows) id (first_seen (map st_at ps))"

definition is_named :: "plot_args \<Rightarrow> string \<Rightarrow> pyval list \<Rightarrow> bool" where
  "is_named a axis order \<longleftrightarrow> pa_x a \<noteq> None \<and> the (pa_x a) \<noteq> [] \<or> pa_bar a \<or> pa_box a \<or> axis = ''instance'' \<or> \<not> list_all numeric order"

definition tick_at :: "pyval list \<Rightarrow> pyval \<Rightarrow> num_cell" where
  "tick_at order v = map_option of_nat (map_of (zip order [0..<length order]) v)"

definition x_of :: "bool \<Rightarrow> pyval list \<Rightarrow> pyval \<Rightarrow> num_cell" where
  "x_of named order v = (if named then tick_at order v else (case float_res v of Inr x \<Rightarrow> Some x | Inl _ \<Rightarrow> None))"

definition series_groups :: "string option \<Rightarrow> point list \<Rightarrow> (pyval \<times> point list) list" where
  "series_groups ser ps = (case ser of None \<Rightarrow> [(PNone, ps)]
     | Some _ \<Rightarrow> map (\<lambda>s. (s, filter (\<lambda>p. st_series p = s) ps)) (foldr insert_cell (first_seen (map st_series ps)) []))"

definition ceiling_of :: "plot_args \<Rightarrow> bool \<Rightarrow> pyval list \<Rightarrow> string \<Rightarrow> rat option \<times> mark list" where
  "ceiling_of a named order inst =
     (if pa_value a \<noteq> ''gbps'' then (None, [])
      else if named
      then (let cs = map allowance order; xs = List.map_filter id cs in
            if xs = [] then (None, []) else (Some (Max (set xs)), [AllowanceLine cs]))
      else case allowance (PStr inst) of None \<Rightarrow> (None, []) | Some c \<Rightarrow> (Some c, [AllowanceRule inst c]))"

definition box_marks :: "plot_args \<Rightarrow> pyval dict list \<Rightarrow> pyval list \<Rightarrow> (pyval \<times> point list) list \<Rightarrow> mark list res" where
  "box_marks a rows order gs =
     (if gs = [] then Inl (OtherExn ''ZeroDivisionError'')
      else res_bind (res_list (\<lambda>(i, name, _).
        let sub = (case pa_series a of None \<Rightarrow> filter run_valid rows | Some k \<Rightarrow> filter (\<lambda>r. dict_get r k = name) (filter run_valid rows)) in
        res_bind (res_list (\<lambda>(j, v). res_bind (figures (pa_value a) (filter (\<lambda>r. dict_get r ''axis_value'' = v) sub)) (\<lambda>xs.
          Inr (of_nat j + dodge (length gs) i, xs))) (zip [0..<length order] order)) (\<lambda>bs.
        Inr (let kept = filter (\<lambda>(_, xs). xs \<noteq> []) bs in if kept = [] then [] else [Boxes (hue_slot i) name kept])))
        (zip [0..<length gs] gs)) (\<lambda>ms. Inr (concat ms)))"

definition reach_of :: "bool \<Rightarrow> point \<Rightarrow> reach" where
  "reach_of whiskers p = (if whiskers then Deviation (st_var p) else Range (num_sub (st_mean p) (st_lo p)) (num_sub (st_hi p) (st_mean p)))"

definition bar_marks :: "plot_args \<Rightarrow> pyval list \<Rightarrow> (pyval \<times> point list) list \<Rightarrow> mark list res" where
  "bar_marks a order gs =
     (if gs = [] then Inl (OtherExn ''ZeroDivisionError'')
      else Inr (concat (map (\<lambda>(i, name, g).
        let pos = map (\<lambda>p. num_add (tick_at order (st_at p)) (Some (dodge (length gs) i))) g in
        Bars (hue_slot i) (shape_slot i) name (zip pos (map (\<lambda>p. (st_mean p, reach_of (pa_whiskers a) p)) g)) #
        (if length order * length gs \<le> 12 then [BarText (zip pos (map (\<lambda>p. show_num 1 (st_mean p)) g))] else []))
        (zip [0..<length gs] gs))))"

definition curve_marks :: "plot_args \<Rightarrow> bool \<Rightarrow> pyval list \<Rightarrow> (pyval \<times> point list) list \<Rightarrow> mark list" where
  "curve_marks a named order gs = map (\<lambda>(i, name, g).
     Curve (hue_slot i) (shape_slot i) name (map (\<lambda>p. (x_of named order (st_at p), st_mean p, reach_of (pa_whiskers a) p)) g))
     (zip [0..<length gs] gs)"

definition crosses :: "plot_args \<Rightarrow> bool \<Rightarrow> pyval list \<Rightarrow> pyval dict list \<Rightarrow> mark list res" where
  "crosses a named order rows =
     (let bad = filter (\<lambda>r. \<not> run_valid r) rows in
      if bad = [] then Inr []
      else res_bind (res_list (\<lambda>r. res_bind (figure_of (dict_get r (pa_value a))) (\<lambda>y. Inr (x_of named order (dict_get r ''axis_value''), y))) bad) (\<lambda>xs.
        Inr [Crosses xs]))"

text \<open>The first point of the highest mean.\<close>

definition peak_of :: "plot_args \<Rightarrow> bool \<Rightarrow> pyval list \<Rightarrow> point list \<Rightarrow> mark list res" where
  "peak_of a named order ps =
     (if \<not> pa_peak a \<or> pa_bar a \<or> pa_box a \<or> pa_value a \<noteq> ''gbps'' then Inr []
      else case filter (\<lambda>p. st_mean p \<noteq> None) ps of
        [] \<Rightarrow> Inl (ValueErr ''argmax'')
      | q # qs \<Rightarrow> (let best = foldl (\<lambda>b p. if the (st_mean b) < the (st_mean p) then p else b) q qs in
          Inr [Peak (show_num 1 (st_mean best) @ '' '' @ pa_unit a) (x_of named order (st_at best)) (st_mean best)]))"

definition nonzero :: "rat option \<Rightarrow> bool" where
  "nonzero x = (x \<noteq> None \<and> x \<noteq> Some 0)"

definition limit_of :: "rat option \<Rightarrow> rat option \<Rightarrow> num_cell \<Rightarrow> rat" where
  "limit_of ceil hline topmost =
     (let m = max (case ceil of None \<Rightarrow> 0 | Some c \<Rightarrow> c) (case hline of None \<Rightarrow> 0 | Some h \<Rightarrow> h)
      in (case topmost of None \<Rightarrow> m | Some t \<Rightarrow> max m t) * 112 / 100)"

section \<open>What is written\<close>

definition middot :: string where
  "middot = '' '' @ [CHR 0xC2, CHR 0xB7] @ '' ''"

definition reps_text :: "point list \<Rightarrow> string res" where
  "reps_text ps =
     (if ps = [] then Inl (ValueErr ''NaN'')
      else let ns = map st_n ps; lo = Min (set ns); hi = Max (set ns) in
        Inr (if lo = hi then show_nat hi else show_nat lo @ ''-'' @ show_nat hi))"

definition spread_text :: "plot_args \<Rightarrow> string \<Rightarrow> string" where
  "spread_text a reps =
     (if pa_box a then ''box is quartiles over '' @ reps @ '' runs, dots are the runs''
      else ''mean of '' @ reps @ '' runs'' @ (if pa_whiskers a then [] else '', band is min'' @ [CHR 0xE2, CHR 0x80, CHR 0x93] @ ''max''))"

text \<open>The knobs that are held constant.\<close>

definition fixed_text :: "string list \<Rightarrow> string \<Rightarrow> pyval dict list \<Rightarrow> string res" where
  "fixed_text cols axis rows =
     res_bind (res_list (\<lambda>k. res_bind (tick_text k (dict_get (hd rows) k) False) (\<lambda>s. Inr (k @ ''='' @ s)))
       (filter (\<lambda>k. k \<in> set cols \<and> k \<noteq> axis \<and> length (first_seen (map (\<lambda>r. dict_get r k) rows)) = 1) (map fst knob_labels))) (\<lambda>ss.
     Inr (join '', '' ss))"

fun before :: "string \<Rightarrow> string \<Rightarrow> string" where
  "before p [] = []"
| "before p (c # s) = (if starts_with p (c # s) then [] else c # before p s)"

definition title_of :: "plot_args \<Rightarrow> string \<Rightarrow> (string \<times> pyval) option \<Rightarrow> string option res" where
  "title_of a axis facet = (case facet of
     Some (k, v) \<Rightarrow> res_bind (tick_text k v True) (\<lambda>s. Inr (Some (label_of k @ '' '' @ s)))
   | None \<Rightarrow> Inr (if pa_title a = Some [] then None
       else Some (if given (pa_title a) then the (pa_title a) else before '' ('' (pa_ylabel a) @ '' vs '' @ axis)))"

section \<open>A panel, a figure, the command\<close>

definition draw_panel :: "plot_args \<Rightarrow> string list \<Rightarrow> num_cell \<Rightarrow> bool \<Rightarrow> (string \<times> pyval) option \<Rightarrow> pyval dict list \<Rightarrow> panel res" where
  "draw_panel a cols topmost is_first facet rows =
     (let axis = axis_of rows; inst = py_str (dict_get (hd rows) ''instance'') in
      res_bind (summarise (pa_series a) (pa_value a) rows) (\<lambda>ps.
      res_bind (tick_order axis rows ps) (\<lambda>order.
      let named = is_named a axis order; gs = series_groups (pa_series a) ps in
      case ceiling_of a named order inst of (ceil, allowed) \<Rightarrow>
      res_bind (if pa_box a then box_marks a rows order gs else if pa_bar a then bar_marks a order gs
                else Inr (curve_marks a named order gs)) (\<lambda>ms.
      res_bind (crosses a named order rows) (\<lambda>bad.
      res_bind (peak_of a named order ps) (\<lambda>peak.
      res_bind (res_list (\<lambda>v. tick_text axis v True) order) (\<lambda>ts.
      res_bind (reps_text ps) (\<lambda>reps.
      res_bind (fixed_text cols axis rows) (\<lambda>held.
      res_bind (title_of a axis facet) (\<lambda>title.
      let note = held @ middot @ spread_text a reps in
      Inr \<lparr>pn_marks = allowed @ ms @ bad @ peak @ (if nonzero (pa_hline a) then [Rule (the (pa_hline a)) (pa_hline_label a)] else []),
        pn_ticks = zip (if named then map (\<lambda>i. Some (of_nat i)) [0..<length order] else map (x_of False order) order) ts,
        pn_limit = (if pa_log a then None else Some (limit_of ceil (pa_hline a) topmost)),
        pn_title = title, pn_xlabel = (if given (pa_xlabel a) then the (pa_xlabel a) else label_of axis),
        pn_note = (if is_first \<and> pa_subtitle a then Some (if facet = None \<and> named then note else inst @ middot @ note) else None)\<rparr>))))))))))"

text \<open>The columns are read in this order.\<close>

definition needs :: "string list \<Rightarrow> string list \<Rightarrow> unit res" where
  "needs cols ks = (case filter (\<lambda>k. k \<notin> set cols) ks of [] \<Rightarrow> Inr () | k # _ \<Rightarrow> Inl (KeyErr k))"

definition opt_col :: "string option \<Rightarrow> string list" where
  "opt_col k = (if given k then [the k] else [])"

definition with_axis :: "plot_args \<Rightarrow> csv_table \<Rightarrow> csv_table" where
  "with_axis a t = (if given (pa_x a)
     then t\<lparr>ct_columns := first_seen (ct_columns t @ [''axis'', ''axis_value'']),
            ct_rows := map (\<lambda>r. dict_set ''axis_value'' (dict_get r (the (pa_x a))) (dict_set ''axis'' (PStr (the (pa_x a))) r)) (ct_rows t)\<rparr>
     else t)"

definition plot_figure :: "plot_args \<Rightarrow> csv_table \<Rightarrow> panel list res" where
  "plot_figure a t0 =
     res_bind (needs (ct_columns t0) (opt_col (pa_x a))) (\<lambda>_.
     let t = with_axis a t0; rows = ct_rows t; cols = ct_columns t in
     res_bind (needs cols (opt_col (pa_facet a) @ [''valid'', pa_value a, ''axis'', ''instance''] @ opt_col (pa_series a) @ [''axis_value''])) (\<lambda>_.
     res_bind (figures (pa_value a) (filter run_valid rows)) (\<lambda>xs.
     let topmost = (if xs = [] then None else Some (Max (set xs)));
         facets = (if given (pa_facet a)
           then map (\<lambda>v. (Some (the (pa_facet a), v), filter (\<lambda>r. dict_get r (the (pa_facet a)) = v) rows)) (group_keys (the (pa_facet a)) rows)
           else [(None, rows)]) in
     res_list (\<lambda>(i, facet, fr). draw_panel a cols topmost (i = 0) facet fr) (zip [0::nat..<length facets] facets))))"

text \<open>The CSVs one after the other; \<open>--scale\<close>, where what is no number becomes NaN.\<close>

definition stacked :: "csv_table list \<Rightarrow> csv_table" where
  "stacked ts = \<lparr>ct_columns = first_seen (concat (map ct_columns ts)), ct_rows = concat (map ct_rows ts)\<rparr>"

definition scaled :: "string \<Rightarrow> rat \<Rightarrow> csv_table \<Rightarrow> csv_table res" where
  "scaled k q t =
     (if q = 1 then Inr t else if k \<notin> set (ct_columns t) then Inl (KeyErr k)
      else Inr (t\<lparr>ct_rows := map (\<lambda>r. dict_set k (case float_res (dict_get r k) of Inr x \<Rightarrow> PFloat (x / q) | Inl _ \<Rightarrow> PNone) r) (ct_rows t)\<rparr>))"

text \<open>A path given as it is, or the name of a bench.\<close>

definition found_csv :: "(string \<Rightarrow> bool) \<Rightarrow> string \<Rightarrow> string \<Rightarrow> string res" where
  "found_csv is_file top_dir p =
     (let csv = (if is_file p then p else top_dir @ ''/results/'' @ last (split_on CHR ''/'' p) @ ''/sweep.csv'') in
      if is_file csv then Inr csv else Inl (SystemExit (''no such sweep CSV: '' @ p)))"

text \<open>What is drawn, and how many of the runs are valid, of how many.\<close>

definition plot_main :: "(string \<Rightarrow> bool) \<Rightarrow> (string \<Rightarrow> csv_table res) \<Rightarrow> string \<Rightarrow> string list \<Rightarrow> rat \<Rightarrow> plot_args \<Rightarrow> (panel list \<times> nat \<times> nat) res" where
  "plot_main is_file table top_dir paths scale a =
     res_bind (res_list (found_csv is_file top_dir) paths) (\<lambda>csvs.
     res_bind (res_list table csvs) (\<lambda>ts.
     if ct_rows (stacked ts) = [] then Inl (SystemExit (hd csvs @ '' has no rows''))
     else res_bind (scaled (pa_value a) scale (stacked ts)) (\<lambda>t.
       res_bind (plot_figure a t) (\<lambda>ps. Inr (ps, length (filter run_valid (ct_rows t)), length (ct_rows t))))))"

end
