(* ===== verification/PlotRun.thy ===== *)
theory PlotRun
  imports Plot
begin

text \<open>
  What a figure of \<^verbatim>\<open>plot.py\<close> guarantees: series that can be told apart, bars that do not overlap, points that stand
  for each valid run once.
\<close>

section \<open>Styles and bars\<close>

text \<open>The first twenty-five series differ in colour or in shape, and the next twenty-five repeat them.\<close>

lemma styles_differ:
  assumes "i < 25" "j < 25" "hue_slot i = hue_slot j" "shape_slot i = shape_slot j"
  shows "i = j"
proof -
  have "inj_on (\<lambda>i. (hue_slot i, shape_slot i)) (set [0..<25])"
    unfolding inj_on_def hue_slot_def shape_slot_def n_hue_def by code_simp
  with assms show ?thesis by (auto simp: inj_on_def)
qed

lemma styles_repeat: "hue_slot (i + 25) = hue_slot i" "shape_slot (i + 25) = shape_slot i"
proof -
  show "hue_slot (i + 25) = hue_slot i"
    using mod_mult_self2 [of i 5 5] unfolding hue_slot_def n_hue_def by simp
  have "(i + 25) + (i + 25) div 5 = (i + i div 5) + 5 * 6" by simp
  then show "shape_slot (i + 25) = shape_slot i"
    unfolding shape_slot_def n_hue_def by (metis mod_mult_self2)
qed

lemma bar_width_pos: "0 < n \<Longrightarrow> 0 < bar_width n"
  by (simp add: bar_width_def)

lemma dodge_diff: "dodge n i - dodge n j = (of_nat i - of_nat j) * bar_width n"
  by (simp add: dodge_def algebra_simps)

text \<open>Bars of a tick stand side by side; those of two ticks are apart; all stay within four tenths of their tick.\<close>

lemma dodge_within:
  assumes "i < n"
  shows "dodge n i + bar_width n / 2 \<le> 4 / 10" "- (4 / 10) \<le> dodge n i - bar_width n / 2"
proof -
  have n: "0 < n" using assms by simp
  have w: "bar_width n * of_nat n = 8 / 10" using n by (simp add: bar_width_def)
  have "dodge n i + bar_width n / 2 = (of_nat i + 1) * bar_width n - bar_width n * of_nat n / 2"
    by (simp add: dodge_def algebra_simps add_divide_distrib diff_divide_distrib)
  also have "\<dots> \<le> of_nat n * bar_width n - bar_width n * of_nat n / 2"
    using assms bar_width_pos [OF n] by (intro diff_right_mono mult_right_mono) (simp_all flip: of_nat_Suc)
  also have "\<dots> = 4 / 10" using w by (simp add: mult.commute)
  finally show "dodge n i + bar_width n / 2 \<le> 4 / 10" .
  have "dodge n i - bar_width n / 2 = of_nat i * bar_width n - bar_width n * of_nat n / 2"
    by (simp add: dodge_def algebra_simps add_divide_distrib diff_divide_distrib)
  also have "\<dots> \<ge> - (4 / 10)" proof -
    have "0 \<le> of_nat i * bar_width n" using bar_width_pos [OF n] by simp
    with w show ?thesis by simp
  qed
  finally show "- (4 / 10) \<le> dodge n i - bar_width n / 2" .
qed

lemma bars_apart:
  assumes "i < n" "j < n" "(a, i) \<noteq> (b, j)"
  shows "bar_width n \<le> \<bar>(of_nat a + dodge n i) - (of_nat b + dodge n j)\<bar>"
proof (cases "a = b")
  case True
  with assms have "i \<noteq> j" by simp
  then have "1 \<le> \<bar>of_nat i - of_nat j :: rat\<bar>"
    using of_nat_le_iff [where 'a = rat, of "Suc i" j] of_nat_le_iff [where 'a = rat, of "Suc j" i] by (auto simp: abs_le_iff not_less neq_iff abs_if)
  with mult_right_mono [of 1 _ "bar_width n"] bar_width_pos [of n] assms True show ?thesis
    by (simp add: dodge_diff abs_mult)
next
  case False
  then have "1 \<le> \<bar>of_nat a - of_nat b :: rat\<bar>"
    using of_nat_le_iff [where 'a = rat, of "Suc a" b] of_nat_le_iff [where 'a = rat, of "Suc b" a] by (auto simp: neq_iff abs_if)
  with dodge_within [OF assms(1)] dodge_within [OF assms(2)] show ?thesis by linarith
qed

section \<open>Points\<close>

lemma mean_between:
  assumes "xs \<noteq> []"
  shows "Min (set xs) \<le> mean_of xs" "mean_of xs \<le> Max (set xs)"
proof -
  have n: "0 < (of_nat (length xs) :: rat)" using assms by simp
  have "of_nat (length xs) * Min (set xs) \<le> sum_list xs"
    using sum_list_mono [of xs "\<lambda>_. Min (set xs)" "\<lambda>x. x"] by (simp add: sum_list_triv)
  then show "Min (set xs) \<le> mean_of xs" using n by (simp add: mean_of_def le_divide_eq mult.commute)
  have "sum_list xs \<le> of_nat (length xs) * Max (set xs)"
    using sum_list_mono [of xs "\<lambda>x. x" "\<lambda>_. Max (set xs)"] by (simp add: sum_list_triv)
  then show "mean_of xs \<le> Max (set xs)" using n by (simp add: mean_of_def divide_le_eq mult.commute)
qed

text \<open>A bar reaches up and down from its mean, never the other way round.\<close>

lemma reach_not_negative:
  assumes "xs \<noteq> []"
  obtains d u where "reach_of False (point_of s v xs) = Range (Some d) (Some u)" "0 \<le> d" "0 \<le> u"
  using assms mean_between [OF assms] that
  by (fastforce simp: reach_of_def point_of_def num_sub_def)

lemma deviation_not_negative: "0 \<le> st_var (point_of s v xs)"
  by (auto simp: point_of_def mean_of_def intro!: divide_nonneg_nonneg sum_list_nonneg)

lemma set_first_seen: "set (first_seen xs) = set xs" "distinct (first_seen xs)"
proof -
  have "set (foldl (\<lambda>acc x. if x \<in> set acc then acc else acc @ [x]) acc xs) = set acc \<union> set xs" for acc :: "'a list"
    by (induction xs arbitrary: acc) auto
  then show "set (first_seen xs) = set xs" by (simp add: first_seen_def)
  have "distinct (foldl (\<lambda>acc x. if x \<in> set acc then acc else acc @ [x]) acc xs)" if "distinct acc" for acc :: "'a list"
    using that by (induction xs arbitrary: acc) auto
  then show "distinct (first_seen xs)" by (simp add: first_seen_def)
qed

lemma insert_cell_mset: "mset (insert_cell v us) = add_mset v (mset us)"
  by (induction us) auto

lemma sort_cells_mset: "mset (foldr insert_cell vs []) = mset vs"
  by (induction vs) (auto simp: insert_cell_mset)

lemma group_keys_set: "set (group_keys k rows) = (\<lambda>r. dict_get r k) ` set rows - {PNone}" "distinct (group_keys k rows)"
proof -
  let ?vs = "filter (\<lambda>v. v \<noteq> PNone) (first_seen (map (\<lambda>r. dict_get r k) rows))"
  have "mset (group_keys k rows) = mset ?vs" by (simp add: group_keys_def sort_cells_mset)
  moreover have "set ?vs = (\<lambda>r. dict_get r k) ` set rows - {PNone}" "distinct ?vs" by (auto simp: set_first_seen)
  ultimately show "set (group_keys k rows) = (\<lambda>r. dict_get r k) ` set rows - {PNone}" "distinct (group_keys k rows)"
    by (metis mset_eq_setD, metis mset_eq_imp_distinct_iff)
qed

text \<open>Rows split by the values of a column.\<close>

lemma split_rows:
  assumes "distinct ks"
  shows "(\<Sum>k\<leftarrow>ks. length (filter (\<lambda>r. f r = k) xs)) = length (filter (\<lambda>r. f r \<in> set ks) xs)"
  using assms
proof (induction ks)
  case (Cons k ks)
  have "length (filter (\<lambda>r. f r \<in> set (k # ks)) xs) = length (filter (\<lambda>r. f r = k) xs) + length (filter (\<lambda>r. f r \<in> set ks) xs)"
    using Cons.prems by (induction xs) auto
  with Cons show ?case by simp
qed simp

lemma split_rows_where:
  assumes "distinct ks"
  shows "(\<Sum>k\<leftarrow>ks. length (filter (\<lambda>r. P r \<and> f r = k) xs)) = length (filter (\<lambda>r. P r \<and> f r \<in> set ks) xs)"
  using split_rows [OF assms, of f "filter P xs"] by (simp add: conj_commute)

text \<open>A run has its keys when neither its axis value nor its series is missing.\<close>

definition keyed :: "string option \<Rightarrow> pyval dict \<Rightarrow> bool" where
  "keyed ser r \<longleftrightarrow> dict_get r ''axis_value'' \<noteq> PNone \<and> (case ser of None \<Rightarrow> True | Some k \<Rightarrow> dict_get r k \<noteq> PNone)"

text \<open>How many runs with a property the groups have between them.\<close>

lemma groups_count:
  "(\<Sum>(s, v, g)\<leftarrow>point_groups ser rows. length (filter P g)) = length (filter (\<lambda>r. P r \<and> keyed ser r) rows)"
proof -
  let ?at = "\<lambda>r. dict_get r ''axis_value''"
  have drop: "(\<Sum>(s, v, g)\<leftarrow>filter (\<lambda>(_, _, g). g \<noteq> []) ys. length (filter P g)) = (\<Sum>(s, v, g)\<leftarrow>ys. length (filter P g))" for ys :: "('b \<times> 'c \<times> pyval dict list) list"
    by (induction ys) auto
  have keys: "dict_get r k \<in> set (group_keys k rows) \<longleftrightarrow> dict_get r k \<noteq> PNone" if "r \<in> set rows" for r k
    using that by (auto simp: group_keys_set)
  show ?thesis
  proof (cases ser)
    case None
    have "(\<Sum>(s, v, g)\<leftarrow>point_groups ser rows. length (filter P g)) = (\<Sum>v\<leftarrow>group_keys ''axis_value'' rows. length (filter (\<lambda>r. P r \<and> ?at r = v) rows))"
      unfolding point_groups_def Let_def drop using None by (simp add: o_def conj_commute)
    also have "\<dots> = length (filter (\<lambda>r. P r \<and> ?at r \<in> set (group_keys ''axis_value'' rows)) rows)"
      by (rule split_rows_where) (rule group_keys_set)
    also have "\<dots> = length (filter (\<lambda>r. P r \<and> keyed ser r) rows)"
      using keys None by (intro arg_cong [where f = length] filter_cong) (auto simp: keyed_def)
    finally show ?thesis .
  next
    case (Some k)
    have flat: "sum_list (concat (map h xs)) = (\<Sum>x\<leftarrow>xs. sum_list (h x))" for h :: "'d \<Rightarrow> nat list" and xs
      by (induction xs) auto
    have "(\<Sum>(s, v, g)\<leftarrow>point_groups ser rows. length (filter P g)) =
      (\<Sum>s\<leftarrow>group_keys k rows. \<Sum>v\<leftarrow>group_keys ''axis_value'' rows. length (filter (\<lambda>r. (P r \<and> dict_get r k = s) \<and> ?at r = v) rows))"
      unfolding point_groups_def Let_def drop using Some by (simp add: o_def map_concat flat conj_ac)
    also have "\<dots> = (\<Sum>s\<leftarrow>group_keys k rows. length (filter (\<lambda>r. (P r \<and> ?at r \<in> set (group_keys ''axis_value'' rows)) \<and> dict_get r k = s) rows))"
    proof -
      have "(\<Sum>v\<leftarrow>group_keys ''axis_value'' rows. length (filter (\<lambda>r. (P r \<and> dict_get r k = s) \<and> ?at r = v) rows)) =
        length (filter (\<lambda>r. (P r \<and> ?at r \<in> set (group_keys ''axis_value'' rows)) \<and> dict_get r k = s) rows)" for s
        by (subst split_rows_where) (auto simp: group_keys_set intro!: arg_cong [where f = length] filter_cong)
      then show ?thesis by simp
    qed
    also have "\<dots> = length (filter (\<lambda>r. (P r \<and> ?at r \<in> set (group_keys ''axis_value'' rows)) \<and> dict_get r k \<in> set (group_keys k rows)) rows)"
      by (rule split_rows_where) (rule group_keys_set)
    also have "\<dots> = length (filter (\<lambda>r. P r \<and> keyed ser r) rows)"
      using keys Some by (intro arg_cong [where f = length] filter_cong) (auto simp: keyed_def)
    finally show ?thesis .
  qed
qed

definition measured :: "string \<Rightarrow> pyval dict \<Rightarrow> bool" where
  "measured k r \<longleftrightarrow> figure_of (dict_get r k) \<noteq> Inr None"

lemma figures_length: "figures k g = Inr xs \<Longrightarrow> length xs = length (filter (measured k) g)"
proof -
  assume "figures k g = Inr xs"
  then obtain ys where "res_list (\<lambda>r. figure_of (dict_get r k)) g = Inr ys" "xs = List.map_filter id ys" by (auto simp: figures_def res_bind_Inr)
  then show ?thesis
  proof (induction g arbitrary: ys xs)
    case (Cons r g)
    then obtain y zs where y: "figure_of (dict_get r k) = Inr y" "res_list (\<lambda>r. figure_of (dict_get r k)) g = Inr zs" "ys = y # zs"
      by (auto simp: res_bind_Inr)
    with Cons.IH [OF y(2) refl] Cons.prems show ?case by (cases y) (auto simp: measured_def map_filter_simps)
  qed (simp add: map_filter_simps)
qed

lemma by_rank_mset: "by_rank axis order f xs = Inr ys \<Longrightarrow> mset ys = mset xs"
proof -
  assume "by_rank axis order f xs = Inr ys"
  then obtain kxs where kxs: "res_list (\<lambda>x. res_bind (rank_of axis order (f x)) (\<lambda>k. Inr (k, x))) xs = Inr kxs" "ys = map snd (sort_key fst kxs)"
    by (auto simp: by_rank_def res_bind_Inr)
  from kxs(1) have "map snd kxs = xs" by (induction xs arbitrary: kxs) (auto simp: res_bind_Inr)
  with kxs(2) show ?thesis by (metis mset_map mset_sort)
qed

text \<open>
  Every valid run with a figure and its keys counts in exactly one point, and no other run counts.
\<close>

lemma points_count:
  assumes "summarise ser k rows = Inr ps"
  shows "sum_list (map st_n ps) = length (filter (\<lambda>r. measured k r \<and> keyed ser r) (filter run_valid rows))"
proof -
  let ?gs = "point_groups ser (filter run_valid rows)"
  from assms obtain qs where qs: "res_list (\<lambda>(s, v, g). res_bind (figures k g) (\<lambda>xs. Inr (point_of s v xs))) ?gs = Inr qs"
      "by_rank (axis_of rows) (order_of rows) st_at qs = Inr ps"
    by (auto simp: summarise_def res_bind_Inr)
  have "sum_list (map st_n qs) = (\<Sum>(s, v, g)\<leftarrow>gs. length (filter (measured k) g))"
    if "res_list (\<lambda>(s, v, g). res_bind (figures k g) (\<lambda>xs. Inr (point_of s v xs))) gs = Inr qs" for gs
    using that
  proof (induction gs arbitrary: qs)
    case (Cons x gs)
    obtain s v g where x: "x = (s, v, g)" by (cases x)
    with Cons.prems obtain xs ps where "figures k g = Inr xs" "qs = point_of s v xs # ps"
      "res_list (\<lambda>(s, v, g). res_bind (figures k g) (\<lambda>xs. Inr (point_of s v xs))) gs = Inr ps" by (auto simp: res_bind_Inr)
    with Cons.IH figures_length x show ?case by (simp add: point_of_def)
  qed simp
  from this [OF qs(1)] have "sum_list (map st_n qs) = length (filter (\<lambda>r. measured k r \<and> keyed ser r) (filter run_valid rows))"
    by (simp only: groups_count)
  moreover have "sum_list (map st_n ps) = sum_list (map st_n qs)"
    using by_rank_mset [OF qs(2)] by (simp only: flip: sum_mset_sum_list mset_map) simp
  ultimately show ?thesis by simp
qed

section \<open>A sweep without a valid run\<close>

text \<open>The caption counts the runs behind each point; where there is none, no figure is made.\<close>

lemma no_valid_no_panel:
  assumes "filter run_valid rows = []"
  shows "draw_panel a cols topmost is_first facet rows \<noteq> Inr p"
proof -
  have "summarise (pa_series a) (pa_value a) rows = Inr ps \<Longrightarrow> ps = []" for ps
    using assms by (simp add: summarise_def point_groups_def group_keys_def first_seen_def Let_def by_rank_def split: option.splits)
  then show ?thesis by (auto simp: draw_panel_def Let_def res_bind_Inr reps_text_def split: prod.splits)
qed

text \<open>In a chart with even ticks the cross of a run stands nowhere when no run of its axis value is valid.\<close>

lemma cross_nowhere: "v \<notin> set order \<Longrightarrow> x_of True order v = None"
  by (simp add: x_of_def tick_at_def)

end
