(* ===== verification/Spec2Isabelle.thy ===== *)
theory Spec2Isabelle
  imports Cloud QueueProcs QueueSweep QueueRefusal Experiment DeployRun QueueCmdRun BucketPolicy CovDecode Cost NginxCmd GuestMeets CovRun PlotRun
begin

text \<open>
  This repository measures S3 download and query speed on EC2, in a unikernel (miniOSv) and on Linux.
  A benchmark is an experiment file; \<^verbatim>\<open>scripts/bench/experiment.py\<close> turns its points into
  invocations of a driver (\<^verbatim>\<open>scripts/bench/*/bench.py\<close>), and the driver, through
  \<^verbatim>\<open>scripts/bench/runner.py\<close>, builds an image, launches instances, reads their console and
  appends rows to a CSV. \<^verbatim>\<open>scripts/bench/runqueue.py\<close> runs a list of experiments unattended,
  with a deadline, and sweeps up what is left. A server that a point dials is launched by
  \<^verbatim>\<open>scripts/bench/httpserver.py\<close>. What a Linux instance runs are the guests under
  \<^verbatim>\<open>competitors/*/scripts\<close>, which speak to the drivers through their console. The CSVs are read by
  \<^verbatim>\<open>plot.py\<close>, \<^verbatim>\<open>breakdown.py\<close> and \<^verbatim>\<open>cost.py\<close>.

  \<^bold>\<open>Parts.\<close>
  \<^item> Prelude: Python's values, dictionaries and strings; the monad of effectful code: a function
    of a world \<open>'w\<close> to an exception or a result, the next world and the list of effects; the rules
    for invariants of its runs (\<open>emits\<close>, \<open>throws\<close>, \<open>traced\<close> with the locale \<open>trace_relation\<close>,
    \<open>achieves\<close>, \<open>yields\<close>); results without effects (\<open>res\<close>).
  \<^item> Regex: Python's \<open>re\<close> as far as the drivers use it; Metrics: the tables of expressions that read a
    run's figures off its log.
  \<^item> Cloud: \<open>spot_subnets\<close>, \<open>launch\<close>, \<open>interrupted\<close>, \<open>terminate\<close>, \<open>wait_gone\<close>,
    \<open>sweep_spot_requests\<close> and \<open>bucket_region\<close> of runner.py over a record of EC2 and S3 calls.
  \<^item> Units: \<open>size\<close>, \<open>vcpus\<close>, \<open>parse\<close> and \<open>duration\<close>. Sweep: \<open>done\<close>, \<open>derive\<close>, \<open>Bench.valid\<close>,
    \<open>Bench.summary\<close> and the sweep of \<open>main\<close> in runner.py, over the record \<open>bench\<close> of what a driver
    overrides; SweepRun: what the sweep records, builds and resumes, the last through \<open>csv_reads\<close>, a relation
    between a table and what \<open>read_csv\<close> makes of its CSV. The locales \<open>bench_contract\<close>,
    \<open>queryless_bench\<close> and \<open>recording_bench\<close> state what the sweep needs of a driver.
  \<^item> Host: the machine a driver runs on, the object a bench is, and what benches share; Http:
    httpserver.py; BenchLinux: linux-s3, anyblob and linux-http; BenchMiniosv: smoltcp-s3 and the deploy;
    BenchDuckdb: duckdb-tpch and duckdb-linux; Logs: how a log of several queries is cut.
  \<^item> GuestRun, HttpRun, DeployRun: what a run guarantees of its instances, its waits and its rows;
    BenchRows: each of the six drivers meets the contract of the sweep (interpretations \<open>s3\<close>, \<open>ab\<close>, \<open>wrk\<close>,
    \<open>smol\<close>, \<open>tpch\<close>, \<open>dlinux\<close> and their \<open>_rec\<close>).
  \<^item> QueueRun: \<open>Runner.run_one\<close>, \<open>end_child\<close> and \<open>descendants\<close> of runqueue.py over a record of
    operating-system calls; QueueTime: how long it runs; QueueProcs: the walk over the process table.
  \<^item> QueueMain: \<open>sweep\<close>, \<open>run_group\<close> with its threads, and \<open>main\<close> of runqueue.py; QueueOrder,
    QueueStatus, QueueSweep, QueueScript, QueueRefusal: what they guarantee, and a scripted operating
    system on which that is applied.
  \<^item> QueueCmd: \<open>submit\<close> with its \<open>checks\<close>, \<open>status\<close> and \<open>stop\<close>; QueueCmdRun: what they guarantee.
  \<^item> Experiment: experiment.py.
  \<^item> Guest: instance_prelude.py, what every guest has: its console, the tools it runs, cores, interrupts and
    counters, as a state of files over a record of what the machine answers; S3Guest, AnyGuest, HttpGuest: the
    download guests of linux-s3, anyblob and linux-http; ServerGuest: the nginx guest; DuckGuest and DuckMain: the
    query guest, its comparison of answers, its ladder and suites.
  \<^item> GuestArms, GuestEnds, GuestVerdict: what a guest may write, that it goes down, what it says of each query;
    GuestLine and GuestMeets: that what a guest says is what its driver reads.
  \<^item> BucketPolicy: bucket_policy.py; CovRun and CovDecode: the coverage run and the decoder of its dump
    (\<^verbatim>\<open>scripts/cov\<close>); Cost: cost.py; NginxCmd: nginx-server.py; Breakdown: breakdown.py; PmcPrep: pmc-prep.py;
    Plot and PlotRun: plot.py, which points a figure has, what stands where, what is written beside it.

  \<^bold>\<open>Fuel.\<close> \<open>run_one\<close> takes one unit a step; four for each second left to the deadline and four
  more are enough (\<open>run_one_returns\<close>). \<open>wait_gone\<close> takes one unit a round of three seconds
  (\<open>wait_gone_returns\<close>). The wait for ended deploys takes 46 rounds of two seconds, which is more
  than its 90 seconds. The walk over the process table takes one unit a process and one more
  (\<open>descendants_exact\<close>). The poll of a console takes one unit a nap that fits before the cap and one
  more (\<open>poll_fuel\<close>, \<open>guest_watch_ends\<close>), the wait for a server is the same with 600 seconds
  (\<open>server_start_settles\<close>). The loops of a deploy, of 1500 looks and of one a second of the cap, and the
  60 looks of \<open>stop\<close> are bounded in the code. The sampler of a guest takes a unit a look, 6002, more than looks of
  50 ms in its 300 seconds; the probes of a guest are 12 rounds and the wait for its server 60, as in the code.
  A coverage run waits 302 rounds of three seconds for its instance and 362 of five for the dump, more than 900 and
  1800 seconds (\<open>wait_for_enough\<close>, \<open>wait_dump_enough\<close>). A number has a decade within 330, the range of a float.
  None stands for fuel or a schedule that ran out; in a run of a driver it would be the exception
  \<open>OtherExn ''fuel''\<close>.

  \<^bold>\<open>Not modelled.\<close> Printing, argument parsing by \<open>argparse\<close>, the AWS client library, the operating
  system and the TOML parser, which are parameters; IEEE rounding (floats are rationals); IPv6
  addresses; failures of writing a log. Of a long message of \<open>SystemExit\<close> the advice after the facts
  is cut. Whether \<open>smoltcp-s3\<close> holds a server is an argument of its gate. The environments of a build and of
  a guest are the variables a driver adds; what the process inherited is not in them. The handlers \<open>atexit\<close>
  runs, of a server and of nginx-server.py, are left out: \<open>server_start_settles\<close> says what the bench holds when
  they would run. Within a sweep the table is the data frame \<open>main\<close> keeps in memory; of a column read back from
  a CSV the model knows only what \<open>csv_reads\<close> says of integers, flags and texts. The parsing of \<^verbatim>\<open>/proc\<close>
  is a parameter, which answers the table of processes. The threads of a concurrent point interleave
  by whole steps of \<open>run_one\<close>. What \<^verbatim>\<open>matplotlib\<close> draws for a mark, its
  colours, fonts and legends, and how \<^verbatim>\<open>pandas\<close> reads and writes a table are left out of the plots; so are the
  kernel, the applications and the crates in other languages, of which the drivers only see a log.
\<close>

section \<open>\<open>--only\<close>\<close>

lemma partition_eq_at: "CHR ''='' \<notin> set k \<Longrightarrow> partition_eq (k @ ''='' @ v) = (k, v)"
  by (induction k) (auto simp: partition_eq_def takeWhile_append2 dropWhile_append2)

text \<open>
  C32. What the queue asks for is what the experiment runs: \<open>--only\<close> with the argument the queue makes
  of the i-th value of the axis keeps exactly the points whose axis value prints the same, among them
  the i-th point itself; so it runs that point alone when the values of the axis print differently.
\<close>

theorem only_selects_point:
  assumes "CHR ''='' \<notin> set (ex_axis x)" "i < length ps"
    and "ex_values x = map (\<lambda>p. py_str (the (map_of p (ex_axis x)))) ps"
    and "\<forall>p \<in> set ps. map_of p (ex_axis x) \<noteq> None"
  shows "let qs = only_points fixed (point_arg x i) ps in
     ps ! i \<in> set qs \<and>
     qs = filter (\<lambda>p. py_str (the (map_of p (ex_axis x))) = ex_values x ! i) ps \<and>
     (distinct (ex_values x) \<longrightarrow> qs = [ps ! i])"
proof -
  have knob: "py_str (knob_of fixed p (ex_axis x)) = py_str (the (map_of p (ex_axis x)))" if "p \<in> set ps" for p
    using that assms(4) by (auto simp: knob_of_def split: option.splits)
  have qs: "only_points fixed (point_arg x i) ps = filter (\<lambda>p. py_str (the (map_of p (ex_axis x))) = ex_values x ! i) ps"
    unfolding only_points_def point_arg_def partition_eq_at [OF assms(1)] prod.case by (rule filter_cong [OF refl]) (simp add: knob)
  have one: "filter (\<lambda>p. f p = f (ps ! i)) ps = [ps ! i]" if "distinct (map f ps)" for f :: "pyval dict \<Rightarrow> string"
    using that assms(2)
  proof (induction ps arbitrary: i)
    case (Cons p ps)
    show ?case
    proof (cases i)
      case 0
      with Cons show ?thesis by (auto simp: filter_empty_conv dest: image_eqI [OF sym])
    next
      case (Suc j)
      with Cons.prems have "f p \<noteq> f (ps ! j)" by auto
      with Suc Cons show ?thesis by simp
    qed
  qed simp
  show ?thesis using assms(2) one [of "\<lambda>p. py_str (the (map_of p (ex_axis x)))"]
    by (simp add: Let_def qs assms(3))
qed

definition mode_exper :: exper where
  "mode_exper = \<lparr>ex_name = ''a'', ex_path = ''a'', ex_status = '''', ex_group = 0, ex_reps = 1, ex_attempts = 0, ex_refusals = 0,
      ex_last = None, ex_axis = ''mode'', ex_values = [''http'', ''tls'']\<rparr>"

lemma only_selects_point_witness:
  "only_points [] (point_arg mode_exper 1) [[(''mode'', PStr ''http'')], [(''mode'', PStr ''tls'')]] = [[(''mode'', PStr ''tls'')]]"
  using only_selects_point [of mode_exper 1 "[[(''mode'', PStr ''http'')], [(''mode'', PStr ''tls'')]]" "[]"]
  by (simp add: mode_exper_def Let_def)

end
